(* ===== verification/Prelude.thy ===== *)
theory Prelude
  imports Main "HOL-Library.Product_Lexorder"
begin

text \<open>
  Shared vocabulary of the development: the collections of simplification rules that the
  component theories extend, the combinators for ordered table scans (SQL's
  \<^verbatim>\<open>ORDER BY ... LIMIT 1\<close>, which Go reads with \<^verbatim>\<open>QueryRow\<close>), and the generic facts on lists
  that more than one component needs.
\<close>

section \<open>Collections of rules\<close>

named_theorems go_eval
  \<open>defining equations of the Go string routines, for evaluating closed terms\<close>
named_theorems wire_defs
  \<open>definitions of the wire encoders and decoders\<close>
named_theorems table_defs
  \<open>definitions of the table operations\<close>

section \<open>Results\<close>

text \<open>A Go call that returns \<^verbatim>\<open>(value, error)\<close> is a sum: \<open>Inl\<close> the error, \<open>Inr\<close> the value.\<close>

definition is_ok :: "'e + 'a \<Rightarrow> bool" where
  "is_ok r = (case r of Inl _ \<Rightarrow> False | Inr _ \<Rightarrow> True)"

lemma is_ok_simps [simp]: "is_ok (Inr a)" "\<not> is_ok (Inl e)"
  by (simp_all add: is_ok_def)

lemma is_ok_iff: "is_ok r \<longleftrightarrow> (\<exists>a. r = Inr a)"
  by (cases r) simp_all

text \<open>The call succeeds and its value satisfies \<open>P\<close>.\<close>

definition ok_that :: "('a \<Rightarrow> bool) \<Rightarrow> 'e + 'a \<Rightarrow> bool" where
  "ok_that P r = (case r of Inl _ \<Rightarrow> False | Inr a \<Rightarrow> P a)"

lemma ok_that_simps [simp]: "ok_that P (Inr a) = P a" "ok_that P (Inl e) = False"
  by (simp_all add: ok_that_def)

lemma ok_that_iff: "ok_that P r \<longleftrightarrow> (\<exists>a. r = Inr a \<and> P a)"
  by (cases r) simp_all

section \<open>Ordered scans\<close>

text \<open>
  \<open>sort_key\<close> is stable, so rows that tie on the \<^verbatim>\<open>ORDER BY\<close> key keep their table (rowid)
  order.  \<open>first_row\<close> is \<^verbatim>\<open>LIMIT 1\<close>; \<open>None\<close> is \<^verbatim>\<open>sql.ErrNoRows\<close>.
\<close>

definition first_row :: "'a list \<Rightarrow> 'a option" where
  "first_row xs = (case xs of [] \<Rightarrow> None | x # _ \<Rightarrow> Some x)"

lemma first_row_simps [simp]: "first_row [] = None" "first_row (x # xs) = Some x"
  by (simp_all add: first_row_def)

lemma first_row_None_iff [simp]: "first_row xs = None \<longleftrightarrow> xs = []"
  by (cases xs) simp_all

lemma first_row_mem: "first_row xs = Some x \<Longrightarrow> x \<in> set xs"
  by (cases xs) simp_all

lemma first_row_sorted_least:
  fixes f :: "'a \<Rightarrow> 'k::linorder"
  assumes "first_row (sort_key f xs) = Some x" and "y \<in> set xs"
  shows "f x \<le> f y"
proof -
  obtain zs where zs: "sort_key f xs = x # zs"
    using assms(1) by (cases "sort_key f xs") auto
  have "sorted (map f (x # zs))"
    using sorted_sort_key [of f xs] zs by simp
  moreover have "y \<in> set (x # zs)"
    using assms(2) zs by (metis set_sort)
  ultimately show ?thesis by auto
qed

lemma first_row_sorted_mem:
  "first_row (sort_key f xs) = Some x \<Longrightarrow> x \<in> set xs"
  using first_row_mem by fastforce

lemma first_row_sorted_None [simp]: "first_row (sort_key f xs) = None \<longleftrightarrow> xs = []"
  by (simp add: sort_key_def) (metis set_empty set_sort sort_key_def)

lemma find_sorted_least:
  fixes f :: "'a \<Rightarrow> 'k::linorder"
  assumes "List.find P (sort_key f xs) = Some x"
  shows "x \<in> set xs \<and> P x \<and> (\<forall>y \<in> set xs. P y \<longrightarrow> f x \<le> f y)"
proof -
  have find_hd: "List.find P zs = first_row (filter P zs)" for zs
    by (induction zs) auto
  have "List.find P (sort_key f xs) = first_row (sort_key f (filter P xs))"
    by (simp add: find_hd filter_sort)
  then have first: "first_row (sort_key f (filter P xs)) = Some x"
    using assms by simp
  then have "x \<in> set (filter P xs)"
    by (rule first_row_sorted_mem)
  moreover have "f x \<le> f y" if "y \<in> set xs" "P y" for y
    using first that by (auto intro: first_row_sorted_least)
  ultimately show ?thesis by auto
qed

section \<open>Updating the rows of a table\<close>

text \<open>\<^verbatim>\<open>UPDATE ... WHERE p\<close>: every row satisfying \<open>p\<close> is changed; the count is \<^verbatim>\<open>RowsAffected\<close>.\<close>

definition update_where :: "('r \<Rightarrow> bool) \<Rightarrow> ('r \<Rightarrow> 'r) \<Rightarrow> 'r list \<Rightarrow> 'r list" where
  "update_where p f rows = map (\<lambda>r. if p r then f r else r) rows"

definition rows_affected :: "('r \<Rightarrow> bool) \<Rightarrow> 'r list \<Rightarrow> nat" where
  "rows_affected p rows = length (filter p rows)"

definition delete_where :: "('r \<Rightarrow> bool) \<Rightarrow> 'r list \<Rightarrow> 'r list" where
  "delete_where p rows = filter (\<lambda>r. \<not> p r) rows"

declare update_where_def [table_defs] rows_affected_def [table_defs] delete_where_def [table_defs]

lemma set_update_where:
  "set (update_where p f rows) = {r \<in> set rows. \<not> p r} \<union> f ` {r \<in> set rows. p r}"
  by (auto simp: update_where_def)

lemma length_update_where [simp]: "length (update_where p f rows) = length rows"
  by (simp add: update_where_def)

lemma map_update_where [simp]:
  "(\<And>r. g (f r) = g r) \<Longrightarrow> map g (update_where p f rows) = map g rows"
  by (simp add: update_where_def)

lemma filter_update_where:
  "(\<And>r. q (f r) = q r) \<Longrightarrow> filter q (update_where p f rows) = update_where p f (filter q rows)"
  by (induction rows) (auto simp: update_where_def)

lemma update_where_none: "(\<And>r. r \<in> set rows \<Longrightarrow> \<not> p r) \<Longrightarrow> update_where p f rows = rows"
  unfolding update_where_def by (induction rows) auto

lemma update_where_Nil_iff [simp]: "update_where p f rows = [] \<longleftrightarrow> rows = []"
  by (simp add: update_where_def)

lemma rows_affected_zero [simp]: "rows_affected p rows = 0 \<longleftrightarrow> (\<forall>r \<in> set rows. \<not> p r)"
  by (auto simp: rows_affected_def filter_empty_conv)

lemma set_delete_where [simp]: "set (delete_where p rows) = {r \<in> set rows. \<not> p r}"
  by (auto simp: delete_where_def)

lemma distinct_map_delete_where:
  "distinct (map g rows) \<Longrightarrow> distinct (map g (delete_where p rows))"
  by (simp add: delete_where_def distinct_map_filter)

section \<open>Chunks and takes\<close>

lemma take_length_append [simp]: "take (length xs) (xs @ ys) = xs"
  by simp

lemma drop_length_append [simp]: "drop (length xs) (xs @ ys) = ys"
  by simp

end
