(* ===== verification/GoStrings.thy ===== *)
theory GoStrings
  imports Prelude "HOL-Library.Char_ord" "HOL-Library.List_Lexorder"
begin

text \<open>
  The routines of Go's \<^verbatim>\<open>strings\<close> and \<^verbatim>\<open>strconv\<close> packages that the program calls, on byte
  strings (an Isabelle \<open>char\<close> is one byte, as a Go string's element is).  They agree with Go on
  ASCII text; the Unicode folding of \<^verbatim>\<open>strings.ToLower\<close> and the Unicode spaces of
  \<^verbatim>\<open>strings.TrimSpace\<close> are not modelled, bytes from 128 up are left as they are.  SQLite's
  \<^verbatim>\<open>lower()\<close> folds ASCII only, so there \<open>to_lower\<close> is exact.
\<close>

section \<open>Case and white space\<close>

definition ascii_lower :: "char \<Rightarrow> char" where
  "ascii_lower c =
     (if 65 \<le> (of_char c :: nat) \<and> (of_char c :: nat) \<le> 90 then char_of (of_char c + 32 :: nat) else c)"

definition to_lower :: "string \<Rightarrow> string" where
  "to_lower s = map ascii_lower s"

definition is_space :: "char \<Rightarrow> bool" where
  "is_space c = ((of_char c :: nat) = 32 \<or> 9 \<le> (of_char c :: nat) \<and> (of_char c :: nat) \<le> 13)"

definition is_digit :: "char \<Rightarrow> bool" where
  "is_digit c = (48 \<le> (of_char c :: nat) \<and> (of_char c :: nat) \<le> 57)"

definition is_letter :: "char \<Rightarrow> bool" where
  "is_letter c =
     (65 \<le> (of_char c :: nat) \<and> (of_char c :: nat) \<le> 90 \<or>
      97 \<le> (of_char c :: nat) \<and> (of_char c :: nat) \<le> 122)"

definition trim_left :: "string \<Rightarrow> string" where
  "trim_left s = dropWhile is_space s"

definition trim_right :: "string \<Rightarrow> string" where
  "trim_right s = rev (dropWhile is_space (rev s))"

definition trim_space :: "string \<Rightarrow> string" where
  "trim_space s = trim_right (trim_left s)"

text \<open>The same tests on the bits of a byte, which is what evaluation uses.\<close>

lemma ascii_lower_code [code]:
  "ascii_lower (Char b0 b1 b2 b3 b4 b5 b6 b7) =
     (if b7 then Char b0 b1 b2 b3 b4 b5 b6 b7
      else if b5 then Char b0 b1 b2 b3 b4 b5 b6 b7
      else if b6 then
        (if b4 \<and> b3 \<and> (b2 \<or> (b1 \<and> b0)) then Char b0 b1 b2 b3 b4 b5 b6 b7
         else if b0 \<or> b1 \<or> b2 \<or> b3 \<or> b4 then Char b0 b1 b2 b3 b4 True b6 b7
         else Char b0 b1 b2 b3 b4 b5 b6 b7)
      else Char b0 b1 b2 b3 b4 b5 b6 b7)"
  by (cases b0; cases b1; cases b2; cases b3; cases b4; cases b5; cases b6; cases b7)
    (simp_all add: ascii_lower_def char_of_def bit_Suc_0_iff)

lemma is_space_code [code]:
  "is_space (Char b0 b1 b2 b3 b4 b5 b6 b7) =
     (if b7 \<or> b6 \<or> b4 then False
      else if b5 then \<not> (b0 \<or> b1 \<or> b2 \<or> b3)
      else b3 \<and> (if b2 then \<not> b1 else b0 \<or> b1))"
  by (cases b0; cases b1; cases b2; cases b3; cases b4; cases b5; cases b6; cases b7)
    (simp_all add: is_space_def)

lemma is_digit_code [code]:
  "is_digit (Char b0 b1 b2 b3 b4 b5 b6 b7) =
     (\<not> b7 \<and> \<not> b6 \<and> b5 \<and> b4 \<and> \<not> (b3 \<and> (b2 \<or> b1)))"
  by (cases b0; cases b1; cases b2; cases b3; cases b4; cases b5; cases b6; cases b7)
    (simp_all add: is_digit_def)

lemma is_letter_code [code]:
  "is_letter (Char b0 b1 b2 b3 b4 b5 b6 b7) =
     (\<not> b7 \<and> b6 \<and> (b0 \<or> b1 \<or> b2 \<or> b3 \<or> b4) \<and> \<not> (b4 \<and> b3 \<and> (b2 \<or> (b1 \<and> b0))))"
  by (cases b0; cases b1; cases b2; cases b3; cases b4; cases b5; cases b6; cases b7)
    (simp_all add: is_letter_def)

lemma ascii_lower_idem [simp]: "ascii_lower (ascii_lower c) = ascii_lower c"
proof (cases "65 \<le> (of_char c :: nat) \<and> (of_char c :: nat) \<le> 90")
  case True
  then have "(of_char c + 32 :: nat) < 256" by simp
  then have "(of_char (char_of (of_char c + 32 :: nat)) :: nat) = of_char c + 32"
    by (simp add: of_char_of)
  with True show ?thesis by (simp add: ascii_lower_def)
next
  case False
  then have "ascii_lower c = c" by (auto simp: ascii_lower_def)
  then show ?thesis by simp
qed

lemma to_lower_idem [simp]: "to_lower (to_lower s) = to_lower s"
  by (simp add: to_lower_def)

lemma to_lower_Nil [simp]: "to_lower [] = []"
  by (simp add: to_lower_def)

lemma to_lower_eq_Nil [simp]: "to_lower s = [] \<longleftrightarrow> s = []"
  by (simp add: to_lower_def)

lemma length_to_lower [simp]: "length (to_lower s) = length s"
  by (simp add: to_lower_def)

lemma to_lower_append: "to_lower (s @ t) = to_lower s @ to_lower t"
  by (simp add: to_lower_def)

lemma is_space_lower [simp]: "is_space (ascii_lower c) = is_space c"
proof (cases "65 \<le> (of_char c :: nat) \<and> (of_char c :: nat) \<le> 90")
  case True
  then have "(of_char (char_of (of_char c + 32 :: nat)) :: nat) = of_char c + 32"
    by (simp add: of_char_of)
  with True show ?thesis by (simp add: ascii_lower_def is_space_def)
next
  case False
  then show ?thesis by (auto simp: ascii_lower_def)
qed

lemma trim_space_Nil [simp]: "trim_space [] = []"
  by (simp add: trim_space_def trim_left_def trim_right_def)

lemma trim_left_id: "s = [] \<or> \<not> is_space (hd s) \<Longrightarrow> trim_left s = s"
  by (cases s) (auto simp: trim_left_def)

lemma trim_right_id: "s = [] \<or> \<not> is_space (last s) \<Longrightarrow> trim_right s = s"
  by (cases s rule: rev_cases) (auto simp: trim_right_def)

lemma trim_space_id:
  "s = [] \<or> (\<not> is_space (hd s) \<and> \<not> is_space (last s)) \<Longrightarrow> trim_space s = s"
  by (auto simp: trim_space_def trim_left_id trim_right_id)

lemma trim_right_ends: "trim_right s = [] \<or> \<not> is_space (last (trim_right s))"
  by (metis hd_dropWhile hd_rev last_rev rev_is_Nil_conv rev_rev_ident trim_right_def dropWhile_eq_Nil_conv)

lemma trim_right_hd:
  assumes "trim_right s \<noteq> []"
  shows "hd (trim_right s) = hd s"
proof -
  obtain t where "rev s = t @ dropWhile is_space (rev s)"
    by (metis takeWhile_dropWhile_id)
  then have "s = trim_right s @ rev t"
    by (metis rev_append rev_rev_ident trim_right_def)
  with assms show ?thesis by (metis hd_append2)
qed

lemma trim_left_starts: "trim_left s = [] \<or> \<not> is_space (hd (trim_left s))"
  by (metis hd_dropWhile trim_left_def)

lemma trim_space_ends:
  "trim_space s = [] \<or> (\<not> is_space (hd (trim_space s)) \<and> \<not> is_space (last (trim_space s)))"
  unfolding trim_space_def
  by (metis trim_left_starts trim_right_ends trim_right_hd trim_right_def rev.simps(1)
      dropWhile.simps(1))

lemma trim_space_idem [simp]: "trim_space (trim_space s) = trim_space s"
  by (rule trim_space_id) (rule trim_space_ends)

section \<open>Fields and joins\<close>

text \<open>\<^verbatim>\<open>strings.Fields\<close>: the maximal runs of non-space bytes.\<close>

function fields :: "string \<Rightarrow> string list" where
  "fields s =
     (let t = dropWhile is_space s
      in if t = [] then []
         else takeWhile (\<lambda>c. \<not> is_space c) t # fields (dropWhile (\<lambda>c. \<not> is_space c) t))"
  by pat_completeness auto
termination
proof (relation "measure length", simp)
  fix s t :: string
  assume t: "t = dropWhile is_space s" and ne: "t \<noteq> []"
  from ne t have "\<not> is_space (hd t)" by (metis hd_dropWhile)
  with ne have "length (dropWhile (\<lambda>c. \<not> is_space c) t) < length t"
    by (cases t) (auto simp: le_imp_less_Suc length_dropWhile_le)
  also have "length t \<le> length s" using t by (simp add: length_dropWhile_le)
  finally show "(dropWhile (\<lambda>c. \<not> is_space c) t, s) \<in> measure length" by simp
qed

declare fields.simps [simp del]

lemma fields_eval [go_eval]: "fields [] = []"
  by (simp add: fields.simps)

text \<open>A word is what \<open>fields\<close> yields: not empty and without white space.\<close>

definition is_word :: "string \<Rightarrow> bool" where
  "is_word w = (w \<noteq> [] \<and> list_all (\<lambda>c. \<not> is_space c) w)"

lemma is_word_not_Nil: "is_word w \<Longrightarrow> w \<noteq> []"
  by (simp add: is_word_def)

lemma is_word_hd_last: "is_word w \<Longrightarrow> \<not> is_space (hd w) \<and> \<not> is_space (last w)"
  by (auto simp: is_word_def list_all_iff)

lemma is_word_trim: "is_word w \<Longrightarrow> trim_space w = w"
  by (rule trim_space_id) (auto dest: is_word_hd_last)

lemma is_word_to_lower: "is_word w \<Longrightarrow> is_word (to_lower w)"
  by (auto simp: is_word_def to_lower_def list_all_iff)

lemma fields_words: "w \<in> set (fields s) \<Longrightarrow> is_word w"
proof (induction s rule: fields.induct)
  case (1 s)
  define t where "t = dropWhile is_space s"
  show ?case
  proof (cases "t = []")
    case True
    with "1.prems" show ?thesis by (simp add: fields.simps [of s] t_def)
  next
    case False
    then have "\<not> is_space (hd t)" unfolding t_def by (metis hd_dropWhile)
    with False have ne: "takeWhile (\<lambda>c. \<not> is_space c) t \<noteq> []"
      by (cases t) auto
    have "list_all (\<lambda>c. \<not> is_space c) (takeWhile (\<lambda>c. \<not> is_space c) t)"
      by (auto simp: list_all_iff dest: set_takeWhileD)
    with ne have word: "is_word (takeWhile (\<lambda>c. \<not> is_space c) t)"
      by (simp add: is_word_def)
    from "1.prems" False
    have "w = takeWhile (\<lambda>c. \<not> is_space c) t
        \<or> w \<in> set (fields (dropWhile (\<lambda>c. \<not> is_space c) t))"
      by (simp add: fields.simps [of s] t_def [symmetric] Let_def)
    with word "1.IH" [OF t_def] False show ?thesis by auto
  qed
qed

fun join :: "string \<Rightarrow> string list \<Rightarrow> string" where
  "join sep [] = []"
| "join sep [w] = w"
| "join sep (w # v # ws) = w @ sep @ join sep (v # ws)"

lemma join_Cons: "join sep (w # ws) = (if ws = [] then w else w @ sep @ join sep ws)"
  by (cases ws) simp_all

lemma fields_word_append:
  assumes "is_word w" and "s = [] \<or> is_space (hd s)"
  shows "fields (w @ s) = w # fields s"
proof -
  have nsp: "\<And>c. c \<in> set w \<Longrightarrow> \<not> is_space c"
    using assms(1) by (simp add: is_word_def list_all_iff)
  from assms(1) obtain a as where w: "w = a # as" and "\<not> is_space a"
    by (cases w) (auto simp: is_word_def)
  then have dw: "dropWhile is_space (w @ s) = w @ s" by simp
  have tw: "takeWhile (\<lambda>c. \<not> is_space c) (w @ s) = w"
    using nsp assms(2) by (cases s) (auto simp: takeWhile_append)
  have dws: "dropWhile (\<lambda>c. \<not> is_space c) (w @ s) = s"
    using nsp assms(2) by (cases s) (auto simp: dropWhile_append)
  have "w @ s \<noteq> []" using w by simp
  then show ?thesis
    by (simp only: fields.simps [of "w @ s"] Let_def dw tw dws if_False)
qed

lemma fields_space [simp]: "is_space c \<Longrightarrow> fields (c # s) = fields s"
  by (simp add: fields.simps [of "c # s"] fields.simps [of s])

lemma fields_Nil [simp]: "fields [] = []"
  by (simp add: fields.simps)

lemma is_space_blank [simp]: "is_space (CHR '' '')"
  by (simp add: is_space_def)

lemma fields_join: "(\<forall>w \<in> set ws. is_word w) \<Longrightarrow> fields (join '' '' ws) = ws"
proof (induction ws)
  case Nil
  then show ?case by simp
next
  case (Cons w ws)
  show ?case
  proof (cases ws)
    case Nil
    with Cons.prems show ?thesis
      using fields_word_append [of w "[]"] by simp
  next
    case (Cons v vs)
    with Cons.prems Cons.IH have "fields (w @ '' '' @ join '' '' ws) = w # fields (join '' '' ws)"
      using fields_word_append [of w "'' '' @ join '' '' ws"] by simp
    with Cons Cons.prems Cons.IH show ?thesis by simp
  qed
qed

lemma join_words_ends:
  assumes "\<forall>w \<in> set ws. is_word w" and "ws \<noteq> []"
  shows "join '' '' ws \<noteq> [] \<and> \<not> is_space (hd (join '' '' ws)) \<and> \<not> is_space (last (join '' '' ws))"
  using assms
proof (induction ws)
  case Nil
  then show ?case by simp
next
  case (Cons w ws)
  then have w: "w \<noteq> []" "\<not> is_space (hd w)" "\<not> is_space (last w)"
    by (auto dest: is_word_not_Nil is_word_hd_last)
  with Cons show ?case by (cases "ws = []") (auto simp: join_Cons)
qed

lemma trim_join_words: "\<forall>w \<in> set ws. is_word w \<Longrightarrow> trim_space (join '' '' ws) = join '' '' ws"
  by (cases "ws = []") (auto intro: trim_space_id dest: join_words_ends)

lemma ascii_lower_blank [simp]: "ascii_lower (CHR '' '') = CHR '' ''"
  by (simp add: ascii_lower_def)

lemma to_lower_join: "to_lower (join '' '' ws) = join '' '' (map to_lower ws)"
  by (induction ws) (auto simp: join_Cons to_lower_def)

section \<open>Searching and cutting\<close>

definition has_prefix :: "string \<Rightarrow> string \<Rightarrow> bool" where
  "has_prefix s p = (take (length p) s = p)"

definition has_suffix :: "string \<Rightarrow> string \<Rightarrow> bool" where
  "has_suffix s p = (length p \<le> length s \<and> drop (length s - length p) s = p)"

fun str_contains :: "string \<Rightarrow> string \<Rightarrow> bool" where
  "str_contains [] p = (p = [])"
| "str_contains (c # s) p = (has_prefix (c # s) p \<or> str_contains s p)"

definition trim_prefix :: "string \<Rightarrow> string \<Rightarrow> string" where
  "trim_prefix s p = (if has_prefix s p then drop (length p) s else s)"

lemma has_prefix_iff: "has_prefix s p \<longleftrightarrow> (\<exists>t. s = p @ t)"
  unfolding has_prefix_def by (metis append_eq_conv_conj append_take_drop_id)

lemma has_prefix_code [code]:
  "has_prefix s [] = True"
  "has_prefix [] (c # p) = False"
  "has_prefix (a # s) (c # p) = (if a = c then has_prefix s p else False)"
  by (auto simp: has_prefix_def)

lemma has_prefix_append [simp]: "has_prefix (p @ t) p"
  by (simp add: has_prefix_def)

lemma has_prefix_refl [simp]: "has_prefix p p"
  by (simp add: has_prefix_def)

lemma has_prefix_Nil [simp]: "has_prefix s []"
  by (simp add: has_prefix_def)

lemma has_suffix_iff: "has_suffix s p \<longleftrightarrow> (\<exists>t. s = t @ p)"
proof
  assume "has_suffix s p"
  then show "\<exists>t. s = t @ p" by (metis append_take_drop_id has_suffix_def)
next
  assume "\<exists>t. s = t @ p"
  then show "has_suffix s p" by (auto simp: has_suffix_def)
qed

lemma str_contains_iff: "str_contains s p \<longleftrightarrow> (\<exists>u v. s = u @ p @ v)"
proof (induction s)
  case Nil
  then show ?case by auto
next
  case (Cons c s)
  show ?case
  proof
    assume "str_contains (c # s) p"
    then consider "has_prefix (c # s) p" | "str_contains s p" by auto
    then show "\<exists>u v. c # s = u @ p @ v"
    proof cases
      case 1
      then show ?thesis by (metis append_Nil has_prefix_iff)
    next
      case 2
      with Cons obtain u v where "s = u @ p @ v" by blast
      then have "c # s = (c # u) @ p @ v" by simp
      then show ?thesis by blast
    qed
  next
    assume "\<exists>u v. c # s = u @ p @ v"
    then obtain u v where uv: "c # s = u @ p @ v" by blast
    show "str_contains (c # s) p"
    proof (cases u)
      case Nil
      with uv show ?thesis by (metis append_Nil has_prefix_append str_contains.simps(2))
    next
      case (Cons a u')
      with uv have "s = u' @ p @ v" by simp
      with Cons.IH show ?thesis by auto
    qed
  qed
qed

text \<open>\<^verbatim>\<open>strings.Index\<close> of one byte and \<^verbatim>\<open>strings.LastIndexAny\<close>; \<open>None\<close> is \<open>-1\<close>.\<close>

fun index_byte :: "string \<Rightarrow> char \<Rightarrow> nat option" where
  "index_byte [] c = None"
| "index_byte (a # s) c = (if a = c then Some 0 else map_option Suc (index_byte s c))"

fun last_index_any :: "string \<Rightarrow> string \<Rightarrow> nat option" where
  "last_index_any [] cs = None"
| "last_index_any (a # s) cs =
     (case last_index_any s cs of
        Some i \<Rightarrow> Some (Suc i)
      | None \<Rightarrow> if a \<in> set cs then Some 0 else None)"

text \<open>The part before the last colon: \<^verbatim>\<open>addr[:strings.LastIndex(addr, ":")]\<close>.\<close>

definition before_last_colon :: "string \<Rightarrow> string" where
  "before_last_colon s = (case last_index_any s '':'' of Some i \<Rightarrow> take i s | None \<Rightarrow> s)"

text \<open>The vendor root of a kind: \<^verbatim>\<open>"cisco-ios"\<close> gives \<^verbatim>\<open>"cisco"\<close> (a dash at index 0 does not count).\<close>

definition kind_family :: "string \<Rightarrow> string" where
  "kind_family k = (case index_byte k (CHR ''-'') of
      Some i \<Rightarrow> if 0 < i then take i k else k
    | None \<Rightarrow> k)"

text \<open>\<^verbatim>\<open>strings.Split\<close> at a one-byte separator; the empty string splits into one empty part.\<close>

fun split_on :: "char \<Rightarrow> string \<Rightarrow> string list" where
  "split_on d [] = [[]]"
| "split_on d (c # s) =
     (if c = d then [] # split_on d s
      else (case split_on d s of [] \<Rightarrow> [[c]] | p # ps \<Rightarrow> (c # p) # ps))"

lemma split_on_not_Nil [simp]: "split_on d s \<noteq> []"
  by (induction s) (auto split: list.splits)

lemma split_on_append:
  "d \<notin> set w \<Longrightarrow> split_on d (w @ d # s) = w # split_on d s"
  by (induction w) auto

lemma split_on_single: "d \<notin> set w \<Longrightarrow> split_on d w = [w]"
  by (induction w) auto

lemma split_on_join:
  "ws \<noteq> [] \<Longrightarrow> (\<forall>w \<in> set ws. d \<notin> set w) \<Longrightarrow> split_on d (join [d] ws) = ws"
  by (induction ws) (auto simp: join_Cons split_on_append split_on_single)

lemma split_on_parts: "w \<in> set (split_on d s) \<Longrightarrow> d \<notin> set w"
proof (induction s arbitrary: w)
  case Nil
  then show ?case by simp
next
  case (Cons c s)
  obtain p ps where ps: "split_on d s = p # ps"
    by (metis neq_Nil_conv split_on_not_Nil)
  with Cons show ?case by (auto split: if_splits)
qed

text \<open>\<^verbatim>\<open>strings.ReplaceAll\<close> for a non-empty pattern (its callers skip the empty one).\<close>

fun replace_all :: "string \<Rightarrow> string \<Rightarrow> string \<Rightarrow> string" where
  "replace_all [] old new = []"
| "replace_all (c # s) old new =
     (if old \<noteq> [] \<and> has_prefix (c # s) old
      then new @ replace_all (drop (length old - 1) s) old new
      else c # replace_all s old new)"

lemma length_replace_all:
  "length new = length old \<Longrightarrow> length (replace_all s old new) = length s"
proof (induction s old new rule: replace_all.induct)
  case (1 old new)
  then show ?case by simp
next
  case (2 c s old new)
  show ?case
  proof (cases "old \<noteq> [] \<and> has_prefix (c # s) old")
    case True
    then have "length old \<le> Suc (length s)"
      by (metis has_prefix_iff length_Cons length_append le_add1)
    with True 2 show ?thesis by (cases old) auto
  next
    case False
    with 2 show ?thesis by auto
  qed
qed

section \<open>Decimal numbers\<close>

definition digit_char :: "nat \<Rightarrow> char" where
  "digit_char d = char_of (48 + d)"

definition digit_val :: "char \<Rightarrow> nat" where
  "digit_val c = of_char c - 48"

fun string_of_nat :: "nat \<Rightarrow> string" where
  "string_of_nat n =
     (if n < 10 then [digit_char n] else string_of_nat (n div 10) @ [digit_char (n mod 10)])"

declare string_of_nat.simps [simp del]

text \<open>\<^verbatim>\<open>strconv.FormatInt(n, 10)\<close> and \<^verbatim>\<open>%d\<close>.\<close>

definition string_of_int :: "int \<Rightarrow> string" where
  "string_of_int n = (if n < 0 then CHR ''-'' # string_of_nat (nat (- n)) else string_of_nat (nat n))"

definition nat_of_digits :: "string \<Rightarrow> nat" where
  "nat_of_digits s = foldl (\<lambda>n c. 10 * n + digit_val c) 0 s"

text \<open>\<^verbatim>\<open>strconv.ParseInt(s, 10, 64)\<close>: an optional sign, then digits, within 64 bits.\<close>

definition parse_int64 :: "string \<Rightarrow> int option" where
  "parse_int64 s =
     (let neg = (s \<noteq> [] \<and> hd s = CHR ''-'');
          ds = (if s \<noteq> [] \<and> (hd s = CHR ''-'' \<or> hd s = CHR ''+'') then tl s else s);
          n = (if neg then - int (nat_of_digits ds) else int (nat_of_digits ds))
      in if ds = [] \<or> \<not> list_all is_digit ds then None
         else if - (2 ^ 63) \<le> n \<and> n < 2 ^ 63 then Some n else None)"

lemma digit_char_props:
  assumes "d < 10"
  shows "is_digit (digit_char d)" "digit_val (digit_char d) = d"
    "digit_char d \<noteq> CHR ''-''" "digit_char d \<noteq> CHR ''+''" "digit_char d \<noteq> CHR '',''"
    "\<not> is_space (digit_char d)"
proof -
  have of: "(of_char (digit_char d) :: nat) = 48 + d"
    using assms by (simp add: digit_char_def of_char_of)
  then show "is_digit (digit_char d)" "digit_val (digit_char d) = d" "\<not> is_space (digit_char d)"
    using assms by (simp_all add: is_digit_def digit_val_def is_space_def)
  have "(of_char (CHR ''-'') :: nat) = 45" "(of_char (CHR ''+'') :: nat) = 43"
    "(of_char (CHR '','') :: nat) = 44"
    by simp_all
  then show "digit_char d \<noteq> CHR ''-''" "digit_char d \<noteq> CHR ''+''" "digit_char d \<noteq> CHR '',''"
    using of by (metis Nat.add_0_right add_le_same_cancel1 le_add1 numeral_le_iff semiring_norm)+
qed

lemma string_of_nat_props:
  "string_of_nat n \<noteq> []" "\<forall>c \<in> set (string_of_nat n). \<exists>d < 10. c = digit_char d"
proof (induction n rule: string_of_nat.induct)
  case (1 n)
  {
    case 1
    show ?case by (subst string_of_nat.simps) simp
  next
    case 2
    show ?case
    proof (cases "n < 10")
      case True
      then show ?thesis by (subst string_of_nat.simps) auto
    next
      case False
      moreover have "\<exists>d < 10. digit_char (n mod 10) = digit_char d"
        by (rule exI [of _ "n mod 10"]) simp
      ultimately show ?thesis using "1.IH"(2) by (subst string_of_nat.simps) auto
    qed
  }
qed

lemma nat_of_digits_snoc: "nat_of_digits (s @ [c]) = 10 * nat_of_digits s + digit_val c"
  by (simp add: nat_of_digits_def)

lemma nat_of_string_of_nat [simp]: "nat_of_digits (string_of_nat n) = n"
proof (induction n rule: string_of_nat.induct)
  case (1 n)
  show ?case
  proof (cases "n < 10")
    case True
    then show ?thesis
      by (subst string_of_nat.simps) (simp add: nat_of_digits_def digit_char_props)
  next
    case False
    then have "nat_of_digits (string_of_nat n) = 10 * (n div 10) + n mod 10"
      using 1 by (subst string_of_nat.simps) (simp add: nat_of_digits_snoc digit_char_props)
    then show ?thesis by simp
  qed
qed

lemma string_of_nat_digits: "list_all is_digit (string_of_nat n)"
  using string_of_nat_props(2) [of n] by (auto simp: list_all_iff dest!: bspec intro: digit_char_props)

lemma string_of_int_word: "is_word (string_of_int n)" "CHR '','' \<notin> set (string_of_int n)"
proof -
  have *: "is_word (string_of_nat k)" "CHR '','' \<notin> set (string_of_nat k)" for k
    using string_of_nat_props [of k]
    by (auto simp: is_word_def list_all_iff digit_char_props) (metis digit_char_props(5))
  have "\<not> is_space (CHR ''-'')" by (simp add: is_space_def)
  with * show "is_word (string_of_int n)" "CHR '','' \<notin> set (string_of_int n)"
    by (auto simp: string_of_int_def is_word_def)
qed

theorem parse_string_of_int:
  assumes "- (2 ^ 63) \<le> n" "n < 2 ^ 63"
  shows "parse_int64 (string_of_int n) = Some n"
proof -
  have hd: "hd (string_of_nat k) \<noteq> CHR ''-''" "hd (string_of_nat k) \<noteq> CHR ''+''" for k
    using string_of_nat_props [of k] by (metis digit_char_props(3) list.set_sel(1))
      (metis string_of_nat_props digit_char_props(4) list.set_sel(1))
  show ?thesis
  proof (cases "n < 0")
    case True
    with assms show ?thesis
      by (simp add: parse_int64_def string_of_int_def string_of_nat_props string_of_nat_digits)
  next
    case False
    with assms hd show ?thesis
      by (simp add: parse_int64_def string_of_int_def string_of_nat_props string_of_nat_digits Let_def)
  qed
qed

section \<open>Formatting\<close>

text \<open>\<^verbatim>\<open>%q\<close> on printable text: the quote and the backslash are escaped.\<close>

definition go_quote :: "string \<Rightarrow> string" where
  "go_quote s =
     CHR 0x22 # concat (map (\<lambda>c. if c = CHR 0x22 \<or> c = CHR 0x5C then [CHR 0x5C, c] else [c]) s) @ [CHR 0x22]"

text \<open>\<^verbatim>\<open>%v\<close> on a slice of strings.\<close>

definition go_list :: "string list \<Rightarrow> string" where
  "go_list xs = ''['' @ join '' '' xs @ '']''"

end
