(* ===== verification/CiscoCli.thy ===== *)
theory CiscoCli
  imports GoStrings
begin

text \<open>
  The Cisco command-line normaliser and the per-command filter: \<^verbatim>\<open>internal/policy/cisco_cli.go\<close>
  and the functions \<^verbatim>\<open>NormalizeCLI\<close>, \<^verbatim>\<open>CommandAllowed\<close> and \<^verbatim>\<open>FullCommand\<close> of
  \<^verbatim>\<open>internal/policy/policy.go\<close>.  The three Go tables are association lists; a Go map literal has
  no duplicate keys, so \<open>map_of\<close> is the map lookup.
\<close>

section \<open>The tables\<close>

definition ciscoVocabulary :: "string list" where
  "ciscoVocabulary =
    [
     ''access-list'', ''archive'', ''aux'', ''bfd'', ''boot'', ''certificate'',
     ''channel-group'', ''class-map'', ''clear'', ''clock'', ''configure'', ''console'',
     ''copy'', ''crypto'', ''debug'', ''default'', ''delete'', ''description'',
     ''disable'', ''domain'', ''duplex'', ''enable'', ''erase'', ''etherchannel'',
     ''exec'', ''exit'', ''format'', ''gateway'', ''hostname'', ''interface'', ''ip'',
     ''ipv6'', ''key'', ''line'', ''logging'', ''mode'', ''monitor'', ''neighbor'',
     ''network'', ''ntp'', ''password'', ''ping'', ''policy-map'', ''port-channel'',
     ''prefix-list'', ''privilege'', ''redistribute'', ''reload'', ''route'',
     ''route-map'', ''router'', ''routing'', ''running-config'', ''secret'', ''service'',
     ''shutdown'', ''show'', ''snmp-server'', ''spanning-tree'', ''speed'',
     ''startup-config'', ''static'', ''switchport'', ''telnet'', ''terminal'',
     ''traceroute'', ''trunk'', ''undebug'', ''username'', ''vlan'', ''vrf'', ''vty'',
     ''write'']"

definition ciscoTokenAlias :: "(string \<times> string) list" where
  "ciscoTokenAlias =
    [
     (''sh'', ''show''), (''sho'', ''show''), (''en'', ''enable''), (''ena'', ''enable''),
     (''dis'', ''disable''), (''conf'', ''configure''), (''config'', ''configure''),
     (''con'', ''configure''), (''cop'', ''copy''), (''wr'', ''write''),
     (''writ'', ''write''), (''era'', ''erase''), (''er'', ''erase''),
     (''rel'', ''reload''), (''relo'', ''reload''), (''del'', ''delete''),
     (''cle'', ''clear''), (''clr'', ''clear''), (''pin'', ''ping''), (''pi'', ''ping''),
     (''tra'', ''traceroute''), (''trac'', ''traceroute''), (''tel'', ''telnet''),
     (''log'', ''logging''), (''logg'', ''logging''), (''deb'', ''debug''),
     (''unde'', ''undebug''), (''und'', ''undebug''), (''mon'', ''monitor''),
     (''int'', ''interface''), (''interf'', ''interface''), (''inte'', ''interface''),
     (''desc'', ''description''), (''descri'', ''description''), (''shut'', ''shutdown''),
     (''shutd'', ''shutdown''), (''sw'', ''switchport''), (''swi'', ''switchport''),
     (''switchp'', ''switchport''), (''host'', ''hostname''), (''hostn'', ''hostname''),
     (''acc'', ''access-list''), (''access'', ''access-list''), (''rout'', ''router''),
     (''priv'', ''privilege''), (''pass'', ''password''), (''sec'', ''secret''),
     (''snmp'', ''snmp-server''), (''spa'', ''spanning-tree''),
     (''span'', ''spanning-tree''), (''pol'', ''policy-map''),
     (''policy'', ''policy-map''), (''class'', ''class-map''), (''red'', ''redistribute''),
     (''nei'', ''neighbor''), (''net'', ''network''), (''stat'', ''static''),
     (''def'', ''default''), (''dup'', ''duplex''), (''spe'', ''speed''),
     (''mod'', ''mode''), (''tru'', ''trunk''), (''enc'', ''encapsulation''),
     (''form'', ''format''), (''ntp'', ''ntp''), (''vrf'', ''vrf''), (''vlan'', ''vlan''),
     (''vl'', ''vlan''), (''ip'', ''ip''), (''ipv6'', ''ipv6''), (''crypto'', ''crypto''),
     (''cry'', ''crypto''), (''key'', ''key''), (''boot'', ''boot''),
     (''clock'', ''clock''), (''service'', ''service''), (''ser'', ''service''),
     (''username'', ''username''), (''user'', ''username''), (''line'', ''line''),
     (''lin'', ''line''), (''vty'', ''vty''), (''aux'', ''aux''), (''exit'', ''exit''),
     (''ex'', ''exit''), (''end'', ''end''), (''do'', ''do''), (''no'', ''no'')]"

definition ciscoContextNext :: "(string \<times> (string \<times> string) list) list" where
  "ciscoContextNext =
    [
     (''configure'',
      [(''t'', ''terminal''), (''ter'', ''terminal''), (''term'', ''terminal''),
       (''mem'', ''memory''), (''memor'', ''memory'')]),
     (''show'',
      [(''run'', ''running-config''), (''running'', ''running-config''),
       (''ru'', ''running-config''), (''start'', ''startup-config''),
       (''startup'', ''startup-config''), (''sta'', ''startup-config''),
       (''ver'', ''version''), (''vers'', ''version''), (''versi'', ''version''),
       (''int'', ''interface''), (''interf'', ''interface''),
       (''interfaces'', ''interfaces''), (''ip'', ''ip''), (''vlan'', ''vlan''),
       (''clock'', ''clock''), (''log'', ''logging''), (''span'', ''spanning-tree''),
       (''spanning'', ''spanning-tree''), (''access'', ''access-list''),
       (''acc'', ''access-list''), (''route'', ''route''), (''route-map'', ''route-map'')]),
     (''copy'',
      [(''run'', ''running-config''), (''running'', ''running-config''),
       (''start'', ''startup-config''), (''startup'', ''startup-config''),
       (''ftp'', ''ftp''), (''tftp'', ''tftp''), (''scp'', ''scp'')]),
     (''erase'',
      [(''start'', ''startup-config''), (''startup'', ''startup-config'')]),
     (''write'',
      [(''mem'', ''memory''), (''memor'', ''memory''), (''eri'', ''erase''),
       (''erase'', ''erase''), (''term'', ''terminal''), (''ter'', ''terminal'')]),
     (''interface'',
      [(''desc'', ''description''), (''descri'', ''description''),
       (''shut'', ''shutdown''), (''shutd'', ''shutdown''), (''sw'', ''switchport''),
       (''switchp'', ''switchport'')]),
     (''router'',
      [(''bgp'', ''bgp''), (''ospf'', ''ospf''), (''eigrp'', ''eigrp''),
       (''rip'', ''rip''), (''isis'', ''isis'')]),
     (''ip'',
      [(''route'', ''route''), (''routing'', ''routing''), (''access'', ''access-list''),
       (''dhcp'', ''dhcp''), (''nat'', ''nat''), (''ssh'', ''ssh''),
       (''domain'', ''domain'')]),
     (''line'',
      [(''vty'', ''vty''), (''con'', ''console''), (''cons'', ''console''),
       (''console'', ''console''), (''aux'', ''aux'')]),
     (''snmp-server'',
      [(''community'', ''community''), (''comm'', ''community''), (''host'', ''host'')]),
     (''username'',
      [(''priv'', ''privilege''), (''privilege'', ''privilege'')]),
     (''access-list'',
      []),
     (''no'',
      [])]"

section \<open>Token expansion\<close>

definition isCiscoLiteral :: "string \<Rightarrow> bool" where
  "isCiscoLiteral s =
     (if s = ''?'' \<or> s = ''|'' then True
      else
        let hasDigit = list_ex is_digit s; hasAlpha = list_ex is_letter s in
        if hasDigit \<and> \<not> hasAlpha then True
        else list_ex (\<lambda>c. c \<in> set ''/.:<>'') s)"

text \<open>A missing key of a Go map of strings reads as the empty string.\<close>

definition context_lookup :: "string \<Rightarrow> string \<Rightarrow> string option" where
  "context_lookup key token =
     (case map_of ciscoContextNext key of Some m \<Rightarrow> map_of m token | None \<Rightarrow> None)"

definition ciscoContextExpand :: "string \<Rightarrow> string list \<Rightarrow> string" where
  "ciscoContextExpand token prev =
     (if prev = [] then []
      else
        case context_lookup (last prev) token of
          Some canon \<Rightarrow> canon
        | None \<Rightarrow>
            if 2 \<le> length prev then
              (case context_lookup (last (butlast prev) @ '' '' @ last prev) token of
                 Some canon \<Rightarrow> canon
               | None \<Rightarrow> [])
            else [])"

definition ciscoUniquePrefix :: "string \<Rightarrow> string" where
  "ciscoUniquePrefix partial =
     (case filter (\<lambda>w. has_prefix w partial) ciscoVocabulary of
        [m] \<Rightarrow> m
      | _ \<Rightarrow> [])"

text \<open>The third Go argument, \<^verbatim>\<open>rest\<close>, is unused by the function.\<close>

definition expandCiscoToken :: "string \<Rightarrow> string list \<Rightarrow> string" where
  "expandCiscoToken raw prev =
     (let token = to_lower (trim_space raw) in
      if token = [] \<or> isCiscoLiteral token then raw
      else
        let canon = ciscoContextExpand token prev in
        if canon \<noteq> [] then canon
        else
          case map_of ciscoTokenAlias token of
            Some c \<Rightarrow> c
          | None \<Rightarrow>
              if 2 \<le> length token \<and> ciscoUniquePrefix token \<noteq> [] then ciscoUniquePrefix token
              else token)"

text \<open>The loop of \<^verbatim>\<open>expandCiscoTokens\<close>: \<open>out\<close> is the slice built so far, of which the last three
  elements are the context of the next token.\<close>

definition last3 :: "string list \<Rightarrow> string list" where
  "last3 out = drop (length out - 3) out"

fun expand_loop :: "string list \<Rightarrow> string list \<Rightarrow> string list" where
  "expand_loop out [] = out"
| "expand_loop out (f # fs) = expand_loop (out @ [expandCiscoToken f (last3 out)]) fs"

definition expandCiscoTokens :: "string list \<Rightarrow> string list" where
  "expandCiscoTokens fs = (if fs = [] then fs else expand_loop [] fs)"

section \<open>Normalisation and the command filter\<close>

definition stripCiscoExecDo :: "string list \<Rightarrow> string list" where
  "stripCiscoExecDo fs = (if 2 \<le> length fs \<and> hd fs = ''do'' then tl fs else fs)"

definition NormalizeCLI :: "string \<Rightarrow> string" where
  "NormalizeCLI raw =
     (let cmd = to_lower (trim_space raw) in
      if cmd = [] then cmd
      else join '' '' (expandCiscoTokens (stripCiscoExecDo (fields cmd))))"

definition ciscoSessionControl :: "string \<Rightarrow> bool" where
  "ciscoSessionControl cmd =
     (NormalizeCLI cmd \<in> set [''exit'', ''end'', ''logout'', ''logoff'', ''quit'', ''disable''])"

text \<open>The two \<^verbatim>\<open>for\<close> loops of \<^verbatim>\<open>CommandAllowed\<close>: does some pattern of the list match?\<close>

definition pattern_hits :: "string \<Rightarrow> string \<Rightarrow> bool" where
  "pattern_hits cmd pat = (let d = NormalizeCLI pat in d \<noteq> [] \<and> has_prefix cmd d)"

definition CommandAllowed :: "string \<Rightarrow> string list \<Rightarrow> string list \<Rightarrow> bool" where
  "CommandAllowed raw allow deny =
     (let cmd = NormalizeCLI raw in
      if ciscoSessionControl cmd then True
      else if list_ex (pattern_hits cmd) deny then False
      else if allow = [] then True
      else list_ex (pattern_hits cmd) allow)"

text \<open>\<^verbatim>\<open>FullCommand\<close> joins a TACACS \<^verbatim>\<open>cmd=\<close> value with its \<^verbatim>\<open>cmd-arg=\<close> pieces.\<close>

definition FullCommand :: "string \<Rightarrow> string list \<Rightarrow> string" where
  "FullCommand cmd args =
     join '' '' (filter (\<lambda>p. p \<noteq> []) (trim_space cmd # map trim_space args))"

section \<open>The tables are consistent\<close>

text \<open>
  What idempotence needs of the tables, checked by evaluation: every canonical word is a lower
  case word, is not abbreviated further by the alias table or the vocabulary, and no context
  table sends a word that an earlier stage produced anywhere else.
\<close>

definition alias_words :: "string list" where
  "alias_words = map snd ciscoTokenAlias"

definition stable_word :: "string \<Rightarrow> bool" where
  "stable_word c =
     (is_word c \<and> to_lower c = c \<and>
      (isCiscoLiteral c \<or>
        (case map_of ciscoTokenAlias c of
           Some d \<Rightarrow> d = c
         | None \<Rightarrow> c \<in> set ciscoVocabulary \<or> ciscoUniquePrefix c = [])))"

definition context_stable :: "string \<Rightarrow> string \<Rightarrow> bool" where
  "context_stable key c = (case context_lookup key c of Some d \<Rightarrow> d = c | None \<Rightarrow> True)"

lemma alias_words_stable: "list_all stable_word alias_words"
  by code_simp

lemma vocabulary_stable: "list_all stable_word ciscoVocabulary"
  by code_simp

text \<open>A context table's own word may be in the alias table too (\<^verbatim>\<open>host\<close> under \<^verbatim>\<open>snmp-server\<close>), as long as
  the context, which is asked first, keeps it.\<close>

definition context_word :: "string \<Rightarrow> string \<Rightarrow> bool" where
  "context_word key c =
     (is_word c \<and> to_lower c = c \<and>
      (context_lookup key c = Some c \<or> stable_word c \<and> context_lookup key c = None))"

lemma context_words_stable:
  "list_all (\<lambda>(k, m). list_all (\<lambda>(a, c). context_word k c) m) ciscoContextNext"
  by code_simp

lemma alias_words_context_stable:
  "list_all (\<lambda>(k, m). list_all (\<lambda>c. case map_of m c of Some d \<Rightarrow> d = c | None \<Rightarrow> True) alias_words)
     ciscoContextNext"
  by code_simp

lemma vocabulary_context_stable:
  "list_all (\<lambda>(k, m). list_all (\<lambda>c. case map_of m c of Some d \<Rightarrow> d = c | None \<Rightarrow> True) ciscoVocabulary)
     ciscoContextNext"
  by code_simp

lemma context_keys_no_blank: "list_all (\<lambda>(k, m). CHR '' '' \<notin> set k) ciscoContextNext"
  by code_simp

lemma context_lookup_mem:
  assumes "context_lookup k a = Some c"
  shows "\<exists>m. (k, m) \<in> set ciscoContextNext \<and> (a, c) \<in> set m"
  using assms by (auto simp: context_lookup_def dest: map_of_SomeD split: option.splits)

lemma context_lookup_stable:
  "context_lookup k a = Some c \<Longrightarrow> context_word k c"
  using context_words_stable by (fastforce simp: list_all_iff dest!: context_lookup_mem)

lemma context_stable_listed:
  assumes "c \<in> set alias_words \<or> c \<in> set ciscoVocabulary"
  shows "context_stable k c"
proof (cases "map_of ciscoContextNext k")
  case None
  then show ?thesis by (simp add: context_stable_def context_lookup_def)
next
  case (Some m)
  then have "(k, m) \<in> set ciscoContextNext" by (rule map_of_SomeD)
  with assms have "case map_of m c of Some d \<Rightarrow> d = c | None \<Rightarrow> True"
    using alias_words_context_stable vocabulary_context_stable by (fastforce simp: list_all_iff)
  with Some show ?thesis by (simp add: context_stable_def context_lookup_def)
qed

text \<open>The two-word keys the Go comment announces do not exist: that lookup never succeeds.\<close>

lemma two_word_context_dead: "context_lookup (p @ '' '' @ q) t = None"
proof (cases "context_lookup (p @ '' '' @ q) t")
  case None
  then show ?thesis .
next
  case (Some c)
  then obtain m where "(p @ '' '' @ q, m) \<in> set ciscoContextNext"
    by (blast dest: context_lookup_mem)
  then show ?thesis using context_keys_no_blank by (fastforce simp: list_all_iff)
qed

lemma ciscoContextExpand_eq:
  "ciscoContextExpand t prev =
     (if prev = [] then [] else case context_lookup (last prev) t of Some c \<Rightarrow> c | None \<Rightarrow> [])"
  using two_word_context_dead [of "last (butlast prev)" "last prev" t]
  by (simp add: ciscoContextExpand_def split: option.split)

lemma ciscoUniquePrefix_mem:
  "ciscoUniquePrefix t \<noteq> [] \<Longrightarrow> ciscoUniquePrefix t \<in> set ciscoVocabulary"
proof -
  assume ne: "ciscoUniquePrefix t \<noteq> []"
  then obtain m where m: "filter (\<lambda>w. has_prefix w t) ciscoVocabulary = [m]"
    by (auto simp: ciscoUniquePrefix_def split: list.splits)
  then have "m \<in> set ciscoVocabulary"
    by (metis filter_is_subset list.set_intros(1) subsetD)
  with m show ?thesis by (simp add: ciscoUniquePrefix_def)
qed

lemma ciscoUniquePrefix_full:
  assumes "c \<in> set ciscoVocabulary"
  shows "ciscoUniquePrefix c = [] \<or> ciscoUniquePrefix c = c"
proof -
  have "c \<in> set (filter (\<lambda>w. has_prefix w c) ciscoVocabulary)"
    using assms by simp
  then have "c \<in> set ms" if "filter (\<lambda>w. has_prefix w c) ciscoVocabulary = ms" for ms
    using that by blast
  then show ?thesis
    by (cases "filter (\<lambda>w. has_prefix w c) ciscoVocabulary" rule: remdups_adj.cases)
      (simp_all add: ciscoUniquePrefix_def)
qed

section \<open>Expansion is idempotent\<close>

definition fixed_word :: "string list \<Rightarrow> string \<Rightarrow> bool" where
  "fixed_word prev c =
     (is_word c \<and> to_lower c = c \<and>
      (prev \<noteq> [] \<and> context_lookup (last prev) c = Some c \<or>
       stable_word c \<and> (prev \<noteq> [] \<longrightarrow> context_stable (last prev) c)))"

lemma expandCiscoToken_eq:
  assumes "is_word w" "to_lower w = w"
  shows "expandCiscoToken w prev =
    (if isCiscoLiteral w then w
     else case (if prev = [] then None else context_lookup (last prev) w) of
       Some c \<Rightarrow> if c \<noteq> [] then c else expandCiscoToken w []
     | None \<Rightarrow> expandCiscoToken w [])"
proof -
  have "to_lower (trim_space w) = w" "w \<noteq> []"
    using assms by (simp_all add: is_word_trim is_word_not_Nil)
  then show ?thesis
    by (auto simp: expandCiscoToken_def Let_def ciscoContextExpand_eq split: option.split)
qed

lemma expand_no_context:
  assumes "is_word w" "to_lower w = w" "\<not> isCiscoLiteral w"
  shows "expandCiscoToken w [] =
    (case map_of ciscoTokenAlias w of
       Some c \<Rightarrow> c
     | None \<Rightarrow> if 2 \<le> length w \<and> ciscoUniquePrefix w \<noteq> [] then ciscoUniquePrefix w else w)"
proof -
  have "to_lower (trim_space w) = w" "w \<noteq> []"
    using assms by (simp_all add: is_word_trim is_word_not_Nil)
  with assms(3) show ?thesis
    by (simp add: expandCiscoToken_def Let_def ciscoContextExpand_eq)
qed

lemma stable_expand: "stable_word c \<Longrightarrow> expandCiscoToken c [] = c"
proof -
  assume c: "stable_word c"
  then have w: "is_word c" "to_lower c = c" by (simp_all add: stable_word_def)
  show ?thesis
  proof (cases "isCiscoLiteral c")
    case True
    with expandCiscoToken_eq [OF w, of "[]"] show ?thesis by simp
  next
    case False
    with c have "case map_of ciscoTokenAlias c of Some d \<Rightarrow> d = c
        | None \<Rightarrow> ciscoUniquePrefix c = [] \<or> ciscoUniquePrefix c = c"
      using ciscoUniquePrefix_full [of c] by (auto simp: stable_word_def split: option.splits)
    with expand_no_context [OF w False] show ?thesis by (auto split: option.splits)
  qed
qed

lemma expand_stable:
  assumes "fixed_word prev c"
  shows "expandCiscoToken c prev = c"
proof -
  have c: "is_word c" "to_lower c = c" "c \<noteq> []"
    using assms by (auto simp: fixed_word_def is_word_not_Nil)
  show ?thesis
  proof (cases "prev \<noteq> [] \<and> context_lookup (last prev) c = Some c")
    case True
    with c show ?thesis by (simp add: expandCiscoToken_eq [OF c(1,2), of prev])
  next
    case False
    with assms have s: "stable_word c" "prev \<noteq> [] \<longrightarrow> context_stable (last prev) c"
      by (auto simp: fixed_word_def)
    have e: "expandCiscoToken c [] = c" by (rule stable_expand) (rule s)
    with s show ?thesis
      by (auto simp: expandCiscoToken_eq [OF c(1,2), of prev] context_stable_def split: option.split)
  qed
qed

text \<open>What a lower-case word expands to: itself unchanged through every stage, or a listed word.\<close>

lemma listed_fixed:
  assumes "c \<in> set alias_words \<or> c \<in> set ciscoVocabulary"
  shows "fixed_word prev c"
proof -
  have "stable_word c"
    using assms alias_words_stable vocabulary_stable by (auto simp: list_all_iff)
  then show ?thesis
    using context_stable_listed [OF assms] by (simp add: fixed_word_def stable_word_def)
qed

lemma context_fixed:
  assumes "prev \<noteq> []" "context_lookup (last prev) w = Some c"
  shows "fixed_word prev c"
proof -
  have "context_word (last prev) c" by (rule context_lookup_stable) (rule assms)
  with assms(1) show ?thesis by (auto simp: fixed_word_def context_word_def context_stable_def)
qed

lemma expand_no_context_cases:
  assumes "is_word w" "to_lower w = w"
  shows "expandCiscoToken w [] = w \<or> expandCiscoToken w [] \<in> set alias_words
    \<or> expandCiscoToken w [] \<in> set ciscoVocabulary"
proof (cases "isCiscoLiteral w")
  case True
  with expandCiscoToken_eq [OF assms, of "[]"] show ?thesis by simp
next
  case False
  note eq = expand_no_context [OF assms False]
  show ?thesis
  proof (cases "map_of ciscoTokenAlias w")
    case None
    with eq ciscoUniquePrefix_mem [of w] show ?thesis by auto
  next
    case (Some c)
    then have "c \<in> set alias_words" by (force simp: alias_words_def dest: map_of_SomeD)
    with eq Some show ?thesis by simp
  qed
qed

lemma expand_result:
  assumes "is_word w" "to_lower w = w"
  shows "expandCiscoToken w prev = w \<or> fixed_word prev (expandCiscoToken w prev)"
proof (cases "isCiscoLiteral w \<or> prev = [] \<or> context_lookup (last prev) w = None")
  case True
  then have "expandCiscoToken w prev = w \<or> expandCiscoToken w prev = expandCiscoToken w []"
    by (auto simp: expandCiscoToken_eq [OF assms, of prev])
  with expand_no_context_cases [OF assms] show ?thesis by (auto intro: listed_fixed)
next
  case False
  then obtain c where c: "prev \<noteq> []" "context_lookup (last prev) w = Some c" by auto
  then have "fixed_word prev c" by (rule context_fixed)
  moreover from this have "c \<noteq> []" by (auto simp: fixed_word_def dest: is_word_not_Nil)
  ultimately show ?thesis using False c by (simp add: expandCiscoToken_eq [OF assms, of prev])
qed

lemma expand_idem:
  assumes "is_word w" "to_lower w = w"
  shows "expandCiscoToken (expandCiscoToken w prev) prev = expandCiscoToken w prev"
  using expand_result [OF assms, of prev] by (auto intro: expand_stable)

lemma expand_word:
  assumes "is_word w" "to_lower w = w"
  shows "is_word (expandCiscoToken w prev) \<and> to_lower (expandCiscoToken w prev) = expandCiscoToken w prev"
  using expand_result [OF assms, of prev] assms by (auto simp: fixed_word_def)

definition lower_words :: "string list \<Rightarrow> bool" where
  "lower_words ws = (\<forall>w \<in> set ws. is_word w \<and> to_lower w = w)"

lemma lower_words_simps [simp]:
  "lower_words []" "lower_words (w # ws) \<longleftrightarrow> is_word w \<and> to_lower w = w \<and> lower_words ws"
  by (auto simp: lower_words_def)

lemma expand_loop_idem:
  assumes "lower_words fs"
  shows "\<exists>es. expand_loop out fs = out @ es \<and> length es = length fs \<and> lower_words es \<and>
     expand_loop out es = out @ es \<and>
     (fs \<noteq> [] \<longrightarrow> hd es = expandCiscoToken (hd fs) (last3 out))"
  using assms
proof (induction fs arbitrary: out)
  case Nil
  then show ?case by simp
next
  case (Cons f fs)
  define e where "e = expandCiscoToken f (last3 out)"
  from Cons.prems have f: "is_word f" "to_lower f = f" by simp_all
  from Cons.prems have "lower_words fs" by simp
  from Cons.IH [OF this, of "out @ [e]"] obtain es where
    es: "expand_loop (out @ [e]) fs = out @ [e] @ es" "length es = length fs" "lower_words es"
      "expand_loop (out @ [e]) es = out @ [e] @ es"
    by auto
  have "expandCiscoToken e (last3 out) = e"
    using f unfolding e_def by (rule expand_idem)
  with es f have "expand_loop out (e # es) = out @ e # es" "lower_words (e # es)"
    by (auto simp: e_def expand_word)
  with es show ?case
    by (intro exI [of _ "e # es"]) (simp add: e_def)
qed

lemma expandCiscoTokens_idem:
  assumes "lower_words fs"
  shows "lower_words (expandCiscoTokens fs)"
    and "expandCiscoTokens (expandCiscoTokens fs) = expandCiscoTokens fs"
    and "length (expandCiscoTokens fs) = length fs"
    and "fs \<noteq> [] \<Longrightarrow> hd (expandCiscoTokens fs) = expandCiscoToken (hd fs) []"
  using expand_loop_idem [OF assms, of "[]"]
  by (auto simp: expandCiscoTokens_def last3_def)

lemma lower_words_fields: "lower_words (fields (to_lower s))"
proof -
  have "to_lower w = w" if "w \<in> set (fields t)" "to_lower t = t" for w t
    using that
  proof (induction t rule: fields.induct)
    case (1 t)
    define u where "u = dropWhile is_space t"
    have lower: "\<And>c. c \<in> set t \<Longrightarrow> ascii_lower c = c"
      using "1.prems"(2) by (metis map_eq_conv map_ident to_lower_def)
    then have u: "to_lower (takeWhile (\<lambda>c. \<not> is_space c) u) = takeWhile (\<lambda>c. \<not> is_space c) u"
      "to_lower (dropWhile (\<lambda>c. \<not> is_space c) u) = dropWhile (\<lambda>c. \<not> is_space c) u"
      by (auto simp: to_lower_def u_def intro!: map_idI
          dest!: set_takeWhileD set_dropWhileD)
    show ?case
    proof (cases "u = []")
      case True
      with "1.prems" show ?thesis by (simp add: fields.simps [of t] u_def)
    next
      case False
      with "1.prems"(1) have "w = takeWhile (\<lambda>c. \<not> is_space c) u
          \<or> w \<in> set (fields (dropWhile (\<lambda>c. \<not> is_space c) u))"
        by (simp add: fields.simps [of t] u_def [symmetric] Let_def)
      with u "1.IH" [OF u_def False] show ?thesis by auto
    qed
  qed
  then show ?thesis
    by (simp add: lower_words_def) (metis fields_words to_lower_idem)
qed

section \<open>Properties of the normaliser and the filter\<close>

lemma lower_words_strip: "lower_words fs \<Longrightarrow> lower_words (stripCiscoExecDo fs)"
  by (cases fs) (auto simp: stripCiscoExecDo_def)

definition cli_words :: "string \<Rightarrow> string list" where
  "cli_words raw = expandCiscoTokens (stripCiscoExecDo (fields (to_lower (trim_space raw))))"

lemma cli_words_lower: "lower_words (cli_words raw)"
  unfolding cli_words_def
  by (intro expandCiscoTokens_idem lower_words_strip lower_words_fields)

lemma cli_words_idem: "expandCiscoTokens (cli_words raw) = cli_words raw"
  unfolding cli_words_def
  by (intro expandCiscoTokens_idem lower_words_strip lower_words_fields)

lemma NormalizeCLI_join: "NormalizeCLI raw = join '' '' (cli_words raw)"
  by (simp add: NormalizeCLI_def cli_words_def Let_def stripCiscoExecDo_def expandCiscoTokens_def)

lemma fields_NormalizeCLI: "fields (NormalizeCLI raw) = cli_words raw"
  using cli_words_lower [of raw]
  by (simp add: NormalizeCLI_join fields_join lower_words_def)

lemma NormalizeCLI_canonical_text:
  "to_lower (trim_space (NormalizeCLI raw)) = NormalizeCLI raw"
proof -
  have words: "\<forall>w \<in> set (cli_words raw). is_word w" "map to_lower (cli_words raw) = cli_words raw"
    using cli_words_lower [of raw] by (auto simp: lower_words_def intro: map_idI)
  show ?thesis
    by (simp add: NormalizeCLI_join trim_join_words words to_lower_join)
qed

lemma cli_words_NormalizeCLI:
  "cli_words (NormalizeCLI raw) = expandCiscoTokens (stripCiscoExecDo (cli_words raw))"
  by (simp add: cli_words_def [of "NormalizeCLI raw"] NormalizeCLI_canonical_text fields_NormalizeCLI)

lemma strip_do_prefix:
  "\<not> has_prefix (join '' '' ws) ''do '' \<Longrightarrow> stripCiscoExecDo ws = ws"
  by (cases ws; cases "tl ws") (auto simp: stripCiscoExecDo_def has_prefix_iff)

text \<open>
  C14: normalising a command twice gives what normalising it once gives, unless a nested
  \<^verbatim>\<open>do\<close> is left at its head; so a policy pattern, a typed command and an already expanded command
  are all compared in one canonical form.
\<close>

theorem NormalizeCLI_idempotent:
  assumes "\<not> has_prefix (NormalizeCLI raw) ''do ''"
  shows "NormalizeCLI (NormalizeCLI raw) = NormalizeCLI raw"
proof -
  have "stripCiscoExecDo (cli_words raw) = cli_words raw"
    using assms by (simp add: NormalizeCLI_join strip_do_prefix)
  then have "cli_words (NormalizeCLI raw) = cli_words raw"
    by (simp add: cli_words_NormalizeCLI cli_words_idem)
  then show ?thesis by (simp only: NormalizeCLI_join [of "NormalizeCLI raw"] NormalizeCLI_join [of raw, symmetric])
qed

lemma config_t_normal: "NormalizeCLI ''Config  T'' = ''configure terminal''"
  by code_simp

theorem NormalizeCLI_idempotent_witness:
  "NormalizeCLI (NormalizeCLI ''Config  T'') = ''configure terminal''"
  using NormalizeCLI_idempotent [of "''Config  T''"]
  by (simp add: config_t_normal has_prefix_def)

lemma pattern_hits_words:
  assumes "fields (NormalizeCLI pat) = ps" "ps \<noteq> []" "fields (NormalizeCLI cmd) = ps @ rest"
  shows "pattern_hits (NormalizeCLI cmd) pat"
proof -
  have pat: "NormalizeCLI pat = join '' '' ps" "NormalizeCLI cmd = join '' '' (ps @ rest)"
    using assms by (metis NormalizeCLI_join fields_NormalizeCLI)+
  have words: "\<forall>w \<in> set ps. is_word w"
    using assms(1) fields_words by blast
  have "has_prefix (join '' '' (ps @ rest)) (join '' '' ps)" if "ps \<noteq> []" for ps
    using that by (induction ps) (auto simp: join_Cons has_prefix_iff)
  with pat assms(2) join_words_ends [OF words] show ?thesis
    by (simp add: pattern_hits_def Let_def)
qed

text \<open>
  C14: deny wins, on whole words and through abbreviations.  If the words of some deny pattern,
  once both sides are expanded, begin the words of the command, the command is refused whatever
  the allow list says; only the session-control commands (exit, end, logout, ...) are exempt.
\<close>

theorem CommandAllowed_deny_wins:
  assumes "d \<in> set deny" and "fields (NormalizeCLI d) = ps" and "ps \<noteq> []"
    and "fields (NormalizeCLI cmd) = ps @ rest"
    and "\<not> ciscoSessionControl (NormalizeCLI cmd)"
  shows "\<not> CommandAllowed cmd allow deny"
proof -
  have "pattern_hits (NormalizeCLI cmd) d"
    using assms(2-4) by (rule pattern_hits_words)
  with assms(1) have "list_ex (pattern_hits (NormalizeCLI cmd)) deny"
    by (auto simp: list_ex_iff)
  with assms(5) show ?thesis by (simp add: CommandAllowed_def Let_def)
qed

lemma erase_words:
  "fields (NormalizeCLI ''write erase'') = [''write'', ''erase'']"
  "fields (NormalizeCLI ''do wr er'') = [''write'', ''erase'']"
  "ciscoSessionControl (NormalizeCLI ''do wr er'') = False"
  by code_simp+

theorem CommandAllowed_deny_wins_witness:
  "\<not> CommandAllowed ''do wr er'' [''write''] [''reload'', ''write erase'']"
  using CommandAllowed_deny_wins [of "''write erase''" "[''reload'', ''write erase'']"
      "[''write'', ''erase'']" "''do wr er''" "[]" "[''write'']"]
  by (simp add: erase_words)

text \<open>
  the filter reads its two lists as sets and is monotone in them.  Dropping deny patterns, or
  adding allow patterns to a non-empty allow list (or emptying it), never takes a permitted
  command away; in particular the order in which Go's map iteration delivers a decision's
  commands does not matter.
\<close>

theorem CommandAllowed_mono:
  assumes "CommandAllowed cmd allow deny" and "set deny' \<subseteq> set deny"
    and "allow' = [] \<or> (allow \<noteq> [] \<and> set allow \<subseteq> set allow')"
  shows "CommandAllowed cmd allow' deny'"
proof (cases "ciscoSessionControl (NormalizeCLI cmd)")
  case True
  then show ?thesis by (simp add: CommandAllowed_def Let_def)
next
  case False
  with assms(1) have "\<not> list_ex (pattern_hits (NormalizeCLI cmd)) deny"
    and "allow = [] \<or> list_ex (pattern_hits (NormalizeCLI cmd)) allow"
    by (auto simp: CommandAllowed_def Let_def split: if_splits)
  with assms(2,3) show ?thesis
    by (auto simp: CommandAllowed_def Let_def list_ex_iff)
qed

lemma show_run_allowed: "CommandAllowed ''sh run'' [''show''] [''reload'', ''erase'']"
  by code_simp

theorem CommandAllowed_mono_witness:
  "CommandAllowed ''sh run'' [''ping'', ''show''] [''erase'']"
  using CommandAllowed_mono [OF show_run_allowed, of "[''erase'']" "[''ping'', ''show'']"] by simp

lemma expand_do: "expandCiscoToken ''do'' (last3 []) = ''do''"
  by code_simp

lemma normal_do_do: "\<exists>t. NormalizeCLI (''do do '' @ cmd) = ''do'' @ t"
proof -
  have "fields (''do do '' @ c) = ''do'' # ''do'' # fields c" for c
    using fields_word_append [of "''do''" "'' do '' @ c"] fields_word_append [of "''do''" "'' '' @ c"]
    by (simp add: is_word_def is_space_code)
  moreover have "\<exists>c. to_lower (trim_space (''do do '' @ cmd)) = ''do do'' \<and> c = [] \<or>
      to_lower (trim_space (''do do '' @ cmd)) = ''do do '' @ c"
  proof (cases "trim_right (''do do '' @ cmd) = ''do do''")
    case True
    then show ?thesis
      by (auto simp: trim_space_def trim_left_def is_space_code to_lower_def ascii_lower_code)
  next
    case False
    have "dropWhile is_space (rev cmd @ '' od od'') = dropWhile is_space (rev cmd) @ '' od od''
        \<or> dropWhile is_space (rev cmd @ '' od od'') = ''od od''"
      by (auto simp: dropWhile_append is_space_code)
    with False have "trim_right (''do do '' @ cmd) = ''do do '' @ trim_right cmd"
      by (auto simp: trim_right_def)
    then show ?thesis
      by (auto simp: trim_space_def trim_left_def is_space_code to_lower_def ascii_lower_code)
  qed
  ultimately obtain ws where ws: "fields (to_lower (trim_space (''do do '' @ cmd))) = ''do'' # ''do'' # ws"
    using fields_word_append [of "''do''" "'' do''"] fields_word_append [of "''do''" "[]"]
    by (fastforce simp: is_word_def is_space_code)
  then have "cli_words (''do do '' @ cmd) = expand_loop [''do''] ws"
    by (simp add: cli_words_def stripCiscoExecDo_def expandCiscoTokens_def expand_do)
  moreover have "\<exists>es. expand_loop out ws = out @ es" for out
    by (induction ws arbitrary: out) (auto, metis append.assoc append_Cons)
  ultimately obtain es where "cli_words (''do do '' @ cmd) = ''do'' # es"
    by (metis append_Cons append_Nil)
  then show ?thesis
    by (auto simp: NormalizeCLI_join join_Cons)
qed

text \<open>
  C8: only one leading \<^verbatim>\<open>do\<close> is stripped.  A command typed with two of them normalises to a
  line that begins with \<^verbatim>\<open>do\<close>, so no deny pattern whose canonical form begins with another
  letter ever matches it, and with an empty allow list it is permitted.
\<close>

theorem nested_do_evades_deny:
  assumes "\<forall>p \<in> set deny. NormalizeCLI p = [] \<or> hd (NormalizeCLI p) \<noteq> CHR ''d''"
  shows "CommandAllowed (''do do '' @ cmd) [] deny"
proof -
  obtain t where t: "NormalizeCLI (''do do '' @ cmd) = ''do'' @ t"
    using normal_do_do by blast
  have "\<not> pattern_hits (''do'' @ t) p" if "p \<in> set deny" for p
    using assms that by (cases "NormalizeCLI p") (auto simp: pattern_hits_def has_prefix_code)
  with t show ?thesis by (auto simp: CommandAllowed_def Let_def list_ex_iff)
qed

lemma reload_normal: "NormalizeCLI ''reload'' = ''reload''"
  by code_simp

theorem nested_do_evades_deny_witness:
  "CommandAllowed ''do do reload'' [] [''reload''] \<and> \<not> CommandAllowed ''do reload'' [] [''reload'']"
proof
  show "CommandAllowed ''do do reload'' [] [''reload'']"
    using nested_do_evades_deny [of "[''reload'']" "''reload''"] by (simp add: reload_normal)
  show "\<not> CommandAllowed ''do reload'' [] [''reload'']" by code_simp
qed

end
