(* ===== verification/Database.thy ===== *)
theory Database
  imports GoStrings
begin

text \<open>
  The SQLite database of \<^verbatim>\<open>internal/db/db.go\<close>: one record per \<^verbatim>\<open>CREATE TABLE\<close> statement that the
  modelled services use (columns of later \<^verbatim>\<open>ALTER TABLE\<close> statements included; a column that may be
  NULL is an \<open>option\<close>), and the database as the record of its tables.  A table is the list of its
  rows in rowid order, \<open>seq\<close> is SQLite's \<^verbatim>\<open>sqlite_sequence\<close> for the AUTOINCREMENT keys and \<open>clock\<close>
  is \<^verbatim>\<open>db.Now()\<close>, read as one instant within one call.

  Any statement may fail (a locked or missing file, a cancelled context).  The environment's
  choice is the field \<open>faults\<close>: a statement whose tag it maps to true returns an error and changes
  nothing.  No operation writes that field, so a theorem that does not mention it holds whichever
  statements fail.  Foreign keys are on, as in every DSN of the repository.
\<close>

section \<open>Rows\<close>

record user_row =
  u_id :: int
  u_username :: string
  u_email :: "string option"
  u_password_hash :: string
  u_role :: string
  u_mfa_secret :: "string option"
  u_mfa_enabled :: int
  u_source :: string
  u_external_dn :: "string option"
  u_last_login :: "int option"
  u_created_at :: int
  u_disabled :: int
  u_role_locked :: int
  u_mfa_exempt :: int

record target_row =
  t_id :: int
  t_name :: string
  t_kind :: string
  t_host :: string
  t_port :: int
  t_tier :: int
  t_tags :: string
  t_location_id :: "int option"
  t_connection_type :: string
  t_web_url :: string
  t_vendor :: string
  t_os_version :: string
  t_db_name :: string

record policy_row =
  p_id :: int
  p_role :: string
  p_target_kind :: string
  p_tier_max :: int
  p_require_approval :: int
  p_allowed_commands :: string
  p_denied_commands :: string
  p_linux_privilege :: string
  p_cisco_privilege_level :: int

record request_row =
  ar_id :: int
  ar_user_id :: int
  ar_target_id :: int
  ar_reason :: string
  ar_status :: string
  ar_approver_id :: "int option"
  ar_created_at :: int
  ar_decided_at :: "int option"
  ar_ttl_seconds :: "int option"
  ar_sudo_requested :: int
  ar_sudo_granted :: int

record decision_row =
  ad_id :: int
  ad_request_id :: int
  ad_approver_id :: int
  ad_approve :: int
  ad_comment :: string
  ad_decided_at :: int

record matrix_row =
  am_id :: int
  am_name :: string
  am_target_kind :: string
  am_tier_min :: int
  am_tier_max :: int
  am_required_approvals :: int
  am_requester_group_ids :: string
  am_approver_group_ids :: string
  am_priority :: int
  am_enabled :: int
  am_created_at :: int

record group_row =
  g_id :: int
  g_name :: string
  g_description :: string
  g_role :: string
  g_ldap_dn :: "string option"
  g_source :: string
  g_created_at :: int

record user_group_row =
  ug_user_id :: int
  ug_group_id :: int
  ug_added_at :: int

record account_row =
  pa_id :: int
  pa_safe_id :: int
  pa_name :: string
  pa_username :: string
  pa_target_id :: "int option"
  pa_platform :: string
  pa_secret_ref :: string
  pa_last_rotated :: "int option"
  pa_next_rotation :: "int option"
  pa_rotation_status :: string
  pa_rotation_error :: string
  pa_notes :: string
  pa_created_at :: int

record radius_client_row =
  rc_id :: int
  rc_name :: string
  rc_nas_ip :: string
  rc_secret :: string
  rc_require_message_auth :: int
  rc_vendor :: string
  rc_disabled :: int
  rc_created_at :: int

record setting_row =
  s_key :: string
  s_value :: string
  s_updated_at :: int

record safe_row =
  sf_id :: int
  sf_name :: string
  sf_description :: string
  sf_cpm_enabled :: int
  sf_rotation_days :: int
  sf_require_dual_control :: int
  sf_created_at :: int

record safe_member_row =
  sm_safe_id :: int
  sm_principal_type :: string
  sm_principal_id :: int
  sm_permissions :: string
  sm_added_at :: int

record rotation_row =
  rh_id :: int
  rh_account_id :: int
  rh_ts :: int
  rh_status :: string
  rh_actor :: string
  rh_detail :: string

record checkout_row =
  co_id :: int
  co_account_id :: int
  co_user_id :: int
  co_checked_out_at :: int
  co_returned_at :: "int option"
  co_reason :: string
  co_break_glass :: int

record app_row =
  ap_id :: int
  ap_name :: string
  ap_api_key_hash :: string
  ap_safe_id :: "int option"
  ap_allowed_accounts :: string
  ap_client_ip_allow :: string
  ap_enabled :: int
  ap_last_used :: "int option"
  ap_created_at :: int

record secret_row =
  se_id :: int
  se_name :: string
  se_target_id :: "int option"
  se_ciphertext :: string
  se_rotation_due :: "int option"
  se_updated_at :: int

record session_row =
  ss_id :: string
  ss_user_id :: int
  ss_target_id :: int
  ss_started_at :: int
  ss_ended_at :: "int option"
  ss_recording_path :: "string option"
  ss_client_ip :: "string option"
  ss_ended_reason :: "string option"
  ss_protocol :: string
  ss_account_id :: "int option"

record audit_row =
  ev_id :: int
  ev_ts :: int
  ev_actor :: string
  ev_kind :: string
  ev_target :: "string option"
  ev_detail :: "string option"
  ev_severity :: string
  ev_source :: string

record alert_row =
  ta_id :: int
  ta_ts :: int
  ta_user_id :: "int option"
  ta_username :: string
  ta_category :: string
  ta_severity :: string
  ta_message :: string
  ta_detail :: string
  ta_acknowledged :: int

record termination_row =
  st_session_id :: string
  st_requested_by :: int
  st_requested_at :: int
  st_reason :: string
  st_acknowledged_at :: "int option"

record role_row =
  rl_id :: int
  rl_name :: string
  rl_description :: string
  rl_builtin :: int
  rl_created_at :: int

record location_row =
  lo_id :: int
  lo_name :: string
  lo_description :: string
  lo_sort_order :: int
  lo_created_at :: int

record birthright_row =
  ba_id :: int
  ba_user_id :: int
  ba_target_id :: int
  ba_granted_by :: "int option"
  ba_granted_at :: int
  ba_note :: string

section \<open>The database\<close>

datatype table =
    T_policies | T_access_requests | T_approval_decisions | T_approval_matrix | T_groups
  | T_users | T_targets | T_safes | T_privileged_accounts | T_rotation_history
  | T_credential_checkouts | T_app_credentials | T_secrets | T_audit_events | T_threat_alerts
  | T_roles | T_locations | T_birthright_assignments

text \<open>One tag per SQL statement of the modelled code; a service with few statements names them in
  \<open>Stmt\<close>.\<close>

datatype sql_stmt =
    Policy_Decide string | Policy_List | Policy_Insert | Policy_Update | Policy_Delete
  | Groups_List | Groups_Get | Groups_Insert | Groups_Update | Groups_Delete | Groups_ByDN
  | Member_Add int | Member_Remove | Member_List | Member_Ids int | Member_Groups | Member_Roles int
  | Tx_Begin | Tx_Delete | Tx_Commit
  | Matrix_List | Matrix_Insert | Matrix_Update | Matrix_Delete | Matrix_Find
  | Request_Insert | Request_Get int | Request_Pending | Request_Enriched | Request_Approved
  | Request_Finalize | Request_Revoke | Request_Renew | Request_Sudo | Request_Is_Approved
  | Request_Active_Sudo | Target_Meta | Vote_Insert | Vote_Tally | Vote_List int
  | Inventory_List | Clients_Load | User_By_Name | User_By_Email | User_Hash | User_Source
  | Target_Kind | Target_By_Host | Device_Account | Fortinet_Setting
  | Author_User | Admin_By_Name | Admin_By_Email | Stmt string

record pam_db =
  users :: "user_row list"
  targets :: "target_row list"
  policies :: "policy_row list"
  access_requests :: "request_row list"
  approval_decisions :: "decision_row list"
  approval_matrix :: "matrix_row list"
  groups :: "group_row list"
  user_groups :: "user_group_row list"
  privileged_accounts :: "account_row list"
  radius_clients :: "radius_client_row list"
  settings :: "setting_row list"
  safes :: "safe_row list"
  safe_members :: "safe_member_row list"
  rotation_history :: "rotation_row list"
  credential_checkouts :: "checkout_row list"
  app_credentials :: "app_row list"
  secrets :: "secret_row list"
  sessions :: "session_row list"
  audit_events :: "audit_row list"
  threat_alerts :: "alert_row list"
  session_terminations :: "termination_row list"
  role_defs :: "role_row list"
  locations :: "location_row list"
  birthright_assignments :: "birthright_row list"
  seq :: "table \<Rightarrow> int"
  clock :: int
  faults :: "sql_stmt \<Rightarrow> bool"

text \<open>The database that the migrations leave: every table empty (\<^verbatim>\<open>migrate\<close> inserts no row), and a
  run in which no statement fails.\<close>

definition empty_db :: pam_db where
  "empty_db =
     \<lparr>users = [], targets = [], policies = [], access_requests = [], approval_decisions = [],
      approval_matrix = [], groups = [], user_groups = [], privileged_accounts = [],
      radius_clients = [], settings = [], safes = [], safe_members = [], rotation_history = [],
      credential_checkouts = [], app_credentials = [], secrets = [], sessions = [], audit_events = [],
      threat_alerts = [], session_terminations = [], role_defs = [], locations = [],
      birthright_assignments = [], seq = (\<lambda>t. 0), clock = 0, faults = (\<lambda>s. False)\<rparr>"

section \<open>Errors\<close>

text \<open>
  The \<^verbatim>\<open>error\<close> values: a failed statement, \<^verbatim>\<open>sql.ErrNoRows\<close>, a violated constraint, and the
  messages the code makes with \<^verbatim>\<open>errors.New\<close> or \<^verbatim>\<open>fmt.Errorf\<close>.
\<close>

datatype err = ErrSql sql_stmt | ErrNoRows | ErrConstraint | ErrMsg string

section \<open>Keys\<close>

text \<open>\<^verbatim>\<open>INTEGER PRIMARY KEY AUTOINCREMENT\<close>: one more than the largest key ever used.\<close>

definition next_id :: "table \<Rightarrow> pam_db \<Rightarrow> int" where
  "next_id t db = seq db t + 1"

definition bump_seq :: "table \<Rightarrow> pam_db \<Rightarrow> pam_db" where
  "bump_seq t db = db\<lparr>seq := (seq db)(t := seq db t + 1)\<rparr>"

text \<open>The keys of a table are distinct and none is above its sequence.\<close>

definition keys_ok :: "int list \<Rightarrow> int \<Rightarrow> bool" where
  "keys_ok ids hi = (distinct ids \<and> (\<forall>i \<in> set ids. 0 < i \<and> i \<le> hi))"

lemma keys_ok_snoc: "keys_ok ids hi \<Longrightarrow> 0 \<le> hi \<Longrightarrow> keys_ok (ids @ [hi + 1]) (hi + 1)"
  by (fastforce simp: keys_ok_def)

lemma keys_ok_fresh: "keys_ok ids hi \<Longrightarrow> hi + 1 \<notin> set ids"
  by (auto simp: keys_ok_def)

lemma keys_ok_delete:
  "keys_ok (map f rows) hi \<Longrightarrow> keys_ok (map f (delete_where p rows)) hi"
  by (auto simp: keys_ok_def distinct_map_delete_where)

lemma keys_ok_row:
  assumes "keys_ok (map f rows) hi" "r \<in> set rows" "r' \<in> set rows" "f r = f r'"
  shows "r = r'"
  using assms by (auto simp: keys_ok_def distinct_map inj_on_def)

text \<open>The row with a given key, \<^verbatim>\<open>WHERE id = ?\<close>.\<close>

definition row_by :: "('r \<Rightarrow> 'k) \<Rightarrow> 'k \<Rightarrow> 'r list \<Rightarrow> 'r option" where
  "row_by f k rows = first_row (filter (\<lambda>r. f r = k) rows)"

lemma row_by_Some: "row_by f k rows = Some r \<Longrightarrow> r \<in> set rows \<and> f r = k"
  by (auto simp: row_by_def dest!: first_row_mem)

lemma row_by_None: "row_by f k rows = None \<longleftrightarrow> k \<notin> f ` set rows"
  by (auto simp: row_by_def filter_empty_conv)

lemma row_by_unique:
  assumes "distinct (map f rows)" "r \<in> set rows"
  shows "row_by f (f r) rows = Some r"
proof (cases "row_by f (f r) rows")
  case None
  with assms(2) show ?thesis by (simp add: row_by_None)
next
  case (Some r')
  then have "r' \<in> set rows" "f r' = f r" by (auto dest: row_by_Some)
  with assms have "r' = r" by (auto simp: distinct_map inj_on_def)
  with Some show ?thesis by simp
qed

lemma row_by_append_fresh:
  "k \<notin> f ` set rows \<Longrightarrow> f r = k \<Longrightarrow> row_by f k (rows @ [r]) = Some r"
proof -
  assume "k \<notin> f ` set rows" "f r = k"
  then have "filter (\<lambda>r. f r = k) rows = []" by (auto simp: filter_empty_conv image_iff)
  with \<open>f r = k\<close> show ?thesis by (simp add: row_by_def)
qed

lemma row_by_update:
  assumes "\<And>r. f (g r) = f r"
  shows "row_by f k (update_where p g rows) =
    map_option (\<lambda>r. if p r then g r else r) (row_by f k rows)"
  by (induction rows) (auto simp: row_by_def update_where_def assms)

lemma row_by_append_Some: "row_by f k rows = Some r \<Longrightarrow> row_by f k (rows @ rs) = Some r"
  by (cases "filter (\<lambda>r. f r = k) rows") (auto simp: row_by_def)

end
