(* ===== verification/KeyedStore.thy ===== *)
theory KeyedStore
  imports Database
begin

text \<open>
  The contract that every administrative table of the platform shares (policy rules, the approval
  matrix, user groups): rows under an AUTOINCREMENT key, and the operations create, update and
  delete, each of which either succeeds or leaves the table alone.  The facts that follow from the
  contract alone are proved here once; the component theories interpret the locale on their own
  operations.
\<close>

definition table_ok :: "('s \<Rightarrow> 'r list) \<Rightarrow> ('r \<Rightarrow> int) \<Rightarrow> ('s \<Rightarrow> int) \<Rightarrow> 's \<Rightarrow> bool" where
  "table_ok rows key hi s = (0 \<le> hi s \<and> keys_ok (map key (rows s)) (hi s))"

locale keyed_store =
  fixes rows :: "'s \<Rightarrow> 'r list"
    and key :: "'r \<Rightarrow> int"
    and hi :: "'s \<Rightarrow> int"
    and create :: "'a \<Rightarrow> 's \<Rightarrow> (err + int) \<times> 's"
    and update :: "'a \<Rightarrow> 's \<Rightarrow> (err + unit) \<times> 's"
    and delete :: "int \<Rightarrow> 's \<Rightarrow> (err + unit) \<times> 's"
  assumes create_ok: "create a s = (Inr i, s') \<Longrightarrow>
      i = hi s + 1 \<and> hi s' = i \<and> (\<exists>r. key r = i \<and> rows s' = rows s @ [r])"
    and create_err: "create a s = (Inl e, s') \<Longrightarrow> s' = s"
    and update_ok: "update a s = (Inr u, s') \<Longrightarrow> map key (rows s') = map key (rows s) \<and> hi s' = hi s"
    and update_err: "update a s = (Inl e, s') \<Longrightarrow> s' = s"
    and delete_ok: "delete i s = (Inr u, s') \<Longrightarrow>
      i \<in> key ` set (rows s) \<and> rows s' = delete_where (\<lambda>r. key r = i) (rows s) \<and> hi s' = hi s"
    and delete_err: "delete i s = (Inl e, s') \<Longrightarrow> s' = s"
begin

lemma create_keeps:
  assumes "table_ok rows key hi s"
  shows "table_ok rows key hi (snd (create a s)) \<and> hi s \<le> hi (snd (create a s))"
proof (cases "create a s")
  case (Pair res s')
  show ?thesis
  proof (cases res)
    case (Inl e)
    with Pair have "s' = s" using create_err by simp
    with Pair assms show ?thesis by simp
  next
    case (Inr i)
    with Pair obtain r where "hi s' = hi s + 1" "key r = hi s + 1" "rows s' = rows s @ [r]"
      using create_ok by blast
    with Pair assms show ?thesis
      using keys_ok_snoc [of "map key (rows s)" "hi s"] by (simp add: table_ok_def)
  qed
qed

lemma update_keeps:
  assumes "table_ok rows key hi s"
  shows "table_ok rows key hi (snd (update a s)) \<and> hi s \<le> hi (snd (update a s))"
proof (cases "update a s")
  case (Pair res s')
  then show ?thesis
  proof (cases res)
    case (Inl e)
    with Pair have "s' = s" using update_err by simp
    with Pair assms show ?thesis by simp
  next
    case (Inr u)
    with Pair have "map key (rows s') = map key (rows s)" "hi s' = hi s"
      using update_ok by blast+
    with Pair assms show ?thesis by (simp add: table_ok_def)
  qed
qed

lemma delete_keeps:
  assumes "table_ok rows key hi s"
  shows "table_ok rows key hi (snd (delete i s)) \<and> hi s \<le> hi (snd (delete i s))"
proof (cases "delete i s")
  case (Pair res s')
  then show ?thesis
  proof (cases res)
    case (Inl e)
    with Pair have "s' = s" using delete_err by simp
    with Pair assms show ?thesis by simp
  next
    case (Inr u)
    with Pair have "rows s' = delete_where (\<lambda>r. key r = i) (rows s)" "hi s' = hi s"
      using delete_ok by blast+
    with Pair assms show ?thesis by (simp add: table_ok_def keys_ok_delete)
  qed
qed

lemma create_fresh:
  assumes "table_ok rows key hi s" "create a s = (Inr i, s')"
  shows "i \<notin> key ` set (rows s) \<and> (\<exists>r. row_by key i (rows s') = Some r)"
proof -
  from assms(2) obtain r where r: "i = hi s + 1" "key r = i" "rows s' = rows s @ [r]"
    using create_ok by blast
  with assms(1) have "i \<notin> key ` set (rows s)"
    using keys_ok_fresh [of "map key (rows s)" "hi s"] by (simp add: table_ok_def)
  with r show ?thesis by (auto intro: row_by_append_fresh)
qed

lemma delete_gone:
  assumes "delete i s = (Inr u, s')"
  shows "row_by key i (rows s') = None \<and>
    (\<forall>k. k \<noteq> i \<longrightarrow> row_by key k (rows s') = row_by key k (rows s))"
proof -
  from assms have rows: "rows s' = delete_where (\<lambda>r. key r = i) (rows s)"
    using delete_ok by blast
  have "filter (\<lambda>r. key r = k) (delete_where (\<lambda>r. key r = i) zs) = filter (\<lambda>r. key r = k) zs"
    if "k \<noteq> i" for k zs
    using that by (induction zs) (auto simp: delete_where_def)
  with rows show ?thesis by (auto simp: row_by_def filter_empty_conv)
qed

text \<open>Any sequence of administrative operations keeps the keys distinct and never reuses one.\<close>

inductive reaches :: "'s \<Rightarrow> 's \<Rightarrow> bool" where
  start: "reaches s s"
| created: "reaches s t \<Longrightarrow> reaches s (snd (create a t))"
| updated: "reaches s t \<Longrightarrow> reaches s (snd (update a t))"
| deleted: "reaches s t \<Longrightarrow> reaches s (snd (delete i t))"

lemma reaches_keeps:
  assumes "reaches s t" "table_ok rows key hi s"
  shows "table_ok rows key hi t \<and> hi s \<le> hi t"
  using assms
proof (induction rule: reaches.induct)
  case (start s)
  then show ?case by simp
next
  case (created s t a)
  then show ?case using create_keeps [of t a] by auto
next
  case (updated s t a)
  then show ?case using update_keeps [of t a] by auto
next
  case (deleted s t i)
  then show ?case using delete_keeps [of t i] by auto
qed

lemma id_never_reused:
  assumes "table_ok rows key hi s" "reaches s t" "create a t = (Inr i, t')"
  shows "i \<notin> key ` set (rows s)"
proof -
  have "i = hi t + 1" using create_ok assms(3) by blast
  moreover have "hi s \<le> hi t" using reaches_keeps assms(1,2) by blast
  ultimately show ?thesis
    using assms(1) by (fastforce simp: table_ok_def keys_ok_def)
qed

end

end
