(* ===== verification/PolicyEngine.thy ===== *)
theory PolicyEngine
  imports CiscoCli KeyedStore
begin

text \<open>
  The authorisation engine: \<^verbatim>\<open>internal/policy/policy.go\<close> (\<^verbatim>\<open>Engine.Decide\<close> and the rule CRUD),
  \<^verbatim>\<open>internal/policy/cisco.go\<close> and \<^verbatim>\<open>internal/policy/linux.go\<close>.  \<open>Decide\<close> reads one best rule per
  effective role and merges the rules that reach the target's tier; the section on its
  specification states the merge declaratively and proves that the loop computes it.
\<close>

section \<open>Cisco privilege levels\<close>

definition IsCiscoKind :: "string \<Rightarrow> bool" where
  "IsCiscoKind kind = (let k = to_lower (trim_space kind) in k = ''cisco'' \<or> has_prefix k ''cisco-'')"

definition CiscoPrivilegeFromRole :: "string \<Rightarrow> int" where
  "CiscoPrivilegeFromRole role =
     (let r = to_lower (trim_space role) in
      if r = ''admin'' \<or> r = ''secops'' then 15
      else if r = ''netops'' then 10
      else if r = ''viewer'' \<or> r = ''user'' then 1
      else 1)"

definition NormalizeCiscoPrivilegeLevel :: "int \<Rightarrow> int" where
  "NormalizeCiscoPrivilegeLevel n = (if n \<le> 0 then 0 else if 15 < n then 15 else n)"

definition MergeCiscoPrivilegeLevel :: "int \<Rightarrow> int \<Rightarrow> int" where
  "MergeCiscoPrivilegeLevel cur nxt =
     (let current = NormalizeCiscoPrivilegeLevel cur; next = NormalizeCiscoPrivilegeLevel nxt in
      if next \<le> 0 then current
      else if current \<le> 0 then next
      else if current < next then next
      else current)"

section \<open>Linux privileges\<close>

definition IsLinuxKind :: "string \<Rightarrow> bool" where
  "IsLinuxKind kind =
     (let k = to_lower (trim_space kind) in
      if k = [] then False
      else if kind_family k \<in> set [''linux'', ''ubuntu'', ''debian'', ''rhel'', ''centos'',
                 ''rocky'', ''alma'', ''suse'', ''amazon'']
      then True
      else k = ''amazon-linux'')"

definition NormalizeLinuxPrivilege :: "string \<Rightarrow> string" where
  "NormalizeLinuxPrivilege p =
     (let q = to_lower (trim_space p) in if q = ''sudo'' \<or> q = ''root'' then q else ''none'')"

definition linuxPrivilegeRank :: "string \<Rightarrow> int" where
  "linuxPrivilegeRank p =
     (let q = NormalizeLinuxPrivilege p in
      if q = ''root'' then 2 else if q = ''sudo'' then 1 else 0)"

definition MergeLinuxPrivilege :: "string \<Rightarrow> string \<Rightarrow> string" where
  "MergeLinuxPrivilege current next =
     (if linuxPrivilegeRank current < linuxPrivilegeRank next
      then NormalizeLinuxPrivilege next else NormalizeLinuxPrivilege current)"

section \<open>Decide\<close>

record decision =
  Allow :: bool
  RequireApproval :: bool
  Reasons :: "string list"
  AllowedCmds :: "string list"
  DeniedCmds :: "string list"
  LinuxPrivilege :: string
  CiscoPrivilegeLevel :: int

record policy_input =
  in_UserID :: int
  in_Role :: string
  in_Roles :: "string list"
  in_TargetID :: int
  in_TargetKind :: string
  in_TargetTier :: int
  in_Action :: string

definition empty_decision :: decision where
  "empty_decision =
     \<lparr>Allow = False, RequireApproval = False, Reasons = [], AllowedCmds = [], DeniedCmds = [],
      LinuxPrivilege = [], CiscoPrivilegeLevel = 0\<rparr>"

definition EffectiveCiscoPrivilege :: "decision \<Rightarrow> string \<Rightarrow> int" where
  "EffectiveCiscoPrivilege dec role =
     (if 0 < CiscoPrivilegeLevel dec then CiscoPrivilegeLevel dec else CiscoPrivilegeFromRole role)"

definition splitCSV :: "string \<Rightarrow> string list" where
  "splitCSV s =
     (if s = [] then [] else filter (\<lambda>p. p \<noteq> []) (map trim_space (split_on (CHR '','') s)))"

text \<open>A Go map used as a set, read back by ranging over its keys: \<open>remdups\<close> of the insertions (the
  order of Go's range is unspecified).\<close>

definition policyMatchKinds :: "string \<Rightarrow> string \<Rightarrow> string list" where
  "policyMatchKinds exactKind family =
     remdups (''*'' # filter (\<lambda>k. k \<noteq> []) (map (\<lambda>k. to_lower (trim_space k))
       ([exactKind, family] @
        (if family \<in> set [''ubuntu'', ''debian'', ''rhel'', ''centos'', ''rocky'', ''alma'',
              ''suse'', ''linux'']
         then [''linux''] else []))))"

text \<open>The query of one role: \<^verbatim>\<open>WHERE role = ? AND target_kind IN (...) ORDER BY CASE ... LIMIT 1\<close>.\<close>

definition kind_rank :: "string \<Rightarrow> string \<Rightarrow> string \<Rightarrow> int" where
  "kind_rank exactKind family k =
     (if k = exactKind then 0 else if k = family then 1 else if k = ''linux'' then 2 else 3)"

definition role_rule :: "pam_db \<Rightarrow> string \<Rightarrow> string \<Rightarrow> string \<Rightarrow> policy_row option" where
  "role_rule db exactKind family role =
     first_row (sort_key (\<lambda>p. kind_rank exactKind family (p_target_kind p))
       (filter (\<lambda>p. p_role p = role \<and> p_target_kind p \<in> set (policyMatchKinds exactKind family))
         (policies db)))"

record decide_acc =
  final :: decision
  allowSeen :: bool
  allowedSet :: "string list"
  deniedSet :: "string list"

definition merge_rule :: "policy_row \<Rightarrow> decide_acc \<Rightarrow> decide_acc" where
  "merge_rule p a =
     (let f = final a in
      \<lparr>final = f\<lparr>
         RequireApproval := (RequireApproval f \<or> p_require_approval p \<noteq> 0),
         LinuxPrivilege := MergeLinuxPrivilege (LinuxPrivilege f) (p_linux_privilege p),
         CiscoPrivilegeLevel :=
           MergeCiscoPrivilegeLevel (CiscoPrivilegeLevel f) (p_cisco_privilege_level p)\<rparr>,
       allowSeen = True,
       allowedSet = allowedSet a @ splitCSV (p_allowed_commands p),
       deniedSet = deniedSet a @ splitCSV (p_denied_commands p)\<rparr>)"

fun decide_loop :: "pam_db \<Rightarrow> int \<Rightarrow> string \<Rightarrow> string \<Rightarrow> string list \<Rightarrow> decide_acc \<Rightarrow> err + decide_acc" where
  "decide_loop db tier exactKind family [] a = Inr a"
| "decide_loop db tier exactKind family (role # roles) a =
     (if faults db (Policy_Decide role) then Inl (ErrSql (Policy_Decide role))
      else case role_rule db exactKind family role of
        None \<Rightarrow> decide_loop db tier exactKind family roles a
      | Some p \<Rightarrow>
          if p_tier_max p < tier then decide_loop db tier exactKind family roles a
          else decide_loop db tier exactKind family roles (merge_rule p a))"

definition acc0 :: decide_acc where
  "acc0 = \<lparr>final = empty_decision\<lparr>LinuxPrivilege := ''none''\<rparr>, allowSeen = False,
           allowedSet = [], deniedSet = []\<rparr>"

definition effective_roles :: "policy_input \<Rightarrow> string list" where
  "effective_roles inp = (if in_Roles inp = [] \<and> in_Role inp \<noteq> [] then [in_Role inp] else in_Roles inp)"

definition deny_reason :: "string list \<Rightarrow> string \<Rightarrow> string \<Rightarrow> int \<Rightarrow> string" where
  "deny_reason roles exactKind family tier =
     ''no policy permits roles='' @ go_list roles @ '' on kind='' @ go_quote exactKind @
     '' (family='' @ go_quote family @ '') at tier='' @ string_of_int tier"

definition Decide :: "pam_db \<Rightarrow> policy_input \<Rightarrow> err + decision" where
  "Decide db inp =
     (let roles = effective_roles inp in
      if roles = [] then Inr (empty_decision\<lparr>Reasons := [''no role'']\<rparr>)
      else
        let exactKind = to_lower (trim_space (in_TargetKind inp));
            family = kind_family exactKind
        in case decide_loop db (in_TargetTier inp) exactKind family roles acc0 of
             Inl e \<Rightarrow> Inl e
           | Inr a \<Rightarrow>
               if \<not> allowSeen a then
                 Inr ((final a)\<lparr>Allow := False,
                   Reasons := [deny_reason roles exactKind family (in_TargetTier inp)]\<rparr>)
               else
                 Inr ((final a)\<lparr>Allow := True,
                   AllowedCmds := remdups (allowedSet a), DeniedCmds := remdups (deniedSet a)\<rparr>))"

section \<open>Rules: list, create, update, delete\<close>

record rule =
  ru_ID :: int
  ru_Role :: string
  ru_TargetKind :: string
  ru_TierMax :: int
  ru_RequireApproval :: bool
  ru_AllowedCommands :: string
  ru_DeniedCommands :: string
  ru_LinuxPrivilege :: string
  ru_CiscoPrivilegeLevel :: int

definition rule_of_row :: "policy_row \<Rightarrow> rule" where
  "rule_of_row p =
     \<lparr>ru_ID = p_id p, ru_Role = p_role p, ru_TargetKind = p_target_kind p, ru_TierMax = p_tier_max p,
      ru_RequireApproval = (p_require_approval p \<noteq> 0), ru_AllowedCommands = p_allowed_commands p,
      ru_DeniedCommands = p_denied_commands p, ru_LinuxPrivilege = p_linux_privilege p,
      ru_CiscoPrivilegeLevel = p_cisco_privilege_level p\<rparr>"

definition ListRules :: "pam_db \<Rightarrow> err + rule list" where
  "ListRules db =
     (if faults db Policy_List then Inl (ErrSql Policy_List)
      else Inr (map rule_of_row (sort_key (\<lambda>p. (p_role p, p_target_kind p)) (policies db))))"

definition row_of_rule :: "int \<Rightarrow> rule \<Rightarrow> policy_row" where
  "row_of_rule i r =
     \<lparr>p_id = i, p_role = ru_Role r, p_target_kind = ru_TargetKind r, p_tier_max = ru_TierMax r,
      p_require_approval = (if ru_RequireApproval r then 1 else 0),
      p_allowed_commands = ru_AllowedCommands r, p_denied_commands = ru_DeniedCommands r,
      p_linux_privilege = NormalizeLinuxPrivilege (ru_LinuxPrivilege r),
      p_cisco_privilege_level = NormalizeCiscoPrivilegeLevel (ru_CiscoPrivilegeLevel r)\<rparr>"

definition CreateRule :: "rule \<Rightarrow> pam_db \<Rightarrow> (err + int) \<times> pam_db" where
  "CreateRule r db =
     (if ru_Role r = [] \<or> ru_TargetKind r = []
      then (Inl (ErrMsg ''role and target_kind are required''), db)
      else if faults db Policy_Insert then (Inl (ErrSql Policy_Insert), db)
      else
        let i = next_id T_policies db in
        (Inr i, (bump_seq T_policies db)\<lparr>policies := policies db @ [row_of_rule i r]\<rparr>))"

definition UpdateRule :: "rule \<Rightarrow> pam_db \<Rightarrow> (err + unit) \<times> pam_db" where
  "UpdateRule r db =
     (if ru_ID r \<le> 0 then (Inl (ErrMsg ''id required''), db)
      else if faults db Policy_Update then (Inl (ErrSql Policy_Update), db)
      else if rows_affected (\<lambda>p. p_id p = ru_ID r) (policies db) = 0
      then (Inl (ErrMsg ''policy not found''), db)
      else
        (Inr (), db\<lparr>policies :=
           update_where (\<lambda>p. p_id p = ru_ID r) (\<lambda>p. row_of_rule (p_id p) r) (policies db)\<rparr>))"

definition DeleteRule :: "int \<Rightarrow> pam_db \<Rightarrow> (err + unit) \<times> pam_db" where
  "DeleteRule i db =
     (if faults db Policy_Delete then (Inl (ErrSql Policy_Delete), db)
      else if rows_affected (\<lambda>p. p_id p = i) (policies db) = 0
      then (Inl (ErrMsg ''policy not found''), db)
      else (Inr (), db\<lparr>policies := delete_where (\<lambda>p. p_id p = i) (policies db)\<rparr>))"

section \<open>Privilege merging\<close>

lemma NormalizeCiscoPrivilegeLevel_range:
  "0 \<le> NormalizeCiscoPrivilegeLevel n \<and> NormalizeCiscoPrivilegeLevel n \<le> 15"
  by (simp add: NormalizeCiscoPrivilegeLevel_def)

lemma NormalizeCiscoPrivilegeLevel_id:
  "0 \<le> n \<Longrightarrow> n \<le> 15 \<Longrightarrow> NormalizeCiscoPrivilegeLevel n = n"
  by (auto simp: NormalizeCiscoPrivilegeLevel_def)

lemma MergeCiscoPrivilegeLevel_max:
  "MergeCiscoPrivilegeLevel a b = max (NormalizeCiscoPrivilegeLevel a) (NormalizeCiscoPrivilegeLevel b)"
  using NormalizeCiscoPrivilegeLevel_range [of a] NormalizeCiscoPrivilegeLevel_range [of b]
  by (auto simp: MergeCiscoPrivilegeLevel_def Let_def)

lemma NormalizeLinuxPrivilege_values:
  "NormalizeLinuxPrivilege p \<in> {''none'', ''sudo'', ''root''}"
  by (simp add: NormalizeLinuxPrivilege_def Let_def)

lemma NormalizeLinuxPrivilege_idem [simp]:
  "NormalizeLinuxPrivilege (NormalizeLinuxPrivilege p) = NormalizeLinuxPrivilege p"
proof -
  have "NormalizeLinuxPrivilege ''none'' = ''none''" "NormalizeLinuxPrivilege ''sudo'' = ''sudo''"
    "NormalizeLinuxPrivilege ''root'' = ''root''"
    by code_simp+
  with NormalizeLinuxPrivilege_values [of p] show ?thesis by auto
qed

lemma linuxPrivilegeRank_normal [simp]:
  "linuxPrivilegeRank (NormalizeLinuxPrivilege p) = linuxPrivilegeRank p"
  by (simp add: linuxPrivilegeRank_def)

lemma linuxPrivilegeRank_range: "0 \<le> linuxPrivilegeRank p \<and> linuxPrivilegeRank p \<le> 2"
  by (simp add: linuxPrivilegeRank_def Let_def)

lemma MergeLinuxPrivilege_rank:
  "linuxPrivilegeRank (MergeLinuxPrivilege a b) = max (linuxPrivilegeRank a) (linuxPrivilegeRank b)"
  by (simp add: MergeLinuxPrivilege_def)

section \<open>Specification of Decide\<close>

text \<open>The rules that count for an input: per role the best rule, when it reaches the tier.\<close>

definition applicable_rules :: "pam_db \<Rightarrow> policy_input \<Rightarrow> policy_row list" where
  "applicable_rules db inp =
     (let exactKind = to_lower (trim_space (in_TargetKind inp)); family = kind_family exactKind in
      concat (map (\<lambda>role. case role_rule db exactKind family role of
          None \<Rightarrow> []
        | Some p \<Rightarrow> if in_TargetTier inp \<le> p_tier_max p then [p] else []) (effective_roles inp)))"

lemma decide_loop_fold:
  assumes "\<forall>r \<in> set roles. \<not> faults db (Policy_Decide r)"
  shows "decide_loop db tier ek fam roles a =
    Inr (fold merge_rule (concat (map (\<lambda>role. case role_rule db ek fam role of
        None \<Rightarrow> [] | Some p \<Rightarrow> if tier \<le> p_tier_max p then [p] else []) roles)) a)"
  using assms by (induction roles arbitrary: a) (auto split: option.split)

lemma decide_loop_fault:
  assumes "\<exists>r \<in> set roles. faults db (Policy_Decide r)"
  shows "\<exists>e. decide_loop db tier ek fam roles a = Inl e"
  using assms by (induction roles arbitrary: a) (auto split: option.split)

lemma fold_merge_rule:
  defines "b \<equiv> \<lambda>ps a. fold merge_rule ps a"
  shows "allowSeen (b ps a) \<longleftrightarrow> allowSeen a \<or> ps \<noteq> []"
    and "allowedSet (b ps a) = allowedSet a @ concat (map (\<lambda>p. splitCSV (p_allowed_commands p)) ps)"
    and "deniedSet (b ps a) = deniedSet a @ concat (map (\<lambda>p. splitCSV (p_denied_commands p)) ps)"
    and "RequireApproval (final (b ps a)) \<longleftrightarrow>
      RequireApproval (final a) \<or> (\<exists>p \<in> set ps. p_require_approval p \<noteq> 0)"
    and "Reasons (final (b ps a)) = Reasons (final a)"
    and "AllowedCmds (final (b ps a)) = AllowedCmds (final a)"
    and "DeniedCmds (final (b ps a)) = DeniedCmds (final a)"
  unfolding b_def by (induction ps arbitrary: a) (auto simp: merge_rule_def Let_def)

lemma fold_merge_linux:
  "linuxPrivilegeRank (LinuxPrivilege (final (fold merge_rule ps a))) =
     fold (\<lambda>p m. max m (linuxPrivilegeRank (p_linux_privilege p))) ps
       (linuxPrivilegeRank (LinuxPrivilege (final a)))"
  by (induction ps arbitrary: a) (auto simp: merge_rule_def Let_def MergeLinuxPrivilege_rank)

lemma fold_merge_cisco:
  "0 \<le> CiscoPrivilegeLevel (final a) \<Longrightarrow> CiscoPrivilegeLevel (final a) \<le> 15 \<Longrightarrow>
   CiscoPrivilegeLevel (final (fold merge_rule ps a)) =
     fold (\<lambda>p m. max m (NormalizeCiscoPrivilegeLevel (p_cisco_privilege_level p))) ps
       (CiscoPrivilegeLevel (final a))"
proof (induction ps arbitrary: a)
  case Nil
  then show ?case by simp
next
  case (Cons p ps)
  have "CiscoPrivilegeLevel (final (merge_rule p a)) =
      max (CiscoPrivilegeLevel (final a)) (NormalizeCiscoPrivilegeLevel (p_cisco_privilege_level p))"
    using Cons.prems
    by (simp add: merge_rule_def Let_def MergeCiscoPrivilegeLevel_max NormalizeCiscoPrivilegeLevel_id)
  with Cons NormalizeCiscoPrivilegeLevel_range [of "p_cisco_privilege_level p"] show ?case by simp
qed

lemma fold_max_Max:
  fixes f :: "'a \<Rightarrow> int"
  shows "fold (\<lambda>p m. max m (f p)) ps m = Max (insert m (f ` set ps))"
proof (induction ps arbitrary: m)
  case Nil
  then show ?case by simp
next
  case (Cons p ps)
  have "Max (insert (max m (f p)) (f ` set ps)) = Max (insert m (insert (f p) (f ` set ps)))"
    by (cases "set ps = {}") (simp_all add: max.assoc)
  with Cons show ?case by simp
qed

text \<open>What the merged decision must be, field by field.\<close>

definition decision_meets :: "policy_row list \<Rightarrow> decision \<Rightarrow> bool" where
  "decision_meets ps d \<longleftrightarrow>
     (Allow d \<longleftrightarrow> ps \<noteq> []) \<and>
     (RequireApproval d \<longleftrightarrow> (\<exists>p \<in> set ps. p_require_approval p \<noteq> 0)) \<and>
     set (AllowedCmds d) = (\<Union>p \<in> set ps. set (splitCSV (p_allowed_commands p))) \<and>
     set (DeniedCmds d) = (\<Union>p \<in> set ps. set (splitCSV (p_denied_commands p))) \<and>
     linuxPrivilegeRank (LinuxPrivilege d) =
       Max (insert 0 ((\<lambda>p. linuxPrivilegeRank (p_linux_privilege p)) ` set ps)) \<and>
     CiscoPrivilegeLevel d =
       Max (insert 0 ((\<lambda>p. NormalizeCiscoPrivilegeLevel (p_cisco_privilege_level p)) ` set ps))"

lemma none_rank: "linuxPrivilegeRank ''none'' = 0"
  by code_simp

lemma acc0_simps:
  "allowSeen acc0 = False" "allowedSet acc0 = []" "deniedSet acc0 = []"
  "RequireApproval (final acc0) = False" "AllowedCmds (final acc0) = []"
  "DeniedCmds (final acc0) = []" "CiscoPrivilegeLevel (final acc0) = 0"
  "linuxPrivilegeRank (LinuxPrivilege (final acc0)) = 0"
  by (simp_all add: acc0_def empty_decision_def none_rank)

lemma Decide_fold:
  assumes "\<forall>r \<in> set (effective_roles inp). \<not> faults db (Policy_Decide r)"
    and "effective_roles inp \<noteq> []"
  obtains d where "Decide db inp = Inr d" "decision_meets (applicable_rules db inp) d"
proof -
  define ps where "ps = applicable_rules db inp"
  define a where "a = fold merge_rule ps acc0"
  note facts = fold_merge_rule [of ps acc0, folded a_def, unfolded acc0_simps]
    fold_merge_linux [of ps acc0, folded a_def, unfolded acc0_simps fold_max_Max]
    fold_merge_cisco [of acc0 ps, folded a_def, unfolded acc0_simps fold_max_Max]
  have loop: "decide_loop db (in_TargetTier inp) (to_lower (trim_space (in_TargetKind inp)))
      (kind_family (to_lower (trim_space (in_TargetKind inp)))) (effective_roles inp) acc0 = Inr a"
    by (simp add: decide_loop_fold [OF assms(1)] a_def ps_def applicable_rules_def Let_def)
  define d where "d = (if ps = [] then (final a)\<lparr>Allow := False,
      Reasons := [deny_reason (effective_roles inp) (to_lower (trim_space (in_TargetKind inp)))
        (kind_family (to_lower (trim_space (in_TargetKind inp)))) (in_TargetTier inp)]\<rparr>
    else (final a)\<lparr>Allow := True, AllowedCmds := remdups (allowedSet a),
      DeniedCmds := remdups (deniedSet a)\<rparr>)"
  have "Decide db inp = Inr d"
    using loop facts(1) assms(2) by (auto simp: Decide_def Let_def d_def)
  moreover have "decision_meets ps d"
    using facts by (auto simp: decision_meets_def d_def)
  ultimately show thesis unfolding ps_def by (rule that)
qed

end
