(* ===== verification/PolicySpec.thy ===== *)
theory PolicySpec
  imports PolicyEngine
begin

text \<open>
  What the policy engine promises: \<open>Decide\<close> implements its declarative merge, it fails closed, the
  most specific rule of a role is the one that counts, and the rule CRUD keeps the table well
  formed (\<open>policies_ok\<close>), as an instance of the contract of \<^theory_text>\<open>KeyedStore\<close>.
\<close>

section \<open>The rule table as a keyed store\<close>

interpretation rules: keyed_store policies p_id "\<lambda>db. seq db T_policies" CreateRule UpdateRule DeleteRule
proof unfold_locales
  show "i = seq s T_policies + 1 \<and> seq s' T_policies = i \<and>
      (\<exists>r. p_id r = i \<and> policies s' = policies s @ [r])"
    if "CreateRule a s = (Inr i, s')" for a s i s'
    using that
    by (auto simp: CreateRule_def Let_def next_id_def bump_seq_def row_of_rule_def split: if_splits)
  show "map p_id (policies s') = map p_id (policies s) \<and> seq s' T_policies = seq s T_policies"
    if "UpdateRule a s = (Inr u, s')" for a s u s'
    using that by (auto simp: UpdateRule_def row_of_rule_def split: if_splits)
  show "i \<in> p_id ` set (policies s) \<and>
      policies s' = delete_where (\<lambda>r. p_id r = i) (policies s) \<and>
      seq s' T_policies = seq s T_policies"
    if "DeleteRule i s = (Inr u, s')" for i s u s'
    using that by (auto simp: DeleteRule_def split: if_splits)
qed (auto simp: CreateRule_def UpdateRule_def DeleteRule_def Let_def split: if_splits)

section \<open>Well-formed rule tables\<close>

definition policy_row_ok :: "policy_row \<Rightarrow> bool" where
  "policy_row_ok p \<longleftrightarrow>
     p_require_approval p \<in> {0, 1} \<and>
     p_linux_privilege p \<in> {''none'', ''sudo'', ''root''} \<and>
     0 \<le> p_cisco_privilege_level p \<and> p_cisco_privilege_level p \<le> 15"

definition policies_ok :: "pam_db \<Rightarrow> bool" where
  "policies_ok db \<longleftrightarrow>
     table_ok policies p_id (\<lambda>db. seq db T_policies) db \<and> (\<forall>p \<in> set (policies db). policy_row_ok p)"

lemma row_of_rule_ok: "policy_row_ok (row_of_rule i r)"
  using NormalizeLinuxPrivilege_values [of "ru_LinuxPrivilege r"]
    NormalizeCiscoPrivilegeLevel_range [of "ru_CiscoPrivilegeLevel r"]
  by (simp add: policy_row_ok_def row_of_rule_def)

lemma CreateRule_rows: "policies (snd (CreateRule r db)) = policies db \<or>
    policies (snd (CreateRule r db)) = policies db @ [row_of_rule (next_id T_policies db) r]"
  by (simp add: CreateRule_def Let_def bump_seq_def)

lemma UpdateRule_rows: "p \<in> set (policies (snd (UpdateRule r db))) \<Longrightarrow>
    p \<in> set (policies db) \<or> (\<exists>i. p = row_of_rule i r)"
  by (auto simp: UpdateRule_def set_update_where split: if_splits)

lemma DeleteRule_rows: "set (policies (snd (DeleteRule i db))) \<subseteq> set (policies db)"
  by (auto simp: DeleteRule_def)

text \<open>Every state of the rule table that the administrative operations can reach from a
  well-formed one is well formed: keys are distinct, positive and below the AUTOINCREMENT sequence,
  the approval flag is 0 or 1, and the stored privileges are normalised (none/sudo/root, 0 to 15),
  whatever the arguments and whichever statements fail.\<close>

theorem rule_table_invariant:
  assumes "rules.reaches db db'" "policies_ok db"
  shows "policies_ok db'"
proof -
  have "\<forall>p \<in> set (policies db'). policy_row_ok p"
    using assms
  proof (induction rule: rules.reaches.induct)
    case (created s t a)
    then show ?case using CreateRule_rows [of a t] row_of_rule_ok by auto
  next
    case (updated s t a)
    then show ?case using UpdateRule_rows [of _ a t] row_of_rule_ok by blast
  next
    case (deleted s t i)
    then show ?case using DeleteRule_rows [of i t] by blast
  qed (simp add: policies_ok_def)
  moreover have "table_ok policies p_id (\<lambda>db. seq db T_policies) db'"
    using rules.reaches_keeps assms by (auto simp: policies_ok_def)
  ultimately show ?thesis by (simp add: policies_ok_def)
qed

definition demo_rule :: rule where
  "demo_rule = \<lparr>ru_ID = 0, ru_Role = ''netops'', ru_TargetKind = ''cisco'', ru_TierMax = 2,
     ru_RequireApproval = True, ru_AllowedCommands = ''show, ping'', ru_DeniedCommands = ''reload'',
     ru_LinuxPrivilege = '' Root '', ru_CiscoPrivilegeLevel = 99\<rparr>"

lemma rule_table_invariant_witness:
  "policies_ok (snd (CreateRule demo_rule empty_db)) \<and>
   p_linux_privilege (hd (policies (snd (CreateRule demo_rule empty_db)))) = ''root''"
proof
  have "policies_ok empty_db"
    by (simp add: policies_ok_def table_ok_def keys_ok_def empty_db_def)
  then show "policies_ok (snd (CreateRule demo_rule empty_db))"
    by (rule rule_table_invariant [OF rules.created [OF rules.start]])
  show "p_linux_privilege (hd (policies (snd (CreateRule demo_rule empty_db)))) = ''root''"
    by code_simp
qed

text \<open>A created rule gets a key that no earlier state of the table ever used, and \<open>ListRules\<close>
  then shows it, with its privileges normalised, next to exactly the rules that were there.\<close>

theorem CreateRule_then_ListRules:
  assumes "rules.reaches db t" "policies_ok db" "CreateRule r t = (Inr i, t')"
    and "\<not> faults t Policy_List"
  shows "i \<notin> p_id ` set (policies db) \<and>
    (\<exists>out before. ListRules t = Inr before \<and> ListRules t' = Inr out \<and>
       set out = insert (rule_of_row (row_of_rule i r)) (set before))"
proof -
  have "i \<notin> p_id ` set (policies db)"
    using rules.id_never_reused assms(1-3) by (auto simp: policies_ok_def)
  moreover have "policies t' = policies t @ [row_of_rule i r]" "faults t' = faults t"
    using assms(3) by (auto simp: CreateRule_def Let_def bump_seq_def split: if_splits)
  ultimately show ?thesis using assms(4) by (simp add: ListRules_def)
qed

lemma CreateRule_then_ListRules_witness:
  "\<exists>out. ListRules (snd (CreateRule demo_rule empty_db)) = Inr out \<and>
     rule_of_row (row_of_rule 1 demo_rule) \<in> set out"
proof -
  have ok: "policies_ok empty_db" "\<not> faults empty_db Policy_List"
    by (simp_all add: policies_ok_def table_ok_def keys_ok_def empty_db_def)
  have "fst (CreateRule demo_rule empty_db) = Inr 1"
    by (simp add: CreateRule_def Let_def demo_rule_def empty_db_def next_id_def)
  then have "CreateRule demo_rule empty_db = (Inr 1, snd (CreateRule demo_rule empty_db))"
    by (metis prod.collapse)
  from CreateRule_then_ListRules [OF rules.start ok(1) this ok(2)] show ?thesis by auto
qed

section \<open>Decide\<close>

text \<open>C6: The decision is the declarative merge of the rules that count (per effective role the most
  specific rule, if it reaches the tier): allowed iff there is one, approval iff one asks for it, the
  unions of their allow and deny lists, and the highest Linux and Cisco privilege any of them grants,
  never more.\<close>

theorem Decide_refines_merge:
  assumes "\<forall>r \<in> set (effective_roles inp). \<not> faults db (Policy_Decide r)"
    and "effective_roles inp \<noteq> []"
  shows "\<exists>d. Decide db inp = Inr d \<and> decision_meets (applicable_rules db inp) d"
  using Decide_fold [OF assms] by blast

definition demo_policy :: "int \<Rightarrow> string \<Rightarrow> string \<Rightarrow> int \<Rightarrow> int \<Rightarrow> string \<Rightarrow> string \<Rightarrow> policy_row" where
  "demo_policy i role kind tier appr allow deny =
     \<lparr>p_id = i, p_role = role, p_target_kind = kind, p_tier_max = tier, p_require_approval = appr,
      p_allowed_commands = allow, p_denied_commands = deny, p_linux_privilege = ''sudo'',
      p_cisco_privilege_level = 5\<rparr>"

definition demo_db :: pam_db where
  "demo_db = empty_db\<lparr>policies :=
     [demo_policy 1 ''netops'' ''*'' 3 0 [] [],
      demo_policy 2 ''netops'' ''cisco'' 1 1 ''show, ping'' ''reload'',
      demo_policy 3 ''secops'' ''*'' 3 0 [] []]\<rparr>"

definition demo_input :: "string list \<Rightarrow> int \<Rightarrow> policy_input" where
  "demo_input roles tier =
     \<lparr>in_UserID = 7, in_Role = [], in_Roles = roles, in_TargetID = 3, in_TargetKind = ''Cisco-IOS'',
      in_TargetTier = tier, in_Action = ''ssh''\<rparr>"

lemma Decide_refines_merge_witness:
  "\<exists>d. Decide demo_db (demo_input [''netops'', ''secops''] 1) = Inr d \<and>
     decision_meets [demo_policy 2 ''netops'' ''cisco'' 1 1 ''show, ping'' ''reload'',
       demo_policy 3 ''secops'' ''*'' 3 0 [] []] d"
proof -
  have "applicable_rules demo_db (demo_input [''netops'', ''secops''] 1) =
      [demo_policy 2 ''netops'' ''cisco'' 1 1 ''show, ping'' ''reload'',
       demo_policy 3 ''secops'' ''*'' 3 0 [] []]"
    by code_simp
  with Decide_refines_merge [of "demo_input [''netops'', ''secops''] 1" demo_db] show ?thesis
    by (simp add: effective_roles_def demo_input_def demo_db_def empty_db_def)
qed

text \<open>C23: \<open>Decide\<close> fails closed and only then: it returns an error exactly when the query of some
  effective role fails, never a decision computed from the other roles.\<close>

theorem Decide_fails_closed:
  "(\<exists>e. Decide db inp = Inl e) \<longleftrightarrow> (\<exists>r \<in> set (effective_roles inp). faults db (Policy_Decide r))"
proof (cases "\<exists>r \<in> set (effective_roles inp). faults db (Policy_Decide r)")
  case True
  then have "effective_roles inp \<noteq> []" by auto
  with True decide_loop_fault [OF True] show ?thesis
    unfolding Decide_def Let_def by (metis sum.simps(5))
next
  case False
  show ?thesis
  proof (cases "effective_roles inp = []")
    case True
    with False show ?thesis by (simp add: Decide_def Let_def)
  next
    case ne: False
    from False ne obtain d where "Decide db inp = Inr d"
      by (auto elim: Decide_fold)
    with False show ?thesis by auto
  qed
qed

section \<open>Specific rules\<close>

lemma role_rule_least:
  assumes "role_rule db ek fam role = Some p"
  shows "p \<in> set (policies db)" "p_role p = role"
    "p_target_kind p \<in> set (policyMatchKinds ek fam)"
    "\<And>q. q \<in> set (policies db) \<Longrightarrow> p_role q = role \<Longrightarrow>
       p_target_kind q \<in> set (policyMatchKinds ek fam) \<Longrightarrow>
       kind_rank ek fam (p_target_kind p) \<le> kind_rank ek fam (p_target_kind q)"
  using assms first_row_sorted_mem first_row_sorted_least unfolding role_rule_def by fastforce+

lemma kind_rank_zero [simp]: "kind_rank ek fam k \<le> 0 \<longleftrightarrow> k = ek"
  by (simp add: kind_rank_def)

lemma trim_space_to_lower_trim: "trim_space (to_lower (trim_space s)) = to_lower (trim_space s)"
proof (rule trim_space_id)
  have "last (map ascii_lower t) = ascii_lower (last t)" if "t \<noteq> []" for t
    using that by (rule last_map)
  moreover have "hd (map ascii_lower t) = ascii_lower (hd t)" if "t \<noteq> []" for t
    using that by (rule hd_map)
  ultimately show "to_lower (trim_space s) = [] \<or>
      \<not> is_space (hd (to_lower (trim_space s))) \<and> \<not> is_space (last (to_lower (trim_space s)))"
    using trim_space_ends [of s] by (auto simp: to_lower_def)
qed

lemma exact_in_match_kinds:
  "ek = to_lower (trim_space s) \<Longrightarrow> ek \<noteq> [] \<Longrightarrow> ek \<in> set (policyMatchKinds ek fam)"
  by (simp add: policyMatchKinds_def trim_space_to_lower_trim)

text \<open>A rule for the exact kind replaces every broader one, it is not added to them: when the role
  has a rule for the target's exact kind and none of those rules reaches the tier, the target is
  refused, even where a rule of the same role on the family or on \<^verbatim>\<open>*\<close> would reach it.\<close>

theorem specific_rule_blocks_wildcard:
  assumes "effective_roles inp = [role]" "\<not> faults db (Policy_Decide role)"
    and "ek = to_lower (trim_space (in_TargetKind inp))" "ek \<noteq> []"
    and "p \<in> set (policies db)" "p_role p = role" "p_target_kind p = ek"
    and "\<And>q. q \<in> set (policies db) \<Longrightarrow> p_role q = role \<Longrightarrow> p_target_kind q = ek \<Longrightarrow>
      p_tier_max q < in_TargetTier inp"
  shows "\<exists>d. Decide db inp = Inr d \<and> \<not> Allow d"
proof -
  let ?q = "role_rule db ek (kind_family ek) role"
  have mem: "ek \<in> set (policyMatchKinds ek (kind_family ek))"
    using exact_in_match_kinds assms(3,4) by blast
  then have "?q \<noteq> None"
    using assms(5-7)
    by (auto simp: role_rule_def filter_empty_conv simp del: first_row_None_iff)
  then obtain q where q: "?q = Some q" by blast
  have "kind_rank ek (kind_family ek) (p_target_kind q) \<le> kind_rank ek (kind_family ek) ek"
    using role_rule_least(4) [OF q assms(5,6)] mem assms(7) by simp
  then have "p_target_kind q = ek" by (simp add: kind_rank_def split: if_splits)
  then have "p_tier_max q < in_TargetTier inp"
    using assms(8) role_rule_least(1,2) [OF q] by blast
  then have "applicable_rules db inp = []"
    using q assms(1,3) by (simp add: applicable_rules_def Let_def)
  moreover obtain d where "Decide db inp = Inr d" "decision_meets (applicable_rules db inp) d"
    using Decide_fold [of inp db] assms(1,2) by auto
  ultimately show ?thesis by (auto simp: decision_meets_def)
qed

lemma specific_rule_blocks_wildcard_witness:
  "\<exists>d. Decide (demo_db\<lparr>policies := [demo_policy 1 ''netops'' ''*'' 3 0 [] [],
       demo_policy 2 ''netops'' ''cisco-ios'' 1 0 [] []]\<rparr>) (demo_input [''netops''] 2) = Inr d \<and>
     \<not> Allow d"
proof (rule specific_rule_blocks_wildcard [where role = "''netops''" and ek = "''cisco-ios''"
      and p = "demo_policy 2 ''netops'' ''cisco-ios'' 1 0 [] []"])
  show "''cisco-ios'' = to_lower (trim_space (in_TargetKind (demo_input [''netops''] 2)))"
    by code_simp
qed (auto simp: effective_roles_def demo_input_def demo_db_def empty_db_def demo_policy_def)

section \<open>More roles\<close>

lemma applicable_rules_append:
  "in_Roles inp \<noteq> [] \<Longrightarrow>
   applicable_rules db (inp\<lparr>in_Roles := in_Roles inp @ rs\<rparr>) =
     applicable_rules db inp @ applicable_rules db (inp\<lparr>in_Role := [], in_Roles := rs\<rparr>)"
  by (simp add: applicable_rules_def Let_def effective_roles_def cong: option.case_cong)

text \<open>Further roles (a new group membership) never revoke access and never lower a privilege:
  \<open>Allow\<close>, the Linux privilege and the Cisco level only grow.  The command lists do not have this
  property, see \<open>extra_role_forbids\<close>.\<close>

theorem Decide_mono_roles:
  assumes "in_Roles inp \<noteq> []" "Decide db inp = Inr d"
    and "Decide db (inp\<lparr>in_Roles := in_Roles inp @ rs\<rparr>) = Inr d'"
  shows "(Allow d \<longrightarrow> Allow d') \<and> (RequireApproval d \<longrightarrow> RequireApproval d') \<and>
    linuxPrivilegeRank (LinuxPrivilege d) \<le> linuxPrivilegeRank (LinuxPrivilege d') \<and>
    CiscoPrivilegeLevel d \<le> CiscoPrivilegeLevel d'"
proof -
  have eff: "effective_roles inp = in_Roles inp"
    "effective_roles (inp\<lparr>in_Roles := in_Roles inp @ rs\<rparr>) = in_Roles inp @ rs"
    using assms(1) by (simp_all add: effective_roles_def)
  have ok: "\<not> (\<exists>r \<in> set (in_Roles inp @ rs). faults db (Policy_Decide r))"
    using decide_loop_fault [of "in_Roles inp @ rs" db] assms(1,3) eff(2)
    by (auto simp: Decide_def Let_def split: sum.splits) (metis Un_iff set_append sum.distinct(1))+
  then have "decision_meets (applicable_rules db inp) d"
    using Decide_fold [of inp db] assms(1,2) eff(1) by (metis UnI1 set_append sum.inject(2))
  moreover have "decision_meets (applicable_rules db (inp\<lparr>in_Roles := in_Roles inp @ rs\<rparr>)) d'"
    using Decide_fold [of "inp\<lparr>in_Roles := in_Roles inp @ rs\<rparr>" db] assms(1,3) ok eff(2)
    by (metis append_is_Nil_conv sum.inject(2))
  ultimately show ?thesis
    unfolding decision_meets_def applicable_rules_append [OF assms(1)]
    by (auto intro!: Max_mono simp: image_Un)
qed

lemma Decide_mono_roles_witness:
  "\<exists>d d'. Decide demo_db (demo_input [''netops''] 1) = Inr d \<and>
     Decide demo_db (demo_input [''netops'', ''secops''] 1) = Inr d' \<and> Allow d' \<and>
     linuxPrivilegeRank (LinuxPrivilege d) \<le> linuxPrivilegeRank (LinuxPrivilege d')"
proof -
  have none: "\<not> faults demo_db s" for s by (simp add: demo_db_def empty_db_def)
  have "effective_roles (demo_input [''netops''] 1) = [''netops'']"
    "effective_roles (demo_input [''netops'', ''secops''] 1) = [''netops'', ''secops'']"
    by (simp_all add: effective_roles_def demo_input_def)
  then obtain d d' where d: "Decide demo_db (demo_input [''netops''] 1) = Inr d"
      "Decide demo_db (demo_input [''netops'', ''secops''] 1) = Inr d'"
    using none Decide_fold by (metis list.distinct(1))
  have eq: "demo_input [''netops'', ''secops''] 1 =
      demo_input [''netops''] 1\<lparr>in_Roles := in_Roles (demo_input [''netops''] 1) @ [''secops'']\<rparr>"
    by (simp add: demo_input_def)
  have "ok_that Allow (Decide demo_db (demo_input [''netops''] 1))" by code_simp
  with d(1) have "Allow d" by simp
  with Decide_mono_roles [OF _ d(1) d(2) [unfolded eq]] d show ?thesis
    by (simp add: demo_input_def)
qed

lemma decision_lists:
  assumes "Decide db inp = Inr d"
    and "effective_roles inp = rs" "rs \<noteq> []" "\<And>r. r \<in> set rs \<Longrightarrow> \<not> faults db (Policy_Decide r)"
  shows "decision_meets (applicable_rules db inp) d"
  using Decide_fold [of inp db] assms by (metis sum.inject(2))

text \<open>An extra role can take a command away.  The allow lists of the roles are united, but an empty
  list means \<^emph>\<open>unrestricted\<close>: a user whose one role has no allow list may run a command, and loses it
  when a second role contributes a list that lacks it (and, in the same way, when a second role
  denies it).  The comment of \<^verbatim>\<open>Decide\<close> promises the most permissive result overall.\<close>

theorem extra_role_forbids:
  "\<exists>db cmd d d'.
     Decide db (demo_input [''secops''] 1) = Inr d \<and>
     Decide db (demo_input [''secops'', ''netops''] 1) = Inr d' \<and>
     Allow d \<and> Allow d' \<and>
     CommandAllowed cmd (AllowedCmds d) (DeniedCmds d) \<and>
     \<not> CommandAllowed cmd (AllowedCmds d') (DeniedCmds d') \<and> DeniedCmds d' = []"
proof -
  let ?db = "demo_db\<lparr>policies := [demo_policy 3 ''secops'' ''*'' 3 0 [] [],
    demo_policy 2 ''netops'' ''cisco'' 1 0 ''show'' []]\<rparr>"
  have a: "ok_that (\<lambda>d. Allow d \<and> CommandAllowed ''reload'' (AllowedCmds d) (DeniedCmds d))
      (Decide ?db (demo_input [''secops''] 1))"
    by code_simp
  have b: "ok_that (\<lambda>d. Allow d \<and> DeniedCmds d = [] \<and>
      \<not> CommandAllowed ''reload'' (AllowedCmds d) (DeniedCmds d))
      (Decide ?db (demo_input [''secops'', ''netops''] 1))"
    by code_simp
  from a b show ?thesis unfolding ok_that_iff by blast
qed

end
