(* ===== verification/GroupTables.thy ===== *)
theory GroupTables
  imports KeyedStore
begin

text \<open>
  \<^verbatim>\<open>internal/groups/groups.go\<close>: user groups, their memberships and the roles that memberships grant.
  The tables are \<open>groups\<close> (\<^verbatim>\<open>name\<close> is UNIQUE) and \<open>user_groups\<close> (primary key (user, group), both
  foreign keys ON DELETE CASCADE).  \<^verbatim>\<open>ReplaceMemberships\<close> runs in a transaction: it works on a copy
  of the database that replaces it only at the commit.  Queries without \<^verbatim>\<open>ORDER BY\<close> return rows in
  table order.
\<close>

section \<open>Groups\<close>

record group =
  gr_ID :: int
  gr_Name :: string
  gr_Description :: string
  gr_Role :: string
  gr_LDAPDN :: string
  gr_Source :: string
  gr_CreatedAt :: int
  gr_Members :: int

definition opt_string :: "string option \<Rightarrow> string" where
  "opt_string x = (case x of None \<Rightarrow> [] | Some s \<Rightarrow> s)"

definition null_string :: "string \<Rightarrow> string option" where
  "null_string s = (if s \<noteq> [] then Some s else None)"

definition default_string :: "string \<Rightarrow> string \<Rightarrow> string" where
  "default_string d s = (if s = [] then d else s)"

definition group_of_row :: "int \<Rightarrow> group_row \<Rightarrow> group" where
  "group_of_row members g =
     \<lparr>gr_ID = g_id g, gr_Name = g_name g, gr_Description = g_description g, gr_Role = g_role g,
      gr_LDAPDN = opt_string (g_ldap_dn g), gr_Source = g_source g, gr_CreatedAt = g_created_at g,
      gr_Members = members\<rparr>"

definition GroupList :: "pam_db \<Rightarrow> err + group list" where
  "GroupList db =
     (if faults db Groups_List then Inl (ErrSql Groups_List)
      else Inr (map (\<lambda>g. group_of_row
               (int (rows_affected (\<lambda>m. ug_group_id m = g_id g) (user_groups db))) g)
             (sort_key g_name (groups db))))"

definition GroupGet :: "pam_db \<Rightarrow> int \<Rightarrow> err + group" where
  "GroupGet db i =
     (if faults db Groups_Get then Inl (ErrSql Groups_Get)
      else case row_by g_id i (groups db) of
        None \<Rightarrow> Inl (ErrMsg ''group not found'')
      | Some g \<Rightarrow> Inr (group_of_row 0 g))"

definition GroupCreate :: "group \<Rightarrow> pam_db \<Rightarrow> (err + int) \<times> pam_db" where
  "GroupCreate g db =
     (if gr_Name g = [] then (Inl (ErrMsg ''group name required''), db)
      else if faults db Groups_Insert then (Inl (ErrSql Groups_Insert), db)
      else if gr_Name g \<in> set (map g_name (groups db)) then (Inl ErrConstraint, db)
      else
        let i = next_id T_groups db in
        (Inr i, (bump_seq T_groups db)\<lparr>groups := groups db @
          [\<lparr>g_id = i, g_name = gr_Name g, g_description = gr_Description g,
            g_role = default_string ''user'' (gr_Role g), g_ldap_dn = null_string (gr_LDAPDN g),
            g_source = default_string ''local'' (gr_Source g), g_created_at = clock db\<rparr>]\<rparr>))"

definition GroupUpdate :: "group \<Rightarrow> pam_db \<Rightarrow> (err + unit) \<times> pam_db" where
  "GroupUpdate g db =
     (if gr_ID g \<le> 0 then (Inl (ErrMsg ''id required''), db)
      else if faults db Groups_Update then (Inl (ErrSql Groups_Update), db)
      else if rows_affected (\<lambda>r. g_id r = gr_ID g) (groups db) = 0
      then (Inl (ErrMsg ''group not found''), db)
      else
        (Inr (), db\<lparr>groups := update_where (\<lambda>r. g_id r = gr_ID g)
           (\<lambda>r. r\<lparr>g_description := gr_Description g,
                   g_role := default_string ''user'' (gr_Role g),
                   g_ldap_dn := null_string (gr_LDAPDN g)\<rparr>) (groups db)\<rparr>))"

text \<open>\<^verbatim>\<open>DELETE FROM groups\<close>: the foreign key cascades to the memberships of the group.\<close>

definition GroupDelete :: "int \<Rightarrow> pam_db \<Rightarrow> (err + unit) \<times> pam_db" where
  "GroupDelete i db =
     (if faults db Groups_Delete then (Inl (ErrSql Groups_Delete), db)
      else if rows_affected (\<lambda>r. g_id r = i) (groups db) = 0
      then (Inl (ErrMsg ''group not found''), db)
      else
        (Inr (), db\<lparr>groups := delete_where (\<lambda>r. g_id r = i) (groups db),
                    user_groups := delete_where (\<lambda>m. ug_group_id m = i) (user_groups db)\<rparr>))"

section \<open>Memberships\<close>

definition has_member :: "pam_db \<Rightarrow> int \<Rightarrow> int \<Rightarrow> bool" where
  "has_member db u g = (\<exists>m \<in> set (user_groups db). ug_user_id m = u \<and> ug_group_id m = g)"

text \<open>\<^verbatim>\<open>INSERT OR IGNORE INTO user_groups\<close>: a duplicate is ignored, a missing user or group is a
  foreign key error.\<close>

definition insert_membership :: "int \<Rightarrow> int \<Rightarrow> pam_db \<Rightarrow> (err + unit) \<times> pam_db" where
  "insert_membership u g db =
     (if faults db (Member_Add g) then (Inl (ErrSql (Member_Add g)), db)
      else if has_member db u g then (Inr (), db)
      else if u \<notin> set (map u_id (users db)) \<or> g \<notin> set (map g_id (groups db))
      then (Inl ErrConstraint, db)
      else (Inr (), db\<lparr>user_groups := user_groups db @
              [\<lparr>ug_user_id = u, ug_group_id = g, ug_added_at = clock db\<rparr>]\<rparr>))"

definition AddMember :: "int \<Rightarrow> int \<Rightarrow> pam_db \<Rightarrow> (err + unit) \<times> pam_db" where
  "AddMember userID groupID db = insert_membership userID groupID db"

definition RemoveMember :: "int \<Rightarrow> int \<Rightarrow> pam_db \<Rightarrow> (err + unit) \<times> pam_db" where
  "RemoveMember userID groupID db =
     (if faults db Member_Remove then (Inl (ErrSql Member_Remove), db)
      else (Inr (), db\<lparr>user_groups :=
             delete_where (\<lambda>m. ug_user_id m = userID \<and> ug_group_id m = groupID) (user_groups db)\<rparr>))"

record member =
  mb_UserID :: int
  mb_Username :: string
  mb_Email :: string
  mb_AddedAt :: int

definition ListMembers :: "pam_db \<Rightarrow> int \<Rightarrow> err + member list" where
  "ListMembers db groupID =
     (if faults db Member_List then Inl (ErrSql Member_List)
      else Inr (sort_key mb_Username (concat (map (\<lambda>m.
             if ug_group_id m = groupID
             then map (\<lambda>u. \<lparr>mb_UserID = u_id u, mb_Username = u_username u,
                             mb_Email = opt_string (u_email u), mb_AddedAt = ug_added_at m\<rparr>)
                    (filter (\<lambda>u. u_id u = ug_user_id m) (users db))
             else []) (user_groups db)))))"

definition UserGroupIDs :: "pam_db \<Rightarrow> int \<Rightarrow> err + int list" where
  "UserGroupIDs db userID =
     (if faults db (Member_Ids userID) then Inl (ErrSql (Member_Ids userID))
      else Inr (map ug_group_id (filter (\<lambda>m. ug_user_id m = userID) (user_groups db))))"

definition groups_of_user :: "pam_db \<Rightarrow> int \<Rightarrow> group_row list" where
  "groups_of_user db userID =
     concat (map (\<lambda>m. if ug_user_id m = userID
                       then filter (\<lambda>g. g_id g = ug_group_id m) (groups db) else [])
       (user_groups db))"

definition UserGroups :: "pam_db \<Rightarrow> int \<Rightarrow> err + group list" where
  "UserGroups db userID =
     (if faults db Member_Groups then Inl (ErrSql Member_Groups)
      else Inr (map (group_of_row 0) (sort_key g_name (groups_of_user db userID))))"

text \<open>\<open>EffectiveRoles\<close> returns a value together with its error: the own role alone when the query
  fails.\<close>

fun collect_roles :: "string list \<Rightarrow> string list \<Rightarrow> string list" where
  "collect_roles out [] = out"
| "collect_roles out (r # rs) = collect_roles (if r \<in> set out then out else out @ [r]) rs"

definition EffectiveRoles :: "pam_db \<Rightarrow> int \<Rightarrow> string \<Rightarrow> string list \<times> err option" where
  "EffectiveRoles db userID userRole =
     (if faults db (Member_Roles userID) then ([userRole], Some (ErrSql (Member_Roles userID)))
      else (collect_roles [userRole] (map g_role (groups_of_user db userID)), None))"

section \<open>Directory synchronisation\<close>

definition FindByLDAPDN :: "pam_db \<Rightarrow> string \<Rightarrow> err + group option" where
  "FindByLDAPDN db dn =
     (if faults db Groups_ByDN then Inl (ErrSql Groups_ByDN)
      else Inr (map_option (group_of_row 0) (row_by g_ldap_dn (Some dn) (groups db))))"

definition UpsertLDAP ::
  "string \<Rightarrow> string \<Rightarrow> string \<Rightarrow> string \<Rightarrow> pam_db \<Rightarrow> (err + int) \<times> pam_db" where
  "UpsertLDAP name description role dn db =
     (if dn = [] then (Inl (ErrMsg ''ldap dn required''), db)
      else
        let name' = (if name = [] then dn else name); role' = default_string ''user'' role in
        case FindByLDAPDN db dn of
          Inl e \<Rightarrow> (Inl e, db)
        | Inr (Some existing) \<Rightarrow>
            (case GroupUpdate \<lparr>gr_ID = gr_ID existing, gr_Name = gr_Name existing,
                     gr_Description = description, gr_Role = role', gr_LDAPDN = dn, gr_Source = [],
                     gr_CreatedAt = 0, gr_Members = 0\<rparr> db of
               (Inl e, db') \<Rightarrow> (Inl e, db')
             | (Inr _, db') \<Rightarrow> (Inr (gr_ID existing), db'))
        | Inr None \<Rightarrow>
            GroupCreate \<lparr>gr_ID = 0, gr_Name = name', gr_Description = description, gr_Role = role',
               gr_LDAPDN = dn, gr_Source = ''ldap'', gr_CreatedAt = 0, gr_Members = 0\<rparr> db)"

fun insert_memberships :: "int \<Rightarrow> int list \<Rightarrow> pam_db \<Rightarrow> (err + unit) \<times> pam_db" where
  "insert_memberships u [] db = (Inr (), db)"
| "insert_memberships u (g # gs) db =
     (case insert_membership u g db of
        (Inl e, db') \<Rightarrow> (Inl e, db')
      | (Inr _, db') \<Rightarrow> insert_memberships u gs db')"

definition ReplaceMemberships :: "int \<Rightarrow> int list \<Rightarrow> pam_db \<Rightarrow> (err + unit) \<times> pam_db" where
  "ReplaceMemberships userID groupIDs db =
     (if faults db Tx_Begin then (Inl (ErrSql Tx_Begin), db)
      else if faults db Tx_Delete then (Inl (ErrSql Tx_Delete), db)
      else
        let tx = db\<lparr>user_groups := delete_where (\<lambda>m. ug_user_id m = userID) (user_groups db)\<rparr> in
        case insert_memberships userID groupIDs tx of
          (Inl e, _) \<Rightarrow> (Inl e, db)
        | (Inr _, tx') \<Rightarrow>
            if faults db Tx_Commit then (Inl (ErrSql Tx_Commit), db) else (Inr (), tx'))"

definition MergeMemberships :: "int \<Rightarrow> int list \<Rightarrow> pam_db \<Rightarrow> (err + unit) \<times> pam_db" where
  "MergeMemberships userID groupIDs db = insert_memberships userID groupIDs db"

end
