(* ===== verification/GroupSpec.thy ===== *)
theory GroupSpec
  imports GroupTables PolicySpec
begin

text \<open>
  What \<^verbatim>\<open>internal/groups\<close> promises: an invariant of the two tables over every run of its operations
  (statements that fail included), the transaction of \<open>ReplaceMemberships\<close>, the additive
  \<open>MergeMemberships\<close>, the set of effective roles, and what it means for the policy engine.
\<close>

section \<open>The group table as a keyed store\<close>

interpretation group_store: keyed_store groups g_id "\<lambda>db. seq db T_groups"
  GroupCreate GroupUpdate GroupDelete
proof unfold_locales
  show "i = seq s T_groups + 1 \<and> seq s' T_groups = i \<and>
      (\<exists>r. g_id r = i \<and> groups s' = groups s @ [r])"
    if "GroupCreate a s = (Inr i, s')" for a s i s'
    using that by (auto simp: GroupCreate_def Let_def next_id_def bump_seq_def split: if_splits)
  show "map g_id (groups s') = map g_id (groups s) \<and> seq s' T_groups = seq s T_groups"
    if "GroupUpdate a s = (Inr u, s')" for a s u s'
    using that by (auto simp: GroupUpdate_def split: if_splits)
  show "i \<in> g_id ` set (groups s) \<and>
      groups s' = delete_where (\<lambda>r. g_id r = i) (groups s) \<and> seq s' T_groups = seq s T_groups"
    if "GroupDelete i s = (Inr u, s')" for i s u s'
    using that by (auto simp: GroupDelete_def split: if_splits)
qed (auto simp: GroupCreate_def GroupUpdate_def GroupDelete_def Let_def split: if_splits)

section \<open>Invariant\<close>

definition membership :: "user_group_row \<Rightarrow> int \<times> int" where
  "membership m = (ug_user_id m, ug_group_id m)"

definition memberships_ok :: "pam_db \<Rightarrow> bool" where
  "memberships_ok db \<longleftrightarrow>
     distinct (map membership (user_groups db)) \<and>
     (\<forall>m \<in> set (user_groups db). ug_user_id m \<in> u_id ` set (users db) \<and>
        ug_group_id m \<in> g_id ` set (groups db))"

definition groups_ok :: "pam_db \<Rightarrow> bool" where
  "groups_ok db \<longleftrightarrow>
     table_ok groups g_id (\<lambda>db. seq db T_groups) db \<and>
     distinct (map g_name (groups db)) \<and> [] \<notin> g_name ` set (groups db) \<and>
     memberships_ok db"

text \<open>A run: any sequence of operations; between them the clock moves and the environment decides anew
  which statements fail.\<close>

inductive group_run :: "pam_db \<Rightarrow> pam_db \<Rightarrow> bool" where
  start: "group_run s s"
| environment: "group_run s t \<Longrightarrow> group_run s (t\<lparr>clock := c, faults := f\<rparr>)"
| create: "group_run s t \<Longrightarrow> group_run s (snd (GroupCreate g t))"
| update: "group_run s t \<Longrightarrow> group_run s (snd (GroupUpdate g t))"
| delete: "group_run s t \<Longrightarrow> group_run s (snd (GroupDelete i t))"
| add: "group_run s t \<Longrightarrow> group_run s (snd (AddMember u i t))"
| remove: "group_run s t \<Longrightarrow> group_run s (snd (RemoveMember u i t))"
| upsert: "group_run s t \<Longrightarrow> group_run s (snd (UpsertLDAP n d r dn t))"
| replace: "group_run s t \<Longrightarrow> group_run s (snd (ReplaceMemberships u gs t))"
| merge: "group_run s t \<Longrightarrow> group_run s (snd (MergeMemberships u gs t))"

lemma GroupCreate_ok: "groups_ok s \<Longrightarrow> groups_ok (snd (GroupCreate g s))"
  using group_store.create_keeps [of s g]
  by (auto simp: groups_ok_def memberships_ok_def GroupCreate_def Let_def bump_seq_def)

lemma GroupUpdate_ok: "groups_ok s \<Longrightarrow> groups_ok (snd (GroupUpdate g s))"
proof -
  assume ok: "groups_ok s"
  have "map g_name (groups (snd (GroupUpdate g s))) = map g_name (groups s)"
    "map g_id (groups (snd (GroupUpdate g s))) = map g_id (groups s)"
    "user_groups (snd (GroupUpdate g s)) = user_groups s" "users (snd (GroupUpdate g s)) = users s"
    by (simp_all add: GroupUpdate_def)
  then have "g_name ` set (groups (snd (GroupUpdate g s))) = g_name ` set (groups s)"
    "g_id ` set (groups (snd (GroupUpdate g s))) = g_id ` set (groups s)"
    "distinct (map g_name (groups (snd (GroupUpdate g s)))) = distinct (map g_name (groups s))"
    "memberships_ok (snd (GroupUpdate g s)) = memberships_ok s"
    by (simp_all add: memberships_ok_def flip: set_map)
  then show ?thesis
    using ok group_store.update_keeps [of s g] by (simp add: groups_ok_def)
qed

lemma memberships_ok_delete:
  "memberships_ok s \<Longrightarrow> memberships_ok (s\<lparr>user_groups := delete_where p (user_groups s)\<rparr>)"
  by (auto simp: memberships_ok_def distinct_map_delete_where)

lemma GroupDelete_ok: "groups_ok s \<Longrightarrow> groups_ok (snd (GroupDelete i s))"
  using group_store.delete_keeps [of s i]
  by (auto simp: groups_ok_def memberships_ok_def GroupDelete_def distinct_map_delete_where)

lemma insert_membership_ok: "memberships_ok s \<Longrightarrow> memberships_ok (snd (insert_membership u g s))"
  by (auto simp: memberships_ok_def insert_membership_def has_member_def membership_def)

lemma insert_membership_frame:
  "\<exists>ms. snd (insert_membership u g s) = s\<lparr>user_groups := user_groups s @ ms\<rparr> \<and>
     (\<forall>m \<in> set ms. ug_user_id m = u \<and> ug_group_id m = g)"
proof (cases "snd (insert_membership u g s) = s")
  case True
  then show ?thesis by (intro exI [of _ "[]"]) simp
next
  case False
  then show ?thesis by (auto simp: insert_membership_def split: if_splits)
qed

lemma insert_memberships_frame:
  "\<exists>ms. snd (insert_memberships u gs s) = s\<lparr>user_groups := user_groups s @ ms\<rparr> \<and>
     (\<forall>m \<in> set ms. ug_user_id m = u \<and> ug_group_id m \<in> set gs)"
proof (induction gs arbitrary: s)
  case Nil
  show ?case by (intro exI [of _ "[]"]) simp
next
  case (Cons g gs)
  obtain ms where ms: "snd (insert_membership u g s) = s\<lparr>user_groups := user_groups s @ ms\<rparr>"
      "\<forall>m \<in> set ms. ug_user_id m = u \<and> ug_group_id m = g"
    using insert_membership_frame by blast
  obtain ns where ns: "snd (insert_memberships u gs (s\<lparr>user_groups := user_groups s @ ms\<rparr>)) =
        s\<lparr>user_groups := user_groups s @ ms @ ns\<rparr>"
      "\<forall>m \<in> set ns. ug_user_id m = u \<and> ug_group_id m \<in> set gs"
    using Cons [of "s\<lparr>user_groups := user_groups s @ ms\<rparr>"] by auto
  show ?case
  proof (cases "insert_membership u g s")
    case (Pair r s')
    show ?thesis
    proof (cases r)
      case (Inl e)
      with Pair ms show ?thesis by (intro exI [of _ ms]) auto
    next
      case (Inr x)
      with Pair ms ns show ?thesis by (intro exI [of _ "ms @ ns"]) auto
    qed
  qed
qed

lemma insert_memberships_ok: "memberships_ok s \<Longrightarrow> memberships_ok (snd (insert_memberships u gs s))"
proof (induction gs arbitrary: s)
  case (Cons g gs)
  have "memberships_ok (snd (insert_membership u g s))"
    using Cons.prems by (rule insert_membership_ok)
  with Cons.IH [of "snd (insert_membership u g s)"] show ?case
    by (auto split: prod.splits sum.splits)
qed simp

lemma insert_memberships_all:
  "fst (insert_memberships u gs s) = Inr () \<Longrightarrow> g \<in> set gs \<Longrightarrow>
   has_member (snd (insert_memberships u gs s)) u g"
proof (induction gs arbitrary: s)
  case (Cons h gs)
  obtain s' where s': "insert_membership u h s = (Inr (), s')"
    using Cons.prems(1) by (cases "insert_membership u h s"; cases "fst (insert_membership u h s)") auto
  have h: "has_member s' u h"
    using s' by (auto simp: insert_membership_def has_member_def split: if_splits)
  obtain ms where "snd (insert_memberships u gs s') = s'\<lparr>user_groups := user_groups s' @ ms\<rparr>"
    using insert_memberships_frame by blast
  with h have "has_member (snd (insert_memberships u gs s')) u h"
    by (auto simp: has_member_def)
  with Cons s' show ?case by auto
qed simp

lemma groups_ok_memberships:
  "groups_ok s \<Longrightarrow> memberships_ok (s\<lparr>user_groups := ms\<rparr>) \<Longrightarrow> groups_ok (s\<lparr>user_groups := ms\<rparr>)"
  by (simp add: groups_ok_def table_ok_def)

lemma insert_memberships_groups_ok:
  assumes "groups_ok s"
  shows "groups_ok (snd (insert_memberships u gs s))"
proof -
  obtain ms where "snd (insert_memberships u gs s) = s\<lparr>user_groups := user_groups s @ ms\<rparr>"
    using insert_memberships_frame by blast
  moreover have "memberships_ok (snd (insert_memberships u gs s))"
    using assms by (simp add: groups_ok_def insert_memberships_ok)
  ultimately show ?thesis using assms groups_ok_memberships by metis
qed

lemma insert_membership_groups_ok: "groups_ok s \<Longrightarrow> groups_ok (snd (insert_membership u g s))"
  using insert_memberships_groups_ok [of s u "[g]"] by (auto split: prod.splits sum.splits)

lemma ReplaceMemberships_groups_ok:
  assumes "groups_ok s"
  shows "groups_ok (snd (ReplaceMemberships u gs s))"
proof -
  let ?tx = "s\<lparr>user_groups := delete_where (\<lambda>m. ug_user_id m = u) (user_groups s)\<rparr>"
  have "groups_ok ?tx"
    using assms groups_ok_memberships memberships_ok_delete by (simp add: groups_ok_def)
  then have "groups_ok (snd (insert_memberships u gs ?tx))"
    by (rule insert_memberships_groups_ok)
  with assms show ?thesis
    by (auto simp: ReplaceMemberships_def Let_def split: prod.splits sum.splits)
qed

lemma UpsertLDAP_cases:
  obtains (same) "snd (UpsertLDAP n d r dn s) = s"
    | (update) g where "snd (UpsertLDAP n d r dn s) = snd (GroupUpdate g s)"
    | (create) g where "snd (UpsertLDAP n d r dn s) = snd (GroupCreate g s)"
proof (cases "FindByLDAPDN s dn")
  case (Inl e)
  then show thesis by (intro same) (simp add: UpsertLDAP_def Let_def)
next
  case (Inr found)
  show thesis
  proof (cases found)
    case None
    with Inr show thesis
      by (cases "dn = []") (auto simp: UpsertLDAP_def Let_def intro: same create)
  next
    case (Some g)
    let ?g = "\<lparr>gr_ID = gr_ID g, gr_Name = gr_Name g, gr_Description = d,
      gr_Role = default_string ''user'' r, gr_LDAPDN = dn, gr_Source = [], gr_CreatedAt = 0,
      gr_Members = 0\<rparr>"
    have "snd (UpsertLDAP n d r dn s) = (if dn = [] then s else snd (GroupUpdate ?g s))"
      using Inr Some by (simp add: UpsertLDAP_def Let_def split: prod.splits sum.splits)
    then show thesis by (cases "dn = []") (auto intro: same update)
  qed
qed

text \<open>C24: Whatever operations run, in whatever order and with whichever statements failing, the group
  tables keep their invariant: group keys are distinct and never above the sequence, group names are
  distinct and non-empty, no membership is stored twice and every membership joins an existing user
  to an existing group.\<close>

theorem group_tables_invariant:
  assumes "group_run s t" "groups_ok s"
  shows "groups_ok t"
  using assms
proof (induction rule: group_run.induct)
  case (environment s t c f)
  then show ?case by (simp add: groups_ok_def table_ok_def memberships_ok_def)
next
  case (remove s t u i)
  then have "memberships_ok t" by (simp add: groups_ok_def)
  with remove show ?case
    by (simp add: RemoveMember_def groups_ok_memberships memberships_ok_delete)
next
  case (upsert s t n d r dn)
  then show ?case
    by (cases rule: UpsertLDAP_cases [of n d r dn t]) (auto simp: GroupCreate_ok GroupUpdate_ok)
qed (simp_all add: GroupCreate_ok GroupUpdate_ok GroupDelete_ok AddMember_def MergeMemberships_def
      insert_membership_groups_ok insert_memberships_groups_ok ReplaceMemberships_groups_ok)

definition demo_group :: "string \<Rightarrow> string \<Rightarrow> group" where
  "demo_group n r = \<lparr>gr_ID = 0, gr_Name = n, gr_Description = [], gr_Role = r, gr_LDAPDN = [],
     gr_Source = [], gr_CreatedAt = 0, gr_Members = 0\<rparr>"

lemma group_tables_invariant_witness:
  "groups_ok (snd (AddMember 7 1 (snd (GroupCreate (demo_group ''noc'' ''netops'') empty_db)))) \<and>
   length (groups (snd (GroupCreate (demo_group ''noc'' ''netops'') empty_db))) = 1"
proof
  have "groups_ok empty_db"
    by (simp add: groups_ok_def memberships_ok_def table_ok_def keys_ok_def empty_db_def)
  then show "groups_ok (snd (AddMember 7 1 (snd (GroupCreate (demo_group ''noc'' ''netops'') empty_db))))"
    by (rule group_tables_invariant [OF group_run.add [OF group_run.create [OF group_run.start]]])
qed code_simp

section \<open>Directory synchronisation\<close>

definition member_groups :: "pam_db \<Rightarrow> int \<Rightarrow> int set" where
  "member_groups db u = {g. has_member db u g}"

lemma member_groups_append:
  "\<forall>m \<in> set ms. ug_user_id m = u \<Longrightarrow>
   member_groups (s\<lparr>user_groups := user_groups s @ ms\<rparr>) u =
     member_groups s u \<union> ug_group_id ` set ms"
  by (auto simp: member_groups_def has_member_def)

text \<open>\<open>ReplaceMemberships\<close> is atomic: either it succeeds, the user's groups are then exactly the
  given ones and no other user's memberships change, or it returns an error (a failing statement, an
  unknown user or group, a failed commit) and the database is as before.\<close>

theorem ReplaceMemberships_atomic:
  "ReplaceMemberships u gs db = (r, db') \<Longrightarrow>
   (case r of
      Inl e \<Rightarrow> db' = db
    | Inr _ \<Rightarrow> member_groups db' u = set gs \<and>
        (\<forall>v. v \<noteq> u \<longrightarrow> member_groups db' v = member_groups db v))"
proof (cases r)
  case (Inl e)
  assume "ReplaceMemberships u gs db = (r, db')"
  with Inl show ?thesis
    by (auto simp: ReplaceMemberships_def Let_def split: if_splits prod.splits sum.splits)
next
  case (Inr x)
  let ?tx = "db\<lparr>user_groups := delete_where (\<lambda>m. ug_user_id m = u) (user_groups db)\<rparr>"
  assume "ReplaceMemberships u gs db = (r, db')"
  with Inr have ins: "insert_memberships u gs ?tx = (Inr (), db')"
    by (auto simp: ReplaceMemberships_def Let_def split: if_splits prod.splits sum.splits)
  obtain ms where ms: "db' = ?tx\<lparr>user_groups := user_groups ?tx @ ms\<rparr>"
      "\<forall>m \<in> set ms. ug_user_id m = u \<and> ug_group_id m \<in> set gs"
    using insert_memberships_frame [of u gs ?tx] ins by auto
  have "member_groups ?tx u = {}"
    by (auto simp: member_groups_def has_member_def)
  with ms have "member_groups db' u \<subseteq> set gs"
    using member_groups_append [of ms u ?tx] by auto
  moreover have "set gs \<subseteq> member_groups db' u"
    using insert_memberships_all [of u gs ?tx] ins by (auto simp: member_groups_def)
  moreover have "member_groups db' v = member_groups db v" if "v \<noteq> u" for v
    using ms that by (auto simp: member_groups_def has_member_def)
  ultimately show ?thesis using Inr by auto
qed

definition member_db :: pam_db where
  "member_db = empty_db\<lparr>
     users := [\<lparr>u_id = 7, u_username = ''ann'', u_email = None, u_password_hash = [],
       u_role = ''viewer'', u_mfa_secret = None, u_mfa_enabled = 0, u_source = ''local'',
       u_external_dn = None, u_last_login = None, u_created_at = 0, u_disabled = 0,
       u_role_locked = 0, u_mfa_exempt = 0\<rparr>],
     groups := [\<lparr>g_id = 1, g_name = ''noc'', g_description = [], g_role = ''netops'',
         g_ldap_dn = None, g_source = ''local'', g_created_at = 0\<rparr>,
       \<lparr>g_id = 2, g_name = ''root'', g_description = [], g_role = ''admin'',
         g_ldap_dn = None, g_source = ''local'', g_created_at = 0\<rparr>],
     user_groups := [\<lparr>ug_user_id = 7, ug_group_id = 1, ug_added_at = 0\<rparr>]\<rparr>"

lemma ReplaceMemberships_atomic_witness:
  "member_groups (snd (ReplaceMemberships 7 [2] member_db)) 7 = {2} \<and>
   snd (ReplaceMemberships 7 [2, 9] member_db) = member_db"
proof -
  have fsts: "fst (ReplaceMemberships 7 [2] member_db) = Inr ()"
    "fst (ReplaceMemberships 7 [2, 9] member_db) = Inl ErrConstraint"
    by (simp_all add: ReplaceMemberships_def member_db_def empty_db_def delete_where_def
        insert_membership_def has_member_def)
  have good: "ReplaceMemberships 7 [2] member_db = (Inr (), snd (ReplaceMemberships 7 [2] member_db))"
    by (simp add: prod_eq_iff fsts)
  have bad: "ReplaceMemberships 7 [2, 9] member_db =
      (Inl ErrConstraint, snd (ReplaceMemberships 7 [2, 9] member_db))"
    by (simp add: prod_eq_iff fsts)
  from ReplaceMemberships_atomic [OF good] ReplaceMemberships_atomic [OF bad] show ?thesis
    by simp
qed

text \<open>\<open>MergeMemberships\<close> never removes a membership, of any user, adds only requested ones, and on
  success has added them all; unlike \<open>ReplaceMemberships\<close> it keeps the part done before an error.\<close>

theorem MergeMemberships_adds:
  "MergeMemberships u gs db = (r, db') \<Longrightarrow>
   member_groups db u \<subseteq> member_groups db' u \<and>
   member_groups db' u \<subseteq> member_groups db u \<union> set gs \<and>
   (\<forall>v. v \<noteq> u \<longrightarrow> member_groups db' v = member_groups db v) \<and>
   (r = Inr () \<longrightarrow> set gs \<subseteq> member_groups db' u)"
proof -
  assume "MergeMemberships u gs db = (r, db')"
  then have ins: "insert_memberships u gs db = (r, db')" by (simp add: MergeMemberships_def)
  obtain ms where ms: "db' = db\<lparr>user_groups := user_groups db @ ms\<rparr>"
      "\<forall>m \<in> set ms. ug_user_id m = u \<and> ug_group_id m \<in> set gs"
    using insert_memberships_frame [of u gs db] ins by auto
  have "member_groups db' v = member_groups db v" if "v \<noteq> u" for v
    using ms that by (auto simp: member_groups_def has_member_def)
  moreover have "r = Inr () \<longrightarrow> set gs \<subseteq> member_groups db' u"
    using insert_memberships_all [of u gs db] ins by (auto simp: member_groups_def)
  ultimately show ?thesis using ms member_groups_append [of ms u db] by auto
qed

lemma MergeMemberships_adds_witness:
  "member_groups (snd (MergeMemberships 7 [2, 9] member_db)) 7 \<subseteq> {1, 2, 9} \<and>
   1 \<in> member_groups (snd (MergeMemberships 7 [2, 9] member_db)) 7"
proof -
  have start: "member_groups member_db 7 = {1}"
    by (auto simp: member_groups_def has_member_def member_db_def)
  show ?thesis
    using MergeMemberships_adds [OF surjective_pairing [of "MergeMemberships 7 [2, 9] member_db"]] start
    by auto
qed

section \<open>Effective roles\<close>

lemma collect_roles_spec:
  "distinct out \<Longrightarrow> \<exists>rest. collect_roles out rs = out @ rest \<and> distinct (out @ rest) \<and>
     set (out @ rest) = set out \<union> set rs"
proof (induction rs arbitrary: out)
  case (Cons r rs)
  show ?case
  proof (cases "r \<in> set out")
    case True
    with Cons.IH [OF Cons.prems] show ?thesis by auto
  next
    case False
    with Cons.prems have "distinct (out @ [r])" by simp
    with Cons.IH [of "out @ [r]"] False show ?thesis by auto
  qed
qed simp

lemma groups_of_user_set:
  "set (groups_of_user db u) = {g \<in> set (groups db). has_member db u (g_id g)}"
  by (auto simp: groups_of_user_def has_member_def)

text \<open>The effective roles are the user's own role, always first, followed by the roles of exactly
  the groups the user belongs to, each once; when the query fails, the own role alone and the error.\<close>

theorem EffectiveRoles_spec:
  "\<exists>rest err. EffectiveRoles db u role = (role # rest, err) \<and> distinct (role # rest) \<and>
     (if faults db (Member_Roles u) then rest = [] \<and> err = Some (ErrSql (Member_Roles u))
      else err = None \<and> set (role # rest) =
        insert role (g_role ` {g \<in> set (groups db). has_member db u (g_id g)}))"
  using collect_roles_spec [of "[role]" "map g_role (groups_of_user db u)"]
  by (auto simp: EffectiveRoles_def groups_of_user_set)

text \<open>The comment of \<^verbatim>\<open>EffectiveRoles\<close> promises a list sorted with the most privileged role first;
  the code does not sort: a viewer in an admin group gets \<open>viewer\<close> first and \<open>admin\<close> last.\<close>

theorem EffectiveRoles_not_sorted:
  "fst (EffectiveRoles (snd (AddMember 7 2 member_db)) 7 ''viewer'') = [''viewer'', ''netops'', ''admin'']"
  by code_simp

end
