(* ===== verification/ApprovalMatrix.thy ===== *)
theory ApprovalMatrix
  imports KeyedStore
begin

text \<open>
  \<^verbatim>\<open>internal/approval/matrix.go\<close>: the approval matrix, its CRUD, the CSV encoding of the group lists
  and \<open>FindRule\<close>, which picks the rule for a target and a requester.
\<close>

section \<open>Rules\<close>

record matrix_rule =
  mr_ID :: int
  mr_Name :: string
  mr_TargetKind :: string
  mr_TierMin :: int
  mr_TierMax :: int
  mr_RequiredApprovals :: int
  mr_RequesterGroupIDs :: "int list"
  mr_ApproverGroupIDs :: "int list"
  mr_Priority :: int
  mr_Enabled :: bool
  mr_CreatedAt :: int

definition parseCSVInts :: "string \<Rightarrow> int list" where
  "parseCSVInts s =
     (if s = [] then []
      else List.map_filter (\<lambda>p. let q = trim_space p in if q = [] then None else parse_int64 q)
             (split_on (CHR '','') s))"

definition joinCSVInts :: "int list \<Rightarrow> string" where
  "joinCSVInts ids = (if ids = [] then [] else join '','' (map string_of_int ids))"

definition anyIntersection :: "int list \<Rightarrow> int list \<Rightarrow> bool" where
  "anyIntersection a b = (\<exists>y \<in> set b. y \<in> set a)"

definition scanMatrixRule :: "matrix_row \<Rightarrow> matrix_rule" where
  "scanMatrixRule r =
     \<lparr>mr_ID = am_id r, mr_Name = am_name r, mr_TargetKind = am_target_kind r,
      mr_TierMin = am_tier_min r, mr_TierMax = am_tier_max r,
      mr_RequiredApprovals = am_required_approvals r,
      mr_RequesterGroupIDs = parseCSVInts (am_requester_group_ids r),
      mr_ApproverGroupIDs = parseCSVInts (am_approver_group_ids r),
      mr_Priority = am_priority r, mr_Enabled = (am_enabled r \<noteq> 0), mr_CreatedAt = am_created_at r\<rparr>"

definition MatrixList :: "pam_db \<Rightarrow> err + matrix_rule list" where
  "MatrixList db =
     (if faults db Matrix_List then Inl (ErrSql Matrix_List)
      else Inr (map scanMatrixRule (sort_key (\<lambda>r. (am_priority r, am_id r)) (approval_matrix db))))"

definition MatrixCreate :: "matrix_rule \<Rightarrow> pam_db \<Rightarrow> (err + int) \<times> pam_db" where
  "MatrixCreate r db =
     (if mr_Name r = [] then (Inl (ErrMsg ''rule name required''), db)
      else if faults db Matrix_Insert then (Inl (ErrSql Matrix_Insert), db)
      else
        let i = next_id T_approval_matrix db in
        (Inr i, (bump_seq T_approval_matrix db)\<lparr>approval_matrix := approval_matrix db @
          [\<lparr>am_id = i, am_name = mr_Name r,
            am_target_kind = (if mr_TargetKind r = [] then ''*'' else mr_TargetKind r),
            am_tier_min = mr_TierMin r, am_tier_max = mr_TierMax r,
            am_required_approvals = (if mr_RequiredApprovals r < 1 then 1 else mr_RequiredApprovals r),
            am_requester_group_ids = joinCSVInts (mr_RequesterGroupIDs r),
            am_approver_group_ids = joinCSVInts (mr_ApproverGroupIDs r),
            am_priority = mr_Priority r, am_enabled = (if \<not> mr_Enabled r then 0 else 1),
            am_created_at = clock db\<rparr>]\<rparr>))"

definition MatrixUpdate :: "matrix_rule \<Rightarrow> pam_db \<Rightarrow> (err + unit) \<times> pam_db" where
  "MatrixUpdate r db =
     (if mr_ID r \<le> 0 then (Inl (ErrMsg ''id required''), db)
      else if faults db Matrix_Update then (Inl (ErrSql Matrix_Update), db)
      else if rows_affected (\<lambda>m. am_id m = mr_ID r) (approval_matrix db) = 0
      then (Inl (ErrMsg ''matrix rule not found''), db)
      else
        (Inr (), db\<lparr>approval_matrix := update_where (\<lambda>m. am_id m = mr_ID r)
          (\<lambda>m. m\<lparr>am_name := mr_Name r, am_target_kind := mr_TargetKind r,
            am_tier_min := mr_TierMin r, am_tier_max := mr_TierMax r,
            am_required_approvals := (if mr_RequiredApprovals r < 1 then 1 else mr_RequiredApprovals r),
            am_requester_group_ids := joinCSVInts (mr_RequesterGroupIDs r),
            am_approver_group_ids := joinCSVInts (mr_ApproverGroupIDs r),
            am_priority := mr_Priority r, am_enabled := (if \<not> mr_Enabled r then 0 else 1)\<rparr>)
          (approval_matrix db)\<rparr>))"

definition MatrixDelete :: "int \<Rightarrow> pam_db \<Rightarrow> (err + unit) \<times> pam_db" where
  "MatrixDelete i db =
     (if faults db Matrix_Delete then (Inl (ErrSql Matrix_Delete), db)
      else if rows_affected (\<lambda>m. am_id m = i) (approval_matrix db) = 0
      then (Inl (ErrMsg ''matrix rule not found''), db)
      else (Inr (), db\<lparr>approval_matrix := delete_where (\<lambda>m. am_id m = i) (approval_matrix db)\<rparr>))"

section \<open>Finding the rule\<close>

definition matrix_rank :: "string \<Rightarrow> string \<Rightarrow> matrix_row \<Rightarrow> int \<times> int \<times> int" where
  "matrix_rank kind family r =
     ((if am_target_kind r = kind then 0 else if am_target_kind r = family then 1 else 2),
      am_priority r, am_id r)"

definition matrix_covers :: "string \<Rightarrow> int \<Rightarrow> matrix_row \<Rightarrow> bool" where
  "matrix_covers kind tier r =
     (am_enabled r = 1 \<and>
      (am_target_kind r = kind \<or> am_target_kind r = kind_family kind \<or> am_target_kind r = ''*'') \<and>
      am_tier_min r \<le> tier \<and> tier \<le> am_tier_max r)"

definition requester_matches :: "int list \<Rightarrow> matrix_rule \<Rightarrow> bool" where
  "requester_matches gs r =
     (mr_RequesterGroupIDs r = [] \<or> anyIntersection (mr_RequesterGroupIDs r) gs)"

definition FindRule :: "pam_db \<Rightarrow> string \<Rightarrow> int \<Rightarrow> int list \<Rightarrow> err + matrix_rule option" where
  "FindRule db targetKind tier requesterGroupIDs =
     (if faults db Matrix_Find then Inl (ErrSql Matrix_Find)
      else Inr (List.find (requester_matches requesterGroupIDs)
             (map scanMatrixRule
               (sort_key (matrix_rank targetKind (kind_family targetKind))
                 (filter (matrix_covers targetKind tier) (approval_matrix db))))))"

section \<open>The matrix as a keyed store\<close>

interpretation matrix: keyed_store approval_matrix am_id "\<lambda>db. seq db T_approval_matrix"
  MatrixCreate MatrixUpdate MatrixDelete
proof unfold_locales
  show "i = seq s T_approval_matrix + 1 \<and> seq s' T_approval_matrix = i \<and>
      (\<exists>r. am_id r = i \<and> approval_matrix s' = approval_matrix s @ [r])"
    if "MatrixCreate a s = (Inr i, s')" for a s i s'
    using that by (auto simp: MatrixCreate_def Let_def next_id_def bump_seq_def split: if_splits)
  show "map am_id (approval_matrix s') = map am_id (approval_matrix s) \<and>
      seq s' T_approval_matrix = seq s T_approval_matrix"
    if "MatrixUpdate a s = (Inr u, s')" for a s u s'
    using that by (auto simp: MatrixUpdate_def split: if_splits)
  show "i \<in> am_id ` set (approval_matrix s) \<and>
      approval_matrix s' = delete_where (\<lambda>r. am_id r = i) (approval_matrix s) \<and>
      seq s' T_approval_matrix = seq s T_approval_matrix"
    if "MatrixDelete i s = (Inr u, s')" for i s u s'
    using that by (auto simp: MatrixDelete_def split: if_splits)
qed (auto simp: MatrixCreate_def MatrixUpdate_def MatrixDelete_def Let_def split: if_splits)

section \<open>Thresholds\<close>

text \<open>No stored rule asks for less than one approval.\<close>

definition matrix_ok :: "pam_db \<Rightarrow> bool" where
  "matrix_ok db \<longleftrightarrow>
     table_ok approval_matrix am_id (\<lambda>db. seq db T_approval_matrix) db \<and>
     (\<forall>r \<in> set (approval_matrix db). 1 \<le> am_required_approvals r)"

lemma MatrixCreate_matrix_ok: "matrix_ok db \<Longrightarrow> matrix_ok (snd (MatrixCreate r db))"
  using matrix.create_keeps [of db r]
  by (auto simp: matrix_ok_def MatrixCreate_def Let_def bump_seq_def split: if_splits)

lemma MatrixUpdate_matrix_ok: "matrix_ok db \<Longrightarrow> matrix_ok (snd (MatrixUpdate r db))"
  using matrix.update_keeps [of db r]
  by (auto simp: matrix_ok_def MatrixUpdate_def set_update_where split: if_splits)

lemma MatrixDelete_matrix_ok: "matrix_ok db \<Longrightarrow> matrix_ok (snd (MatrixDelete i db))"
  using matrix.delete_keeps [of db i]
  by (auto simp: matrix_ok_def MatrixDelete_def split: if_splits)

section \<open>Encoding of the group lists\<close>

definition int64_range :: "int \<Rightarrow> bool" where
  "int64_range n = (- (2 ^ 63) \<le> n \<and> n < 2 ^ 63)"

lemma parse_joined_ints:
  assumes "\<forall>n \<in> set ids. int64_range n"
  shows "parseCSVInts (joinCSVInts ids) = ids"
proof (cases "ids = []")
  case True
  then show ?thesis by (simp add: parseCSVInts_def joinCSVInts_def)
next
  case False
  let ?p = "\<lambda>p. let q = trim_space p in if q = [] then None else parse_int64 q"
  have word: "trim_space (string_of_int n) = string_of_int n" "string_of_int n \<noteq> []" for n
    using string_of_int_word(1) [of n] by (auto dest: is_word_trim is_word_not_Nil)
  have "join '','' (map string_of_int ids) \<noteq> []"
    using False word(2) by (cases ids) (auto simp: join_Cons)
  moreover have "split_on (CHR '','') (join '','' (map string_of_int ids)) = map string_of_int ids"
    using False string_of_int_word(2) by (intro split_on_join) auto
  moreover have "List.map_filter ?p (map string_of_int ids) = ids"
    using assms
    by (induction ids)
      (auto simp: List.map_filter_simps word parse_string_of_int int64_range_def)
  ultimately show ?thesis using False by (simp add: parseCSVInts_def joinCSVInts_def)
qed

section \<open>Specification of FindRule\<close>

definition matrix_applies :: "pam_db \<Rightarrow> string \<Rightarrow> int \<Rightarrow> int list \<Rightarrow> matrix_row \<Rightarrow> bool" where
  "matrix_applies db kind tier gs r \<longleftrightarrow>
     r \<in> set (approval_matrix db) \<and> matrix_covers kind tier r \<and> requester_matches gs (scanMatrixRule r)"

lemma find_map: "List.find P (map f xs) = map_option f (List.find (P \<circ> f) xs)"
  by (induction xs) auto

lemma FindRule_Some:
  assumes "FindRule db kind tier gs = Inr (Some rule)"
  obtains r where "rule = scanMatrixRule r" "matrix_applies db kind tier gs r"
    "\<And>r'. matrix_applies db kind tier gs r' \<Longrightarrow>
       matrix_rank kind (kind_family kind) r \<le> matrix_rank kind (kind_family kind) r'"
proof -
  from assms obtain r where r: "rule = scanMatrixRule r"
      "List.find (requester_matches gs \<circ> scanMatrixRule)
         (sort_key (matrix_rank kind (kind_family kind))
           (filter (matrix_covers kind tier) (approval_matrix db))) = Some r"
    by (auto simp: FindRule_def find_map split: if_splits)
  from find_sorted_least [OF r(2)] show thesis
    by (intro that [OF r(1)]) (auto simp: matrix_applies_def)
qed

lemma FindRule_None:
  assumes "FindRule db kind tier gs = Inr None"
  shows "\<not> matrix_applies db kind tier gs r"
proof -
  from assms have "\<not> (\<exists>r. r \<in> set (filter (matrix_covers kind tier) (approval_matrix db)) \<and>
      (requester_matches gs \<circ> scanMatrixRule) r)"
    by (auto simp: FindRule_def find_map find_None_iff split: if_splits)
  then show ?thesis by (auto simp: matrix_applies_def)
qed

lemma FindRule_threshold:
  assumes "matrix_ok db" "FindRule db kind tier gs = Inr (Some rule)"
  shows "1 \<le> mr_RequiredApprovals rule"
  using assms(2)
proof (rule FindRule_Some)
  fix r assume "rule = scanMatrixRule r" "matrix_applies db kind tier gs r"
  with assms(1) show ?thesis
    by (simp add: matrix_ok_def matrix_applies_def scanMatrixRule_def)
qed

end
