(* ===== verification/Approval.thy ===== *)
theory Approval
  imports ApprovalMatrix
begin

text \<open>
  \<^verbatim>\<open>internal/approval/approval.go\<close>: access requests, votes and grants.  \<open>service\<close> is the Go struct
  \<^verbatim>\<open>Service\<close> without its database handle (the state that every operation takes and returns): whether
  a matrix is configured, and the optional collaborator \<^verbatim>\<open>GroupMembers\<close>, an interface, as the
  function that it provides.  Times are Unix seconds, \<open>clock\<close> is \<^verbatim>\<open>db.Now()\<close>; the deadline
  \<^verbatim>\<open>decided + ttl\<close> is added in 64 bits.
\<close>

section \<open>Requests\<close>

record request =
  rq_ID :: int
  rq_UserID :: int
  rq_TargetID :: int
  rq_Reason :: string
  rq_Status :: string
  rq_ApproverID :: "int option"
  rq_CreatedAt :: int
  rq_DecidedAt :: "int option"
  rq_TTLSeconds :: int
  rq_SudoRequested :: int
  rq_SudoGranted :: int

record service =
  sv_Matrix :: bool
  sv_GroupMembers :: "(pam_db \<Rightarrow> int \<Rightarrow> err + int list) option"

record decide_result =
  dr_Status :: string
  dr_ApprovalsHave :: int
  dr_ApprovalsNeed :: int

record vote_record =
  vr_RequestID :: int
  vr_ApproverID :: int
  vr_Approver :: string
  vr_Approve :: bool
  vr_Comment :: string
  vr_DecidedAt :: int

record request_view =
  rv_Request :: request
  rv_Username :: string
  rv_TargetName :: string
  rv_TargetKind :: string
  rv_TargetTier :: int
  rv_ApprovalsHave :: int
  rv_ApprovalsNeed :: int
  rv_Decisions :: "vote_record list"
  rv_HasBootstrap :: bool

definition ErrSelfApproval :: err where
  "ErrSelfApproval = ErrMsg ''cannot approve your own request''"
definition ErrNotApprover :: err where
  "ErrNotApprover = ErrMsg ''you are not an approver for this request''"
definition ErrAlreadyDecided :: err where
  "ErrAlreadyDecided = ErrMsg ''you have already voted on this request''"
definition ErrRequestClosed :: err where
  "ErrRequestClosed = ErrMsg ''request is not pending''"

definition boolToInt :: "bool \<Rightarrow> int" where
  "boolToInt b = (if b then 1 else 0)"

text \<open>Two's complement addition at 64 bits.\<close>

definition add_int64 :: "int \<Rightarrow> int \<Rightarrow> int" where
  "add_int64 a b = (a + b + 2 ^ 63) mod 2 ^ 64 - 2 ^ 63"

text \<open>The TTL is a \<^verbatim>\<open>time.Duration\<close> in nanoseconds; \<^verbatim>\<open>int(ttl.Seconds())\<close> drops the fraction (the
  callers pass whole seconds, so the rounding of the float does not show).\<close>

definition ApprovalCreate ::
  "int \<Rightarrow> int \<Rightarrow> string \<Rightarrow> int \<Rightarrow> bool \<Rightarrow> pam_db \<Rightarrow> (err + int) \<times> pam_db" where
  "ApprovalCreate userID targetID reason ttl sudoRequested db =
     (let ttl' = (if ttl \<le> 0 then 30 * 60 * 10 ^ 9 else ttl) in
      if faults db Request_Insert then (Inl (ErrSql Request_Insert), db)
      else if userID \<notin> set (map u_id (users db)) \<or> targetID \<notin> set (map t_id (targets db))
      then (Inl ErrConstraint, db)
      else
        let i = next_id T_access_requests db in
        (Inr i, (bump_seq T_access_requests db)\<lparr>access_requests := access_requests db @
          [\<lparr>ar_id = i, ar_user_id = userID, ar_target_id = targetID, ar_reason = reason,
            ar_status = ''pending'', ar_approver_id = None, ar_created_at = clock db,
            ar_decided_at = None, ar_ttl_seconds = Some (ttl' div 10 ^ 9),
            ar_sudo_requested = boolToInt sudoRequested, ar_sudo_granted = 0\<rparr>]\<rparr>))"

definition ApprovalGet :: "pam_db \<Rightarrow> int \<Rightarrow> err + request" where
  "ApprovalGet db i =
     (if faults db (Request_Get i) then Inl (ErrMsg ''request not found'')
      else case row_by ar_id i (access_requests db) of
        None \<Rightarrow> Inl (ErrMsg ''request not found'')
      | Some r \<Rightarrow>
          (case ar_ttl_seconds r of
             None \<Rightarrow> Inl (ErrMsg ''request not found'')
           | Some ttl \<Rightarrow>
               Inr \<lparr>rq_ID = ar_id r, rq_UserID = ar_user_id r, rq_TargetID = ar_target_id r,
                 rq_Reason = ar_reason r, rq_Status = ar_status r, rq_ApproverID = None,
                 rq_CreatedAt = ar_created_at r, rq_DecidedAt = None, rq_TTLSeconds = ttl,
                 rq_SudoRequested = ar_sudo_requested r, rq_SudoGranted = ar_sudo_granted r\<rparr>))"

section \<open>Voting\<close>

definition targetMeta :: "pam_db \<Rightarrow> int \<Rightarrow> err + string \<times> int" where
  "targetMeta db targetID =
     (if faults db Target_Meta then Inl (ErrMsg ''target not found'')
      else case row_by t_id targetID (targets db) of
        None \<Rightarrow> Inl (ErrMsg ''target not found'')
      | Some t \<Rightarrow> Inr (t_kind t, t_tier t))"

definition requesterGroups :: "service \<Rightarrow> pam_db \<Rightarrow> int \<Rightarrow> err + int list" where
  "requesterGroups sv db userID =
     (case sv_GroupMembers sv of None \<Rightarrow> Inr [] | Some lookup \<Rightarrow> lookup db userID)"

text \<open>\<^verbatim>\<open>requesterGroups, _ := ...\<close>: the error is dropped, the requester then has no groups.\<close>

definition requester_groups :: "service \<Rightarrow> pam_db \<Rightarrow> int \<Rightarrow> int list" where
  "requester_groups sv db userID =
     (case requesterGroups sv db userID of Inl _ \<Rightarrow> [] | Inr gs \<Rightarrow> gs)"

text \<open>The rule lookup of \<open>ApprovalDecide\<close>: the threshold and the approver groups.\<close>

definition matched_rule :: "service \<Rightarrow> pam_db \<Rightarrow> request \<Rightarrow> err + int \<times> int list" where
  "matched_rule sv db req =
     (if \<not> sv_Matrix sv then Inr (1, [])
      else case targetMeta db (rq_TargetID req) of
        Inl e \<Rightarrow> Inl e
      | Inr (targetKind, tier) \<Rightarrow>
          (case FindRule db targetKind tier (requester_groups sv db (rq_UserID req)) of
             Inl e \<Rightarrow> Inl e
           | Inr None \<Rightarrow> Inr (1, [])
           | Inr (Some rule) \<Rightarrow> Inr (mr_RequiredApprovals rule, mr_ApproverGroupIDs rule)))"

definition authorize_approver :: "service \<Rightarrow> pam_db \<Rightarrow> int list \<Rightarrow> int \<Rightarrow> string \<Rightarrow> err + unit" where
  "authorize_approver sv db approverGroupIDs approverID approverRole =
     (case (approverGroupIDs, sv_GroupMembers sv) of
        (_ # _, Some lookup) \<Rightarrow>
          (case lookup db approverID of
             Inl e \<Rightarrow> Inl e
           | Inr userGroups \<Rightarrow>
               if anyIntersection approverGroupIDs userGroups then Inr () else Inl ErrNotApprover)
      | _ \<Rightarrow> if approverRole \<noteq> ''admin'' then Inl ErrNotApprover else Inr ())"

definition insert_vote :: "int \<Rightarrow> int \<Rightarrow> bool \<Rightarrow> string \<Rightarrow> pam_db \<Rightarrow> (err + unit) \<times> pam_db" where
  "insert_vote i approverID approve comment db =
     (if faults db Vote_Insert then (Inl (ErrSql Vote_Insert), db)
      else if (i, approverID) \<in> set (map (\<lambda>d. (ad_request_id d, ad_approver_id d)) (approval_decisions db))
        \<or> approverID \<notin> set (map u_id (users db)) \<or> i \<notin> set (map ar_id (access_requests db))
      then (Inl ErrConstraint, db)
      else (Inr (), (bump_seq T_approval_decisions db)\<lparr>approval_decisions := approval_decisions db @
         [\<lparr>ad_id = next_id T_approval_decisions db, ad_request_id = i, ad_approver_id = approverID,
           ad_approve = boolToInt approve, ad_comment = comment, ad_decided_at = clock db\<rparr>]\<rparr>))"

definition votes_of :: "pam_db \<Rightarrow> int \<Rightarrow> decision_row list" where
  "votes_of db i = filter (\<lambda>d. ad_request_id d = i) (approval_decisions db)"

text \<open>\<^verbatim>\<open>SELECT approve, COUNT(*) ... GROUP BY approve\<close>, then the loop over its rows.\<close>

definition tally :: "pam_db \<Rightarrow> int \<Rightarrow> err + int \<times> int" where
  "tally db i =
     (if faults db Vote_Tally then Inl (ErrSql Vote_Tally)
      else
        let votes = map ad_approve (votes_of db i);
            rows = map (\<lambda>ap. (ap, int (count_list votes ap))) (sort (remdups votes))
        in Inr (foldl (\<lambda>(approvals, denials) (ap, count).
             if ap = 1 then (count, denials) else (approvals, count)) (0, 0) rows))"

definition finalize :: "int \<Rightarrow> string \<Rightarrow> int \<Rightarrow> pam_db \<Rightarrow> (err + unit) \<times> pam_db" where
  "finalize i status approverID db =
     (if faults db Request_Finalize then (Inl (ErrSql Request_Finalize), db)
      else (Inr (), db\<lparr>access_requests :=
        update_where (\<lambda>r. ar_id r = i \<and> ar_status r = ''pending'')
          (\<lambda>r. let r' = r\<lparr>ar_status := status, ar_approver_id := Some approverID,
                            ar_decided_at := Some (clock db)\<rparr> in
               if status = ''approved''
               then r'\<lparr>ar_sudo_granted := (if ar_sudo_requested r = 1 then 1 else 0)\<rparr> else r')
          (access_requests db)\<rparr>))"

text \<open>The end of \<open>ApprovalDecide\<close>: tally the votes and close the request when they decide it.\<close>

definition conclude :: "int \<Rightarrow> int \<Rightarrow> int \<Rightarrow> pam_db \<Rightarrow> (err + decide_result) \<times> pam_db" where
  "conclude i approverID required db =
     (case tally db i of
        Inl e \<Rightarrow> (Inl e, db)
      | Inr (approvals, denials) \<Rightarrow>
          let res = (\<lambda>status. \<lparr>dr_Status = status, dr_ApprovalsHave = approvals,
                                dr_ApprovalsNeed = required\<rparr>);
              close = (\<lambda>status. case finalize i status approverID db of
                         (Inl e, db') \<Rightarrow> (Inl e, db')
                       | (Inr _, db') \<Rightarrow> (Inr (res status), db'))
          in if 0 < denials then close ''denied''
             else if required \<le> approvals then close ''approved''
             else (Inr (res ''pending''), db))"

definition ApprovalDecide ::
  "service \<Rightarrow> int \<Rightarrow> int \<Rightarrow> string \<Rightarrow> bool \<Rightarrow> string \<Rightarrow> pam_db \<Rightarrow> (err + decide_result) \<times> pam_db" where
  "ApprovalDecide sv i approverID approverRole approve comment db =
     (case ApprovalGet db i of
        Inl e \<Rightarrow> (Inl e, db)
      | Inr req \<Rightarrow>
          if rq_Status req \<noteq> ''pending'' then (Inl ErrRequestClosed, db)
          else if rq_UserID req = approverID then (Inl ErrSelfApproval, db)
          else
            (case matched_rule sv db req of
               Inl e \<Rightarrow> (Inl e, db)
             | Inr (required, approverGroupIDs) \<Rightarrow>
                 (case authorize_approver sv db approverGroupIDs approverID approverRole of
                    Inl e \<Rightarrow> (Inl e, db)
                  | Inr _ \<Rightarrow>
                      (case insert_vote i approverID approve comment db of
                         (Inl _, db') \<Rightarrow> (Inl ErrAlreadyDecided, db')
                       | (Inr _, db') \<Rightarrow> conclude i approverID required db'))))"

definition ListDecisions :: "pam_db \<Rightarrow> int \<Rightarrow> err + vote_record list" where
  "ListDecisions db requestID =
     (if faults db (Vote_List requestID) then Inl (ErrSql (Vote_List requestID))
      else Inr (map (\<lambda>d. \<lparr>vr_RequestID = ad_request_id d, vr_ApproverID = ad_approver_id d,
               vr_Approver = (case row_by u_id (ad_approver_id d) (users db) of
                                None \<Rightarrow> [] | Some u \<Rightarrow> u_username u),
               vr_Approve = (ad_approve d \<noteq> 0), vr_Comment = ad_comment d,
               vr_DecidedAt = ad_decided_at d\<rparr>)
             (sort_key ad_decided_at (votes_of db requestID))))"

definition RequiredApprovals :: "service \<Rightarrow> pam_db \<Rightarrow> int \<Rightarrow> err + int" where
  "RequiredApprovals sv db requestID =
     (if \<not> sv_Matrix sv then Inr 1
      else case ApprovalGet db requestID of
        Inl e \<Rightarrow> Inl e
      | Inr req \<Rightarrow>
          (case targetMeta db (rq_TargetID req) of
             Inl e \<Rightarrow> Inl e
           | Inr (kind, tier) \<Rightarrow>
               (case FindRule db kind tier (requester_groups sv db (rq_UserID req)) of
                  Inl e \<Rightarrow> Inl e
                | Inr None \<Rightarrow> Inr 1
                | Inr (Some rule) \<Rightarrow> Inr (mr_RequiredApprovals rule))))"

section \<open>Grants\<close>

definition requestGrantActive :: "int \<Rightarrow> int option \<Rightarrow> int option \<Rightarrow> bool" where
  "requestGrantActive now decided ttl =
     (case (decided, ttl) of
        (Some d, Some t) \<Rightarrow> now < add_int64 d t
      | _ \<Rightarrow> True)"

text \<open>\<^verbatim>\<open>ORDER BY decided_at DESC\<close>: the latest decision first, NULL last.\<close>

definition latest_first :: "request_row \<Rightarrow> int \<times> int" where
  "latest_first r = (case ar_decided_at r of Some d \<Rightarrow> (0, - d) | None \<Rightarrow> (1, 0))"

definition grants_for :: "pam_db \<Rightarrow> int \<Rightarrow> int \<Rightarrow> request_row list" where
  "grants_for db userID targetID =
     filter (\<lambda>r. ar_user_id r = userID \<and> ar_target_id r = targetID \<and> ar_status r = ''approved'')
       (access_requests db)"

definition ActiveSudoGranted :: "pam_db \<Rightarrow> int \<Rightarrow> int \<Rightarrow> err + bool" where
  "ActiveSudoGranted db userID targetID =
     (if faults db Request_Active_Sudo then Inl (ErrSql Request_Active_Sudo)
      else case first_row (sort_key latest_first
                  (filter (\<lambda>r. ar_sudo_granted r = 1) (grants_for db userID targetID))) of
        None \<Rightarrow> Inr False
      | Some r \<Rightarrow>
          if ar_sudo_granted r \<noteq> 1 then Inr False
          else Inr (requestGrantActive (clock db) (ar_decided_at r) (ar_ttl_seconds r)))"

text \<open>\<open>IsApproved\<close> swallows every error: the result is then false.\<close>

definition IsApproved :: "pam_db \<Rightarrow> int \<Rightarrow> int \<Rightarrow> bool" where
  "IsApproved db userID targetID =
     (if faults db Request_Is_Approved then False
      else case first_row (sort_key latest_first (grants_for db userID targetID)) of
        None \<Rightarrow> False
      | Some r \<Rightarrow> requestGrantActive (clock db) (ar_decided_at r) (ar_ttl_seconds r))"

definition Revoke :: "int \<Rightarrow> int \<Rightarrow> pam_db \<Rightarrow> (err + unit) \<times> pam_db" where
  "Revoke requestID revokerID db =
     (if faults db Request_Revoke then (Inl (ErrSql Request_Revoke), db)
      else if rows_affected (\<lambda>r. ar_id r = requestID \<and> ar_status r = ''approved'') (access_requests db) = 0
      then (Inl (ErrMsg ''request not found or not currently approved''), db)
      else (Inr (), db\<lparr>access_requests :=
        update_where (\<lambda>r. ar_id r = requestID \<and> ar_status r = ''approved'')
          (\<lambda>r. r\<lparr>ar_status := ''denied'', ar_approver_id := Some revokerID,
                  ar_decided_at := Some (clock db)\<rparr>) (access_requests db)\<rparr>))"

definition RenewApproval :: "int \<Rightarrow> int \<Rightarrow> pam_db \<Rightarrow> (err + unit) \<times> pam_db" where
  "RenewApproval requestID ttlSeconds db =
     (let ttl = (if ttlSeconds \<le> 0 then 28800 else ttlSeconds) in
      if faults db Request_Renew then (Inl (ErrSql Request_Renew), db)
      else if rows_affected (\<lambda>r. ar_id r = requestID \<and> ar_status r = ''approved'') (access_requests db) = 0
      then (Inl (ErrMsg ''request not found or not approved''), db)
      else (Inr (), db\<lparr>access_requests :=
        update_where (\<lambda>r. ar_id r = requestID \<and> ar_status r = ''approved'')
          (\<lambda>r. r\<lparr>ar_decided_at := Some (clock db), ar_ttl_seconds := Some ttl\<rparr>)
          (access_requests db)\<rparr>))"

definition GrantSudo :: "int \<Rightarrow> bool \<Rightarrow> pam_db \<Rightarrow> (err + unit) \<times> pam_db" where
  "GrantSudo requestID grant db =
     (case ApprovalGet db requestID of
        Inl e \<Rightarrow> (Inl e, db)
      | Inr req \<Rightarrow>
          if rq_Status req \<noteq> ''approved''
          then (Inl (ErrMsg ''request must be approved before sudo can be granted''), db)
          else if faults db Request_Sudo then (Inl (ErrSql Request_Sudo), db)
          else (Inr (), db\<lparr>access_requests :=
            update_where (\<lambda>r. ar_id r = requestID)
              (\<lambda>r. r\<lparr>ar_sudo_granted := (if grant then 1 else 0)\<rparr>) (access_requests db)\<rparr>))"

section \<open>Lists\<close>

text \<open>Scanning a NULL \<^verbatim>\<open>ttl_seconds\<close> into an \<^verbatim>\<open>int\<close> is an error that ends the whole query.\<close>

definition scan_ttl :: "request_row \<Rightarrow> err + int" where
  "scan_ttl r = (case ar_ttl_seconds r of
     None \<Rightarrow> Inl (ErrMsg ''converting NULL to int is unsupported'') | Some t \<Rightarrow> Inr t)"

fun scan_rows :: "('r \<Rightarrow> err + 'a) \<Rightarrow> 'r list \<Rightarrow> err + 'a list" where
  "scan_rows f [] = Inr []"
| "scan_rows f (r # rs) =
     (case f r of Inl e \<Rightarrow> Inl e
      | Inr a \<Rightarrow> (case scan_rows f rs of Inl e \<Rightarrow> Inl e | Inr as \<Rightarrow> Inr (a # as)))"

definition ListPending :: "pam_db \<Rightarrow> err + request list" where
  "ListPending db =
     (if faults db Request_Pending then Inl (ErrSql Request_Pending)
      else scan_rows (\<lambda>r. case scan_ttl r of Inl e \<Rightarrow> Inl e | Inr t \<Rightarrow>
             Inr \<lparr>rq_ID = ar_id r, rq_UserID = ar_user_id r, rq_TargetID = ar_target_id r,
               rq_Reason = ar_reason r, rq_Status = ar_status r, rq_ApproverID = None,
               rq_CreatedAt = ar_created_at r, rq_DecidedAt = None, rq_TTLSeconds = t,
               rq_SudoRequested = 0, rq_SudoGranted = 0\<rparr>)
           (sort_key (\<lambda>r. - ar_created_at r)
             (filter (\<lambda>r. ar_status r = ''pending'') (access_requests db))))"

text \<open>\<^verbatim>\<open>access_requests JOIN users JOIN targets\<close>, and the scan of one joined row.\<close>

definition joined_rows ::
  "pam_db \<Rightarrow> (request_row \<Rightarrow> bool) \<Rightarrow> (request_row \<times> user_row \<times> target_row) list" where
  "joined_rows db p =
     concat (map (\<lambda>r. concat (map (\<lambda>u. map (\<lambda>t. (r, u, t))
         (filter (\<lambda>t. t_id t = ar_target_id r) (targets db)))
         (filter (\<lambda>u. u_id u = ar_user_id r) (users db))))
       (filter p (access_requests db)))"

definition scan_view :: "bool \<Rightarrow> request_row \<times> user_row \<times> target_row \<Rightarrow> err + request_view" where
  "scan_view bootstrap row =
     (case row of (r, u, t) \<Rightarrow>
      (case scan_ttl r of
         Inl e \<Rightarrow> Inl e
       | Inr ttl \<Rightarrow>
           Inr \<lparr>rv_Request = \<lparr>rq_ID = ar_id r, rq_UserID = ar_user_id r, rq_TargetID = ar_target_id r,
                  rq_Reason = ar_reason r, rq_Status = ar_status r, rq_ApproverID = None,
                  rq_CreatedAt = ar_created_at r, rq_DecidedAt = ar_decided_at r,
                  rq_TTLSeconds = ttl, rq_SudoRequested = ar_sudo_requested r,
                  rq_SudoGranted = ar_sudo_granted r\<rparr>,
             rv_Username = u_username u, rv_TargetName = t_name t, rv_TargetKind = t_kind t,
             rv_TargetTier = t_tier t, rv_ApprovalsHave = 0, rv_ApprovalsNeed = 0,
             rv_Decisions = [], rv_HasBootstrap = bootstrap\<rparr>))"

definition enrich :: "service \<Rightarrow> pam_db \<Rightarrow> request_view \<Rightarrow> request_view" where
  "enrich sv db v =
     (let i = rq_ID (rv_Request v);
          v1 = v\<lparr>rv_ApprovalsNeed :=
            (case RequiredApprovals sv db i of Inr need \<Rightarrow> need | Inl _ \<Rightarrow> 1)\<rparr>
      in case ListDecisions db i of
           Inl _ \<Rightarrow> v1
         | Inr decs \<Rightarrow> v1\<lparr>rv_Decisions := decs,
             rv_ApprovalsHave := rv_ApprovalsHave v1 + int (length (filter vr_Approve decs))\<rparr>)"

definition queryEnriched ::
  "service \<Rightarrow> pam_db \<Rightarrow> (request_row \<times> user_row \<times> target_row) list \<Rightarrow> err + request_view list" where
  "queryEnriched sv db rows =
     (if faults db Request_Enriched then Inl (ErrSql Request_Enriched)
      else case scan_rows (scan_view False) rows of
        Inl e \<Rightarrow> Inl e
      | Inr out \<Rightarrow> Inr (map (enrich sv db) out))"

definition ListPendingEnriched :: "service \<Rightarrow> pam_db \<Rightarrow> err + request_view list" where
  "ListPendingEnriched sv db =
     queryEnriched sv db (sort_key (\<lambda>(r, _, _). - ar_created_at r)
       (joined_rows db (\<lambda>r. ar_status r = ''pending'')))"

definition ListMineEnriched :: "service \<Rightarrow> pam_db \<Rightarrow> int \<Rightarrow> err + request_view list" where
  "ListMineEnriched sv db userID =
     queryEnriched sv db (take 50 (sort_key (\<lambda>(r, _, _). - ar_created_at r)
       (joined_rows db (\<lambda>r. ar_user_id r = userID))))"

definition recently_active :: "int \<Rightarrow> request_row \<Rightarrow> bool" where
  "recently_active now r =
     (case (ar_decided_at r, ar_ttl_seconds r) of
        (Some d, Some t) \<Rightarrow> now - 86400 < d + t
      | _ \<Rightarrow> True)"

definition ListApprovedEnriched :: "pam_db \<Rightarrow> err + request_view list" where
  "ListApprovedEnriched db =
     (if faults db Request_Approved then Inl (ErrSql Request_Approved)
      else scan_rows (\<lambda>row. scan_view
               (\<exists>pa \<in> set (privileged_accounts db). pa_target_id pa = Some (t_id (snd (snd row)))) row)
           (sort_key (\<lambda>(r, _, _). latest_first r)
             (joined_rows db (\<lambda>r. ar_status r = ''approved'' \<and> recently_active (clock db) r))))"

end
