(* ===== verification/ApprovalSpec.thy ===== *)
theory ApprovalSpec
  imports Approval GroupSpec
begin

text \<open>
  What the approval workflow promises: the choice of the matrix rule, one step of \<open>ApprovalDecide\<close>,
  the invariant of the two tables over every run (no grant without the recorded vote of another
  person), the terminal states, and the deadline of a grant.
\<close>

section \<open>Group lookup\<close>

text \<open>The interface \<^verbatim>\<open>GroupMembershipLookup\<close>: what the workflow relies on is that a successful lookup
  returns the user's groups.\<close>

locale membership_lookup =
  fixes lookup :: "pam_db \<Rightarrow> int \<Rightarrow> err + int list"
    and members :: "pam_db \<Rightarrow> int \<Rightarrow> int set"
  assumes lookup_sound: "lookup db u = Inr gs \<Longrightarrow> set gs = members db u"
begin

definition entitled :: "bool \<Rightarrow> pam_db \<Rightarrow> int list \<Rightarrow> int \<Rightarrow> string \<Rightarrow> bool" where
  "entitled configured db approvers u role \<longleftrightarrow>
     (if approvers = [] \<or> \<not> configured then role = ''admin''
      else \<exists>g \<in> set approvers. g \<in> members db u)"

lemma authorize_entitled:
  assumes "authorize_approver \<lparr>sv_Matrix = m, sv_GroupMembers = (if c then Some lookup else None)\<rparr>
      db approvers u role = Inr ()"
  shows "entitled c db approvers u role"
  using assms lookup_sound
  by (auto simp: authorize_approver_def entitled_def anyIntersection_def
      split: list.splits if_splits sum.splits)

end

interpretation db_lookup: membership_lookup UserGroupIDs member_groups
  by unfold_locales
    (auto simp: UserGroupIDs_def member_groups_def has_member_def split: if_splits)

text \<open>The service as \<^verbatim>\<open>cmd/approval-service\<close> builds it: \<open>configured\<close> is false in the tests that leave
  the collaborators out.\<close>

definition approval_service :: "bool \<Rightarrow> service" where
  "approval_service configured =
     \<lparr>sv_Matrix = configured, sv_GroupMembers = (if configured then Some UserGroupIDs else None)\<rparr>"

section \<open>Votes\<close>

definition approving :: "pam_db \<Rightarrow> int \<Rightarrow> int" where
  "approving db i = int (length (filter (\<lambda>d. ad_approve d = 1) (votes_of db i)))"

definition denying :: "pam_db \<Rightarrow> int \<Rightarrow> int" where
  "denying db i = int (length (filter (\<lambda>d. ad_approve d \<noteq> 1) (votes_of db i)))"

definition votes_binary :: "pam_db \<Rightarrow> bool" where
  "votes_binary db \<longleftrightarrow> (\<forall>d \<in> set (approval_decisions db). ad_approve d \<in> {0, 1})"

lemma sort_remdups_binary:
  fixes xs :: "int list"
  assumes "set xs \<subseteq> {0, 1}"
  shows "sort (remdups xs) =
    (if 0 \<in> set xs then [0] else []) @ (if 1 \<in> set xs then [1] else [])"
proof -
  have "sort (remdups xs) = sorted_list_of_set (set xs)"
    by (simp add: sorted_list_of_set_sort_remdups)
  moreover from assms have "set xs \<in> Pow {0, 1}" by simp
  then have "set xs = {} \<or> set xs = {0} \<or> set xs = {1} \<or> set xs = {0, 1}"
    unfolding Pow_insert Pow_empty by (auto simp del: set_empty)
  ultimately show ?thesis by (elim disjE) (simp_all del: set_empty)
qed

lemma count_list_map: "count_list (map f xs) v = length (filter (\<lambda>x. f x = v) xs)"
  by (induction xs) auto

lemma tally_counts:
  assumes "votes_binary db" "\<not> faults db Vote_Tally"
  shows "tally db i = Inr (approving db i, denying db i)"
proof -
  let ?v = "map ad_approve (votes_of db i)"
  have range: "set ?v \<subseteq> {0, 1}"
    using assms(1) by (auto simp: votes_binary_def votes_of_def)
  then have "filter (\<lambda>d. ad_approve d \<noteq> 1) (votes_of db i) = filter (\<lambda>d. ad_approve d = 0) (votes_of db i)"
    by (intro filter_cong) auto
  then have counts: "approving db i = int (count_list ?v 1)" "denying db i = int (count_list ?v 0)"
    by (simp_all add: approving_def denying_def count_list_map)
  have zero: "count_list ?v k = 0 \<longleftrightarrow> k \<notin> set ?v" for k
    by (simp add: count_list_0_iff)
  show ?thesis
    using assms(2) unfolding tally_def Let_def sort_remdups_binary [OF range] counts
    by (auto simp: zero [symmetric] simp del: set_map)
qed

lemma insert_vote_Inr:
  assumes "insert_vote i u a c db = (Inr x, db')"
  shows "\<not> faults db Vote_Insert"
    "db' = (bump_seq T_approval_decisions db)\<lparr>approval_decisions := approval_decisions db @
       [\<lparr>ad_id = next_id T_approval_decisions db, ad_request_id = i, ad_approver_id = u,
         ad_approve = boolToInt a, ad_comment = c, ad_decided_at = clock db\<rparr>]\<rparr>"
    "(i, u) \<notin> set (map (\<lambda>d. (ad_request_id d, ad_approver_id d)) (approval_decisions db))"
    "u \<in> u_id ` set (users db)" "i \<in> ar_id ` set (access_requests db)"
  using assms by (auto simp: insert_vote_def split: if_splits)

lemma insert_vote_Inl: "insert_vote i u a c db = (Inl e, db') \<Longrightarrow> db' = db"
  by (auto simp: insert_vote_def split: if_splits)

lemma finalize_frame:
  assumes "finalize i st u db = (r, db')"
  shows "approval_decisions db' = approval_decisions db" "seq db' = seq db"
    "map ar_id (access_requests db') = map ar_id (access_requests db)"
  using assms by (auto simp: finalize_def Let_def split: if_splits)

text \<open>What a call of \<open>ApprovalDecide\<close> that answers with a result went through.\<close>

lemma ApprovalDecide_Inr:
  assumes "ApprovalDecide sv i u role a c db = (Inr res, db')"
  obtains req need approvers mid where
    "ApprovalGet db i = Inr req" "rq_Status req = ''pending''" "rq_UserID req \<noteq> u"
    "matched_rule sv db req = Inr (need, approvers)"
    "authorize_approver sv db approvers u role = Inr ()"
    "insert_vote i u a c db = (Inr (), mid)" "conclude i u need mid = (Inr res, db')"
proof -
  from assms obtain req where req: "ApprovalGet db i = Inr req" "rq_Status req = ''pending''"
      "rq_UserID req \<noteq> u"
    by (auto simp: ApprovalDecide_def split: sum.splits if_splits)
  with assms obtain need approvers where rule: "matched_rule sv db req = Inr (need, approvers)"
      "authorize_approver sv db approvers u role = Inr ()"
    by (auto simp: ApprovalDecide_def split: sum.splits)
  with assms req obtain mid where "insert_vote i u a c db = (Inr (), mid)"
      "conclude i u need mid = (Inr res, db')"
    by (auto simp: ApprovalDecide_def split: sum.splits prod.splits)
  with req rule show thesis by (rule that)
qed

lemma conclude_Inr:
  assumes "conclude i u need mid = (Inr res, db')" "votes_binary mid"
  shows "dr_ApprovalsHave res = approving mid i" "dr_ApprovalsNeed res = need"
    "dr_Status res =
      (if 0 < denying mid i then ''denied'' else if need \<le> approving mid i then ''approved'' else ''pending'')"
    "dr_Status res = ''pending'' \<longrightarrow> db' = mid"
    "dr_Status res \<noteq> ''pending'' \<longrightarrow> finalize i (dr_Status res) u mid = (Inr (), db')"
proof -
  have "\<not> faults mid Vote_Tally"
    using assms(1) by (auto simp: conclude_def tally_def)
  then have t: "tally mid i = Inr (approving mid i, denying mid i)"
    using assms(2) by (simp add: tally_counts)
  show "dr_ApprovalsHave res = approving mid i" "dr_ApprovalsNeed res = need"
    "dr_Status res =
      (if 0 < denying mid i then ''denied'' else if need \<le> approving mid i then ''approved'' else ''pending'')"
    "dr_Status res = ''pending'' \<longrightarrow> db' = mid"
    "dr_Status res \<noteq> ''pending'' \<longrightarrow> finalize i (dr_Status res) u mid = (Inr (), db')"
    using assms(1) by (auto simp: conclude_def t split: if_splits prod.splits sum.splits)
qed

section \<open>One vote\<close>

text \<open>C5: What a successful call of \<open>ApprovalDecide\<close> means: the request was pending, the voter is not
  the requester and was entitled to vote (a member of an approver group of the matched rule, or an
  admin when no rule names groups), the vote is recorded once, and the reported status follows from
  the counted votes: denied as soon as there is one denial, approved once the approvals reach the
  threshold of the matched rule, pending otherwise.\<close>

theorem ApprovalDecide_spec:
  assumes "ApprovalDecide (approval_service cfg) i u role a c db = (Inr res, db')" "votes_binary db"
  shows "\<exists>req need approvers.
    ApprovalGet db i = Inr req \<and> rq_Status req = ''pending'' \<and> rq_UserID req \<noteq> u \<and>
    matched_rule (approval_service cfg) db req = Inr (need, approvers) \<and>
    db_lookup.entitled cfg db approvers u role \<and>
    (\<forall>d \<in> set (votes_of db i). ad_approver_id d \<noteq> u) \<and>
    approving db' i = approving db i + boolToInt a \<and>
    denying db' i = denying db i + (1 - boolToInt a) \<and>
    dr_ApprovalsHave res = approving db' i \<and> dr_ApprovalsNeed res = need \<and>
    dr_Status res =
      (if 0 < denying db' i then ''denied'' else if need \<le> approving db' i then ''approved'' else ''pending'')"
  using assms(1)
proof (rule ApprovalDecide_Inr)
  fix req need approvers mid
  assume req: "ApprovalGet db i = Inr req" "rq_Status req = ''pending''" "rq_UserID req \<noteq> u"
    and rule: "matched_rule (approval_service cfg) db req = Inr (need, approvers)"
    and auth: "authorize_approver (approval_service cfg) db approvers u role = Inr ()"
    and vote: "insert_vote i u a c db = (Inr (), mid)"
    and conc: "conclude i u need mid = (Inr res, db')"
  note v = insert_vote_Inr [OF vote]
  have bin: "votes_binary mid"
    using assms(2) v(2) by (auto simp: votes_binary_def boolToInt_def bump_seq_def)
  note c = conclude_Inr [OF conc bin]
  have "approval_decisions db' = approval_decisions mid"
    using c(4,5) finalize_frame(1) by metis
  then have same: "approving db' i = approving mid i" "denying db' i = denying mid i"
    by (simp_all add: approving_def denying_def votes_of_def)
  have counts: "approving mid i = approving db i + boolToInt a"
    "denying mid i = denying db i + (1 - boolToInt a)"
    using v(2) by (simp_all add: approving_def denying_def votes_of_def boolToInt_def bump_seq_def)
  have "db_lookup.entitled cfg db approvers u role"
    using auth by (intro db_lookup.authorize_entitled [of cfg]) (simp add: approval_service_def)
  moreover have "\<forall>d \<in> set (votes_of db i). ad_approver_id d \<noteq> u"
    using v(3) by (auto simp: votes_of_def image_iff)
  ultimately show ?thesis
    using req rule by (intro exI [of _ req] exI [of _ need] exI [of _ approvers])
      (simp add: c(1-3) same counts)
qed

definition demo_user :: "int \<Rightarrow> string \<Rightarrow> user_row" where
  "demo_user i n = \<lparr>u_id = i, u_username = n, u_email = None, u_password_hash = [],
     u_role = ''user'', u_mfa_secret = None, u_mfa_enabled = 0, u_source = ''local'',
     u_external_dn = None, u_last_login = None, u_created_at = 0, u_disabled = 0,
     u_role_locked = 0, u_mfa_exempt = 0\<rparr>"

definition demo_target :: target_row where
  "demo_target = \<lparr>t_id = 3, t_name = ''core1'', t_kind = ''cisco-ios'', t_host = ''10.0.0.1'',
     t_port = 22, t_tier = 0, t_tags = [], t_location_id = None, t_connection_type = ''ssh'',
     t_web_url = [], t_vendor = [], t_os_version = [], t_db_name = []\<rparr>"

definition workflow_db :: pam_db where
  "workflow_db = empty_db\<lparr>users := [demo_user 7 ''ann'', demo_user 8 ''bob'', demo_user 9 ''cy''],
     targets := [demo_target], clock := 1000\<rparr>"

definition filed_db :: pam_db where
  "filed_db = snd (ApprovalCreate 7 3 ''patch'' 0 True workflow_db)"

lemma ApprovalDecide_spec_witness:
  "\<exists>res db'. ApprovalDecide (approval_service True) 1 8 ''admin'' True [] filed_db = (Inr res, db') \<and>
     approving db' 1 = 1 \<and> dr_Status res = ''approved''"
proof -
  have "ok_that (\<lambda>res. dr_Status res = ''approved'')
      (fst (ApprovalDecide (approval_service True) 1 8 ''admin'' True [] filed_db))"
    by code_simp
  then obtain res where res: "dr_Status res = ''approved''"
      "fst (ApprovalDecide (approval_service True) 1 8 ''admin'' True [] filed_db) = Inr res"
    by (auto simp: ok_that_iff)
  then obtain db' where call:
      "ApprovalDecide (approval_service True) 1 8 ''admin'' True [] filed_db = (Inr res, db')"
    by (metis prod.collapse)
  have "approval_decisions filed_db = []"
    by (simp add: filed_db_def ApprovalCreate_def workflow_db_def empty_db_def Let_def bump_seq_def)
  then have "votes_binary filed_db" "approving filed_db 1 = 0"
    by (simp_all add: votes_binary_def approving_def votes_of_def)
  with ApprovalDecide_spec [OF call] res call show ?thesis by (auto simp: boolToInt_def)
qed

section \<open>Invariant\<close>

definition request_ok :: "pam_db \<Rightarrow> request_row \<Rightarrow> bool" where
  "request_ok db r \<longleftrightarrow>
     ar_status r \<in> {''pending'', ''approved'', ''denied''} \<and>
     (ar_status r = ''pending'' \<longrightarrow>
        ar_decided_at r = None \<and> ar_approver_id r = None \<and> ar_sudo_granted r = 0) \<and>
     (ar_status r = ''approved'' \<longrightarrow>
        ar_decided_at r \<noteq> None \<and> denying db (ar_id r) = 0 \<and> 1 \<le> approving db (ar_id r))"

definition votes_ok :: "pam_db \<Rightarrow> bool" where
  "votes_ok db \<longleftrightarrow>
     votes_binary db \<and>
     distinct (map (\<lambda>d. (ad_request_id d, ad_approver_id d)) (approval_decisions db)) \<and>
     (\<forall>d \<in> set (approval_decisions db). ad_request_id d \<in> ar_id ` set (access_requests db)) \<and>
     (\<forall>d \<in> set (approval_decisions db). \<forall>r \<in> set (access_requests db).
        ad_request_id d = ar_id r \<longrightarrow> ad_approver_id d \<noteq> ar_user_id r)"

definition approvals_ok :: "pam_db \<Rightarrow> bool" where
  "approvals_ok db \<longleftrightarrow>
     table_ok access_requests ar_id (\<lambda>db. seq db T_access_requests) db \<and>
     votes_ok db \<and> (\<forall>r \<in> set (access_requests db). request_ok db r)"

lemma vote_counts_frame [simp]:
  "approving (db\<lparr>access_requests := rs\<rparr>) i = approving db i"
  "denying (db\<lparr>access_requests := rs\<rparr>) i = denying db i"
  "request_ok (db\<lparr>access_requests := rs\<rparr>) r = request_ok db r"
  "approving (db\<lparr>seq := sq\<rparr>) i = approving db i"
  "denying (db\<lparr>seq := sq\<rparr>) i = denying db i"
  by (simp_all add: approving_def denying_def votes_of_def request_ok_def)

text \<open>An update of request rows that keeps their keys and owners.\<close>

lemma update_requests_ok:
  assumes "approvals_ok db" "\<And>r. ar_id (f r) = ar_id r" "\<And>r. ar_user_id (f r) = ar_user_id r"
    and "\<And>r. r \<in> set (access_requests db) \<Longrightarrow> p r \<Longrightarrow> request_ok db r \<Longrightarrow> request_ok db (f r)"
  shows "approvals_ok (db\<lparr>access_requests := update_where p f (access_requests db)\<rparr>)"
proof -
  have ids: "map ar_id (update_where p f rows) = map ar_id rows" for rows
    using assms(2) by simp
  then have img: "ar_id ` set (update_where p f rows) = ar_id ` set rows" for rows
    by (metis set_map)
  show ?thesis
    using assms unfolding approvals_ok_def table_ok_def votes_ok_def votes_binary_def
    by (auto simp: ids img) (auto simp: set_update_where)
qed

lemma approvals_ok_frame:
  assumes "approvals_ok s" "access_requests t = access_requests s"
    "approval_decisions t = approval_decisions s" "seq t T_access_requests = seq s T_access_requests"
  shows "approvals_ok t"
  using assms
  by (simp add: approvals_ok_def table_ok_def votes_ok_def votes_binary_def request_ok_def
      approving_def denying_def votes_of_def)

lemma ApprovalCreate_approvals_ok:
  assumes "approvals_ok db"
  shows "approvals_ok (snd (ApprovalCreate u t reason ttl sudo db))"
proof -
  have fresh: "seq db T_access_requests + 1 \<notin> ar_id ` set (access_requests db)"
    using assms keys_ok_fresh [of "map ar_id (access_requests db)" "seq db T_access_requests"]
    by (simp add: approvals_ok_def table_ok_def)
  have noref: "ad_request_id d \<noteq> seq db T_access_requests + 1"
    if "d \<in> set (approval_decisions db)" for d
    using assms fresh that by (metis approvals_ok_def votes_ok_def)
  have keys: "keys_ok (map ar_id (access_requests db) @ [seq db T_access_requests + 1])
      (seq db T_access_requests + 1)"
    using assms by (intro keys_ok_snoc) (simp_all add: approvals_ok_def table_ok_def)
  show ?thesis
    using assms fresh keys
    unfolding approvals_ok_def table_ok_def votes_ok_def votes_binary_def request_ok_def
    by (auto simp: ApprovalCreate_def Let_def next_id_def bump_seq_def dest: noref)
qed

lemma ApprovalGet_row:
  assumes "ApprovalGet db i = Inr req"
  obtains r where "row_by ar_id i (access_requests db) = Some r" "r \<in> set (access_requests db)"
    "ar_id r = i" "ar_status r = rq_Status req" "ar_user_id r = rq_UserID req"
proof -
  from assms obtain r where r: "row_by ar_id i (access_requests db) = Some r"
      "ar_status r = rq_Status req" "ar_user_id r = rq_UserID req"
    by (auto simp: ApprovalGet_def split: if_splits option.splits)
  with row_by_Some [OF r(1)] show thesis by (intro that) auto
qed

lemma approvals_ok_key:
  assumes "approvals_ok db" "r \<in> set (access_requests db)" "r' \<in> set (access_requests db)"
    "ar_id r = ar_id r'"
  shows "r = r'"
  using assms keys_ok_row by (fastforce simp: approvals_ok_def table_ok_def)

lemma insert_vote_approvals_ok:
  assumes ok: "approvals_ok db" and req: "ApprovalGet db i = Inr req" "rq_Status req = ''pending''"
      "rq_UserID req \<noteq> u"
    and vote: "insert_vote i u a c db = (Inr (), mid)"
  shows "approvals_ok mid"
proof -
  obtain r where r: "r \<in> set (access_requests db)" "ar_id r = i" "ar_status r = ''pending''"
      "ar_user_id r \<noteq> u"
    using ApprovalGet_row [OF req(1)] req(2,3) by metis
  have uniq: "r' = r" if "r' \<in> set (access_requests db)" "ar_id r' = i" for r'
    using approvals_ok_key [OF ok that(1) r(1)] that(2) r(2) by simp
  have votes: "votes_ok db" using ok by (simp add: approvals_ok_def)
  note v = insert_vote_Inr [OF vote]
  have other: "approving mid k = approving db k" "denying mid k = denying db k" if "k \<noteq> i" for k
    using v(2) that by (simp_all add: approving_def denying_def votes_of_def bump_seq_def)
  have rows: "access_requests mid = access_requests db"
    "seq mid T_access_requests = seq db T_access_requests"
    "approval_decisions mid = approval_decisions db @ [\<lparr>ad_id = next_id T_approval_decisions db,
       ad_request_id = i, ad_approver_id = u, ad_approve = boolToInt a, ad_comment = c,
       ad_decided_at = clock db\<rparr>]"
    using v(2) by (simp_all add: bump_seq_def)
  have "request_ok mid r'" if "r' \<in> set (access_requests db)" for r'
  proof (cases "ar_id r' = i")
    case True
    with uniq that have "r' = r" by blast
    with ok r show ?thesis by (auto simp: approvals_ok_def request_ok_def)
  next
    case False
    with ok that show ?thesis by (auto simp: approvals_ok_def request_ok_def other)
  qed
  moreover have "votes_ok mid"
    unfolding votes_ok_def votes_binary_def rows
  proof (intro conjI ballI impI)
    show "distinct (map (\<lambda>d. (ad_request_id d, ad_approver_id d))
        (approval_decisions db @ [\<lparr>ad_id = next_id T_approval_decisions db,
         ad_request_id = i, ad_approver_id = u, ad_approve = boolToInt a, ad_comment = c,
         ad_decided_at = clock db\<rparr>]))"
      using votes v(3) by (simp add: votes_ok_def)
  next
    fix d r'
    assume d: "d \<in> set (approval_decisions db @ [\<lparr>ad_id = next_id T_approval_decisions db,
         ad_request_id = i, ad_approver_id = u, ad_approve = boolToInt a, ad_comment = c,
         ad_decided_at = clock db\<rparr>])"
    then show "ad_approve d \<in> {0, 1}" "ad_request_id d \<in> ar_id ` set (access_requests db)"
      using votes v(5) by (auto simp: votes_ok_def votes_binary_def boolToInt_def)
    assume r': "r' \<in> set (access_requests db)" "ad_request_id d = ar_id r'"
    show "ad_approver_id d \<noteq> ar_user_id r'"
    proof (cases "d \<in> set (approval_decisions db)")
      case True
      with votes r' show ?thesis by (simp add: votes_ok_def)
    next
      case False
      with d r' have "r' = r" "ad_approver_id d = u" by (auto intro: uniq)
      with r(4) show ?thesis by simp
    qed
  qed
  ultimately show ?thesis
    using ok by (simp add: approvals_ok_def table_ok_def rows)
qed

lemma finalize_approvals_ok:
  assumes "approvals_ok mid" "finalize i st u mid = (res, db')"
    and "st = ''denied'' \<or> st = ''approved'' \<and> denying mid i = 0 \<and> 1 \<le> approving mid i"
  shows "approvals_ok db'"
proof (cases "faults mid Request_Finalize")
  case True
  with assms(1,2) show ?thesis by (simp add: finalize_def)
next
  case False
  then have "db' = mid\<lparr>access_requests :=
      update_where (\<lambda>r. ar_id r = i \<and> ar_status r = ''pending'')
        (\<lambda>r. let r' = r\<lparr>ar_status := st, ar_approver_id := Some u,
                          ar_decided_at := Some (clock mid)\<rparr> in
             if st = ''approved''
             then r'\<lparr>ar_sudo_granted := (if ar_sudo_requested r = 1 then 1 else 0)\<rparr> else r')
        (access_requests mid)\<rparr>"
    using assms(2) by (simp add: finalize_def)
  moreover have "approvals_ok (mid\<lparr>access_requests :=
      update_where (\<lambda>r. ar_id r = i \<and> ar_status r = ''pending'')
        (\<lambda>r. let r' = r\<lparr>ar_status := st, ar_approver_id := Some u,
                          ar_decided_at := Some (clock mid)\<rparr> in
             if st = ''approved''
             then r'\<lparr>ar_sudo_granted := (if ar_sudo_requested r = 1 then 1 else 0)\<rparr> else r')
        (access_requests mid)\<rparr>)"
    using assms(3) by (intro update_requests_ok [OF assms(1)]) (auto simp: Let_def request_ok_def)
  ultimately show ?thesis by simp
qed

section \<open>Runs\<close>

text \<open>A run of the workflow: any sequence of its operations, whatever they return; between two of them
  the environment may change everything but the two tables (the matrix, the groups, the clock, the
  statements that will fail).\<close>

inductive approval_run :: "service \<Rightarrow> pam_db \<Rightarrow> pam_db \<Rightarrow> bool" for sv where
  start: "approval_run sv s s"
| environment: "approval_run sv s t \<Longrightarrow> access_requests t' = access_requests t \<Longrightarrow>
    approval_decisions t' = approval_decisions t \<Longrightarrow>
    seq t' T_access_requests = seq t T_access_requests \<Longrightarrow> approval_run sv s t'"
| create: "approval_run sv s t \<Longrightarrow> approval_run sv s (snd (ApprovalCreate u tg why ttl sudo t))"
| decide: "approval_run sv s t \<Longrightarrow> approval_run sv s (snd (ApprovalDecide sv i u role a c t))"
| revoke: "approval_run sv s t \<Longrightarrow> approval_run sv s (snd (Revoke i u t))"
| renew: "approval_run sv s t \<Longrightarrow> approval_run sv s (snd (RenewApproval i ttl t))"
| sudo: "approval_run sv s t \<Longrightarrow> approval_run sv s (snd (GrantSudo i g t))"

lemma conclude_cases:
  assumes "conclude i u need mid = (r, db')" "votes_binary mid"
  obtains (same) "db' = mid"
    | (closed) st res where "finalize i st u mid = (res, db')"
        "st = ''denied'' \<or> st = ''approved'' \<and> denying mid i = 0 \<and> need \<le> approving mid i"
proof (cases "faults mid Vote_Tally")
  case True
  with assms(1) show thesis by (intro same) (simp add: conclude_def tally_def)
next
  case False
  then have t: "tally mid i = Inr (approving mid i, denying mid i)"
    using assms(2) by (rule tally_counts [rotated])
  have nonneg: "0 \<le> denying mid i" by (simp add: denying_def)
  show thesis
  proof (cases "0 < denying mid i")
    case True
    with assms(1) have "finalize i ''denied'' u mid = (fst (finalize i ''denied'' u mid), db')"
      by (auto simp: conclude_def t split: prod.splits sum.splits)
    then show thesis by (rule closed) simp
  next
    case no: False
    show thesis
    proof (cases "need \<le> approving mid i")
      case True
      with no assms(1) have "finalize i ''approved'' u mid = (fst (finalize i ''approved'' u mid), db')"
        by (auto simp: conclude_def t split: prod.splits sum.splits)
      then show thesis using no nonneg True by (intro closed) auto
    next
      case False
      with no assms(1) show thesis by (intro same) (simp add: conclude_def t)
    qed
  qed
qed

lemma ApprovalDecide_cases:
  obtains (same) "snd (ApprovalDecide sv i u role a c db) = db"
    | (voted) req need mid where
        "ApprovalGet db i = Inr req" "rq_Status req = ''pending''" "rq_UserID req \<noteq> u"
        "insert_vote i u a c db = (Inr (), mid)"
        "snd (ApprovalDecide sv i u role a c db) = snd (conclude i u need mid)"
proof (cases "ApprovalGet db i")
  case (Inl e)
  then show thesis by (intro same) (simp add: ApprovalDecide_def)
next
  case get: (Inr req)
  show thesis
  proof (cases "rq_Status req = ''pending'' \<and> rq_UserID req \<noteq> u")
    case False
    with get show thesis by (intro same) (auto simp: ApprovalDecide_def)
  next
    case guard: True
    show thesis
    proof (cases "matched_rule sv db req")
      case (Inl e)
      with get guard show thesis by (intro same) (simp add: ApprovalDecide_def)
    next
      case (Inr rule)
      obtain need approvers where rule: "rule = (need, approvers)" by (cases rule)
      show thesis
      proof (cases "authorize_approver sv db approvers u role")
        case (Inl e)
        with get guard Inr rule show thesis by (intro same) (simp add: ApprovalDecide_def)
      next
        case auth: (Inr x)
        obtain r mid where vote: "insert_vote i u a c db = (r, mid)" by (cases "insert_vote i u a c db")
        show thesis
        proof (cases r)
          case (Inl e)
          with vote get guard Inr rule auth show thesis
            by (intro same) (auto simp: ApprovalDecide_def dest: insert_vote_Inl)
        next
          case (Inr y)
          with vote get guard \<open>matched_rule sv db req = Inr rule\<close> rule auth show thesis
            by (intro voted [of req mid need]) (simp_all add: ApprovalDecide_def)
        qed
      qed
    qed
  qed
qed

lemma insert_vote_approving:
  assumes "insert_vote i u a c db = (Inr (), mid)" "denying mid i = 0"
  shows "1 \<le> approving mid i"
proof -
  have "votes_of mid i = votes_of db i @ [\<lparr>ad_id = next_id T_approval_decisions db,
       ad_request_id = i, ad_approver_id = u, ad_approve = boolToInt a, ad_comment = c,
       ad_decided_at = clock db\<rparr>]"
    using insert_vote_Inr(2) [OF assms(1)] by (simp add: votes_of_def bump_seq_def)
  with assms(2) show ?thesis
    by (auto simp: denying_def approving_def filter_empty_conv split: if_splits)
qed

lemma ApprovalDecide_approvals_ok:
  assumes "approvals_ok db"
  shows "approvals_ok (snd (ApprovalDecide sv i u role a c db))"
proof (cases rule: ApprovalDecide_cases [of sv i u role a c db])
  case same
  with assms show ?thesis by simp
next
  case (voted req need mid)
  have ok: "approvals_ok mid"
    using insert_vote_approvals_ok assms voted(1-4) by blast
  then have bin: "votes_binary mid" by (simp add: approvals_ok_def votes_ok_def)
  obtain r db' where conc: "conclude i u need mid = (r, db')" by (cases "conclude i u need mid")
  have "approvals_ok db'"
    using conc bin
  proof (cases rule: conclude_cases)
    case same
    with ok show ?thesis by simp
  next
    case (closed st res)
    with ok insert_vote_approving [OF voted(4)] show ?thesis
      by (intro finalize_approvals_ok [OF ok closed(1)]) auto
  qed
  with voted(5) conc show ?thesis by simp
qed

lemma Revoke_approvals_ok: "approvals_ok db \<Longrightarrow> approvals_ok (snd (Revoke i u db))"
  using update_requests_ok [of db "\<lambda>r. r\<lparr>ar_status := ''denied'', ar_approver_id := Some u,
      ar_decided_at := Some (clock db)\<rparr>" "\<lambda>r. ar_id r = i \<and> ar_status r = ''approved''"]
  by (auto simp: Revoke_def request_ok_def)

lemma RenewApproval_approvals_ok: "approvals_ok db \<Longrightarrow> approvals_ok (snd (RenewApproval i ttl db))"
  using update_requests_ok [of db "\<lambda>r. r\<lparr>ar_decided_at := Some (clock db),
      ar_ttl_seconds := Some (if ttl \<le> 0 then 28800 else ttl)\<rparr>"
      "\<lambda>r. ar_id r = i \<and> ar_status r = ''approved''"]
  by (auto simp: RenewApproval_def Let_def request_ok_def)

lemma GrantSudo_approvals_ok:
  assumes "approvals_ok db"
  shows "approvals_ok (snd (GrantSudo i g db))"
proof (cases "\<exists>req. ApprovalGet db i = Inr req \<and> rq_Status req = ''approved'' \<and> \<not> faults db Request_Sudo")
  case False
  with assms show ?thesis by (auto simp: GrantSudo_def split: sum.splits)
next
  case True
  then obtain req where req: "ApprovalGet db i = Inr req" "rq_Status req = ''approved''"
      "\<not> faults db Request_Sudo" by blast
  then obtain r where r: "r \<in> set (access_requests db)" "ar_id r = i" "ar_status r = ''approved''"
    using ApprovalGet_row by metis
  have "ar_status r' = ''approved''" if "r' \<in> set (access_requests db)" "ar_id r' = i" for r'
    using approvals_ok_key [OF assms that(1) r(1)] that(2) r(2,3) by auto
  then have "approvals_ok (db\<lparr>access_requests := update_where (\<lambda>r. ar_id r = i)
      (\<lambda>r. r\<lparr>ar_sudo_granted := (if g then 1 else 0)\<rparr>) (access_requests db)\<rparr>)"
    by (intro update_requests_ok [OF assms]) (auto simp: request_ok_def)
  with req show ?thesis by (simp add: GrantSudo_def)
qed

lemma approval_run_ok: "approval_run sv s t \<Longrightarrow> approvals_ok s \<Longrightarrow> approvals_ok t"
proof (induction rule: approval_run.induct)
  case (environment s t t')
  then show ?case using approvals_ok_frame by blast
qed (simp_all add: ApprovalCreate_approvals_ok ApprovalDecide_approvals_ok Revoke_approvals_ok
      RenewApproval_approvals_ok GrantSudo_approvals_ok)

section \<open>Four eyes\<close>


definition granted_db :: pam_db where
  "granted_db = snd (ApprovalDecide (approval_service True) 1 8 ''admin'' True [] filed_db)"

lemma workflow_db_ok: "approvals_ok workflow_db"
  by (simp add: approvals_ok_def table_ok_def votes_ok_def votes_binary_def keys_ok_def workflow_db_def
      empty_db_def)

lemma granted_run: "approval_run (approval_service True) workflow_db granted_db"
  unfolding granted_db_def filed_db_def
  by (intro approval_run.decide approval_run.create approval_run.start)


section \<open>Terminal states\<close>

lemma run_keeps_denied:
  assumes "approval_run sv s t" "row_by ar_id i (access_requests s) = Some r" "ar_status r = ''denied''"
  shows "\<exists>r'. row_by ar_id i (access_requests t) = Some r' \<and> ar_status r' = ''denied''"
  using assms
proof (induction rule: approval_run.induct)
  case (create s t u tg why ttl sudo)
  then show ?case
    by (auto simp: ApprovalCreate_def Let_def bump_seq_def dest: row_by_append_Some)
next
  case (decide s t k u role a c)
  then obtain r' where r': "row_by ar_id i (access_requests t) = Some r'" "ar_status r' = ''denied''"
    by blast
  have "row_by ar_id i (access_requests (snd (conclude k u need t'))) = Some r'"
    if "access_requests t' = access_requests t" for t' need
    using r' that
    by (auto simp: conclude_def finalize_def row_by_update Let_def split: sum.splits prod.splits)
  moreover have "access_requests mid = access_requests t"
    if "insert_vote k u a c t = (x, mid)" for x mid
    using that by (auto simp: insert_vote_def bump_seq_def split: if_splits)
  ultimately show ?case
    using r' by (cases rule: ApprovalDecide_cases [of sv k u role a c t]) auto
next
  case (revoke s t k u)
  then obtain r' where "row_by ar_id i (access_requests t) = Some r'" "ar_status r' = ''denied''"
    by blast
  then show ?case by (simp add: Revoke_def row_by_update)
next
  case (renew s t k ttl)
  then obtain r' where "row_by ar_id i (access_requests t) = Some r'" "ar_status r' = ''denied''"
    by blast
  then show ?case by (simp add: RenewApproval_def Let_def row_by_update)
next
  case (sudo s t k g)
  then obtain r' where r': "row_by ar_id i (access_requests t) = Some r'" "ar_status r' = ''denied''"
    by blast
  then show ?case by (auto simp: GrantSudo_def row_by_update split: sum.splits)
qed auto

text \<open>C29: Denial is final: once a request is denied (by a vote or by a revocation) no later operation of
  the workflow makes it pending or approved again, so it never carries a grant.\<close>

theorem denied_is_final:
  assumes "approval_run sv s t" "row_by ar_id i (access_requests s) = Some r" "ar_status r = ''denied''"
    and "approvals_ok s"
  shows "\<forall>r' \<in> set (access_requests t). ar_id r' = i \<longrightarrow>
    ar_status r' = ''denied'' \<and> r' \<notin> set (grants_for t u tg)"
proof -
  have ok: "approvals_ok t" using approval_run_ok assms(1,4) by blast
  obtain r' where "row_by ar_id i (access_requests t) = Some r'" "ar_status r' = ''denied''"
    using run_keeps_denied [OF assms(1-3)] by blast
  then have r': "r' \<in> set (access_requests t)" "ar_id r' = i" "ar_status r' = ''denied''"
    by (auto dest: row_by_Some)
  then have "q = r'" if "q \<in> set (access_requests t)" "ar_id q = i" for q
    using approvals_ok_key [OF ok that(1) r'(1)] that(2) by simp
  with r'(3) show ?thesis by (auto simp: grants_for_def)
qed

lemma denied_is_final_witness:
  "\<not> (\<exists>r' \<in> set (access_requests (snd (ApprovalDecide (approval_service True) 1 8 ''admin'' True []
       (snd (Revoke 1 9 granted_db))))). ar_id r' = 1 \<and> ar_status r' \<noteq> ''denied'')"
proof -
  let ?s = "snd (Revoke 1 9 granted_db)"
  have run: "approval_run (approval_service True) workflow_db ?s"
    by (intro approval_run.revoke granted_run)
  have "map_option ar_status (row_by ar_id 1 (access_requests ?s)) = Some ''denied''" by code_simp
  then obtain r where r: "row_by ar_id 1 (access_requests ?s) = Some r" "ar_status r = ''denied''"
    by auto
  show ?thesis
    using denied_is_final [OF approval_run.decide [OF approval_run.start] r
        approval_run_ok [OF run workflow_db_ok]] by blast
qed

section \<open>Deadlines\<close>

lemma add_int64_small: "0 \<le> a \<Longrightarrow> 0 \<le> b \<Longrightarrow> a + b < 2 ^ 63 \<Longrightarrow> add_int64 a b = a + b"
  by (simp add: add_int64_def)

lemma IsApproved_latest:
  assumes "r \<in> set (grants_for db u tg)" "\<not> faults db Request_Is_Approved"
    and "\<And>q. q \<in> set (grants_for db u tg) \<Longrightarrow> q \<noteq> r \<Longrightarrow> latest_first r < latest_first q"
  shows "IsApproved db u tg = requestGrantActive (clock db) (ar_decided_at r) (ar_ttl_seconds r)"
proof -
  have "first_row (sort_key latest_first (grants_for db u tg)) = Some r"
  proof (cases "first_row (sort_key latest_first (grants_for db u tg))")
    case None
    with assms(1) show ?thesis by (auto simp del: first_row_None_iff)
  next
    case (Some q)
    then have "q \<in> set (grants_for db u tg)" "latest_first q \<le> latest_first r"
      using first_row_sorted_mem [OF Some] first_row_sorted_least [OF Some assms(1)] by auto
    with assms(3) [of q] have "q = r" by (metis leD)
    with Some show ?thesis by simp
  qed
  with assms(2) show ?thesis by (simp add: IsApproved_def)
qed

text \<open>Renewal reactivates: after a successful \<open>RenewApproval\<close> of a grant the user is approved until
  the new deadline (eight hours when no TTL is given), provided every other decision is older and the
  deadline fits 64 bits.\<close>

theorem RenewApproval_reactivates:
  assumes "approvals_ok db" "RenewApproval i ttl db = (Inr (), db')"
    and "\<And>q d. q \<in> set (access_requests db) \<Longrightarrow> ar_decided_at q = Some d \<Longrightarrow> d < clock db"
    and "eff = (if ttl \<le> 0 then 28800 else ttl)" "0 \<le> clock db" "clock db + eff < 2 ^ 63"
    and "now < clock db + eff" "\<not> faults db Request_Is_Approved"
  shows "\<exists>r \<in> set (access_requests db). ar_id r = i \<and>
    IsApproved (db'\<lparr>clock := now\<rparr>) (ar_user_id r) (ar_target_id r)"
proof -
  let ?p = "\<lambda>r. ar_id r = i \<and> ar_status r = ''approved''"
  let ?f = "\<lambda>r. r\<lparr>ar_decided_at := Some (clock db), ar_ttl_seconds := Some eff\<rparr>"
  from assms(2) obtain r where r: "r \<in> set (access_requests db)" "?p r"
    by (auto simp: RenewApproval_def Let_def split: if_splits)
  from assms(2,4) have db': "db' = db\<lparr>access_requests := update_where ?p ?f (access_requests db)\<rparr>"
    by (auto simp: RenewApproval_def Let_def split: if_splits)
  let ?t = "db'\<lparr>clock := now\<rparr>"
  have rows: "access_requests ?t = update_where ?p ?f (access_requests db)" using db' by simp
  have mem: "?f r \<in> set (grants_for ?t (ar_user_id r) (ar_target_id r))"
    using r by (auto simp: grants_for_def rows set_update_where)
  have "latest_first (?f r) < latest_first q"
    if q: "q \<in> set (grants_for ?t (ar_user_id r) (ar_target_id r))" "q \<noteq> ?f r" for q
  proof -
    from q(1) have q': "q \<in> set (update_where ?p ?f (access_requests db))" "ar_status q = ''approved''"
      by (auto simp: grants_for_def rows)
    have "q \<in> set (access_requests db)"
    proof (rule ccontr)
      assume "q \<notin> set (access_requests db)"
      with q'(1) obtain z where z: "z \<in> set (access_requests db)" "?p z" "q = ?f z"
        by (auto simp: set_update_where)
      with r approvals_ok_key [OF assms(1) z(1) r(1)] have "z = r" by simp
      with z(3) q(2) show False by simp
    qed
    moreover from this q'(2) assms(1) obtain d where "ar_decided_at q = Some d"
      by (auto simp: approvals_ok_def request_ok_def)
    ultimately show ?thesis using assms(3) [of q d] by (simp add: latest_first_def)
  qed
  then have "IsApproved ?t (ar_user_id r) (ar_target_id r) =
      requestGrantActive (clock ?t) (ar_decided_at (?f r)) (ar_ttl_seconds (?f r))"
    using assms(8) by (intro IsApproved_latest [OF mem]) (simp_all add: db')
  moreover have "add_int64 (clock db) eff = clock db + eff"
    using assms(4-6) by (intro add_int64_small) auto
  ultimately have "IsApproved ?t (ar_user_id r) (ar_target_id r)"
    using assms(7) by (simp add: requestGrantActive_def)
  with r show ?thesis by blast
qed

lemma RenewApproval_reactivates_witness:
  "\<exists>r \<in> set (access_requests granted_db). ar_id r = 1 \<and>
     IsApproved ((snd (RenewApproval 1 0 (granted_db\<lparr>clock := 90000\<rparr>)))\<lparr>clock := 118799\<rparr>)
       (ar_user_id r) (ar_target_id r)"
proof -
  let ?db = "granted_db\<lparr>clock := 90000\<rparr>"
  have ok: "approvals_ok ?db"
    by (rule approvals_ok_frame [OF approval_run_ok [OF granted_run workflow_db_ok]]) simp_all
  have "is_ok (fst (RenewApproval 1 0 ?db))" by code_simp
  then have call: "RenewApproval 1 0 ?db = (Inr (), snd (RenewApproval 1 0 ?db))"
    by (auto simp: is_ok_iff prod_eq_iff)
  have "\<forall>q \<in> set (access_requests granted_db). ar_decided_at q = Some 1000" by code_simp
  then have "\<And>q d. q \<in> set (access_requests ?db) \<Longrightarrow> ar_decided_at q = Some d \<Longrightarrow> d < clock ?db"
    by auto
  moreover have "\<not> faults granted_db Request_Is_Approved" by code_simp
  ultimately have "\<exists>r \<in> set (access_requests ?db). ar_id r = 1 \<and>
      IsApproved ((snd (RenewApproval 1 0 ?db))\<lparr>clock := 118799\<rparr>) (ar_user_id r) (ar_target_id r)"
    by (intro RenewApproval_reactivates [OF ok call _ refl]) auto
  then show ?thesis by simp
qed

text \<open>A later grant hides an earlier one: \<open>IsApproved\<close> looks only at the grant decided last.  In a
  reachable state a user holds an approved request with an hour to run, and \<open>IsApproved\<close> denies the
  access because a shorter request, granted afterwards, has expired.\<close>

theorem newer_grant_hides_older:
  "\<exists>t. approval_run (approval_service True) workflow_db t \<and> \<not> IsApproved t 7 3 \<and>
     (\<exists>r \<in> set (grants_for t 7 3).
        requestGrantActive (clock t) (ar_decided_at r) (ar_ttl_seconds r))"
proof -
  define t1 where "t1 = snd (ApprovalCreate 7 3 ''night'' (3600 * 10 ^ 9) False workflow_db)"
  define t2 where "t2 = snd (ApprovalDecide (approval_service True) 1 8 ''admin'' True [] t1)"
  define t3 where "t3 = snd (ApprovalCreate 7 3 ''short'' (60 * 10 ^ 9) False (t2\<lparr>clock := 1010\<rparr>))"
  define t4 where "t4 = snd (ApprovalDecide (approval_service True) 2 8 ''admin'' True [] t3)"
  define t where "t = t4\<lparr>clock := 1100\<rparr>"
  have "approval_run (approval_service True) workflow_db t2"
    unfolding t1_def t2_def by (intro approval_run.decide approval_run.create approval_run.start)
  then have "approval_run (approval_service True) workflow_db (t2\<lparr>clock := 1010\<rparr>)"
    by (rule approval_run.environment) simp_all
  then have "approval_run (approval_service True) workflow_db t4"
    unfolding t3_def t4_def by (intro approval_run.decide approval_run.create)
  then have "approval_run (approval_service True) workflow_db t"
    unfolding t_def by (rule approval_run.environment) simp_all
  moreover have "\<not> IsApproved t 7 3 \<and> (\<exists>r \<in> set (grants_for t 7 3).
      requestGrantActive (clock t) (ar_decided_at r) (ar_ttl_seconds r))"
    unfolding t_def t4_def t3_def t2_def t1_def by code_simp
  ultimately show ?thesis by blast
qed

text \<open>A vote and its effect are two statements without a transaction: when the closing \<^verbatim>\<open>UPDATE\<close>
  fails after the vote was stored, the caller gets an error, the request stays pending although its
  threshold is met, and the same approver can never repeat the vote.\<close>

theorem vote_without_effect:
  "\<exists>db db'. approvals_ok db \<and>
     (\<exists>e. ApprovalDecide (approval_service True) 1 8 ''admin'' True [] db = (Inl e, db')) \<and>
     approving db' 1 = 1 \<and> map ar_status (access_requests db') = [''pending''] \<and>
     fst (ApprovalDecide (approval_service True) 1 8 ''admin'' True [] (db'\<lparr>faults := (\<lambda>s. False)\<rparr>)) =
       Inl ErrAlreadyDecided"
proof -
  let ?db = "filed_db\<lparr>faults := (\<lambda>s. s = Request_Finalize)\<rparr>"
  let ?call = "ApprovalDecide (approval_service True) 1 8 ''admin'' True []"
  have "approvals_ok filed_db"
    unfolding filed_db_def by (rule ApprovalCreate_approvals_ok [OF workflow_db_ok])
  then have "approvals_ok ?db" by (rule approvals_ok_frame) simp_all
  moreover have "\<not> is_ok (fst (?call ?db))" by code_simp
  then have "\<exists>e. ?call ?db = (Inl e, snd (?call ?db))"
    by (cases "fst (?call ?db)") (auto simp: prod_eq_iff)
  moreover have "approving (snd (?call ?db)) 1 = 1" by code_simp
  moreover have "map ar_status (access_requests (snd (?call ?db))) = [''pending'']" by code_simp
  moreover have "fst (?call ((snd (?call ?db))\<lparr>faults := (\<lambda>s. False)\<rparr>)) = Inl ErrAlreadyDecided"
    by code_simp
  ultimately show ?thesis
    by (intro exI [of _ ?db] exI [of _ "snd (?call ?db)"] conjI)
qed

section \<open>The approval matrix\<close>


text \<open>The CSV encoding of the group lists is lossless: what \<open>MatrixCreate\<close> stores, a later scan of
  the row reads back, for every list of 64-bit ids.\<close>

theorem matrix_groups_roundtrip:
  assumes "MatrixCreate r db = (Inr i, db')"
    and "list_all int64_range (mr_RequesterGroupIDs r)" "list_all int64_range (mr_ApproverGroupIDs r)"
  shows "mr_RequesterGroupIDs (scanMatrixRule (last (approval_matrix db'))) = mr_RequesterGroupIDs r \<and>
    mr_ApproverGroupIDs (scanMatrixRule (last (approval_matrix db'))) = mr_ApproverGroupIDs r"
  using assms
  by (auto simp: MatrixCreate_def Let_def bump_seq_def scanMatrixRule_def list_all_iff
      parse_joined_ints split: if_splits)

definition demo_matrix_rule :: matrix_rule where
  "demo_matrix_rule = \<lparr>mr_ID = 0, mr_Name = ''core'', mr_TargetKind = ''cisco'', mr_TierMin = 0,
     mr_TierMax = 1, mr_RequiredApprovals = 2, mr_RequesterGroupIDs = [],
     mr_ApproverGroupIDs = [10, -4, 7], mr_Priority = 5, mr_Enabled = True, mr_CreatedAt = 0\<rparr>"

lemma matrix_groups_roundtrip_witness:
  "mr_ApproverGroupIDs (scanMatrixRule (last (approval_matrix
     (snd (MatrixCreate demo_matrix_rule empty_db))))) = [10, -4, 7]"
proof -
  have "is_ok (fst (MatrixCreate demo_matrix_rule empty_db))"
    by (simp add: MatrixCreate_def demo_matrix_rule_def empty_db_def Let_def)
  then obtain i where call: "MatrixCreate demo_matrix_rule empty_db =
      (Inr i, snd (MatrixCreate demo_matrix_rule empty_db))"
    by (auto simp: is_ok_iff prod_eq_iff)
  have "list_all int64_range (mr_RequesterGroupIDs demo_matrix_rule)"
    "list_all int64_range (mr_ApproverGroupIDs demo_matrix_rule)"
    by (simp_all add: demo_matrix_rule_def int64_range_def)
  from matrix_groups_roundtrip [OF call this] show ?thesis by (simp add: demo_matrix_rule_def)
qed

text \<open>\<open>MatrixUpdate\<close> does not default an empty target kind to \<^verbatim>\<open>*\<close> as \<open>MatrixCreate\<close> does: a rule
  updated with an empty kind stays enabled in the table and applies to no target of any kind.\<close>

theorem MatrixUpdate_empty_kind:
  assumes "MatrixUpdate r db = (Inr (), db')" "mr_TargetKind r = []" "kind \<noteq> []"
  shows "\<exists>m \<in> set (approval_matrix db'). am_id m = mr_ID r \<and>
    \<not> (\<exists>q. matrix_applies db' kind tier gs q \<and> am_id q = mr_ID r)"
proof -
  have fam: "kind_family kind \<noteq> []"
    using assms(3) by (auto simp: kind_family_def split: option.splits)
  have rows: "approval_matrix db' = update_where (\<lambda>m. am_id m = mr_ID r)
      (\<lambda>m. m\<lparr>am_name := mr_Name r, am_target_kind := mr_TargetKind r,
            am_tier_min := mr_TierMin r, am_tier_max := mr_TierMax r,
            am_required_approvals := (if mr_RequiredApprovals r < 1 then 1 else mr_RequiredApprovals r),
            am_requester_group_ids := joinCSVInts (mr_RequesterGroupIDs r),
            am_approver_group_ids := joinCSVInts (mr_ApproverGroupIDs r),
            am_priority := mr_Priority r, am_enabled := (if \<not> mr_Enabled r then 0 else 1)\<rparr>)
          (approval_matrix db)"
    and ex: "\<exists>m \<in> set (approval_matrix db). am_id m = mr_ID r"
    using assms(1) by (auto simp: MatrixUpdate_def split: if_splits)
  have "am_target_kind q = []" if "q \<in> set (approval_matrix db')" "am_id q = mr_ID r" for q
    using that assms(2) by (auto simp: rows set_update_where)
  then have "\<not> (\<exists>q. matrix_applies db' kind tier gs q \<and> am_id q = mr_ID r)"
    using assms(3) fam by (auto simp: matrix_applies_def matrix_covers_def)
  moreover have "mr_ID r \<in> am_id ` set (approval_matrix db')"
  proof -
    have "map am_id (approval_matrix db') = map am_id (approval_matrix db)" by (simp add: rows)
    then have "am_id ` set (approval_matrix db') = am_id ` set (approval_matrix db)"
      by (metis set_map)
    with ex show ?thesis by (metis imageI)
  qed
  ultimately show ?thesis by auto
qed

lemma MatrixUpdate_empty_kind_witness:
  "\<exists>m \<in> set (approval_matrix (snd (MatrixUpdate (demo_matrix_rule\<lparr>mr_ID := 1, mr_TargetKind := []\<rparr>)
      (snd (MatrixCreate demo_matrix_rule empty_db))))). am_id m = 1"
proof -
  let ?r = "demo_matrix_rule\<lparr>mr_ID := 1, mr_TargetKind := []\<rparr>"
  let ?db = "snd (MatrixCreate demo_matrix_rule empty_db)"
  have "is_ok (fst (MatrixUpdate ?r ?db))" by code_simp
  then have "MatrixUpdate ?r ?db = (Inr (), snd (MatrixUpdate ?r ?db))"
    by (auto simp: is_ok_iff prod_eq_iff)
  from MatrixUpdate_empty_kind [OF this, of "''cisco''"] show ?thesis by auto
qed

end
