(* ===== verification/GoBytes.thy ===== *)
theory GoBytes
  imports GoStrings "HOL-Library.Word"
begin

unbundle bit_operations_syntax

text \<open>
  Byte slices as \<open>8 word list\<close>, Go's \<^verbatim>\<open>encoding/binary\<close> big-endian accessors, and the
  standard library's MD5 and HMAC-MD5, which both AAA protocols use.  MD5 is written out
  (RFC 1321), so the packet functions are closed, executable definitions; the only fact about it
  that the protocol lemmas need is the contract of the locale \<open>digest16\<close>, that a digest has
  sixteen bytes.
\<close>

type_synonym byte = "8 word"
type_synonym bytes = "8 word list"

section \<open>Strings and bytes\<close>

definition bytes_of_string :: "string \<Rightarrow> bytes" where
  "bytes_of_string s = map (\<lambda>c. word_of_nat (of_char c)) s"

definition string_of_bytes :: "bytes \<Rightarrow> string" where
  "string_of_bytes b = map (\<lambda>w. char_of (unat w)) b"

lemma string_of_bytes_of_string [simp]: "string_of_bytes (bytes_of_string s) = s"
proof -
  have "char_of (unat (word_of_nat (of_char c) :: byte)) = c" for c
  proof -
    have "(of_char c :: nat) < 256" by simp
    then have "unat (word_of_nat (of_char c) :: byte) = of_char c"
      by (simp add: unat_of_nat)
    then show ?thesis by simp
  qed
  then show ?thesis by (simp add: string_of_bytes_def bytes_of_string_def map_idI)
qed

lemma bytes_of_string_of_bytes [simp]: "bytes_of_string (string_of_bytes b) = b"
proof -
  have "word_of_nat (of_char (char_of (unat w) :: char)) = w" for w :: byte
  proof -
    have "unat w < 2 ^ LENGTH(8)" by (rule unsigned_less)
    then have "unat w < 256" by simp
    then have "(of_char (char_of (unat w) :: char) :: nat) = unat w"
      by (simp add: of_char_of)
    then show ?thesis by simp
  qed
  then show ?thesis by (simp add: string_of_bytes_def bytes_of_string_def map_idI)
qed

lemma length_bytes_of_string [simp]: "length (bytes_of_string s) = length s"
  by (simp add: bytes_of_string_def)

lemma length_string_of_bytes [simp]: "length (string_of_bytes b) = length b"
  by (simp add: string_of_bytes_def)

section \<open>Big-endian integers\<close>

definition be16 :: "nat \<Rightarrow> bytes" where
  "be16 n = [word_of_nat (n div 256), word_of_nat n]"

definition of_be16 :: "bytes \<Rightarrow> nat" where
  "of_be16 b = (case b of [h, l] \<Rightarrow> 256 * unat h + unat l | _ \<Rightarrow> 0)"

definition be32 :: "32 word \<Rightarrow> bytes" where
  "be32 w = [ucast (drop_bit 24 w), ucast (drop_bit 16 w), ucast (drop_bit 8 w), ucast w]"

definition of_be32 :: "bytes \<Rightarrow> 32 word" where
  "of_be32 b = (case b of
       [b0, b1, b2, b3] \<Rightarrow>
         push_bit 24 (ucast b0) OR push_bit 16 (ucast b1) OR push_bit 8 (ucast b2) OR ucast b3
     | _ \<Rightarrow> 0)"

lemma length_be16 [simp]: "length (be16 n) = 2"
  by (simp add: be16_def)

lemma length_be32 [simp]: "length (be32 w) = 4"
  by (simp add: be32_def)

lemma of_be16_be16: "of_be16 (be16 n) = n mod 65536"
proof -
  have "of_be16 (be16 n) = 256 * (n div 256 mod 256) + n mod 256"
    by (simp add: of_be16_def be16_def unat_of_nat)
  also have "\<dots> = n mod (256 * 256)"
    by (simp only: mod_mult2_eq)
  finally show ?thesis by simp
qed

lemma of_be32_be32 [simp]: "of_be32 (be32 w) = w"
proof (rule bit_word_eqI)
  fix n assume n: "n < LENGTH(32)"
  consider "n < 8" | "8 \<le> n \<and> n < 16" | "16 \<le> n \<and> n < 24" | "24 \<le> n"
    by linarith
  then show "bit (of_be32 (be32 w)) n = bit w n"
    using n by cases
      (auto simp: of_be32_def be32_def bit_or_iff bit_push_bit_iff bit_ucast_iff bit_drop_bit_eq)
qed

lemma be32_of_be32: "length b = 4 \<Longrightarrow> be32 (of_be32 b) = b"
proof -
  assume "length b = 4"
  then obtain b0 b1 b2 b3 where b: "b = [b0, b1, b2, b3]"
    by (auto simp: numeral_eq_Suc length_Suc_conv)
  have "be32 (of_be32 [b0, b1, b2, b3]) = [b0, b1, b2, b3]"
    unfolding be32_def of_be32_def list.case list.inject
    by (intro conjI bit_word_eqI TrueI)
      (auto simp: bit_or_iff bit_push_bit_iff bit_ucast_iff bit_drop_bit_eq dest: bit_imp_le_length)
  with b show ?thesis by simp
qed

section \<open>MD5 (crypto/md5)\<close>

type_synonym u32 = "32 word"
type_synonym md5_state = "u32 \<times> u32 \<times> u32 \<times> u32"

definition md5_shifts :: "nat list" where
  "md5_shifts =
    [7, 12, 17, 22, 7, 12, 17, 22, 7, 12, 17, 22, 7, 12, 17, 22,
     5, 9, 14, 20, 5, 9, 14, 20, 5, 9, 14, 20, 5, 9, 14, 20,
     4, 11, 16, 23, 4, 11, 16, 23, 4, 11, 16, 23, 4, 11, 16, 23,
     6, 10, 15, 21, 6, 10, 15, 21, 6, 10, 15, 21, 6, 10, 15, 21]"

definition md5_table :: "u32 list" where
  "md5_table =
    [0xd76aa478, 0xe8c7b756, 0x242070db, 0xc1bdceee, 0xf57c0faf, 0x4787c62a,
     0xa8304613, 0xfd469501, 0x698098d8, 0x8b44f7af, 0xffff5bb1, 0x895cd7be,
     0x6b901122, 0xfd987193, 0xa679438e, 0x49b40821, 0xf61e2562, 0xc040b340,
     0x265e5a51, 0xe9b6c7aa, 0xd62f105d, 0x02441453, 0xd8a1e681, 0xe7d3fbc8,
     0x21e1cde6, 0xc33707d6, 0xf4d50d87, 0x455a14ed, 0xa9e3e905, 0xfcefa3f8,
     0x676f02d9, 0x8d2a4c8a, 0xfffa3942, 0x8771f681, 0x6d9d6122, 0xfde5380c,
     0xa4beea44, 0x4bdecfa9, 0xf6bb4b60, 0xbebfbc70, 0x289b7ec6, 0xeaa127fa,
     0xd4ef3085, 0x04881d05, 0xd9d4d039, 0xe6db99e5, 0x1fa27cf8, 0xc4ac5665,
     0xf4292244, 0x432aff97, 0xab9423a7, 0xfc93a039, 0x655b59c3, 0x8f0ccc92,
     0xffeff47d, 0x85845dd1, 0x6fa87e4f, 0xfe2ce6e0, 0xa3014314, 0x4e0811a1,
     0xf7537e82, 0xbd3af235, 0x2ad7d2bb, 0xeb86d391]"

definition md5_index :: "nat list" where
  "md5_index =
    [0, 1, 2, 3, 4, 5, 6, 7, 8, 9, 10, 11, 12, 13, 14, 15,
     1, 6, 11, 0, 5, 10, 15, 4, 9, 14, 3, 8, 13, 2, 7, 12,
     5, 8, 11, 14, 1, 4, 7, 10, 13, 0, 3, 6, 9, 12, 15, 2,
     0, 7, 14, 5, 12, 3, 10, 1, 8, 15, 6, 13, 4, 11, 2, 9]"

definition rotl32 :: "nat \<Rightarrow> u32 \<Rightarrow> u32" where
  "rotl32 n w = push_bit n w OR drop_bit (32 - n) w"

definition md5_mix :: "nat \<Rightarrow> u32 \<Rightarrow> u32 \<Rightarrow> u32 \<Rightarrow> u32" where
  "md5_mix i b c d =
     (if i < 16 then (b AND c) OR (NOT b AND d)
      else if i < 32 then (d AND b) OR (NOT d AND c)
      else if i < 48 then b XOR c XOR d
      else c XOR (b OR NOT d))"

fun md5_rounds :: "u32 list \<Rightarrow> (nat \<times> nat \<times> u32 \<times> nat) list \<Rightarrow> md5_state \<Rightarrow> md5_state" where
  "md5_rounds m [] st = st"
| "md5_rounds m ((i, s, k, g) # rs) (a, b, c, d) =
     md5_rounds m rs (d, b + rotl32 s (a + md5_mix i b c d + k + m ! g), b, c)"

definition md5_schedule :: "(nat \<times> nat \<times> u32 \<times> nat) list" where
  "md5_schedule = zip [0..<64] (zip md5_shifts (zip md5_table md5_index))"

definition le32 :: "u32 \<Rightarrow> bytes" where
  "le32 w = rev (be32 w)"

fun words_le :: "bytes \<Rightarrow> u32 list" where
  "words_le (b0 # b1 # b2 # b3 # bs) = of_be32 [b3, b2, b1, b0] # words_le bs"
| "words_le _ = []"

fun md5_blocks :: "u32 list \<Rightarrow> nat \<Rightarrow> md5_state \<Rightarrow> md5_state" where
  "md5_blocks ws 0 st = st"
| "md5_blocks ws (Suc n) (a, b, c, d) =
     (case md5_rounds (take 16 ws) md5_schedule (a, b, c, d) of
        (a', b', c', d') \<Rightarrow> md5_blocks (drop 16 ws) n (a + a', b + b', c + c', d + d'))"

definition md5_pad :: "bytes \<Rightarrow> bytes" where
  "md5_pad m =
     (let n = length m; z = (119 - n mod 64) mod 64; bits = push_bit 3 (of_nat n :: 64 word)
      in m @ [0x80] @ replicate z 0
           @ le32 (ucast bits) @ le32 (ucast (drop_bit 32 bits)))"

definition md5 :: "bytes \<Rightarrow> bytes" where
  "md5 m =
     (let p = md5_pad m in
      case md5_blocks (words_le p) (length p div 64) (0x67452301, 0xefcdab89, 0x98badcfe, 0x10325476) of
        (a, b, c, d) \<Rightarrow> le32 a @ le32 b @ le32 c @ le32 d)"

text \<open>\<^verbatim>\<open>hmac.New(md5.New, key)\<close>: keys longer than a block are hashed first.\<close>

definition hmac_md5 :: "bytes \<Rightarrow> bytes \<Rightarrow> bytes" where
  "hmac_md5 key msg =
     (let k0 = (if 64 < length key then md5 key else key);
          k = k0 @ replicate (64 - length k0) 0
      in md5 (map (\<lambda>b. b XOR 0x5c) k @ md5 (map (\<lambda>b. b XOR 0x36) k @ msg)))"

lemma length_md5 [simp]: "length (md5 m) = 16"
  by (simp add: md5_def Let_def le32_def split: prod.split)

lemma length_hmac_md5 [simp]: "length (hmac_md5 k m) = 16"
  by (simp add: hmac_md5_def Let_def)

text \<open>The test vectors of RFC 1321 and RFC 2202.\<close>

lemma md5_rfc1321:
  "md5 (bytes_of_string ''abc'') =
     [0x90, 0x01, 0x50, 0x98, 0x3c, 0xd2, 0x4f, 0xb0, 0xd6, 0x96, 0x3f, 0x7d, 0x28, 0xe1, 0x7f, 0x72]"
  by code_simp

section \<open>Masking with digests\<close>

text \<open>Both AAA protocols hide data by XOR with a chain of digests: RADIUS chains over the ciphertext
  (\<open>hide_blocks\<close>, \<open>reveal_blocks\<close>), TACACS+ over the digests themselves (\<open>key_stream\<close>).\<close>

definition xor_bytes :: "bytes \<Rightarrow> bytes \<Rightarrow> bytes" where
  "xor_bytes a b = map2 (XOR) a b"

function hide_blocks :: "(bytes \<Rightarrow> bytes) \<Rightarrow> bytes \<Rightarrow> bytes \<Rightarrow> bytes" where
  "hide_blocks digest prev pw =
     (if pw = [] then []
      else let c = xor_bytes (take 16 pw) (digest prev) in c @ hide_blocks digest c (drop 16 pw))"
  by auto

termination hide_blocks
  by (relation "measure (\<lambda>(_, _, pw). length pw)") auto

function reveal_blocks :: "(bytes \<Rightarrow> bytes) \<Rightarrow> bytes \<Rightarrow> bytes \<Rightarrow> bytes" where
  "reveal_blocks digest prev enc =
     (if enc = [] then []
      else xor_bytes (take 16 enc) (digest prev) @ reveal_blocks digest (take 16 enc) (drop 16 enc))"
  by auto

termination reveal_blocks
  by (relation "measure (\<lambda>(_, _, enc). length enc)") auto

declare hide_blocks.simps [simp del] reveal_blocks.simps [simp del]

fun key_stream :: "(bytes \<Rightarrow> bytes) \<Rightarrow> bytes \<Rightarrow> nat \<Rightarrow> bytes" where
  "key_stream digest prev 0 = []"
| "key_stream digest prev (Suc k) =
     (let d = digest prev in d @ key_stream digest d k)"

lemma length_xor_bytes [simp]: "length (xor_bytes a b) = min (length a) (length b)"
  by (simp add: xor_bytes_def)

lemma xor_bytes_cancel: "length a \<le> length b \<Longrightarrow> xor_bytes (xor_bytes a b) b = a"
proof (induction a arbitrary: b)
  case (Cons x a)
  then obtain y b' where "b = y # b'" "length a \<le> length b'" by (cases b) auto
  with Cons.IH [of b'] show ?case by (simp add: xor_bytes_def ac_simps)
qed (simp add: xor_bytes_def)

section \<open>The digest contract\<close>

text \<open>What the protocols rely on: a digest is sixteen bytes long.  From this alone, hiding is undone by
  revealing and a key stream is long enough.\<close>

locale digest16 =
  fixes digest :: "bytes \<Rightarrow> bytes"
  assumes digest_length: "length (digest m) = 16"
begin

lemma length_hide: "length (hide_blocks digest prev pw) = length pw"
proof (induction pw arbitrary: prev rule: length_induct)
  case (1 pw)
  show ?case
  proof (cases "pw = []")
    case True
    then show ?thesis by (simp add: hide_blocks.simps)
  next
    case False
    then have "length (hide_blocks digest c (drop 16 pw)) = length (drop 16 pw)" for c
      using 1 by simp
    with False show ?thesis
      by (subst hide_blocks.simps) (simp add: Let_def digest_length)
  qed
qed

lemma reveal_hide:
  "length pw mod 16 = 0 \<Longrightarrow> reveal_blocks digest prev (hide_blocks digest prev pw) = pw"
proof (induction pw arbitrary: prev rule: length_induct)
  case (1 pw)
  show ?case
  proof (cases "pw = []")
    case True
    then show ?thesis by (simp add: hide_blocks.simps reveal_blocks.simps)
  next
    case False
    with "1.prems" have long: "16 \<le> length pw"
      by (metis length_0_conv less_eq_Suc_le linorder_not_less mod_less not_less_eq_eq)
    define c where "c = xor_bytes (take 16 pw) (digest prev)"
    have len: "length c = 16" using long by (simp add: c_def digest_length)
    have hide: "hide_blocks digest prev pw = c @ hide_blocks digest c (drop 16 pw)"
      using False by (subst hide_blocks.simps) (simp add: Let_def c_def)
    have "length (drop 16 pw) mod 16 = 0"
      using "1.prems" long by (simp add: mod_eq_0_iff_dvd)
    then have "reveal_blocks digest c (hide_blocks digest c (drop 16 pw)) = drop 16 pw"
      using "1.IH" False by (simp add: length_drop)
    moreover have "xor_bytes c (digest prev) = take 16 pw"
      by (simp add: c_def xor_bytes_cancel digest_length)
    moreover have "c \<noteq> []" using len by auto
    ultimately show ?thesis
      unfolding hide by (subst reveal_blocks.simps) (simp add: len)
  qed
qed

lemma length_key_stream: "length (key_stream digest prev k) = 16 * k"
  by (induction k arbitrary: prev) (simp_all add: Let_def digest_length)

lemma mask_twice:
  assumes "length body \<le> 16 * k"
  shows "xor_bytes (xor_bytes body (key_stream digest prev k)) (key_stream digest prev k) = body"
  using assms by (intro xor_bytes_cancel) (simp add: length_key_stream)

end

interpretation md5: digest16 md5
  by unfold_locales simp

interpretation keyed_md5: digest16 "\<lambda>prev. md5 (key @ prev)"
  by unfold_locales simp

interpretation hmac_md5: digest16 "hmac_md5 key"
  by unfold_locales simp

end
