(* ===== verification/RadiusProtocol.thy ===== *)
theory RadiusProtocol
  imports GoBytes
begin

text \<open>
  \<^verbatim>\<open>internal/radius/protocol.go\<close> and the codes of \<^verbatim>\<open>attributes.go\<close>: packets, the attribute list, the
  decoder and encoder, the Message-Authenticator and the password and accounting checks.  A \<^verbatim>\<open>nil\<close>
  value of \<^verbatim>\<open>AttributeList.Get\<close> is the empty list: every stored value is made by
  \<^verbatim>\<open>append([]byte(nil), v...)\<close>, which is \<^verbatim>\<open>nil\<close> exactly when it is empty.  The loops over offsets
  are recursions on the rest of the packet.
\<close>

section \<open>Codes\<close>

definition CodeAccessRequest :: byte where "CodeAccessRequest = 1"
definition CodeAccessAccept :: byte where "CodeAccessAccept = 2"
definition CodeAccessReject :: byte where "CodeAccessReject = 3"
definition CodeAccountingRequest :: byte where "CodeAccountingRequest = 4"
definition CodeAccountingResponse :: byte where "CodeAccountingResponse = 5"
definition CodeAccessChallenge :: byte where "CodeAccessChallenge = 11"

definition HeaderLen :: nat where "HeaderLen = 20"
definition AuthenticatorLen :: nat where "AuthenticatorLen = 16"
definition MaxPacketLen :: nat where "MaxPacketLen = 4096"

definition AttrUserName :: byte where "AttrUserName = 1"
definition AttrUserPassword :: byte where "AttrUserPassword = 2"
definition AttrCHAPPassword :: byte where "AttrCHAPPassword = 3"
definition AttrNASIPAddress :: byte where "AttrNASIPAddress = 4"
definition AttrServiceType :: byte where "AttrServiceType = 6"
definition AttrFilterID :: byte where "AttrFilterID = 11"
definition AttrReplyMessage :: byte where "AttrReplyMessage = 18"
definition AttrVendorSpecific :: byte where "AttrVendorSpecific = 26"
definition AttrProxyState :: byte where "AttrProxyState = 33"
definition AttrAcctStatusType :: byte where "AttrAcctStatusType = 40"
definition AttrAcctSessionID :: byte where "AttrAcctSessionID = 44"
definition AttrCHAPChallenge :: byte where "AttrCHAPChallenge = 60"
definition AttrMessageAuthenticator :: byte where "AttrMessageAuthenticator = 80"
definition AttrNASIPv6Address :: byte where "AttrNASIPv6Address = 95"

definition ServiceAdministrative :: "32 word" where "ServiceAdministrative = 6"

lemmas radius_codes =
  CodeAccessRequest_def CodeAccessAccept_def CodeAccessReject_def CodeAccountingRequest_def
  CodeAccountingResponse_def CodeAccessChallenge_def HeaderLen_def AuthenticatorLen_def
  MaxPacketLen_def AttrMessageAuthenticator_def

section \<open>Packets\<close>

record attribute =
  at_Type :: byte
  at_Value :: bytes

record packet =
  pk_Code :: byte
  pk_Identifier :: byte
  pk_Authenticator :: bytes
  pk_Attrs :: "attribute list"

datatype radius_err =
    Rad_ShortPacket | Rad_BadLength | Rad_TruncatedAttr | Rad_BadAttr | Rad_BadMA | Rad_TooLong
  | Rad_BadPassword

fun AttrGet :: "attribute list \<Rightarrow> byte \<Rightarrow> bytes" where
  "AttrGet [] t = []"
| "AttrGet (x # xs) t = (if at_Type x = t then at_Value x else AttrGet xs t)"

definition AttrGetAll :: "attribute list \<Rightarrow> byte \<Rightarrow> bytes list" where
  "AttrGetAll a t = map at_Value (filter (\<lambda>x. at_Type x = t) a)"

definition AttrAdd :: "byte \<Rightarrow> bytes \<Rightarrow> attribute list \<Rightarrow> attribute list" where
  "AttrAdd t v a = a @ [\<lparr>at_Type = t, at_Value = (if 253 < length v then take 253 v else v)\<rparr>]"

definition AttrAddString :: "byte \<Rightarrow> string \<Rightarrow> attribute list \<Rightarrow> attribute list" where
  "AttrAddString t s a = AttrAdd t (bytes_of_string s) a"

definition AttrAddUint32 :: "byte \<Rightarrow> 32 word \<Rightarrow> attribute list \<Rightarrow> attribute list" where
  "AttrAddUint32 t v a = AttrAdd t (be32 v) a"

section \<open>The Message-Authenticator\<close>

text \<open>Zero the value of the first Message-Authenticator; \<open>None\<close> for an attribute that does not fit.\<close>

function zero_ma :: "bytes \<Rightarrow> bytes option" where
  "zero_ma [] = Some []"
| "zero_ma [t] = Some [t]"
| "zero_ma (t # l # rest) =
     (if unat l < 2 \<or> length rest < unat l - 2 then None
      else if t = AttrMessageAuthenticator
      then Some (t # l # replicate (unat l - 2) 0 @ drop (unat l - 2) rest)
      else map_option (\<lambda>r. t # l # take (unat l - 2) rest @ r) (zero_ma (drop (unat l - 2) rest)))"
  by pat_completeness auto

termination zero_ma
  by (relation "measure length") auto

definition verifyMessageAuthenticator :: "bytes \<Rightarrow> bytes \<Rightarrow> bytes \<Rightarrow> bool" where
  "verifyMessageAuthenticator packet ma secret =
     (case zero_ma (drop HeaderLen packet) of
        None \<Rightarrow> False
      | Some body \<Rightarrow> hmac_md5 secret (take HeaderLen packet @ body) = ma)"

section \<open>Decoding\<close>

function decode_attrs :: "bytes \<Rightarrow> radius_err + attribute list" where
  "decode_attrs [] = Inr []"
| "decode_attrs [t] = Inl Rad_TruncatedAttr"
| "decode_attrs (t # l # rest) =
     (if unat l < 2 \<or> length rest < unat l - 2 then Inl Rad_BadAttr
      else case decode_attrs (drop (unat l - 2) rest) of
        Inl e \<Rightarrow> Inl e
      | Inr attrs \<Rightarrow> Inr (\<lparr>at_Type = t, at_Value = take (unat l - 2) rest\<rparr> # attrs))"
  by pat_completeness auto

termination decode_attrs
  by (relation "measure length") auto

definition Decode :: "bytes \<Rightarrow> bytes \<Rightarrow> radius_err + packet" where
  "Decode buf secret =
     (if length buf < HeaderLen then Inl Rad_ShortPacket
      else
        let len = of_be16 (take 2 (drop 2 buf)) in
        if len < HeaderLen \<or> MaxPacketLen < len \<or> length buf < len then Inl Rad_BadLength
        else case decode_attrs (drop HeaderLen (take len buf)) of
          Inl e \<Rightarrow> Inl e
        | Inr attrs \<Rightarrow>
            let p = \<lparr>pk_Code = buf ! 0, pk_Identifier = buf ! 1,
                     pk_Authenticator = take AuthenticatorLen (drop 4 buf), pk_Attrs = attrs\<rparr>;
                ma = AttrGet attrs AttrMessageAuthenticator
            in if pk_Code p = CodeAccessRequest \<and> ma \<noteq> [] \<and>
                  \<not> verifyMessageAuthenticator (take len buf) ma secret
               then Inl Rad_BadMA else Inr p)"

section \<open>Encoding\<close>

definition encode_attr :: "attribute \<Rightarrow> bytes" where
  "encode_attr a = [at_Type a, word_of_nat (2 + length (at_Value a))] @ at_Value a"

definition encode_attrs :: "attribute list \<Rightarrow> bytes" where
  "encode_attrs attrs = concat (map encode_attr attrs)"

text \<open>The first Message-Authenticator's value is changed, as by the loop that breaks there.\<close>

fun map_first_ma :: "(bytes \<Rightarrow> bytes) \<Rightarrow> attribute list \<Rightarrow> attribute list" where
  "map_first_ma f [] = []"
| "map_first_ma f (a # as) =
     (if at_Type a = AttrMessageAuthenticator then a\<lparr>at_Value := f (at_Value a)\<rparr> # as
      else a # map_first_ma f as)"

definition want_ma :: "packet \<Rightarrow> bytes \<Rightarrow> bool" where
  "want_ma p secret =
     (pk_Code p \<in> {CodeAccessAccept, CodeAccessReject, CodeAccessChallenge} \<and> secret \<noteq> [])"

definition signed_attrs :: "packet \<Rightarrow> bytes \<Rightarrow> attribute list" where
  "signed_attrs p secret =
     (if want_ma p secret \<and> AttrGet (pk_Attrs p) AttrMessageAuthenticator = []
      then pk_Attrs p @ [\<lparr>at_Type = AttrMessageAuthenticator, at_Value = replicate 16 0\<rparr>]
      else pk_Attrs p)"

definition Encode :: "packet \<Rightarrow> bytes \<Rightarrow> bytes \<Rightarrow> radius_err + bytes" where
  "Encode p secret reqAuth =
     (let attrs = signed_attrs p secret;
          total = HeaderLen + sum_list (map (\<lambda>a. 2 + length (at_Value a)) attrs)
      in if MaxPacketLen < total then Inl Rad_TooLong
         else
           let hdr = [pk_Code p, pk_Identifier p] @ be16 total;
               auth = (if length reqAuth = AuthenticatorLen then reqAuth
                       else if pk_Code p = CodeAccessRequest then pk_Authenticator p
                       else replicate 16 0);
               body = (if want_ma p secret
                       then
                         let mac = hmac_md5 secret (hdr @ auth @
                               encode_attrs (map_first_ma (\<lambda>v. replicate (length v) 0) attrs))
                         in encode_attrs (map_first_ma
                              (\<lambda>v. take (length v) (mac @ replicate (length v) 0)) attrs)
                       else encode_attrs attrs);
               auth' = (if pk_Code p \<in> {CodeAccessAccept, CodeAccessReject, CodeAccessChallenge,
                             CodeAccountingResponse}
                        then md5 (hdr @ reqAuth @ body @ secret) else auth)
           in Inr (hdr @ auth' @ body))"

section \<open>Passwords\<close>

definition strip_nuls :: "bytes \<Rightarrow> bytes" where
  "strip_nuls b = rev (dropWhile (\<lambda>x. x = 0) (rev b))"

definition DecodeUserPassword :: "bytes \<Rightarrow> bytes \<Rightarrow> bytes \<Rightarrow> radius_err + bytes" where
  "DecodeUserPassword enc reqAuth secret =
     (if length enc = 0 \<or> length enc mod 16 \<noteq> 0 then Inl Rad_BadPassword
      else if 128 < length enc then Inl Rad_BadPassword
      else Inr (strip_nuls (reveal_blocks (\<lambda>prev. md5 (secret @ prev)) reqAuth enc)))"

definition pad_password :: "bytes \<Rightarrow> bytes" where
  "pad_password pw =
     (let padLen = 16 - length pw mod 16;
          padLen = (if padLen = 16 \<and> length pw \<noteq> 0 then 0 else padLen);
          padLen = (if length pw = 0 then 16 else padLen)
      in take 128 (pw @ replicate padLen 0))"

definition EncodeUserPassword :: "bytes \<Rightarrow> bytes \<Rightarrow> bytes \<Rightarrow> bytes" where
  "EncodeUserPassword plain reqAuth secret =
     hide_blocks (\<lambda>prev. md5 (secret @ prev)) reqAuth (pad_password plain)"

definition VerifyCHAP :: "bytes \<Rightarrow> bytes \<Rightarrow> bytes \<Rightarrow> bool" where
  "VerifyCHAP password chap challenge =
     (if length chap \<noteq> 17 \<or> length challenge < 1 then False
      else md5 (take 1 chap @ password @ challenge) = drop 1 chap)"

definition VerifyAccountingRequest :: "bytes \<Rightarrow> bytes \<Rightarrow> bool" where
  "VerifyAccountingRequest packet secret =
     (if length packet < HeaderLen then False
      else md5 (take 4 packet @ replicate 16 0 @ drop HeaderLen packet @ secret)
             = take 16 (drop 4 packet))"

text \<open>\<^verbatim>\<open>NewIdentifier\<close>, given the random byte.\<close>

definition NewIdentifier :: "byte \<Rightarrow> byte" where
  "NewIdentifier b = (if b = 0 then 1 else b)"

section \<open>Attribute lists on the wire\<close>

definition attrs_fit :: "attribute list \<Rightarrow> bool" where
  "attrs_fit attrs = list_all (\<lambda>a. length (at_Value a) \<le> 253) attrs"

lemma unat_small_byte: "n < 256 \<Longrightarrow> unat (word_of_nat n :: byte) = n"
  by (simp add: unat_of_nat)

lemma encode_attrs_simps [simp]:
  "encode_attrs [] = []" "encode_attrs (a # as) = encode_attr a @ encode_attrs as"
  by (simp_all add: encode_attrs_def)

lemma length_encode_attrs:
  "length (encode_attrs attrs) = sum_list (map (\<lambda>a. 2 + length (at_Value a)) attrs)"
  by (induction attrs) (simp_all add: encode_attr_def)

lemma decode_encode_attrs:
  "attrs_fit attrs \<Longrightarrow> decode_attrs (encode_attrs attrs) = Inr attrs"
proof (induction attrs)
  case (Cons a attrs)
  then have "unat (word_of_nat (2 + length (at_Value a)) :: byte) = 2 + length (at_Value a)"
    by (intro unat_small_byte) (simp add: attrs_fit_def)
  with Cons show ?case by (simp add: encode_attr_def attrs_fit_def)
qed simp

lemma encode_decode_attrs:
  "decode_attrs b = Inr attrs \<Longrightarrow> encode_attrs attrs = b \<and> attrs_fit attrs"
proof (induction b arbitrary: attrs rule: decode_attrs.induct)
  case (3 t l rest)
  then obtain as where len: "\<not> (unat l < 2 \<or> length rest < unat l - 2)"
      and rec: "decode_attrs (drop (unat l - 2) rest) = Inr as"
      and attrs: "attrs = \<lparr>at_Type = t, at_Value = take (unat l - 2) rest\<rparr> # as"
    by (auto split: if_splits sum.splits)
  with 3 have as: "encode_attrs as = drop (unat l - 2) rest" "attrs_fit as" by auto
  have "unat l < 256" using unsigned_less [of l] by simp
  moreover have "word_of_nat (2 + (unat l - 2)) = l" using len by simp
  ultimately show ?case
    using len as by (auto simp: attrs encode_attr_def attrs_fit_def min_def)
qed (simp_all add: attrs_fit_def)

lemma zero_ma_encode:
  "attrs_fit attrs \<Longrightarrow>
   zero_ma (encode_attrs attrs) =
     Some (encode_attrs (map_first_ma (\<lambda>v. replicate (length v) 0) attrs))"
proof (induction attrs)
  case (Cons a attrs)
  then have "unat (word_of_nat (2 + length (at_Value a)) :: byte) = 2 + length (at_Value a)"
    by (intro unat_small_byte) (simp add: attrs_fit_def)
  with Cons show ?case by (simp add: encode_attr_def attrs_fit_def)
qed simp

lemma map_first_ma_lengths:
  "(\<And>v. length (f v) = length v) \<Longrightarrow>
   map (\<lambda>a. length (at_Value a)) (map_first_ma f attrs) = map (\<lambda>a. length (at_Value a)) attrs"
  by (induction attrs) auto

lemma map_first_ma_fit:
  "(\<And>v. length (f v) = length v) \<Longrightarrow> attrs_fit (map_first_ma f attrs) = attrs_fit attrs"
  by (induction attrs) (auto simp: attrs_fit_def)

lemma map_first_ma_comp: "map_first_ma f (map_first_ma g attrs) = map_first_ma (f \<circ> g) attrs"
  by (induction attrs) auto

lemma map_first_ma_others:
  "filter (\<lambda>a. at_Type a \<noteq> AttrMessageAuthenticator) (map_first_ma f attrs) =
   filter (\<lambda>a. at_Type a \<noteq> AttrMessageAuthenticator) attrs"
  by (induction attrs) auto

lemma AttrGet_map_first_ma:
  "f [] = [] \<Longrightarrow> AttrGet (map_first_ma f attrs) AttrMessageAuthenticator =
     f (AttrGet attrs AttrMessageAuthenticator)"
  by (induction attrs) auto

end
