(* ===== verification/RadiusVsa.thy ===== *)
theory RadiusVsa
  imports RadiusProtocol
begin

text \<open>
  \<^verbatim>\<open>internal/radius/vsa.go\<close>: the Vendor-Specific attribute and the reply profiles of the device
  families.  A \<^verbatim>\<open>VendorProfile\<close> is its family name and its \<open>FillReply\<close> function.
\<close>

section \<open>Vendor-Specific attributes\<close>

definition VendorCisco :: "32 word" where "VendorCisco = 9"
definition VendorJuniper :: "32 word" where "VendorJuniper = 2636"
definition VendorHP :: "32 word" where "VendorHP = 11"
definition VendorAruba :: "32 word" where "VendorAruba = 14823"
definition VendorMikrotik :: "32 word" where "VendorMikrotik = 14988"
definition VendorPaloAlto :: "32 word" where "VendorPaloAlto = 25461"
definition VendorHuawei :: "32 word" where "VendorHuawei = 2011"
definition VendorFortinet :: "32 word" where "VendorFortinet = 12356"
definition VendorF5 :: "32 word" where "VendorF5 = 3375"
definition VendorCheckPoint :: "32 word" where "VendorCheckPoint = 2620"

definition EncodeVSA :: "32 word \<Rightarrow> byte \<Rightarrow> bytes \<Rightarrow> bytes" where
  "EncodeVSA vendor subType value =
     (let v = (if 249 < length value then take 249 value else value) in
      be32 vendor @ [subType, word_of_nat (2 + length v)] @ v)"

definition AddVSAString :: "32 word \<Rightarrow> byte \<Rightarrow> string \<Rightarrow> attribute list \<Rightarrow> attribute list" where
  "AddVSAString vendor subType value a =
     AttrAdd AttrVendorSpecific (EncodeVSA vendor subType (bytes_of_string value)) a"

definition AddVSAUint32 :: "32 word \<Rightarrow> byte \<Rightarrow> 32 word \<Rightarrow> attribute list \<Rightarrow> attribute list" where
  "AddVSAUint32 vendor subType value a =
     AttrAdd AttrVendorSpecific (EncodeVSA vendor subType (be32 value)) a"

section \<open>Roles on the devices\<close>

definition junosClassForRole :: "string \<Rightarrow> int \<Rightarrow> string" where
  "junosClassForRole role priv =
     (let r = to_lower (trim_space role) in
      if r = ''admin'' \<or> r = ''secops'' then ''super-user''
      else if r = ''netops'' then ''operator''
      else if r = ''viewer'' \<or> r = ''user'' then ''read-only''
      else if 15 \<le> priv then ''super-user''
      else ''read-only'')"

definition arubaRoleForRole :: "string \<Rightarrow> string" where
  "arubaRoleForRole role =
     (let r = to_lower (trim_space role) in
      if r = ''admin'' \<or> r = ''secops'' then ''root''
      else if r = ''netops'' then ''network-operations''
      else if r = ''viewer'' \<or> r = ''user'' then ''read-only''
      else ''read-only'')"

definition mikrotikGroupForRole :: "string \<Rightarrow> string" where
  "mikrotikGroupForRole role =
     (let r = to_lower (trim_space role) in
      if r = ''admin'' \<or> r = ''secops'' then ''full''
      else if r = ''netops'' then ''write''
      else if r = ''viewer'' \<or> r = ''user'' then ''read''
      else ''read'')"

definition paloAltoRoleForRole :: "string \<Rightarrow> int \<Rightarrow> string" where
  "paloAltoRoleForRole role priv =
     (let r = to_lower (trim_space role) in
      if r = ''admin'' \<or> r = ''secops'' then ''superuser''
      else if r = ''netops'' then ''deviceadmin''
      else if r = ''viewer'' \<or> r = ''user'' then ''auditadmin''
      else if 15 \<le> priv then ''superuser''
      else ''auditadmin'')"

definition fortinetProfileForRole :: "string \<Rightarrow> string" where
  "fortinetProfileForRole role =
     (let r = to_lower (trim_space role) in
      if r = ''admin'' \<or> r = ''secops'' then ''super_admin''
      else if r = ''netops'' then ''prof_admin''
      else if r = ''viewer'' \<or> r = ''user'' then ''no_access''
      else ''prof_admin'')"

definition privLevelForRole :: "string \<Rightarrow> int" where
  "privLevelForRole role =
     (let r = to_lower (trim_space role) in
      if r = ''admin'' \<or> r = ''secops'' then 15
      else if r = ''netops'' then 10
      else if r = ''viewer'' \<or> r = ''user'' then 1
      else 1)"

section \<open>Profiles\<close>

record vendor_profile =
  vp_Family :: string
  vp_FillReply :: "attribute list \<Rightarrow> string \<Rightarrow> int \<Rightarrow> attribute list"

definition genericProfile :: vendor_profile where
  "genericProfile = \<lparr>vp_Family = ''generic'',
     vp_FillReply = (\<lambda>out role priv.
       AttrAddString AttrFilterID role (AttrAddUint32 AttrServiceType ServiceAdministrative out))\<rparr>"

definition ciscoProfile :: vendor_profile where
  "ciscoProfile = \<lparr>vp_Family = ''cisco'',
     vp_FillReply = (\<lambda>out role priv.
       let out = AttrAddUint32 AttrServiceType ServiceAdministrative out;
           priv = (if priv \<le> 0 then 1 else priv);
           out = AddVSAString VendorCisco 1 (''shell:priv-lvl='' @ string_of_int priv) out
       in if role \<noteq> []
          then AddVSAString VendorCisco 1 (''shell:roles='' @ [CHR 0x22] @ role @ [CHR 0x22]) out
          else out)\<rparr>"

definition juniperProfile :: vendor_profile where
  "juniperProfile = \<lparr>vp_Family = ''juniper'',
     vp_FillReply = (\<lambda>out role priv. AddVSAString VendorJuniper 1 (junosClassForRole role priv) out)\<rparr>"

definition hpProfile :: vendor_profile where
  "hpProfile = \<lparr>vp_Family = ''hp'',
     vp_FillReply = (\<lambda>out role priv.
       AddVSAUint32 VendorHP 1 (word_of_int priv)
         (AttrAddUint32 AttrServiceType ServiceAdministrative out))\<rparr>"

definition arubaProfile :: vendor_profile where
  "arubaProfile = \<lparr>vp_Family = ''aruba'',
     vp_FillReply = (\<lambda>out role priv.
       AddVSAString VendorAruba 3 (arubaRoleForRole role)
         (AttrAddUint32 AttrServiceType ServiceAdministrative out))\<rparr>"

definition mikrotikProfile :: vendor_profile where
  "mikrotikProfile = \<lparr>vp_Family = ''mikrotik'',
     vp_FillReply = (\<lambda>out role priv. AddVSAString VendorMikrotik 3 (mikrotikGroupForRole role) out)\<rparr>"

definition paloAltoProfile :: vendor_profile where
  "paloAltoProfile = \<lparr>vp_Family = ''paloalto'',
     vp_FillReply = (\<lambda>out role priv.
       AddVSAString VendorPaloAlto 1 (paloAltoRoleForRole role priv) out)\<rparr>"

definition huaweiProfile :: vendor_profile where
  "huaweiProfile = \<lparr>vp_Family = ''huawei'',
     vp_FillReply = (\<lambda>out role priv.
       AddVSAUint32 VendorHuawei 29 (word_of_int priv)
         (AttrAddUint32 AttrServiceType ServiceAdministrative out))\<rparr>"

definition fortinetProfile :: vendor_profile where
  "fortinetProfile = \<lparr>vp_Family = ''fortinet'',
     vp_FillReply = (\<lambda>out role priv.
       AddVSAString VendorFortinet 6 (fortinetProfileForRole role)
         (AddVSAString VendorFortinet 1 ''PAM-Admins''
           (AttrAddUint32 AttrServiceType ServiceAdministrative out)))\<rparr>"

definition f5Profile :: vendor_profile where
  "f5Profile = \<lparr>vp_Family = ''f5'',
     vp_FillReply = (\<lambda>out role priv.
       let r = to_lower (trim_space role);
           info = (if priv < 15 then ''guest'' else ''admin'');
           shell = (if priv < 15 then ''none'' else ''tmsh'');
           info = (if r = ''admin'' \<or> r = ''secops'' then ''admin'' else info)
       in AddVSAString VendorF5 2 shell (AddVSAString VendorF5 1 info out))\<rparr>"

definition checkPointProfile :: vendor_profile where
  "checkPointProfile = \<lparr>vp_Family = ''checkpoint'',
     vp_FillReply = (\<lambda>out role priv.
       AddVSAString VendorCheckPoint 229 (if priv < 15 then ''monitorRole'' else ''adminRole'') out)\<rparr>"

definition profileFor :: "string \<Rightarrow> vendor_profile" where
  "profileFor kind =
     (let k = to_lower (trim_space kind); family = kind_family k in
      if k = [] then genericProfile
      else if family \<in> set [''cisco'', ''arista'', ''nxos'', ''ios'', ''ios-xe'', ''iosxe''] then ciscoProfile
      else if family \<in> set [''juniper'', ''junos''] then juniperProfile
      else if family \<in> set [''hp'', ''procurve'', ''hpe'', ''comware''] then hpProfile
      else if family \<in> set [''aruba'', ''arubaos''] then arubaProfile
      else if family \<in> set [''mikrotik'', ''routeros''] then mikrotikProfile
      else if family \<in> set [''paloalto'', ''palo'', ''panos'', ''pan''] then paloAltoProfile
      else if family \<in> set [''huawei'', ''vrp''] then huaweiProfile
      else if family \<in> set [''fortinet'', ''fortigate'', ''forti''] then fortinetProfile
      else if family \<in> set [''f5'', ''bigip'', ''ltm''] then f5Profile
      else if family \<in> set [''checkpoint'', ''cp''] then checkPointProfile
      else genericProfile)"

section \<open>Well-formedness\<close>

text \<open>The envelope of a type-26 attribute is consistent when its sub-length covers exactly what follows
  the vendor id.\<close>

definition vsa_consistent :: "bytes \<Rightarrow> bool" where
  "vsa_consistent v = (6 \<le> length v \<and> 4 + unat (v ! 5) = length v)"

lemma length_EncodeVSA: "length (EncodeVSA vendor t v) = 6 + min 249 (length v)"
  by (simp add: EncodeVSA_def Let_def min_def)

lemma EncodeVSA_sublen: "unat (EncodeVSA vendor t v ! 5) = 2 + min 249 (length v)"
proof -
  have "EncodeVSA vendor t v ! 5 = word_of_nat (2 + min 249 (length v))"
    by (simp add: EncodeVSA_def Let_def be32_def min_def)
  moreover have "2 + min 249 (length v) < 256" by simp
  ultimately show ?thesis by (metis unat_small_byte)
qed

text \<open>A Vendor-Specific attribute is well formed exactly for values of at most 247 bytes.
  \<open>EncodeVSA\<close> cuts values at 249 bytes (its comment counts only the vendor id), two too many: the
  attribute list then cuts the envelope at 253 bytes, and the sub-length claims bytes that are not
  there.\<close>

theorem vsa_well_formed_iff:
  "vsa_consistent (at_Value (last (AttrAdd AttrVendorSpecific (EncodeVSA vendor t v) out))) =
     (length v \<le> 247)"
proof -
  let ?e = "EncodeVSA vendor t v"
  have "at_Value (last (AttrAdd AttrVendorSpecific ?e out)) = take 253 ?e"
    by (simp add: AttrAdd_def)
  moreover have "take 253 ?e ! 5 = ?e ! 5" by simp
  ultimately show ?thesis
    by (auto simp: vsa_consistent_def length_EncodeVSA EncodeVSA_sublen)
qed

text \<open>Full administration of a device goes only to the roles \<^verbatim>\<open>admin\<close> and \<^verbatim>\<open>secops\<close>, or, on Junos
  and PAN-OS, to a role the platform does not know at privilege level 15: the other built-in roles
  never receive it, whatever their level.\<close>

theorem full_admin_roles:
  "(arubaRoleForRole role = ''root'') = (to_lower (trim_space role) \<in> {''admin'', ''secops''}) \<and>
   (mikrotikGroupForRole role = ''full'') = (to_lower (trim_space role) \<in> {''admin'', ''secops''}) \<and>
   (fortinetProfileForRole role = ''super_admin'') = (to_lower (trim_space role) \<in> {''admin'', ''secops''}) \<and>
   (privLevelForRole role = 15) = (to_lower (trim_space role) \<in> {''admin'', ''secops''}) \<and>
   (junosClassForRole role priv = ''super-user'') =
     (to_lower (trim_space role) \<in> {''admin'', ''secops''} \<or>
      15 \<le> priv \<and> to_lower (trim_space role) \<notin> {''netops'', ''viewer'', ''user''}) \<and>
   (paloAltoRoleForRole role priv = ''superuser'') =
     (to_lower (trim_space role) \<in> {''admin'', ''secops''} \<or>
      15 \<le> priv \<and> to_lower (trim_space role) \<notin> {''netops'', ''viewer'', ''user''})"
  by (auto simp: arubaRoleForRole_def mikrotikGroupForRole_def fortinetProfileForRole_def
      privLevelForRole_def junosClassForRole_def paloAltoRoleForRole_def Let_def)

end
