(* ===== verification/GoNet.thy ===== *)
theory GoNet
  imports GoBytes
begin

text \<open>
  The part of Go's \<^verbatim>\<open>net\<close> package that the AAA services use: \<^verbatim>\<open>ParseIP\<close>, \<^verbatim>\<open>ParseCIDR\<close>,
  \<^verbatim>\<open>IPNet.Contains\<close>, \<^verbatim>\<open>IP.String\<close> and \<^verbatim>\<open>SplitHostPort\<close>, on 16-byte addresses as in Go.  Also
  the host prefix up to the last colon, which several files of the repository cut by hand.
\<close>

section \<open>Parsing addresses\<close>

definition parse_octet :: "string \<Rightarrow> nat option" where
  "parse_octet s =
     (if s = [] \<or> \<not> list_all is_digit s \<or> 3 < length s \<or> (1 < length s \<and> hd s = CHR ''0'')
      then None
      else let n = nat_of_digits s in if 255 < n then None else Some n)"

fun all_some :: "'a option list \<Rightarrow> 'a list option" where
  "all_some [] = Some []"
| "all_some (x # xs) =
     (case x of None \<Rightarrow> None | Some a \<Rightarrow> map_option ((#) a) (all_some xs))"

definition parse_ipv4 :: "string \<Rightarrow> bytes option" where
  "parse_ipv4 s =
     (let parts = split_on (CHR ''.'') s in
      if length parts \<noteq> 4 then None
      else map_option (map word_of_nat) (all_some (map parse_octet parts)))"

definition hex_val :: "char \<Rightarrow> nat option" where
  "hex_val c =
     (let n = (of_char c :: nat) in
      if 48 \<le> n \<and> n \<le> 57 then Some (n - 48)
      else if 97 \<le> n \<and> n \<le> 102 then Some (n - 87)
      else if 65 \<le> n \<and> n \<le> 70 then Some (n - 55)
      else None)"

definition hex_prefix :: "string \<Rightarrow> string" where
  "hex_prefix s = takeWhile (\<lambda>c. hex_val c \<noteq> None) s"

definition hex_number :: "string \<Rightarrow> nat" where
  "hex_number s = foldl (\<lambda>n c. 16 * n + the (hex_val c)) 0 s"

text \<open>The loop of \<^verbatim>\<open>parseIPv6\<close>: \<open>ip\<close> holds the bytes read so far and \<open>ell\<close> the position of the
  ellipsis; every turn reads two bytes, so eight turns are enough.\<close>

fun ipv6_loop :: "nat \<Rightarrow> string \<Rightarrow> bytes \<Rightarrow> nat option \<Rightarrow> (bytes \<times> nat option \<times> string) option" where
  "ipv6_loop 0 s ip ell = Some (ip, ell, s)"
| "ipv6_loop (Suc k) s ip ell =
     (let h = hex_prefix s; rest = drop (length h) s in
      if h = [] \<or> 4 < length h then None
      else if rest \<noteq> [] \<and> hd rest = CHR ''.'' then
        (if ell = None \<and> length ip \<noteq> 12 \<or> 16 < length ip + 4 then None
         else map_option (\<lambda>v4. (ip @ v4, ell, [])) (parse_ipv4 s))
      else
        let ip = ip @ be16 (hex_number h) in
        if rest = [] then Some (ip, ell, [])
        else if hd rest \<noteq> CHR '':'' \<or> length rest = 1 then None
        else
          let s = tl rest in
          if hd s \<noteq> CHR '':'' then ipv6_loop k s ip ell
          else if ell \<noteq> None then None
          else if tl s = [] then Some (ip, Some (length ip), [])
          else ipv6_loop k (tl s) ip (Some (length ip)))"

definition parse_ipv6 :: "string \<Rightarrow> bytes option" where
  "parse_ipv6 s =
     (let lead = has_prefix s ''::''; s' = (if lead then drop 2 s else s);
          ell0 = (if lead then Some 0 else None)
      in if lead \<and> s' = [] then Some (replicate 16 0)
         else case ipv6_loop 8 s' [] ell0 of
           None \<Rightarrow> None
         | Some (ip, ell, rest) \<Rightarrow>
             if rest \<noteq> [] then None
             else if length ip < 16 then
               (case ell of None \<Rightarrow> None
                | Some e \<Rightarrow> Some (take e ip @ replicate (16 - length ip) 0 @ drop e ip))
             else if ell \<noteq> None then None else Some ip)"

definition v4_prefix :: bytes where
  "v4_prefix = replicate 10 0 @ [0xff, 0xff]"

text \<open>\<^verbatim>\<open>net.ParseIP\<close>: the first of the characters dot, colon and percent decides; a zone is refused.\<close>

definition ParseIP :: "string \<Rightarrow> bytes option" where
  "ParseIP s =
     (case dropWhile (\<lambda>c. c \<notin> {CHR ''.'', CHR '':'', CHR ''%''}) s of
        [] \<Rightarrow> None
      | c # _ \<Rightarrow>
          if c = CHR ''.'' then map_option ((@) v4_prefix) (parse_ipv4 s)
          else if c = CHR '':'' then (if CHR ''%'' \<in> set s then None else parse_ipv6 s)
          else None)"

definition To4 :: "bytes \<Rightarrow> bytes option" where
  "To4 ip =
     (if length ip = 4 then Some ip
      else if length ip = 16 \<and> take 12 ip = v4_prefix then Some (drop 12 ip) else None)"

section \<open>Networks\<close>

record ip_net =
  net_IP :: bytes
  net_Mask :: bytes

definition CIDRMask :: "nat \<Rightarrow> nat \<Rightarrow> bytes" where
  "CIDRMask ones bytes =
     map (\<lambda>i. if 8 * (i + 1) \<le> ones then 0xff
              else if ones \<le> 8 * i then 0
              else NOT (drop_bit (ones - 8 * i) 0xff)) [0..<bytes]"

definition ParseCIDR :: "string \<Rightarrow> ip_net option" where
  "ParseCIDR s =
     (case index_byte s (CHR ''/'') of
        None \<Rightarrow> None
      | Some i \<Rightarrow>
          let addr = take i s; mask = drop (i + 1) s in
          (case ParseIP addr of
             None \<Rightarrow> None
           | Some ip \<Rightarrow>
               let v4 = (\<not> (CHR '':'' \<in> set addr)); size = (if v4 then 4 else 16); n = nat_of_digits mask in
               if mask = [] \<or> \<not> list_all is_digit mask \<or> 8 * size < n then None
               else
                 let m = CIDRMask n size; base = (if v4 then drop 12 ip else ip) in
                 Some \<lparr>net_IP = map2 (AND) base m, net_Mask = m\<rparr>))"

definition Contains :: "ip_net \<Rightarrow> bytes \<Rightarrow> bool" where
  "Contains n ip =
     (let nn = (case To4 (net_IP n) of Some v \<Rightarrow> v | None \<Rightarrow> net_IP n);
          m = (if length (net_Mask n) = 16 \<and> length nn = 4 then drop 12 (net_Mask n) else net_Mask n);
          x = (case To4 ip of Some v \<Rightarrow> v | None \<Rightarrow> ip)
      in length m = length nn \<and> length x = length nn \<and> map2 (AND) nn m = map2 (AND) x m)"

section \<open>Printing addresses\<close>

definition ipv4_string :: "bytes \<Rightarrow> string" where
  "ipv4_string b = join ''.'' (map (\<lambda>x. string_of_nat (unat x)) b)"

definition hex_digit :: "nat \<Rightarrow> char" where
  "hex_digit d = (if d < 10 then digit_char d else char_of (87 + d))"

fun hex_string :: "nat \<Rightarrow> string" where
  "hex_string n = (if n < 16 then [hex_digit n] else hex_string (n div 16) @ [hex_digit (n mod 16)])"

declare hex_string.simps [simp del]

fun groups16 :: "bytes \<Rightarrow> nat list" where
  "groups16 (h # l # b) = of_be16 [h, l] # groups16 b"
| "groups16 _ = []"

text \<open>The leftmost longest run of at least two zero groups, as (start, length).\<close>

definition zero_run :: "nat list \<Rightarrow> nat \<Rightarrow> nat" where
  "zero_run gs i = length (takeWhile (\<lambda>g. g = 0) (drop i gs))"

definition best_run :: "nat list \<Rightarrow> nat \<times> nat" where
  "best_run gs =
     foldl (\<lambda>(s, l) i. if zero_run gs i > l then (i, zero_run gs i) else (s, l)) (0, 1) [0..<length gs]"

definition ipv6_string :: "bytes \<Rightarrow> string" where
  "ipv6_string b =
     (let gs = groups16 b; hs = map hex_string gs in
      case best_run gs of (s, l) \<Rightarrow>
        if l < 2 then join '':'' hs
        else join '':'' (take s hs) @ ''::'' @ join '':'' (drop (s + l) hs))"

definition ip_String :: "bytes \<Rightarrow> string" where
  "ip_String ip = (case To4 ip of Some v \<Rightarrow> ipv4_string v | None \<Rightarrow> ipv6_string ip)"

section \<open>Hosts and ports\<close>

definition last_colon :: "string \<Rightarrow> nat option" where
  "last_colon s = last_index_any s '':''"

text \<open>\<^verbatim>\<open>net.SplitHostPort\<close>; only the host is used, \<open>None\<close> is any of its errors.\<close>

definition split_host :: "string \<Rightarrow> string option" where
  "split_host hp =
     (case last_colon hp of
        None \<Rightarrow> None
      | Some i \<Rightarrow>
          if hd hp = CHR ''['' then
            (case index_byte hp (CHR '']'') of
               None \<Rightarrow> None
             | Some e \<Rightarrow>
                 if e + 1 \<noteq> i then None
                 else if CHR ''['' \<in> set (drop 1 hp) \<or> CHR '']'' \<in> set (drop (e + 1) hp) then None
                 else Some (drop 1 (take e hp)))
          else
            let host = take i hp in
            if CHR '':'' \<in> set host then None
            else if CHR ''['' \<in> set hp \<or> CHR '']'' \<in> set hp then None
            else Some host)"

section \<open>Facts\<close>

lemmas ip_eval = ParseIP_def parse_ipv4_def parse_ipv6_def parse_octet_def hex_prefix_def hex_val_def
  hex_number_def nat_of_digits_def digit_val_def is_digit_def v4_prefix_def

lemma ParseIP_v4_samples:
  "ParseIP ''10.1.2.3'' = Some (v4_prefix @ [10, 1, 2, 3])"
  "ParseIP ''10.1.2.256'' = None" "ParseIP ''10.1.02.3'' = None"
  by (simp_all add: ip_eval Let_def)

text \<open>A bracketed host, the form in which Go prints IPv6 socket addresses, is not an address.\<close>

lemma hex_prefix_bracket: "hex_prefix (CHR ''['' # s) = []"
  by (simp add: hex_prefix_def hex_val_def Let_def)

lemma all_some_bracket: "x = None \<Longrightarrow> all_some (x # xs) = None"
  by simp

lemma split_on_bracket:
  "\<exists>w ws. split_on d (c # s) = w # ws \<and> (c \<noteq> d \<longrightarrow> w \<noteq> [] \<and> hd w = c)"
  by (cases "split_on d s") auto

lemma ParseIP_bracket: "ParseIP (CHR ''['' # s) = None"
proof -
  have v4: "parse_ipv4 (CHR ''['' # s) = None"
  proof -
    obtain w ws where w: "split_on (CHR ''.'') (CHR ''['' # s) = w # ws" "w \<noteq> []" "hd w = CHR ''[''"
      using split_on_bracket [of "CHR ''.''" "CHR ''[''" s] by auto
    then obtain w' where "w = CHR ''['' # w'" by (cases w) auto
    moreover have "\<not> is_digit (CHR ''['')" by (simp add: is_digit_def)
    ultimately have "parse_octet w = None" by (simp add: parse_octet_def)
    with w(1) show ?thesis by (simp add: parse_ipv4_def Let_def)
  qed
  have "\<not> has_prefix (CHR ''['' # s) ''::''"
    by (simp add: has_prefix_iff)
  then have v6: "parse_ipv6 (CHR ''['' # s) = None"
    by (simp add: parse_ipv6_def Let_def numeral_eq_Suc hex_prefix_bracket)
  show ?thesis
    by (simp add: ParseIP_def v4 v6 split: list.split)
qed

end
