(* ===== verification/DeviceLookup.thy ===== *)
theory DeviceLookup
  imports GoBytes GroupTables PolicyEngine
begin

text \<open>
  What the two AAA services share: appended one-time passwords (\<^verbatim>\<open>internal/mfa/device.go\<close>), the
  lookup of a target by its host (\<^verbatim>\<open>internal/inventory/hostlookup.go\<close>, with SQLite's \<^verbatim>\<open>GLOB\<close>), the
  password of a device (\<^verbatim>\<open>internal/accounts/device_cred.go\<close>) and the portal user of a login name.
  The vault and the auth-service are collaborators outside this theory: a \<open>backend\<close> names what the
  code calls of them.
\<close>

section \<open>Collaborators\<close>

text \<open>\<open>be_Login user password otp\<close> is \<^verbatim>\<open>authclient.Client.Login\<close>, true when the reply carries a user;
  \<open>be_Vault ref\<close> is \<^verbatim>\<open>vault.GetSecret\<close>; \<open>be_VerifyPassword password hash\<close> is
  \<^verbatim>\<open>cryptox.VerifyPassword\<close>.  The first two are \<open>None\<close> when the service runs without them.\<close>

record backend =
  be_Login :: "(string \<Rightarrow> string \<Rightarrow> string \<Rightarrow> err + bool) option"
  be_Vault :: "(string \<Rightarrow> err + string) option"
  be_VerifyPassword :: "string \<Rightarrow> string \<Rightarrow> bool"

section \<open>One-time passwords\<close>

definition otp_digits :: nat where
  "otp_digits = 6"

definition NormalizeOTP :: "string \<Rightarrow> string" where
  "NormalizeOTP code =
     (let s = filter is_digit (trim_space code) in
      if otp_digits < length s then drop (length s - otp_digits) s else s)"

definition SplitAppendedOTP :: "string \<Rightarrow> string \<times> string" where
  "SplitAppendedOTP password =
     (let p = trim_space password in
      if length p \<le> otp_digits then (p, [])
      else
        let suffix = drop (length p - otp_digits) p in
        if \<not> list_all is_digit suffix then (p, []) else (take (length p - otp_digits) p, suffix))"

lemma SplitAppendedOTP_append:
  "fst (SplitAppendedOTP pw) @ snd (SplitAppendedOTP pw) = trim_space pw"
  by (simp add: SplitAppendedOTP_def Let_def)

lemma SplitAppendedOTP_code:
  "snd (SplitAppendedOTP pw) = [] \<or>
   length (snd (SplitAppendedOTP pw)) = 6 \<and> list_all is_digit (snd (SplitAppendedOTP pw)) \<and>
   fst (SplitAppendedOTP pw) \<noteq> []"
  by (auto simp: SplitAppendedOTP_def Let_def otp_digits_def)

section \<open>GLOB\<close>

function glob_class :: "char \<Rightarrow> string \<Rightarrow> char option \<Rightarrow> bool \<Rightarrow> (bool \<times> string) option" where
  "glob_class c [] prior seen = None"
| "glob_class c (p # ps) prior seen =
     (if p = CHR '']'' then Some (seen, ps)
      else if p = CHR ''-'' \<and> prior \<noteq> None \<and> ps \<noteq> [] \<and> hd ps \<noteq> CHR '']''
      then glob_class c (tl ps) None (seen \<or>
             (of_char (the prior) :: nat) \<le> of_char c \<and> (of_char c :: nat) \<le> of_char (hd ps))
      else glob_class c ps (Some p) (seen \<or> c = p))"
  by pat_completeness auto

termination glob_class
  by (relation "measure (\<lambda>(_, ps, _, _). length ps)") auto

definition glob_set :: "char \<Rightarrow> string \<Rightarrow> string option" where
  "glob_set c ps =
     (let inv = (ps \<noteq> [] \<and> hd ps = CHR ''^''); ps = (if inv then tl ps else ps);
          brk = (ps \<noteq> [] \<and> hd ps = CHR '']''); ps = (if brk then tl ps else ps)
      in case glob_class c ps None (brk \<and> c = CHR '']'') of
           None \<Rightarrow> None
         | Some (seen, rest) \<Rightarrow> if seen \<noteq> inv then Some rest else None)"

lemma glob_class_shorter: "glob_class c ps prior seen = Some (r, rest) \<Longrightarrow> length rest < length ps"
proof (induction c ps prior seen rule: glob_class.induct)
  case (2 c p ps prior seen)
  then show ?case
    by (simp only: glob_class.simps split: if_splits) (auto dest!: less_trans [of _ "length (tl ps)" "Suc (length ps)"])
qed simp

lemma glob_set_shorter: "glob_set c ps = Some rest \<Longrightarrow> length rest < length ps"
proof -
  assume set: "glob_set c ps = Some rest"
  define ps1 where "ps1 = (if ps \<noteq> [] \<and> hd ps = CHR ''^'' then tl ps else ps)"
  define ps2 where "ps2 = (if ps1 \<noteq> [] \<and> hd ps1 = CHR '']'' then tl ps1 else ps1)"
  have le: "length ps2 \<le> length ps" by (simp add: ps1_def ps2_def)
  from set obtain b r where "glob_class c ps2 None b = Some (r, rest)"
    by (auto simp: glob_set_def Let_def ps1_def ps2_def split: option.splits if_splits)
  with le glob_class_shorter show ?thesis by fastforce
qed

function glob :: "string \<Rightarrow> string \<Rightarrow> bool" where
  "glob [] s = (s = [])"
| "glob (p # ps) [] = (p = CHR ''*'' \<and> glob ps [])"
| "glob (p # ps) (c # s) =
     (if p = CHR ''*'' then glob ps (c # s) \<or> glob (p # ps) s
      else if p = CHR ''?'' then glob ps s
      else if p = CHR ''['' then (case glob_set c ps of None \<Rightarrow> False | Some rest \<Rightarrow> glob rest s)
      else c = p \<and> glob ps s)"
  by pat_completeness auto

termination glob
  by (relation "measure (\<lambda>(p, s). length p + length s)") (auto dest: glob_set_shorter)

section \<open>Targets by host\<close>

text \<open>\<^verbatim>\<open>hostPart\<close> of the inventory: trimmed, then cut at the last colon.\<close>

definition inventory_hostPart :: "string \<Rightarrow> string" where
  "inventory_hostPart addr = before_last_colon (trim_space addr)"

definition web_url_matches :: "string \<Rightarrow> string \<Rightarrow> bool" where
  "web_url_matches host url =
     (let u = to_lower url in
      glob (''*://'' @ host @ ''/*'') u \<or> glob (''*://'' @ host @ '':*'') u \<or> glob (''*://'' @ host) u)"

definition target_for_host :: "pam_db \<Rightarrow> string \<Rightarrow> target_row option" where
  "target_for_host db host =
     first_row (filter (\<lambda>t. to_lower (t_host t) = host \<or> web_url_matches host (t_web_url t)) (targets db))"

definition KindForHost :: "pam_db \<Rightarrow> string \<Rightarrow> err + string" where
  "KindForHost db hostOrAddr =
     (let host = to_lower (inventory_hostPart hostOrAddr) in
      if host = [] then Inl ErrNoRows
      else if faults db Target_Kind then Inl (ErrSql Target_Kind)
      else case target_for_host db host of None \<Rightarrow> Inl ErrNoRows | Some t \<Rightarrow> Inr (t_kind t))"

definition TargetMetaForHost :: "pam_db \<Rightarrow> string \<Rightarrow> err + int \<times> string \<times> int" where
  "TargetMetaForHost db hostOrAddr =
     (let host = to_lower (inventory_hostPart hostOrAddr) in
      if host = [] then Inl ErrNoRows
      else if faults db Target_By_Host then Inl (ErrSql Target_By_Host)
      else case target_for_host db host of
        None \<Rightarrow> Inl ErrNoRows | Some t \<Rightarrow> Inr (t_id t, t_kind t, t_tier t))"

section \<open>The password of a device\<close>

definition device_account :: "pam_db \<Rightarrow> string \<Rightarrow> string \<Rightarrow> account_row option" where
  "device_account db host hostOrAddr =
     first_row (sort_key pa_id (filter (\<lambda>a.
       (\<exists>t \<in> set (targets db). pa_target_id a = Some (t_id t) \<and>
          (t_host t = host \<or> t_host t = hostOrAddr \<or> web_url_matches (to_lower host) (t_web_url t))) \<and>
       to_lower (pa_platform a) \<notin> {''windows'', ''rdp''}) (privileged_accounts db)))"

definition DevicePasswordForHost :: "backend \<Rightarrow> pam_db \<Rightarrow> string \<Rightarrow> err + string" where
  "DevicePasswordForHost be db hostOrAddr =
     (let host = trim_space (before_last_colon hostOrAddr) in
      if host = [] then Inl ErrNoRows
      else if faults db Device_Account then Inl (ErrSql Device_Account)
      else case device_account db host hostOrAddr of
        None \<Rightarrow> Inl ErrNoRows
      | Some a \<Rightarrow>
          (case be_Vault be of
             None \<Rightarrow> Inl ErrNoRows
           | Some vault \<Rightarrow> vault (pa_secret_ref a)))"

text \<open>\<^verbatim>\<open>checkDevicePassword\<close>, the same test in both services apart from the empty password.\<close>

definition device_password_is :: "backend \<Rightarrow> pam_db \<Rightarrow> string \<Rightarrow> string \<Rightarrow> bool" where
  "device_password_is be db pass nasAddr =
     (if be_Vault be = None then False
      else case DevicePasswordForHost be db nasAddr of
        Inl _ \<Rightarrow> False
      | Inr devicePW \<Rightarrow> devicePW \<noteq> [] \<and> pass = devicePW)"

section \<open>Portal users\<close>

definition user_by_name :: "pam_db \<Rightarrow> string \<Rightarrow> user_row option" where
  "user_by_name db user =
     first_row (filter (\<lambda>u. to_lower (u_username u) = to_lower user \<and> u_disabled u = 0) (users db))"

definition user_by_email :: "pam_db \<Rightarrow> string \<Rightarrow> user_row option" where
  "user_by_email db user =
     first_row (filter (\<lambda>u. map_option to_lower (u_email u) = Some (to_lower user) \<and> u_disabled u = 0)
       (users db))"

text \<open>The check of a portal password once the user is known to exist: the auth-service when there is
  one, otherwise the local hash (of the name, not the mail address, and of the whole password).\<close>

definition portal_login :: "backend \<Rightarrow> pam_db \<Rightarrow> string \<Rightarrow> string \<Rightarrow> bool" where
  "portal_login be db user pass =
     (case SplitAppendedOTP pass of (pw, otp) \<Rightarrow>
        (case be_Login be of
           Some login \<Rightarrow> login user pw otp = Inr True
         | None \<Rightarrow>
             if faults db User_Hash then False
             else case user_by_name db user of
               None \<Rightarrow> False
             | Some u \<Rightarrow> u_password_hash u \<noteq> [] \<and> be_VerifyPassword be pass (u_password_hash u)))"

text \<open>The roles that a login acts with.\<close>

definition login_roles :: "pam_db \<Rightarrow> bool \<Rightarrow> int \<Rightarrow> string \<Rightarrow> string list" where
  "login_roles db groups_on uid role =
     (if groups_on then
        (case EffectiveRoles db uid role of
           (eff, None) \<Rightarrow> if eff \<noteq> [] then eff else [role]
         | (_, Some _) \<Rightarrow> [role])
      else [role])"

end
