(* ===== verification/RadiusServer.thy ===== *)
theory RadiusServer
  imports RadiusVsa GoNet DeviceLookup
begin

text \<open>
  \<^verbatim>\<open>internal/radius/clients.go\<close> (the cache of NAS secrets) and \<^verbatim>\<open>internal/radius/server.go\<close> (the
  handlers of the two UDP loops).  A handler takes the server's configuration, the database, the
  client cache and one datagram, and returns the new cache, the published event and the datagram
  that it writes back, if any.  Times are nanoseconds.
\<close>

section \<open>Clients\<close>

record client_record =
  cl_ID :: int
  cl_Name :: string
  cl_NASIP :: string
  cl_Secret :: bytes
  cl_RequireMessageAuth :: bool
  cl_Vendor :: string
  cl_Disabled :: bool

text \<open>\<open>cs_exact = None\<close> is the \<^verbatim>\<open>nil\<close> map before the first load; a map is the association list of its
  insertions, the last first.\<close>

record client_store =
  cs_DefaultSecret :: bytes
  cs_exact :: "(string \<times> client_record) list option"
  cs_cidrs :: "(ip_net \<times> client_record) list"
  cs_loaded :: int
  cs_ttl :: int

definition NewClientStore :: "bytes \<Rightarrow> client_store" where
  "NewClientStore defaultSecret =
     \<lparr>cs_DefaultSecret = defaultSecret, cs_exact = None, cs_cidrs = [], cs_loaded = 0,
      cs_ttl = 30 * 10 ^ 9\<rparr>"

definition ErrUnknownClient :: err where
  "ErrUnknownClient = ErrMsg ''radius: no shared secret for NAS''"
definition ErrClientDisabled :: err where
  "ErrClientDisabled = ErrMsg ''radius: NAS marked disabled''"

definition hostFromAddr :: "string \<Rightarrow> string" where
  "hostFromAddr addrPort = trim_space (before_last_colon addrPort)"

definition client_of_row :: "radius_client_row \<Rightarrow> client_record" where
  "client_of_row r =
     \<lparr>cl_ID = rc_id r, cl_Name = rc_name r, cl_NASIP = rc_nas_ip r,
      cl_Secret = bytes_of_string (rc_secret r),
      cl_RequireMessageAuth = (rc_require_message_auth r \<noteq> 0), cl_Vendor = rc_vendor r,
      cl_Disabled = (rc_disabled r \<noteq> 0)\<rparr>"

definition is_cidr_row :: "radius_client_row \<Rightarrow> bool" where
  "is_cidr_row r = str_contains (rc_nas_ip r) ''/''"

definition Refresh :: "pam_db \<Rightarrow> int \<Rightarrow> client_store \<Rightarrow> (err + unit) \<times> client_store" where
  "Refresh db now c =
     (if faults db Clients_Load then (Inl (ErrSql Clients_Load), c)
      else
        let rows = radius_clients db in
        (Inr (), c\<lparr>
          cs_exact := Some (rev (map (\<lambda>r. (rc_nas_ip r, client_of_row r))
             (filter (\<lambda>r. \<not> is_cidr_row r) rows))),
          cs_cidrs := List.map_filter (\<lambda>r. map_option (\<lambda>n. (n, client_of_row r)) (ParseCIDR (rc_nas_ip r)))
             (filter is_cidr_row rows),
          cs_loaded := now\<rparr>))"

definition refreshIfStale :: "pam_db \<Rightarrow> int \<Rightarrow> client_store \<Rightarrow> (err + unit) \<times> client_store" where
  "refreshIfStale db now c =
     (let stale = cs_ttl c < now - cs_loaded c; empty = (cs_exact c = None) in
      if \<not> stale \<and> \<not> empty then (Inr (), c) else Refresh db now c)"

definition lookup_loaded :: "client_store \<Rightarrow> string \<Rightarrow> err + client_record" where
  "lookup_loaded c nasIP =
     (case map_of (case cs_exact c of None \<Rightarrow> [] | Some m \<Rightarrow> m) nasIP of
        Some rec \<Rightarrow> if cl_Disabled rec then Inl ErrClientDisabled else Inr rec
      | None \<Rightarrow>
          (case List.find (\<lambda>(n, rec). case ParseIP nasIP of None \<Rightarrow> False | Some ip \<Rightarrow> Contains n ip)
                  (cs_cidrs c) of
             Some (n, rec) \<Rightarrow> if cl_Disabled rec then Inl ErrClientDisabled else Inr rec
           | None \<Rightarrow>
               if cs_DefaultSecret c \<noteq> [] then
                 Inr \<lparr>cl_ID = 0, cl_Name = ''default'', cl_NASIP = nasIP, cl_Secret = cs_DefaultSecret c,
                   cl_RequireMessageAuth = False, cl_Vendor = [], cl_Disabled = False\<rparr>
               else Inl ErrUnknownClient))"

definition ClientLookup ::
  "pam_db \<Rightarrow> int \<Rightarrow> string \<Rightarrow> client_store \<Rightarrow> (err + client_record) \<times> client_store" where
  "ClientLookup db now nasAddr c =
     (let nasIP = hostFromAddr nasAddr in
      if nasIP = [] then (Inl (ErrMsg ''radius: empty NAS address''), c)
      else let c' = snd (refreshIfStale db now c) in (lookup_loaded c' nasIP, c'))"

section \<open>The server\<close>

record radius_server =
  rs_Backend :: backend
  rs_Policy :: bool
  rs_Groups :: bool
  rs_UnknownUserDrop :: bool

record radius_event =
  re_Kind :: string
  re_Severity :: string
  re_Actor :: string
  re_Target :: string
  re_Detail :: "(string \<times> string) list"

record auth_result =
  ar_ok :: bool
  ar_pamUser :: bool
  ar_role :: string
  ar_roles :: "string list"
  ar_userID :: int
  ar_priv :: int
  ar_profile :: vendor_profile
  ar_usedCHAP :: bool
  ar_detail :: string

record user_info =
  ui_id :: int
  ui_role :: string
  ui_roles :: "string list"

definition radius_sev :: "bool \<Rightarrow> string" where
  "radius_sev ok = (if ok then ''info'' else ''warn'')"

definition nasIPFromPacket :: "packet \<Rightarrow> string \<Rightarrow> string" where
  "nasIPFromPacket p clientAddr =
     (let v4 = AttrGet (pk_Attrs p) AttrNASIPAddress; v6 = AttrGet (pk_Attrs p) AttrNASIPv6Address in
      if length v4 = 4 then ip_String v4
      else if length v6 = 16 then ip_String v6
      else hostFromAddr clientAddr)"

definition profileForNAS :: "pam_db \<Rightarrow> string \<Rightarrow> client_record \<Rightarrow> vendor_profile" where
  "profileForNAS db nasIP client =
     (let v = trim_space (cl_Vendor client) in
      if v \<noteq> [] then profileFor v
      else if faults db Target_Kind then genericProfile
      else case first_row (filter (\<lambda>t. t_host t = nasIP) (targets db)) of
        None \<Rightarrow> genericProfile
      | Some t \<Rightarrow> profileFor (t_kind t))"

definition privilegeLevel ::
  "radius_server \<Rightarrow> pam_db \<Rightarrow> int \<Rightarrow> string \<Rightarrow> string list \<Rightarrow> string \<Rightarrow> int" where
  "privilegeLevel sv db userID role roles nasIP =
     (if \<not> rs_Policy sv then privLevelForRole role
      else
        let host = (case split_host nasIP of Some h \<Rightarrow> h | None \<Rightarrow> nasIP) in
        if faults db Target_By_Host then privLevelForRole role
        else case first_row (filter (\<lambda>t. t_host t = host \<or> t_host t = nasIP) (targets db)) of
          None \<Rightarrow> privLevelForRole role
        | Some t \<Rightarrow>
            (case Decide db \<lparr>in_UserID = userID, in_Role = role, in_Roles = roles, in_TargetID = t_id t,
                    in_TargetKind = t_kind t, in_TargetTier = t_tier t, in_Action = ''exec''\<rparr> of
               Inl _ \<Rightarrow> privLevelForRole role
             | Inr dec \<Rightarrow>
                 if \<not> Allow dec then privLevelForRole role
                 else if IsCiscoKind (t_kind t) then EffectiveCiscoPrivilege dec role
                 else privLevelForRole role))"

definition userInfo :: "radius_server \<Rightarrow> pam_db \<Rightarrow> string \<Rightarrow> user_info option" where
  "userInfo sv db user =
     (let info = (\<lambda>u. \<lparr>ui_id = u_id u, ui_role = u_role u,
                       ui_roles = login_roles db (rs_Groups sv) (u_id u) (u_role u)\<rparr>);
          by_name = (if faults db User_By_Name then None else user_by_name db user);
          by_email = (if faults db User_By_Email then None else user_by_email db user)
      in case by_name of
           Some u \<Rightarrow> Some (info u)
         | None \<Rightarrow> map_option info by_email)"

definition checkDevicePassword :: "radius_server \<Rightarrow> pam_db \<Rightarrow> string \<Rightarrow> string \<Rightarrow> bool" where
  "checkDevicePassword sv db pass nasIP =
     (if pass = [] then False else device_password_is (rs_Backend sv) db pass nasIP)"

text \<open>The result is \<^verbatim>\<open>(ok, pamUser, role, roles, userID)\<close>.\<close>

definition checkPortalOrDevice ::
  "radius_server \<Rightarrow> pam_db \<Rightarrow> string \<Rightarrow> string \<Rightarrow> string \<Rightarrow> bool \<times> bool \<times> string \<times> string list \<times> int" where
  "checkPortalOrDevice sv db user pass nasIP =
     (if checkDevicePassword sv db pass nasIP then (True, False, ''admin'', [''admin''], 0)
      else case userInfo sv db user of
        None \<Rightarrow> (False, False, [], [], 0)
      | Some info \<Rightarrow>
          (portal_login (rs_Backend sv) db user pass, True, ui_role info, ui_roles info, ui_id info))"

text \<open>\<open>portalPasswordFor\<close> never knows a cleartext password.\<close>

definition portalPasswordFor :: "pam_db \<Rightarrow> string \<Rightarrow> string \<times> bool" where
  "portalPasswordFor db user =
     (if faults db User_Source then ([], False)
      else case user_by_name db user of None \<Rightarrow> ([], False) | Some u \<Rightarrow> ([], False))"

definition authenticate ::
  "radius_server \<Rightarrow> pam_db \<Rightarrow> string \<Rightarrow> packet \<Rightarrow> client_record \<Rightarrow> string \<Rightarrow> auth_result" where
  "authenticate sv db user pkt client nasIP =
     (let res = \<lparr>ar_ok = False, ar_pamUser = False, ar_role = [], ar_roles = [], ar_userID = 0,
            ar_priv = 0, ar_profile = profileForNAS db nasIP client, ar_usedCHAP = False, ar_detail = []\<rparr>;
          pwEnc = AttrGet (pk_Attrs pkt) AttrUserPassword;
          chap = AttrGet (pk_Attrs pkt) AttrCHAPPassword
      in if pwEnc \<noteq> [] then
           (case DecodeUserPassword pwEnc (pk_Authenticator pkt) (cl_Secret client) of
              Inl _ \<Rightarrow> res\<lparr>ar_detail := ''User-Password decrypt error''\<rparr>
            | Inr pw \<Rightarrow>
                (case checkPortalOrDevice sv db user (string_of_bytes pw) nasIP of
                   (ok, pamUser, role, roles, userID) \<Rightarrow>
                     let res = res\<lparr>ar_ok := ok, ar_pamUser := pamUser, ar_role := role,
                                   ar_roles := roles, ar_userID := userID\<rparr>
                     in if ok then res\<lparr>ar_priv := privilegeLevel sv db userID role roles nasIP,
                                       ar_detail := ''ok''\<rparr>
                        else res\<lparr>ar_detail := ''auth failed''\<rparr>))
         else if chap \<noteq> [] then
           (let res = res\<lparr>ar_usedCHAP := True\<rparr>;
                challenge = AttrGet (pk_Attrs pkt) AttrCHAPChallenge;
                challenge = (if challenge = [] then pk_Authenticator pkt else challenge)
            in case portalPasswordFor db user of
                 (pw, False) \<Rightarrow> res\<lparr>ar_pamUser := False,
                   ar_detail := ''CHAP requires a portal-local password '' @ [CHR 0xE2, CHR 0x80, CHR 0x94] @
                     '' switch NAS to PAP''\<rparr>
               | (pw, True) \<Rightarrow>
                   if VerifyCHAP (bytes_of_string pw) chap challenge then
                     (let info = (case userInfo sv db user of Some i \<Rightarrow> i
                          | None \<Rightarrow> \<lparr>ui_id = 0, ui_role = [], ui_roles = []\<rparr>)
                      in res\<lparr>ar_pamUser := True, ar_ok := True, ar_role := ui_role info,
                           ar_roles := ui_roles info, ar_userID := ui_id info,
                           ar_priv := privilegeLevel sv db (ui_id info) (ui_role info) (ui_roles info) nasIP,
                           ar_detail := ''ok (CHAP)''\<rparr>)
                   else res\<lparr>ar_pamUser := True, ar_detail := ''CHAP failed''\<rparr>)
         else res\<lparr>ar_detail := ''no User-Password or CHAP-Password attribute''\<rparr>)"

section \<open>Replies\<close>

definition reply_bytes :: "radius_err + bytes \<Rightarrow> bytes option" where
  "reply_bytes r = (case r of Inl _ \<Rightarrow> None | Inr out \<Rightarrow> Some out)"

definition echo_proxy_state :: "packet \<Rightarrow> attribute list \<Rightarrow> attribute list" where
  "echo_proxy_state req out =
     foldl (\<lambda>a v. AttrAdd AttrProxyState v a) out (AttrGetAll (pk_Attrs req) AttrProxyState)"

definition sendAccept :: "packet \<Rightarrow> bytes \<Rightarrow> auth_result \<Rightarrow> string \<Rightarrow> bytes option" where
  "sendAccept req secret res user =
     (let attrs = echo_proxy_state req (vp_FillReply (ar_profile res) [] (ar_role res) (ar_priv res));
          attrs = AttrAddString AttrReplyMessage (''PAM RADIUS: welcome '' @ user) attrs
      in reply_bytes (Encode \<lparr>pk_Code = CodeAccessAccept, pk_Identifier = pk_Identifier req,
           pk_Authenticator = replicate 16 0, pk_Attrs = attrs\<rparr> secret (pk_Authenticator req)))"

definition sendReject :: "packet \<Rightarrow> bytes \<Rightarrow> string \<Rightarrow> bytes option" where
  "sendReject req secret msg =
     (let attrs = (if msg \<noteq> [] then AttrAddString AttrReplyMessage msg [] else []) in
      reply_bytes (Encode \<lparr>pk_Code = CodeAccessReject, pk_Identifier = pk_Identifier req,
        pk_Authenticator = replicate 16 0, pk_Attrs = echo_proxy_state req attrs\<rparr> secret
        (pk_Authenticator req)))"

section \<open>Handlers\<close>

text \<open>\<open>handleAuth\<close> after the client is known and the datagram decoded.\<close>

definition answer_auth ::
  "radius_server \<Rightarrow> pam_db \<Rightarrow> string \<Rightarrow> client_record \<Rightarrow> packet \<Rightarrow> radius_event list \<times> bytes option" where
  "answer_auth sv db clientAddr client pkt =
     (if pk_Code pkt \<noteq> CodeAccessRequest then ([], None)
      else if cl_RequireMessageAuth client \<and> AttrGet (pk_Attrs pkt) AttrMessageAuthenticator = []
      then ([], sendReject pkt (cl_Secret client) ''Message-Authenticator required'')
      else
        let user = trim_space (string_of_bytes (AttrGet (pk_Attrs pkt) AttrUserName)) in
        if user = [] then ([], sendReject pkt (cl_Secret client) ''missing User-Name'')
        else
          let nasIP = nasIPFromPacket pkt clientAddr;
              res = authenticate sv db user pkt client nasIP;
              ev = \<lparr>re_Kind = ''authen'', re_Severity = radius_sev (ar_ok res), re_Actor = user,
                re_Target = nasIP, re_Detail = [(''result'', ar_detail res),
                  (''vendor'', vp_Family (ar_profile res)),
                  (''chap'', if ar_usedCHAP res then ''true'' else ''false''),
                  (''client_id'', cl_Name client)]\<rparr>
          in if \<not> ar_ok res then
               if \<not> ar_pamUser res \<and> rs_UnknownUserDrop sv then ([ev], None)
               else ([ev], sendReject pkt (cl_Secret client) (ar_detail res))
             else ([ev], sendAccept pkt (cl_Secret client) res user))"

definition handleAuth ::
  "radius_server \<Rightarrow> pam_db \<Rightarrow> int \<Rightarrow> string \<Rightarrow> bytes \<Rightarrow> client_store \<Rightarrow>
   (radius_event list \<times> bytes option) \<times> client_store" where
  "handleAuth sv db now clientAddr raw c =
     (case ClientLookup db now clientAddr c of
        (Inl _, c') \<Rightarrow> (([], None), c')
      | (Inr client, c') \<Rightarrow>
          (case Decode raw (cl_Secret client) of
             Inl _ \<Rightarrow> (([], None), c')
           | Inr pkt \<Rightarrow> (answer_auth sv db clientAddr client pkt, c')))"

definition acct_kind :: "32 word \<Rightarrow> string" where
  "acct_kind statusType =
     (if statusType = 1 then ''acct.start''
      else if statusType = 2 then ''acct.stop''
      else if statusType = 3 then ''acct.update''
      else if statusType = 7 \<or> statusType = 8 then ''acct.nas''
      else ''acct'')"

definition handleAcct ::
  "radius_server \<Rightarrow> pam_db \<Rightarrow> int \<Rightarrow> string \<Rightarrow> bytes \<Rightarrow> client_store \<Rightarrow>
   (radius_event list \<times> bytes option) \<times> client_store" where
  "handleAcct sv db now clientAddr raw c =
     (case ClientLookup db now clientAddr c of
        (Inl _, c') \<Rightarrow> (([], None), c')
      | (Inr client, c') \<Rightarrow>
          if \<not> VerifyAccountingRequest raw (cl_Secret client) then (([], None), c')
          else case Decode raw (cl_Secret client) of
            Inl _ \<Rightarrow> (([], None), c')
          | Inr pkt \<Rightarrow>
              if pk_Code pkt \<noteq> CodeAccountingRequest then (([], None), c')
              else
                let st = AttrGet (pk_Attrs pkt) AttrAcctStatusType;
                    statusType = (if length st = 4 then of_be32 st else 0);
                    ev = \<lparr>re_Kind = acct_kind statusType, re_Severity = ''info'',
                      re_Actor = string_of_bytes (AttrGet (pk_Attrs pkt) AttrUserName),
                      re_Target = nasIPFromPacket pkt clientAddr,
                      re_Detail = [(''session_id'', string_of_bytes (AttrGet (pk_Attrs pkt) AttrAcctSessionID)),
                        (''status_type'', string_of_nat (unat statusType)),
                        (''client_id'', cl_Name client)]\<rparr>
                in (([ev], reply_bytes (Encode \<lparr>pk_Code = CodeAccountingResponse,
                      pk_Identifier = pk_Identifier pkt, pk_Authenticator = replicate 16 0,
                      pk_Attrs = []\<rparr> (cl_Secret client) (pk_Authenticator pkt))), c'))"

end
