(* ===== verification/RadiusSpec.thy ===== *)
theory RadiusSpec
  imports RadiusProtocol
begin

text \<open>
  What the RADIUS codec promises: decoding is exact (nothing accepted is reinterpreted, nothing is
  lost), a NAS accepts every reply the server encodes (Response Authenticator and
  Message-Authenticator), and the password hiding of RFC 2865 is undone by its inverse.
\<close>

section \<open>Decoding is exact\<close>

text \<open>C36: \<open>Decode\<close> is exact: an accepted datagram, cut to its length field, is the fixed header followed
  by precisely the encodings of the decoded attributes, each with a value of at most 253 bytes; and an
  Access-Request that carries a Message-Authenticator is accepted only if that attribute is the HMAC of
  the packet with the attribute zeroed.\<close>

theorem Decode_exact:
  assumes "Decode buf secret = Inr p"
  shows "\<exists>rest. buf = [pk_Code p, pk_Identifier p] @
      be16 (HeaderLen + length (encode_attrs (pk_Attrs p))) @ pk_Authenticator p @
      encode_attrs (pk_Attrs p) @ rest \<and>
    length (pk_Authenticator p) = 16 \<and> attrs_fit (pk_Attrs p) \<and>
    HeaderLen + length (encode_attrs (pk_Attrs p)) \<le> MaxPacketLen \<and>
    \<not> (pk_Code p = CodeAccessRequest \<and> AttrGet (pk_Attrs p) AttrMessageAuthenticator \<noteq> [] \<and>
       hmac_md5 secret (take HeaderLen buf @
         encode_attrs (map_first_ma (\<lambda>v. replicate (length v) 0) (pk_Attrs p)))
       \<noteq> AttrGet (pk_Attrs p) AttrMessageAuthenticator)"
proof -
  define len where "len = of_be16 (take 2 (drop 2 buf))"
  from assms have bounds: "20 \<le> length buf" "20 \<le> len" "len \<le> 4096" "len \<le> length buf"
    by (auto simp: Decode_def Let_def radius_codes len_def split: if_splits)
  from assms obtain attrs where attrs: "decode_attrs (drop 20 (take len buf)) = Inr attrs"
      and p: "p = \<lparr>pk_Code = buf ! 0, pk_Identifier = buf ! 1,
        pk_Authenticator = take 16 (drop 4 buf), pk_Attrs = attrs\<rparr>"
      and ma: "\<not> (pk_Code p = CodeAccessRequest \<and> AttrGet attrs AttrMessageAuthenticator \<noteq> [] \<and>
        \<not> verifyMessageAuthenticator (take len buf) (AttrGet attrs AttrMessageAuthenticator) secret)"
    by (auto simp: Decode_def Let_def HeaderLen_def AuthenticatorLen_def len_def
        split: if_splits sum.splits)
  from encode_decode_attrs [OF attrs] have enc: "encode_attrs attrs = drop 20 (take len buf)"
      and fit: "attrs_fit attrs" by auto
  have total: "20 + length (encode_attrs attrs) = len"
    using bounds by (simp add: enc)
  have "length (take 2 (drop 2 buf)) = Suc (Suc 0)" using bounds by simp
  then obtain h l where hl: "take 2 (drop 2 buf) = [h, l]"
    by (auto simp only: length_Suc_conv length_0_conv)
  have be: "be16 len = [h, l]"
  proof -
    have "len = 256 * unat h + unat l" by (simp add: len_def hl of_be16_def)
    moreover have "unat l < 256" using unsigned_less [of l] by simp
    ultimately have parts: "len div 256 = unat h" "len mod 256 = unat l" by simp_all
    have "unat (word_of_nat len :: byte) = len mod 256" by (simp add: unat_of_nat)
    with parts have "len div 256 = unat h" "word_of_nat len = (l :: byte)"
      by (simp_all add: word_unat_eq_iff)
    then show ?thesis by (simp add: be16_def)
  qed
  have cut: "take 2 (drop 2 buf) @ drop 4 buf = drop 2 buf"
    "take 16 (drop 4 buf) @ drop 20 buf = drop 4 buf"
    using append_take_drop_id [of 2 "drop 2 buf"] append_take_drop_id [of 16 "drop 4 buf"] by simp_all
  have "buf = take 2 buf @ take 2 (drop 2 buf) @ take 16 (drop 4 buf) @ drop 20 buf"
    unfolding cut by simp
  moreover have "take 2 buf = [buf ! 0, buf ! 1]"
    using bounds(1) by (intro nth_equalityI) (auto simp: numeral_2_eq_2 less_Suc_eq)
  moreover have "drop 20 buf = drop 20 (take len buf) @ drop len buf"
    using bounds append_take_drop_id [of "len - 20" "drop 20 buf"] by (simp add: drop_take)
  ultimately have "buf = [buf ! 0, buf ! 1] @ be16 len @ take 16 (drop 4 buf) @
      encode_attrs attrs @ drop len buf"
    by (simp add: hl be enc)
  moreover have "verifyMessageAuthenticator (take len buf) m secret \<longleftrightarrow>
      hmac_md5 secret (take 20 buf @
        encode_attrs (map_first_ma (\<lambda>v. replicate (length v) 0) attrs)) = m" for m
    using bounds zero_ma_encode [OF fit]
    by (simp add: verifyMessageAuthenticator_def HeaderLen_def enc min_def)
  ultimately show ?thesis
    using ma bounds fit total by (intro exI [of _ "drop len buf"]) (auto simp: p HeaderLen_def MaxPacketLen_def)
qed

definition demo_datagram :: bytes where
  "demo_datagram = [2, 9, 0, 24] @ replicate 16 5 @ [18, 4, 104, 105] @ [0, 0]"

lemma Decode_exact_witness:
  "\<exists>p rest. Decode demo_datagram [1] = Inr p \<and> length (pk_Authenticator p) = 16 \<and>
     demo_datagram = [pk_Code p, pk_Identifier p] @
       be16 (HeaderLen + length (encode_attrs (pk_Attrs p))) @ pk_Authenticator p @
       encode_attrs (pk_Attrs p) @ rest"
proof -
  have "is_ok (Decode demo_datagram [1])" by code_simp
  then obtain p where "Decode demo_datagram [1] = Inr p" by (auto simp: is_ok_iff)
  with Decode_exact [OF this] show ?thesis by blast
qed

section \<open>Replies\<close>

lemma signed_attrs_fit: "attrs_fit (pk_Attrs p) \<Longrightarrow> attrs_fit (signed_attrs p secret)"
  by (simp add: signed_attrs_def attrs_fit_def)

lemma AttrGet_append_ma:
  "t \<notin> at_Type ` set attrs \<Longrightarrow> AttrGet (attrs @ [\<lparr>at_Type = t, at_Value = v\<rparr>]) t = v"
  by (induction attrs) auto

lemma AttrGet_absent: "t \<notin> at_Type ` set attrs \<Longrightarrow> AttrGet attrs t = []"
  by (induction attrs) auto

text \<open>C37: A NAS accepts what the server encodes.  Every reply that \<open>Encode\<close> produces decodes, with any
  secret, to the packet's code, identifier and attributes; its authenticator is the Response
  Authenticator of RFC 2865 over the bytes sent; and an access reply to a request without a
  Message-Authenticator of its own carries one that verifies against the request's authenticator.\<close>

theorem Encode_reply_accepted:
  assumes "Encode p secret reqAuth = Inr out" "length reqAuth = AuthenticatorLen"
    and "attrs_fit (pk_Attrs p)"
    and "pk_Code p \<in> {CodeAccessAccept, CodeAccessReject, CodeAccessChallenge, CodeAccountingResponse}"
  shows "\<exists>attrs. Decode out s = Inr \<lparr>pk_Code = pk_Code p, pk_Identifier = pk_Identifier p,
      pk_Authenticator = md5 (take 4 out @ reqAuth @ drop HeaderLen out @ secret),
      pk_Attrs = attrs\<rparr> \<and>
    filter (\<lambda>a. at_Type a \<noteq> AttrMessageAuthenticator) attrs =
      filter (\<lambda>a. at_Type a \<noteq> AttrMessageAuthenticator) (pk_Attrs p) \<and>
    (want_ma p secret \<and> AttrMessageAuthenticator \<notin> at_Type ` set (pk_Attrs p) \<longrightarrow>
      verifyMessageAuthenticator (take 4 out @ reqAuth @ drop HeaderLen out)
        (AttrGet attrs AttrMessageAuthenticator) secret)"
proof -
  let ?zero = "map_first_ma (\<lambda>v. replicate (length v) 0)"
  define attrs where "attrs = signed_attrs p secret"
  define total where "total = 20 + length (encode_attrs attrs)"
  define hdr where "hdr = [pk_Code p, pk_Identifier p] @ be16 total"
  define mac where "mac = hmac_md5 secret (hdr @ reqAuth @ encode_attrs (?zero attrs))"
  define stamp where "stamp = (\<lambda>v :: bytes. take (length v) (mac @ replicate (length v) 0))"
  define attrs' where "attrs' = (if want_ma p secret then map_first_ma stamp attrs else attrs)"
  have stamp: "length (stamp v) = length v" for v by (simp add: stamp_def)
  have fit: "attrs_fit attrs" using assms(3) by (simp add: attrs_def signed_attrs_fit)
  then have fit': "attrs_fit attrs'" by (simp add: attrs'_def map_first_ma_fit stamp)
  have "map (\<lambda>a. 2 + length (at_Value a)) (map_first_ma stamp attrs) =
      map (\<lambda>a. 2 + length (at_Value a)) attrs"
    using map_first_ma_lengths [of stamp attrs] stamp by (simp add: list_eq_iff_nth_eq)
  then have len': "length (encode_attrs attrs') = length (encode_attrs attrs)"
    by (simp add: length_encode_attrs attrs'_def)
  have small: "total \<le> 4096"
    using assms(1)
    by (simp add: Encode_def Let_def total_def attrs_def length_encode_attrs radius_codes split: if_splits)
  have out: "out = hdr @ md5 (hdr @ reqAuth @ encode_attrs attrs' @ secret) @ encode_attrs attrs'"
    using assms(1,2,4) small
    by (auto simp: Encode_def Let_def total_def attrs_def length_encode_attrs HeaderLen_def
        hdr_def attrs'_def stamp_def mac_def MaxPacketLen_def split: if_splits)
  have parts: "take 4 out = hdr" "drop 20 out = encode_attrs attrs'" "length out = total"
    by (simp_all add: out hdr_def total_def len')
  have field: "of_be16 (take 2 (drop 2 out)) = total"
  proof -
    have "take 2 (drop 2 out) = be16 total" by (simp add: out hdr_def)
    then show ?thesis using small by (simp add: of_be16_be16)
  qed
  have code: "pk_Code p \<noteq> CodeAccessRequest" using assms(4) by (auto simp: radius_codes)
  have head: "out ! 0 = pk_Code p" "out ! Suc 0 = pk_Identifier p"
    by (simp_all add: out hdr_def)
  have auth: "take 16 (drop 4 out) = md5 (hdr @ reqAuth @ encode_attrs attrs' @ secret)"
    by (simp add: out hdr_def)
  have dec: "Decode out s = Inr \<lparr>pk_Code = pk_Code p, pk_Identifier = pk_Identifier p,
      pk_Authenticator = md5 (hdr @ reqAuth @ encode_attrs attrs' @ secret), pk_Attrs = attrs'\<rparr>"
    using small code parts
    by (simp add: Decode_def Let_def field HeaderLen_def MaxPacketLen_def AuthenticatorLen_def head auth
        total_def decode_encode_attrs [OF fit'])
  have others: "filter (\<lambda>a. at_Type a \<noteq> AttrMessageAuthenticator) attrs' =
      filter (\<lambda>a. at_Type a \<noteq> AttrMessageAuthenticator) (pk_Attrs p)"
    by (simp add: attrs'_def attrs_def signed_attrs_def map_first_ma_others)
  have "verifyMessageAuthenticator (hdr @ reqAuth @ encode_attrs attrs')
      (AttrGet attrs' AttrMessageAuthenticator) secret"
    if want: "want_ma p secret" "AttrMessageAuthenticator \<notin> at_Type ` set (pk_Attrs p)"
  proof -
    have "AttrGet attrs AttrMessageAuthenticator = replicate 16 0"
      using want by (simp add: attrs_def signed_attrs_def AttrGet_absent AttrGet_append_ma)
    then have "AttrGet attrs' AttrMessageAuthenticator = mac"
      using want(1) by (simp add: attrs'_def AttrGet_map_first_ma stamp_def) (simp add: mac_def)
    moreover have "?zero attrs' = ?zero attrs"
      using want(1) by (simp add: attrs'_def map_first_ma_comp stamp comp_def)
    moreover have "drop 20 (hdr @ reqAuth @ encode_attrs attrs') = encode_attrs attrs'"
      "take 20 (hdr @ reqAuth @ encode_attrs attrs') = hdr @ reqAuth"
      using assms(2) by (simp_all add: hdr_def AuthenticatorLen_def)
    ultimately show ?thesis
      by (simp add: verifyMessageAuthenticator_def HeaderLen_def zero_ma_encode [OF fit'] mac_def)
  qed
  with dec others show ?thesis
    by (intro exI [of _ attrs']) (simp add: parts HeaderLen_def)
qed

lemma Encode_reply_accepted_witness:
  "\<exists>out attrs. Encode \<lparr>pk_Code = CodeAccessReject, pk_Identifier = 9, pk_Authenticator = [],
       pk_Attrs = AttrAddString AttrReplyMessage ''no'' []\<rparr> [1, 2] (replicate 16 7) = Inr out \<and>
     verifyMessageAuthenticator (take 4 out @ replicate 16 7 @ drop HeaderLen out)
       (AttrGet attrs AttrMessageAuthenticator) [1, 2]"
proof -
  let ?p = "\<lparr>pk_Code = CodeAccessReject, pk_Identifier = 9, pk_Authenticator = [],
       pk_Attrs = AttrAddString AttrReplyMessage ''no'' []\<rparr>"
  have "\<exists>out. Encode ?p [1, 2] (replicate 16 7) = Inr out"
    by (simp add: Encode_def Let_def signed_attrs_def want_ma_def radius_codes AttrAddString_def
        AttrAdd_def AttrReplyMessage_def)
  then obtain out where out: "Encode ?p [1, 2] (replicate 16 7) = Inr out" by blast
  have "want_ma ?p [1, 2]" "AttrMessageAuthenticator \<notin> at_Type ` set (pk_Attrs ?p)"
    "attrs_fit (pk_Attrs ?p)"
    by (simp_all add: want_ma_def radius_codes AttrAddString_def AttrAdd_def AttrReplyMessage_def
        attrs_fit_def)
  with Encode_reply_accepted [OF out, of "[]"] out show ?thesis
    by (auto simp: AuthenticatorLen_def)
qed

section \<open>Passwords\<close>

lemma pad_password_props:
  assumes "length pw \<le> 128"
  obtains k where "pad_password pw = pw @ replicate k 0" "length (pad_password pw) mod 16 = 0"
    "length (pad_password pw) \<noteq> 0" "length (pad_password pw) \<le> 128"
proof -
  define k where "k = (if length pw = 0 then 16 else if length pw mod 16 = 0 then 0 else 16 - length pw mod 16)"
  have small: "length pw mod 16 < 16" by simp
  have sum: "(length pw + k) mod 16 = 0"
  proof (cases "length pw mod 16 = 0")
    case False
    then have "k + length pw mod 16 = 16" using small by (auto simp: k_def)
    moreover have "length pw = length pw div 16 * 16 + length pw mod 16" by simp
    moreover have "n + i = (q + 1) * 16" if "i + r = 16" "n = q * 16 + r" for n i q r :: nat
      using that by simp
    ultimately have "length pw + k = (length pw div 16 + 1) * 16" by blast
    then show ?thesis by simp
  qed (simp add: k_def)
  then obtain q where q: "length pw + k = 16 * q" by (metis dvd_def dvd_eq_mod_eq_0)
  have "length pw + k < 16 * 9" using assms small by (auto simp: k_def)
  then have "length pw + k \<le> 128" unfolding q by simp
  moreover have "pad_password pw = take 128 (pw @ replicate k 0)"
    using small by (auto simp: pad_password_def Let_def k_def)
  ultimately show thesis
    using sum by (intro that [of k]) (auto simp: k_def)
qed

lemma strip_nuls_pad: "pw = [] \<or> last pw \<noteq> 0 \<Longrightarrow> strip_nuls (pw @ replicate k 0) = pw"
proof -
  assume end_ok: "pw = [] \<or> last pw \<noteq> 0"
  have "dropWhile (\<lambda>x. x = 0) (replicate k 0 @ rev pw) = dropWhile (\<lambda>x. x = (0::byte)) (rev pw)"
    by (induction k) auto
  moreover have "dropWhile (\<lambda>x. x = 0) (rev pw) = rev pw"
    using end_ok by (cases pw rule: rev_cases) auto
  ultimately show ?thesis by (simp add: strip_nuls_def)
qed

lemma decode_encode_password:
  assumes "length pw \<le> 128" "pw = [] \<or> last pw \<noteq> 0"
  shows "DecodeUserPassword (EncodeUserPassword pw reqAuth secret) reqAuth secret = Inr pw"
proof -
  obtain k where pad: "pad_password pw = pw @ replicate k 0" "length (pad_password pw) mod 16 = 0"
      "length (pad_password pw) \<noteq> 0" "length (pad_password pw) \<le> 128"
    using pad_password_props [OF assms(1)] by blast
  then show ?thesis
    using keyed_md5.reveal_hide [OF pad(2)] strip_nuls_pad [OF assms(2)]
    by (simp add: DecodeUserPassword_def EncodeUserPassword_def keyed_md5.length_hide)
qed

text \<open>The password hiding of RFC 2865 is undone exactly: for every password of at most 128 bytes that
  does not end in NUL, every request authenticator and every secret, decoding the encoded attribute
  gives the password back.\<close>

theorem user_password_roundtrip:
  assumes "length pw \<le> 128" "pw = [] \<or> last pw \<noteq> 0"
  shows "DecodeUserPassword (EncodeUserPassword pw reqAuth secret) reqAuth secret = Inr pw"
  by (rule decode_encode_password [OF assms])

lemma user_password_roundtrip_witness:
  "DecodeUserPassword (EncodeUserPassword (bytes_of_string ''arctangent'') (replicate 16 3)
     (bytes_of_string ''xyzzy5461'')) (replicate 16 3) (bytes_of_string ''xyzzy5461'') =
   Inr (bytes_of_string ''arctangent'')"
proof (rule user_password_roundtrip)
  show "bytes_of_string ''arctangent'' = [] \<or> last (bytes_of_string ''arctangent'') \<noteq> 0"
    by code_simp
qed simp

end
