(* ===== verification/RadiusServerSpec.thy ===== *)
theory RadiusServerSpec
  imports RadiusServer RadiusSpec
begin

text \<open>
  What the RADIUS service promises: an Access-Accept is only ever sent for a verified password, CHAP
  never succeeds, and which secret a NAS is served with.
\<close>

section \<open>Access-Accept\<close>

lemma Encode_code: "Encode p secret reqAuth = Inr out \<Longrightarrow> out ! 0 = pk_Code p"
  by (auto simp: Encode_def Let_def split: if_splits)

lemma sendReject_code: "sendReject req secret msg = Some out \<Longrightarrow> out ! 0 = CodeAccessReject"
  by (auto simp: sendReject_def reply_bytes_def Let_def split: sum.splits dest: Encode_code)

lemma portalPasswordFor_none: "portalPasswordFor db user = ([], False)"
  by (simp add: portalPasswordFor_def split: option.split)

lemma authenticate_chap:
  assumes "AttrGet (pk_Attrs pkt) AttrUserPassword = []"
  shows "\<not> ar_ok (authenticate sv db user pkt client nasIP) \<and>
    \<not> ar_pamUser (authenticate sv db user pkt client nasIP)"
  using assms portalPasswordFor_none [of db user]
  by (simp add: authenticate_def Let_def)

lemma authenticate_ok:
  assumes "ar_ok (authenticate sv db user pkt client nasIP)"
  obtains pw where "DecodeUserPassword (AttrGet (pk_Attrs pkt) AttrUserPassword)
      (pk_Authenticator pkt) (cl_Secret client) = Inr pw"
    "checkDevicePassword sv db (string_of_bytes pw) nasIP \<or>
     (\<exists>info. userInfo sv db user = Some info) \<and>
     portal_login (rs_Backend sv) db user (string_of_bytes pw)"
proof (cases "AttrGet (pk_Attrs pkt) AttrUserPassword = []")
  case True
  with authenticate_chap assms show thesis by blast
next
  case False
  show thesis
  proof (cases "DecodeUserPassword (AttrGet (pk_Attrs pkt) AttrUserPassword)
      (pk_Authenticator pkt) (cl_Secret client)")
    case (Inl e)
    with False assms show thesis by (simp add: authenticate_def Let_def)
  next
    case (Inr pw)
    then have "fst (checkPortalOrDevice sv db user (string_of_bytes pw) nasIP)"
      using False assms by (auto simp: authenticate_def Let_def split: prod.splits if_splits)
    then show thesis
      using Inr by (intro that) (auto simp: checkPortalOrDevice_def split: if_splits option.splits)
  qed
qed

text \<open>C13: An Access-Accept is sent only when the source address resolves to a client, the datagram
  decodes under that client's secret as an Access-Request (with a Message-Authenticator where the
  client requires one), and the User-Password it hides is either the password of the device or one the
  portal accepted for an existing, enabled user.\<close>

theorem accept_needs_password:
  assumes "handleAuth sv db now addr raw c = ((evs, Some out), c')" "out ! 0 = CodeAccessAccept"
  shows "\<exists>client pkt pw. ClientLookup db now addr c = (Inr client, c') \<and>
    Decode raw (cl_Secret client) = Inr pkt \<and> pk_Code pkt = CodeAccessRequest \<and>
    (cl_RequireMessageAuth client \<longrightarrow> AttrGet (pk_Attrs pkt) AttrMessageAuthenticator \<noteq> []) \<and>
    DecodeUserPassword (AttrGet (pk_Attrs pkt) AttrUserPassword) (pk_Authenticator pkt)
      (cl_Secret client) = Inr pw \<and>
    (checkDevicePassword sv db (string_of_bytes pw) (nasIPFromPacket pkt addr) \<or>
     (\<exists>info. userInfo sv db (trim_space (string_of_bytes (AttrGet (pk_Attrs pkt) AttrUserName))) = Some info) \<and>
     portal_login (rs_Backend sv) db
       (trim_space (string_of_bytes (AttrGet (pk_Attrs pkt) AttrUserName))) (string_of_bytes pw))"
proof -
  from assms(1) obtain client pkt where client: "ClientLookup db now addr c = (Inr client, c')"
      "Decode raw (cl_Secret client) = Inr pkt"
      and ans: "answer_auth sv db addr client pkt = (evs, Some out)"
    by (auto simp: handleAuth_def split: prod.splits sum.splits)
  define user where "user = trim_space (string_of_bytes (AttrGet (pk_Attrs pkt) AttrUserName))"
  have code: "pk_Code pkt = CodeAccessRequest"
    using ans by (auto simp: answer_auth_def split: if_splits)
  have rej: "sendReject pkt s m \<noteq> Some out" for s m
    using sendReject_code [of pkt s m out] assms(2) by (auto simp: radius_codes)
  have ma: "cl_RequireMessageAuth client \<longrightarrow> AttrGet (pk_Attrs pkt) AttrMessageAuthenticator \<noteq> []"
    using ans rej by (auto simp: answer_auth_def code)
  have "ar_ok (authenticate sv db user pkt client (nasIPFromPacket pkt addr))"
    using ans rej ma
    by (auto simp: answer_auth_def code Let_def user_def split: if_splits)
  then obtain pw where "DecodeUserPassword (AttrGet (pk_Attrs pkt) AttrUserPassword)
      (pk_Authenticator pkt) (cl_Secret client) = Inr pw"
    "checkDevicePassword sv db (string_of_bytes pw) (nasIPFromPacket pkt addr) \<or>
     (\<exists>info. userInfo sv db user = Some info) \<and>
     portal_login (rs_Backend sv) db user (string_of_bytes pw)"
    by (rule authenticate_ok)
  with client code ma show ?thesis unfolding user_def by blast
qed

definition demo_client :: client_record where
  "demo_client = \<lparr>cl_ID = 0, cl_Name = ''default'', cl_NASIP = ''10.0.0.9'', cl_Secret = [1, 2],
     cl_RequireMessageAuth = False, cl_Vendor = ''hp'', cl_Disabled = False\<rparr>"

definition demo_backend :: backend where
  "demo_backend = \<lparr>be_Login = Some (\<lambda>u p otp. Inr (u = ''ann'' \<and> p = ''pw'')),
     be_Vault = Some (\<lambda>ref. Inr ''s3cret''), be_VerifyPassword = (\<lambda>p h. False)\<rparr>"

definition demo_server :: radius_server where
  "demo_server = \<lparr>rs_Backend = demo_backend, rs_Policy = False, rs_Groups = False,
     rs_UnknownUserDrop = True\<rparr>"

definition demo_store :: client_store where
  "demo_store = \<lparr>cs_DefaultSecret = [], cs_exact = Some [(''10.0.0.9'', demo_client)], cs_cidrs = [],
     cs_loaded = 0, cs_ttl = 30\<rparr>"

definition aaa_db :: pam_db where
  "aaa_db = empty_db\<lparr>users := [\<lparr>u_id = 7, u_username = ''ann'', u_email = None,
     u_password_hash = [], u_role = ''viewer'', u_mfa_secret = None, u_mfa_enabled = 0,
     u_source = ''local'', u_external_dn = None, u_last_login = None, u_created_at = 0,
     u_disabled = 0, u_role_locked = 0, u_mfa_exempt = 0\<rparr>]\<rparr>"

definition demo_request :: "attribute list \<Rightarrow> packet" where
  "demo_request attrs = \<lparr>pk_Code = CodeAccessRequest, pk_Identifier = 4,
     pk_Authenticator = replicate 16 7, pk_Attrs = attrs\<rparr>"

definition pap_attrs :: "string \<Rightarrow> string \<Rightarrow> attribute list" where
  "pap_attrs user pw =
     [\<lparr>at_Type = AttrUserName, at_Value = bytes_of_string user\<rparr>,
      \<lparr>at_Type = AttrUserPassword,
       at_Value = EncodeUserPassword (bytes_of_string pw) (replicate 16 7) [1, 2]\<rparr>]"

text \<open>The datagram of a request, as a NAS without Message-Authenticator sends it.\<close>

definition request_bytes :: "attribute list \<Rightarrow> bytes" where
  "request_bytes attrs =
     [CodeAccessRequest, 4] @ be16 (20 + length (encode_attrs attrs)) @ replicate 16 7 @ encode_attrs attrs"

lemma Decode_request_bytes:
  assumes "attrs_fit attrs" "20 + length (encode_attrs attrs) \<le> 4096"
    "AttrGet attrs AttrMessageAuthenticator = []"
  shows "Decode (request_bytes attrs) secret = Inr (demo_request attrs)"
proof -
  define total where "total = 20 + length (encode_attrs attrs)"
  have "take 2 (drop 2 (request_bytes attrs)) = be16 total"
    by (simp add: request_bytes_def total_def)
  then have field: "of_be16 (take 2 (drop 2 (request_bytes attrs))) = total"
    using assms(2) by (simp add: of_be16_be16 total_def)
  have parts: "length (request_bytes attrs) = total" "drop 20 (request_bytes attrs) = encode_attrs attrs"
    "take 16 (drop 4 (request_bytes attrs)) = replicate 16 7"
    "request_bytes attrs ! 0 = CodeAccessRequest" "request_bytes attrs ! Suc 0 = 4"
    by (simp_all add: request_bytes_def total_def)
  have "20 \<le> total" "total \<le> 4096" using assms(2) by (simp_all add: total_def)
  with field parts assms(3) show ?thesis
    by (simp add: Decode_def Let_def HeaderLen_def MaxPacketLen_def AuthenticatorLen_def
        decode_encode_attrs [OF assms(1)] demo_request_def)
qed

lemma length_EncodeUserPassword: "length (EncodeUserPassword pw r s) = length (pad_password pw)"
  by (simp add: EncodeUserPassword_def keyed_md5.length_hide)

lemma pap_attrs_ok:
  assumes "length user \<le> 200" "length pw \<le> 128"
  shows "attrs_fit (pap_attrs user pw)" "20 + length (encode_attrs (pap_attrs user pw)) \<le> 4096"
    "AttrGet (pap_attrs user pw) AttrMessageAuthenticator = []"
proof -
  obtain k where "length (pad_password (bytes_of_string pw)) \<le> 128"
    using pad_password_props [of "bytes_of_string pw"] assms(2) by (metis length_bytes_of_string)
  then show "attrs_fit (pap_attrs user pw)" "20 + length (encode_attrs (pap_attrs user pw)) \<le> 4096"
    "AttrGet (pap_attrs user pw) AttrMessageAuthenticator = []"
    using assms
    by (simp_all add: pap_attrs_def attrs_fit_def length_EncodeUserPassword length_encode_attrs encode_attr_def
        AttrMessageAuthenticator_def AttrUserName_def AttrUserPassword_def)
qed

lemma pap_nonempty:
  assumes "length pw \<le> 128"
  shows "AttrGet (pap_attrs user pw) AttrUserPassword \<noteq> []"
proof -
  have "length (pad_password (bytes_of_string pw)) \<noteq> 0"
    using pad_password_props [of "bytes_of_string pw"] assms by (metis length_bytes_of_string)
  then have "EncodeUserPassword (bytes_of_string pw) (replicate 16 7) [1, 2] \<noteq> []"
    using length_EncodeUserPassword [of "bytes_of_string pw" "replicate 16 7" "[1, 2]"] by auto
  then show ?thesis by (simp add: pap_attrs_def AttrUserName_def AttrUserPassword_def)
qed

lemma pap_password:
  assumes "length pw \<le> 128" "pw \<noteq> []" "last (bytes_of_string pw) \<noteq> 0"
  shows "DecodeUserPassword (AttrGet (pap_attrs user pw) AttrUserPassword) (replicate 16 7) [1, 2] =
    Inr (bytes_of_string pw)"
  using decode_encode_password [of "bytes_of_string pw" "replicate 16 7" "[1, 2]"] assms
  by (simp add: pap_attrs_def AttrUserName_def AttrUserPassword_def)

lemma Encode_ok:
  assumes "HeaderLen + sum_list (map (\<lambda>a. 2 + length (at_Value a)) (signed_attrs p secret)) \<le> MaxPacketLen"
  shows "\<exists>out. Encode p secret reqAuth = Inr out \<and> out ! 0 = pk_Code p"
proof -
  from assms obtain out where "Encode p secret reqAuth = Inr out"
    by (auto simp: Encode_def Let_def)
  with Encode_code [OF this] show ?thesis by blast
qed

lemma demo_lookup: "ClientLookup db 5 ''10.0.0.9:1024'' demo_store = (Inr demo_client, demo_store)"
proof -
  have "hostFromAddr ''10.0.0.9:1024'' = ''10.0.0.9''" by code_simp
  then show ?thesis
    by (simp add: ClientLookup_def refreshIfStale_def demo_store_def lookup_loaded_def demo_client_def
        Let_def)
qed

lemma demo_name: "trim_space ''ann'' = ''ann''" "to_lower ''ann'' = ''ann''" "trim_space ''pw'' = ''pw''"
  by code_simp+

lemma ann_user: "user_by_name aaa_db ''ann'' = Some (hd (users aaa_db))"
  by (simp add: user_by_name_def aaa_db_def demo_name)

lemma aaa_faults: "faults aaa_db s = False"
  by (simp add: aaa_db_def empty_db_def)

lemma ann_ok:
  "portal_login demo_backend aaa_db ''ann'' ''pw''"
  "checkDevicePassword demo_server aaa_db ''pw'' host = False"
  "userInfo demo_server aaa_db ''ann'' = Some \<lparr>ui_id = 7, ui_role = ''viewer'', ui_roles = [''viewer'']\<rparr>"
proof -
  have "SplitAppendedOTP ''pw'' = (''pw'', [])"
    by (simp add: SplitAppendedOTP_def Let_def demo_name otp_digits_def)
  then show "portal_login demo_backend aaa_db ''ann'' ''pw''"
    by (simp add: portal_login_def demo_backend_def)
  have none: "device_account aaa_db h h' = None" for h h'
    by (simp add: device_account_def aaa_db_def empty_db_def)
  show "checkDevicePassword demo_server aaa_db ''pw'' host = False"
    by (simp add: checkDevicePassword_def device_password_is_def DevicePasswordForHost_def Let_def none
        aaa_faults)
  show "userInfo demo_server aaa_db ''ann'' = Some \<lparr>ui_id = 7, ui_role = ''viewer'', ui_roles = [''viewer'']\<rparr>"
    by (simp add: userInfo_def Let_def ann_user login_roles_def demo_server_def)
      (simp add: aaa_db_def empty_db_def)
qed

lemma pap_user: "trim_space (string_of_bytes (AttrGet (pap_attrs ''ann'' pw) AttrUserName)) = ''ann''"
  by (simp add: pap_attrs_def demo_name)

lemma ann_authenticated:
  "authenticate demo_server aaa_db ''ann'' (demo_request (pap_attrs ''ann'' ''pw'')) demo_client host =
     \<lparr>ar_ok = True, ar_pamUser = True, ar_role = ''viewer'', ar_roles = [''viewer''], ar_userID = 7,
      ar_priv = privLevelForRole ''viewer'', ar_profile = hpProfile, ar_usedCHAP = False, ar_detail = ''ok''\<rparr>"
proof -
  have "DecodeUserPassword (AttrGet (pap_attrs ''ann'' ''pw'') AttrUserPassword) (replicate 16 7) [1, 2] =
      Inr (bytes_of_string ''pw'')"
    by (rule pap_password) (simp_all add: bytes_of_string_def)
  moreover have "AttrGet (pap_attrs ''ann'' ''pw'') AttrUserPassword \<noteq> []"
    by (rule pap_nonempty) simp
  moreover have "profileForNAS aaa_db host demo_client = hpProfile"
  proof -
    have "trim_space ''hp'' = ''hp''" "to_lower ''hp'' = ''hp''" "kind_family ''hp'' = ''hp''"
      by code_simp+
    then show ?thesis by (simp add: profileForNAS_def demo_client_def Let_def profileFor_def)
  qed
  ultimately show ?thesis
    using ann_ok
    by (simp add: authenticate_def Let_def demo_request_def demo_client_def checkPortalOrDevice_def
        privilegeLevel_def demo_server_def)
qed

lemma accept_sent:
  assumes "vp_Family (ar_profile res) = ''hp''" "ar_profile res = hpProfile" "length user \<le> 100"
    "AttrGetAll (pk_Attrs req) AttrProxyState = []"
  shows "\<exists>out. sendAccept req secret res user = Some out \<and> out ! 0 = CodeAccessAccept"
proof -
  let ?p = "\<lparr>pk_Code = CodeAccessAccept, pk_Identifier = pk_Identifier req,
      pk_Authenticator = replicate 16 0,
      pk_Attrs = AttrAddString AttrReplyMessage (''PAM RADIUS: welcome '' @ user)
        (vp_FillReply hpProfile [] (ar_role res) (ar_priv res))\<rparr>"
  have "HeaderLen + sum_list (map (\<lambda>a. 2 + length (at_Value a)) (signed_attrs ?p secret)) \<le> MaxPacketLen"
    using assms(3)
    by (simp add: signed_attrs_def AttrAddString_def AttrAdd_def hpProfile_def AddVSAUint32_def
        AttrAddUint32_def length_EncodeVSA HeaderLen_def MaxPacketLen_def)
  then obtain out where "Encode ?p secret (pk_Authenticator req) = Inr out" "out ! 0 = CodeAccessAccept"
    using Encode_ok by fastforce
  then show ?thesis
    using assms(2,4) by (simp add: sendAccept_def Let_def echo_proxy_state_def reply_bytes_def)
qed

lemma ann_accepted:
  "\<exists>evs out. handleAuth demo_server aaa_db 5 ''10.0.0.9:1024'' (request_bytes (pap_attrs ''ann'' ''pw''))
     demo_store = ((evs, Some out), demo_store) \<and> out ! 0 = CodeAccessAccept"
proof -
  let ?req = "demo_request (pap_attrs ''ann'' ''pw'')"
  have dec: "Decode (request_bytes (pap_attrs ''ann'' ''pw'')) (cl_Secret demo_client) = Inr ?req"
    by (rule Decode_request_bytes) (simp_all add: pap_attrs_ok)
  obtain res where res: "authenticate demo_server aaa_db ''ann'' ?req demo_client
      (nasIPFromPacket ?req ''10.0.0.9:1024'') = res" "ar_ok res" "ar_profile res = hpProfile"
    using ann_authenticated by simp
  have "AttrGetAll (pk_Attrs ?req) AttrProxyState = []"
    by (simp add: demo_request_def pap_attrs_def AttrGetAll_def AttrUserName_def AttrUserPassword_def
        AttrProxyState_def)
  then obtain out where out: "sendAccept ?req (cl_Secret demo_client) res ''ann'' = Some out"
      "out ! 0 = CodeAccessAccept"
    using accept_sent [of res "''ann''" ?req] res(3) by (auto simp: hpProfile_def)
  have "\<exists>ev. answer_auth demo_server aaa_db ''10.0.0.9:1024'' demo_client ?req = ([ev], Some out)"
    using res out pap_user
    by (simp add: answer_auth_def Let_def) (simp add: demo_request_def demo_client_def)
  with dec out(2) show ?thesis by (auto simp: handleAuth_def demo_lookup)
qed

lemma accept_needs_password_witness:
  "\<exists>pw. DecodeUserPassword (AttrGet (pap_attrs ''ann'' ''pw'') AttrUserPassword) (replicate 16 7) [1, 2] =
     Inr pw \<and> portal_login demo_backend aaa_db ''ann'' (string_of_bytes pw)"
proof -
  obtain evs out where call: "handleAuth demo_server aaa_db 5 ''10.0.0.9:1024''
      (request_bytes (pap_attrs ''ann'' ''pw'')) demo_store = ((evs, Some out), demo_store)"
      "out ! 0 = CodeAccessAccept"
    using ann_accepted by blast
  have dec: "Decode (request_bytes (pap_attrs ''ann'' ''pw'')) (cl_Secret demo_client) =
      Inr (demo_request (pap_attrs ''ann'' ''pw''))"
    by (rule Decode_request_bytes) (simp_all add: pap_attrs_ok)
  have pw: "DecodeUserPassword (AttrGet (pap_attrs ''ann'' ''pw'') AttrUserPassword) (replicate 16 7) [1, 2] =
      Inr (bytes_of_string ''pw'')"
    by (rule pap_password) (simp_all add: bytes_of_string_def)
  from accept_needs_password [OF call] dec pw show ?thesis
    using ann_ok(2) pap_user
    by (auto simp: demo_lookup demo_request_def demo_client_def demo_server_def)
qed

section \<open>CHAP and unknown users\<close>

text \<open>CHAP never succeeds (no cleartext password is ever available), and the failure counts the user
  as unknown: with \<open>UnknownUserDrop\<close> a request without User-Password gets no reply at all, also when
  the named user is an enabled portal user.  The field's comment restricts the silent drop to users
  who are not in the portal.\<close>

theorem chap_request_dropped:
  assumes "AttrGet (pk_Attrs pkt) AttrUserPassword = []" "rs_UnknownUserDrop sv"
    and "\<not> cl_RequireMessageAuth client"
    and "trim_space (string_of_bytes (AttrGet (pk_Attrs pkt) AttrUserName)) = user" "user \<noteq> []"
  shows "snd (answer_auth sv db addr client pkt) = None \<and>
    \<not> ar_ok (authenticate sv db user pkt client nasIP)"
  using assms authenticate_chap [OF assms(1)] by (simp add: answer_auth_def Let_def)

lemma chap_request_dropped_witness:
  "snd (answer_auth demo_server aaa_db ''10.0.0.9:1024'' demo_client
     (demo_request [\<lparr>at_Type = AttrUserName, at_Value = bytes_of_string ''ann''\<rparr>,
        \<lparr>at_Type = AttrCHAPPassword, at_Value = replicate 17 1\<rparr>])) = None \<and>
   user_by_name aaa_db ''ann'' \<noteq> None"
proof -
  let ?pkt = "demo_request [\<lparr>at_Type = AttrUserName, at_Value = bytes_of_string ''ann''\<rparr>,
        \<lparr>at_Type = AttrCHAPPassword, at_Value = replicate 17 1\<rparr>]"
  have "AttrGet (pk_Attrs ?pkt) AttrUserPassword = []"
    "trim_space (string_of_bytes (AttrGet (pk_Attrs ?pkt) AttrUserName)) = ''ann''"
    by (simp_all add: demo_request_def AttrUserName_def AttrUserPassword_def AttrCHAPPassword_def demo_name)
  from chap_request_dropped [OF this(1) _ _ this(2), of demo_server demo_client] ann_user show ?thesis
    by (simp add: demo_server_def demo_client_def)
qed

section \<open>Device credentials\<close>

text \<open>The device whose password is accepted is the one the packet names, not the one that sent it:
  any registered client that knows the password of some device and puts that device's address into
  NAS-IP-Address gets an Access-Accept with the role \<^verbatim>\<open>admin\<close> for every user name, known or not.\<close>

theorem claimed_nas_device_password:
  assumes "pk_Code pkt = CodeAccessRequest" "\<not> cl_RequireMessageAuth client"
    and "trim_space (string_of_bytes (AttrGet (pk_Attrs pkt) AttrUserName)) = user" "user \<noteq> []"
    and "AttrGet (pk_Attrs pkt) AttrNASIPAddress = v4" "length v4 = 4"
    and "AttrGet (pk_Attrs pkt) AttrUserPassword \<noteq> []"
    and "DecodeUserPassword (AttrGet (pk_Attrs pkt) AttrUserPassword) (pk_Authenticator pkt)
      (cl_Secret client) = Inr pw"
    and "device_password_is (rs_Backend sv) db (string_of_bytes pw) (ip_String v4)"
  shows "\<exists>res. snd (answer_auth sv db addr client pkt) = sendAccept pkt (cl_Secret client) res user \<and>
    ar_ok res \<and> ar_role res = ''admin'' \<and> ar_userID res = 0"
proof -
  let ?res = "authenticate sv db user pkt client (ip_String v4)"
  have "string_of_bytes pw \<noteq> []"
    using assms(9) by (auto simp: device_password_is_def split: if_splits sum.splits)
  then have dev: "checkDevicePassword sv db (string_of_bytes pw) (ip_String v4)"
    using assms(9) by (simp add: checkDevicePassword_def)
  have res: "ar_ok ?res" "ar_role ?res = ''admin''" "ar_userID ?res = 0"
    using assms(7,8) dev by (simp_all add: authenticate_def Let_def checkPortalOrDevice_def)
  have "nasIPFromPacket pkt addr = ip_String v4"
    using assms(5,6) by (simp add: nasIPFromPacket_def)
  then have "snd (answer_auth sv db addr client pkt) = sendAccept pkt (cl_Secret client) ?res user"
    using assms(1-4) res(1) by (simp add: answer_auth_def Let_def)
  with res show ?thesis by blast
qed

definition device_db :: pam_db where
  "device_db = empty_db\<lparr>
     targets := [\<lparr>t_id = 3, t_name = ''core1'', t_kind = ''cisco-ios'', t_host = ''10.0.0.1'',
       t_port = 22, t_tier = 0, t_tags = [], t_location_id = None, t_connection_type = ''ssh'',
       t_web_url = [], t_vendor = [], t_os_version = [], t_db_name = []\<rparr>],
     privileged_accounts := [\<lparr>pa_id = 1, pa_safe_id = 1, pa_name = ''enable'', pa_username = [],
       pa_target_id = Some 3, pa_platform = ''ssh'', pa_secret_ref = ''r1'', pa_last_rotated = None,
       pa_next_rotation = None, pa_rotation_status = [], pa_rotation_error = [], pa_notes = [],
       pa_created_at = 0\<rparr>]\<rparr>"

lemma device_db_password: "device_password_is demo_backend device_db ''s3cret'' ''10.0.0.1''"
proof -
  have host: "trim_space (before_last_colon ''10.0.0.1'') = ''10.0.0.1''" "to_lower ''ssh'' = ''ssh''"
    by code_simp+
  then have "device_account device_db ''10.0.0.1'' ''10.0.0.1'' = Some (hd (privileged_accounts device_db))"
    by (simp add: device_account_def device_db_def)
  with host show ?thesis
    by (simp add: device_password_is_def DevicePasswordForHost_def Let_def demo_backend_def)
      (simp add: device_db_def empty_db_def)
qed

lemma claimed_nas_device_password_witness:
  "\<exists>res. snd (answer_auth demo_server device_db ''10.0.0.9:1024'' demo_client
       (demo_request (\<lparr>at_Type = AttrNASIPAddress, at_Value = [10, 0, 0, 1]\<rparr> #
          pap_attrs ''ann'' ''s3cret''))) =
     sendAccept (demo_request (\<lparr>at_Type = AttrNASIPAddress, at_Value = [10, 0, 0, 1]\<rparr> #
          pap_attrs ''ann'' ''s3cret'')) [1, 2] res ''ann'' \<and> ar_ok res \<and> ar_role res = ''admin''"
proof -
  let ?pkt = "demo_request (\<lparr>at_Type = AttrNASIPAddress, at_Value = [10, 0, 0, 1]\<rparr> #
      pap_attrs ''ann'' ''s3cret'')"
  have other: "AttrGet (pk_Attrs ?pkt) AttrUserName = AttrGet (pap_attrs ''ann'' ''s3cret'') AttrUserName"
    "AttrGet (pk_Attrs ?pkt) AttrUserPassword = AttrGet (pap_attrs ''ann'' ''s3cret'') AttrUserPassword"
    "AttrGet (pk_Attrs ?pkt) AttrNASIPAddress = [10, 0, 0, 1]"
    by (simp_all add: demo_request_def AttrNASIPAddress_def AttrUserName_def AttrUserPassword_def)
  have "ip_String [10, 0, 0, 1] = ''10.0.0.1''"
    by (simp add: ip_String_def To4_def ipv4_string_def string_of_nat.simps digit_char_def) code_simp
  then have dev: "device_password_is (rs_Backend demo_server) device_db
      (string_of_bytes (bytes_of_string ''s3cret'')) (ip_String [10, 0, 0, 1])"
    using device_db_password by (simp add: demo_server_def)
  have pw: "DecodeUserPassword (AttrGet (pk_Attrs ?pkt) AttrUserPassword) (pk_Authenticator ?pkt)
      (cl_Secret demo_client) = Inr (bytes_of_string ''s3cret'')"
    using pap_password [of "''s3cret''" "''ann''"]
    by (simp add: other(2) demo_client_def) (simp add: demo_request_def bytes_of_string_def)
  show ?thesis
    using claimed_nas_device_password [of ?pkt demo_client "''ann''" "[10, 0, 0, 1]"
        "bytes_of_string ''s3cret''" demo_server device_db "''10.0.0.9:1024''", OF _ _ _ _ other(3) _ _ pw dev]
      pap_user [of "''s3cret''"] pap_nonempty [of "''s3cret''" "''ann''"]
    by (auto simp: other(1,2) demo_client_def) (auto simp: demo_request_def)
qed

section \<open>Which secret\<close>

definition exact_clients :: "client_store \<Rightarrow> (string \<times> client_record) list" where
  "exact_clients c = (case cs_exact c of None \<Rightarrow> [] | Some m \<Rightarrow> m)"

definition covering :: "client_store \<Rightarrow> string \<Rightarrow> client_record set" where
  "covering c host =
     {rec. \<exists>n ip. (n, rec) \<in> set (cs_cidrs c) \<and> ParseIP host = Some ip \<and> Contains n ip}"

text \<open>The client that \<open>ClientLookup\<close> returns is never disabled.  It is the row for the exact address,
  or else one whose network contains the address, or else, when no row covers the address at all, the
  lenient default client, and that only if a default secret is configured: a disabled row is not
  bypassed by the default secret.\<close>

theorem ClientLookup_sound:
  assumes "ClientLookup db now addr c = (Inr client, c')"
  shows "\<not> cl_Disabled client \<and>
    (map_of (exact_clients c') (hostFromAddr addr) = Some client \<or>
     map_of (exact_clients c') (hostFromAddr addr) = None \<and> client \<in> covering c' (hostFromAddr addr) \<or>
     map_of (exact_clients c') (hostFromAddr addr) = None \<and> covering c' (hostFromAddr addr) = {} \<and>
       cs_DefaultSecret c' \<noteq> [] \<and> cl_Secret client = cs_DefaultSecret c')"
proof -
  let ?h = "hostFromAddr addr"
  have look: "lookup_loaded c' ?h = Inr client"
    using assms by (auto simp: ClientLookup_def Let_def split: if_splits)
  show ?thesis
  proof (cases "map_of (exact_clients c') ?h")
    case (Some rec)
    with look show ?thesis by (auto simp: lookup_loaded_def exact_clients_def split: if_splits)
  next
    case none: None
    let ?P = "\<lambda>(n, rec). case ParseIP ?h of None \<Rightarrow> False | Some ip \<Rightarrow> Contains n ip"
    show ?thesis
    proof (cases "List.find ?P (cs_cidrs c')")
      case None
      then have "covering c' ?h = {}"
        by (auto simp: covering_def find_None_iff split: option.splits)
      with None none look show ?thesis
        by (auto simp: lookup_loaded_def exact_clients_def split: if_splits)
    next
      case (Some nr)
      obtain n rec where nr: "nr = (n, rec)" by (cases nr)
      with Some have mem: "(n, rec) \<in> set (cs_cidrs c')" "?P (n, rec)"
        by (auto simp: find_Some_iff in_set_conv_nth)
      then have "rec \<in> covering c' ?h" by (auto simp: covering_def split: option.splits)
      with Some none nr look show ?thesis
        by (auto simp: lookup_loaded_def exact_clients_def split: if_splits)
    qed
  qed
qed

lemma ClientLookup_sound_witness:
  "\<not> cl_Disabled demo_client \<and> map_of (exact_clients demo_store) (hostFromAddr ''10.0.0.9:1024'') \<noteq> None"
proof -
  have "exact_clients demo_store = [(''10.0.0.9'', demo_client)]"
    by (simp add: exact_clients_def demo_store_def)
  moreover have "covering demo_store h = {}" "cs_DefaultSecret demo_store = []" for h
    by (simp_all add: covering_def demo_store_def)
  ultimately show ?thesis using ClientLookup_sound [OF demo_lookup [of aaa_db]] by auto
qed

text \<open>Rows for IPv6 devices never apply.  Go prints an IPv6 source as \<^verbatim>\<open>[addr]:port\<close> and
  \<open>hostFromAddr\<close> keeps the brackets, so the host parses as no address and equals no stored one: with a
  default secret the device is served as the lenient default client even where a network row that
  contains it is disabled or requires a Message-Authenticator.\<close>

theorem ipv6_source_gets_default:
  assumes "\<forall>k rec. (k, rec) \<in> set (exact_clients c) \<longrightarrow> \<not> has_prefix k ''[''"
    and "cs_DefaultSecret c \<noteq> []"
  shows "\<exists>client. lookup_loaded c (CHR ''['' # host) = Inr client \<and> cl_Name client = ''default'' \<and>
    cl_Secret client = cs_DefaultSecret c \<and> \<not> cl_RequireMessageAuth client"
proof -
  have "has_prefix (CHR ''['' # host) ''[''" by (auto simp: has_prefix_iff)
  then have "map_of (exact_clients c) (CHR ''['' # host) = None"
    using assms(1) by (auto simp: map_of_eq_None_iff)
  moreover have "List.find (\<lambda>(n, rec). False) xs = None" for xs :: "(ip_net \<times> client_record) list"
    by (induction xs) auto
  ultimately show ?thesis
    using assms(2) by (simp add: lookup_loaded_def exact_clients_def ParseIP_bracket)
qed

lemma ipv6_source_gets_default_witness:
  "\<exists>client. lookup_loaded \<lparr>cs_DefaultSecret = [9], cs_exact = Some [],
       cs_cidrs = [(\<lparr>net_IP = replicate 16 0, net_Mask = replicate 16 0\<rparr>, demo_client\<lparr>cl_Disabled := True\<rparr>)],
       cs_loaded = 0, cs_ttl = 1\<rparr> ''[fe80::1]'' = Inr client \<and> cl_Secret client = [9]"
  using ipv6_source_gets_default [of "\<lparr>cs_DefaultSecret = [9], cs_exact = Some [],
       cs_cidrs = [(\<lparr>net_IP = replicate 16 0, net_Mask = replicate 16 0\<rparr>, demo_client\<lparr>cl_Disabled := True\<rparr>)],
       cs_loaded = 0, cs_ttl = 1\<rparr>" "''fe80::1]''"]
  by (auto simp: exact_clients_def)

end
