(* ===== verification/TacacsProtocol.thy ===== *)
theory TacacsProtocol
  imports GoBytes
begin

text \<open>
  \<^verbatim>\<open>internal/tacacs/protocol.go\<close>: the TACACS+ header, the body obfuscation, the request parsers and
  the reply serialisers.  A TCP connection is the list of the bytes still to read; reading past its
  end consumes it and fails.  A slice or index out of range is a Go panic, so the parsers return an
  \<open>outcome\<close> with \<open>Panic\<close> as a value of its own.
\<close>

section \<open>Outcomes\<close>

datatype 'a outcome = Parsed 'a | Malformed | Panic

definition and_then :: "'a outcome \<Rightarrow> ('a \<Rightarrow> 'b outcome) \<Rightarrow> 'b outcome" where
  "and_then m f = (case m of Parsed a \<Rightarrow> f a | Malformed \<Rightarrow> Malformed | Panic \<Rightarrow> Panic)"

lemma and_then_simps [simp]:
  "and_then (Parsed a) f = f a" "and_then Malformed f = Malformed" "and_then Panic f = Panic"
  by (simp_all add: and_then_def)

text \<open>\<^verbatim>\<open>body[a:b]\<close> and \<^verbatim>\<open>body[i]\<close>.\<close>

definition slice :: "bytes \<Rightarrow> nat \<Rightarrow> nat \<Rightarrow> bytes outcome" where
  "slice body a b = (if a \<le> b \<and> b \<le> length body then Parsed (take (b - a) (drop a body)) else Panic)"

definition index_at :: "bytes \<Rightarrow> nat \<Rightarrow> byte outcome" where
  "index_at body i = (if i < length body then Parsed (body ! i) else Panic)"

section \<open>Header\<close>

record header =
  th_Version :: byte
  th_Type :: byte
  th_SeqNo :: byte
  th_Flags :: byte
  th_SessID :: "32 word"
  th_Length :: "32 word"

definition TypeAuthentication :: byte where "TypeAuthentication = 1"
definition TypeAuthorization :: byte where "TypeAuthorization = 2"
definition TypeAccounting :: byte where "TypeAccounting = 3"
definition FlagUnencrypted :: byte where "FlagUnencrypted = 1"
definition MaxBodyLen :: nat where "MaxBodyLen = 65535"
definition TacHeaderLen :: nat where "TacHeaderLen = 12"

definition parse_header :: "bytes \<Rightarrow> header" where
  "parse_header b =
     \<lparr>th_Version = b ! 0, th_Type = b ! 1, th_SeqNo = b ! 2, th_Flags = b ! 3,
      th_SessID = of_be32 (take 4 (drop 4 b)), th_Length = of_be32 (take 4 (drop 8 b))\<rparr>"

text \<open>The header, if there is one, and what is left of the stream.\<close>

definition ReadHeader :: "bytes \<Rightarrow> header option \<times> bytes" where
  "ReadHeader s =
     (if length s < TacHeaderLen then (None, [])
      else
        let h = parse_header (take TacHeaderLen s) in
        if MaxBodyLen < unat (th_Length h) then (None, drop TacHeaderLen s)
        else (Some h, drop TacHeaderLen s))"

definition header_bytes :: "header \<Rightarrow> bytes" where
  "header_bytes h =
     [th_Version h, th_Type h, th_SeqNo h, th_Flags h] @ be32 (th_SessID h) @ be32 (th_Length h)"

section \<open>Obfuscation\<close>

definition stream_digest :: "header \<Rightarrow> bytes \<Rightarrow> bytes \<Rightarrow> bytes" where
  "stream_digest h secret prev =
     md5 (be32 (th_SessID h) @ secret @ [th_Version h, th_SeqNo h] @ prev)"

definition makeStream :: "header \<Rightarrow> bytes \<Rightarrow> nat \<Rightarrow> bytes" where
  "makeStream h secret n = take n (key_stream (stream_digest h secret) [] ((n + 15) div 16))"

definition obfuscate :: "bytes \<Rightarrow> header \<Rightarrow> bytes \<Rightarrow> bytes" where
  "obfuscate body h secret =
     (if th_Flags h AND FlagUnencrypted \<noteq> 0 \<or> secret = [] then body
      else xor_bytes body (makeStream h secret (length body)))"

definition ReadBody :: "header \<Rightarrow> bytes \<Rightarrow> bytes \<Rightarrow> bytes option \<times> bytes" where
  "ReadBody h secret s =
     (let n = unat (th_Length h) in
      if n = 0 then (Some [], s)
      else if length s < n then (None, [])
      else (Some (obfuscate (take n s) h secret), drop n s))"

definition WritePacket :: "header \<Rightarrow> bytes \<Rightarrow> bytes \<Rightarrow> bytes" where
  "WritePacket h body secret =
     (let h = h\<lparr>th_Length := word_of_nat (length body)\<rparr> in header_bytes h @ obfuscate body h secret)"

section \<open>Authentication bodies\<close>

definition AuthenTypePAP :: byte where "AuthenTypePAP = 2"
definition AuthenTypeCHAP :: byte where "AuthenTypeCHAP = 3"
definition AuthenActionLogin :: byte where "AuthenActionLogin = 1"
definition AuthenActionSendAuth :: byte where "AuthenActionSendAuth = 4"
definition AuthenStatusPass :: byte where "AuthenStatusPass = 1"
definition AuthenStatusFail :: byte where "AuthenStatusFail = 2"
definition AuthenStatusGetPass :: byte where "AuthenStatusGetPass = 5"
definition AuthenStatusError :: byte where "AuthenStatusError = 7"

record authen_start =
  as_Action :: byte
  as_PrivLvl :: byte
  as_AuthenType :: byte
  as_Service :: byte
  as_User :: string
  as_Port :: string
  as_RemAddr :: string
  as_Data :: bytes

definition ParseAuthenStart :: "bytes \<Rightarrow> authen_start outcome" where
  "ParseAuthenStart body =
     (if length body < 8 then Malformed
      else
        let uLen = unat (body ! 4); pLen = unat (body ! 5); rLen = unat (body ! 6);
            dLen = unat (body ! 7); off = 8
        in if length body < off + uLen + pLen + rLen + dLen then Malformed
           else
             and_then (slice body off (off + uLen)) (\<lambda>user.
             and_then (slice body (off + uLen) (off + uLen + pLen)) (\<lambda>port.
             and_then (slice body (off + uLen + pLen) (off + uLen + pLen + rLen)) (\<lambda>rem.
             and_then (slice body (off + uLen + pLen + rLen) (off + uLen + pLen + rLen + dLen)) (\<lambda>dat.
             Parsed \<lparr>as_Action = body ! 0, as_PrivLvl = body ! 1, as_AuthenType = body ! 2,
               as_Service = body ! 3, as_User = string_of_bytes user, as_Port = string_of_bytes port,
               as_RemAddr = string_of_bytes rem, as_Data = dat\<rparr>)))))"

definition AuthenReply_bytes :: "byte \<Rightarrow> byte \<Rightarrow> string \<Rightarrow> bytes \<Rightarrow> bytes" where
  "AuthenReply_bytes status flags serverMsg data =
     [status, flags] @ be16 (length serverMsg) @ be16 (length data) @ bytes_of_string serverMsg @ data"

record authen_continue =
  ac_UserMsg :: string
  ac_Data :: bytes
  ac_Flags :: byte

definition ParseAuthenContinue :: "bytes \<Rightarrow> authen_continue outcome" where
  "ParseAuthenContinue body =
     (if length body < 5 then Malformed
      else
        let msgLen = of_be16 (take 2 body); dataLen = of_be16 (take 2 (drop 2 body)); off = 5 in
        if length body < off + msgLen + dataLen then Malformed
        else
          and_then (slice body off (off + msgLen)) (\<lambda>msg.
          and_then (slice body (off + msgLen) (off + msgLen + dataLen)) (\<lambda>dat.
          Parsed \<lparr>ac_UserMsg = string_of_bytes msg, ac_Data = dat, ac_Flags = body ! 4\<rparr>)))"

section \<open>Authorization bodies\<close>

definition AuthorStatusPassAdd :: byte where "AuthorStatusPassAdd = 1"
definition AuthorStatusPassRepl :: byte where "AuthorStatusPassRepl = 2"
definition AuthorStatusFail :: byte where "AuthorStatusFail = 0x10"
definition AuthorStatusError :: byte where "AuthorStatusError = 0x11"

record author_request =
  aq_AuthenMethod :: byte
  aq_PrivLvl :: byte
  aq_AuthenType :: byte
  aq_AuthenService :: byte
  aq_User :: string
  aq_Port :: string
  aq_RemAddr :: string
  aq_Args :: "string list"

text \<open>The loop over the argument lengths of an authorization request, with its bounds check.\<close>

fun author_args :: "bytes \<Rightarrow> nat \<Rightarrow> nat list \<Rightarrow> string list outcome" where
  "author_args body off [] = Parsed []"
| "author_args body off (n # ns) =
     (if length body < off + n then Malformed
      else and_then (slice body off (off + n)) (\<lambda>a.
           and_then (author_args body (off + n) ns) (\<lambda>as. Parsed (string_of_bytes a # as))))"

definition ParseAuthorRequest :: "bytes \<Rightarrow> author_request outcome" where
  "ParseAuthorRequest body =
     (if length body < 8 then Malformed
      else
        let uLen = unat (body ! 4); pLen = unat (body ! 5); rLen = unat (body ! 6);
            argCnt = unat (body ! 7); off = 8
        in if length body < off + argCnt then Malformed
           else
             let argLens = map unat (take argCnt (drop off body)); off = off + argCnt in
             if length body < off + uLen + pLen + rLen then Malformed
             else
               and_then (slice body off (off + uLen)) (\<lambda>user.
               and_then (slice body (off + uLen) (off + uLen + pLen)) (\<lambda>port.
               and_then (slice body (off + uLen + pLen) (off + uLen + pLen + rLen)) (\<lambda>rem.
               and_then (author_args body (off + uLen + pLen + rLen) argLens) (\<lambda>args.
               Parsed \<lparr>aq_AuthenMethod = body ! 0, aq_PrivLvl = body ! 1, aq_AuthenType = body ! 2,
                 aq_AuthenService = body ! 3, aq_User = string_of_bytes user,
                 aq_Port = string_of_bytes port, aq_RemAddr = string_of_bytes rem, aq_Args = args\<rparr>)))))"

record author_reply =
  ap_Status :: byte
  ap_Args :: "string list"
  ap_ServerMsg :: string
  ap_Data :: bytes

definition AuthorReply_bytes :: "author_reply \<Rightarrow> bytes" where
  "AuthorReply_bytes r =
     [ap_Status r, word_of_nat (length (ap_Args r))] @ be16 (length (ap_ServerMsg r)) @
     be16 (length (ap_Data r)) @ map (\<lambda>a. word_of_nat (length a)) (ap_Args r) @
     bytes_of_string (ap_ServerMsg r) @ ap_Data r @ concat (map bytes_of_string (ap_Args r))"

section \<open>Accounting bodies\<close>

definition AcctFlagStart :: byte where "AcctFlagStart = 2"
definition AcctFlagStop :: byte where "AcctFlagStop = 4"
definition AcctFlagWatchdog :: byte where "AcctFlagWatchdog = 8"

record acct_request =
  aa_Flags :: byte
  aa_AuthenMethod :: byte
  aa_PrivLvl :: byte
  aa_AuthenType :: byte
  aa_AuthenService :: byte
  aa_User :: string
  aa_Port :: string
  aa_RemAddr :: string
  aa_Args :: "string list"

text \<open>The accounting parser reads lengths and arguments without any bounds check.\<close>

fun index_all :: "bytes \<Rightarrow> nat \<Rightarrow> nat \<Rightarrow> nat list outcome" where
  "index_all body off 0 = Parsed []"
| "index_all body off (Suc k) =
     and_then (index_at body off) (\<lambda>b.
     and_then (index_all body (off + 1) k) (\<lambda>bs. Parsed (unat b # bs)))"

fun acct_args :: "bytes \<Rightarrow> nat \<Rightarrow> nat list \<Rightarrow> string list outcome" where
  "acct_args body off [] = Parsed []"
| "acct_args body off (n # ns) =
     and_then (slice body off (off + n)) (\<lambda>a.
     and_then (acct_args body (off + n) ns) (\<lambda>as. Parsed (string_of_bytes a # as)))"

definition ParseAcctRequest :: "bytes \<Rightarrow> acct_request outcome" where
  "ParseAcctRequest body =
     (if length body < 9 then Malformed
      else
        let uLen = unat (body ! 5); pLen = unat (body ! 6); rLen = unat (body ! 7);
            argCnt = unat (body ! 8); off = 9
        in and_then (index_all body off argCnt) (\<lambda>argLens.
           let off = off + argCnt in
           and_then (slice body off (off + uLen)) (\<lambda>user.
           and_then (slice body (off + uLen) (off + uLen + pLen)) (\<lambda>port.
           and_then (slice body (off + uLen + pLen) (off + uLen + pLen + rLen)) (\<lambda>rem.
           and_then (acct_args body (off + uLen + pLen + rLen) argLens) (\<lambda>args.
           Parsed \<lparr>aa_Flags = body ! 0, aa_AuthenMethod = body ! 1, aa_PrivLvl = body ! 2,
             aa_AuthenType = body ! 3, aa_AuthenService = body ! 4, aa_User = string_of_bytes user,
             aa_Port = string_of_bytes port, aa_RemAddr = string_of_bytes rem, aa_Args = args\<rparr>))))))"

definition AcctReply_bytes :: "byte \<Rightarrow> string \<Rightarrow> bytes \<Rightarrow> bytes" where
  "AcctReply_bytes status serverMsg data =
     be16 (length serverMsg) @ be16 (length data) @ [status] @ bytes_of_string serverMsg @ data"

section \<open>Packets on the wire\<close>

interpretation tac_stream: digest16 "stream_digest h secret"
  by unfold_locales (simp add: stream_digest_def)

lemma length_makeStream: "length (makeStream h secret n) = n"
proof -
  have "n \<le> 16 * ((n + 15) div 16)" by linarith
  then show ?thesis
    by (simp add: makeStream_def tac_stream.length_key_stream)
qed

lemma length_obfuscate [simp]: "length (obfuscate body h secret) = length body"
  by (simp add: obfuscate_def length_makeStream)

lemma obfuscate_twice: "obfuscate (obfuscate body h secret) h secret = body"
proof (cases "th_Flags h AND FlagUnencrypted \<noteq> 0 \<or> secret = []")
  case True
  then show ?thesis by (simp add: obfuscate_def)
next
  case False
  then have "obfuscate b h secret = xor_bytes b (makeStream h secret (length b))" for b
    by (simp add: obfuscate_def)
  moreover have "length (xor_bytes body (makeStream h secret (length body))) = length body"
    by (simp add: length_makeStream)
  ultimately show ?thesis
    by (simp add: xor_bytes_cancel length_makeStream)
qed

lemma parse_header_bytes: "parse_header (header_bytes h) = h"
  by (cases h) (simp add: parse_header_def header_bytes_def)

lemma length_header_bytes [simp]: "length (header_bytes h) = 12"
  by (simp add: header_bytes_def)

lemma ReadHeader_bytes:
  assumes "unat (th_Length h) \<le> MaxBodyLen"
  shows "ReadHeader (header_bytes h @ s) = (Some h, s)"
  using assms by (simp add: ReadHeader_def TacHeaderLen_def parse_header_bytes)

lemma ReadHeader_shorter: "ReadHeader s = (Some h, rest) \<Longrightarrow> length rest < length s"
  by (auto simp: ReadHeader_def Let_def TacHeaderLen_def split: if_splits)

lemma ReadHeader_le: "length (snd (ReadHeader s)) \<le> length s"
  by (simp add: ReadHeader_def Let_def)

lemma ReadBody_le: "length (snd (ReadBody h secret s)) \<le> length s"
  by (simp add: ReadBody_def Let_def)

section \<open>No panic\<close>

lemma slice_ok: "a \<le> b \<Longrightarrow> b \<le> length body \<Longrightarrow> slice body a b = Parsed (take (b - a) (drop a body))"
  by (simp add: slice_def)

lemma author_args_no_panic: "author_args body off ns \<noteq> Panic"
proof (induction ns arbitrary: off)
  case (Cons n ns)
  then show ?case
    by (cases "author_args body (off + n) ns") (auto simp: slice_def and_then_def)
qed simp

end
