(* ===== verification/TacacsServer.thy ===== *)
theory TacacsServer
  imports TacacsProtocol DeviceLookup CiscoCli
begin

text \<open>
  \<^verbatim>\<open>internal/tacacs/server.go\<close> and \<^verbatim>\<open>fortinet_config.go\<close>: the handlers of one TACACS+ connection.
  A handler takes the server, the database, the decoded header and body, the address of the peer and
  the rest of the connection's input, and returns what it published, the packets it wrote, the input
  it left and the server, whose FortiGate mappings it may have reloaded.  The database is only read,
  so it is the same for the whole connection.  Logging is left out.
\<close>

section \<open>FortiGate mappings\<close>

text \<open>A Go map is the association list of its insertions, the last first; a \<^verbatim>\<open>nil\<close> map reads like an
  empty one.\<close>

record fortinet_config =
  fc_RoleProfiles :: "(string \<times> string) list"
  fc_RoleMemberof :: "(string \<times> string) list"
  fc_DefaultMemberof :: string

datatype unknown_user_defer = DeferUnknownError | DeferUnknownDrop

text \<open>\<open>tv_Getenv\<close> is the environment, \<open>tv_Unmarshal\<close> the decoder of the JSON text that the settings
  table holds (\<open>None\<close> when it is not one), \<open>tv_Fortinet\<close> the mappings loaded last.\<close>

record tacacs_server =
  tv_Secret :: bytes
  tv_Backend :: backend
  tv_Groups :: bool
  tv_UnknownUserDefer :: unknown_user_defer
  tv_Getenv :: "string \<Rightarrow> string"
  tv_Unmarshal :: "string \<Rightarrow> fortinet_config option"
  tv_Fortinet :: fortinet_config

definition ParseUnknownUserDefer :: "string \<Rightarrow> unknown_user_defer" where
  "ParseUnknownUserDefer s =
     (if to_lower (trim_space s) = ''drop'' then DeferUnknownDrop else DeferUnknownError)"

text \<open>\<^verbatim>\<open>strings.Cut(pair, "=")\<close>.\<close>

definition cut_eq :: "string \<Rightarrow> (string \<times> string) option" where
  "cut_eq s = map_option (\<lambda>i. (take i s, drop (i + 1) s)) (index_byte s (CHR ''=''))"

definition role_pair :: "string \<Rightarrow> (string \<times> string) option" where
  "role_pair pair =
     (case cut_eq (trim_space pair) of
        None \<Rightarrow> None
      | Some (k, v) \<Rightarrow>
          if trim_space k = [] \<or> trim_space v = [] then None
          else Some (to_lower (trim_space k), trim_space v))"

definition ParseRoleMap :: "string \<Rightarrow> (string \<times> string) list" where
  "ParseRoleMap s =
     (let s = trim_space s in
      if s = [] then [] else rev (List.map_filter role_pair (split_on (CHR '','') s)))"

definition fortinetSettingsKey :: string where
  "fortinetSettingsKey = ''tacacs_fortinet''"

definition envFortinetMemberof :: "tacacs_server \<Rightarrow> string" where
  "envFortinetMemberof sv =
     (let v = trim_space (tv_Getenv sv ''PAM_TACACS_FORTINET_MEMBEROF'') in
      if v \<noteq> [] then v else ''PAM-Admins'')"

definition env_fortinet_config :: "tacacs_server \<Rightarrow> fortinet_config" where
  "env_fortinet_config sv =
     \<lparr>fc_RoleProfiles = ParseRoleMap (tv_Getenv sv ''PAM_TACACS_FORTINET_PROFILES''),
      fc_RoleMemberof = ParseRoleMap (tv_Getenv sv ''PAM_TACACS_FORTINET_MEMBEROF_MAP''),
      fc_DefaultMemberof = envFortinetMemberof sv\<rparr>"

definition LoadFortinetConfigFromDB :: "tacacs_server \<Rightarrow> pam_db \<Rightarrow> fortinet_config" where
  "LoadFortinetConfigFromDB sv db =
     (let raw = (if faults db Fortinet_Setting then []
                 else case row_by s_key fortinetSettingsKey (settings db) of
                   None \<Rightarrow> [] | Some r \<Rightarrow> s_value r)
      in if raw \<noteq> [] then
           (case tv_Unmarshal sv raw of
              Some cfg \<Rightarrow>
                if fc_DefaultMemberof cfg = []
                then cfg\<lparr>fc_DefaultMemberof := envFortinetMemberof sv\<rparr> else cfg
            | None \<Rightarrow> env_fortinet_config sv)
         else env_fortinet_config sv)"

definition refreshFortinetConfig :: "pam_db \<Rightarrow> tacacs_server \<Rightarrow> tacacs_server" where
  "refreshFortinetConfig db sv = sv\<lparr>tv_Fortinet := LoadFortinetConfigFromDB sv db\<rparr>"

definition fortinetProfRank :: "string \<Rightarrow> int" where
  "fortinetProfRank prof =
     (let p = to_lower (trim_space prof) in
      if p \<in> {''no_access'', ''noaccess''} then 0
      else if p \<in> {''read_only'', ''readonly'', ''read-only''} then 1
      else if p = ''prof_admin'' then 2
      else if p = ''read_write'' then 3
      else if p = ''super_admin'' then 4
      else 2)"

definition fortinetAdminProf :: "string \<Rightarrow> string" where
  "fortinetAdminProf role =
     (let r = to_lower (trim_space role) in
      if r = ''admin'' then ''super_admin''
      else if r = ''secops'' then ''super_admin''
      else ''prof_admin'')"

definition fortinetAdminProfForRole :: "tacacs_server \<Rightarrow> string \<Rightarrow> string" where
  "fortinetAdminProfForRole sv role =
     (let r = to_lower (trim_space role) in
      case map_of (fc_RoleProfiles (tv_Fortinet sv)) r of
        Some p \<Rightarrow> if p \<noteq> [] then p else fortinetAdminProf r
      | None \<Rightarrow> fortinetAdminProf r)"

definition fortinetMemberofForRole :: "tacacs_server \<Rightarrow> string \<Rightarrow> string \<Rightarrow> string" where
  "fortinetMemberofForRole sv role reqMemberof =
     (let r = to_lower (trim_space role);
          rest = (if trim_space (fc_DefaultMemberof (tv_Fortinet sv)) \<noteq> []
                  then trim_space (fc_DefaultMemberof (tv_Fortinet sv))
                  else if trim_space reqMemberof \<noteq> [] then trim_space reqMemberof
                  else ''PAM-Admins'')
      in case map_of (fc_RoleMemberof (tv_Fortinet sv)) r of
           Some m \<Rightarrow> if m \<noteq> [] then m else rest
         | None \<Rightarrow> rest)"

definition mapping_step :: "tacacs_server \<Rightarrow> string \<Rightarrow> string \<times> int \<Rightarrow> string \<times> int" where
  "mapping_step sv r best =
     (let r = trim_space r in
      if r = [] then best
      else
        let rank = fortinetProfRank (fortinetAdminProfForRole sv r) in
        if rank < snd best then (r, rank) else best)"

definition mapping_roles :: "tacacs_server \<Rightarrow> pam_db \<Rightarrow> int \<Rightarrow> string \<Rightarrow> string list" where
  "mapping_roles sv db userID primaryRole =
     (if tv_Groups sv \<and> 0 < userID then
        (case EffectiveRoles db userID primaryRole of
           (eff, None) \<Rightarrow> if eff \<noteq> [] then eff else [trim_space primaryRole]
         | (_, Some _) \<Rightarrow> [trim_space primaryRole])
      else [trim_space primaryRole])"

definition fortinetMappingRole :: "tacacs_server \<Rightarrow> pam_db \<Rightarrow> int \<Rightarrow> string \<Rightarrow> string" where
  "fortinetMappingRole sv db userID primaryRole =
     fst (fold (mapping_step sv) (mapping_roles sv db userID primaryRole) (primaryRole, 999))"

text \<open>\<^verbatim>\<open>fortinetAdminProfLive\<close> and \<^verbatim>\<open>fortinetMemberofLive\<close> reload the mappings first.\<close>

definition fortinetAdminProfLive ::
  "pam_db \<Rightarrow> string \<Rightarrow> tacacs_server \<Rightarrow> string \<times> tacacs_server" where
  "fortinetAdminProfLive db role sv =
     (let sv = refreshFortinetConfig db sv in (fortinetAdminProfForRole sv role, sv))"

definition fortinetMemberofLive ::
  "pam_db \<Rightarrow> string \<Rightarrow> string \<Rightarrow> tacacs_server \<Rightarrow> string \<times> tacacs_server" where
  "fortinetMemberofLive db role reqMemberof sv =
     (let sv = refreshFortinetConfig db sv in (fortinetMemberofForRole sv role reqMemberof, sv))"

definition fortinetAuthorArgs ::
  "pam_db \<Rightarrow> string \<Rightarrow> string \<Rightarrow> string \<Rightarrow> tacacs_server \<Rightarrow> string list \<times> tacacs_server" where
  "fortinetAuthorArgs db role svc reqMemberof sv =
     (let svc = (if trim_space svc = [] then ''fortigate'' else svc) in
      case fortinetAdminProfLive db role sv of
        (prof, sv) \<Rightarrow>
          (case fortinetMemberofLive db role reqMemberof sv of
             (m, sv) \<Rightarrow> ([''service='' @ svc, ''admin_prof='' @ prof, ''memberof='' @ m], sv)))"

section \<open>Arguments of an authorization request\<close>

fun extract_command :: "string list \<Rightarrow> string \<Rightarrow> string list \<Rightarrow> string \<times> string list" where
  "extract_command [] cmd rest = (cmd, rest)"
| "extract_command (a # args) cmd rest =
     (if has_prefix a ''cmd='' then extract_command args (trim_prefix a ''cmd='') rest
      else if has_prefix a ''cmd-arg='' then extract_command args cmd (rest @ [trim_prefix a ''cmd-arg=''])
      else extract_command args cmd rest)"

definition extractCommand :: "string list \<Rightarrow> string \<times> string list" where
  "extractCommand args = extract_command args [] []"

definition extractArg :: "string list \<Rightarrow> string \<Rightarrow> string" where
  "extractArg args key =
     (let prefix = key @ ''='' in
      case List.find (\<lambda>a. has_prefix a prefix) args of
        Some a \<Rightarrow> trim_prefix a prefix
      | None \<Rightarrow> [])"

definition after_eq :: "string \<Rightarrow> string" where
  "after_eq a = (case index_byte a (CHR ''='') of None \<Rightarrow> a | Some i \<Rightarrow> drop (i + 1) a)"

definition serviceFromAuthorRequest :: "string list \<Rightarrow> string" where
  "serviceFromAuthorRequest args =
     (if extractArg args ''service'' \<noteq> [] then extractArg args ''service''
      else case List.find (\<lambda>a. has_prefix (to_lower (trim_space a)) ''service='') args of
        Some a \<Rightarrow> trim_space (after_eq a)
      | None \<Rightarrow> [])"

definition isFortiGateService :: "string \<Rightarrow> bool" where
  "isFortiGateService svc =
     (let svc = to_lower (trim_space svc) in
      if svc \<in> {''fortigate'', ''fortinet'', ''ftm''} then True else str_contains svc ''forti'')"

definition isFortinetAdminService :: "string \<Rightarrow> bool" where
  "isFortinetAdminService svc = (to_lower (trim_space svc) \<in> {''administration'', ''admin''})"

text \<open>\<^verbatim>\<open>hostPart\<close>, and \<^verbatim>\<open>deviceIPFromAuthor\<close>, which ignores the request.\<close>

definition hostPart :: "string \<Rightarrow> string" where
  "hostPart addrPort = before_last_colon addrPort"

definition deviceIPFromAuthor :: "author_request \<Rightarrow> string \<Rightarrow> string" where
  "deviceIPFromAuthor req clientIP = hostPart clientIP"

section \<open>Users and passwords\<close>

definition portalUserExists :: "pam_db \<Rightarrow> string \<Rightarrow> bool" where
  "portalUserExists db user =
     (let user = trim_space user in
      if user = [] then False
      else
        (\<not> faults db User_By_Name \<and>
           (case user_by_name db user of None \<Rightarrow> False | Some u \<Rightarrow> 0 < u_id u)) \<or>
        (\<not> faults db User_By_Email \<and>
           (case user_by_email db user of None \<Rightarrow> False | Some u \<Rightarrow> 0 < u_id u)))"

definition tac_checkDevicePassword :: "tacacs_server \<Rightarrow> pam_db \<Rightarrow> string \<Rightarrow> string \<Rightarrow> bool" where
  "tac_checkDevicePassword sv db pass nasAddr = device_password_is (tv_Backend sv) db pass nasAddr"

definition tac_checkPortalPassword :: "tacacs_server \<Rightarrow> pam_db \<Rightarrow> string \<Rightarrow> string \<Rightarrow> bool" where
  "tac_checkPortalPassword sv db user pass =
     (if \<not> portalUserExists db user then False else portal_login (tv_Backend sv) db user pass)"

definition checkPassword ::
  "tacacs_server \<Rightarrow> pam_db \<Rightarrow> string \<Rightarrow> string \<Rightarrow> string \<Rightarrow> authen_start \<Rightarrow> bool" where
  "checkPassword sv db user pass nasAddr start =
     (let user = trim_space user in
      if user = [] \<or> pass = [] then False
      else
        let enableAuth = (as_Action start = AuthenActionSendAuth \<or> 0 < as_PrivLvl start) in
        if enableAuth then
          (if tac_checkDevicePassword sv db pass nasAddr then True
           else tac_checkPortalPassword sv db user pass)
        else if tac_checkDevicePassword sv db pass nasAddr then True
        else tac_checkPortalPassword sv db user pass)"

definition authenStatusForResult :: "bool \<Rightarrow> bool \<Rightarrow> byte \<times> string" where
  "authenStatusForResult ok pamUser =
     (if ok then (AuthenStatusPass, ''ok'')
      else if \<not> pamUser then (AuthenStatusError, ''user not managed by PAM'')
      else (AuthenStatusFail, ''auth failed''))"

definition passwordFromAuthenStart :: "authen_start \<Rightarrow> string" where
  "passwordFromAuthenStart start =
     (if as_Data start = [] then []
      else if as_AuthenType start = AuthenTypePAP \<or> as_Action start = AuthenActionSendAuth
      then string_of_bytes (as_Data start)
      else if as_Action start = AuthenActionLogin \<and> 0 < length (as_Data start)
      then string_of_bytes (as_Data start)
      else [])"

definition isFortiGateHost :: "pam_db \<Rightarrow> string \<Rightarrow> bool" where
  "isFortiGateHost db host =
     (case KindForHost db host of Inl _ \<Rightarrow> False | Inr kind \<Rightarrow> str_contains (to_lower kind) ''forti'')"

text \<open>\<^verbatim>\<open>authorizeAdmin\<close>: by name whatever the flag, then by mail address.\<close>

definition authorizeAdmin :: "pam_db \<Rightarrow> string \<Rightarrow> bool \<times> string \<times> int" where
  "authorizeAdmin db user =
     (let by_name = (if faults db Admin_By_Name then None
            else first_row (filter (\<lambda>u. to_lower (u_username u) = to_lower user) (users db)));
          by_email = (if faults db Admin_By_Email then None else user_by_email db user);
          second = (case by_email of None \<Rightarrow> (False, [], 0) | Some u \<Rightarrow> (True, u_role u, u_id u))
      in case by_name of
           Some u \<Rightarrow> if u_disabled u = 0 then (True, u_role u, u_id u) else second
         | None \<Rightarrow> second)"

definition tac_roles :: "tacacs_server \<Rightarrow> pam_db \<Rightarrow> int \<Rightarrow> string \<Rightarrow> string list" where
  "tac_roles sv db uid role = login_roles db (tv_Groups sv \<and> 0 < uid) uid role"

definition authorize ::
  "tacacs_server \<Rightarrow> pam_db \<Rightarrow> string \<Rightarrow> string \<Rightarrow> string \<Rightarrow> bool \<times> string \<times> decision" where
  "authorize sv db user deviceIP fullCmd =
     (case (if faults db Author_User then None else user_by_name db user) of
        None \<Rightarrow> (False, [], empty_decision)
      | Some u \<Rightarrow>
          (case TargetMetaForHost db deviceIP of
             Inl _ \<Rightarrow> (False, u_role u, empty_decision)
           | Inr (tid, kind, tier) \<Rightarrow>
               (case Decide db \<lparr>in_UserID = u_id u, in_Role = u_role u,
                       in_Roles = tac_roles sv db (u_id u) (u_role u), in_TargetID = tid,
                       in_TargetKind = kind, in_TargetTier = tier, in_Action = ''exec''\<rparr> of
                  Inl _ \<Rightarrow> (False, u_role u, empty_decision)
                | Inr dec \<Rightarrow>
                    if \<not> Allow dec then (False, u_role u, dec)
                    else if trim_space fullCmd = [] then (True, u_role u, dec)
                    else (CommandAllowed fullCmd (AllowedCmds dec) (DeniedCmds dec), u_role u, dec))))"

definition targetKindForHost :: "pam_db \<Rightarrow> string \<Rightarrow> string" where
  "targetKindForHost db deviceIP =
     (case KindForHost db deviceIP of Inl _ \<Rightarrow> [] | Inr kind \<Rightarrow> kind)"

section \<open>Handlers\<close>

record tac_event =
  te_Kind :: string
  te_Severity :: string
  te_Actor :: string
  te_Target :: string
  te_Detail :: "(string \<times> string) list"

text \<open>What a handler leaves behind; \<open>hd_Panic\<close> when it panicked, which ends the whole service.\<close>

record handled =
  hd_Events :: "tac_event list"
  hd_Out :: "bytes list"
  hd_Rest :: bytes
  hd_Server :: tacacs_server
  hd_Panic :: bool

definition silent :: "bytes \<Rightarrow> tacacs_server \<Rightarrow> handled" where
  "silent s sv = \<lparr>hd_Events = [], hd_Out = [], hd_Rest = s, hd_Server = sv, hd_Panic = False\<rparr>"

definition tac_severity :: "bool \<Rightarrow> string" where
  "tac_severity ok = (if ok then ''info'' else ''warn'')"

definition hex_digit :: "nat \<Rightarrow> char" where
  "hex_digit d = char_of (if d < 10 then 48 + d else 87 + d)"

text \<open>\<^verbatim>\<open>%#x\<close> of a byte.\<close>

definition hex_byte :: "byte \<Rightarrow> string" where
  "hex_byte w =
     (let n = unat w in
      ''0x'' @ (if n < 16 then [hex_digit n] else [hex_digit (n div 16), hex_digit (n mod 16)]))"

definition next_seq :: "header \<Rightarrow> header" where
  "next_seq h = h\<lparr>th_SeqNo := th_SeqNo h + 1\<rparr>"

definition verifyAndReply ::
  "tacacs_server \<Rightarrow> pam_db \<Rightarrow> header \<Rightarrow> string \<Rightarrow> string \<Rightarrow> string \<Rightarrow> authen_start \<Rightarrow> bytes \<Rightarrow> handled" where
  "verifyAndReply sv db h user pass clientIP start s =
     (let h = next_seq h;
          ok = checkPassword sv db user pass clientIP start;
          (status, msg) = authenStatusForResult ok (portalUserExists db user);
          ev = \<lparr>te_Kind = ''authen'', te_Severity = tac_severity ok, te_Actor = user, te_Target = clientIP,
                te_Detail = [(''result'', msg), (''status'', hex_byte status)]\<rparr>;
          sv' = (if ok \<and> isFortiGateHost db (hostPart clientIP) \<and> 0 < snd (snd (authorizeAdmin db user))
                 then refreshFortinetConfig db sv else sv)
      in if \<not> ok \<and> status = AuthenStatusError \<and> tv_UnknownUserDefer sv = DeferUnknownDrop
         then \<lparr>hd_Events = [ev], hd_Out = [], hd_Rest = s, hd_Server = sv', hd_Panic = False\<rparr>
         else \<lparr>hd_Events = [ev],
           hd_Out = [WritePacket h (AuthenReply_bytes status 0 msg []) (tv_Secret sv)],
           hd_Rest = s, hd_Server = sv', hd_Panic = False\<rparr>)"

text \<open>The dash of the CHAP message is U+2014 in UTF-8.\<close>

definition chap_message :: string where
  "chap_message = ''CHAP not supported '' @ [CHR 0xE2, CHR 0x80, CHR 0x94] @ '' use PAP''"

definition handleAuthen ::
  "tacacs_server \<Rightarrow> pam_db \<Rightarrow> header \<Rightarrow> bytes \<Rightarrow> string \<Rightarrow> bytes \<Rightarrow> handled" where
  "handleAuthen sv db h body clientIP s =
     (case ParseAuthenStart body of
        Malformed \<Rightarrow> silent s sv
      | Panic \<Rightarrow> (silent s sv)\<lparr>hd_Panic := True\<rparr>
      | Parsed start \<Rightarrow>
          if as_AuthenType start = AuthenTypeCHAP then
            (silent s sv)\<lparr>hd_Out := [WritePacket (next_seq h)
               (AuthenReply_bytes AuthenStatusFail 0 chap_message []) (tv_Secret sv)]\<rparr>
          else
            let pass = passwordFromAuthenStart start in
            if pass \<noteq> [] then verifyAndReply sv db h (as_User start) pass clientIP start s
            else
              let prompt = WritePacket (next_seq h)
                    (AuthenReply_bytes AuthenStatusGetPass 0 ''Password: '' []) (tv_Secret sv)
              in case ReadHeader s of
                   (None, s) \<Rightarrow> (silent s sv)\<lparr>hd_Out := [prompt]\<rparr>
                 | (Some h2, s) \<Rightarrow>
                     (case ReadBody h2 (tv_Secret sv) s of
                        (None, s) \<Rightarrow> (silent s sv)\<lparr>hd_Out := [prompt]\<rparr>
                      | (Some body2, s) \<Rightarrow>
                          (case ParseAuthenContinue body2 of
                             Malformed \<Rightarrow> (silent s sv)\<lparr>hd_Out := [prompt]\<rparr>
                           | Panic \<Rightarrow> (silent s sv)\<lparr>hd_Out := [prompt], hd_Panic := True\<rparr>
                           | Parsed cont \<Rightarrow>
                               let r = verifyAndReply sv db h2 (as_User start) (ac_UserMsg cont) clientIP start s
                               in r\<lparr>hd_Out := prompt # hd_Out r\<rparr>)))"

text \<open>The reply to an authorization request: the status and arguments, the event and the server.\<close>

definition answer_author ::
  "tacacs_server \<Rightarrow> pam_db \<Rightarrow> author_request \<Rightarrow> string \<Rightarrow> author_reply \<times> tac_event list \<times> tacacs_server" where
  "answer_author sv db req clientIP =
     (if \<not> portalUserExists db (aq_User req) then
        (\<lparr>ap_Status = AuthorStatusError, ap_Args = [], ap_ServerMsg = ''user not managed by PAM'',
          ap_Data = []\<rparr>, [], sv)
      else
        let (cmd, args) = extractCommand (aq_Args req);
            deviceIP = deviceIPFromAuthor req clientIP;
            fgNAS = isFortiGateHost db deviceIP;
            svc = serviceFromAuthorRequest (aq_Args req);
            fullCmd = FullCommand cmd args;
            fortinet = (isFortiGateService svc \<or> fgNAS);
            sv = (if fortinet then refreshFortinetConfig db sv else sv);
            adminLogin = (fullCmd = [] \<and> (fgNAS \<or> isFortiGateService svc \<or>
              isFortinetAdminService svc \<and> fgNAS));
            (allow, role, replyArgs, sv) =
              (if adminLogin then
                 (case authorizeAdmin db (aq_User req) of
                    (allow, role, userID) \<Rightarrow>
                      if \<not> allow then (allow, role, [], sv)
                      else if fortinet then
                        (case fortinetAuthorArgs db (fortinetMappingRole sv db userID role) svc
                                (extractArg (aq_Args req) ''memberof'') sv of
                           (rargs, sv) \<Rightarrow> (allow, role, rargs, sv))
                      else
                        (case authorize sv db (aq_User req) deviceIP [] of
                           (_, _, dec) \<Rightarrow>
                             (allow, role, [''priv-lvl='' @ string_of_int (EffectiveCiscoPrivilege dec role),
                                ''service='' @ svc], sv)))
               else
                 (case authorize sv db (aq_User req) deviceIP fullCmd of
                    (allow, role, dec) \<Rightarrow>
                      if allow \<and> IsCiscoKind (targetKindForHost db deviceIP) \<and> trim_space fullCmd = []
                      then (allow, role, [''priv-lvl='' @ string_of_int (EffectiveCiscoPrivilege dec role),
                              ''service='' @ svc], sv)
                      else (allow, role, [], sv)));
            status = (if allow then
                        (if fortinet \<and> 0 < length replyArgs then AuthorStatusPassRepl else AuthorStatusPassAdd)
                      else AuthorStatusFail)
        in (\<lparr>ap_Status = status, ap_Args = replyArgs,
             ap_ServerMsg = (if allow then ''ok'' else ''denied by PAM policy''), ap_Data = []\<rparr>,
            [\<lparr>te_Kind = ''authorize'', te_Severity = tac_severity allow, te_Actor = aq_User req,
              te_Target = deviceIP, te_Detail = [(''cmd'', fullCmd), (''role'', role), (''service'', svc),
                (''rem_addr'', trim_space (aq_RemAddr req))]\<rparr>], sv))"

definition handleAuthor ::
  "tacacs_server \<Rightarrow> pam_db \<Rightarrow> header \<Rightarrow> bytes \<Rightarrow> string \<Rightarrow> bytes \<Rightarrow> handled" where
  "handleAuthor sv db h body clientIP s =
     (case ParseAuthorRequest body of
        Malformed \<Rightarrow> silent s sv
      | Panic \<Rightarrow> (silent s sv)\<lparr>hd_Panic := True\<rparr>
      | Parsed req \<Rightarrow>
          (case answer_author sv db req clientIP of
             (rep, evs, sv') \<Rightarrow>
               \<lparr>hd_Events = evs, hd_Out = [WritePacket (next_seq h) (AuthorReply_bytes rep) (tv_Secret sv)],
                hd_Rest = s, hd_Server = sv', hd_Panic = False\<rparr>))"

definition tac_acct_kind :: "byte \<Rightarrow> string" where
  "tac_acct_kind flags =
     (if flags AND AcctFlagStart \<noteq> 0 then ''acct.start''
      else if flags AND AcctFlagStop \<noteq> 0 then ''acct.stop''
      else if flags AND AcctFlagWatchdog \<noteq> 0 then ''acct.watchdog''
      else ''acct'')"

definition tac_handleAcct ::
  "tacacs_server \<Rightarrow> header \<Rightarrow> bytes \<Rightarrow> string \<Rightarrow> bytes \<Rightarrow> handled" where
  "tac_handleAcct sv h body clientIP s =
     (case ParseAcctRequest body of
        Malformed \<Rightarrow> silent s sv
      | Panic \<Rightarrow> (silent s sv)\<lparr>hd_Panic := True\<rparr>
      | Parsed req \<Rightarrow>
          \<lparr>hd_Events = [\<lparr>te_Kind = tac_acct_kind (aa_Flags req), te_Severity = ''info'',
             te_Actor = aa_User req, te_Target = clientIP,
             te_Detail = [(''args'', join '','' (aa_Args req))]\<rparr>],
           hd_Out = [WritePacket (next_seq h) (AcctReply_bytes 1 ''ok'' []) (tv_Secret sv)],
           hd_Rest = s, hd_Server = sv, hd_Panic = False\<rparr>)"

section \<open>The connection\<close>

lemma verifyAndReply_rest [simp]: "hd_Rest (verifyAndReply sv db h user pass ip start s) = s"
  by (simp add: verifyAndReply_def Let_def split: prod.split)

lemma silent_simps [simp]:
  "hd_Events (silent s sv) = []" "hd_Out (silent s sv) = []" "hd_Rest (silent s sv) = s"
  "hd_Server (silent s sv) = sv" "\<not> hd_Panic (silent s sv)"
  by (simp_all add: silent_def)

lemma ReadHeader_le': "ReadHeader s = (r, s') \<Longrightarrow> length s' \<le> length s"
  using ReadHeader_le [of s] by simp

lemma ReadBody_le': "ReadBody h secret s = (r, s') \<Longrightarrow> length s' \<le> length s"
  using ReadBody_le [of h secret s] by simp

lemma handleAuthen_le: "length (hd_Rest (handleAuthen sv db h body ip s)) \<le> length s"
  by (auto simp: handleAuthen_def Let_def dest!: ReadHeader_le' ReadBody_le'
      split: outcome.split prod.split option.split)

text \<open>One packet of a connection, \<^verbatim>\<open>None\<close> when the loop returns instead of handling it.\<close>

definition dispatch ::
  "tacacs_server \<Rightarrow> pam_db \<Rightarrow> string \<Rightarrow> header \<Rightarrow> bytes \<Rightarrow> bytes \<Rightarrow> handled option" where
  "dispatch sv db clientIP h body s =
     (if th_Type h = TypeAuthentication then Some (handleAuthen sv db h body clientIP s)
      else if th_Type h = TypeAuthorization then Some (handleAuthor sv db h body clientIP s)
      else if th_Type h = TypeAccounting then Some (tac_handleAcct sv h body clientIP s)
      else None)"

lemma dispatch_le: "dispatch sv db ip h body s = Some r \<Longrightarrow> length (hd_Rest r) \<le> length s"
proof -
  have "length (hd_Rest (handleAuthor sv db h body ip s)) \<le> length s"
    by (simp add: handleAuthor_def split: outcome.split prod.split)
  moreover have "length (hd_Rest (tac_handleAcct sv h body ip s)) \<le> length s"
    by (simp add: tac_handleAcct_def split: outcome.split)
  ultimately show "dispatch sv db ip h body s = Some r \<Longrightarrow> length (hd_Rest r) \<le> length s"
    using handleAuthen_le [of sv db h body ip s] by (auto simp: dispatch_def split: if_splits)
qed

text \<open>\<^verbatim>\<open>serve\<close>: the loop over the packets of one connection, until its input ends.\<close>

function serve :: "pam_db \<Rightarrow> string \<Rightarrow> tacacs_server \<Rightarrow> bytes \<Rightarrow> handled" where
  "serve db clientIP sv s =
     (case ReadHeader s of
        (None, s1) \<Rightarrow> silent s1 sv
      | (Some h, s1) \<Rightarrow>
          (case ReadBody h (tv_Secret sv) s1 of
             (None, s2) \<Rightarrow> silent s2 sv
           | (Some body, s2) \<Rightarrow>
               (case dispatch sv db clientIP h body s2 of
                  None \<Rightarrow> silent s2 sv
                | Some r \<Rightarrow>
                    if hd_Panic r then r
                    else
                      let r' = serve db clientIP (hd_Server r) (hd_Rest r) in
                      r'\<lparr>hd_Events := hd_Events r @ hd_Events r', hd_Out := hd_Out r @ hd_Out r'\<rparr>)))"
  by pat_completeness auto

lemma serve_shorter:
  assumes "ReadHeader s = (Some h, s1)" "ReadBody h secret s1 = (b, s2)"
    and "dispatch sv db ip h body s2 = Some r"
  shows "length (hd_Rest r) < length s"
  using assms by (meson ReadBody_le' ReadHeader_shorter dispatch_le le_less_trans order.trans)

termination serve
  by (relation "measure (\<lambda>(_, _, _, s). length s)") (auto intro: serve_shorter dest: sym)

declare serve.simps [simp del]

end
