(* ===== verification/TacacsSpec.thy ===== *)
theory TacacsSpec
  imports TacacsProtocol
begin

text \<open>
  What the TACACS+ codec promises: packets survive the wire, the authentication and authorization
  parsers never panic and invert the encoding of RFC 8907, and the two places where it falls short: the
  accounting parser panics, and the unencrypted flag of the sender switches the secret off.
\<close>

section \<open>Packets\<close>

lemma read_written:
  assumes "length body \<le> MaxBodyLen"
  shows "\<exists>s. ReadHeader (WritePacket h body secret @ rest) =
      (Some (h\<lparr>th_Length := word_of_nat (length body)\<rparr>), s) \<and>
    ReadBody (h\<lparr>th_Length := word_of_nat (length body)\<rparr>) secret s = (Some body, rest)"
proof -
  let ?h = "h\<lparr>th_Length := word_of_nat (length body)\<rparr>"
  have len: "unat (th_Length ?h) = length body"
    using assms by (simp add: MaxBodyLen_def unat_of_nat)
  have "ReadHeader (WritePacket h body secret @ rest) = (Some ?h, obfuscate body ?h secret @ rest)"
    using assms len by (simp add: WritePacket_def Let_def ReadHeader_bytes)
  moreover have "ReadBody ?h secret (obfuscate body ?h secret @ rest) = (Some body, rest)"
    using len by (auto simp: ReadBody_def Let_def obfuscate_twice) (simp add: obfuscate_def xor_bytes_def)
  ultimately show ?thesis by blast
qed

text \<open>C38: A packet survives the wire: for every header, secret and body of at most 65535 bytes, and
  whatever follows on the connection, reading what \<open>WritePacket\<close> wrote gives the header with its
  length filled in, the body in the clear, and the rest of the connection untouched.\<close>

theorem packet_roundtrip:
  assumes "length body \<le> MaxBodyLen"
  shows "\<exists>h' s. ReadHeader (WritePacket h body secret @ rest) = (Some h', s) \<and>
    h' = h\<lparr>th_Length := word_of_nat (length body)\<rparr> \<and> ReadBody h' secret s = (Some body, rest)"
  using read_written [OF assms, of h secret rest] by blast

lemma packet_roundtrip_witness:
  "\<exists>h' s. ReadHeader (WritePacket (parse_header (replicate 12 7)) [1, 2, 3] [9] @ [5]) = (Some h', s) \<and>
     ReadBody h' [9] s = (Some [1, 2, 3], [5])"
  using packet_roundtrip [of "[1, 2, 3]" "parse_header (replicate 12 7)" "[9]" "[5]"]
  by (auto simp: MaxBodyLen_def)

text \<open>The sender decides whether the shared secret counts: when its header carries the unencrypted
  flag the body is taken as it is, whatever secret the server is configured with, and the reply with
  the same flags goes back in the clear.\<close>

theorem unencrypted_flag_skips_secret:
  assumes "th_Flags h AND FlagUnencrypted \<noteq> 0" "unat (th_Length h) = length body"
  shows "ReadBody h secret (body @ rest) = (Some body, rest) \<and>
    (\<exists>hdr. WritePacket (h\<lparr>th_SeqNo := n\<rparr>) reply secret = hdr @ reply \<and> length hdr = 12)"
  using assms by (auto simp: ReadBody_def Let_def obfuscate_def WritePacket_def)

lemma unencrypted_flag_skips_secret_witness:
  "ReadBody \<lparr>th_Version = 0xC0, th_Type = TypeAuthorization, th_SeqNo = 1, th_Flags = 1, th_SessID = 7,
     th_Length = 2\<rparr> (bytes_of_string ''secret'') ([4, 5] @ []) = (Some [4, 5], [])"
  using unencrypted_flag_skips_secret [of "\<lparr>th_Version = 0xC0, th_Type = TypeAuthorization, th_SeqNo = 1,
      th_Flags = 1, th_SessID = 7, th_Length = 2\<rparr>" "[4, 5]" "bytes_of_string ''secret''" "[]"]
  by (simp add: FlagUnencrypted_def)

section \<open>Panics\<close>

lemma author_parse_no_panic: "ParseAuthorRequest body \<noteq> Panic"
proof (cases "length body < 8")
  case True
  then show ?thesis by (simp add: ParseAuthorRequest_def)
next
  case False
  define off where "off = 8 + unat (body ! 7)"
  define u where "u = unat (body ! 4)"
  define p where "p = unat (body ! 5)"
  define r where "r = unat (body ! 6)"
  note args = author_args_no_panic [of body "off + u + p + r"
      "map unat (take (unat (body ! 7)) (drop 8 body))"]
  show ?thesis
  proof (cases "length body < off \<or> length body < off + u + p + r")
    case True
    with False show ?thesis
      by (auto simp: ParseAuthorRequest_def Let_def off_def u_def p_def r_def)
  next
    case fits: False
    with False args show ?thesis
      by (cases "author_args body (off + u + p + r) (map unat (take (unat (body ! 7)) (drop 8 body)))")
        (auto simp: ParseAuthorRequest_def Let_def off_def u_def p_def r_def slice_ok add.assoc)
  qed
qed

text \<open>The authentication and authorization parsers are total on arbitrary bytes: they return a
  message or an error and never index or slice out of range.\<close>

theorem parsers_never_panic:
  "ParseAuthenStart body \<noteq> Panic \<and> ParseAuthenContinue body \<noteq> Panic \<and> ParseAuthorRequest body \<noteq> Panic"
proof (intro conjI)
  show "ParseAuthenStart body \<noteq> Panic"
    by (auto simp: ParseAuthenStart_def Let_def slice_ok)
  show "ParseAuthenContinue body \<noteq> Panic"
    by (auto simp: ParseAuthenContinue_def Let_def slice_ok)
  show "ParseAuthorRequest body \<noteq> Panic" by (rule author_parse_no_panic)
qed

text \<open>The accounting parser checks nothing but the nine fixed bytes: every record that announces an
  argument and stops there makes it panic, which ends the whole service.\<close>

theorem acct_parser_panics:
  assumes "length body = 9" "body ! 8 \<noteq> 0"
  shows "ParseAcctRequest body = Panic"
proof -
  have "unat (body ! 8) \<noteq> 0" using assms(2) by (simp add: unat_eq_0)
  then obtain k where "unat (body ! 8) = Suc k" by (cases "unat (body ! 8)") auto
  then show ?thesis using assms(1) by (simp add: ParseAcctRequest_def Let_def index_at_def)
qed

lemma acct_parser_panics_witness: "ParseAcctRequest [2, 0, 1, 1, 1, 0, 0, 0, 1] = Panic"
  by (rule acct_parser_panics) simp_all

section \<open>Authorization requests\<close>

text \<open>The encoding of an authorization request in RFC 8907, section 6.1.\<close>

definition author_request_bytes :: "author_request \<Rightarrow> bytes" where
  "author_request_bytes r =
     [aq_AuthenMethod r, aq_PrivLvl r, aq_AuthenType r, aq_AuthenService r,
      word_of_nat (length (aq_User r)), word_of_nat (length (aq_Port r)),
      word_of_nat (length (aq_RemAddr r)), word_of_nat (length (aq_Args r))] @
     map (\<lambda>a. word_of_nat (length a)) (aq_Args r) @
     bytes_of_string (aq_User r) @ bytes_of_string (aq_Port r) @ bytes_of_string (aq_RemAddr r) @
     concat (map bytes_of_string (aq_Args r))"

lemma slice_middle: "length pre = a \<Longrightarrow> length mid = n \<Longrightarrow> slice (pre @ mid @ post) a (a + n) = Parsed mid"
  by (simp add: slice_def)

lemma author_args_encoded:
  "length pre = off \<Longrightarrow>
   author_args (pre @ concat (map bytes_of_string args)) off (map length args) = Parsed args"
proof (induction args arbitrary: pre off)
  case (Cons a args)
  have "slice (pre @ bytes_of_string a @ concat (map bytes_of_string args)) off (off + length a) =
      Parsed (bytes_of_string a)"
    using Cons.prems by (simp add: slice_middle)
  moreover have "author_args ((pre @ bytes_of_string a) @ concat (map bytes_of_string args))
      (off + length a) (map length args) = Parsed args"
    using Cons.prems by (intro Cons.IH) simp
  ultimately show ?case using Cons.prems by simp
qed simp

lemma unat_len: "n < 256 \<Longrightarrow> unat (word_of_nat n :: byte) = n"
  by (simp add: unat_of_nat)

text \<open>The authorization parser inverts the encoding of the RFC: every request whose fields and
  arguments are shorter than 256 bytes, with fewer than 256 arguments, is parsed back exactly.\<close>

theorem author_request_roundtrip:
  assumes "length (aq_User r) < 256" "length (aq_Port r) < 256" "length (aq_RemAddr r) < 256"
    and "length (aq_Args r) < 256" "list_all (\<lambda>a. length a < 256) (aq_Args r)"
  shows "ParseAuthorRequest (author_request_bytes r) = Parsed r"
proof -
  define fixed where "fixed = [aq_AuthenMethod r, aq_PrivLvl r, aq_AuthenType r, aq_AuthenService r,
      word_of_nat (length (aq_User r)), word_of_nat (length (aq_Port r)),
      word_of_nat (length (aq_RemAddr r)), (word_of_nat (length (aq_Args r)) :: byte)]"
  define lens where "lens = map (\<lambda>a. word_of_nat (length a) :: byte) (aq_Args r)"
  define u where "u = bytes_of_string (aq_User r)"
  define p where "p = bytes_of_string (aq_Port r)"
  define q where "q = bytes_of_string (aq_RemAddr r)"
  define as where "as = concat (map bytes_of_string (aq_Args r))"
  define body where "body = author_request_bytes r"
  have body: "body = fixed @ lens @ u @ p @ q @ as"
    by (simp add: body_def author_request_bytes_def fixed_def lens_def u_def p_def q_def as_def)
  have fields: "unat (body ! 4) = length u" "unat (body ! 5) = length p" "unat (body ! 6) = length q"
    "unat (body ! 7) = length lens"
    using assms(1-4)
    by (simp_all add: body fixed_def u_def p_def q_def lens_def unat_len)
  have heads: "body ! 0 = aq_AuthenMethod r" "body ! Suc 0 = aq_PrivLvl r" "body ! 2 = aq_AuthenType r"
    "body ! 3 = aq_AuthenService r"
    by (simp_all add: body fixed_def)
  have len8: "length fixed = 8" by (simp add: fixed_def)
  have "map unat lens = map length (aq_Args r)"
    using assms(5) by (auto simp: lens_def list_all_iff unat_len)
  moreover have "take (length lens) (drop 8 body) = lens" using len8 by (simp add: body)
  ultimately have lens: "map unat (take (length lens) (drop 8 body)) = map length (aq_Args r)" by simp
  let ?o = "8 + length lens"
  have s1: "slice body ?o (?o + length u) = Parsed u"
    using slice_middle [of "fixed @ lens" ?o u "length u" "p @ q @ as"] len8 by (simp add: body)
  have s2: "slice body (?o + length u) (?o + length u + length p) = Parsed p"
    using slice_middle [of "fixed @ lens @ u" "?o + length u" p "length p" "q @ as"] len8
    by (simp add: body)
  have s3: "slice body (?o + length u + length p) (?o + length u + length p + length q) = Parsed q"
    using slice_middle [of "fixed @ lens @ u @ p" "?o + length u + length p" q "length q" as] len8
    by (simp add: body)
  have s4: "author_args body (?o + length u + length p + length q) (map length (aq_Args r)) =
      Parsed (aq_Args r)"
    using author_args_encoded [of "fixed @ lens @ u @ p @ q" "?o + length u + length p + length q" "aq_Args r"]
      len8 by (simp add: body as_def)
  have "length body = ?o + length u + length p + length q + length as" using len8 by (simp add: body)
  then have "ParseAuthorRequest body = Parsed r"
    using s1 s2 s3 s4
    by (simp add: ParseAuthorRequest_def Let_def fields lens heads) (simp add: u_def p_def q_def)
  then show ?thesis by (simp add: body_def)
qed

definition demo_author :: author_request where
  "demo_author = \<lparr>aq_AuthenMethod = 6, aq_PrivLvl = 15, aq_AuthenType = 1, aq_AuthenService = 1,
     aq_User = ''ann'', aq_Port = ''tty1'', aq_RemAddr = ''10.9.9.9'',
     aq_Args = [''service=shell'', ''cmd=show'', ''cmd-arg=version'']\<rparr>"

lemma author_request_roundtrip_witness:
  "ParseAuthorRequest (author_request_bytes demo_author) = Parsed demo_author"
  by (rule author_request_roundtrip) (simp_all add: demo_author_def)

end
