(* ===== verification/TacacsServerSpec.thy ===== *)
theory TacacsServerSpec
  imports TacacsServer TacacsSpec
begin

text \<open>
  What the TACACS+ service promises: which passwords and which commands it accepts, the least
  privileged FortiGate profile, one reply per packet, and what one malformed packet does.
\<close>

section \<open>Authentication\<close>

text \<open>The outcome of a password check, spelled out.\<close>

lemma checkPassword_iff:
  "checkPassword sv db user pass ip start \<longleftrightarrow>
     trim_space user \<noteq> [] \<and> pass \<noteq> [] \<and>
     (device_password_is (tv_Backend sv) db pass ip \<or>
      portalUserExists db user \<and> portal_login (tv_Backend sv) db (trim_space user) pass)"
proof -
  have "portalUserExists db (trim_space user) = portalUserExists db user"
    by (simp add: portalUserExists_def)
  then show ?thesis
    by (simp add: checkPassword_def Let_def tac_checkDevicePassword_def tac_checkPortalPassword_def)
qed

lemma verifyAndReply_out:
  "hd_Out (verifyAndReply sv db h user pass ip start s) =
     (let ok = checkPassword sv db user pass ip start; known = portalUserExists db user in
      if \<not> ok \<and> \<not> known \<and> tv_UnknownUserDefer sv = DeferUnknownDrop then []
      else [WritePacket (next_seq h) (AuthenReply_bytes
        (if ok then AuthenStatusPass else if known then AuthenStatusFail else AuthenStatusError) 0
        (if ok then ''ok'' else if known then ''auth failed'' else ''user not managed by PAM'') [])
        (tv_Secret sv)])"
  by (simp add: verifyAndReply_def Let_def authenStatusForResult_def AuthenStatusPass_def
      AuthenStatusFail_def AuthenStatusError_def)

definition password_accepted :: "tacacs_server \<Rightarrow> pam_db \<Rightarrow> string \<Rightarrow> string \<Rightarrow> string \<Rightarrow> bool" where
  "password_accepted sv db user pass ip =
     (trim_space user \<noteq> [] \<and> pass \<noteq> [] \<and>
      (device_password_is (tv_Backend sv) db pass ip \<or>
       portalUserExists db user \<and> portal_login (tv_Backend sv) db (trim_space user) pass))"

text \<open>C19: A PAP login is answered with PASS exactly when the user name and the password are not empty and
  the password is the one of the device, or the user is an enabled portal account and the portal
  accepts the password; otherwise with FAIL for a portal account, and for any other name with ERROR,
  or with nothing when the service defers by dropping.\<close>

theorem authen_status_exact:
  assumes "ParseAuthenStart body = Parsed start" "as_AuthenType start = AuthenTypePAP" "as_Data start \<noteq> []"
  shows "hd_Out (handleAuthen sv db h body ip s) =
     (let user = as_User start; ok = password_accepted sv db user (string_of_bytes (as_Data start)) ip;
          known = portalUserExists db user
      in if \<not> ok \<and> \<not> known \<and> tv_UnknownUserDefer sv = DeferUnknownDrop then []
         else [WritePacket (next_seq h) (AuthenReply_bytes
           (if ok then AuthenStatusPass else if known then AuthenStatusFail else AuthenStatusError) 0
           (if ok then ''ok'' else if known then ''auth failed'' else ''user not managed by PAM'') [])
           (tv_Secret sv)]) \<and>
     hd_Rest (handleAuthen sv db h body ip s) = s \<and> \<not> hd_Panic (handleAuthen sv db h body ip s)"
proof -
  define pass where "pass = string_of_bytes (as_Data start)"
  have pass: "passwordFromAuthenStart start = pass"
    using assms(2,3) by (simp add: passwordFromAuthenStart_def pass_def)
  have ne: "pass \<noteq> []" using assms(3) by (simp add: pass_def string_of_bytes_def)
  have "as_AuthenType start \<noteq> AuthenTypeCHAP"
    using assms(2) by (simp add: AuthenTypePAP_def AuthenTypeCHAP_def)
  then have eq: "handleAuthen sv db h body ip s = verifyAndReply sv db h (as_User start) pass ip start s"
    using assms(1) ne by (simp add: handleAuthen_def pass)
  have "checkPassword sv db (as_User start) pass ip start = password_accepted sv db (as_User start) pass ip"
    by (simp add: checkPassword_iff password_accepted_def)
  moreover have "\<not> hd_Panic (verifyAndReply sv db h (as_User start) pass ip start s)"
    by (simp add: verifyAndReply_def Let_def split: prod.split)
  ultimately show ?thesis by (simp add: eq verifyAndReply_out Let_def pass_def)
qed

text \<open>A service on the demonstration data: one user, one device, the device password of the vault.\<close>

definition tac_backend :: backend where
  "tac_backend = \<lparr>be_Login = Some (\<lambda>u p otp. Inr (u = ''ann'' \<and> p = ''pw'')),
     be_Vault = None, be_VerifyPassword = (\<lambda>p h. False)\<rparr>"

definition tac_server :: tacacs_server where
  "tac_server = \<lparr>tv_Secret = [9], tv_Backend = tac_backend, tv_Groups = True,
     tv_UnknownUserDefer = DeferUnknownDrop, tv_Getenv = (\<lambda>v. []), tv_Unmarshal = (\<lambda>raw. None),
     tv_Fortinet = \<lparr>fc_RoleProfiles = [], fc_RoleMemberof = [], fc_DefaultMemberof = []\<rparr>\<rparr>"

definition tac_user :: user_row where
  "tac_user = \<lparr>u_id = 7, u_username = ''ann'', u_email = Some ''ann@corp'', u_password_hash = [],
     u_role = ''netops'', u_mfa_secret = None, u_mfa_enabled = 0, u_source = ''local'',
     u_external_dn = None, u_last_login = None, u_created_at = 0, u_disabled = 0, u_role_locked = 0,
     u_mfa_exempt = 0\<rparr>"

definition tac_db :: pam_db where
  "tac_db = empty_db\<lparr>users := [tac_user],
     targets := [\<lparr>t_id = 1, t_name = ''sw1'', t_kind = ''cisco-ios'', t_host = ''10.1.1.1'', t_port = 22,
       t_tier = 1, t_tags = [], t_location_id = None, t_connection_type = ''ssh'', t_web_url = [],
       t_vendor = [], t_os_version = [], t_db_name = []\<rparr>],
     policies := [\<lparr>p_id = 1, p_role = ''netops'', p_target_kind = ''cisco'', p_tier_max = 2,
       p_require_approval = 0, p_allowed_commands = ''show'', p_denied_commands = ''reload'',
       p_linux_privilege = ''none'', p_cisco_privilege_level = 15\<rparr>]\<rparr>"

definition start_body :: "string \<Rightarrow> string \<Rightarrow> bytes" where
  "start_body user pass =
     [AuthenActionLogin, 1, AuthenTypePAP, 1, word_of_nat (length user), 0, 0, word_of_nat (length pass)] @
     bytes_of_string user @ bytes_of_string pass"

lemma authen_status_exact_witness:
  "hd_Out (handleAuthen tac_server tac_db (parse_header (replicate 12 7)) (start_body ''ann'' ''pw'')
       ''10.1.1.1:40000'' [3]) =
     [WritePacket (next_seq (parse_header (replicate 12 7))) (AuthenReply_bytes AuthenStatusPass 0 ''ok'' []) [9]]"
proof -
  define st where "st = \<lparr>as_Action = AuthenActionLogin, as_PrivLvl = 1, as_AuthenType = AuthenTypePAP,
    as_Service = 1, as_User = ''ann'', as_Port = [], as_RemAddr = [], as_Data = bytes_of_string ''pw''\<rparr>"
  have parse: "ParseAuthenStart (start_body ''ann'' ''pw'') = Parsed st"
    by (simp add: ParseAuthenStart_def Let_def start_body_def slice_def st_def)
      (simp add: string_of_bytes_def bytes_of_string_def)
  have known: "portalUserExists tac_db ''ann''" by code_simp
  have login: "portal_login tac_backend tac_db (trim_space ''ann'') ''pw''" by code_simp
  have trim: "trim_space ''ann'' = ''ann''" by code_simp
  have st_facts: "as_AuthenType st = AuthenTypePAP" "as_Data st \<noteq> []" "as_User st = ''ann''"
    "string_of_bytes (as_Data st) = ''pw''"
    by (simp_all add: st_def) (simp add: bytes_of_string_def)
  show ?thesis
    using authen_status_exact [OF parse st_facts(1,2),
        of tac_server tac_db "parse_header (replicate 12 7)" "''10.1.1.1:40000''" "[3]"]
      known login trim st_facts(3,4)
    by (simp add: tac_server_def password_accepted_def)
qed

section \<open>Authorization\<close>

definition requested_command :: "author_request \<Rightarrow> string" where
  "requested_command req = (case extractCommand (aq_Args req) of (cmd, args) \<Rightarrow> FullCommand cmd args)"

definition exec_input :: "tacacs_server \<Rightarrow> pam_db \<Rightarrow> user_row \<Rightarrow> int \<times> string \<times> int \<Rightarrow> policy_input" where
  "exec_input sv db u t = \<lparr>in_UserID = u_id u, in_Role = u_role u,
     in_Roles = tac_roles sv db (u_id u) (u_role u), in_TargetID = fst t, in_TargetKind = fst (snd t),
     in_TargetTier = snd (snd t), in_Action = ''exec''\<rparr>"

lemma authorize_command:
  assumes "authorize sv db user ip cmd = (True, role, dec)" "trim_space cmd \<noteq> []"
  obtains u t where "user_by_name db user = Some u" "TargetMetaForHost db ip = Inr t"
    "Decide db (exec_input sv db u t) = Inr dec" "Allow dec"
    "CommandAllowed cmd (AllowedCmds dec) (DeniedCmds dec)"
  using assms
  by (auto simp: authorize_def exec_input_def split: if_splits option.splits sum.splits prod.splits)

lemma tac_roles_refresh [simp]: "tac_roles (refreshFortinetConfig db' sv) db u r = tac_roles sv db u r"
  by (simp add: tac_roles_def refreshFortinetConfig_def)

lemma authorize_refresh [simp]:
  "authorize (refreshFortinetConfig db' sv) db user host cmd = authorize sv db user host cmd"
  by (simp add: authorize_def cong: option.case_cong sum.case_cong split: option.split sum.split prod.split)

text \<open>With a command, no FortiGate path applies: the reply is the one of \<open>authorize\<close>.\<close>

lemma answer_author_command:
  assumes "trim_space (requested_command req) \<noteq> []" "portalUserExists db (aq_User req)"
  shows "fst (answer_author sv db req ip) =
    (let allow = fst (authorize sv db (aq_User req) (hostPart ip) (requested_command req)) in
     \<lparr>ap_Status = (if allow then AuthorStatusPassAdd else AuthorStatusFail), ap_Args = [],
      ap_ServerMsg = (if allow then ''ok'' else ''denied by PAM policy''), ap_Data = []\<rparr>)"
proof -
  have ne: "requested_command req \<noteq> []" using assms(1) by auto
  have refresh: "authorize (if b then refreshFortinetConfig db sv else sv) db user host cmd =
      authorize sv db user host cmd" for b user host cmd
    by simp
  obtain cmd args where cmd: "extractCommand (aq_Args req) = (cmd, args)" by fastforce
  obtain allow role dec where auth:
    "authorize sv db (aq_User req) (hostPart ip) (requested_command req) = (allow, role, dec)"
    by (metis prod_cases3)
  show ?thesis
    using assms ne cmd auth refresh
    by (simp add: answer_author_def requested_command_def deviceIPFromAuthor_def Let_def)
qed

text \<open>C8: A command is authorized only for an enabled user of that name, on a device of the inventory, when
  the policy decision for the user's roles allows the device and the command filter lets the command
  through; every other command of a portal user is answered with FAIL.  Exactly one reply is written,
  with the next sequence number.\<close>

theorem author_command_needs_policy:
  assumes "ParseAuthorRequest body = Parsed req" "trim_space (requested_command req) \<noteq> []"
    and "portalUserExists db (aq_User req)"
  shows "\<exists>rep. hd_Out (handleAuthor sv db h body ip s) =
      [WritePacket (next_seq h) (AuthorReply_bytes rep) (tv_Secret sv)] \<and> ap_Args rep = [] \<and>
    (ap_Status rep = AuthorStatusPassAdd \<and>
      (\<exists>u t d. user_by_name db (aq_User req) = Some u \<and> u_disabled u = 0 \<and>
         TargetMetaForHost db (hostPart ip) = Inr t \<and>
         Decide db (exec_input sv db u t) = Inr d \<and> Allow d \<and>
         CommandAllowed (requested_command req) (AllowedCmds d) (DeniedCmds d)) \<or>
     ap_Status rep = AuthorStatusFail)"
proof -
  define rep where "rep = fst (answer_author sv db req ip)"
  obtain allow role dec where auth:
    "authorize sv db (aq_User req) (hostPart ip) (requested_command req) = (allow, role, dec)"
    by (metis prod_cases3)
  have rep: "rep = \<lparr>ap_Status = (if allow then AuthorStatusPassAdd else AuthorStatusFail), ap_Args = [],
      ap_ServerMsg = (if allow then ''ok'' else ''denied by PAM policy''), ap_Data = []\<rparr>"
    using answer_author_command [OF assms(2,3), of sv ip] auth by (simp add: rep_def Let_def)
  have out: "hd_Out (handleAuthor sv db h body ip s) =
      [WritePacket (next_seq h) (AuthorReply_bytes rep) (tv_Secret sv)]"
    by (simp add: handleAuthor_def assms(1) rep_def split: prod.split)
  show ?thesis
  proof (cases allow)
    case True
    with auth assms(2) obtain u t where "user_by_name db (aq_User req) = Some u"
      "TargetMetaForHost db (hostPart ip) = Inr t" "Decide db (exec_input sv db u t) = Inr dec" "Allow dec"
      "CommandAllowed (requested_command req) (AllowedCmds dec) (DeniedCmds dec)"
      by (auto elim: authorize_command)
    moreover from this(1) have "u_disabled u = 0"
      by (auto simp: user_by_name_def dest!: first_row_mem)
    ultimately show ?thesis using out rep True by fastforce
  next
    case False
    with out rep show ?thesis by auto
  qed
qed

lemma author_command_needs_policy_witness:
  "\<exists>rep. hd_Out (handleAuthor tac_server tac_db (parse_header (replicate 12 7)) (author_request_bytes
        (demo_author\<lparr>aq_Args := [''service=shell'', ''cmd=reload'']\<rparr>)) ''10.1.1.1:40000'' []) =
      [WritePacket (next_seq (parse_header (replicate 12 7))) (AuthorReply_bytes rep) [9]] \<and> ap_Args rep = []"
proof -
  let ?req = "demo_author\<lparr>aq_Args := [''service=shell'', ''cmd=reload'']\<rparr>"
  have "ParseAuthorRequest (author_request_bytes ?req) = Parsed ?req"
    by (simp add: ParseAuthorRequest_def author_request_bytes_def Let_def slice_def demo_author_def)
  moreover have "trim_space (requested_command ?req) \<noteq> []"
    by code_simp
  moreover have "portalUserExists tac_db (aq_User ?req)"
    by code_simp
  ultimately show ?thesis
    using author_command_needs_policy [of "author_request_bytes ?req" ?req tac_db tac_server
        "parse_header (replicate 12 7)" "''10.1.1.1:40000''" "[]"]
    by (auto simp: tac_server_def)
qed

text \<open>A portal user that logs in with the mail address passes authentication (the portal accepts the
  mail address) but is refused every command: authorization looks the name up only.  The refusal is
  FAIL, not ERROR, so the device does not fall back to its local accounts either.\<close>

theorem email_login_without_commands:
  assumes "user_by_name db (aq_User req) = None" "portalUserExists db (aq_User req)"
    and "trim_space (requested_command req) \<noteq> []"
  shows "ap_Status (fst (answer_author sv db req ip)) = AuthorStatusFail"
proof -
  have "\<not> fst (authorize sv db (aq_User req) (hostPart ip) (requested_command req))"
    using assms(1) by (simp add: authorize_def)
  then show ?thesis
    using answer_author_command [OF assms(3,2), of sv ip] by (simp add: Let_def)
qed

definition email_author :: author_request where
  "email_author = demo_author\<lparr>aq_User := ''ann@corp''\<rparr>"

lemma email_login_without_commands_witness:
  "portalUserExists tac_db ''ann@corp'' \<and>
   ap_Status (fst (answer_author tac_server tac_db email_author ''10.1.1.1:40000'')) = AuthorStatusFail"
proof -
  have user: "aq_User email_author = ''ann@corp''" by (simp add: email_author_def)
  have none: "user_by_name tac_db ''ann@corp'' = None" by code_simp
  have known: "portalUserExists tac_db ''ann@corp''" by code_simp
  have cmd: "trim_space (requested_command email_author) \<noteq> []" by code_simp
  show ?thesis
    using email_login_without_commands [of tac_db email_author tac_server "''10.1.1.1:40000''"] none known cmd
    by (simp add: user)
qed

section \<open>The FortiGate profile\<close>

definition profile_rank :: "tacacs_server \<Rightarrow> string \<Rightarrow> int" where
  "profile_rank sv role = fortinetProfRank (fortinetAdminProfForRole sv role)"

lemma fortinetProfRank_range: "0 \<le> fortinetProfRank p \<and> fortinetProfRank p \<le> 4"
  by (simp add: fortinetProfRank_def Let_def)

lemma fortinetAdminProfForRole_trim: "fortinetAdminProfForRole sv (trim_space r) = fortinetAdminProfForRole sv r"
  by (simp add: fortinetAdminProfForRole_def)

lemma fold_mapping_step:
  defines "roles rs \<equiv> filter (\<lambda>r. r \<noteq> []) (map trim_space rs)"
  assumes "snd best = 999 \<or> snd best = profile_rank sv (fst best)"
  shows "(let res = fold (mapping_step sv) rs best in
      (snd res = 999 \<or> snd res = profile_rank sv (fst res)) \<and> snd res \<le> snd best \<and>
      (res = best \<or> fst res \<in> set (roles rs)) \<and>
      (\<forall>r \<in> set (roles rs). snd res \<le> profile_rank sv r))"
  using assms(2)
proof (induction rs arbitrary: best)
  case Nil
  then show ?case by (simp add: roles_def)
next
  case (Cons r rs)
  define b where "b = mapping_step sv r best"
  have b: "snd b = 999 \<or> snd b = profile_rank sv (fst b)" "snd b \<le> snd best"
    "b = best \<or> fst b = trim_space r \<and> trim_space r \<noteq> []"
    "trim_space r \<noteq> [] \<Longrightarrow> snd b \<le> profile_rank sv (trim_space r)"
    using Cons.prems
    by (auto simp: b_def mapping_step_def Let_def profile_rank_def)
  have "fold (mapping_step sv) (r # rs) best = fold (mapping_step sv) rs b" by (simp add: b_def)
  with Cons.IH [OF b(1)] b(2-4) show ?case
    by (auto simp: Let_def roles_def)
qed

text \<open>With several effective roles the FortiGate profile is the one of a least privileged role: the
  mapping role is one of the (non-blank) roles of the user and no role of the user has a profile of
  lower rank.\<close>

theorem fortinetMappingRole_least:
  assumes "r \<in> set (map trim_space (mapping_roles sv db uid primary))" "r \<noteq> []"
  shows "fortinetMappingRole sv db uid primary \<in> set (map trim_space (mapping_roles sv db uid primary)) \<and>
    profile_rank sv (fortinetMappingRole sv db uid primary) \<le> profile_rank sv r"
proof -
  define res where "res = fold (mapping_step sv) (mapping_roles sv db uid primary) (primary, 999)"
  have inv: "snd res = 999 \<or> snd res = profile_rank sv (fst res)"
    "res = (primary, 999) \<or> fst res \<in> set (map trim_space (mapping_roles sv db uid primary))"
    "snd res \<le> profile_rank sv r"
    using fold_mapping_step [of "(primary, 999)" sv "mapping_roles sv db uid primary"] assms
    by (auto simp: res_def Let_def)
  have "profile_rank sv r \<le> 4" using fortinetProfRank_range by (simp add: profile_rank_def)
  with inv have "snd res \<noteq> 999" by linarith
  with inv show ?thesis by (auto simp: fortinetMappingRole_def res_def [symmetric])
qed

lemma fortinetMappingRole_least_witness:
  "fortinetMappingRole tac_server tac_db 7 ''admin'' \<in> {''admin''} \<and>
   profile_rank tac_server (fortinetMappingRole tac_server tac_db 7 ''admin'') \<le> profile_rank tac_server ''admin''"
proof -
  have roles: "map trim_space (mapping_roles tac_server tac_db 7 ''admin'') = [''admin'']" by code_simp
  show ?thesis
    using fortinetMappingRole_least [of "''admin''" tac_server tac_db 7 "''admin''"] by (simp add: roles)
qed

section \<open>A connection\<close>

lemma handleAuthor_no_panic: "\<not> hd_Panic (handleAuthor sv db h body ip s)"
  using author_parse_no_panic [of body]
  by (simp add: handleAuthor_def split: outcome.split prod.split)

lemma verifyAndReply_no_panic: "\<not> hd_Panic (verifyAndReply sv db h user pass ip start s)"
  by (simp add: verifyAndReply_def Let_def split: prod.split)

lemma authen_parse_no_panic:
  "ParseAuthenStart body \<noteq> Panic" "ParseAuthenContinue body \<noteq> Panic"
  by (auto simp: ParseAuthenStart_def ParseAuthenContinue_def Let_def slice_ok)

lemma handleAuthen_no_panic: "\<not> hd_Panic (handleAuthen sv db h body ip s)"
  using authen_parse_no_panic
  by (auto simp: handleAuthen_def Let_def verifyAndReply_no_panic
      split: outcome.split prod.split option.split)

text \<open>The accounting record of nine bytes that announces one argument and ends.\<close>

definition short_acct :: bytes where
  "short_acct = [AcctFlagStart, 0, 1, 1, 1, 0, 0, 0, 1]"

definition clear_header :: "byte \<Rightarrow> header" where
  "clear_header typ = \<lparr>th_Version = 0xC0, th_Type = typ, th_SeqNo = 1, th_Flags = FlagUnencrypted,
     th_SessID = 1, th_Length = 0\<rparr>"

text \<open>Whoever can open a connection can stop the whole service without knowing the secret: an accounting
  packet in the clear whose nine bytes announce an argument that is not there makes the handler index
  out of range, and no handler recovers.  Authentication and authorization packets never do that.\<close>

theorem short_accounting_stops_service:
  "hd_Panic (serve db ip sv (WritePacket (clear_header TypeAccounting) short_acct [] @ rest)) \<and>
   \<not> hd_Panic (handleAuthen sv db h body ip s) \<and> \<not> hd_Panic (handleAuthor sv db h body ip s)"
proof -
  let ?h = "clear_header TypeAccounting\<lparr>th_Length := 9\<rparr>"
  have "WritePacket (clear_header TypeAccounting) short_acct [] = header_bytes ?h @ short_acct"
    by (simp add: WritePacket_def Let_def obfuscate_def short_acct_def)
  then have "ReadHeader (WritePacket (clear_header TypeAccounting) short_acct [] @ rest) =
      (Some ?h, short_acct @ rest)"
    by (simp add: ReadHeader_bytes MaxBodyLen_def)
  moreover have "ReadBody ?h (tv_Secret sv) (short_acct @ rest) = (Some short_acct, rest)"
    by (simp add: ReadBody_def Let_def obfuscate_def clear_header_def FlagUnencrypted_def short_acct_def)
  moreover have "ParseAcctRequest short_acct = Panic"
    by (simp add: ParseAcctRequest_def Let_def short_acct_def index_at_def)
  ultimately have "hd_Panic (serve db ip sv (WritePacket (clear_header TypeAccounting) short_acct [] @ rest))"
    by (subst serve.simps) (simp add: dispatch_def tac_handleAcct_def clear_header_def TypeAccounting_def
        TypeAuthentication_def TypeAuthorization_def)
  then show ?thesis by (simp add: handleAuthen_no_panic handleAuthor_no_panic)
qed

text \<open>Packets that a connection handles without leaving the loop.\<close>

lemma serve_step:
  assumes "length body \<le> MaxBodyLen"
    and "dispatch sv db ip (h\<lparr>th_Length := word_of_nat (length body)\<rparr>) body rest = Some r" "\<not> hd_Panic r"
  shows "hd_Out (serve db ip sv (WritePacket h body (tv_Secret sv) @ rest)) =
    hd_Out r @ hd_Out (serve db ip (hd_Server r) (hd_Rest r))"
proof -
  obtain s where "ReadHeader (WritePacket h body (tv_Secret sv) @ rest) =
      (Some (h\<lparr>th_Length := word_of_nat (length body)\<rparr>), s)"
    "ReadBody (h\<lparr>th_Length := word_of_nat (length body)\<rparr>) (tv_Secret sv) s = (Some body, rest)"
    using read_written [OF assms(1), of h "tv_Secret sv" rest] by blast
  with assms(2,3) show ?thesis by (subst serve.simps) (simp add: Let_def)
qed

lemma answer_author_secret: "tv_Secret (snd (snd (answer_author sv db req ip))) = tv_Secret sv"
  by (auto simp: answer_author_def Let_def refreshFortinetConfig_def fortinetAuthorArgs_def
      fortinetAdminProfLive_def fortinetMemberofLive_def split: prod.splits if_splits)

text \<open>Every well-formed authorization request that arrives on a connection is answered, whatever follows
  it: the reply carries the same session id and the next sequence number (modulo 256), and the loop
  goes on with the rest of the input.\<close>

theorem author_requests_answered:
  assumes "length body \<le> MaxBodyLen" "th_Type h = TypeAuthorization" "ParseAuthorRequest body = Parsed req"
  shows "\<exists>hr rep sv'. tv_Secret sv' = tv_Secret sv \<and>
    hd_Out (serve db ip sv (WritePacket h body (tv_Secret sv) @ rest)) =
      WritePacket hr (AuthorReply_bytes rep) (tv_Secret sv) # hd_Out (serve db ip sv' rest) \<and>
    th_SessID hr = th_SessID h \<and> th_SeqNo hr = th_SeqNo h + 1 \<and> th_Type hr = TypeAuthorization \<and>
    ap_Status rep \<in> {AuthorStatusPassAdd, AuthorStatusPassRepl, AuthorStatusFail, AuthorStatusError}"
proof -
  let ?h = "h\<lparr>th_Length := word_of_nat (length body)\<rparr>"
  obtain rep evs sv' where ans: "answer_author sv db req ip = (rep, evs, sv')" by (metis prod_cases3)
  let ?r = "handleAuthor sv db ?h body ip rest"
  have disp: "dispatch sv db ip ?h body rest = Some ?r"
    using assms(2) by (simp add: dispatch_def TypeAuthorization_def TypeAuthentication_def)
  have r: "hd_Out ?r = [WritePacket (next_seq ?h) (AuthorReply_bytes rep) (tv_Secret sv)]"
    "hd_Rest ?r = rest" "hd_Server ?r = sv'"
    by (simp_all add: handleAuthor_def assms(3) ans)
  have status: "ap_Status rep \<in> {AuthorStatusPassAdd, AuthorStatusPassRepl, AuthorStatusFail, AuthorStatusError}"
    using ans by (auto simp: answer_author_def Let_def split: prod.splits if_splits)
  have "tv_Secret sv' = tv_Secret sv" using answer_author_secret [of sv db req ip] ans by simp
  moreover have "hd_Out (serve db ip sv (WritePacket h body (tv_Secret sv) @ rest)) =
      WritePacket (next_seq ?h) (AuthorReply_bytes rep) (tv_Secret sv) # hd_Out (serve db ip sv' rest)"
    using serve_step [OF assms(1) disp handleAuthor_no_panic] r by simp
  ultimately show ?thesis
    using status assms(2) by (intro exI [of _ "next_seq ?h"] exI [of _ rep] exI [of _ sv']) (simp add: next_seq_def)
qed

lemma author_requests_answered_witness:
  "\<exists>hr rep sv'. hd_Out (serve tac_db ''10.1.1.1:40000'' tac_server
      (WritePacket (clear_header TypeAuthorization) (author_request_bytes demo_author) [9] @ [])) =
    WritePacket hr (AuthorReply_bytes rep) [9] # hd_Out (serve tac_db ''10.1.1.1:40000'' sv' []) \<and>
    th_SeqNo hr = 2"
proof -
  have len: "length (author_request_bytes demo_author) \<le> MaxBodyLen"
    by (simp add: author_request_bytes_def demo_author_def MaxBodyLen_def)
  have parse: "ParseAuthorRequest (author_request_bytes demo_author) = Parsed demo_author"
    by (simp add: ParseAuthorRequest_def author_request_bytes_def Let_def slice_def demo_author_def)
  show ?thesis
    using author_requests_answered [OF len _ parse, of "clear_header TypeAuthorization" tac_server tac_db
        "''10.1.1.1:40000''" "[]"]
    by (auto simp: clear_header_def tac_server_def)
qed

end
