(* ===== verification/CmdGate.thy ===== *)
theory CmdGate
  imports CiscoCli
begin

text \<open>
  \<^verbatim>\<open>internal/sshproxy/cmdgate.go\<close>: the gate between the user's terminal and the device of an SSH
  session.  It mirrors the line the device shows, checks the command when the user presses Enter,
  injects the enable secret and masks passwords on the way back.  A call maps the gate to what it
  writes and the gate after it; bytes are characters.  The two directions run in goroutines of their
  own under one lock: here one call runs to its end before the next starts.  \<open>now\<close> is the clock in
  nanoseconds.
\<close>

section \<open>The gate\<close>

record cmd_gate =
  cg_allow :: "string list"
  cg_deny :: "string list"
  cg_onDeny :: bool
  cg_onSessionEnd :: bool
  cg_enableSecret :: string
  cg_portalPassword :: string
  cg_devLine :: string
  cg_userTyped :: string
  cg_ignoreLine :: bool
  cg_skipNextLF :: bool
  cg_expectEnablePass :: bool
  cg_injectEnableOnEnter :: bool
  cg_execPrivileged :: bool
  cg_enableMaskLen :: nat
  cg_enableInjected :: bool
  cg_lastEnableInject :: "int option"
  cg_downBuf :: string
  cg_downMasking :: bool
  cg_downSawColon :: bool

text \<open>What a call does: bytes to the device, bytes to the terminal, the deny callback, and the end of the
  session that is scheduled 400 ms later.\<close>

datatype gate_out = Up string | Down string | OnDeny string | EndSession

type_synonym gate_call = "gate_out list \<times> cmd_gate"

definition newCmdGate ::
  "string list \<Rightarrow> string list \<Rightarrow> bool \<Rightarrow> string \<Rightarrow> string \<Rightarrow> bool \<Rightarrow> cmd_gate option" where
  "newCmdGate allow deny onDeny enableSecret portalPassword onSessionEnd =
     (if length allow = 0 \<and> length deny = 0 \<and> enableSecret = [] \<and> portalPassword = [] \<and> \<not> onSessionEnd
      then None
      else Some \<lparr>cg_allow = allow, cg_deny = deny, cg_onDeny = onDeny, cg_onSessionEnd = onSessionEnd,
        cg_enableSecret = trim_space enableSecret, cg_portalPassword = portalPassword,
        cg_devLine = [], cg_userTyped = [], cg_ignoreLine = False, cg_skipNextLF = False,
        cg_expectEnablePass = False, cg_injectEnableOnEnter = False, cg_execPrivileged = False,
        cg_enableMaskLen = 0, cg_enableInjected = False, cg_lastEnableInject = None,
        cg_downBuf = [], cg_downMasking = False, cg_downSawColon = False\<rparr>)"

text \<open>Carriage return, line feed, and the control characters the code names.\<close>

definition CR :: char where "CR = CHR 0x0D"
definition LF :: char where "LF = CHR 0x0A"
definition TAB :: char where "TAB = CHR 0x09"
definition ETX :: char where "ETX = CHR 0x03"

definition is_rubout :: "char \<Rightarrow> bool" where
  "is_rubout b = (b = CHR 0x08 \<or> b = CHR 0x7F)"

definition printable :: "char \<Rightarrow> bool" where
  "printable b = (0x20 \<le> (of_char b :: nat) \<and> (of_char b :: nat) < 0x7F)"

definition isEnableCommand :: "string \<Rightarrow> bool" where
  "isEnableCommand cmd = (NormalizeCLI cmd \<in> {''enable'', ''en''})"

definition isSessionEndCommand :: "string \<Rightarrow> bool" where
  "isSessionEndCommand cmd = (NormalizeCLI cmd \<in> {''logout'', ''logoff'', ''quit'', ''disconnect''})"

definition credentialForEnable :: "cmd_gate \<Rightarrow> string" where
  "credentialForEnable g =
     (if cg_enableSecret g \<noteq> [] then cg_enableSecret g else cg_portalPassword g)"

definition resetEnableFlow :: "cmd_gate \<Rightarrow> cmd_gate" where
  "resetEnableFlow g = g\<lparr>cg_expectEnablePass := False, cg_injectEnableOnEnter := False,
     cg_enableInjected := False, cg_enableMaskLen := 0\<rparr>"

section \<open>Output of the device\<close>

text \<open>The two prompt tests of \<open>noteOutput\<close>, at the end of a line and at the end of a chunk.\<close>

definition note_prompt :: "cmd_gate \<Rightarrow> cmd_gate" where
  "note_prompt g =
     (let trim = trim_space (to_lower (cg_devLine g)) in
      if has_suffix trim ''#'' then resetEnableFlow (g\<lparr>cg_execPrivileged := True\<rparr>)
      else if has_suffix trim ''>'' then
        (let g = g\<lparr>cg_execPrivileged := False\<rparr> in
         if cg_expectEnablePass g then resetEnableFlow g else g)
      else g)"

definition note_byte :: "char \<Rightarrow> cmd_gate \<Rightarrow> cmd_gate" where
  "note_byte b g =
     (if b = CR \<or> b = LF then (note_prompt g)\<lparr>cg_devLine := []\<rparr>
      else if is_rubout b then g\<lparr>cg_devLine := butlast (cg_devLine g)\<rparr>
      else if b = ETX then g\<lparr>cg_devLine := []\<rparr>
      else if printable b then g\<lparr>cg_devLine := cg_devLine g @ [b]\<rparr>
      else g)"

definition asks_password :: "string \<Rightarrow> bool" where
  "asks_password trim =
     (str_contains trim ''password:'' \<or> str_contains trim ''passphrase:'' \<or> str_contains trim ''secret:'')"

definition sendEnableSecret :: "int \<Rightarrow> bool \<Rightarrow> cmd_gate \<Rightarrow> gate_call" where
  "sendEnableSecret now force g =
     (if cg_execPrivileged g then ([], g)
      else
        let secret = credentialForEnable g in
        if secret = [] then ([], g)
        else if \<not> force \<and> (cg_enableInjected g \<or>
            (case cg_lastEnableInject g of None \<Rightarrow> False | Some t \<Rightarrow> now - t < 800 * 10 ^ 6))
        then ([], g)
        else ([Up (secret @ [CR])], g\<lparr>cg_enableInjected := True, cg_lastEnableInject := Some now,
                cg_enableMaskLen := length secret, cg_ignoreLine := True\<rparr>))"

definition tryAutoInjectEnable :: "int \<Rightarrow> cmd_gate \<Rightarrow> gate_call" where
  "tryAutoInjectEnable now g =
     (if \<not> cg_injectEnableOnEnter g then ([], g)
      else sendEnableSecret now False (g\<lparr>cg_injectEnableOnEnter := False\<rparr>))"

definition noteOutput :: "int \<Rightarrow> string \<Rightarrow> cmd_gate \<Rightarrow> gate_call" where
  "noteOutput now p g =
     (let g = fold note_byte p g;
          trim = trim_space (to_lower (cg_devLine g));
          g = note_prompt g
      in if \<not> asks_password trim then ([], g)
         else
           let g = g\<lparr>cg_ignoreLine := True\<rparr>;
               enable = (cg_expectEnablePass g \<and> \<not> cg_execPrivileged g \<and>
                 credentialForEnable g \<noteq> [] \<and> \<not> cg_enableInjected g);
               g = (if enable then g\<lparr>cg_injectEnableOnEnter := True\<rparr> else g);
               sudo = (str_contains trim ''[sudo]'' \<and> cg_portalPassword g \<noteq> []);
               g = (if sudo then g\<lparr>cg_expectEnablePass := True, cg_enableInjected := False,
                      cg_injectEnableOnEnter := True\<rparr> else g)
           in if enable \<or> sudo then tryAutoInjectEnable now g else ([], g))"

section \<open>Masking on the way to the terminal\<close>

definition downKeyword :: "string \<Rightarrow> bool" where
  "downKeyword buf =
     (let lower = to_lower buf in
      has_suffix lower ''password:'' \<or> has_suffix lower ''passphrase:'' \<or> has_suffix lower ''secret:'')"

definition keep_last :: "nat \<Rightarrow> string \<Rightarrow> string" where
  "keep_last n s = (if n < length s then drop (length s - n) s else s)"

definition mask_byte :: "char \<Rightarrow> cmd_gate \<Rightarrow> char \<times> cmd_gate" where
  "mask_byte b g =
     (if cg_downMasking g then
        (if b = CR \<or> b = LF
         then (b, g\<lparr>cg_downMasking := False, cg_downSawColon := False, cg_downBuf := []\<rparr>)
         else if b = CHR '' '' \<or> b = TAB then (b, g)
         else if printable b then (CHR ''*'', g\<lparr>cg_downSawColon := True\<rparr>)
         else (b, g))
      else
        let buf = keep_last 16 (cg_downBuf g @ [b]); g = g\<lparr>cg_downBuf := buf\<rparr> in
        if b = CR \<or> b = LF then (b, g\<lparr>cg_downBuf := []\<rparr>)
        else if downKeyword buf then (b, g\<lparr>cg_downMasking := True, cg_downSawColon := False\<rparr>)
        else (b, g))"

fun streamMaskPassword :: "string \<Rightarrow> cmd_gate \<Rightarrow> string \<times> cmd_gate" where
  "streamMaskPassword [] g = ([], g)"
| "streamMaskPassword (b # p) g =
     (case mask_byte b g of (c, g1) \<Rightarrow>
        (case streamMaskPassword p g1 of (out, g2) \<Rightarrow> (c # out, g2)))"

definition hide_secret :: "string \<Rightarrow> string \<Rightarrow> string" where
  "hide_secret secret out =
     (if secret = [] then out else replace_all out secret (replicate (length secret) (CHR ''*'')))"

definition filterDownstream :: "string \<Rightarrow> cmd_gate \<Rightarrow> string \<times> cmd_gate" where
  "filterDownstream p g =
     (if p = [] then (p, g)
      else streamMaskPassword
        (fold hide_secret [trim_space (cg_enableSecret g), trim_space (cg_portalPassword g)] p) g)"

text \<open>\<^verbatim>\<open>gateAwareWriter.Write\<close>: the device's output on its way to the terminal, with a gate or without.\<close>

definition gateAwareWrite :: "int \<Rightarrow> string \<Rightarrow> cmd_gate option \<Rightarrow> gate_out list \<times> cmd_gate option" where
  "gateAwareWrite now p gate =
     (case gate of
        None \<Rightarrow> ([Down p], None)
      | Some g \<Rightarrow>
          (case noteOutput now p g of
             (outs, g) \<Rightarrow>
               (case filterDownstream p g of (p, g) \<Rightarrow> (outs @ [Down p], Some g))))"

section \<open>Keystrokes of the user\<close>

definition waitingForEnablePassword :: "cmd_gate \<Rightarrow> bool" where
  "waitingForEnablePassword g =
     (if credentialForEnable g = [] \<or> cg_execPrivileged g then False else cg_expectEnablePass g)"

definition resetLineMirror :: "cmd_gate \<Rightarrow> cmd_gate" where
  "resetLineMirror g = g\<lparr>cg_devLine := [], cg_userTyped := [], cg_ignoreLine := False,
     cg_injectEnableOnEnter := False\<rparr>"

definition after_prompt :: "string \<Rightarrow> string" where
  "after_prompt line = (case last_index_any line ''#>$'' of Some i \<Rightarrow> drop (i + 1) line | None \<Rightarrow> line)"

definition currentCommand :: "cmd_gate \<Rightarrow> string" where
  "currentCommand g =
     (let cmd = trim_space (after_prompt (cg_devLine g)) in
      if cmd = [] then trim_space (cg_userTyped g) else cmd)"

definition shouldEndSession :: "string \<Rightarrow> cmd_gate \<Rightarrow> bool" where
  "shouldEndSession cmd g =
     (let c = NormalizeCLI cmd in
      if c \<in> {''logout'', ''logoff'', ''quit'', ''disconnect''} then True
      else if c = ''exit'' then \<not> cg_execPrivileged g
      else False)"

definition scheduleSessionEnd :: "cmd_gate \<Rightarrow> gate_out list" where
  "scheduleSessionEnd g = (if \<not> cg_onSessionEnd g then [] else [EndSession])"

definition containsEnableSecret :: "cmd_gate \<Rightarrow> string \<Rightarrow> bool" where
  "containsEnableSecret g p =
     (let secret = credentialForEnable g in secret \<noteq> [] \<and> str_contains p secret)"

definition deny_message :: "string \<Rightarrow> string" where
  "deny_message cmd = [CR, LF] @ ''PAM: command denied by policy: '' @ cmd @ [CR, LF]"

definition handleLineEnd :: "char \<Rightarrow> cmd_gate \<Rightarrow> gate_call" where
  "handleLineEnd endByte g =
     (let ignore = cg_ignoreLine g;
          g = (if ignore then g\<lparr>cg_ignoreLine := False\<rparr> else g);
          inject = (cg_injectEnableOnEnter g \<and> credentialForEnable g \<noteq> []);
          cmd = currentCommand g;
          g = g\<lparr>cg_userTyped := []\<rparr>
      in if inject then ([], g)
         else if ignore then ([Up [endByte]], g)
         else if cmd \<noteq> [] \<and> \<not> CommandAllowed cmd (cg_allow g) (cg_deny g) then
           ([Up [ETX], Down (deny_message cmd)] @ (if cg_onDeny g then [OnDeny cmd] else []),
            resetLineMirror g)
         else
           let g = (if cmd \<noteq> [] \<and> isEnableCommand cmd \<and> credentialForEnable g \<noteq> []
                    then g\<lparr>cg_expectEnablePass := True, cg_enableInjected := False, cg_devLine := []\<rparr>
                    else g)
           in if cmd \<noteq> [] \<and> shouldEndSession cmd g
              then (Up [endByte] # scheduleSessionEnd g, g)
              else ([Up [endByte]], g))"

definition handlePasswordKeystroke :: "int \<Rightarrow> char \<Rightarrow> cmd_gate \<Rightarrow> bool \<times> gate_call" where
  "handlePasswordKeystroke now b g =
     (if \<not> waitingForEnablePassword g then (False, [], g)
      else if b = CR \<or> b = LF then
        (if b = LF \<and> cg_skipNextLF g then (True, [], g\<lparr>cg_skipNextLF := False\<rparr>)
         else (True, sendEnableSecret now True (if b = CR then g\<lparr>cg_skipNextLF := True\<rparr> else g)))
      else (True, [], g))"

definition write_byte :: "int \<Rightarrow> char \<Rightarrow> cmd_gate \<Rightarrow> gate_call" where
  "write_byte now b g =
     (case handlePasswordKeystroke now b g of
        (True, r) \<Rightarrow> r
      | (False, _, g) \<Rightarrow>
          if b = LF then
            (if cg_skipNextLF g then ([], g\<lparr>cg_skipNextLF := False\<rparr>) else handleLineEnd b g)
          else if b = CR then handleLineEnd b (g\<lparr>cg_skipNextLF := True\<rparr>)
          else if is_rubout b then ([Up [b]], g\<lparr>cg_userTyped := butlast (cg_userTyped g)\<rparr>)
          else if printable b then ([Up [b]], g\<lparr>cg_userTyped := cg_userTyped g @ [b]\<rparr>)
          else ([Up [b]], g))"

fun write_bytes :: "int \<Rightarrow> string \<Rightarrow> cmd_gate \<Rightarrow> gate_call" where
  "write_bytes now [] g = ([], g)"
| "write_bytes now (b # p) g =
     (case write_byte now b g of (o1, g1) \<Rightarrow>
        (case write_bytes now p g1 of (o2, g2) \<Rightarrow> (o1 @ o2, g2)))"

definition paste_message :: string where
  "paste_message = [CR, LF] @
     ''PAM: enable password is sent automatically after en '' @ [CHR 0xE2, CHR 0x80, CHR 0x94] @
     '' do not type or paste it.'' @ [CR, LF]"

definition gate_Write :: "int \<Rightarrow> string \<Rightarrow> cmd_gate \<Rightarrow> gate_call" where
  "gate_Write now p g =
     (if cg_execPrivileged g \<and> containsEnableSecret g p then ([Down paste_message], g)
      else write_bytes now p g)"

section \<open>A session\<close>

datatype gate_event = Keys int string | Screen int string

fun gate_step :: "gate_event \<Rightarrow> cmd_gate \<Rightarrow> gate_call" where
  "gate_step (Keys now p) g = gate_Write now p g"
| "gate_step (Screen now p) g =
     (case gateAwareWrite now p (Some g) of (outs, g') \<Rightarrow> (outs, the g'))"

inductive gate_run :: "cmd_gate \<Rightarrow> gate_out list \<Rightarrow> cmd_gate \<Rightarrow> bool" where
  run_start: "gate_run g [] g"
| run_event: "gate_run g outs g1 \<Longrightarrow> gate_step e g1 = (o2, g2) \<Longrightarrow> gate_run g (outs @ o2) g2"

end
