(* ===== verification/CmdGateSpec.thy ===== *)
theory CmdGateSpec
  imports CmdGate
begin

text \<open>
  What the command gate promises, over single keystrokes and over whole sessions: no Enter reaches the
  device without a policy check (and the two texts that switch the check off), secrets do not show on
  the terminal, and what the user types at a password prompt stays on this side.
\<close>

section \<open>Starred text\<close>

text \<open>\<open>starred s r\<close>: \<open>r\<close> is \<open>s\<close> with some characters replaced by stars.\<close>

abbreviation star :: char where
  "star \<equiv> CHR ''*''"

definition starred :: "string \<Rightarrow> string \<Rightarrow> bool" where
  "starred s r = list_all2 (\<lambda>a b. b = a \<or> b = star) s r"

lemma starred_refl [simp]: "starred s s"
  by (simp add: starred_def list_all2_same)

lemma starred_Cons [simp]: "starred (a # s) (b # r) \<longleftrightarrow> (b = a \<or> b = star) \<and> starred s r"
  by (simp add: starred_def)

lemma starred_trans: "starred s r \<Longrightarrow> starred r t \<Longrightarrow> starred s t"
  by (simp add: starred_def list_all2_conv_all_nth) metis

lemma starred_append: "starred s r \<Longrightarrow> starred s' r' \<Longrightarrow> starred (s @ s') (r @ r')"
  by (simp add: starred_def list_all2_appendI)

lemma starred_stars: "starred s (replicate (length s) star)"
  by (induction s) (simp_all add: starred_def)

lemma starred_eq: "starred s w \<Longrightarrow> star \<notin> set w \<Longrightarrow> s = w"
  unfolding starred_def by (induction rule: list_all2_induct) auto

lemma starred_split:
  assumes "starred s (u @ w @ v)" "star \<notin> set w"
  shows "\<exists>u' v'. s = u' @ w @ v' \<and> length u' = length u"
proof -
  from assms(1) obtain u' s' where s: "s = u' @ s'" "length u' = length u" "starred s' (w @ v)"
    by (auto simp: starred_def list_all2_append2)
  from s(3) obtain w' v' where "s' = w' @ v'" "starred w' w"
    by (auto simp: starred_def list_all2_append2)
  with starred_eq [OF this(2) assms(2)] s(1,2) show ?thesis by auto
qed

lemma starred_contains: "starred s r \<Longrightarrow> star \<notin> set w \<Longrightarrow> str_contains r w \<Longrightarrow> str_contains s w"
  by (auto simp: str_contains_iff dest!: starred_split)

lemma starred_prefix: "starred s r \<Longrightarrow> star \<notin> set w \<Longrightarrow> has_prefix r w \<Longrightarrow> has_prefix s w"
  using starred_split [of s "[]"] by (auto simp: has_prefix_iff)

section \<open>Replacing a secret\<close>

lemma replace_starred:
  "starred s (replace_all s old (replicate (length old) star))"
proof (induction s old "replicate (length old) star" rule: replace_all.induct)
  case (2 c s old)
  show ?case
  proof (cases "old \<noteq> [] \<and> has_prefix (c # s) old")
    case True
    then obtain t where t: "c # s = old @ t" by (auto simp: has_prefix_iff)
    have "drop (length old - 1) s = t"
      using t True by (cases old) auto
    with True 2 have "starred t (replace_all t old (replicate (length old) star))" by simp
    moreover have "replace_all (c # s) old (replicate (length old) star) =
        replicate (length old) star @ replace_all t old (replicate (length old) star)"
      using True \<open>drop (length old - 1) s = t\<close> by simp
    ultimately show ?thesis using t by (metis starred_append starred_stars)
  next
    case False
    with 2 show ?thesis by auto
  qed
qed simp

lemma replace_hides:
  assumes "old \<noteq> []" "star \<notin> set old"
  shows "\<not> str_contains (replace_all s old (replicate (length old) star)) old"
  using assms
proof (induction s old "replicate (length old) star" rule: replace_all.induct)
  case (1 old)
  then show ?case by simp
next
  case (2 c s old)
  let ?st = "replicate (length old) star"
  show ?case
  proof (cases "has_prefix (c # s) old")
    case True
    let ?t = "replace_all (drop (length old - 1) s) old ?st"
    have IH: "\<not> str_contains ?t old" using 2 True by simp
    show ?thesis
    proof
      assume "str_contains (replace_all (c # s) old ?st) old"
      then obtain u v where uv: "?st @ ?t = u @ old @ v"
        using True 2 by (auto simp: str_contains_iff)
      have "\<not> length u < length old"
      proof
        assume less: "length u < length old"
        have "(?st @ ?t) ! length u = star" using less by (simp add: nth_append)
        moreover have "(u @ old @ v) ! length u = old ! 0" using 2 by (simp add: nth_append)
        ultimately have "old ! 0 = star" using uv by simp
        with 2 show False by (metis length_greater_0_conv nth_mem)
      qed
      then obtain u' where "?t = u' @ old @ v"
        using uv by (metis append_eq_append_conv_if append_take_drop_id length_replicate linorder_not_less)
      with IH show False by (auto simp: str_contains_iff)
    qed
  next
    case False
    let ?t = "replace_all s old ?st"
    have IH: "\<not> str_contains ?t old" using 2 False by simp
    have "starred (c # s) (c # ?t)" using replace_starred by simp
    then have "\<not> has_prefix (c # ?t) old" using starred_prefix 2 False by blast
    with IH False show ?thesis by simp
  qed
qed

lemma mask_byte_starred: "starred [b] [fst (mask_byte b g)]"
  by (simp add: mask_byte_def Let_def)

lemma streamMask_starred: "starred p (fst (streamMaskPassword p g))"
proof (induction p arbitrary: g)
  case (Cons b p)
  then show ?case
    using mask_byte_starred [of b g] by (auto split: prod.split)  (metis fst_conv)+
qed simp

lemma hide_secret_starred: "starred out (hide_secret secret out)"
  by (simp add: hide_secret_def replace_starred)

lemma hide_secret_hides:
  "secret \<noteq> [] \<Longrightarrow> star \<notin> set secret \<Longrightarrow> \<not> str_contains (hide_secret secret out) secret"
  by (simp add: hide_secret_def replace_hides)

text \<open>C20: Within one write to the terminal neither the enable secret nor the portal password can be read,
  as long as it contains no star: the text that leaves the filter has the length of the text that
  entered it, differs from it in stars only, and does not contain the (trimmed) secret.\<close>

theorem secrets_hidden:
  assumes "secret = trim_space (cg_enableSecret g) \<or> secret = trim_space (cg_portalPassword g)"
    and "secret \<noteq> []" "star \<notin> set secret"
  shows "\<not> str_contains (fst (filterDownstream p g)) secret \<and> starred p (fst (filterDownstream p g))"
proof (cases "p = []")
  case True
  with assms(2) show ?thesis by (cases secret) (simp_all add: filterDownstream_def)
next
  case False
  define s1 where "s1 = trim_space (cg_enableSecret g)"
  define s2 where "s2 = trim_space (cg_portalPassword g)"
  define p1 where "p1 = hide_secret s1 p"
  define p2 where "p2 = hide_secret s2 p1"
  define r where "r = fst (streamMaskPassword p2 g)"
  have out: "fst (filterDownstream p g) = r"
    using False by (simp add: filterDownstream_def r_def p2_def p1_def s1_def s2_def)
  have st: "starred p p1" "starred p1 p2" "starred p2 r"
    by (simp_all add: p1_def p2_def r_def hide_secret_starred streamMask_starred)
  have "\<not> str_contains p2 secret"
  proof (cases "secret = s2")
    case True
    with assms(2,3) show ?thesis by (simp add: p2_def hide_secret_hides)
  next
    case False
    then have "\<not> str_contains p1 secret"
      using assms by (auto simp: p1_def s1_def s2_def hide_secret_hides)
    with st(2) assms(3) show ?thesis by (blast dest: starred_contains)
  qed
  with st(3) assms(3) have "\<not> str_contains r secret" by (blast dest: starred_contains)
  with st show ?thesis unfolding out by (blast intro: starred_trans)
qed

definition demo_gate :: cmd_gate where
  "demo_gate = the (newCmdGate [] [''reload'', ''rm''] True ''s3cret'' ''pw123'' True)"

lemma secrets_hidden_witness:
  "\<not> str_contains (fst (filterDownstream ''got s3cret!'' demo_gate)) ''s3cret''"
proof -
  have "trim_space (cg_enableSecret demo_gate) = ''s3cret''" by code_simp
  then show ?thesis using secrets_hidden [of "''s3cret''" demo_gate "''got s3cret!''"] by simp
qed

section \<open>Masking is independent of the chunks\<close>

lemma streamMask_append:
  "streamMaskPassword (p @ q) g =
     (case streamMaskPassword p g of (o1, g1) \<Rightarrow>
        (case streamMaskPassword q g1 of (o2, g2) \<Rightarrow> (o1 @ o2, g2)))"
  by (induction p arbitrary: g) (simp_all split: prod.split)

lemma streamMask_Cons:
  "fst (streamMaskPassword (b # p) g) =
     fst (mask_byte b g) # fst (streamMaskPassword p (snd (mask_byte b g)))"
  "snd (streamMaskPassword (b # p) g) = snd (streamMaskPassword p (snd (mask_byte b g)))"
  by (simp_all split: prod.split)

definition star_out :: "char \<Rightarrow> char" where
  "star_out b = (if printable b \<and> b \<noteq> CHR '' '' then star else b)"

lemma printable_not_ctl: "printable b \<Longrightarrow> b \<noteq> CR \<and> b \<noteq> LF \<and> b \<noteq> TAB"
  by (auto simp: printable_def CR_def LF_def TAB_def)

lemma streamMask_masking:
  assumes "cg_downMasking g" "CR \<notin> set p" "LF \<notin> set p"
  shows "fst (streamMaskPassword p g) = map star_out p"
  using assms
proof (induction p arbitrary: g)
  case (Cons b p)
  have "fst (mask_byte b g) = star_out b" "cg_downMasking (snd (mask_byte b g))"
    using Cons.prems by (auto simp: mask_byte_def star_out_def dest: printable_not_ctl)
  with Cons show ?case by (simp add: streamMask_Cons del: streamMaskPassword.simps)
qed simp

lemma keep_last_append:
  assumes "length w \<le> n"
  shows "\<exists>t. keep_last n (s @ w) = t @ w"
proof -
  have "drop (length (s @ w) - n) (s @ w) = drop (length (s @ w) - n) s @ w"
    using assms by simp
  then show ?thesis by (auto simp: keep_last_def)
qed

lemma keep_last_again: "keep_last n (keep_last n s @ [b]) = keep_last n (s @ [b])"
proof (cases "n < length s")
  case True
  then show ?thesis by (simp add: keep_last_def Suc_diff_le)
next
  case False
  then have "keep_last n s = s" by (simp add: keep_last_def)
  then show ?thesis by simp
qed

lemma mask_byte_plain:
  assumes "\<not> cg_downMasking g" "b \<noteq> CR" "b \<noteq> LF"
  defines "buf \<equiv> keep_last 16 (cg_downBuf g @ [b])"
  shows "fst (mask_byte b g) = b" "cg_downBuf (snd (mask_byte b g)) = buf"
    "cg_downMasking (snd (mask_byte b g)) = downKeyword buf"
  using assms by (simp_all add: mask_byte_def Let_def)

lemma streamMask_buf:
  assumes "\<not> cg_downMasking g" "CR \<notin> set w" "LF \<notin> set w" "w \<noteq> []"
    and "cg_downBuf g = keep_last 16 pre"
    and "\<not> cg_downMasking (snd (streamMaskPassword (butlast w) g))"
  shows "cg_downBuf (snd (streamMaskPassword w g)) = keep_last 16 (pre @ w) \<and>
    cg_downMasking (snd (streamMaskPassword w g)) = downKeyword (keep_last 16 (pre @ w))"
  using assms
proof (induction w arbitrary: rule: rev_induct)
  case (snoc b w)
  let ?g = "snd (streamMaskPassword w g)"
  have eq: "snd (streamMaskPassword (w @ [b]) g) = snd (mask_byte b ?g)"
    by (simp add: streamMask_append split: prod.split)
  have plain: "\<not> cg_downMasking ?g" using snoc.prems by simp
  have "\<not> cg_downMasking (snd (streamMaskPassword (butlast w) g))" if "w \<noteq> []"
  proof
    assume masked: "cg_downMasking (snd (streamMaskPassword (butlast w) g))"
    have w: "w = butlast w @ [last w]" using that by simp
    have "last w \<noteq> CR" "last w \<noteq> LF" using snoc.prems that by (auto dest: last_in_set)
    then have "cg_downMasking (snd (streamMaskPassword (butlast w @ [last w]) g))"
      using masked by (auto simp: streamMask_append mask_byte_def split: prod.split)
    with plain w show False by simp
  qed
  then have buf: "cg_downBuf ?g = keep_last 16 (pre @ w)"
    using snoc by (cases "w = []") auto
  show ?case
    using mask_byte_plain [OF plain, of b] snoc.prems(2,3) buf keep_last_again [of 16 "pre @ w" b]
    by (auto simp: eq)
qed simp



section \<open>Enter\<close>

lemma sendEnableSecret_out:
  "fst (sendEnableSecret now force g) \<in> {[], [Up (credentialForEnable g @ [CR])]}"
  by (simp add: sendEnableSecret_def Let_def)

lemma sendEnableSecret_keeps:
  "cg_expectEnablePass (snd (sendEnableSecret now force g)) = cg_expectEnablePass g"
  "cg_execPrivileged (snd (sendEnableSecret now force g)) = cg_execPrivileged g"
  "credentialForEnable (snd (sendEnableSecret now force g)) = credentialForEnable g"
  by (simp_all add: sendEnableSecret_def Let_def credentialForEnable_def)

text \<open>C15: No Enter reaches the device unchecked: when the gate passes a carriage return or line feed of the
  user on, then either it was told to ignore the line, or no command was visible, or the policy allows
  the command of the line.\<close>

theorem enter_needs_policy:
  assumes "write_byte now b g = (outs, g')" "b = CR \<or> b = LF" "Up [b] \<in> set outs"
  shows "cg_ignoreLine g \<or> currentCommand g = [] \<or>
    CommandAllowed (currentCommand g) (cg_allow g) (cg_deny g)"
proof (cases "waitingForEnablePassword g")
  case True
  then have ne: "credentialForEnable g \<noteq> []" by (auto simp: waitingForEnablePassword_def split: if_splits)
  have "credentialForEnable (g\<lparr>cg_skipNextLF := v\<rparr>) = credentialForEnable g" for v
    by (simp add: credentialForEnable_def)
  then have "fst (sendEnableSecret now True (if b = CR then g\<lparr>cg_skipNextLF := True\<rparr> else g)) \<in>
      {[], [Up (credentialForEnable g @ [CR])]}"
    using sendEnableSecret_out [of now True "if b = CR then g\<lparr>cg_skipNextLF := True\<rparr> else g"] by auto
  then have "Up [b] \<notin> set outs"
    using assms(1,2) True ne
    by (auto simp: write_byte_def handlePasswordKeystroke_def split: if_splits)
  with assms(3) show ?thesis by simp
next
  case False
  have cmd: "currentCommand (g\<lparr>cg_skipNextLF := v\<rparr>) = currentCommand g"
    "currentCommand (g\<lparr>cg_ignoreLine := v\<rparr>) = currentCommand g" for v
    by (simp_all add: currentCommand_def Let_def)
  have line: "cg_ignoreLine g0 \<or> currentCommand g0 = [] \<or>
      CommandAllowed (currentCommand g0) (cg_allow g0) (cg_deny g0)"
    if "handleLineEnd b g0 = (outs, g')" for g0
    using that assms(2,3)
    by (auto simp: handleLineEnd_def Let_def cmd ETX_def CR_def LF_def split: if_splits)
  have "\<not> (b = LF \<and> cg_skipNextLF g)"
    using assms False by (auto simp: write_byte_def handlePasswordKeystroke_def CR_def LF_def)
  then have "handleLineEnd b (if b = LF then g else g\<lparr>cg_skipNextLF := True\<rparr>) = (outs, g')"
    using assms(1,2) False
    by (auto simp: write_byte_def handlePasswordKeystroke_def CR_def LF_def split: if_splits)
  from line [OF this] show ?thesis by (auto simp: cmd split: if_splits)
qed

definition at_prompt :: "cmd_gate \<Rightarrow> string \<Rightarrow> cmd_gate" where
  "at_prompt g line = g\<lparr>cg_devLine := line\<rparr>"

lemma enter_needs_policy_witness:
  "CommandAllowed (currentCommand (at_prompt demo_gate ''sw1#show version''))
     (cg_allow (at_prompt demo_gate ''sw1#show version'')) (cg_deny (at_prompt demo_gate ''sw1#show version''))"
proof -
  have outs: "fst (write_byte 5 CR (at_prompt demo_gate ''sw1#show version'')) = [Up [CR]]" by code_simp
  have "\<not> cg_ignoreLine (at_prompt demo_gate ''sw1#show version'')"
    "currentCommand (at_prompt demo_gate ''sw1#show version'') \<noteq> []" by code_simp+
  then show ?thesis
    using enter_needs_policy [of 5 CR "at_prompt demo_gate ''sw1#show version''" "[Up [CR]]"
        "snd (write_byte 5 CR (at_prompt demo_gate ''sw1#show version''))"] outs
    by (metis list.set_intros(1) prod.collapse)
qed

text \<open>What a denied command is answered with.\<close>

lemma denied_command_cancelled:
  assumes "\<not> waitingForEnablePassword g" "\<not> cg_ignoreLine g"
    and "\<not> (cg_injectEnableOnEnter g \<and> credentialForEnable g \<noteq> [])"
    and "currentCommand g \<noteq> []" "\<not> CommandAllowed (currentCommand g) (cg_allow g) (cg_deny g)"
  shows "write_byte now CR g =
    ([Up [ETX], Down (deny_message (currentCommand g))] @
       (if cg_onDeny g then [OnDeny (currentCommand g)] else []),
     resetLineMirror (g\<lparr>cg_skipNextLF := True\<rparr>))"
proof -
  let ?g = "g\<lparr>cg_skipNextLF := True\<rparr>"
  have "currentCommand ?g = currentCommand g" "credentialForEnable ?g = credentialForEnable g"
    by (simp_all add: currentCommand_def credentialForEnable_def Let_def)
  moreover have "credentialForEnable (?g\<lparr>cg_userTyped := []\<rparr>) = credentialForEnable g"
    by (simp add: credentialForEnable_def)
  ultimately have "handleLineEnd CR ?g = ([Up [ETX], Down (deny_message (currentCommand g))] @
       (if cg_onDeny g then [OnDeny (currentCommand g)] else []), resetLineMirror ?g)"
    using assms(2-5) by (simp add: handleLineEnd_def Let_def resetLineMirror_def)
  then show ?thesis
    using assms(1) by (simp add: write_byte_def handlePasswordKeystroke_def CR_def LF_def)
qed

section \<open>Two texts that hide a command\<close>

lemma fold_note_printable:
  "list_all printable p \<Longrightarrow> fold note_byte p g = g\<lparr>cg_devLine := cg_devLine g @ p\<rparr>"
proof (induction p arbitrary: g)
  case (Cons b p)
  have "b \<noteq> CR \<and> b \<noteq> LF \<and> b \<noteq> ETX \<and> \<not> is_rubout b"
    using Cons.prems by (auto simp: printable_def CR_def LF_def ETX_def is_rubout_def)
  with Cons show ?case by (simp add: note_byte_def)
qed simp

lemma trim_space_append_word:
  assumes "is_word w"
  shows "trim_space (s @ w) = (if trim_left s = [] then w else trim_left s @ w)"
proof -
  have w: "w \<noteq> []" "\<not> is_space (hd w)" "\<not> is_space (last w)"
    using is_word_hd_last [OF assms] assms by (auto simp: is_word_def)
  have "trim_left (s @ w) = (if trim_left s = [] then w else trim_left s @ w)"
    using w by (cases w) (auto simp: trim_left_def dropWhile_append)
  moreover have "trim_right (t @ w) = t @ w" for t
    using w by (intro trim_right_id) simp
  ultimately show ?thesis using w by (simp add: trim_space_def) (metis append_Nil)
qed

definition pw_comment :: string where
  "pw_comment = '' # password:''"

text \<open>The word \<open>password:\<close> anywhere on the visible line switches the check off: when the device echoes a
  line that ends in the comment \<open># password:\<close>, the next Enter is passed on whatever command stands
  before the comment and whatever the policy denies.\<close>

theorem password_comment_skips_policy:
  assumes "list_all printable cmd" "\<not> cg_expectEnablePass g" "\<not> cg_injectEnableOnEnter g"
    and "\<not> str_contains (trim_space (to_lower (cg_devLine g @ cmd @ pw_comment))) ''[sudo]''"
  shows "fst (write_byte now CR (snd (noteOutput now (cmd @ pw_comment) g))) = [Up [CR]]"
proof -
  define g1 where "g1 = g\<lparr>cg_devLine := cg_devLine g @ cmd @ pw_comment\<rparr>"
  define trim where "trim = trim_space (to_lower (cg_devLine g1))"
  have pr: "list_all printable (cmd @ pw_comment)"
    using assms(1) by (simp add: pw_comment_def printable_def)
  have fold: "fold note_byte (cmd @ pw_comment) g = g1"
    using fold_note_printable [OF pr] by (simp only: g1_def)
  have word: "is_word ''password:''" by code_simp
  have "to_lower (cg_devLine g1) = (to_lower (cg_devLine g @ cmd) @ '' # '') @ ''password:''"
    by (simp add: g1_def to_lower_append pw_comment_def) (simp add: to_lower_def ascii_lower_def)
  then obtain t where trim: "trim = t @ ''password:''"
    using trim_space_append_word [OF word] unfolding trim_def by (metis append_Nil)
  have asks: "asks_password trim" by (auto simp: asks_password_def str_contains_iff trim)
  have "\<not> has_suffix trim ''#''" "\<not> has_suffix trim ''>''" by (simp_all add: has_suffix_def trim)
  then have prompt: "note_prompt g1 = g1" by (simp add: note_prompt_def trim_def [symmetric])
  have sudo: "\<not> str_contains trim ''[sudo]''" using assms(4) by (simp add: trim_def g1_def)
  have "noteOutput now (cmd @ pw_comment) g = ([], g1\<lparr>cg_ignoreLine := True\<rparr>)"
    unfolding noteOutput_def fold Let_def trim_def [symmetric] prompt
    using asks sudo assms(2) by (simp add: g1_def)
  then show ?thesis
    using assms(2,3)
    by (simp add: write_byte_def handlePasswordKeystroke_def waitingForEnablePassword_def handleLineEnd_def
        Let_def g1_def CR_def LF_def)
qed

lemma password_comment_skips_policy_witness:
  "\<not> CommandAllowed ''rm -rf /'' (cg_allow demo_gate) (cg_deny demo_gate) \<and>
   fst (write_byte 5 CR (snd (noteOutput 5 (''rm -rf /'' @ pw_comment) demo_gate))) = [Up [CR]]"
proof -
  have denied: "\<not> CommandAllowed ''rm -rf /'' (cg_allow demo_gate) (cg_deny demo_gate)" by code_simp
  have hyps: "list_all printable ''rm -rf /''" "\<not> cg_expectEnablePass demo_gate"
    "\<not> cg_injectEnableOnEnter demo_gate"
    "\<not> str_contains (trim_space (to_lower (cg_devLine demo_gate @ ''rm -rf /'' @ pw_comment))) ''[sudo]''"
    by code_simp+
  from denied password_comment_skips_policy [OF hyps] show ?thesis by blast
qed

lemma last_index_any_mid:
  "a \<in> set cs \<Longrightarrow> set suf \<inter> set cs = {} \<Longrightarrow> last_index_any (pre @ a # suf) cs = Some (length pre)"
proof -
  assume a: "a \<in> set cs" and "set suf \<inter> set cs = {}"
  then have "last_index_any suf cs = None" by (induction suf) auto
  with a show ?thesis by (induction pre) auto
qed

text \<open>Only what follows the last of the characters \<open>#\<close>, \<open>>\<close> and \<open>$\<close> on the line is checked, also when
  the user typed that character: a command in front of it is not seen by the policy.\<close>

theorem only_text_after_marker_checked:
  assumes "cg_devLine g = line @ [m] @ suf" "m \<in> {CHR ''#'', CHR ''>'', CHR ''$''}"
    and "set suf \<inter> {CHR ''#'', CHR ''>'', CHR ''$''} = {}" "trim_space suf \<noteq> []"
  shows "currentCommand g = trim_space suf"
proof -
  have "last_index_any (cg_devLine g) ''#>$'' = Some (length line)"
    using assms(1-3) last_index_any_mid [of m "''#>$''" suf line] by auto
  then show ?thesis using assms(1,4) by (simp add: currentCommand_def after_prompt_def)
qed

lemma only_text_after_marker_checked_witness:
  "\<not> CommandAllowed ''rm -rf /data'' (cg_allow demo_gate) (cg_deny demo_gate) \<and>
   currentCommand (at_prompt demo_gate ''~ $ rm -rf /data >log'') = ''log'' \<and>
   CommandAllowed ''log'' (cg_allow demo_gate) (cg_deny demo_gate)"
proof -
  have eval: "\<not> CommandAllowed ''rm -rf /data'' (cg_allow demo_gate) (cg_deny demo_gate)"
    "CommandAllowed ''log'' (cg_allow demo_gate) (cg_deny demo_gate)" "trim_space ''log'' = ''log''"
    by code_simp+
  show ?thesis
    using only_text_after_marker_checked [of "at_prompt demo_gate ''~ $ rm -rf /data >log''"
        "''~ $ rm -rf /data ''" "CHR ''>''" "''log''"] eval
    by (simp add: at_prompt_def)
qed

section \<open>Password prompts\<close>

lemma waiting_step:
  assumes "waitingForEnablePassword g" "write_byte now b g = (outs, g')"
  shows "set outs \<subseteq> {Up (credentialForEnable g @ [CR])} \<and> waitingForEnablePassword g' \<and>
    credentialForEnable g' = credentialForEnable g \<and> cg_userTyped g' = cg_userTyped g"
proof -
  have flags: "waitingForEnablePassword (g\<lparr>cg_skipNextLF := v\<rparr>) = waitingForEnablePassword g"
    "credentialForEnable (g\<lparr>cg_skipNextLF := v\<rparr>) = credentialForEnable g" for v
    by (simp_all add: waitingForEnablePassword_def credentialForEnable_def)
  have send: "set (fst (sendEnableSecret now True h)) \<subseteq> {Up (credentialForEnable h @ [CR])}"
    "waitingForEnablePassword (snd (sendEnableSecret now True h)) = waitingForEnablePassword h"
    "cg_userTyped (snd (sendEnableSecret now True h)) = cg_userTyped h" for h
    using sendEnableSecret_out [of now True h]
    by (auto simp: waitingForEnablePassword_def sendEnableSecret_keeps)
      (simp_all add: sendEnableSecret_def Let_def)
  let ?h = "if b = CR then g\<lparr>cg_skipNextLF := True\<rparr> else g"
  have "write_byte now b g =
      (if b = CR \<or> b = LF then
         (if b = LF \<and> cg_skipNextLF g then ([], g\<lparr>cg_skipNextLF := False\<rparr>)
          else sendEnableSecret now True ?h)
       else ([], g))"
    using assms(1) by (simp add: write_byte_def handlePasswordKeystroke_def)
  moreover have "credentialForEnable ?h = credentialForEnable g" "waitingForEnablePassword ?h"
    "cg_userTyped ?h = cg_userTyped g"
    using assms(1) flags by simp_all
  ultimately show ?thesis
    using assms flags send [of ?h] sendEnableSecret_keeps(3) [of now True ?h]
    by (cases "sendEnableSecret now True ?h") (auto split: if_splits)
qed

text \<open>While the gate waits for the enable password nothing the user types reaches the device: for every
  chunk of keystrokes the only bytes sent are the secret from the vault, and what was typed is not
  kept either.\<close>

theorem typed_password_swallowed:
  assumes "waitingForEnablePassword g" "gate_Write now p g = (outs, g')"
  shows "set outs \<subseteq> {Up (credentialForEnable g @ [CR])} \<and> cg_userTyped g' = cg_userTyped g"
proof -
  have chunk: "set o1 \<subseteq> {Up (credentialForEnable g @ [CR])} \<and> cg_userTyped g1 = cg_userTyped g"
    if "waitingForEnablePassword g" "write_bytes now p g = (o1, g1)" for o1 g1 and g :: cmd_gate
    using that
  proof (induction p arbitrary: g o1 g1)
    case (Cons b p)
    obtain o2 g2 where step: "write_byte now b g = (o2, g2)" by fastforce
    obtain o3 g3 where rest: "write_bytes now p g2 = (o3, g3)" by fastforce
    have "o1 = o2 @ o3" "g1 = g3" using Cons.prems step rest by simp_all
    with waiting_step [OF Cons.prems(1) step] Cons.IH [of g2 o3 g3] rest show ?case by auto
  qed simp
  have "\<not> cg_execPrivileged g" using assms(1) by (auto simp: waitingForEnablePassword_def)
  then have "write_bytes now p g = (outs, g')" using assms(2) by (simp add: gate_Write_def)
  with chunk assms(1) show ?thesis by blast
qed

definition asked_gate :: cmd_gate where
  "asked_gate = demo_gate\<lparr>cg_expectEnablePass := True\<rparr>"

lemma typed_password_swallowed_witness:
  "set (fst (gate_Write 5 [CHR ''x'', CHR ''y'', CR] asked_gate)) \<subseteq> {Up (''s3cret'' @ [CR])}"
proof -
  have "waitingForEnablePassword asked_gate" "credentialForEnable asked_gate = ''s3cret''" by code_simp+
  with typed_password_swallowed [of asked_gate 5 "[CHR ''x'', CHR ''y'', CR]"] show ?thesis
    by (metis prod.collapse)
qed

lemma contains_before_colon:
  assumes "str_contains (t @ '':'') (kw @ '':'')" "CHR '':'' \<notin> set t"
  shows "has_suffix t kw"
proof -
  from assms(1) obtain u v where uv: "t @ '':'' = u @ kw @ '':'' @ v"
    by (auto simp: str_contains_iff)
  have "v = []"
  proof (rule ccontr)
    assume "v \<noteq> []"
    then have "t = u @ kw @ '':'' @ butlast v"
      using uv by (metis append_assoc butlast_append butlast_snoc)
    with assms(2) show False by simp
  qed
  with uv show ?thesis by (auto simp: has_suffix_iff)
qed

lemma has_suffix_for:
  assumes "has_suffix (s @ '' '' @ t) kw" "CHR '' '' \<notin> set kw"
  shows "has_suffix t kw"
proof -
  from assms(1) obtain u where u: "s @ '' '' @ t = u @ kw" by (auto simp: has_suffix_iff)
  have "length kw \<le> length t"
  proof (rule ccontr)
    assume "\<not> length kw \<le> length t"
    then have "length u \<le> length s" using arg_cong [OF u, of length] by simp
    then have "(u @ kw) ! length s = kw ! (length s - length u)" by (simp add: nth_append)
    moreover have "(s @ '' '' @ t) ! length s = CHR '' ''" by simp
    ultimately have "kw ! (length s - length u) = CHR '' ''" by (simp only: u)
    moreover have "length s - length u < length kw"
      using arg_cong [OF u, of length] \<open>\<not> length kw \<le> length t\<close> by simp
    ultimately show False using assms(2) by (metis nth_mem)
  qed
  have "drop (length (s @ '' '' @ t) - length kw) (s @ '' '' @ t) = kw"
    using u by simp
  then have "drop (length t - length kw) t = kw"
    using \<open>length kw \<le> length t\<close> by (simp add: Suc_diff_le)
  with \<open>length kw \<le> length t\<close> show ?thesis by (simp add: has_suffix_def)
qed

definition sudo_prompt :: "string \<Rightarrow> string" where
  "sudo_prompt user = ''[sudo] password for '' @ user @ '': ''"

text \<open>The prompt that sudo prints, \<open>[sudo] password for ann:\<close>, is not recognised: the gate looks for
  \<open>password:\<close>, so it injects nothing, and the Enter after the typed password is checked as a command,
  the prompt being its text.\<close>

theorem sudo_prompt_not_recognised:
  assumes "list_all printable user" "CHR '':'' \<notin> set (to_lower user)" "cg_devLine g = []"
    and "\<not> has_suffix (to_lower user) ''password''" "\<not> has_suffix (to_lower user) ''passphrase''"
    and "\<not> has_suffix (to_lower user) ''secret''"
  shows "noteOutput now (sudo_prompt user) g = ([], g\<lparr>cg_devLine := sudo_prompt user\<rparr>)"
proof -
  have pr: "list_all printable (sudo_prompt user)"
    using assms(1) by (simp add: sudo_prompt_def printable_def)
  define g1 where "g1 = g\<lparr>cg_devLine := sudo_prompt user\<rparr>"
  have fold: "fold note_byte (sudo_prompt user) g = g1"
    using fold_note_printable [OF pr] assms(3) by (simp add: g1_def)
  define t where "t = ''[sudo] password for '' @ to_lower user"
  have low: "to_lower (sudo_prompt user) = t @ '': ''"
    by (simp add: sudo_prompt_def t_def to_lower_append) (simp add: to_lower_def ascii_lower_def)
  have "trim_space (t @ '': '') = t @ '':''"
  proof -
    have "trim_left (t @ '': '') = t @ '': ''" by (rule trim_left_id) (simp add: t_def is_space_def)
    moreover have "trim_right (t @ '': '') = trim_right (t @ '':'')"
      by (simp add: trim_right_def is_space_def)
    moreover have "trim_right (t @ '':'') = t @ '':''" by (rule trim_right_id) (simp add: is_space_def)
    ultimately show ?thesis by (simp add: trim_space_def)
  qed
  then have trim: "trim_space (to_lower (cg_devLine g1)) = t @ '':''" by (simp add: g1_def low)
  have colon: "CHR '':'' \<notin> set t" using assms(2) by (simp add: t_def)
  have t: "t = ''[sudo] password for'' @ '' '' @ to_lower user" by (simp add: t_def)
  have suffix: "\<not> str_contains (t @ '':'') (kw @ '':'')"
    if "\<not> has_suffix (to_lower user) kw" "CHR '' '' \<notin> set kw" for kw
    using contains_before_colon [OF _ colon] has_suffix_for [of "''[sudo] password for''" "to_lower user" kw] that t
    by metis
  have "\<not> asks_password (t @ '':'')"
    using suffix [of "''password''"] suffix [of "''passphrase''"] suffix [of "''secret''"] assms(4-6)
    by (simp add: asks_password_def)
  moreover have "note_prompt g1 = g1"
    by (simp add: note_prompt_def trim has_suffix_def Let_def)
  ultimately show ?thesis
    unfolding noteOutput_def fold Let_def trim by (simp add: g1_def)
qed

definition sudo_gate :: cmd_gate where
  "sudo_gate = the (newCmdGate [''sudo'', ''ls''] [] True [] ''pw123'' True)"

lemma sudo_prompt_not_recognised_witness:
  "fst (noteOutput 5 (sudo_prompt ''ann'') sudo_gate) = [] \<and>
   fst (write_byte 6 CR (snd (noteOutput 5 (sudo_prompt ''ann'') sudo_gate))) =
     [Up [ETX], Down (deny_message ''[sudo] password for ann:''), OnDeny ''[sudo] password for ann:'']"
proof -
  have "list_all printable ''ann''" "CHR '':'' \<notin> set (to_lower ''ann'')" "cg_devLine sudo_gate = []"
    "\<not> has_suffix (to_lower ''ann'') ''password''" "\<not> has_suffix (to_lower ''ann'') ''passphrase''"
    "\<not> has_suffix (to_lower ''ann'') ''secret''"
    by code_simp+
  note run = sudo_prompt_not_recognised [OF this]
  have "fst (write_byte 6 CR (sudo_gate\<lparr>cg_devLine := sudo_prompt ''ann''\<rparr>)) =
      [Up [ETX], Down (deny_message ''[sudo] password for ann:''), OnDeny ''[sudo] password for ann:'']"
    by code_simp
  with run show ?thesis by simp
qed

section \<open>Invariant of a session\<close>

definition gate_inv :: "cmd_gate \<Rightarrow> cmd_gate \<Rightarrow> bool" where
  "gate_inv g0 g \<longleftrightarrow>
     list_all printable (cg_devLine g) \<and> list_all printable (cg_userTyped g) \<and>
     length (cg_downBuf g) \<le> 16 \<and> \<not> cg_injectEnableOnEnter g \<and>
     cg_allow g = cg_allow g0 \<and> cg_deny g = cg_deny g0 \<and> cg_enableSecret g = cg_enableSecret g0 \<and>
     cg_portalPassword g = cg_portalPassword g0"

lemma list_all_butlast: "list_all P xs \<Longrightarrow> list_all P (butlast xs)"
  by (auto simp: list_all_iff dest: in_set_butlastD)

lemma note_prompt_inv: "gate_inv g0 g \<Longrightarrow> gate_inv g0 (note_prompt g)"
  by (auto simp: gate_inv_def note_prompt_def resetEnableFlow_def Let_def)

lemma note_byte_inv: "gate_inv g0 g \<Longrightarrow> gate_inv g0 (note_byte b g)"
proof -
  assume inv: "gate_inv g0 g"
  then have "gate_inv g0 ((note_prompt g)\<lparr>cg_devLine := []\<rparr>)"
    using note_prompt_inv by (simp add: gate_inv_def)
  with inv show ?thesis by (auto simp: note_byte_def gate_inv_def list_all_butlast)
qed

lemma fold_note_byte_inv: "gate_inv g0 g \<Longrightarrow> gate_inv g0 (fold note_byte p g)"
  by (induction p arbitrary: g) (simp_all add: note_byte_inv)

lemma sendEnableSecret_inv: "gate_inv g0 g \<Longrightarrow> gate_inv g0 (snd (sendEnableSecret now force g))"
  by (simp add: gate_inv_def sendEnableSecret_def Let_def)

lemma noteOutput_inv: "gate_inv g0 g \<Longrightarrow> gate_inv g0 (snd (noteOutput now p g))"
proof -
  assume "gate_inv g0 g"
  then have inv: "gate_inv g0 (note_prompt (fold note_byte p g))"
    by (simp add: note_prompt_inv fold_note_byte_inv)
  have inject: "gate_inv g0 (snd (tryAutoInjectEnable now h))"
    if "gate_inv g0 (h\<lparr>cg_injectEnableOnEnter := False\<rparr>)" "cg_injectEnableOnEnter h" for h
    using that by (simp add: tryAutoInjectEnable_def sendEnableSecret_inv)
  show ?thesis
    using inv by (auto simp: noteOutput_def Let_def gate_inv_def intro!: inject [unfolded gate_inv_def])
qed

lemma mask_byte_inv: "gate_inv g0 g \<Longrightarrow> gate_inv g0 (snd (mask_byte b g))"
  by (auto simp: gate_inv_def mask_byte_def keep_last_def Let_def)

lemma streamMask_inv: "gate_inv g0 g \<Longrightarrow> gate_inv g0 (snd (streamMaskPassword p g))"
  by (induction p arbitrary: g) (simp_all add: mask_byte_inv streamMask_Cons del: streamMaskPassword.simps(2))

lemma filterDownstream_inv: "gate_inv g0 g \<Longrightarrow> gate_inv g0 (snd (filterDownstream p g))"
  by (simp add: filterDownstream_def streamMask_inv)

lemma handleLineEnd_inv: "gate_inv g0 g \<Longrightarrow> gate_inv g0 (snd (handleLineEnd b g))"
  by (simp add: gate_inv_def handleLineEnd_def resetLineMirror_def Let_def)

lemma write_byte_inv:
  assumes "gate_inv g0 g"
  shows "gate_inv g0 (snd (write_byte now b g))"
proof -
  have skip: "gate_inv g0 (g\<lparr>cg_skipNextLF := v\<rparr>)" for v using assms by (simp add: gate_inv_def)
  have typed: "gate_inv g0 (g\<lparr>cg_userTyped := butlast (cg_userTyped g)\<rparr>)"
    "printable b \<Longrightarrow> gate_inv g0 (g\<lparr>cg_userTyped := cg_userTyped g @ [b]\<rparr>)"
    using assms by (simp_all add: gate_inv_def list_all_butlast)
  show ?thesis
    using assms skip typed
    by (auto simp: write_byte_def handlePasswordKeystroke_def sendEnableSecret_inv handleLineEnd_inv)
qed

lemma write_bytes_inv: "gate_inv g0 g \<Longrightarrow> gate_inv g0 (snd (write_bytes now p g))"
proof (induction p arbitrary: g)
  case (Cons b p)
  then show ?case using write_byte_inv [of g0 g now b] by (auto split: prod.split) (metis snd_conv)
qed simp

lemma gate_step_inv: "gate_inv g0 g \<Longrightarrow> gate_inv g0 (snd (gate_step e g))"
proof (cases e)
  case (Keys now p)
  assume "gate_inv g0 g"
  with Keys show ?thesis by (simp add: gate_Write_def write_bytes_inv)
next
  case (Screen now p)
  assume "gate_inv g0 g"
  then have "gate_inv g0 (snd (filterDownstream p (snd (noteOutput now p g))))"
    by (simp add: noteOutput_inv filterDownstream_inv)
  with Screen show ?thesis by (auto simp: gateAwareWrite_def split: prod.splits)
qed

lemma gate_run_inv: "gate_run g outs g' \<Longrightarrow> gate_inv g0 g \<Longrightarrow> gate_inv g0 g'"
proof (induction rule: gate_run.induct)
  case (run_event g outs g1 e o2 g2)
  then show ?case using gate_step_inv [of g0 g1 e] by simp
qed

text \<open>C22: Over every session, whatever the user types and the device prints in whatever order: the mirrored
  lines hold printable characters only, the window of the masker never exceeds 16 bytes, the policy
  and the secrets are those the session started with, and no injection is left pending between two
  calls (so the branch of \<open>handleLineEnd\<close> that waits for one is never taken).\<close>

theorem gate_invariant:
  assumes "newCmdGate allow deny onDeny secret portal onEnd = Some g0" "gate_run g0 outs g"
  shows "gate_inv g0 g"
proof (rule gate_run_inv [OF assms(2)])
  show "gate_inv g0 g0" using assms(1) by (auto simp: newCmdGate_def gate_inv_def split: if_splits)
qed

lemma gate_invariant_witness:
  "gate_inv demo_gate (snd (gate_step (Keys 5 ''en'') demo_gate))"
proof -
  have new: "newCmdGate [] [''reload'', ''rm''] True ''s3cret'' ''pw123'' True = Some demo_gate"
    by (simp add: demo_gate_def newCmdGate_def)
  have "gate_run demo_gate ([] @ fst (gate_step (Keys 5 ''en'') demo_gate))
      (snd (gate_step (Keys 5 ''en'') demo_gate))"
    by (rule run_event [OF run_start, where e = "Keys 5 ''en''"]) simp
  then show ?thesis by (rule gate_invariant [OF new])
qed



end
