(* ===== verification/Safes.thy ===== *)
theory Safes
  imports GroupTables
begin

text \<open>
  \<^verbatim>\<open>internal/safes/safes.go\<close>: safes and their members.  \<open>safes\<close> has a UNIQUE name, \<open>safe_members\<close> the
  primary key (safe, principal type, principal) and cascades with its safe; privileged accounts and
  application credentials refer to a safe without a cascade, so a safe in use cannot be deleted.
\<close>

section \<open>Data\<close>

definition PermOwner :: string where "PermOwner = ''owner''"
definition PermUse :: string where "PermUse = ''use''"
definition PermView :: string where "PermView = ''view''"
definition PrincipalUser :: string where "PrincipalUser = ''user''"
definition PrincipalGroup :: string where "PrincipalGroup = ''group''"

record safe =
  sa_ID :: int
  sa_Name :: string
  sa_Description :: string
  sa_CPMEnabled :: bool
  sa_RotationDays :: int
  sa_RequireDualControl :: bool
  sa_CreatedAt :: int
  sa_Accounts :: int
  sa_Members :: int

record safe_member =
  sb_SafeID :: int
  sb_PrincipalType :: string
  sb_PrincipalID :: int
  sb_PrincipalName :: string
  sb_Permissions :: string
  sb_AddedAt :: int

abbreviation Safe_List :: sql_stmt where "Safe_List \<equiv> Stmt ''safes.list''"
abbreviation Safe_Get :: sql_stmt where "Safe_Get \<equiv> Stmt ''safes.get''"
abbreviation Safe_Insert :: sql_stmt where "Safe_Insert \<equiv> Stmt ''safes.insert''"
abbreviation Safe_Update :: sql_stmt where "Safe_Update \<equiv> Stmt ''safes.update''"
abbreviation Safe_Count :: sql_stmt where "Safe_Count \<equiv> Stmt ''safes.count''"
abbreviation Safe_Delete :: sql_stmt where "Safe_Delete \<equiv> Stmt ''safes.delete''"
abbreviation Safe_Members :: sql_stmt where "Safe_Members \<equiv> Stmt ''safes.members''"
abbreviation Safe_Add :: sql_stmt where "Safe_Add \<equiv> Stmt ''safes.add''"
abbreviation Safe_Remove :: sql_stmt where "Safe_Remove \<equiv> Stmt ''safes.remove''"
abbreviation Safe_Perms :: sql_stmt where "Safe_Perms \<equiv> Stmt ''safes.perms''"

definition boolInt :: "bool \<Rightarrow> int" where
  "boolInt b = (if b then 1 else 0)"

definition safe_of_row :: "int \<Rightarrow> int \<Rightarrow> safe_row \<Rightarrow> safe" where
  "safe_of_row accts mems r =
     \<lparr>sa_ID = sf_id r, sa_Name = sf_name r, sa_Description = sf_description r,
      sa_CPMEnabled = (sf_cpm_enabled r \<noteq> 0), sa_RotationDays = sf_rotation_days r,
      sa_RequireDualControl = (sf_require_dual_control r \<noteq> 0), sa_CreatedAt = sf_created_at r,
      sa_Accounts = accts, sa_Members = mems\<rparr>"

section \<open>Safes\<close>

definition SafeList :: "pam_db \<Rightarrow> err + safe list" where
  "SafeList db =
     (if faults db Safe_List then Inl (ErrSql Safe_List)
      else Inr (map (\<lambda>r. safe_of_row
               (int (rows_affected (\<lambda>a. pa_safe_id a = sf_id r) (privileged_accounts db)))
               (int (rows_affected (\<lambda>m. sm_safe_id m = sf_id r) (safe_members db))) r)
             (sort_key sf_name (safes db))))"

definition SafeGet :: "pam_db \<Rightarrow> int \<Rightarrow> err + safe" where
  "SafeGet db i =
     (if faults db Safe_Get then Inl (ErrSql Safe_Get)
      else case row_by sf_id i (safes db) of
        None \<Rightarrow> Inl (ErrMsg ''safe not found'')
      | Some r \<Rightarrow> Inr (safe_of_row 0 0 r))"

definition rotation_or_default :: "int \<Rightarrow> int" where
  "rotation_or_default d = (if d \<le> 0 then 90 else d)"

definition SafeCreate :: "safe \<Rightarrow> pam_db \<Rightarrow> (err + int) \<times> pam_db" where
  "SafeCreate sf db =
     (let name = trim_space (sa_Name sf) in
      if name = [] then (Inl (ErrMsg ''safe name required''), db)
      else if faults db Safe_Insert then (Inl (ErrSql Safe_Insert), db)
      else if name \<in> set (map sf_name (safes db)) then (Inl ErrConstraint, db)
      else
        let i = next_id T_safes db in
        (Inr i, (bump_seq T_safes db)\<lparr>safes := safes db @
          [\<lparr>sf_id = i, sf_name = name, sf_description = sa_Description sf,
            sf_cpm_enabled = boolInt (sa_CPMEnabled sf),
            sf_rotation_days = rotation_or_default (sa_RotationDays sf),
            sf_require_dual_control = boolInt (sa_RequireDualControl sf),
            sf_created_at = clock db\<rparr>]\<rparr>))"

definition SafeUpdate :: "safe \<Rightarrow> pam_db \<Rightarrow> (err + unit) \<times> pam_db" where
  "SafeUpdate sf db =
     (if sa_ID sf \<le> 0 then (Inl (ErrMsg ''id required''), db)
      else if faults db Safe_Update then (Inl (ErrSql Safe_Update), db)
      else if rows_affected (\<lambda>r. sf_id r = sa_ID sf) (safes db) = 0
      then (Inl (ErrMsg ''safe not found''), db)
      else
        (Inr (), db\<lparr>safes := update_where (\<lambda>r. sf_id r = sa_ID sf)
           (\<lambda>r. r\<lparr>sf_description := sa_Description sf, sf_cpm_enabled := boolInt (sa_CPMEnabled sf),
                   sf_rotation_days := rotation_or_default (sa_RotationDays sf),
                   sf_require_dual_control := boolInt (sa_RequireDualControl sf)\<rparr>) (safes db)\<rparr>))"

text \<open>The rows that refer to a safe without a cascade.\<close>

definition safe_in_use :: "pam_db \<Rightarrow> int \<Rightarrow> bool" where
  "safe_in_use db i =
     ((\<exists>a \<in> set (privileged_accounts db). pa_safe_id a = i) \<or>
      (\<exists>a \<in> set (app_credentials db). ap_safe_id a = Some i))"

text \<open>The error of the count is dropped: then \<open>n\<close> stays 0.\<close>

definition SafeDelete :: "int \<Rightarrow> pam_db \<Rightarrow> (err + unit) \<times> pam_db" where
  "SafeDelete i db =
     (let n = (if faults db Safe_Count then 0
               else rows_affected (\<lambda>a. pa_safe_id a = i) (privileged_accounts db)) in
      if 0 < n then (Inl (ErrMsg ''safe still contains accounts''), db)
      else if faults db Safe_Delete then (Inl (ErrSql Safe_Delete), db)
      else if rows_affected (\<lambda>r. sf_id r = i) (safes db) = 0
      then (Inl (ErrMsg ''safe not found''), db)
      else if safe_in_use db i then (Inl ErrConstraint, db)
      else
        (Inr (), db\<lparr>safes := delete_where (\<lambda>r. sf_id r = i) (safes db),
                    safe_members := delete_where (\<lambda>m. sm_safe_id m = i) (safe_members db)\<rparr>))"

section \<open>Members\<close>

definition principal_name :: "pam_db \<Rightarrow> safe_member_row \<Rightarrow> string" where
  "principal_name db m =
     (if sm_principal_type m = ''user''
      then (case row_by u_id (sm_principal_id m) (users db) of None \<Rightarrow> [] | Some u \<Rightarrow> u_username u)
      else if sm_principal_type m = ''group''
      then (case row_by g_id (sm_principal_id m) (groups db) of None \<Rightarrow> [] | Some g \<Rightarrow> g_name g)
      else [])"

definition SafeListMembers :: "pam_db \<Rightarrow> int \<Rightarrow> err + safe_member list" where
  "SafeListMembers db safeID =
     (if faults db Safe_Members then Inl (ErrSql Safe_Members)
      else Inr (map (\<lambda>m. \<lparr>sb_SafeID = sm_safe_id m, sb_PrincipalType = sm_principal_type m,
                          sb_PrincipalID = sm_principal_id m, sb_PrincipalName = principal_name db m,
                          sb_Permissions = sm_permissions m, sb_AddedAt = sm_added_at m\<rparr>)
             (sort_key (\<lambda>m. (sm_principal_type m, sm_principal_id m))
               (filter (\<lambda>m. sm_safe_id m = safeID) (safe_members db)))))"

definition is_member :: "int \<Rightarrow> string \<Rightarrow> int \<Rightarrow> safe_member_row \<Rightarrow> bool" where
  "is_member safeID ptype principalID m =
     (sm_safe_id m = safeID \<and> sm_principal_type m = ptype \<and> sm_principal_id m = principalID)"

definition quoted :: "string \<Rightarrow> string" where
  "quoted s = CHR 0x27 # s @ [CHR 0x27]"

definition SafeAddMember :: "int \<Rightarrow> string \<Rightarrow> int \<Rightarrow> string \<Rightarrow> pam_db \<Rightarrow> (err + unit) \<times> pam_db" where
  "SafeAddMember safeID ptype principalID perms db =
     (if ptype \<noteq> PrincipalUser \<and> ptype \<noteq> PrincipalGroup
      then (Inl (ErrMsg (''principal_type must be '' @ quoted ''user'' @ '' or '' @ quoted ''group'')), db)
      else
        let perms = (if perms = [] then PermUse else perms) in
        if faults db Safe_Add then (Inl (ErrSql Safe_Add), db)
        else if \<exists>m \<in> set (safe_members db). is_member safeID ptype principalID m then
          (Inr (), db\<lparr>safe_members := update_where (is_member safeID ptype principalID)
             (\<lambda>m. m\<lparr>sm_permissions := perms\<rparr>) (safe_members db)\<rparr>)
        else if safeID \<notin> set (map sf_id (safes db)) then (Inl ErrConstraint, db)
        else
          (Inr (), db\<lparr>safe_members := safe_members db @
             [\<lparr>sm_safe_id = safeID, sm_principal_type = ptype, sm_principal_id = principalID,
               sm_permissions = perms, sm_added_at = clock db\<rparr>]\<rparr>))"

definition SafeRemoveMember :: "int \<Rightarrow> string \<Rightarrow> int \<Rightarrow> pam_db \<Rightarrow> (err + unit) \<times> pam_db" where
  "SafeRemoveMember safeID ptype principalID db =
     (if faults db Safe_Remove then (Inl (ErrSql Safe_Remove), db)
      else (Inr (), db\<lparr>safe_members :=
             delete_where (is_member safeID ptype principalID) (safe_members db)\<rparr>))"

section \<open>Permissions\<close>

definition perm_rank :: "string \<Rightarrow> int" where
  "perm_rank p = (if p = PermView then 1 else if p = PermUse then 2 else if p = PermOwner then 3 else 0)"

definition highestPerm :: "string list \<Rightarrow> string" where
  "highestPerm ps =
     fst (fold (\<lambda>p (best, bestRank). if bestRank < perm_rank p then (p, perm_rank p) else (best, bestRank))
       ps ([], 0))"

definition user_perms :: "pam_db \<Rightarrow> int \<Rightarrow> int \<Rightarrow> string list" where
  "user_perms db safeID userID =
     map sm_permissions (filter (is_member safeID ''user'' userID) (safe_members db)) @
     concat (map (\<lambda>m. map (\<lambda>_. sm_permissions m)
         (filter (\<lambda>ug. ug_group_id ug = sm_principal_id m \<and> ug_user_id ug = userID) (user_groups db)))
       (filter (\<lambda>m. sm_safe_id m = safeID \<and> sm_principal_type m = ''group'') (safe_members db)))"

definition UserPermission :: "pam_db \<Rightarrow> int \<Rightarrow> int \<Rightarrow> err + string" where
  "UserPermission db safeID userID =
     (if faults db Safe_Perms then Inl (ErrSql Safe_Perms)
      else Inr (highestPerm (user_perms db safeID userID)))"

section \<open>The highest permission\<close>

lemma highestPerm_fold:
  fixes best :: string
  defines "res ps a \<equiv> fold (\<lambda>p (best, bestRank).
      if bestRank < perm_rank p then (p, perm_rank p) else (best, bestRank)) ps a"
  shows "snd (res ps (best, r)) = Max (insert r (perm_rank ` set ps)) \<and>
    (res ps (best, r) = (best, r) \<or>
     fst (res ps (best, r)) \<in> set ps \<and> snd (res ps (best, r)) = perm_rank (fst (res ps (best, r))))"
proof (induction ps arbitrary: best r)
  case (Cons p ps)
  have "Max (insert (max r (perm_rank p)) (perm_rank ` set ps)) =
      Max (insert r (perm_rank ` set (p # ps)))"
    by (cases "set ps = {}") (simp_all add: max.assoc)
  with Cons [of p "perm_rank p"] Cons [of best r] show ?case
    by (auto simp: res_def max_def split: if_splits)
qed (simp add: res_def)

lemma perm_rank_nonneg: "0 \<le> perm_rank p"
  by (simp add: perm_rank_def)

lemma highestPerm_rank: "perm_rank (highestPerm ps) = Max (insert 0 (perm_rank ` set ps))"
  using highestPerm_fold [of ps "[]" 0]
  by (auto simp: highestPerm_def) (simp add: perm_rank_def PermView_def PermUse_def PermOwner_def)

lemma highestPerm_mem: "highestPerm ps = [] \<or> highestPerm ps \<in> set ps"
  using highestPerm_fold [of ps "[]" 0] by (auto simp: highestPerm_def)

end
