(* ===== verification/Sealing.thy ===== *)
theory Sealing
  imports GoBytes
begin

text \<open>
  \<^verbatim>\<open>internal/cryptox/cryptox.go\<close> with what it uses of Go's standard library written out: base64,
  SHA-256 (for the key hashes of \<^verbatim>\<open>internal/ccp\<close>) and AES-256-GCM (FIPS 180-4, FIPS 197, NIST SP
  800-38D).  The bytes that \<^verbatim>\<open>crypto/rand\<close> delivers are an argument, \<open>None\<close> when the read fails.
  Argon2 is outside the repository and its standard library; its key derivation is a parameter.
\<close>

section \<open>Base64\<close>

definition b64_std :: "nat \<Rightarrow> char" where
  "b64_std n =
     (if n < 26 then char_of (65 + n) else if n < 52 then char_of (71 + n)
      else if n < 62 then char_of (n - 4) else if n = 62 then CHR ''+'' else CHR ''/'')"

text \<open>The alphabet of \<^verbatim>\<open>base64.URLEncoding\<close>.\<close>

definition b64_url :: "nat \<Rightarrow> char" where
  "b64_url n = (if n = 62 then CHR ''-'' else if n = 63 then CHR ''_'' else b64_std n)"

definition b64_val :: "char \<Rightarrow> nat option" where
  "b64_val c =
     (let n = of_char c in
      if 65 \<le> n \<and> n \<le> 90 then Some (n - 65) else if 97 \<le> n \<and> n \<le> 122 then Some (n - 71)
      else if 48 \<le> n \<and> n \<le> 57 then Some (n + 4) else if n = 43 then Some 62
      else if n = 47 then Some 63 else None)"

text \<open>\<open>pad\<close> is the padding of an incomplete group, \<^verbatim>\<open>"="\<close> or nothing.\<close>

fun b64_encode :: "(nat \<Rightarrow> char) \<Rightarrow> bool \<Rightarrow> nat list \<Rightarrow> string" where
  "b64_encode d pad [] = []"
| "b64_encode d pad [a] =
     [d (a div 4), d (a mod 4 * 16)] @ (if pad then ''=='' else [])"
| "b64_encode d pad [a, b] =
     [d (a div 4), d (a mod 4 * 16 + b div 16), d (b mod 16 * 4)] @ (if pad then ''='' else [])"
| "b64_encode d pad (a # b # c # bs) =
     [d (a div 4), d (a mod 4 * 16 + b div 16), d (b mod 16 * 4 + c div 64), d (c mod 64)] @
     b64_encode d pad bs"

text \<open>The decoder of the standard encoding: carriage returns and line feeds are skipped, the text must end
  with a complete or padded group, and surplus bits of a padded group are not looked at.\<close>

definition b64_quad :: "char \<Rightarrow> char \<Rightarrow> char \<Rightarrow> char \<Rightarrow> bool \<Rightarrow> nat list option" where
  "b64_quad w x y z final =
     (case (b64_val w, b64_val x, b64_val y, b64_val z) of
        (Some p, Some q, Some r, Some s) \<Rightarrow>
          Some [p * 4 + q div 16, q mod 16 * 16 + r div 4, r mod 4 * 64 + s]
      | (Some p, Some q, Some r, None) \<Rightarrow>
          if z = CHR ''='' \<and> final then Some [p * 4 + q div 16, q mod 16 * 16 + r div 4] else None
      | (Some p, Some q, None, None) \<Rightarrow>
          if y = CHR ''='' \<and> z = CHR ''='' \<and> final then Some [p * 4 + q div 16] else None
      | _ \<Rightarrow> None)"

fun b64_groups :: "string \<Rightarrow> nat list option" where
  "b64_groups [] = Some []"
| "b64_groups (w # x # y # z # s) =
     (case b64_quad w x y z (s = []) of
        None \<Rightarrow> None
      | Some bs \<Rightarrow> map_option (\<lambda>rest. bs @ rest) (b64_groups s))"
| "b64_groups _ = None"

definition StdEncoding_Encode :: "bytes \<Rightarrow> string" where
  "StdEncoding_Encode b = b64_encode b64_std True (map unat b)"

definition URLEncoding_Encode :: "bool \<Rightarrow> bytes \<Rightarrow> string" where
  "URLEncoding_Encode pad b = b64_encode b64_url pad (map unat b)"

definition StdEncoding_Decode :: "string \<Rightarrow> bytes option" where
  "StdEncoding_Decode s =
     map_option (map word_of_nat) (b64_groups (filter (\<lambda>c. c \<notin> {CHR 0x0A, CHR 0x0D}) s))"

section \<open>SHA-256\<close>

definition sha256_table :: "u32 list" where
  "sha256_table =
    [0x428a2f98, 0x71374491, 0xb5c0fbcf, 0xe9b5dba5, 0x3956c25b, 0x59f111f1, 0x923f82a4, 0xab1c5ed5,
     0xd807aa98, 0x12835b01, 0x243185be, 0x550c7dc3, 0x72be5d74, 0x80deb1fe, 0x9bdc06a7, 0xc19bf174,
     0xe49b69c1, 0xefbe4786, 0x0fc19dc6, 0x240ca1cc, 0x2de92c6f, 0x4a7484aa, 0x5cb0a9dc, 0x76f988da,
     0x983e5152, 0xa831c66d, 0xb00327c8, 0xbf597fc7, 0xc6e00bf3, 0xd5a79147, 0x06ca6351, 0x14292967,
     0x27b70a85, 0x2e1b2138, 0x4d2c6dfc, 0x53380d13, 0x650a7354, 0x766a0abb, 0x81c2c92e, 0x92722c85,
     0xa2bfe8a1, 0xa81a664b, 0xc24b8b70, 0xc76c51a3, 0xd192e819, 0xd6990624, 0xf40e3585, 0x106aa070,
     0x19a4c116, 0x1e376c08, 0x2748774c, 0x34b0bcb5, 0x391c0cb3, 0x4ed8aa4a, 0x5b9cca4f, 0x682e6ff3,
     0x748f82ee, 0x78a5636f, 0x84c87814, 0x8cc70208, 0x90befffa, 0xa4506ceb, 0xbef9a3f7, 0xc67178f2]"

definition sha256_init :: "u32 list" where
  "sha256_init =
    [0x6a09e667, 0xbb67ae85, 0x3c6ef372, 0xa54ff53a, 0x510e527f, 0x9b05688c, 0x1f83d9ab, 0x5be0cd19]"

definition rotr32 :: "nat \<Rightarrow> u32 \<Rightarrow> u32" where
  "rotr32 n w = rotl32 (32 - n) w"

text \<open>One word of the message schedule, from the sixteen before it.\<close>

definition sha256_next :: "u32 list \<Rightarrow> u32" where
  "sha256_next ws =
     (let w15 = ws ! 1; w2 = ws ! 14;
          s0 = rotr32 7 w15 XOR rotr32 18 w15 XOR drop_bit 3 w15;
          s1 = rotr32 17 w2 XOR rotr32 19 w2 XOR drop_bit 10 w2
      in ws ! 0 + s0 + ws ! 9 + s1)"

fun sha256_rounds :: "u32 list \<Rightarrow> u32 list \<Rightarrow> u32 list \<Rightarrow> u32 list" where
  "sha256_rounds [] ws st = st"
| "sha256_rounds (k # ks) ws st =
     (let a = st ! 0; b = st ! 1; c = st ! 2; d = st ! 3; e = st ! 4; f = st ! 5; g = st ! 6; h = st ! 7;
          t1 = h + (rotr32 6 e XOR rotr32 11 e XOR rotr32 25 e) + ((e AND f) XOR (NOT e AND g)) + k + hd ws;
          t2 = (rotr32 2 a XOR rotr32 13 a XOR rotr32 22 a) + ((a AND b) XOR (a AND c) XOR (b AND c))
      in sha256_rounds ks (tl ws @ [sha256_next ws]) [t1 + t2, a, b, c, d + t1, e, f, g])"

fun words_be :: "bytes \<Rightarrow> u32 list" where
  "words_be (b0 # b1 # b2 # b3 # bs) = of_be32 [b0, b1, b2, b3] # words_be bs"
| "words_be _ = []"

fun sha256_blocks :: "u32 list \<Rightarrow> nat \<Rightarrow> u32 list \<Rightarrow> u32 list" where
  "sha256_blocks ws 0 st = st"
| "sha256_blocks ws (Suc n) st =
     sha256_blocks (drop 16 ws) n (map2 (+) st (sha256_rounds sha256_table (take 16 ws) st))"

definition sha256_pad :: "bytes \<Rightarrow> bytes" where
  "sha256_pad m =
     (let n = length m; z = (119 - n mod 64) mod 64; bits = push_bit 3 (of_nat n :: 64 word)
      in m @ [0x80] @ replicate z 0 @ be32 (ucast (drop_bit 32 bits)) @ be32 (ucast bits))"

definition sha256 :: "bytes \<Rightarrow> bytes" where
  "sha256 m =
     (let p = sha256_pad m in
      concat (map be32 (sha256_blocks (words_be p) (length p div 64) sha256_init)))"

section \<open>AES-256\<close>

definition aes_sbox :: "byte list" where
  "aes_sbox =
    [0x63, 0x7c, 0x77, 0x7b, 0xf2, 0x6b, 0x6f, 0xc5, 0x30, 0x01, 0x67, 0x2b, 0xfe, 0xd7, 0xab, 0x76,
     0xca, 0x82, 0xc9, 0x7d, 0xfa, 0x59, 0x47, 0xf0, 0xad, 0xd4, 0xa2, 0xaf, 0x9c, 0xa4, 0x72, 0xc0,
     0xb7, 0xfd, 0x93, 0x26, 0x36, 0x3f, 0xf7, 0xcc, 0x34, 0xa5, 0xe5, 0xf1, 0x71, 0xd8, 0x31, 0x15,
     0x04, 0xc7, 0x23, 0xc3, 0x18, 0x96, 0x05, 0x9a, 0x07, 0x12, 0x80, 0xe2, 0xeb, 0x27, 0xb2, 0x75,
     0x09, 0x83, 0x2c, 0x1a, 0x1b, 0x6e, 0x5a, 0xa0, 0x52, 0x3b, 0xd6, 0xb3, 0x29, 0xe3, 0x2f, 0x84,
     0x53, 0xd1, 0x00, 0xed, 0x20, 0xfc, 0xb1, 0x5b, 0x6a, 0xcb, 0xbe, 0x39, 0x4a, 0x4c, 0x58, 0xcf,
     0xd0, 0xef, 0xaa, 0xfb, 0x43, 0x4d, 0x33, 0x85, 0x45, 0xf9, 0x02, 0x7f, 0x50, 0x3c, 0x9f, 0xa8,
     0x51, 0xa3, 0x40, 0x8f, 0x92, 0x9d, 0x38, 0xf5, 0xbc, 0xb6, 0xda, 0x21, 0x10, 0xff, 0xf3, 0xd2,
     0xcd, 0x0c, 0x13, 0xec, 0x5f, 0x97, 0x44, 0x17, 0xc4, 0xa7, 0x7e, 0x3d, 0x64, 0x5d, 0x19, 0x73,
     0x60, 0x81, 0x4f, 0xdc, 0x22, 0x2a, 0x90, 0x88, 0x46, 0xee, 0xb8, 0x14, 0xde, 0x5e, 0x0b, 0xdb,
     0xe0, 0x32, 0x3a, 0x0a, 0x49, 0x06, 0x24, 0x5c, 0xc2, 0xd3, 0xac, 0x62, 0x91, 0x95, 0xe4, 0x79,
     0xe7, 0xc8, 0x37, 0x6d, 0x8d, 0xd5, 0x4e, 0xa9, 0x6c, 0x56, 0xf4, 0xea, 0x65, 0x7a, 0xae, 0x08,
     0xba, 0x78, 0x25, 0x2e, 0x1c, 0xa6, 0xb4, 0xc6, 0xe8, 0xdd, 0x74, 0x1f, 0x4b, 0xbd, 0x8b, 0x8a,
     0x70, 0x3e, 0xb5, 0x66, 0x48, 0x03, 0xf6, 0x0e, 0x61, 0x35, 0x57, 0xb9, 0x86, 0xc1, 0x1d, 0x9e,
     0xe1, 0xf8, 0x98, 0x11, 0x69, 0xd9, 0x8e, 0x94, 0x9b, 0x1e, 0x87, 0xe9, 0xce, 0x55, 0x28, 0xdf,
     0x8c, 0xa1, 0x89, 0x0d, 0xbf, 0xe6, 0x42, 0x68, 0x41, 0x99, 0x2d, 0x0f, 0xb0, 0x54, 0xbb, 0x16]"

definition sub_byte :: "byte \<Rightarrow> byte" where
  "sub_byte b = aes_sbox ! unat b"

definition xtime :: "byte \<Rightarrow> byte" where
  "xtime b = (if bit b 7 then push_bit 1 b XOR 0x1b else push_bit 1 b)"

text \<open>The key schedule, as the list of its four-byte words.\<close>

definition key_word :: "bytes list \<Rightarrow> nat \<Rightarrow> bytes" where
  "key_word ws i =
     (let prev = last ws; old = ws ! (i - 8);
          t = (if i mod 8 = 0
               then map2 (XOR) (map sub_byte (tl prev @ [hd prev])) [((xtime ^^ (i div 8 - 1)) 1), 0, 0, 0]
               else if i mod 8 = 4 then map sub_byte prev else prev)
      in map2 (XOR) old t)"

definition key_schedule :: "bytes \<Rightarrow> bytes list" where
  "key_schedule key =
     fold (\<lambda>i ws. ws @ [key_word ws i]) [8..<60] (map (\<lambda>i. take 4 (drop (4 * i) key)) [0..<8])"

definition round_key :: "bytes list \<Rightarrow> nat \<Rightarrow> bytes" where
  "round_key ws r = concat (take 4 (drop (4 * r) ws))"

definition add_round_key :: "bytes \<Rightarrow> bytes \<Rightarrow> bytes" where
  "add_round_key s k = map (\<lambda>i. s ! i XOR k ! i) [0..<16]"

definition shift_rows :: "bytes \<Rightarrow> bytes" where
  "shift_rows s = map (\<lambda>i. s ! ((i + 4 * (i mod 4)) mod 16)) [0..<16]"

definition mix_columns :: "bytes \<Rightarrow> bytes" where
  "mix_columns s =
     map (\<lambda>i. let c = 4 * (i div 4); a = (\<lambda>j. s ! (c + (i + j) mod 4)) in
            xtime (a 0) XOR (xtime (a 1) XOR a 1) XOR a 2 XOR a 3) [0..<16]"

fun aes_rounds :: "bytes list \<Rightarrow> nat \<Rightarrow> nat \<Rightarrow> bytes \<Rightarrow> bytes" where
  "aes_rounds ws r 0 s = s"
| "aes_rounds ws r (Suc k) s =
     aes_rounds ws (r + 1) k (add_round_key (mix_columns (shift_rows (map sub_byte s))) (round_key ws r))"

definition aes256 :: "bytes \<Rightarrow> bytes \<Rightarrow> bytes" where
  "aes256 key block =
     (let ws = key_schedule key in
      add_round_key (shift_rows (map sub_byte
        (aes_rounds ws 1 13 (add_round_key block (round_key ws 0))))) (round_key ws 14))"

section \<open>Galois counter mode\<close>

type_synonym u128 = "128 word"

definition block_word :: "bytes \<Rightarrow> u128" where
  "block_word b = foldl (\<lambda>w x. push_bit 8 w OR ucast x) 0 b"

definition word_block :: "u128 \<Rightarrow> bytes" where
  "word_block w = map (\<lambda>i. ucast (drop_bit (8 * (15 - i)) w)) [0..<16]"

fun gf_mul_bits :: "u128 \<Rightarrow> nat \<Rightarrow> u128 \<Rightarrow> u128 \<Rightarrow> u128" where
  "gf_mul_bits x 0 z v = z"
| "gf_mul_bits x (Suc k) z v =
     gf_mul_bits x k (if bit x k then z XOR v else z)
       (if bit v 0 then drop_bit 1 v XOR push_bit 120 0xE1 else drop_bit 1 v)"

definition gf_mul :: "u128 \<Rightarrow> u128 \<Rightarrow> u128" where
  "gf_mul x y = gf_mul_bits x 128 0 y"

function blocks16 :: "bytes \<Rightarrow> bytes list" where
  "blocks16 b = (if b = [] then [] else (take 16 (b @ replicate 15 0)) # blocks16 (drop 16 b))"
  by auto

termination blocks16
  by (relation "measure length") auto

declare blocks16.simps [simp del]

definition ghash :: "u128 \<Rightarrow> bytes list \<Rightarrow> u128" where
  "ghash h bs = foldl (\<lambda>y b. gf_mul (y XOR block_word b) h) 0 bs"

definition ctr_stream :: "bytes \<Rightarrow> bytes \<Rightarrow> nat \<Rightarrow> bytes" where
  "ctr_stream key nonce n =
     concat (map (\<lambda>i. aes256 key (nonce @ be32 (word_of_nat (i + 2)))) [0..<(n + 15) div 16])"

definition gcm_crypt :: "bytes \<Rightarrow> bytes \<Rightarrow> bytes \<Rightarrow> bytes" where
  "gcm_crypt key nonce b = xor_bytes b (ctr_stream key nonce (length b))"

text \<open>The tag, without additional data.\<close>

definition gcm_tag :: "bytes \<Rightarrow> bytes \<Rightarrow> bytes \<Rightarrow> bytes" where
  "gcm_tag key nonce c =
     (let h = block_word (aes256 key (replicate 16 0));
          len = word_block (push_bit 3 (word_of_nat (length c)))
      in xor_bytes (word_block (ghash h (blocks16 c @ [len]))) (aes256 key (nonce @ be32 1)))"

definition gcm_Seal :: "bytes \<Rightarrow> bytes \<Rightarrow> bytes \<Rightarrow> bytes" where
  "gcm_Seal key nonce plaintext =
     (let c = gcm_crypt key nonce plaintext in c @ gcm_tag key nonce c)"

definition gcm_Open :: "bytes \<Rightarrow> bytes \<Rightarrow> bytes \<Rightarrow> bytes option" where
  "gcm_Open key nonce body =
     (if length body < 16 then None
      else
        let n = length body - 16; c = take n body in
        if drop n body = gcm_tag key nonce c then Some (gcm_crypt key nonce c) else None)"

section \<open>Encrypt and Decrypt\<close>

definition MasterKeyLen :: nat where "MasterKeyLen = 32"

datatype seal_err = KeyLength | NoRandom | BadBase64 | CiphertextTooShort | OpenFailed

text \<open>\<^verbatim>\<open>io.ReadFull(rand.Reader, buf)\<close>: the first \<open>n\<close> bytes of what the source delivers, or an error when
  it fails or runs dry.\<close>

definition read_full :: "nat \<Rightarrow> bytes option \<Rightarrow> bytes option" where
  "read_full n rnd =
     (case rnd of None \<Rightarrow> None | Some r \<Rightarrow> if length r < n then None else Some (take n r))"

definition NewMasterKey :: "bytes option \<Rightarrow> seal_err + bytes" where
  "NewMasterKey rnd =
     (case read_full MasterKeyLen rnd of None \<Rightarrow> Inl NoRandom | Some k \<Rightarrow> Inr k)"

definition Encrypt :: "bytes option \<Rightarrow> bytes \<Rightarrow> bytes \<Rightarrow> seal_err + string" where
  "Encrypt rnd key plaintext =
     (if length key \<noteq> MasterKeyLen then Inl KeyLength
      else case read_full 12 rnd of
        None \<Rightarrow> Inl NoRandom
      | Some nonce \<Rightarrow> Inr (StdEncoding_Encode (nonce @ gcm_Seal key nonce plaintext)))"

definition Decrypt :: "bytes \<Rightarrow> string \<Rightarrow> seal_err + bytes" where
  "Decrypt key b64 =
     (if length key \<noteq> MasterKeyLen then Inl KeyLength
      else case StdEncoding_Decode b64 of
        None \<Rightarrow> Inl BadBase64
      | Some ct \<Rightarrow>
          if length ct < 12 then Inl CiphertextTooShort
          else case gcm_Open key (take 12 ct) (drop 12 ct) of
            None \<Rightarrow> Inl OpenFailed
          | Some pt \<Rightarrow> Inr pt)"

section \<open>Round trips\<close>

lemma b64_val_std: "n < 64 \<Longrightarrow> b64_val (b64_std n) = Some n"
proof -
  assume n: "n < 64"
  have digit: "b64_val (b64_std n) = Some n" if "52 \<le> n" "n < 62"
  proof -
    define m where "m = n - 4"
    have "n = m + 4" "48 \<le> m" "m \<le> 57" using that by (simp_all add: m_def)
    then show ?thesis by (simp add: b64_val_def b64_std_def Let_def)
  qed
  consider "n < 26" | "26 \<le> n \<and> n < 52" | "52 \<le> n \<and> n < 62" | "n = 62" | "n = 63"
    using n by linarith
  then show ?thesis
    by cases (simp_all add: digit, simp_all add: b64_val_def b64_std_def Let_def)
qed

lemma b64_val_eq: "b64_val (CHR ''='') = None"
  by code_simp

lemma b64_std_chars: "n < 64 \<Longrightarrow> b64_std n \<noteq> CHR 0x0A \<and> b64_std n \<noteq> CHR 0x0D"
  using b64_val_std [of n] by (auto simp: b64_val_def)

lemma b64_digits_small:
  fixes a b c :: nat
  assumes "a < 256" "b < 256" "c < 256"
  shows "a div 4 < 64" "a mod 4 * 16 < 64" "a mod 4 * 16 + b div 16 < 64"
    "b mod 16 * 4 < 64" "b mod 16 * 4 + c div 64 < 64" "c mod 64 < 64"
  using assms by linarith+

lemma split_digit:
  fixes x y m :: nat
  assumes "y < m"
  shows "(x * m + y) div m = x" "(x * m + y) mod m = y"
  using assms by simp_all

lemma b64_digits_join:
  fixes a b c :: nat
  assumes "a < 256" "b < 256" "c < 256"
  shows "a div 4 * 4 + (a mod 4 * 16 + b div 16) div 16 = a"
    "(a mod 4 * 16 + b div 16) mod 16 * 16 + (b mod 16 * 4 + c div 64) div 4 = b"
    "(b mod 16 * 4 + c div 64) mod 4 * 64 + c mod 64 = c"
    "a div 4 * 4 + a mod 4 * 16 div 16 = a"
    "(a mod 4 * 16 + b div 16) mod 16 * 16 + b mod 16 * 4 div 4 = b"
proof -
  have small: "b div 16 < 16" "c div 64 < 4" using assms by linarith+
  show "a div 4 * 4 + (a mod 4 * 16 + b div 16) div 16 = a"
    "(a mod 4 * 16 + b div 16) mod 16 * 16 + (b mod 16 * 4 + c div 64) div 4 = b"
    "(b mod 16 * 4 + c div 64) mod 4 * 64 + c mod 64 = c"
    "a div 4 * 4 + a mod 4 * 16 div 16 = a"
    "(a mod 4 * 16 + b div 16) mod 16 * 16 + b mod 16 * 4 div 4 = b"
    unfolding split_digit [OF small(1)] split_digit [OF small(2)] by simp_all
qed

lemma b64_roundtrip:
  "list_all (\<lambda>b. b < 256) bs \<Longrightarrow> b64_groups (b64_encode b64_std True bs) = Some bs"
proof (induction b64_std True bs rule: b64_encode.induct)
  case (2 a)
  then show ?case
    using b64_digits_small [of a 0 0] b64_digits_join [of a 0 0]
    by (simp add: b64_quad_def b64_val_std b64_val_eq)
next
  case (3 a b)
  then show ?case
    using b64_digits_small [of a b 0] b64_digits_join [of a b 0]
    by (simp add: b64_quad_def b64_val_std b64_val_eq)
next
  case (4 a b c bs)
  then show ?case
    using b64_digits_small [of a b c] b64_digits_join [of a b c]
    by (simp add: b64_quad_def b64_val_std)
qed simp

lemma b64_encode_plain:
  "list_all (\<lambda>b. b < 256) bs \<Longrightarrow>
   list_all (\<lambda>c. c \<noteq> CHR 0x0A \<and> c \<noteq> CHR 0x0D) (b64_encode b64_std True bs)"
proof (induction b64_std True bs rule: b64_encode.induct)
  case (2 a)
  then show ?case using b64_digits_small [of a 0 0] by (simp add: b64_std_chars)
next
  case (3 a b)
  then show ?case using b64_digits_small [of a b 0] by (simp add: b64_std_chars)
next
  case (4 a b c bs)
  then show ?case using b64_digits_small [of a b c] by (simp add: b64_std_chars)
qed simp

lemma StdEncoding_roundtrip: "StdEncoding_Decode (StdEncoding_Encode b) = Some b"
proof -
  have "unat x < 256" for x :: byte using unsigned_less [of x] by simp
  then have small: "list_all (\<lambda>b. b < 256) (map unat b)" by (simp add: list_all_iff)
  have "filter (\<lambda>c. c \<notin> {CHR 0x0A, CHR 0x0D}) (StdEncoding_Encode b) = StdEncoding_Encode b"
    using b64_encode_plain [OF small] by (auto simp: StdEncoding_Encode_def list_all_iff intro!: filter_True)
  then have "StdEncoding_Decode (StdEncoding_Encode b) = map_option (map word_of_nat) (Some (map unat b))"
    using b64_roundtrip [OF small] by (simp add: StdEncoding_Decode_def StdEncoding_Encode_def)
  then show ?thesis by (simp add: comp_def)
qed

lemma length_aes256 [simp]: "length (aes256 key block) = 16"
  by (simp add: aes256_def Let_def add_round_key_def)

lemma length_ctr_stream: "length (ctr_stream key nonce n) = 16 * ((n + 15) div 16)"
  by (simp add: ctr_stream_def length_concat comp_def sum_list_triv)

lemma length_gcm_crypt [simp]: "length (gcm_crypt key nonce b) = length b"
proof -
  have "length b \<le> 16 * ((length b + 15) div 16)" by linarith
  then show ?thesis by (simp add: gcm_crypt_def length_ctr_stream)
qed

lemma gcm_crypt_twice: "gcm_crypt key nonce (gcm_crypt key nonce b) = b"
proof -
  have "length b \<le> length (ctr_stream key nonce (length b))"
    unfolding length_ctr_stream by linarith
  then show ?thesis
    using length_gcm_crypt [of key nonce b] by (simp add: gcm_crypt_def xor_bytes_cancel)
qed

lemma length_gcm_tag [simp]: "length (gcm_tag key nonce c) = 16"
  by (simp add: gcm_tag_def Let_def word_block_def)

lemma gcm_Open_Seal: "gcm_Open key nonce (gcm_Seal key nonce pt) = Some pt"
  by (simp add: gcm_Open_def gcm_Seal_def Let_def gcm_crypt_twice)

lemma read_full_length: "read_full n rnd = Some b \<Longrightarrow> length b = n"
  by (auto simp: read_full_def split: option.splits if_splits)

lemma Decrypt_Encrypt:
  assumes "Encrypt rnd key plaintext = Inr s"
  shows "Decrypt key s = Inr plaintext"
proof -
  from assms obtain nonce where "length key = MasterKeyLen" "length nonce = 12"
    "s = StdEncoding_Encode (nonce @ gcm_Seal key nonce plaintext)"
    by (auto simp: Encrypt_def dest: read_full_length split: if_splits option.splits)
  then show ?thesis by (simp add: Decrypt_def StdEncoding_roundtrip gcm_Open_Seal)
qed

lemma Decrypt_Inr:
  assumes "Decrypt key s = Inr pt"
  obtains nonce c where "StdEncoding_Decode s = Some (nonce @ c @ gcm_tag key nonce c)"
    "length nonce = 12" "length key = MasterKeyLen" "pt = gcm_crypt key nonce c"
proof -
  from assms obtain ct where ct: "StdEncoding_Decode s = Some ct" "12 \<le> length ct" "length key = MasterKeyLen"
      "gcm_Open key (take 12 ct) (drop 12 ct) = Some pt"
    by (auto simp: Decrypt_def split: if_splits option.splits)
  define body where "body = drop 12 ct"
  define c where "c = take (length body - 16) body"
  have open_ok: "drop (length body - 16) body = gcm_tag key (take 12 ct) c" "pt = gcm_crypt key (take 12 ct) c"
    using ct(4) by (auto simp: gcm_Open_def Let_def body_def c_def split: if_splits)
  then have "ct = take 12 ct @ c @ gcm_tag key (take 12 ct) c"
    by (metis append_take_drop_id body_def c_def)
  with ct open_ok(2) show thesis by (intro that [of "take 12 ct" c]) simp_all
qed

end
