(* ===== verification/VaultStore.thy ===== *)
theory VaultStore
  imports Sealing Database
begin

text \<open>
  \<^verbatim>\<open>internal/vault/vault.go\<close>: the table of sealed secrets, and the interface \<^verbatim>\<open>SecretWriter\<close> through
  which \<^verbatim>\<open>internal/accounts\<close> uses it, as a locale.  Generating and signing SSH keys is the work of a
  third-party package: the pair that \<^verbatim>\<open>cryptox.NewSSHCA\<close> returns is an argument, and
  \<^verbatim>\<open>IssueSSHCert\<close> is not modelled.
\<close>

section \<open>The vault\<close>

record vault =
  va_MasterKey :: bytes
  va_CAPriv :: bytes

definition seal_error :: "seal_err \<Rightarrow> err" where
  "seal_error e = ErrMsg (case e of
     KeyLength \<Rightarrow> ''cryptox: key must be 32 bytes''
   | NoRandom \<Rightarrow> ''cryptox: read nonce''
   | BadBase64 \<Rightarrow> ''cryptox: decode b64''
   | CiphertextTooShort \<Rightarrow> ''cryptox: ciphertext too short''
   | OpenFailed \<Rightarrow> ''cryptox: gcm open'')"

abbreviation Secret_Get :: sql_stmt where "Secret_Get \<equiv> Stmt ''secrets.get''"
abbreviation Secret_Put :: sql_stmt where "Secret_Put \<equiv> Stmt ''secrets.put''"
abbreviation Secret_List :: sql_stmt where "Secret_List \<equiv> Stmt ''secrets.list''"
abbreviation Secret_Delete :: sql_stmt where "Secret_Delete \<equiv> Stmt ''secrets.delete''"
abbreviation Secret_Insert :: sql_stmt where "Secret_Insert \<equiv> Stmt ''secrets.insert''"

definition insert_secret :: "string \<Rightarrow> string \<Rightarrow> int option \<Rightarrow> pam_db \<Rightarrow> pam_db" where
  "insert_secret name ct due db =
     (bump_seq T_secrets db)\<lparr>secrets := secrets db @
       [\<lparr>se_id = next_id T_secrets db, se_name = name, se_target_id = None, se_ciphertext = ct,
         se_rotation_due = due, se_updated_at = clock db\<rparr>]\<rparr>"

text \<open>\<^verbatim>\<open>INSERT ... ON CONFLICT(name) DO UPDATE\<close>: the row of that name keeps its key and its target.\<close>

definition PutSecret ::
  "vault \<Rightarrow> bytes option \<Rightarrow> string \<Rightarrow> bytes \<Rightarrow> int option \<Rightarrow> pam_db \<Rightarrow> (err + unit) \<times> pam_db" where
  "PutSecret v rnd name plaintext due db =
     (case Encrypt rnd (va_MasterKey v) plaintext of
        Inl e \<Rightarrow> (Inl (seal_error e), db)
      | Inr enc \<Rightarrow>
          if faults db Secret_Put then (Inl (ErrSql Secret_Put), db)
          else if row_by se_name name (secrets db) = None then (Inr (), insert_secret name enc due db)
          else (Inr (), db\<lparr>secrets := update_where (\<lambda>r. se_name r = name)
                  (\<lambda>r. r\<lparr>se_ciphertext := enc, se_rotation_due := due, se_updated_at := clock db\<rparr>)
                  (secrets db)\<rparr>))"

definition GetSecret :: "vault \<Rightarrow> pam_db \<Rightarrow> string \<Rightarrow> err + bytes" where
  "GetSecret v db name =
     (if faults db Secret_Get then Inl (ErrSql Secret_Get)
      else case row_by se_name name (secrets db) of
        None \<Rightarrow> Inl (ErrMsg ''secret not found'')
      | Some r \<Rightarrow>
          (case Decrypt (va_MasterKey v) (se_ciphertext r) of
             Inl e \<Rightarrow> Inl (seal_error e)
           | Inr pt \<Rightarrow> Inr pt))"

definition PublicCAKey :: "pam_db \<Rightarrow> err + bytes" where
  "PublicCAKey db =
     (if faults db Secret_Get then Inl (ErrSql Secret_Get)
      else case row_by se_name ''_ssh_ca_pub'' (secrets db) of
        None \<Rightarrow> Inl ErrNoRows
      | Some r \<Rightarrow> Inr (bytes_of_string (se_ciphertext r)))"

record secret_meta =
  sx_Name :: string
  sx_TargetID :: "int option"
  sx_UpdatedAt :: int
  sx_RotationDue :: "int option"

definition ListSecrets :: "pam_db \<Rightarrow> err + secret_meta list" where
  "ListSecrets db =
     (if faults db Secret_List then Inl (ErrSql Secret_List)
      else Inr (map (\<lambda>r. \<lparr>sx_Name = se_name r, sx_TargetID = se_target_id r,
                           sx_UpdatedAt = se_updated_at r, sx_RotationDue = se_rotation_due r\<rparr>)
             (sort_key se_name (filter (\<lambda>r. se_name r \<notin> {''_ssh_ca'', ''_ssh_ca_pub''}) (secrets db)))))"

definition DeleteSecret :: "string \<Rightarrow> pam_db \<Rightarrow> (err + unit) \<times> pam_db" where
  "DeleteSecret name db =
     (if has_prefix name ''_ssh_ca'' then (Inl (ErrMsg ''cannot delete CA keys''), db)
      else if faults db Secret_Delete then (Inl (ErrSql Secret_Delete), db)
      else if rows_affected (\<lambda>r. se_name r = name) (secrets db) = 0
      then (Inl (ErrMsg ''secret not found''), db)
      else (Inr (), db\<lparr>secrets := delete_where (\<lambda>r. se_name r = name) (secrets db)\<rparr>))"

text \<open>\<open>ca\<close> is the key pair \<^verbatim>\<open>NewSSHCA\<close> generates, \<open>None\<close> when it fails.  Both inserts have the same
  tag; the first may succeed and the second fail only by a name that is taken.\<close>

definition ensureCA ::
  "(bytes \<times> bytes) option \<Rightarrow> bytes option \<Rightarrow> vault \<Rightarrow> pam_db \<Rightarrow> (err + vault) \<times> pam_db" where
  "ensureCA ca rnd v db =
     (if faults db Secret_Get then (Inl (ErrSql Secret_Get), db)
      else case row_by se_name ''_ssh_ca'' (secrets db) of
        Some r \<Rightarrow>
          (case Decrypt (va_MasterKey v) (se_ciphertext r) of
             Inl e \<Rightarrow> (Inl (ErrMsg ''vault: decrypt CA''), db)
           | Inr plain \<Rightarrow> (Inr (v\<lparr>va_CAPriv := plain\<rparr>), db))
      | None \<Rightarrow>
          (case ca of
             None \<Rightarrow> (Inl (ErrMsg ''ssh ca''), db)
           | Some (priv, pub) \<Rightarrow>
               (case Encrypt rnd (va_MasterKey v) priv of
                  Inl e \<Rightarrow> (Inl (seal_error e), db)
                | Inr enc \<Rightarrow>
                    if faults db Secret_Insert then (Inl (ErrSql Secret_Insert), db)
                    else
                      let db1 = insert_secret ''_ssh_ca'' enc None db in
                      if row_by se_name ''_ssh_ca_pub'' (secrets db1) \<noteq> None then (Inl ErrConstraint, db1)
                      else (Inr (v\<lparr>va_CAPriv := priv\<rparr>),
                            insert_secret ''_ssh_ca_pub'' (string_of_bytes pub) None db1))))"

text \<open>\<^verbatim>\<open>vault.New\<close>: the master key of the environment, or a fresh one when it is not set.\<close>

definition vault_New ::
  "string \<Rightarrow> bytes option \<Rightarrow> (bytes \<times> bytes) option \<Rightarrow> bytes option \<Rightarrow> pam_db \<Rightarrow> (err + vault) \<times> pam_db" where
  "vault_New masterKeyB64 rndKey ca rnd db =
     (case (if masterKeyB64 = []
            then (case NewMasterKey rndKey of Inl e \<Rightarrow> Inl (ErrMsg ''cryptox: read random'') | Inr k \<Rightarrow> Inr k)
            else (case StdEncoding_Decode masterKeyB64 of
                    None \<Rightarrow> Inl (ErrMsg ''vault: decode master key'')
                  | Some k \<Rightarrow> if length k \<noteq> MasterKeyLen
                      then Inl (ErrMsg ''vault: master key must be 32 bytes'') else Inr k)) of
        Inl e \<Rightarrow> (Inl e, db)
      | Inr key \<Rightarrow> ensureCA ca rnd \<lparr>va_MasterKey = key, va_CAPriv = []\<rparr> db)"

section \<open>The interface of the accounts\<close>

text \<open>\<^verbatim>\<open>SecretWriter\<close>: what is written under a name is read back under it, and only there.\<close>

locale secret_writer =
  fixes put :: "'r \<Rightarrow> string \<Rightarrow> bytes \<Rightarrow> 's \<Rightarrow> (err + unit) \<times> 's"
    and get :: "'s \<Rightarrow> string \<Rightarrow> err + bytes"
    and readable :: "'s \<Rightarrow> bool"
  assumes put_readable: "put r n x s = (Inr (), s') \<Longrightarrow> readable s \<Longrightarrow> readable s'"
    and put_get: "put r n x s = (Inr (), s') \<Longrightarrow> readable s \<Longrightarrow> get s' n = Inr x"
    and put_other: "put r n x s = (Inr (), s') \<Longrightarrow> m \<noteq> n \<Longrightarrow> get s' m = get s m"
    and put_err: "put r n x s = (Inl e, s') \<Longrightarrow> s' = s"
begin

text \<open>A sequence of writes, each of which may fail and then leaves the store alone: a name holds the value
  of the last write under it that succeeded.\<close>

inductive writes :: "'s \<Rightarrow> (string \<times> bytes) list \<Rightarrow> 's \<Rightarrow> bool" where
  none: "writes s [] s"
| wrote: "writes s ws t \<Longrightarrow> put r n x t = (Inr (), t') \<Longrightarrow> writes s (ws @ [(n, x)]) t'"
| failed: "writes s ws t \<Longrightarrow> put r n x t = (Inl e, t') \<Longrightarrow> writes s ws t'"

lemma writes_readable: "writes s ws t \<Longrightarrow> readable s \<Longrightarrow> readable t"
  by (induction rule: writes.induct) (auto dest: put_readable put_err)

lemma last_write_wins:
  assumes "writes s ws t" "readable s"
  shows "get t m = (case map_of (rev ws) m of Some x \<Rightarrow> Inr x | None \<Rightarrow> get s m)"
  using assms
proof (induction rule: writes.induct)
  case (wrote s ws t r n x t')
  then have "readable t" using writes_readable by blast
  then show ?case
    using wrote put_get [OF wrote.hyps(2)] put_other [OF wrote.hyps(2), of m] by (cases "m = n") auto
next
  case (failed s ws t r n x e t')
  then show ?case by (auto dest: put_err)
qed simp

end

definition secrets_readable :: "pam_db \<Rightarrow> bool" where
  "secrets_readable db = (distinct (map se_name (secrets db)) \<and> \<not> faults db Secret_Get)"

lemma insert_secret_simps [simp]:
  "secrets (insert_secret n ct due db) = secrets db @
     [\<lparr>se_id = next_id T_secrets db, se_name = n, se_target_id = None, se_ciphertext = ct,
       se_rotation_due = due, se_updated_at = clock db\<rparr>]"
  "faults (insert_secret n ct due db) = faults db"
  "clock (insert_secret n ct due db) = clock db"
  by (simp_all add: insert_secret_def bump_seq_def)

lemma row_by_append_other: "f r \<noteq> k \<Longrightarrow> row_by f k (rows @ [r]) = row_by f k rows"
  by (simp add: row_by_def)

text \<open>Writing touches the ciphertext under the name only.\<close>

lemma PutSecret_Inr:
  assumes "PutSecret v rnd n x due db = (Inr (), db')"
  obtains enc where "Encrypt rnd (va_MasterKey v) x = Inr enc"
    "map_option se_ciphertext (row_by se_name n (secrets db')) = Some enc"
    "\<And>m. m \<noteq> n \<Longrightarrow> row_by se_name m (secrets db') = row_by se_name m (secrets db)"
    "faults db' = faults db"
    "distinct (map se_name (secrets db)) \<Longrightarrow> distinct (map se_name (secrets db'))"
proof -
  from assms obtain enc where enc: "Encrypt rnd (va_MasterKey v) x = Inr enc"
    by (auto simp: PutSecret_def split: sum.splits)
  show thesis
  proof (cases "row_by se_name n (secrets db)")
    case None
    then have db': "db' = insert_secret n enc due db"
      using assms enc by (auto simp: PutSecret_def split: if_splits)
    have "n \<notin> se_name ` set (secrets db)" using None by (simp add: row_by_None)
    with enc show thesis
      by (intro that) (auto simp: db' row_by_append_fresh row_by_append_other)
  next
    case (Some r)
    then have db': "db' = db\<lparr>secrets := update_where (\<lambda>r. se_name r = n)
        (\<lambda>r. r\<lparr>se_ciphertext := enc, se_rotation_due := due, se_updated_at := clock db\<rparr>) (secrets db)\<rparr>"
      using assms enc by (auto simp: PutSecret_def split: if_splits)
    have upd: "row_by se_name m (secrets db') = map_option (\<lambda>r. if se_name r = n
        then r\<lparr>se_ciphertext := enc, se_rotation_due := due, se_updated_at := clock db\<rparr> else r)
        (row_by se_name m (secrets db))" for m
      by (simp add: db' row_by_update)
    have "row_by se_name m (secrets db') = row_by se_name m (secrets db)" if "m \<noteq> n" for m
      using that by (cases "row_by se_name m (secrets db)") (auto simp: upd dest: row_by_Some)
    moreover have "map se_name (secrets db') = map se_name (secrets db)"
      by (simp add: db' map_update_where)
    moreover have "se_name r = n" using Some by (auto dest: row_by_Some)
    ultimately show thesis using enc Some upd [of n] by (intro that) (auto simp: db')
  qed
qed

lemma PutSecret_Inl: "PutSecret v rnd n x due db = (Inl e, db') \<Longrightarrow> db' = db"
  by (auto simp: PutSecret_def split: sum.splits if_splits)

interpretation vault: secret_writer "\<lambda>rnd n x. PutSecret v rnd n x due" "GetSecret v" secrets_readable
proof unfold_locales
  fix rnd n x s s'
  assume put: "PutSecret v rnd n x due s = (Inr (), s')"
  show "secrets_readable s \<Longrightarrow> secrets_readable s'"
    using put by (auto simp: secrets_readable_def elim: PutSecret_Inr)
  show "secrets_readable s \<Longrightarrow> GetSecret v s' n = Inr x"
    using put by (auto simp: secrets_readable_def GetSecret_def elim!: PutSecret_Inr dest: Decrypt_Encrypt)
  show "GetSecret v s' m = GetSecret v s m" if "m \<noteq> n" for m
    using put that by (auto simp: GetSecret_def elim!: PutSecret_Inr)
qed (rule PutSecret_Inl)

end
