(* ===== verification/Accounts.thy ===== *)
theory Accounts
  imports Safes VaultStore
begin

text \<open>
  \<^verbatim>\<open>internal/accounts/accounts.go\<close>: privileged accounts, their rotation and the checkouts of their
  passwords, and the rotation pass of \<^verbatim>\<open>cmd/vault-service\<close>.  \<open>privileged_accounts\<close> is UNIQUE in
  (safe, name) and refers to its safe and its target; rotation history cascades with the account,
  checkouts and sessions do not.  Random bytes are arguments; where the code ignores the error of
  the random source the buffer keeps its zeros.
\<close>

section \<open>Data\<close>

record account =
  ac_ID :: int
  ac_SafeID :: int
  ac_SafeName :: string
  ac_Name :: string
  ac_Username :: string
  ac_TargetID :: "int option"
  ac_TargetName :: string
  ac_Platform :: string
  ac_SecretRef :: string
  ac_LastRotated :: "int option"
  ac_NextRotation :: "int option"
  ac_RotationStatus :: string
  ac_RotationError :: string
  ac_Notes :: string
  ac_CreatedAt :: int

abbreviation Acct_List :: sql_stmt where "Acct_List \<equiv> Stmt ''accounts.list''"
abbreviation Acct_Target :: sql_stmt where "Acct_Target \<equiv> Stmt ''accounts.target''"
abbreviation Acct_Get :: sql_stmt where "Acct_Get \<equiv> Stmt ''accounts.get''"
abbreviation Acct_Safe :: sql_stmt where "Acct_Safe \<equiv> Stmt ''accounts.safe''"
abbreviation Acct_Insert :: sql_stmt where "Acct_Insert \<equiv> Stmt ''accounts.insert''"
abbreviation Acct_Update :: sql_stmt where "Acct_Update \<equiv> Stmt ''accounts.update''"
abbreviation Acct_Delete :: sql_stmt where "Acct_Delete \<equiv> Stmt ''accounts.delete''"
abbreviation Acct_Drop_Secret :: sql_stmt where "Acct_Drop_Secret \<equiv> Stmt ''accounts.drop''"
abbreviation Acct_Rotated :: sql_stmt where "Acct_Rotated \<equiv> Stmt ''accounts.rotated''"
abbreviation Acct_Failed :: sql_stmt where "Acct_Failed \<equiv> Stmt ''accounts.failed''"
abbreviation Acct_Log :: sql_stmt where "Acct_Log \<equiv> Stmt ''accounts.log''"
abbreviation Acct_History :: sql_stmt where "Acct_History \<equiv> Stmt ''accounts.history''"
abbreviation Acct_Checkout :: sql_stmt where "Acct_Checkout \<equiv> Stmt ''accounts.checkout''"
abbreviation Acct_Return :: sql_stmt where "Acct_Return \<equiv> Stmt ''accounts.return''"
abbreviation Acct_Checkouts :: sql_stmt where "Acct_Checkouts \<equiv> Stmt ''accounts.checkouts''"
abbreviation Acct_Due :: sql_stmt where "Acct_Due \<equiv> Stmt ''accounts.due''"

section \<open>Queries\<close>

definition target_name :: "pam_db \<Rightarrow> int option \<Rightarrow> string" where
  "target_name db tid =
     (case tid of None \<Rightarrow> []
      | Some i \<Rightarrow> (case row_by t_id i (targets db) of None \<Rightarrow> [] | Some t \<Rightarrow> t_name t))"

text \<open>One row of \<^verbatim>\<open>privileged_accounts JOIN safes LEFT JOIN targets\<close>.\<close>

definition account_of_row :: "pam_db \<Rightarrow> account_row \<Rightarrow> (account \<times> safe_row) option" where
  "account_of_row db a =
     map_option (\<lambda>sf. (\<lparr>ac_ID = pa_id a, ac_SafeID = pa_safe_id a, ac_SafeName = sf_name sf,
        ac_Name = pa_name a, ac_Username = pa_username a, ac_TargetID = pa_target_id a,
        ac_TargetName = target_name db (pa_target_id a), ac_Platform = pa_platform a,
        ac_SecretRef = pa_secret_ref a, ac_LastRotated = pa_last_rotated a,
        ac_NextRotation = pa_next_rotation a, ac_RotationStatus = pa_rotation_status a,
        ac_RotationError = pa_rotation_error a, ac_Notes = pa_notes a,
        ac_CreatedAt = pa_created_at a\<rparr>, sf))
       (row_by sf_id (pa_safe_id a) (safes db))"

definition scanAccounts :: "pam_db \<Rightarrow> account_row list \<Rightarrow> account list" where
  "scanAccounts db rows = map fst (List.map_filter (account_of_row db) rows)"

definition AccountList :: "pam_db \<Rightarrow> int \<Rightarrow> err + account list" where
  "AccountList db safeID =
     (if faults db Acct_List then Inl (ErrSql Acct_List)
      else if 0 < safeID then
        Inr (sort_key ac_Name (filter (\<lambda>a. ac_SafeID a = safeID) (scanAccounts db (privileged_accounts db))))
      else Inr (sort_key (\<lambda>a. (ac_SafeName a, ac_Name a)) (scanAccounts db (privileged_accounts db))))"

definition ErrNoAccountForTarget :: err where
  "ErrNoAccountForTarget = ErrMsg ''no privileged account linked to target''"

definition find_for_target :: "(account_row \<Rightarrow> bool) \<Rightarrow> pam_db \<Rightarrow> int \<Rightarrow> err + account \<times> bool" where
  "find_for_target p db targetID =
     (if faults db Acct_Target then Inl (ErrSql Acct_Target)
      else case first_row (sort_key (\<lambda>(a, _). ac_ID a) (List.map_filter (account_of_row db)
             (filter (\<lambda>a. pa_target_id a = Some targetID \<and> p a) (privileged_accounts db)))) of
        None \<Rightarrow> Inl ErrNoAccountForTarget
      | Some (a, sf) \<Rightarrow> Inr (a, sf_require_dual_control sf \<noteq> 0))"

definition FindPrimaryForTarget :: "pam_db \<Rightarrow> int \<Rightarrow> err + account \<times> bool" where
  "FindPrimaryForTarget = find_for_target (\<lambda>a. pa_platform a = ''windows'' \<or> pa_platform a = ''rdp'')"

definition FindAccountForTarget :: "pam_db \<Rightarrow> int \<Rightarrow> err + account \<times> bool" where
  "FindAccountForTarget = find_for_target (\<lambda>_. True)"

definition AccountGet :: "pam_db \<Rightarrow> int \<Rightarrow> err + account" where
  "AccountGet db i =
     (if faults db Acct_Get then Inl (ErrSql Acct_Get)
      else case scanAccounts db (filter (\<lambda>a. pa_id a = i) (privileged_accounts db)) of
        [] \<Rightarrow> Inl (ErrMsg ''account not found'')
      | a # _ \<Rightarrow> Inr a)"

section \<open>Creation\<close>

record create_input =
  ci_SafeID :: int
  ci_Name :: string
  ci_Username :: string
  ci_TargetID :: "int option"
  ci_Platform :: string
  ci_Password :: string
  ci_Notes :: string

text \<open>\<^verbatim>\<open>safeName\<close> goes over the runes of a UTF-8 string: a continuation byte belongs to the rune of its
  first byte, which becomes one underscore.\<close>

definition safe_char :: "char \<Rightarrow> char option" where
  "safe_char c =
     (let n = (of_char c :: nat) in
      if is_letter c \<or> is_digit c \<or> c \<in> {CHR ''-'', CHR ''_'', CHR ''.'', CHR ''@''} then Some c
      else if 0x80 \<le> n \<and> n < 0xC0 then None
      else Some (CHR ''_''))"

definition safeName :: "string \<Rightarrow> string" where
  "safeName s = List.map_filter safe_char s"

definition generatePassword :: "nat \<Rightarrow> bytes option \<Rightarrow> string" where
  "generatePassword n rnd =
     (let buf = (case rnd of None \<Rightarrow> replicate n 0 | Some r \<Rightarrow> take n (r @ replicate n 0)) in
      take n (URLEncoding_Encode True buf))"

definition recordRotation :: "int \<Rightarrow> string \<Rightarrow> string \<Rightarrow> string \<Rightarrow> pam_db \<Rightarrow> pam_db" where
  "recordRotation i status actor detail db =
     (if faults db Acct_Log \<or> i \<notin> set (map pa_id (privileged_accounts db)) then db
      else (bump_seq T_rotation_history db)\<lparr>rotation_history := rotation_history db @
        [\<lparr>rh_id = next_id T_rotation_history db, rh_account_id = i, rh_ts = clock db, rh_status = status,
          rh_actor = actor, rh_detail = detail\<rparr>]\<rparr>)"

text \<open>Signed 64-bit arithmetic wraps.\<close>

definition wrap64 :: "int \<Rightarrow> int" where
  "wrap64 n = (n + 2 ^ 63) mod 2 ^ 64 - 2 ^ 63"

definition rotation_time :: "int \<Rightarrow> int \<Rightarrow> int" where
  "rotation_time now days = wrap64 (now + wrap64 (days * 86400))"

definition secret_ref :: "string \<Rightarrow> string" where
  "secret_ref name = ''acct/'' @ safeName name"

definition insert_account ::
  "create_input \<Rightarrow> string \<Rightarrow> string \<Rightarrow> int option \<Rightarrow> pam_db \<Rightarrow> (err + int) \<times> pam_db" where
  "insert_account inp platform ref nextRot db =
     (if faults db Acct_Insert then (Inl (ErrSql Acct_Insert), db)
      else if (\<exists>a \<in> set (privileged_accounts db). pa_safe_id a = ci_SafeID inp \<and> pa_name a = ci_Name inp) \<or>
        ci_SafeID inp \<notin> set (map sf_id (safes db)) \<or>
        (case ci_TargetID inp of None \<Rightarrow> False | Some t \<Rightarrow> t \<notin> set (map t_id (targets db)))
      then (Inl ErrConstraint, db)
      else
        let i = next_id T_privileged_accounts db in
        (Inr i, (bump_seq T_privileged_accounts db)\<lparr>privileged_accounts := privileged_accounts db @
          [\<lparr>pa_id = i, pa_safe_id = ci_SafeID inp, pa_name = ci_Name inp,
            pa_username = ci_Username inp, pa_target_id = ci_TargetID inp,
            pa_platform = platform, pa_secret_ref = ref, pa_last_rotated = Some (clock db),
            pa_next_rotation = nextRot, pa_rotation_status = ''ok'',
            pa_rotation_error = [], pa_notes = ci_Notes inp, pa_created_at = clock db\<rparr>]\<rparr>))"

definition AccountCreate ::
  "vault \<Rightarrow> bytes option \<Rightarrow> bytes option \<Rightarrow> create_input \<Rightarrow> pam_db \<Rightarrow> (err + int) \<times> pam_db" where
  "AccountCreate v rndPw rndNonce inp db =
     (if ci_SafeID inp \<le> 0 \<or> ci_Name inp = [] \<or> ci_Username inp = []
      then (Inl (ErrMsg ''safe_id, name, and username are required''), db)
      else
        let platform = default_string ''linux'' (ci_Platform inp) in
        case (if faults db Acct_Safe then None else row_by sf_id (ci_SafeID inp) (safes db)) of
          None \<Rightarrow> (Inl (ErrMsg ''safe not found''), db)
        | Some sf \<Rightarrow>
            let ref = secret_ref (ci_Name inp);
                pw = (if ci_Password inp = [] then generatePassword 28 rndPw else ci_Password inp)
            in case PutSecret v rndNonce ref (bytes_of_string pw) None db of
                 (Inl e, db) \<Rightarrow> (Inl e, db)
               | (Inr _, db) \<Rightarrow>
                   let nextRot = (if sf_cpm_enabled sf \<noteq> 0
                         then Some (rotation_time (clock db) (sf_rotation_days sf)) else None)
                   in case insert_account inp platform ref nextRot db of
                        (Inl e, db) \<Rightarrow> (Inl e, db)
                      | (Inr i, db) \<Rightarrow>
                          (Inr i, recordRotation i ''created'' ''system'' ''Initial password stored'' db))"

text \<open>\<^verbatim>\<open>Update\<close> does not look at the number of rows.\<close>

definition AccountUpdate :: "account \<Rightarrow> pam_db \<Rightarrow> (err + unit) \<times> pam_db" where
  "AccountUpdate a db =
     (if ac_ID a \<le> 0 then (Inl (ErrMsg ''id required''), db)
      else if faults db Acct_Update then (Inl (ErrSql Acct_Update), db)
      else if ac_ID a \<in> set (map pa_id (privileged_accounts db)) \<and>
        (case ac_TargetID a of None \<Rightarrow> False | Some t \<Rightarrow> t \<notin> set (map t_id (targets db)))
      then (Inl ErrConstraint, db)
      else
        (Inr (), db\<lparr>privileged_accounts := update_where (\<lambda>r. pa_id r = ac_ID a)
           (\<lambda>r. r\<lparr>pa_username := ac_Username a, pa_target_id := ac_TargetID a,
                   pa_platform := ac_Platform a, pa_notes := ac_Notes a\<rparr>) (privileged_accounts db)\<rparr>))"

text \<open>The rows that refer to an account without a cascade.\<close>

definition account_in_use :: "pam_db \<Rightarrow> int \<Rightarrow> bool" where
  "account_in_use db i =
     ((\<exists>c \<in> set (credential_checkouts db). co_account_id c = i) \<or>
      (\<exists>s \<in> set (sessions db). ss_account_id s = Some i))"

definition AccountDelete :: "int \<Rightarrow> pam_db \<Rightarrow> (err + unit) \<times> pam_db" where
  "AccountDelete i db =
     (case AccountGet db i of
        Inl e \<Rightarrow> (Inl e, db)
      | Inr acct \<Rightarrow>
          if faults db Acct_Delete then (Inl (ErrSql Acct_Delete), db)
          else if account_in_use db i then (Inl ErrConstraint, db)
          else
            let db = db\<lparr>privileged_accounts := delete_where (\<lambda>a. pa_id a = i) (privileged_accounts db),
                       rotation_history := delete_where (\<lambda>h. rh_account_id h = i) (rotation_history db)\<rparr>
            in if faults db Acct_Drop_Secret then (Inl (ErrSql Acct_Drop_Secret), db)
               else (Inr (), db\<lparr>secrets := delete_where (\<lambda>r. se_name r = ac_SecretRef acct) (secrets db)\<rparr>))"

section \<open>Rotation\<close>

definition err_text :: "err \<Rightarrow> string" where
  "err_text e = (case e of ErrMsg m \<Rightarrow> m | ErrNoRows \<Rightarrow> ''sql: no rows in result set''
     | ErrConstraint \<Rightarrow> ''constraint failed'' | ErrSql _ \<Rightarrow> ''database error'')"

definition markRotationFailed :: "int \<Rightarrow> string \<Rightarrow> string \<Rightarrow> pam_db \<Rightarrow> pam_db" where
  "markRotationFailed i actor detail db =
     recordRotation i ''failed'' actor detail
       (if faults db Acct_Failed then db
        else db\<lparr>privileged_accounts := update_where (\<lambda>r. pa_id r = i)
               (\<lambda>r. r\<lparr>pa_rotation_status := ''failed'', pa_rotation_error := detail\<rparr>)
               (privileged_accounts db)\<rparr>)"

text \<open>The error of the lookup of the safe is dropped: then \<open>rotDays\<close> stays 0.\<close>

definition AccountRotate ::
  "vault \<Rightarrow> bytes option \<Rightarrow> bytes option \<Rightarrow> int \<Rightarrow> string \<Rightarrow> pam_db \<Rightarrow> (err + unit) \<times> pam_db" where
  "AccountRotate v rndPw rndNonce i actor db =
     (case AccountGet db i of
        Inl e \<Rightarrow> (Inl e, db)
      | Inr acct \<Rightarrow>
          (case PutSecret v rndNonce (ac_SecretRef acct) (bytes_of_string (generatePassword 28 rndPw)) None db of
             (Inl e, db) \<Rightarrow> (Inl e, markRotationFailed i actor (err_text e) db)
           | (Inr _, db) \<Rightarrow>
               let now = clock db;
                   days = (if faults db Acct_Safe then 0
                           else case row_by sf_id (ac_SafeID acct) (safes db) of
                             None \<Rightarrow> 0 | Some sf \<Rightarrow> sf_rotation_days sf);
                   next = rotation_time now (rotation_or_default days)
               in if faults db Acct_Rotated then (Inl (ErrSql Acct_Rotated), db)
                  else (Inr (), recordRotation i ''ok'' actor ''Password rotated and vaulted''
                    (db\<lparr>privileged_accounts := update_where (\<lambda>r. pa_id r = i)
                       (\<lambda>r. r\<lparr>pa_last_rotated := Some now, pa_next_rotation := Some next,
                               pa_rotation_status := ''ok'', pa_rotation_error := []\<rparr>)
                       (privileged_accounts db)\<rparr>))))"

definition clamp_limit :: "int \<Rightarrow> int \<Rightarrow> int \<Rightarrow> int" where
  "clamp_limit hi d limit = (if limit \<le> 0 \<or> hi < limit then d else limit)"

definition History :: "pam_db \<Rightarrow> int \<Rightarrow> int \<Rightarrow> err + rotation_row list" where
  "History db accountID limit =
     (if faults db Acct_History then Inl (ErrSql Acct_History)
      else Inr (take (nat (clamp_limit 200 50 limit)) (sort_key (\<lambda>h. - rh_ts h)
             (filter (\<lambda>h. rh_account_id h = accountID) (rotation_history db)))))"

text \<open>The accounts whose rotation is due, and one round of \<^verbatim>\<open>runCPM\<close>; \<open>rnds\<close> delivers the random bytes
  of the password and the nonce of each rotation.\<close>

definition AccountsDue :: "pam_db \<Rightarrow> err + account list" where
  "AccountsDue db =
     (if faults db Acct_Due then Inl (ErrSql Acct_Due)
      else Inr (map fst (sort_key (\<lambda>(a, _). the (ac_NextRotation a))
             (filter (\<lambda>(a, sf). sf_cpm_enabled sf = 1 \<and>
                (case ac_NextRotation a of None \<Rightarrow> False | Some t \<Rightarrow> t \<le> clock db))
               (List.map_filter (account_of_row db) (privileged_accounts db))))))"

fun rotate_all :: "vault \<Rightarrow> (int \<Rightarrow> bytes option \<times> bytes option) \<Rightarrow> account list \<Rightarrow> pam_db \<Rightarrow> pam_db" where
  "rotate_all v rnds [] db = db"
| "rotate_all v rnds (a # as) db =
     rotate_all v rnds as (snd (AccountRotate v (fst (rnds (ac_ID a))) (snd (rnds (ac_ID a)))
       (ac_ID a) ''cpm-worker'' db))"

definition cpm_round :: "vault \<Rightarrow> (int \<Rightarrow> bytes option \<times> bytes option) \<Rightarrow> pam_db \<Rightarrow> pam_db" where
  "cpm_round v rnds db =
     (case AccountsDue db of Inl _ \<Rightarrow> db | Inr due \<Rightarrow> rotate_all v rnds due db)"

section \<open>Checkouts\<close>

record checkout_result =
  cr_Password :: string
  cr_CheckoutID :: int
  cr_BreakGlass :: bool

definition Checkout ::
  "vault \<Rightarrow> int \<Rightarrow> int \<Rightarrow> string \<Rightarrow> bool \<Rightarrow> pam_db \<Rightarrow> (err + checkout_result) \<times> pam_db" where
  "Checkout v accountID userID reason breakGlass db =
     (case AccountGet db accountID of
        Inl e \<Rightarrow> (Inl e, db)
      | Inr acct \<Rightarrow>
          (case GetSecret v db (ac_SecretRef acct) of
             Inl e \<Rightarrow> (Inl e, db)
           | Inr pw \<Rightarrow>
               if faults db Acct_Checkout then (Inl (ErrSql Acct_Checkout), db)
               else if userID \<notin> set (map u_id (users db)) then (Inl ErrConstraint, db)
               else
                 let i = next_id T_credential_checkouts db in
                 (Inr \<lparr>cr_Password = string_of_bytes pw, cr_CheckoutID = i, cr_BreakGlass = breakGlass\<rparr>,
                  (bump_seq T_credential_checkouts db)\<lparr>credential_checkouts := credential_checkouts db @
                    [\<lparr>co_id = i, co_account_id = accountID, co_user_id = userID,
                      co_checked_out_at = clock db, co_returned_at = None, co_reason = reason,
                      co_break_glass = boolInt breakGlass\<rparr>]\<rparr>)))"

definition CheckoutReturn :: "int \<Rightarrow> pam_db \<Rightarrow> (err + unit) \<times> pam_db" where
  "CheckoutReturn i db =
     (if faults db Acct_Return then (Inl (ErrSql Acct_Return), db)
      else (Inr (), db\<lparr>credential_checkouts :=
             update_where (\<lambda>c. co_id c = i \<and> co_returned_at c = None)
               (\<lambda>c. c\<lparr>co_returned_at := Some (clock db)\<rparr>) (credential_checkouts db)\<rparr>))"

record checkout_view =
  cv_Row :: checkout_row
  cv_AccountName :: string
  cv_Username :: string

definition ListCheckouts :: "pam_db \<Rightarrow> int \<Rightarrow> int \<Rightarrow> err + checkout_view list" where
  "ListCheckouts db userID limit =
     (if faults db Acct_Checkouts then Inl (ErrSql Acct_Checkouts)
      else Inr (take (nat (clamp_limit 500 100 limit)) (List.map_filter (\<lambda>c.
             case (row_by pa_id (co_account_id c) (privileged_accounts db), row_by u_id (co_user_id c) (users db)) of
               (Some a, Some u) \<Rightarrow> Some \<lparr>cv_Row = c, cv_AccountName = pa_name a, cv_Username = u_username u\<rparr>
             | _ \<Rightarrow> None)
           (sort_key (\<lambda>c. - co_checked_out_at c)
             (filter (\<lambda>c. 0 < userID \<longrightarrow> co_user_id c = userID) (credential_checkouts db))))))"

end
