(* ===== verification/Ccp.thy ===== *)
theory Ccp
  imports Accounts GoNet
begin

text \<open>
  \<^verbatim>\<open>internal/ccp/ccp.go\<close>, the provider through which applications fetch passwords with an API key,
  and the handler of \<^verbatim>\<open>GET /ccp/accounts\<close> in \<^verbatim>\<open>cmd/vault-service\<close>.  Keys are stored as SHA-256
  hashes.  A query without \<^verbatim>\<open>ORDER BY\<close> is read in rowid order.
\<close>

section \<open>Applications\<close>

record app =
  ax_ID :: int
  ax_Name :: string
  ax_SafeID :: "int option"
  ax_SafeName :: string
  ax_AllowedAccounts :: string
  ax_ClientIPAllow :: string
  ax_Enabled :: bool
  ax_LastUsed :: "int option"
  ax_CreatedAt :: int

record create_result =
  cx_ID :: int
  cx_APIKey :: string

abbreviation App_List :: sql_stmt where "App_List \<equiv> Stmt ''ccp.list''"
abbreviation App_Insert :: sql_stmt where "App_Insert \<equiv> Stmt ''ccp.insert''"
abbreviation App_Update :: sql_stmt where "App_Update \<equiv> Stmt ''ccp.update''"
abbreviation App_Rotate :: sql_stmt where "App_Rotate \<equiv> Stmt ''ccp.rotate''"
abbreviation App_Delete :: sql_stmt where "App_Delete \<equiv> Stmt ''ccp.delete''"
abbreviation App_Auth :: sql_stmt where "App_Auth \<equiv> Stmt ''ccp.auth''"
abbreviation App_Used :: sql_stmt where "App_Used \<equiv> Stmt ''ccp.used''"
abbreviation App_Lookup :: sql_stmt where "App_Lookup \<equiv> Stmt ''ccp.lookup''"

definition hex_EncodeToString :: "bytes \<Rightarrow> string" where
  "hex_EncodeToString b =
     concat (map (\<lambda>x. [hex_digit (unat x div 16), hex_digit (unat x mod 16)]) b)"

definition hashAPIKey :: "string \<Rightarrow> string" where
  "hashAPIKey plain = hex_EncodeToString (sha256 (bytes_of_string plain))"

text \<open>The error of the random source is dropped: then the buffer keeps its zeros.\<close>

definition newAPIKey :: "bytes option \<Rightarrow> string \<times> string" where
  "newAPIKey rnd =
     (let buf = (case rnd of None \<Rightarrow> replicate 32 0 | Some r \<Rightarrow> take 32 (r @ replicate 32 0));
          plain = ''pam_'' @ URLEncoding_Encode False buf
      in (plain, hashAPIKey plain))"

definition app_of_row :: "pam_db \<Rightarrow> app_row \<Rightarrow> app" where
  "app_of_row db a =
     \<lparr>ax_ID = ap_id a, ax_Name = ap_name a, ax_SafeID = ap_safe_id a,
      ax_SafeName = (case ap_safe_id a of None \<Rightarrow> []
        | Some i \<Rightarrow> (case row_by sf_id i (safes db) of None \<Rightarrow> [] | Some sf \<Rightarrow> sf_name sf)),
      ax_AllowedAccounts = ap_allowed_accounts a, ax_ClientIPAllow = ap_client_ip_allow a,
      ax_Enabled = (ap_enabled a \<noteq> 0), ax_LastUsed = ap_last_used a, ax_CreatedAt = ap_created_at a\<rparr>"

definition AppList :: "pam_db \<Rightarrow> err + app list" where
  "AppList db =
     (if faults db App_List then Inl (ErrSql App_List)
      else Inr (map (app_of_row db) (sort_key ap_name (app_credentials db))))"

definition no_such_safe :: "pam_db \<Rightarrow> int option \<Rightarrow> bool" where
  "no_such_safe db sid = (case sid of None \<Rightarrow> False | Some i \<Rightarrow> i \<notin> set (map sf_id (safes db)))"

definition AppCreate :: "bytes option \<Rightarrow> app \<Rightarrow> pam_db \<Rightarrow> (err + create_result) \<times> pam_db" where
  "AppCreate rnd a db =
     (let name = trim_space (ax_Name a) in
      if name = [] then (Inl (ErrMsg ''application name required''), db)
      else
        let (plain, hash) = newAPIKey rnd in
        if faults db App_Insert then (Inl (ErrSql App_Insert), db)
        else if name \<in> set (map ap_name (app_credentials db)) \<or> no_such_safe db (ax_SafeID a)
        then (Inl ErrConstraint, db)
        else
          let i = next_id T_app_credentials db in
          (Inr \<lparr>cx_ID = i, cx_APIKey = plain\<rparr>,
           (bump_seq T_app_credentials db)\<lparr>app_credentials := app_credentials db @
             [\<lparr>ap_id = i, ap_name = name, ap_api_key_hash = hash, ap_safe_id = ax_SafeID a,
               ap_allowed_accounts = ax_AllowedAccounts a, ap_client_ip_allow = ax_ClientIPAllow a,
               ap_enabled = boolInt (ax_Enabled a), ap_last_used = None,
               ap_created_at = clock db\<rparr>]\<rparr>))"

definition AppUpdate :: "app \<Rightarrow> pam_db \<Rightarrow> (err + unit) \<times> pam_db" where
  "AppUpdate a db =
     (if ax_ID a \<le> 0 then (Inl (ErrMsg ''id required''), db)
      else if faults db App_Update then (Inl (ErrSql App_Update), db)
      else if ax_ID a \<in> set (map ap_id (app_credentials db)) \<and> no_such_safe db (ax_SafeID a)
      then (Inl ErrConstraint, db)
      else
        (Inr (), db\<lparr>app_credentials := update_where (\<lambda>r. ap_id r = ax_ID a)
           (\<lambda>r. r\<lparr>ap_safe_id := ax_SafeID a, ap_allowed_accounts := ax_AllowedAccounts a,
                   ap_client_ip_allow := ax_ClientIPAllow a, ap_enabled := boolInt (ax_Enabled a)\<rparr>)
           (app_credentials db)\<rparr>))"

definition AppRotate :: "bytes option \<Rightarrow> int \<Rightarrow> pam_db \<Rightarrow> (err + create_result) \<times> pam_db" where
  "AppRotate rnd i db =
     (let (plain, hash) = newAPIKey rnd in
      if faults db App_Rotate then (Inl (ErrSql App_Rotate), db)
      else if rows_affected (\<lambda>r. ap_id r = i) (app_credentials db) = 0
      then (Inl (ErrMsg ''app not found''), db)
      else
        (Inr \<lparr>cx_ID = i, cx_APIKey = plain\<rparr>,
         db\<lparr>app_credentials := update_where (\<lambda>r. ap_id r = i) (\<lambda>r. r\<lparr>ap_api_key_hash := hash\<rparr>)
              (app_credentials db)\<rparr>))"

definition AppDelete :: "int \<Rightarrow> pam_db \<Rightarrow> (err + unit) \<times> pam_db" where
  "AppDelete i db =
     (if faults db App_Delete then (Inl (ErrSql App_Delete), db)
      else (Inr (), db\<lparr>app_credentials := delete_where (\<lambda>r. ap_id r = i) (app_credentials db)\<rparr>))"

section \<open>Authentication\<close>

definition ip_entry_matches :: "bytes \<Rightarrow> string \<Rightarrow> bool" where
  "ip_entry_matches ip e =
     (let p = trim_space e in
      if p = [] then False
      else if CHR ''/'' \<notin> set p then ip_String ip = p
      else (case ParseCIDR p of None \<Rightarrow> False | Some cidr \<Rightarrow> Contains cidr ip))"

definition ipAllowed :: "string \<Rightarrow> string \<Rightarrow> bool" where
  "ipAllowed client csv =
     (if client = [] then False
      else
        let host = (case split_host client of None \<Rightarrow> client | Some h \<Rightarrow> h) in
        case ParseIP host of
          None \<Rightarrow> False
        | Some ip \<Rightarrow> list_ex (ip_entry_matches ip) (split_on (CHR '','') csv))"

text \<open>The update of \<open>last_used\<close> is best effort.\<close>

definition touch_app :: "int \<Rightarrow> pam_db \<Rightarrow> pam_db" where
  "touch_app i db =
     (if faults db App_Used then db
      else db\<lparr>app_credentials := update_where (\<lambda>r. ap_id r = i)
             (\<lambda>r. r\<lparr>ap_last_used := Some (clock db)\<rparr>) (app_credentials db)\<rparr>)"

definition Authenticate :: "string \<Rightarrow> string \<Rightarrow> pam_db \<Rightarrow> (err + app) \<times> pam_db" where
  "Authenticate apiKey clientIP db =
     (if apiKey = [] then (Inl (ErrMsg ''missing X-API-Key header''), db)
      else if faults db App_Auth then (Inl (ErrSql App_Auth), db)
      else case row_by ap_api_key_hash (hashAPIKey apiKey) (app_credentials db) of
        None \<Rightarrow> (Inl (ErrMsg ''invalid api key''), db)
      | Some r \<Rightarrow>
          let a = app_of_row db r in
          if \<not> ax_Enabled a then (Inl (ErrMsg ''application disabled''), db)
          else if ax_ClientIPAllow a \<noteq> [] \<and> \<not> ipAllowed clientIP (ax_ClientIPAllow a)
          then (Inl (ErrMsg ''client IP not allowed''), db)
          else (Inr a, touch_app (ax_ID a) db))"

definition AccountAllowed :: "app \<Rightarrow> int \<Rightarrow> string \<Rightarrow> bool" where
  "AccountAllowed a accountID accountName =
     (if ax_AllowedAccounts a = [] \<or> ax_AllowedAccounts a = ''*'' then True
      else list_ex (\<lambda>e. let p = trim_space e in
             p \<noteq> [] \<and> (p = string_of_int accountID \<or> to_lower p = to_lower accountName))
           (split_on (CHR '','') (ax_AllowedAccounts a)))"

section \<open>Fetching a password\<close>

definition lookupAccount :: "pam_db \<Rightarrow> string \<Rightarrow> int option \<Rightarrow> err + account" where
  "lookupAccount db q safeID =
     (case parse_int64 q of
        Some i \<Rightarrow> AccountGet db i
      | None \<Rightarrow>
          (case (if faults db App_Lookup then None
                 else first_row (filter (\<lambda>a. pa_name a = q \<and>
                   (case safeID of None \<Rightarrow> True | Some s \<Rightarrow> pa_safe_id a = s)) (privileged_accounts db))) of
             None \<Rightarrow> Inl (ErrMsg ''account not found'')
           | Some a \<Rightarrow> AccountGet db (pa_id a)))"

record ccp_answer =
  ca_account_id :: int
  ca_account_name :: string
  ca_username :: string
  ca_safe :: string
  ca_password :: string
  ca_app :: string

text \<open>The handler: an error with its HTTP status, or the answer.\<close>

definition ccp_accounts ::
  "vault \<Rightarrow> string \<Rightarrow> string \<Rightarrow> string \<Rightarrow> pam_db \<Rightarrow> ((nat \<times> err) + ccp_answer) \<times> pam_db" where
  "ccp_accounts v apiKey remoteAddr acctQ db =
     (case Authenticate apiKey remoteAddr db of
        (Inl e, db) \<Rightarrow> (Inl (401, e), db)
      | (Inr app, db) \<Rightarrow>
          if acctQ = [] then (Inl (400, ErrMsg ''account query parameter required''), db)
          else (case lookupAccount db acctQ (ax_SafeID app) of
            Inl e \<Rightarrow> (Inl (404, e), db)
          | Inr acct \<Rightarrow>
              if \<not> AccountAllowed app (ac_ID acct) (ac_Name acct)
              then (Inl (403, ErrMsg ''account not in app allowlist''), db)
              else (case GetSecret v db (ac_SecretRef acct) of
                Inl e \<Rightarrow> (Inl (500, e), db)
              | Inr pw \<Rightarrow>
                  (Inr \<lparr>ca_account_id = ac_ID acct, ca_account_name = ac_Name acct,
                        ca_username = ac_Username acct, ca_safe = ac_SafeName acct,
                        ca_password = string_of_bytes pw, ca_app = ax_Name app\<rparr>, db))))"

end
