(* ===== verification/CredentialTables.thy ===== *)
theory CredentialTables
  imports Ccp KeyedStore
begin

text \<open>
  The tables behind safes, accounts, checkouts, secrets and applications: the safes as a keyed store,
  the invariant that keeps all of them referentially intact, and its preservation by every operation
  of \<^verbatim>\<open>internal/safes\<close>, \<^verbatim>\<open>internal/accounts\<close>, \<^verbatim>\<open>internal/vault\<close> and \<^verbatim>\<open>internal/ccp\<close>, the failing
  statements included.
\<close>

section \<open>The table of safes as a keyed store\<close>

interpretation safe_store: keyed_store safes sf_id "\<lambda>db. seq db T_safes" SafeCreate SafeUpdate SafeDelete
proof unfold_locales
  show "i = seq s T_safes + 1 \<and> seq s' T_safes = i \<and> (\<exists>r. sf_id r = i \<and> safes s' = safes s @ [r])"
    if "SafeCreate a s = (Inr i, s')" for a s i s'
    using that by (auto simp: SafeCreate_def Let_def next_id_def bump_seq_def split: if_splits)
  show "map sf_id (safes s') = map sf_id (safes s) \<and> seq s' T_safes = seq s T_safes"
    if "SafeUpdate a s = (Inr u, s')" for a s u s'
    using that by (auto simp: SafeUpdate_def split: if_splits)
  show "i \<in> sf_id ` set (safes s) \<and> safes s' = delete_where (\<lambda>r. sf_id r = i) (safes s) \<and>
      seq s' T_safes = seq s T_safes"
    if "SafeDelete i s = (Inr u, s')" for i s u s'
    using that by (auto simp: SafeDelete_def Let_def split: if_splits)
qed (auto simp: SafeCreate_def SafeUpdate_def SafeDelete_def Let_def split: if_splits)

section \<open>The invariant\<close>

definition member_key :: "safe_member_row \<Rightarrow> int \<times> string \<times> int" where
  "member_key m = (sm_safe_id m, sm_principal_type m, sm_principal_id m)"

definition account_key :: "account_row \<Rightarrow> int \<times> string" where
  "account_key a = (pa_safe_id a, pa_name a)"

definition in_table :: "int list \<Rightarrow> int option \<Rightarrow> bool" where
  "in_table ids i = (case i of None \<Rightarrow> True | Some k \<Rightarrow> k \<in> set ids)"

definition safes_ok :: "pam_db \<Rightarrow> bool" where
  "safes_ok db \<longleftrightarrow>
     table_ok safes sf_id (\<lambda>db. seq db T_safes) db \<and>
     distinct (map sf_name (safes db)) \<and> [] \<notin> sf_name ` set (safes db) \<and>
     distinct (map member_key (safe_members db)) \<and>
     sm_safe_id ` set (safe_members db) \<subseteq> sf_id ` set (safes db)"

definition accounts_ok :: "pam_db \<Rightarrow> bool" where
  "accounts_ok db \<longleftrightarrow>
     table_ok privileged_accounts pa_id (\<lambda>db. seq db T_privileged_accounts) db \<and>
     distinct (map account_key (privileged_accounts db)) \<and>
     pa_safe_id ` set (privileged_accounts db) \<subseteq> sf_id ` set (safes db) \<and>
     list_all (in_table (map t_id (targets db))) (map pa_target_id (privileged_accounts db))"

definition history_ok :: "pam_db \<Rightarrow> bool" where
  "history_ok db \<longleftrightarrow>
     rh_account_id ` set (rotation_history db) \<subseteq> pa_id ` set (privileged_accounts db)"

definition checkouts_ok :: "pam_db \<Rightarrow> bool" where
  "checkouts_ok db \<longleftrightarrow>
     table_ok credential_checkouts co_id (\<lambda>db. seq db T_credential_checkouts) db \<and>
     co_account_id ` set (credential_checkouts db) \<subseteq> pa_id ` set (privileged_accounts db) \<and>
     co_user_id ` set (credential_checkouts db) \<subseteq> u_id ` set (users db)"

definition apps_ok :: "pam_db \<Rightarrow> bool" where
  "apps_ok db \<longleftrightarrow>
     table_ok app_credentials ap_id (\<lambda>db. seq db T_app_credentials) db \<and>
     distinct (map ap_name (app_credentials db)) \<and>
     list_all (in_table (map sf_id (safes db))) (map ap_safe_id (app_credentials db))"

definition secrets_ok :: "pam_db \<Rightarrow> bool" where
  "secrets_ok db \<longleftrightarrow>
     table_ok secrets se_id (\<lambda>db. seq db T_secrets) db \<and> distinct (map se_name (secrets db))"

definition credentials_ok :: "pam_db \<Rightarrow> bool" where
  "credentials_ok db \<longleftrightarrow>
     safes_ok db \<and> accounts_ok db \<and> history_ok db \<and> checkouts_ok db \<and> apps_ok db \<and> secrets_ok db"

lemmas credential_parts = safes_ok_def accounts_ok_def history_ok_def checkouts_ok_def apps_ok_def
  secrets_ok_def table_ok_def

lemma credentials_ok_empty: "credentials_ok empty_db"
  by (simp add: credentials_ok_def credential_parts empty_db_def keys_ok_def)

section \<open>Steps on one table\<close>

text \<open>A row appended under the next key.\<close>

lemma table_ok_append:
  assumes "0 \<le> hi \<and> keys_ok (map f rows) hi" "f r = hi + 1"
  shows "0 \<le> hi + 1 \<and> keys_ok (map f (rows @ [r])) (hi + 1)"
  using assms keys_ok_snoc [of "map f rows" hi] by simp

lemma image_update_where:
  assumes "\<And>r. g (f r) = g r"
  shows "g ` set (update_where p f rows) = g ` set rows"
  using map_update_where [of g f p rows] assms by (metis list.set_map)

lemma image_delete_where: "f ` set (delete_where (\<lambda>r. f r = i) rows) = f ` set rows - {i}"
  by auto

text \<open>Rows that only change in columns outside the keys.\<close>

lemma credentials_ok_account_update:
  assumes "\<And>r. pa_id (f r) = pa_id r" "\<And>r. account_key (f r) = account_key r"
    "\<And>r. pa_target_id (f r) = pa_target_id r" "credentials_ok db"
  shows "credentials_ok (db\<lparr>privileged_accounts := update_where p f (privileged_accounts db)\<rparr>)"
proof -
  have "pa_safe_id (f r) = pa_safe_id r" for r using assms(2) [of r] by (simp add: account_key_def)
  with assms show ?thesis
    by (simp add: credentials_ok_def credential_parts image_update_where)
qed

lemma credentials_ok_environment: "credentials_ok db \<Longrightarrow> credentials_ok (db\<lparr>clock := c, faults := f\<rparr>)"
  by (simp add: credentials_ok_def credential_parts)

section \<open>Safes\<close>

lemma SafeCreate_keeps: "credentials_ok db \<Longrightarrow> credentials_ok (snd (SafeCreate sf db))"
  using safe_store.create_keeps [of db sf]
  by (auto simp: credentials_ok_def credential_parts SafeCreate_def Let_def bump_seq_def list_all_iff
      in_table_def split: option.splits)

lemma SafeUpdate_keeps: "credentials_ok db \<Longrightarrow> credentials_ok (snd (SafeUpdate sf db))"
  by (simp add: credentials_ok_def credential_parts SafeUpdate_def image_update_where)

lemma credentials_ok_safe_delete:
  assumes ok: "credentials_ok db" and free: "\<not> safe_in_use db i"
  shows "credentials_ok (db\<lparr>safes := delete_where (\<lambda>r. sf_id r = i) (safes db),
    safe_members := delete_where (\<lambda>m. sm_safe_id m = i) (safe_members db)\<rparr>)"
proof -
  let ?db = "db\<lparr>safes := delete_where (\<lambda>r. sf_id r = i) (safes db),
    safe_members := delete_where (\<lambda>m. sm_safe_id m = i) (safe_members db)\<rparr>"
  have "safes_ok ?db"
    using ok by (auto simp: credentials_ok_def safes_ok_def table_ok_def keys_ok_delete
        distinct_map_delete_where)
  moreover have "accounts_ok ?db" "apps_ok ?db"
    using ok free unfolding credentials_ok_def accounts_ok_def apps_ok_def table_ok_def
    by (auto simp: image_delete_where safe_in_use_def list_all_iff in_table_def split: option.splits simp del: set_delete_where)
  moreover have "history_ok ?db" "checkouts_ok ?db" "secrets_ok ?db"
    using ok by (simp_all add: credentials_ok_def credential_parts)
  ultimately show ?thesis by (simp add: credentials_ok_def)
qed

lemma SafeDelete_keeps: "credentials_ok db \<Longrightarrow> credentials_ok (snd (SafeDelete i db))"
  by (auto simp: SafeDelete_def Let_def intro: credentials_ok_safe_delete)

lemma SafeAddMember_keeps: "credentials_ok db \<Longrightarrow> credentials_ok (snd (SafeAddMember i t p perms db))"
proof -
  assume ok: "credentials_ok db"
  have keys: "member_key (m\<lparr>sm_permissions := q\<rparr>) = member_key m" for m q by (simp add: member_key_def)
  have "\<not> (\<exists>m \<in> set (safe_members db). is_member i t p m) \<Longrightarrow>
      (i, t, p) \<notin> member_key ` set (safe_members db)"
    by (auto simp: member_key_def is_member_def)
  with ok keys show ?thesis
    by (auto simp: credentials_ok_def credential_parts SafeAddMember_def Let_def image_update_where
        member_key_def)
qed

lemma SafeRemoveMember_keeps: "credentials_ok db \<Longrightarrow> credentials_ok (snd (SafeRemoveMember i t p db))"
  by (auto simp: credentials_ok_def credential_parts SafeRemoveMember_def distinct_map_delete_where)

section \<open>Secrets\<close>

lemma credentials_ok_secrets:
  assumes "credentials_ok db" "secrets_ok (db\<lparr>seq := (seq db)(T_secrets := n), secrets := rows\<rparr>)"
  shows "credentials_ok (db\<lparr>seq := (seq db)(T_secrets := n), secrets := rows\<rparr>)"
  using assms by (simp add: credentials_ok_def credential_parts)

lemma insert_secret_keeps:
  assumes ok: "credentials_ok db" and fresh: "row_by se_name n (secrets db) = None"
  shows "credentials_ok (insert_secret n ct due db)"
proof -
  have "secrets_ok (insert_secret n ct due db)"
    using ok fresh keys_ok_snoc [of "map se_id (secrets db)" "seq db T_secrets"]
    by (simp add: credentials_ok_def secrets_ok_def table_ok_def insert_secret_def bump_seq_def next_id_def row_by_None)
  then show ?thesis
    using credentials_ok_secrets [OF ok, where rows = "secrets (insert_secret n ct due db)" and n = "seq db T_secrets + 1"]
    by (simp add: insert_secret_def bump_seq_def)
qed

lemma credentials_ok_secret_rows:
  assumes "credentials_ok db" "secrets_ok (db\<lparr>secrets := rows\<rparr>)"
  shows "credentials_ok (db\<lparr>secrets := rows\<rparr>)"
  using assms credentials_ok_secrets [where db = db and rows = rows and n = "seq db T_secrets"] by simp

lemma secrets_ok_delete: "secrets_ok db \<Longrightarrow> secrets_ok (db\<lparr>secrets := delete_where p (secrets db)\<rparr>)"
  by (simp add: secrets_ok_def table_ok_def keys_ok_delete distinct_map_delete_where)

lemma PutSecret_keeps: "credentials_ok db \<Longrightarrow> credentials_ok (snd (PutSecret v rnd n x due db))"
proof -
  assume ok: "credentials_ok db"
  have "secrets_ok (db\<lparr>secrets := update_where (\<lambda>r. se_name r = n)
      (\<lambda>r. r\<lparr>se_ciphertext := ct, se_rotation_due := due, se_updated_at := clock db\<rparr>) (secrets db)\<rparr>)" for ct
    using ok by (simp add: credentials_ok_def secrets_ok_def table_ok_def)
  with ok show ?thesis
    by (auto simp: PutSecret_def insert_secret_keeps intro: credentials_ok_secret_rows split: sum.splits)
qed

lemma credentials_ok_secret_delete:
  "credentials_ok db \<Longrightarrow> credentials_ok (db\<lparr>secrets := delete_where p (secrets db)\<rparr>)"
  by (rule credentials_ok_secret_rows) (simp_all add: secrets_ok_delete credentials_ok_def)

lemma DeleteSecret_keeps: "credentials_ok db \<Longrightarrow> credentials_ok (snd (DeleteSecret n db))"
  by (simp add: DeleteSecret_def credentials_ok_secret_delete)

section \<open>Accounts\<close>

lemma recordRotation_keeps: "credentials_ok db \<Longrightarrow> credentials_ok (recordRotation i st actor d db)"
  by (auto simp: recordRotation_def bump_seq_def credentials_ok_def credential_parts)

lemma markRotationFailed_keeps: "credentials_ok db \<Longrightarrow> credentials_ok (markRotationFailed i actor d db)"
  by (simp add: markRotationFailed_def recordRotation_keeps credentials_ok_account_update account_key_def)

lemma account_append_keeps:
  assumes ok: "credentials_ok db" and r: "pa_id r = seq db T_privileged_accounts + 1"
    "account_key r \<notin> account_key ` set (privileged_accounts db)" "pa_safe_id r \<in> sf_id ` set (safes db)"
    "in_table (map t_id (targets db)) (pa_target_id r)"
  shows "credentials_ok ((bump_seq T_privileged_accounts db)\<lparr>privileged_accounts := privileged_accounts db @ [r]\<rparr>)"
    (is "credentials_ok ?db")
proof -
  have "accounts_ok ?db"
    using ok r keys_ok_snoc [of "map pa_id (privileged_accounts db)" "seq db T_privileged_accounts"]
    by (simp add: credentials_ok_def accounts_ok_def table_ok_def bump_seq_def)
  moreover have "safes_ok ?db \<and> history_ok ?db \<and> checkouts_ok ?db \<and> apps_ok ?db \<and> secrets_ok ?db"
    using ok by (auto simp: credentials_ok_def safes_ok_def history_ok_def checkouts_ok_def apps_ok_def
        secrets_ok_def table_ok_def bump_seq_def)
  ultimately show ?thesis by (simp add: credentials_ok_def)
qed

lemma insert_account_keeps:
  "credentials_ok db \<Longrightarrow> credentials_ok (snd (insert_account inp platform ref nextRot db))"
  by (auto simp: insert_account_def Let_def account_key_def in_table_def next_id_def
      intro!: account_append_keeps simp del: map_append split: option.splits)

lemma in_table_dangling:
  "in_table ids i \<longleftrightarrow> \<not> (case i of None \<Rightarrow> False | Some k \<Rightarrow> k \<notin> set ids)"
  by (simp add: in_table_def split: option.splits)

lemma PutSecret_frame:
  "privileged_accounts (snd (PutSecret v rnd n x due db)) = privileged_accounts db"
  "safes (snd (PutSecret v rnd n x due db)) = safes db"
  "targets (snd (PutSecret v rnd n x due db)) = targets db"
  "users (snd (PutSecret v rnd n x due db)) = users db"
  "clock (snd (PutSecret v rnd n x due db)) = clock db"
  "faults (snd (PutSecret v rnd n x due db)) = faults db"
  "seq (snd (PutSecret v rnd n x due db)) T_privileged_accounts = seq db T_privileged_accounts"
  by (simp_all add: PutSecret_def insert_secret_def bump_seq_def split: sum.splits)

lemma AccountCreate_keeps: "credentials_ok db \<Longrightarrow> credentials_ok (snd (AccountCreate v r1 r2 inp db))"
proof -
  assume ok: "credentials_ok db"
  have put: "credentials_ok db1" if "PutSecret v r2 ref pw None db = (res, db1)" for ref pw res db1
    using PutSecret_keeps [OF ok, of v r2 ref pw None] that by simp
  have ins: "credentials_ok db2"
    if "PutSecret v r2 ref pw None db = (res, db1)" "insert_account inp platform ref nextRot db1 = (res2, db2)"
    for ref pw res db1 platform nextRot res2 db2
    using insert_account_keeps [OF put, of ref pw res db1 inp platform ref nextRot] that by simp
  show ?thesis
    by (auto simp: AccountCreate_def Let_def ok split: option.splits prod.splits sum.splits
        intro: put ins intro!: recordRotation_keeps)
qed

lemma AccountUpdate_keeps: "credentials_ok db \<Longrightarrow> credentials_ok (snd (AccountUpdate a db))"
proof -
  assume ok: "credentials_ok db"
  let ?db = "db\<lparr>privileged_accounts := update_where (\<lambda>r. pa_id r = ac_ID a) (\<lambda>r. r\<lparr>pa_username := ac_Username a,
    pa_target_id := ac_TargetID a, pa_platform := ac_Platform a, pa_notes := ac_Notes a\<rparr>) (privileged_accounts db)\<rparr>"
  have "accounts_ok ?db"
    if "\<forall>r \<in> set (privileged_accounts db). pa_id r = ac_ID a \<longrightarrow> in_table (map t_id (targets db)) (ac_TargetID a)"
    using ok that
    by (auto simp: credentials_ok_def accounts_ok_def table_ok_def image_update_where account_key_def
        list_all_iff set_update_where)
  moreover have "safes_ok ?db \<and> history_ok ?db \<and> checkouts_ok ?db \<and> apps_ok ?db \<and> secrets_ok ?db"
    using ok by (simp add: credentials_ok_def safes_ok_def history_ok_def checkouts_ok_def
        apps_ok_def secrets_ok_def table_ok_def image_update_where)
  ultimately have upd: "credentials_ok ?db"
    if "\<forall>r \<in> set (privileged_accounts db). pa_id r = ac_ID a \<longrightarrow> in_table (map t_id (targets db)) (ac_TargetID a)"
    using that by (simp add: credentials_ok_def)
  let ?dangling = "case ac_TargetID a of None \<Rightarrow> False | Some t \<Rightarrow> t \<notin> set (map t_id (targets db))"
  show ?thesis
  proof (cases "ac_ID a \<in> set (map pa_id (privileged_accounts db)) \<and> ?dangling")
    case True
    with ok show ?thesis by (simp add: AccountUpdate_def)
  next
    case False
    then have "credentials_ok ?db"
      by (intro upd) (auto simp: in_table_dangling image_iff)
    with False ok show ?thesis by (simp add: AccountUpdate_def)
  qed
qed

lemma credentials_ok_account_delete:
  assumes ok: "credentials_ok db" and free: "\<not> account_in_use db i"
  shows "credentials_ok (db\<lparr>privileged_accounts := delete_where (\<lambda>a. pa_id a = i) (privileged_accounts db),
    rotation_history := delete_where (\<lambda>h. rh_account_id h = i) (rotation_history db)\<rparr>)" (is "credentials_ok ?db")
proof -
  have "accounts_ok ?db"
    using ok by (auto simp: credentials_ok_def accounts_ok_def table_ok_def keys_ok_delete
        distinct_map_delete_where list_all_iff)
  moreover have "history_ok ?db"
    using ok by (auto simp: credentials_ok_def history_ok_def)
  moreover have "checkouts_ok ?db"
    using ok free by (auto simp: credentials_ok_def checkouts_ok_def account_in_use_def table_ok_def
        image_delete_where simp del: set_delete_where)
  moreover have "safes_ok ?db" "apps_ok ?db" "secrets_ok ?db"
    using ok by (simp_all add: credentials_ok_def safes_ok_def apps_ok_def secrets_ok_def table_ok_def)
  ultimately show ?thesis by (simp add: credentials_ok_def)
qed

lemma AccountDelete_keeps: "credentials_ok db \<Longrightarrow> credentials_ok (snd (AccountDelete i db))"
proof -
  assume ok: "credentials_ok db"
  let ?db = "db\<lparr>privileged_accounts := delete_where (\<lambda>a. pa_id a = i) (privileged_accounts db),
    rotation_history := delete_where (\<lambda>h. rh_account_id h = i) (rotation_history db)\<rparr>"
  show ?thesis
    using ok credentials_ok_account_delete [OF ok, of i]
      credentials_ok_secret_delete [of ?db]
    by (auto simp: AccountDelete_def Let_def split: sum.splits)
qed

lemma AccountRotate_keeps: "credentials_ok db \<Longrightarrow> credentials_ok (snd (AccountRotate v r1 r2 i actor db))"
proof -
  assume ok: "credentials_ok db"
  have put: "credentials_ok db1" if "PutSecret v r2 ref pw None db = (res, db1)" for ref pw res db1
    using PutSecret_keeps [OF ok, of v r2 ref pw None] that by simp
  show ?thesis
    by (auto simp: AccountRotate_def Let_def ok account_key_def split: prod.splits sum.splits
        intro!: recordRotation_keeps markRotationFailed_keeps credentials_ok_account_update intro: put)
qed

lemma rotate_all_keeps: "credentials_ok db \<Longrightarrow> credentials_ok (rotate_all v rnds as db)"
  by (induction as arbitrary: db) (simp_all add: AccountRotate_keeps)

lemma cpm_round_keeps: "credentials_ok db \<Longrightarrow> credentials_ok (cpm_round v rnds db)"
  by (simp add: cpm_round_def rotate_all_keeps split: sum.splits)

section \<open>Checkouts\<close>

lemma scanAccounts_mem:
  "acct \<in> set (scanAccounts db rows) \<Longrightarrow> \<exists>a \<in> set rows. \<exists>sf. account_of_row db a = Some (acct, sf)"
  by (fastforce simp: scanAccounts_def map_filter_def)

lemma AccountGet_row:
  assumes "AccountGet db i = Inr acct"
  obtains a sf where "a \<in> set (privileged_accounts db)" "pa_id a = i" "account_of_row db a = Some (acct, sf)"
proof -
  have "acct \<in> set (scanAccounts db (filter (\<lambda>a. pa_id a = i) (privileged_accounts db)))"
    using assms by (auto simp: AccountGet_def split: if_splits list.splits)
  from scanAccounts_mem [OF this] show thesis using that by auto
qed

lemma AccountGet_mem: "AccountGet db i = Inr acct \<Longrightarrow> i \<in> pa_id ` set (privileged_accounts db)"
  by (erule AccountGet_row) auto

lemma Checkout_keeps: "credentials_ok db \<Longrightarrow> credentials_ok (snd (Checkout v i u reason bg db))"
proof -
  assume ok: "credentials_ok db"
  let ?db = "\<lambda>r. (bump_seq T_credential_checkouts db)\<lparr>credential_checkouts := credential_checkouts db @ [r]\<rparr>"
  have "checkouts_ok (?db r)"
    if "co_id r = seq db T_credential_checkouts + 1" "co_account_id r \<in> pa_id ` set (privileged_accounts db)"
      "co_user_id r \<in> u_id ` set (users db)" for r
    using ok that keys_ok_snoc [of "map co_id (credential_checkouts db)" "seq db T_credential_checkouts"]
    by (simp add: credentials_ok_def checkouts_ok_def table_ok_def bump_seq_def)
  moreover have "safes_ok (?db r) \<and> accounts_ok (?db r) \<and> history_ok (?db r) \<and> apps_ok (?db r) \<and> secrets_ok (?db r)" for r
    using ok by (simp add: credentials_ok_def safes_ok_def accounts_ok_def history_ok_def apps_ok_def
        secrets_ok_def table_ok_def bump_seq_def)
  ultimately show ?thesis
    using ok by (auto simp: Checkout_def Let_def credentials_ok_def next_id_def simp del: map_append
        dest: AccountGet_mem split: sum.splits)
qed

lemma CheckoutReturn_keeps: "credentials_ok db \<Longrightarrow> credentials_ok (snd (CheckoutReturn i db))"
  by (simp add: CheckoutReturn_def credentials_ok_def credential_parts image_update_where)

section \<open>Applications\<close>

lemma app_rows_keep:
  assumes ok: "credentials_ok db" and "apps_ok (db\<lparr>app_credentials := rows\<rparr>)"
  shows "credentials_ok (db\<lparr>app_credentials := rows\<rparr>)"
  using assms by (simp add: credentials_ok_def safes_ok_def accounts_ok_def history_ok_def checkouts_ok_def
      secrets_ok_def table_ok_def)

lemma no_such_safe_iff: "no_such_safe db i \<longleftrightarrow> \<not> in_table (map sf_id (safes db)) i"
  by (simp add: no_such_safe_def in_table_def split: option.splits)

lemma AppCreate_keeps: "credentials_ok db \<Longrightarrow> credentials_ok (snd (AppCreate rnd a db))"
proof -
  assume ok: "credentials_ok db"
  let ?db = "\<lambda>r. (bump_seq T_app_credentials db)\<lparr>app_credentials := app_credentials db @ [r]\<rparr>"
  have "apps_ok (?db r)"
    if "ap_id r = seq db T_app_credentials + 1" "ap_name r \<notin> ap_name ` set (app_credentials db)"
      "in_table (map sf_id (safes db)) (ap_safe_id r)" for r
    using ok that keys_ok_snoc [of "map ap_id (app_credentials db)" "seq db T_app_credentials"]
    by (simp add: credentials_ok_def apps_ok_def table_ok_def bump_seq_def)
  moreover have "safes_ok (?db r) \<and> accounts_ok (?db r) \<and> history_ok (?db r) \<and> checkouts_ok (?db r) \<and> secrets_ok (?db r)" for r
    using ok by (simp add: credentials_ok_def safes_ok_def accounts_ok_def history_ok_def checkouts_ok_def
        secrets_ok_def table_ok_def bump_seq_def)
  ultimately show ?thesis
    using ok by (simp add: AppCreate_def Let_def credentials_ok_def next_id_def no_such_safe_iff split: prod.splits)
qed

lemma AppUpdate_keeps: "credentials_ok db \<Longrightarrow> credentials_ok (snd (AppUpdate a db))"
proof -
  assume ok: "credentials_ok db"
  let ?rows = "update_where (\<lambda>r. ap_id r = ax_ID a) (\<lambda>r. r\<lparr>ap_safe_id := ax_SafeID a,
    ap_allowed_accounts := ax_AllowedAccounts a, ap_client_ip_allow := ax_ClientIPAllow a,
    ap_enabled := boolInt (ax_Enabled a)\<rparr>) (app_credentials db)"
  have "credentials_ok (db\<lparr>app_credentials := ?rows\<rparr>)"
    if "ax_ID a \<notin> set (map ap_id (app_credentials db)) \<or> \<not> no_such_safe db (ax_SafeID a)"
    using ok that
    by (intro app_rows_keep) (auto simp: credentials_ok_def apps_ok_def table_ok_def list_all_iff
        set_update_where no_such_safe_iff image_iff)
  with ok show ?thesis by (auto simp: AppUpdate_def)
qed

lemma AppRotate_keeps: "credentials_ok db \<Longrightarrow> credentials_ok (snd (AppRotate rnd i db))"
proof -
  assume ok: "credentials_ok db"
  have "credentials_ok (db\<lparr>app_credentials := update_where (\<lambda>r. ap_id r = i)
      (\<lambda>r. r\<lparr>ap_api_key_hash := hash\<rparr>) (app_credentials db)\<rparr>)" for hash
    using ok by (intro app_rows_keep) (simp_all add: credentials_ok_def apps_ok_def table_ok_def)
  with ok show ?thesis by (simp add: AppRotate_def Let_def split: prod.splits)
qed

lemma AppDelete_keeps: "credentials_ok db \<Longrightarrow> credentials_ok (snd (AppDelete i db))"
proof -
  assume ok: "credentials_ok db"
  have "credentials_ok (db\<lparr>app_credentials := delete_where (\<lambda>r. ap_id r = i) (app_credentials db)\<rparr>)"
    using ok by (intro app_rows_keep) (auto simp: credentials_ok_def apps_ok_def table_ok_def keys_ok_delete
        distinct_map_delete_where list_all_iff)
  with ok show ?thesis by (simp add: AppDelete_def)
qed

lemma touch_app_keeps: "credentials_ok db \<Longrightarrow> credentials_ok (touch_app i db)"
proof -
  assume ok: "credentials_ok db"
  have "credentials_ok (db\<lparr>app_credentials := update_where (\<lambda>r. ap_id r = i)
      (\<lambda>r. r\<lparr>ap_last_used := Some (clock db)\<rparr>) (app_credentials db)\<rparr>)"
    using ok by (intro app_rows_keep) (simp_all add: credentials_ok_def apps_ok_def table_ok_def)
  with ok show ?thesis by (simp add: touch_app_def)
qed

lemma ccp_accounts_keeps: "credentials_ok db \<Longrightarrow> credentials_ok (snd (ccp_accounts v k ip q db))"
  by (auto simp: ccp_accounts_def Authenticate_def Let_def touch_app_keeps split: option.splits prod.splits sum.splits)

section \<open>Runs\<close>

text \<open>Any sequence of operations; between them the clock moves and the environment decides anew which
  statements fail.\<close>

inductive cred_run :: "vault \<Rightarrow> pam_db \<Rightarrow> pam_db \<Rightarrow> bool" for v where
  start: "cred_run v s s"
| environment: "cred_run v s t \<Longrightarrow> cred_run v s (t\<lparr>clock := c, faults := f\<rparr>)"
| safe_create: "cred_run v s t \<Longrightarrow> cred_run v s (snd (SafeCreate sf t))"
| safe_update: "cred_run v s t \<Longrightarrow> cred_run v s (snd (SafeUpdate sf t))"
| safe_delete: "cred_run v s t \<Longrightarrow> cred_run v s (snd (SafeDelete i t))"
| member_add: "cred_run v s t \<Longrightarrow> cred_run v s (snd (SafeAddMember i ty p perms t))"
| member_remove: "cred_run v s t \<Longrightarrow> cred_run v s (snd (SafeRemoveMember i ty p t))"
| secret_put: "cred_run v s t \<Longrightarrow> cred_run v s (snd (PutSecret v rnd n x due t))"
| secret_delete: "cred_run v s t \<Longrightarrow> cred_run v s (snd (DeleteSecret n t))"
| account_create: "cred_run v s t \<Longrightarrow> cred_run v s (snd (AccountCreate v r1 r2 inp t))"
| account_update: "cred_run v s t \<Longrightarrow> cred_run v s (snd (AccountUpdate a t))"
| account_delete: "cred_run v s t \<Longrightarrow> cred_run v s (snd (AccountDelete i t))"
| account_rotate: "cred_run v s t \<Longrightarrow> cred_run v s (snd (AccountRotate v r1 r2 i actor t))"
| cpm: "cred_run v s t \<Longrightarrow> cred_run v s (cpm_round v rnds t)"
| checkout: "cred_run v s t \<Longrightarrow> cred_run v s (snd (Checkout v i u reason bg t))"
| checkin: "cred_run v s t \<Longrightarrow> cred_run v s (snd (CheckoutReturn i t))"
| app_create: "cred_run v s t \<Longrightarrow> cred_run v s (snd (AppCreate rnd ap t))"
| app_update: "cred_run v s t \<Longrightarrow> cred_run v s (snd (AppUpdate ap t))"
| app_rotate: "cred_run v s t \<Longrightarrow> cred_run v s (snd (AppRotate rnd i t))"
| app_delete: "cred_run v s t \<Longrightarrow> cred_run v s (snd (AppDelete i t))"
| app_fetch: "cred_run v s t \<Longrightarrow> cred_run v s (snd (ccp_accounts v k ip q t))"

lemmas keeps_credentials = credentials_ok_environment SafeCreate_keeps SafeUpdate_keeps SafeDelete_keeps
  SafeAddMember_keeps SafeRemoveMember_keeps PutSecret_keeps DeleteSecret_keeps AccountCreate_keeps
  AccountUpdate_keeps AccountDelete_keeps AccountRotate_keeps cpm_round_keeps Checkout_keeps
  CheckoutReturn_keeps AppCreate_keeps AppUpdate_keeps AppRotate_keeps AppDelete_keeps ccp_accounts_keeps

text \<open>C30: Over every run of the operations of safes, accounts, secrets and applications the tables keep
  distinct keys and names and every account, history entry, checkout, member and application refers to
  rows that exist, whichever statements fail.\<close>

theorem credential_tables_invariant:
  assumes "cred_run v s t" "credentials_ok s"
  shows "credentials_ok t"
  using assms by (induction rule: cred_run.induct) (simp_all add: keeps_credentials)

lemma credential_tables_invariant_witness:
  "credentials_ok (snd (SafeCreate \<lparr>sa_ID = 0, sa_Name = ''prod'', sa_Description = [], sa_CPMEnabled = True,
     sa_RotationDays = 30, sa_RequireDualControl = False, sa_CreatedAt = 0, sa_Accounts = 0, sa_Members = 0\<rparr>
     empty_db))"
  by (rule credential_tables_invariant [where v = "\<lparr>va_MasterKey = [], va_CAPriv = []\<rparr>",
        OF cred_run.safe_create [OF cred_run.start] credentials_ok_empty])

end
