(* ===== verification/CredentialSpec.thy ===== *)
theory CredentialSpec
  imports CredentialTables
begin

text \<open>
  What the vault, the accounts and the credential provider promise: sealed values come back as they
  were and a name holds the value written last, a rotated password is the one that is checked out,
  the rotation worker leaves nothing due, the provider releases a password only to an application that
  may have it; and where the code falls short of that.
\<close>

section \<open>The vault\<close>


lemma Encrypt_ok:
  "length key = 32 \<Longrightarrow> length nonce = 12 \<Longrightarrow>
   Encrypt (Some nonce) key pt = Inr (StdEncoding_Encode (nonce @ gcm_Seal key nonce pt))"
  by (simp add: Encrypt_def MasterKeyLen_def read_full_def)

lemma PutSecret_succeeds:
  assumes "length (va_MasterKey v) = 32" "length n = 12" "faults db = (\<lambda>_. False)"
  shows "\<exists>t. PutSecret v (Some n) name x due db = (Inr (), t)"
proof -
  have "fst (PutSecret v (Some n) name x due db) = Inr ()"
    using assms by (simp add: PutSecret_def Encrypt_ok)
  then show ?thesis by (metis prod.collapse)
qed


text \<open>C32: The vault is a map: after any sequence of writes, some of which may fail, a name reads as the value
  of the last successful write under it, and every other name as before.\<close>

theorem vault_last_write_wins:
  assumes "vault.writes v due s ws t" "secrets_readable s"
  shows "GetSecret v t name =
    (case map_of (rev ws) name of Some x \<Rightarrow> Inr x | None \<Rightarrow> GetSecret v s name)"
  using assms by (rule vault.last_write_wins)

definition demo_vault :: vault where
  "demo_vault = \<lparr>va_MasterKey = replicate 32 7, va_CAPriv = []\<rparr>"

definition demo_nonce :: bytes where
  "demo_nonce = replicate 12 1"

lemma demo_put: "fst (PutSecret demo_vault (Some demo_nonce) n x due db) = (if faults db Secret_Put then Inl (ErrSql Secret_Put) else Inr ())"
  by (simp add: PutSecret_def demo_vault_def demo_nonce_def Encrypt_ok)

lemma demo_put_ok:
  "\<not> faults db Secret_Put \<Longrightarrow>
   PutSecret demo_vault (Some demo_nonce) n x due db = (Inr (), snd (PutSecret demo_vault (Some demo_nonce) n x due db))"
  using demo_put [of n x due db] by (metis prod.collapse)

lemma vault_last_write_wins_witness:
  "GetSecret demo_vault (snd (PutSecret demo_vault (Some demo_nonce) ''a'' [2] None
     (snd (PutSecret demo_vault (Some demo_nonce) ''a'' [1] None empty_db)))) ''a'' = Inr [2]"
proof -
  let ?db1 = "snd (PutSecret demo_vault (Some demo_nonce) ''a'' [1] None empty_db)"
  let ?db2 = "snd (PutSecret demo_vault (Some demo_nonce) ''a'' [2] None ?db1)"
  have "\<not> faults empty_db Secret_Put" "\<not> faults ?db1 Secret_Put"
    by (simp_all add: PutSecret_frame empty_db_def)
  then have "vault.writes demo_vault None empty_db ([(''a'', [1])] @ [(''a'', [2])]) ?db2"
    using vault.wrote [OF vault.wrote [OF vault.none demo_put_ok] demo_put_ok] by fastforce
  moreover have "secrets_readable empty_db"
    by (simp add: secrets_readable_def empty_db_def)
  ultimately show ?thesis
    using vault_last_write_wins by fastforce
qed

section \<open>Reading an account\<close>

lemma account_of_row_accounts [simp]:
  "account_of_row (db\<lparr>privileged_accounts := rows\<rparr>) = account_of_row db"
  by (rule ext) (simp add: account_of_row_def target_name_def cong: option.case_cong)

lemma account_of_row_cong:
  assumes "safes t = safes s" "targets t = targets s"
  shows "account_of_row t = account_of_row s"
proof -
  have "target_name t = target_name s"
    by (rule ext) (simp add: target_name_def assms(2) cong: option.case_cong)
  then show ?thesis using assms by (simp add: account_of_row_def [abs_def])
qed

lemma AccountGet_cong:
  assumes "privileged_accounts t = privileged_accounts s" "safes t = safes s" "targets t = targets s"
    "faults t = faults s"
  shows "AccountGet t i = AccountGet s i"
  using assms account_of_row_cong [OF assms(2,3)] by (simp add: AccountGet_def scanAccounts_def)

lemma GetSecret_cong: "secrets t = secrets s \<Longrightarrow> faults t = faults s \<Longrightarrow> GetSecret v t n = GetSecret v s n"
  by (simp add: GetSecret_def)

lemma recordRotation_frame [simp]:
  "privileged_accounts (recordRotation i st actor d db) = privileged_accounts db"
  "safes (recordRotation i st actor d db) = safes db"
  "targets (recordRotation i st actor d db) = targets db"
  "users (recordRotation i st actor d db) = users db"
  "secrets (recordRotation i st actor d db) = secrets db"
  "faults (recordRotation i st actor d db) = faults db"
  "clock (recordRotation i st actor d db) = clock db"
  by (simp_all add: recordRotation_def bump_seq_def)

text \<open>The secret of an account is its reference; no update of a row changes it.\<close>

definition account_ref :: "pam_db \<Rightarrow> int \<Rightarrow> string option" where
  "account_ref db i = (case AccountGet db i of Inl _ \<Rightarrow> None | Inr a \<Rightarrow> Some (ac_SecretRef a))"

lemma map_filter_update_where:
  "(\<And>r. g (f r) = g r) \<Longrightarrow> List.map_filter g (update_where p f rows) = List.map_filter g rows"
  by (induction rows) (simp_all add: update_where_def map_filter_simps split: option.splits)

lemma scan_refs:
  "map ac_SecretRef (scanAccounts db rows) =
     List.map_filter (\<lambda>r. map_option (\<lambda>(a, _). ac_SecretRef a) (account_of_row db r)) rows"
  by (induction rows) (auto simp: scanAccounts_def map_filter_simps split: option.splits)

lemma scan_refs_update:
  assumes "\<And>r. pa_id (f r) = pa_id r" "\<And>r. pa_safe_id (f r) = pa_safe_id r"
    "\<And>r. pa_secret_ref (f r) = pa_secret_ref r"
  shows "map ac_SecretRef (scanAccounts db (filter (\<lambda>a. pa_id a = i) (update_where p f rows))) =
    map ac_SecretRef (scanAccounts db (filter (\<lambda>a. pa_id a = i) rows))"
proof -
  have "map_option (\<lambda>(a, _). ac_SecretRef a) (account_of_row db (f r)) =
      map_option (\<lambda>(a, _). ac_SecretRef a) (account_of_row db r)" for r
    using assms by (simp add: account_of_row_def option.map_comp comp_def)
  then show ?thesis
    by (simp add: scan_refs filter_update_where assms map_filter_update_where)
qed

lemma account_ref_update:
  assumes "\<And>r. pa_id (f r) = pa_id r" "\<And>r. pa_safe_id (f r) = pa_safe_id r"
    "\<And>r. pa_secret_ref (f r) = pa_secret_ref r"
  shows "account_ref (db\<lparr>privileged_accounts := update_where p f (privileged_accounts db)\<rparr>) i = account_ref db i"
proof -
  have *: "account_ref db i = (if faults db Acct_Get then None
      else first_row (map ac_SecretRef (scanAccounts db (filter (\<lambda>a. pa_id a = i) (privileged_accounts db)))))" for db
    by (simp add: account_ref_def AccountGet_def first_row_def split: list.splits)
  have scan: "scanAccounts (db\<lparr>privileged_accounts := rows\<rparr>) = scanAccounts db" for rows
    by (rule ext) (simp add: scanAccounts_def)
  show ?thesis
    using scan_refs_update [of f db i p "privileged_accounts db"] assms by (simp add: * scan)
qed

lemma account_ref_cong:
  assumes "privileged_accounts t = privileged_accounts s" "safes t = safes s" "targets t = targets s"
    "faults t = faults s"
  shows "account_ref t i = account_ref s i"
  using AccountGet_cong [OF assms] by (simp add: account_ref_def)

lemma account_ref_get: "AccountGet db i = Inr a \<Longrightarrow> account_ref db i = Some (ac_SecretRef a)"
  by (simp add: account_ref_def)

lemma account_ref_Some: "account_ref db i = Some ref \<Longrightarrow> \<exists>a. AccountGet db i = Inr a \<and> ac_SecretRef a = ref"
  by (auto simp: account_ref_def split: sum.splits)

section \<open>Rotation\<close>

text \<open>The state that a rotation leaves, by how far it came.\<close>

lemma AccountRotate_written:
  assumes get: "AccountGet db i = Inr acct"
    and put: "PutSecret v rn (ac_SecretRef acct) (bytes_of_string (generatePassword 28 rp)) None db = (Inr (), db1)"
    and rot: "AccountRotate v rp rn i actor db = (res, db2)"
  shows "secrets db2 = secrets db1" "faults db2 = faults db" "users db2 = users db"
    "account_ref db2 j = account_ref db j"
    "res = (if faults db Acct_Rotated then Inl (ErrSql Acct_Rotated) else Inr ())"
proof -
  have frame: "privileged_accounts db1 = privileged_accounts db" "safes db1 = safes db" "targets db1 = targets db"
      "users db1 = users db" "faults db1 = faults db"
    using PutSecret_frame [of v rn "ac_SecretRef acct" "bytes_of_string (generatePassword 28 rp)" None db] put
    by simp_all
  note rot' = rot [unfolded AccountRotate_def get sum.case put prod.case Let_def]
  show "secrets db2 = secrets db1" "faults db2 = faults db" "users db2 = users db"
    "res = (if faults db Acct_Rotated then Inl (ErrSql Acct_Rotated) else Inr ())"
    using rot' frame by (auto split: if_splits)
  show "account_ref db2 j = account_ref db j"
  proof (cases "faults db Acct_Rotated")
    case True
    then have "db2 = db1" using rot' frame by simp
    then show ?thesis using frame by (auto intro: account_ref_cong)
  next
    case False
    obtain f p where db2: "db2 = recordRotation i ''ok'' actor ''Password rotated and vaulted''
        (db1\<lparr>privileged_accounts := update_where p f (privileged_accounts db1)\<rparr>)"
      and f: "\<And>r. pa_id (f r) = pa_id r \<and> pa_safe_id (f r) = pa_safe_id r \<and> pa_secret_ref (f r) = pa_secret_ref r"
    proof -
      define f where "f n = (\<lambda>r :: account_row. r\<lparr>pa_last_rotated := Some (clock db1), pa_next_rotation := Some n,
        pa_rotation_status := ''ok'', pa_rotation_error := []\<rparr>)" for n
      obtain n where "db2 = recordRotation i ''ok'' actor ''Password rotated and vaulted''
          (db1\<lparr>privileged_accounts := update_where (\<lambda>r. pa_id r = i) (f n) (privileged_accounts db1)\<rparr>)"
        using rot' False frame by (simp add: f_def) metis
      moreover have "pa_id (f n r) = pa_id r \<and> pa_safe_id (f n r) = pa_safe_id r \<and> pa_secret_ref (f n r) = pa_secret_ref r" for r
        by (simp add: f_def)
      ultimately show thesis using that by blast
    qed
    have "account_ref db2 j = account_ref (db1\<lparr>privileged_accounts := update_where p f (privileged_accounts db1)\<rparr>) j"
      unfolding db2 by (rule account_ref_cong) simp_all
    also have "\<dots> = account_ref db1 j"
      using f by (intro account_ref_update) simp_all
    also have "\<dots> = account_ref db j"
      using frame by (auto intro: account_ref_cong)
    finally show ?thesis .
  qed
qed

lemma Checkout_reveals:
  assumes "account_ref db j = Some ref" "GetSecret v db ref = Inr pw" "\<not> faults db Acct_Checkout"
    "u \<in> u_id ` set (users db)"
  obtains c db' where "Checkout v j u reason bg db = (Inr c, db')" "cr_Password c = string_of_bytes pw"
    "\<exists>r \<in> set (credential_checkouts db'). co_id r = cr_CheckoutID c \<and> co_account_id r = j \<and> co_user_id r = u \<and>
       co_returned_at r = None \<and> co_break_glass r = boolInt bg"
proof -
  obtain a where "AccountGet db j = Inr a" "ac_SecretRef a = ref" using account_ref_Some [OF assms(1)] by blast
  with assms have "Checkout v j u reason bg db =
      (Inr \<lparr>cr_Password = string_of_bytes pw, cr_CheckoutID = next_id T_credential_checkouts db, cr_BreakGlass = bg\<rparr>,
       (bump_seq T_credential_checkouts db)\<lparr>credential_checkouts := credential_checkouts db @
         [\<lparr>co_id = next_id T_credential_checkouts db, co_account_id = j, co_user_id = u,
           co_checked_out_at = clock db, co_returned_at = None, co_reason = reason, co_break_glass = boolInt bg\<rparr>]\<rparr>)"
    by (simp add: Checkout_def Let_def)
  then show thesis by (rule that) simp_all
qed

lemma rotated_secret:
  assumes "AccountRotate v rp rn i actor db = (Inr (), db1)" "secrets_readable db"
  obtains ref where "account_ref db i = Some ref" "\<And>j. account_ref db1 j = account_ref db j"
    "GetSecret v db1 ref = Inr (bytes_of_string (generatePassword 28 rp))" "faults db1 = faults db" "users db1 = users db"
proof -
  obtain acct where get: "AccountGet db i = Inr acct"
    using assms(1) by (auto simp: AccountRotate_def split: sum.splits)
  obtain t where put: "PutSecret v rn (ac_SecretRef acct) (bytes_of_string (generatePassword 28 rp)) None db = (Inr (), t)"
    using assms(1) get by (auto simp: AccountRotate_def split: sum.splits prod.splits)
  note written = AccountRotate_written [OF get put assms(1)]
  have "GetSecret v t (ac_SecretRef acct) = Inr (bytes_of_string (generatePassword 28 rp))"
    using vault.put_get [OF put assms(2)] .
  moreover have "faults t = faults db" using PutSecret_frame(6) put by (metis snd_conv)
  ultimately show thesis
    using written get by (intro that) (auto simp: account_ref_get intro: GetSecret_cong [THEN trans])
qed

text \<open>C31: After a rotation that succeeded a checkout of the account reveals exactly the generated password, and
  leaves a row with the user, the account and the emergency flag.\<close>

theorem rotated_password_checked_out:
  assumes "AccountRotate v rp rn i actor db = (Inr (), db1)" "secrets_readable db"
    "\<not> faults db Acct_Checkout" "u \<in> u_id ` set (users db)"
  shows "\<exists>c db2. Checkout v i u reason bg db1 = (Inr c, db2) \<and> cr_Password c = generatePassword 28 rp \<and>
    (\<exists>r \<in> set (credential_checkouts db2). co_id r = cr_CheckoutID c \<and> co_account_id r = i \<and> co_user_id r = u \<and>
       co_returned_at r = None \<and> co_break_glass r = boolInt bg)"
proof -
  obtain ref where ref: "account_ref db i = Some ref" "\<And>j. account_ref db1 j = account_ref db j"
    "GetSecret v db1 ref = Inr (bytes_of_string (generatePassword 28 rp))" "faults db1 = faults db" "users db1 = users db"
    using rotated_secret [OF assms(1,2)] by blast
  then have "account_ref db1 i = Some ref" "\<not> faults db1 Acct_Checkout" "u \<in> u_id ` set (users db1)"
    using assms by simp_all
  from Checkout_reveals [OF this(1) ref(3) this(2,3), of reason bg] show ?thesis
    by (metis string_of_bytes_of_string)
qed

text \<open>A database with one user, two safes and an account \<open>root\<close> in the first.\<close>

definition demo_safe :: "int \<Rightarrow> string \<Rightarrow> safe_row" where
  "demo_safe i n = \<lparr>sf_id = i, sf_name = n, sf_description = [], sf_cpm_enabled = 1, sf_rotation_days = 30,
     sf_require_dual_control = 0, sf_created_at = 0\<rparr>"

definition demo_account :: account_row where
  "demo_account = \<lparr>pa_id = 1, pa_safe_id = 1, pa_name = ''root'', pa_username = ''root'', pa_target_id = None,
     pa_platform = ''linux'', pa_secret_ref = ''acct/root'', pa_last_rotated = None, pa_next_rotation = Some 5,
     pa_rotation_status = ''ok'', pa_rotation_error = [], pa_notes = [], pa_created_at = 0\<rparr>"

definition demo_user :: user_row where
  "demo_user = \<lparr>u_id = 7, u_username = ''ann'', u_email = None, u_password_hash = [], u_role = ''netops'',
     u_mfa_secret = None, u_mfa_enabled = 0, u_source = ''local'', u_external_dn = None, u_last_login = None,
     u_created_at = 0, u_disabled = 0, u_role_locked = 0, u_mfa_exempt = 0\<rparr>"

definition demo_db :: pam_db where
  "demo_db = empty_db\<lparr>users := [demo_user], safes := [demo_safe 1 ''prod'', demo_safe 2 ''lab''],
     privileged_accounts := [demo_account], clock := 10,
     seq := (\<lambda>_. 0)(T_safes := 2, T_privileged_accounts := 1)\<rparr>"

lemma demo_db_quiet [simp]: "faults demo_db = (\<lambda>_. False)" "users demo_db = [demo_user]" "secrets demo_db = []"
  by (simp_all add: demo_db_def empty_db_def)

lemma demo_readable: "secrets_readable demo_db"
  by (simp add: secrets_readable_def)

lemma demo_get: "\<exists>a. AccountGet demo_db 1 = Inr a \<and> ac_SecretRef a = ''acct/root''"
  by (simp add: AccountGet_def demo_db_def empty_db_def scanAccounts_def account_of_row_def row_by_def
      demo_account_def demo_safe_def map_filter_simps)

lemma demo_rotate:
  "AccountRotate demo_vault rp (Some demo_nonce) 1 actor demo_db =
     (Inr (), snd (AccountRotate demo_vault rp (Some demo_nonce) 1 actor demo_db))"
proof -
  obtain a where a: "AccountGet demo_db 1 = Inr a" "ac_SecretRef a = ''acct/root''" using demo_get by blast
  have put: "PutSecret demo_vault (Some demo_nonce) (ac_SecretRef a) (bytes_of_string (generatePassword 28 rp)) None demo_db =
      (Inr (), snd (PutSecret demo_vault (Some demo_nonce) (ac_SecretRef a) (bytes_of_string (generatePassword 28 rp)) None demo_db))"
    by (rule demo_put_ok) simp
  obtain res db2 where rot: "AccountRotate demo_vault rp (Some demo_nonce) 1 actor demo_db = (res, db2)"
    by (cases "AccountRotate demo_vault rp (Some demo_nonce) 1 actor demo_db")
  have "res = Inr ()" using AccountRotate_written(5) [OF a(1) put rot] by simp
  with rot show ?thesis by simp
qed

lemma rotated_password_checked_out_witness:
  "\<exists>c db2. Checkout demo_vault 1 7 ''ticket'' False (snd (AccountRotate demo_vault (Some [1, 2, 3]) (Some demo_nonce) 1 ''bob'' demo_db)) =
     (Inr c, db2) \<and> cr_Password c = generatePassword 28 (Some [1, 2, 3])"
  using rotated_password_checked_out [OF demo_rotate [of "Some [1, 2, 3]" "''bob''"] demo_readable, where u = 7 and reason = "''ticket''" and bg = False]
  by (auto simp: demo_user_def)

text \<open>When the update of the account row fails after the new password has been written, \<^verbatim>\<open>Rotate\<close> reports an
  error, but the vault already holds the new password, and neither the status of the account nor the history
  says that anything happened.\<close>

theorem failed_rotation_changes_password:
  assumes "AccountGet db i = Inr acct" "faults db Acct_Rotated" "secrets_readable db"
    "PutSecret v rn (ac_SecretRef acct) (bytes_of_string (generatePassword 28 rp)) None db = (Inr (), db1)"
  shows "\<exists>db2. AccountRotate v rp rn i actor db = (Inl (ErrSql Acct_Rotated), db2) \<and>
    GetSecret v db2 (ac_SecretRef acct) = Inr (bytes_of_string (generatePassword 28 rp)) \<and>
    privileged_accounts db2 = privileged_accounts db \<and> rotation_history db2 = rotation_history db"
proof -
  obtain res db2 where rot: "AccountRotate v rp rn i actor db = (res, db2)"
    by (cases "AccountRotate v rp rn i actor db")
  note written = AccountRotate_written [OF assms(1,4) rot]
  have frame: "privileged_accounts db1 = privileged_accounts db" "faults db1 = faults db"
    using PutSecret_frame [of v rn "ac_SecretRef acct" "bytes_of_string (generatePassword 28 rp)" None db] assms(4) by simp_all
  have "rotation_history db1 = rotation_history db"
    using assms(4) by (auto simp: PutSecret_def insert_secret_def bump_seq_def split: sum.splits if_splits)
  moreover have "db2 = db1"
    using rot assms(1,2,4) frame by (simp add: AccountRotate_def Let_def)
  ultimately show ?thesis
    using rot written assms frame vault.put_get [OF assms(4,3)] by auto
qed

lemma failed_rotation_changes_password_witness:
  "\<exists>db2. AccountRotate demo_vault None (Some demo_nonce) 1 ''bob'' (demo_db\<lparr>faults := (\<lambda>s. s = Acct_Rotated)\<rparr>) =
     (Inl (ErrSql Acct_Rotated), db2) \<and>
     GetSecret demo_vault db2 ''acct/root'' = Inr (bytes_of_string (generatePassword 28 None))"
proof -
  let ?db = "demo_db\<lparr>faults := (\<lambda>s. s = Acct_Rotated)\<rparr>"
  obtain a where a: "AccountGet ?db 1 = Inr a" "ac_SecretRef a = ''acct/root''"
    by (simp add: AccountGet_def demo_db_def empty_db_def scanAccounts_def account_of_row_def row_by_def
      demo_account_def demo_safe_def map_filter_simps)
  have "secrets_readable ?db" by (simp add: secrets_readable_def)
  from failed_rotation_changes_password [OF a(1) _ this demo_put_ok, of None "''bob''"] a(2) show ?thesis
    by auto
qed

section \<open>Names that share a secret\<close>

text \<open>The secret of an account is found by the cleaned name alone: creating an account whose name is cleaned to
  the same text replaces the password of the account that is there, also one in another safe, and also when the
  new account is then refused.\<close>

theorem create_overwrites_namesake:
  assumes "account_ref db j = Some (secret_ref n)" "safeName (ci_Name inp) = safeName n"
    "0 < ci_SafeID inp" "ci_Name inp \<noteq> []" "ci_Username inp \<noteq> []" "ci_Password inp \<noteq> []"
    "row_by sf_id (ci_SafeID inp) (safes db) = Some sf" "\<not> faults db Acct_Safe" "secrets_readable db"
    "PutSecret v rn (secret_ref n) (bytes_of_string (ci_Password inp)) None db = (Inr (), db1)"
    "AccountCreate v rp rn inp db = (res, db2)"
  shows "GetSecret v db2 (secret_ref n) = Inr (bytes_of_string (ci_Password inp))"
proof -
  have ref: "secret_ref (ci_Name inp) = secret_ref n" using assms(2) by (simp add: secret_ref_def)
  define nxt where "nxt = (if sf_cpm_enabled sf \<noteq> 0 then Some (rotation_time (clock db1) (sf_rotation_days sf)) else None)"
  obtain r db3 where ins: "insert_account inp (default_string ''linux'' (ci_Platform inp)) (secret_ref n) nxt db1 = (r, db3)"
    by (cases "insert_account inp (default_string ''linux'' (ci_Platform inp)) (secret_ref n) nxt db1")
  then have frame: "secrets db3 = secrets db1" "faults db3 = faults db1"
    by (auto simp: insert_account_def Let_def bump_seq_def split: if_splits)
  have "secrets db2 = secrets db1 \<and> faults db2 = faults db1"
    using assms(3-8,10,11) ref ins frame
    by (auto simp: AccountCreate_def Let_def nxt_def split: sum.splits if_splits)
  moreover have "GetSecret v db1 (secret_ref n) = Inr (bytes_of_string (ci_Password inp))"
    using vault.put_get [OF assms(10,9)] .
  ultimately show ?thesis using GetSecret_cong by metis
qed

definition demo_input :: create_input where
  "demo_input = \<lparr>ci_SafeID = 2, ci_Name = ''root'', ci_Username = ''root'', ci_TargetID = None, ci_Platform = [],
     ci_Password = ''lab-pw'', ci_Notes = []\<rparr>"

lemma create_overwrites_namesake_witness:
  "GetSecret demo_vault (snd (AccountCreate demo_vault None (Some demo_nonce) demo_input demo_db)) (secret_ref ''root'') =
     Inr (bytes_of_string ''lab-pw'')"
proof -
  obtain a where "AccountGet demo_db 1 = Inr a" "ac_SecretRef a = ''acct/root''" using demo_get by blast
  moreover have "secret_ref ''root'' = ''acct/root''" by code_simp
  ultimately have ref: "account_ref demo_db 1 = Some (secret_ref ''root'')" by (simp add: account_ref_get)
  have safe: "row_by sf_id (ci_SafeID demo_input) (safes demo_db) = Some (demo_safe 2 ''lab'')"
    by (simp add: demo_db_def row_by_def demo_safe_def demo_input_def)
  have quiet: "\<not> faults demo_db Secret_Put" by simp
  have "GetSecret demo_vault (snd (AccountCreate demo_vault None (Some demo_nonce) demo_input demo_db)) (secret_ref ''root'') =
      Inr (bytes_of_string (ci_Password demo_input))"
    by (rule create_overwrites_namesake [OF ref _ _ _ _ _ safe _ demo_readable demo_put_ok [OF quiet] prod.collapse [symmetric]])
      (simp_all add: demo_input_def)
  then show ?thesis by (simp add: demo_input_def)
qed

end
