(* ===== verification/RotationSpec.thy ===== *)
theory RotationSpec
  imports CredentialSpec
begin

text \<open>
  The rotation worker of \<^verbatim>\<open>cmd/vault-service\<close>: one round over the accounts that are due leaves none of
  them due, provided that no statement fails and the time arithmetic stays within 64 bits.
\<close>

section \<open>Due accounts\<close>

definition is_due :: "pam_db \<Rightarrow> account_row \<Rightarrow> bool" where
  "is_due db a =
     (case row_by sf_id (pa_safe_id a) (safes db) of
        None \<Rightarrow> False
      | Some sf \<Rightarrow> sf_cpm_enabled sf = 1 \<and>
          (case pa_next_rotation a of None \<Rightarrow> False | Some t \<Rightarrow> t \<le> clock db))"

lemma account_of_row_Some:
  "account_of_row db a = Some (x, sf) \<Longrightarrow> ac_ID x = pa_id a \<and> ac_SafeID x = pa_safe_id a \<and>
     ac_NextRotation x = pa_next_rotation a \<and> row_by sf_id (pa_safe_id a) (safes db) = Some sf"
  by (auto simp: account_of_row_def)

lemma account_of_row_ex:
  "row_by sf_id (pa_safe_id a) (safes db) = Some sf \<Longrightarrow> \<exists>x. account_of_row db a = Some (x, sf)"
  by (simp add: account_of_row_def)

lemma set_map_filter_Some: "set (List.map_filter f xs) = {y. \<exists>x \<in> set xs. f x = Some y}"
  by (force simp: map_filter_def)

lemma AccountsDue_mem:
  assumes "AccountsDue db = Inr due"
  shows "x \<in> set due \<longleftrightarrow> (\<exists>a \<in> set (privileged_accounts db). \<exists>sf. account_of_row db a = Some (x, sf) \<and> is_due db a)"
proof -
  have due: "x \<in> set due \<longleftrightarrow> (\<exists>sf. (\<exists>a \<in> set (privileged_accounts db). account_of_row db a = Some (x, sf)) \<and>
      sf_cpm_enabled sf = 1 \<and> (case ac_NextRotation x of None \<Rightarrow> False | Some t \<Rightarrow> t \<le> clock db))"
    using assms by (auto simp: AccountsDue_def set_map_filter_Some image_iff split: if_splits) blast
  have "is_due db a \<longleftrightarrow> sf_cpm_enabled sf = 1 \<and> (case ac_NextRotation x of None \<Rightarrow> False | Some t \<Rightarrow> t \<le> clock db)"
    if "account_of_row db a = Some (x, sf)" for a sf
    using account_of_row_Some [OF that] by (simp add: is_due_def)
  then show ?thesis unfolding due by blast
qed

lemma AccountsDue_ids:
  assumes "AccountsDue db = Inr due"
  shows "ac_ID ` set due = pa_id ` {a \<in> set (privileged_accounts db). is_due db a}"
proof (intro set_eqI iffI)
  fix i assume "i \<in> ac_ID ` set due"
  then show "i \<in> pa_id ` {a \<in> set (privileged_accounts db). is_due db a}"
    by (auto simp: AccountsDue_mem [OF assms] dest!: account_of_row_Some)
next
  fix i assume "i \<in> pa_id ` {a \<in> set (privileged_accounts db). is_due db a}"
  then obtain a where a: "a \<in> set (privileged_accounts db)" "is_due db a" "i = pa_id a" by auto
  then obtain sf where "row_by sf_id (pa_safe_id a) (safes db) = Some sf"
    by (auto simp: is_due_def split: option.splits)
  then obtain x where x: "account_of_row db a = Some (x, sf)" using account_of_row_ex by blast
  with a have "x \<in> set due" by (auto simp: AccountsDue_mem [OF assms])
  with x a show "i \<in> ac_ID ` set due" by (auto dest!: account_of_row_Some intro!: image_eqI [of _ _ x])
qed

lemma AccountsDue_none:
  assumes "\<not> faults db Acct_Due" "\<forall>a \<in> set (privileged_accounts db). \<not> is_due db a"
  shows "AccountsDue db = Inr []"
proof -
  obtain due where due: "AccountsDue db = Inr due" using assms(1) by (simp add: AccountsDue_def)
  have "{a \<in> set (privileged_accounts db). is_due db a} = {}" using assms(2) by blast
  then have "ac_ID ` set due = {}" by (simp only: AccountsDue_ids [OF due] image_empty)
  with due show ?thesis by simp
qed

section \<open>One rotation\<close>

text \<open>The circumstances: nothing fails, the master key has its length, and neither the clock nor a rotation
  period comes near the end of the 64-bit range.\<close>

definition calm :: "vault \<Rightarrow> pam_db \<Rightarrow> bool" where
  "calm v db \<longleftrightarrow> faults db = (\<lambda>_. False) \<and> length (va_MasterKey v) = 32 \<and> credentials_ok db \<and>
     0 \<le> clock db \<and> clock db < 2 ^ 61 \<and> (\<forall>sf \<in> set (safes db). sf_rotation_days sf < 10 ^ 12)"

lemma rotation_time_later:
  assumes "0 \<le> now" "now < 2 ^ 61" "days < 10 ^ 12"
  shows "now < rotation_time now (rotation_or_default days)"
proof -
  define d where "d = rotation_or_default days"
  have d: "0 < d" "d < 10 ^ 12" using assms(3) by (auto simp: d_def rotation_or_default_def)
  then have "wrap64 (d * 86400) = d * 86400" by (simp add: wrap64_def)
  moreover have "wrap64 (now + d * 86400) = now + d * 86400" using d assms(1,2) by (simp add: wrap64_def)
  ultimately show ?thesis using d by (simp add: rotation_time_def flip: d_def)
qed

text \<open>\<open>t\<close> comes from \<open>db\<close> by rotating the accounts \<open>ids\<close>.\<close>

definition rotated :: "int set \<Rightarrow> pam_db \<Rightarrow> pam_db \<Rightarrow> bool" where
  "rotated ids db t \<longleftrightarrow> safes t = safes db \<and> clock t = clock db \<and> faults t = faults db \<and>
     (\<forall>r \<in> set (privileged_accounts t).
        (pa_id r \<in> ids \<and> (\<exists>n. pa_next_rotation r = Some n \<and> clock db < n)) \<or>
        (pa_id r \<notin> ids \<and> r \<in> set (privileged_accounts db))) \<and>
     pa_id ` set (privileged_accounts t) = pa_id ` set (privileged_accounts db)"

lemma rotated_trans: "rotated I db t \<Longrightarrow> rotated J t u \<Longrightarrow> rotated (I \<union> J) db u"
  unfolding rotated_def by auto

lemma rotated_none: "rotated ids db t \<Longrightarrow> r \<in> set (privileged_accounts t) \<Longrightarrow> is_due t r \<Longrightarrow>
    pa_id r \<notin> ids \<and> r \<in> set (privileged_accounts db) \<and> is_due db r"
  by (auto simp: rotated_def is_due_def split: option.splits)

lemma AccountGet_calm:
  assumes "calm v db" "i \<in> pa_id ` set (privileged_accounts db)"
  obtains a sf where "AccountGet db i = Inr a" "row_by sf_id (ac_SafeID a) (safes db) = Some sf"
proof -
  obtain r where r: "r \<in> set (privileged_accounts db)" "pa_id r = i" using assms(2) by auto
  then have "pa_safe_id r \<in> sf_id ` set (safes db)"
    using assms(1) by (auto simp: calm_def credentials_ok_def accounts_ok_def)
  then obtain sf where sf: "row_by sf_id (pa_safe_id r) (safes db) = Some sf"
    by (metis not_None_eq row_by_None)
  then have "scanAccounts db (filter (\<lambda>a. pa_id a = i) (privileged_accounts db)) \<noteq> []"
    using r by (auto simp: scanAccounts_def map_filter_def filter_empty_conv account_of_row_def intro!: bexI [of _ r])
  then obtain a where get: "AccountGet db i = Inr a"
    using assms(1) by (auto simp: AccountGet_def calm_def neq_Nil_conv)
  obtain r' sf' where "account_of_row db r' = Some (a, sf')" using AccountGet_row [OF get] by blast
  then have "row_by sf_id (ac_SafeID a) (safes db) = Some sf'" by (auto simp: account_of_row_def)
  with get show thesis by (rule that)
qed

lemma AccountRotate_calm:
  assumes calm: "calm v db" and i: "i \<in> pa_id ` set (privileged_accounts db)" and rn: "length n = 12"
  shows "rotated {i} db (snd (AccountRotate v rp (Some n) i actor db))"
proof -
  obtain a sf where get: "AccountGet db i = Inr a" and sf: "row_by sf_id (ac_SafeID a) (safes db) = Some sf"
    using AccountGet_calm [OF calm i] .
  obtain t where put: "PutSecret v (Some n) (ac_SecretRef a) (bytes_of_string (generatePassword 28 rp)) None db = (Inr (), t)"
    using PutSecret_succeeds calm rn by (metis calm_def)
  have frame: "privileged_accounts t = privileged_accounts db" "safes t = safes db" "clock t = clock db"
      "faults t = (\<lambda>_. False)"
    using PutSecret_frame [of v "Some n" "ac_SecretRef a" "bytes_of_string (generatePassword 28 rp)" None db] put calm
    by (simp_all add: calm_def)
  have "sf_rotation_days sf < 10 ^ 12" using row_by_Some [OF sf] calm by (simp add: calm_def)
  then have later: "clock db < rotation_time (clock db) (rotation_or_default (sf_rotation_days sf))"
    using calm by (intro rotation_time_later) (simp_all add: calm_def)
  define f where "f = (\<lambda>r :: account_row. r\<lparr>pa_last_rotated := Some (clock db),
    pa_next_rotation := Some (rotation_time (clock db) (rotation_or_default (sf_rotation_days sf))),
    pa_rotation_status := ''ok'', pa_rotation_error := []\<rparr>)"
  have res: "snd (AccountRotate v rp (Some n) i actor db) =
      recordRotation i ''ok'' actor ''Password rotated and vaulted''
        (t\<lparr>privileged_accounts := update_where (\<lambda>r. pa_id r = i) f (privileged_accounts db)\<rparr>)"
    by (simp add: AccountRotate_def Let_def get put frame sf f_def)
  have f: "pa_id (f r) = pa_id r" "pa_next_rotation (f r) = Some (rotation_time (clock db) (rotation_or_default (sf_rotation_days sf)))" for r
    by (simp_all add: f_def)
  have "faults db = (\<lambda>_. False)" using calm by (simp add: calm_def)
  moreover have "pa_id ` set (update_where (\<lambda>r. pa_id r = i) f (privileged_accounts db)) = pa_id ` set (privileged_accounts db)"
    by (rule image_update_where) (rule f)
  moreover have "(pa_id r \<in> {i} \<and> (\<exists>n. pa_next_rotation r = Some n \<and> clock db < n)) \<or>
      (pa_id r \<notin> {i} \<and> r \<in> set (privileged_accounts db))"
    if "r \<in> set (update_where (\<lambda>r. pa_id r = i) f (privileged_accounts db))" for r
    using that later by (auto simp: set_update_where f)
  ultimately show ?thesis by (simp add: rotated_def res frame)
qed

lemma calm_rotate: "calm v db \<Longrightarrow> calm v (snd (AccountRotate v rp rn i actor db))"
  if "safes (snd (AccountRotate v rp rn i actor db)) = safes db"
    "clock (snd (AccountRotate v rp rn i actor db)) = clock db"
    "faults (snd (AccountRotate v rp rn i actor db)) = faults db"
  using that by (simp add: calm_def AccountRotate_keeps)

lemma rotate_all_calm:
  assumes "calm v db" "ac_ID ` set as \<subseteq> pa_id ` set (privileged_accounts db)"
    "\<And>i. \<exists>n. snd (rnds i) = Some n \<and> length n = 12"
  shows "rotated (ac_ID ` set as) db (rotate_all v rnds as db)"
  using assms(1,2)
proof (induction as arbitrary: db)
  case Nil
  then show ?case by (simp add: rotated_def)
next
  case (Cons a as)
  obtain n where n: "snd (rnds (ac_ID a)) = Some n" "length n = 12" using assms(3) by blast
  let ?t = "snd (AccountRotate v (fst (rnds (ac_ID a))) (Some n) (ac_ID a) ''cpm-worker'' db)"
  have step: "rotated {ac_ID a} db ?t"
    using Cons.prems n by (intro AccountRotate_calm) auto
  then have "calm v ?t" "ac_ID ` set as \<subseteq> pa_id ` set (privileged_accounts ?t)"
    using Cons.prems by (auto simp: rotated_def intro!: calm_rotate)
  from rotated_trans [OF step Cons.IH [OF this]] show ?case by (simp add: n)
qed

text \<open>C35: After a round of the rotation worker in which nothing fails no account is due.\<close>

theorem cpm_round_leaves_nothing_due:
  assumes "calm v db" "\<And>i. \<exists>n. snd (rnds i) = Some n \<and> length n = 12"
  shows "AccountsDue (cpm_round v rnds db) = Inr []"
proof -
  obtain due where due: "AccountsDue db = Inr due" using assms(1) by (simp add: AccountsDue_def calm_def)
  let ?t = "rotate_all v rnds due db"
  have "rotated (ac_ID ` set due) db ?t"
    using assms AccountsDue_ids [OF due] by (intro rotate_all_calm) auto
  note round = this rotated_none [OF this]
  have "\<not> faults ?t Acct_Due" using round(1) assms(1) by (simp add: rotated_def calm_def)
  moreover have "\<not> is_due ?t r" if "r \<in> set (privileged_accounts ?t)" for r
    using round(2) [OF that] AccountsDue_ids [OF due] by blast
  ultimately show ?thesis using due by (simp add: cpm_round_def AccountsDue_none)
qed

lemma demo_calm: "calm demo_vault demo_db"
  by (simp add: calm_def demo_vault_def credentials_ok_def credential_parts keys_ok_def in_table_def
      demo_db_def empty_db_def demo_account_def demo_safe_def demo_user_def account_key_def)

lemma cpm_round_leaves_nothing_due_witness:
  "map ac_ID (projr (AccountsDue demo_db)) = [1] \<and>
   AccountsDue (cpm_round demo_vault (\<lambda>_. (None, Some demo_nonce)) demo_db) = Inr []"
proof
  show "map ac_ID (projr (AccountsDue demo_db)) = [1]"
    by (simp add: AccountsDue_def demo_db_def empty_db_def demo_account_def demo_safe_def
        account_of_row_def row_by_def map_filter_simps)
  show "AccountsDue (cpm_round demo_vault (\<lambda>_. (None, Some demo_nonce)) demo_db) = Inr []"
    by (rule cpm_round_leaves_nothing_due [OF demo_calm]) (simp add: demo_nonce_def)
qed

end
