(* ===== verification/ProviderSpec.thy ===== *)
theory ProviderSpec
  imports CredentialSpec
begin

text \<open>
  The credential provider: to whom \<^verbatim>\<open>GET /ccp/accounts\<close> releases a password, and the scope that a
  numeric query leaves out.  Also: the permission of a user on a safe, the CA key that a stored secret
  replaces, and accounts that can never be deleted.
\<close>

section \<open>Releasing a password\<close>

definition ip_ok :: "string \<Rightarrow> string \<Rightarrow> bool" where
  "ip_ok client csv \<longleftrightarrow> csv = [] \<or> ipAllowed client csv"

lemma Authenticate_Inr:
  assumes "Authenticate key ip db = (Inr app, db1)"
  obtains r where "r \<in> set (app_credentials db)" "ap_api_key_hash r = hashAPIKey key" "app = app_of_row db r"
    "key \<noteq> []" "ap_enabled r \<noteq> 0" "ip_ok ip (ap_client_ip_allow r)" "db1 = touch_app (ap_id r) db"
proof -
  from assms obtain r where r: "row_by ap_api_key_hash (hashAPIKey key) (app_credentials db) = Some r"
    by (auto simp: Authenticate_def split: if_splits option.splits)
  with assms have "app = app_of_row db r" "key \<noteq> []" "ap_enabled r \<noteq> 0" "ip_ok ip (ap_client_ip_allow r)"
      "db1 = touch_app (ap_id r) db"
    by (auto simp: Authenticate_def Let_def app_of_row_def ip_ok_def split: if_splits)
  with row_by_Some [OF r] show thesis by (auto intro: that)
qed

lemma touch_app_frame [simp]:
  "privileged_accounts (touch_app i db) = privileged_accounts db" "safes (touch_app i db) = safes db"
  "targets (touch_app i db) = targets db" "secrets (touch_app i db) = secrets db" "faults (touch_app i db) = faults db"
  by (simp_all add: touch_app_def)

lemma lookupAccount_cong:
  assumes "privileged_accounts t = privileged_accounts s" "safes t = safes s" "targets t = targets s" "faults t = faults s"
  shows "lookupAccount t q sid = lookupAccount s q sid"
proof -
  have "AccountGet t = AccountGet s" by (rule ext) (rule AccountGet_cong [OF assms])
  with assms show ?thesis by (simp add: lookupAccount_def cong: option.case_cong)
qed

text \<open>What the scope of the application guarantees: only for a query that is not a number.\<close>

definition in_scope :: "string \<Rightarrow> int option \<Rightarrow> account_row \<Rightarrow> bool" where
  "in_scope q sid a \<longleftrightarrow> (case parse_int64 q of
     Some i \<Rightarrow> pa_id a = i
   | None \<Rightarrow> pa_name a = q \<and> (case sid of None \<Rightarrow> True | Some s \<Rightarrow> pa_safe_id a = s))"

lemma lookupAccount_Inr:
  assumes "lookupAccount db q sid = Inr acct" "distinct (map pa_id (privileged_accounts db))"
  obtains a sf where "a \<in> set (privileged_accounts db)" "in_scope q sid a" "account_of_row db a = Some (acct, sf)"
proof (cases "parse_int64 q")
  case None
  define p where "p a \<longleftrightarrow> pa_name a = q \<and> (case sid of None \<Rightarrow> True | Some s \<Rightarrow> pa_safe_id a = s)"
    for a :: account_row
  have "lookupAccount db q sid = (case (if faults db App_Lookup then None else first_row (filter p (privileged_accounts db))) of
      None \<Rightarrow> Inl (ErrMsg ''account not found'') | Some a \<Rightarrow> AccountGet db (pa_id a))"
    by (simp add: lookupAccount_def None p_def [abs_def])
  with assms(1) obtain a where a: "first_row (filter p (privileged_accounts db)) = Some a"
    "AccountGet db (pa_id a) = Inr acct"
    by (auto split: option.splits if_splits)
  obtain b sf where b: "b \<in> set (privileged_accounts db)" "pa_id b = pa_id a" "account_of_row db b = Some (acct, sf)"
    using AccountGet_row [OF a(2)] .
  have "a \<in> set (privileged_accounts db)" "p a"
    using first_row_mem [OF a(1)] by auto
  with b assms(2) None show thesis by (intro that [of a sf]) (auto simp: in_scope_def p_def distinct_map inj_on_def)
next
  case (Some i)
  with assms(1) have "AccountGet db i = Inr acct" by (simp add: lookupAccount_def)
  then obtain a sf where "a \<in> set (privileged_accounts db)" "pa_id a = i" "account_of_row db a = Some (acct, sf)"
    by (rule AccountGet_row)
  with Some show thesis by (intro that [of a sf]) (simp_all add: in_scope_def)
qed


text \<open>A numeric query is looked up by key alone: an application that is bound to one safe gets the password
  of any account of any other safe, unless its allow list, empty by default, says otherwise.\<close>

theorem ccp_id_ignores_safe:
  assumes "Authenticate key ip db = (Inr app, db1)" "ax_AllowedAccounts app = []"
    "- (2 ^ 63) \<le> i" "i < 2 ^ 63" "AccountGet db i = Inr acct" "GetSecret v db (ac_SecretRef acct) = Inr pw"
  shows "\<exists>ans. ccp_accounts v key ip (string_of_int i) db = (Inr ans, db1) \<and>
    ca_password ans = string_of_bytes pw \<and> ca_safe ans = ac_SafeName acct"
proof -
  obtain j where db1: "db1 = touch_app j db" using Authenticate_Inr [OF assms(1)] by blast
  have "AccountGet db1 i = Inr acct" "GetSecret v db1 (ac_SecretRef acct) = Inr pw"
    using assms(5,6) AccountGet_cong [of db1 db i] GetSecret_cong [of db1 db v] by (simp_all add: db1)
  moreover have "string_of_int i \<noteq> []" using string_of_int_word(1) [of i] by (auto simp: is_word_def)
  ultimately show ?thesis
    using assms(1,2) parse_string_of_int [OF assms(3,4)]
    by (simp add: ccp_accounts_def lookupAccount_def AccountAllowed_def)
qed

text \<open>An application of safe 2 and a sealed password of the account in safe 1.\<close>

definition demo_app :: app_row where
  "demo_app = \<lparr>ap_id = 1, ap_name = ''ci'', ap_api_key_hash = hashAPIKey ''pam_k'', ap_safe_id = Some 2,
     ap_allowed_accounts = [], ap_client_ip_allow = [], ap_enabled = 1, ap_last_used = None, ap_created_at = 0\<rparr>"

definition ccp_db :: pam_db where
  "ccp_db = snd (PutSecret demo_vault (Some demo_nonce) ''acct/root'' (bytes_of_string ''s3cret'') None
     (demo_db\<lparr>app_credentials := [demo_app], seq := (seq demo_db)(T_app_credentials := 1)\<rparr>))"

lemma ccp_db_frame:
  "privileged_accounts ccp_db = [demo_account]" "safes ccp_db = [demo_safe 1 ''prod'', demo_safe 2 ''lab'']"
  "faults ccp_db = (\<lambda>_. False)" "app_credentials ccp_db = [demo_app]"
proof -
  show "privileged_accounts ccp_db = [demo_account]" "safes ccp_db = [demo_safe 1 ''prod'', demo_safe 2 ''lab'']"
    "faults ccp_db = (\<lambda>_. False)"
    by (simp_all add: ccp_db_def PutSecret_frame) (simp_all add: demo_db_def empty_db_def)
  show "app_credentials ccp_db = [demo_app]"
    by (simp add: ccp_db_def PutSecret_def insert_secret_def bump_seq_def split: sum.splits)
qed

lemma ccp_db_secret: "GetSecret demo_vault ccp_db ''acct/root'' = Inr (bytes_of_string ''s3cret'')"
proof -
  let ?db = "demo_db\<lparr>app_credentials := [demo_app], seq := (seq demo_db)(T_app_credentials := 1)\<rparr>"
  have "\<not> faults ?db Secret_Put" "secrets_readable ?db" by (simp_all add: secrets_readable_def)
  then show ?thesis
    using vault.put_get [OF demo_put_ok] by (simp add: ccp_db_def)
qed

lemma ccp_db_ok: "credentials_ok ccp_db"
proof -
  have "credentials_ok (demo_db\<lparr>app_credentials := [demo_app], seq := (seq demo_db)(T_app_credentials := 1)\<rparr>)"
    by (simp add: credentials_ok_def credential_parts keys_ok_def in_table_def demo_db_def empty_db_def
        demo_account_def demo_safe_def demo_user_def account_key_def demo_app_def)
  then show ?thesis unfolding ccp_db_def by (rule PutSecret_keeps)
qed

lemma ccp_db_auth: "\<exists>app. Authenticate ''pam_k'' ''10.0.0.9:4000'' ccp_db = (Inr app, touch_app 1 ccp_db) \<and>
    ax_AllowedAccounts app = []"
  by (simp add: Authenticate_def ccp_db_frame row_by_def demo_app_def app_of_row_def Let_def)

lemma ccp_db_get: "\<exists>a. AccountGet ccp_db 1 = Inr a \<and> ac_SecretRef a = ''acct/root'' \<and> ac_SafeName a = ''prod''"
  by (simp add: AccountGet_def ccp_db_frame scanAccounts_def account_of_row_def row_by_def
      demo_account_def demo_safe_def map_filter_simps)

lemma ccp_id_ignores_safe_witness:
  "\<exists>ans. ccp_accounts demo_vault ''pam_k'' ''10.0.0.9:4000'' (string_of_int 1) ccp_db = (Inr ans, touch_app 1 ccp_db) \<and>
     ca_password ans = ''s3cret'' \<and> ca_safe ans = ''prod''"
proof -
  obtain app where app: "Authenticate ''pam_k'' ''10.0.0.9:4000'' ccp_db = (Inr app, touch_app 1 ccp_db)"
      "ax_AllowedAccounts app = []"
    using ccp_db_auth by blast
  obtain a where a: "AccountGet ccp_db 1 = Inr a" "ac_SecretRef a = ''acct/root''" "ac_SafeName a = ''prod''"
    using ccp_db_get by blast
  from ccp_id_ignores_safe [OF app _ _ a(1), of demo_vault "bytes_of_string ''s3cret''"] ccp_db_secret a
  show ?thesis by simp
qed


section \<open>Permissions on a safe\<close>

text \<open>The permission of a user on a safe is the highest of the direct one and those of the groups of the
  user, and empty exactly when none of them is a known permission.\<close>

theorem UserPermission_highest:
  assumes "UserPermission db safe u = Inr p"
  shows "perm_rank p = Max (insert 0 (perm_rank ` set (user_perms db safe u))) \<and>
    (p = [] \<or> p \<in> set (user_perms db safe u))"
  using assms highestPerm_rank highestPerm_mem by (auto simp: UserPermission_def split: if_splits)

lemma UserPermission_highest_witness:
  "UserPermission (empty_db\<lparr>safe_members :=
     [\<lparr>sm_safe_id = 1, sm_principal_type = ''user'', sm_principal_id = 7, sm_permissions = ''view'', sm_added_at = 0\<rparr>,
      \<lparr>sm_safe_id = 1, sm_principal_type = ''group'', sm_principal_id = 3, sm_permissions = ''owner'', sm_added_at = 0\<rparr>],
     user_groups := [\<lparr>ug_user_id = 7, ug_group_id = 3, ug_added_at = 0\<rparr>]\<rparr>) 1 7 = Inr ''owner'' \<and>
   perm_rank ''owner'' = 3"
proof -
  let ?db = "empty_db\<lparr>safe_members :=
     [\<lparr>sm_safe_id = 1, sm_principal_type = ''user'', sm_principal_id = 7, sm_permissions = ''view'', sm_added_at = 0\<rparr>,
      \<lparr>sm_safe_id = 1, sm_principal_type = ''group'', sm_principal_id = 3, sm_permissions = ''owner'', sm_added_at = 0\<rparr>],
     user_groups := [\<lparr>ug_user_id = 7, ug_group_id = 3, ug_added_at = 0\<rparr>]\<rparr>"
  have "UserPermission ?db 1 7 = Inr ''owner''" by code_simp
  moreover from UserPermission_highest [OF this]
  have "perm_rank ''owner'' = Max (insert 0 (perm_rank ` set (user_perms ?db 1 7)))" by simp
  moreover have "user_perms ?db 1 7 = [''view'', ''owner'']" by code_simp
  ultimately show ?thesis by (simp add: perm_rank_def PermView_def PermUse_def PermOwner_def)
qed

section \<open>The CA key\<close>

text \<open>\<^verbatim>\<open>DeleteSecret\<close> refuses the names of the CA, \<^verbatim>\<open>PutSecret\<close> does not: whoever may store secrets replaces
  the private key of the SSH CA, and the next start of the service signs with it.\<close>

theorem put_secret_replaces_ca:
  assumes "PutSecret v rn ''_ssh_ca'' key due db = (Inr (), db1)" "secrets_readable db"
  shows "fst (DeleteSecret ''_ssh_ca'' db) = Inl (ErrMsg ''cannot delete CA keys'') \<and>
    fst (ensureCA ca rnd v db1) = Inr (v\<lparr>va_CAPriv := key\<rparr>)"
proof -
  have read: "GetSecret v db1 ''_ssh_ca'' = Inr key" using vault.put_get [OF assms] .
  then obtain r where "row_by se_name ''_ssh_ca'' (secrets db1) = Some r" "\<not> faults db1 Secret_Get"
    "Decrypt (va_MasterKey v) (se_ciphertext r) = Inr key"
    by (auto simp: GetSecret_def split: if_splits option.splits sum.splits)
  then have "fst (ensureCA ca rnd v db1) = Inr (v\<lparr>va_CAPriv := key\<rparr>)" by (simp add: ensureCA_def)
  then show ?thesis by (simp add: DeleteSecret_def has_prefix_def)
qed

lemma put_secret_replaces_ca_witness:
  "fst (ensureCA None None demo_vault (snd (PutSecret demo_vault (Some demo_nonce) ''_ssh_ca'' [1, 2, 3] None demo_db))) =
     Inr (demo_vault\<lparr>va_CAPriv := [1, 2, 3]\<rparr>)"
  using put_secret_replaces_ca [OF demo_put_ok demo_readable] by simp

section \<open>Accounts that were checked out\<close>

definition checked_out :: "pam_db \<Rightarrow> int \<Rightarrow> bool" where
  "checked_out db i \<longleftrightarrow> i \<in> co_account_id ` set (credential_checkouts db)"

lemma recordRotation_checkouts [simp]:
  "credential_checkouts (recordRotation i st actor d db) = credential_checkouts db"
  by (simp add: recordRotation_def bump_seq_def)

lemma PutSecret_checkouts:
  "PutSecret v rnd n x due db = (res, t) \<Longrightarrow> credential_checkouts t = credential_checkouts db"
  by (auto simp: PutSecret_def insert_secret_def bump_seq_def split: sum.splits if_splits)

lemma AccountRotate_checkouts [simp]:
  "credential_checkouts (snd (AccountRotate v r1 r2 i actor db)) = credential_checkouts db"
  by (auto simp: AccountRotate_def markRotationFailed_def Let_def dest: PutSecret_checkouts split: sum.splits prod.splits)

lemma rotate_all_checkouts [simp]: "credential_checkouts (rotate_all v rnds as db) = credential_checkouts db"
  by (induction as arbitrary: db) simp_all

lemma insert_account_checkouts:
  "insert_account inp platform ref nxt db = (res, t) \<Longrightarrow> credential_checkouts t = credential_checkouts db"
  by (auto simp: insert_account_def Let_def bump_seq_def split: if_splits)

lemma AccountCreate_checkouts [simp]:
  "credential_checkouts (snd (AccountCreate v r1 r2 inp db)) = credential_checkouts db"
  by (auto simp: AccountCreate_def Let_def dest!: PutSecret_checkouts insert_account_checkouts
      split: sum.splits prod.splits option.splits)

lemma untouched_checkouts [simp]:
  "credential_checkouts (snd (SafeCreate sf db)) = credential_checkouts db"
  "credential_checkouts (snd (SafeUpdate sf db)) = credential_checkouts db"
  "credential_checkouts (snd (SafeDelete i db)) = credential_checkouts db"
  "credential_checkouts (snd (SafeAddMember i ty p perms db)) = credential_checkouts db"
  "credential_checkouts (snd (SafeRemoveMember i ty p db)) = credential_checkouts db"
  "credential_checkouts (snd (DeleteSecret n db)) = credential_checkouts db"
  "credential_checkouts (snd (AccountUpdate a db)) = credential_checkouts db"
  "credential_checkouts (snd (AppCreate rnd ap db)) = credential_checkouts db"
  "credential_checkouts (snd (AppUpdate ap db)) = credential_checkouts db"
  "credential_checkouts (snd (AppRotate rnd i db)) = credential_checkouts db"
  "credential_checkouts (snd (AppDelete i db)) = credential_checkouts db"
  by (simp_all add: SafeCreate_def SafeUpdate_def SafeDelete_def SafeAddMember_def SafeRemoveMember_def DeleteSecret_def
      AccountUpdate_def AppCreate_def AppUpdate_def AppRotate_def AppDelete_def Let_def bump_seq_def split: prod.splits)

lemma AccountDelete_checkouts [simp]: "credential_checkouts (snd (AccountDelete i db)) = credential_checkouts db"
  by (auto simp: AccountDelete_def Let_def split: sum.splits)

lemma ccp_accounts_checkouts [simp]: "credential_checkouts (snd (ccp_accounts v k ip q db)) = credential_checkouts db"
  by (auto simp: ccp_accounts_def Authenticate_def Let_def touch_app_def split: sum.splits prod.splits option.splits)

lemma checked_out_stays:
  "cred_run v s t \<Longrightarrow> checked_out s i \<Longrightarrow> checked_out t i"
proof (induction rule: cred_run.induct)
  case (checkout s t j u reason bg)
  then show ?case by (auto simp: checked_out_def Checkout_def Let_def bump_seq_def split: sum.splits)
next
  case (checkin s t j)
  then show ?case by (simp add: checked_out_def CheckoutReturn_def image_update_where)
next
  case (secret_put s t rnd n x due)
  then show ?case using PutSecret_checkouts [of v rnd n x due t] by (simp add: checked_out_def) (metis prod.collapse)
qed (simp_all add: checked_out_def cpm_round_def split: sum.splits)

text \<open>An account that was checked out once can never be deleted again, also after every checkout was
  returned: no operation removes the row that refers to it, and \<^verbatim>\<open>Delete\<close> fails at the foreign key.\<close>

theorem checked_out_account_undeletable:
  assumes "cred_run v s t" "checked_out s i"
  shows "\<exists>e. AccountDelete i t = (Inl e, t)"
proof -
  have "account_in_use t i" using checked_out_stays [OF assms] by (auto simp: checked_out_def account_in_use_def)
  then show ?thesis by (simp add: AccountDelete_def split: sum.splits)
qed

definition checkout_db :: pam_db where
  "checkout_db = demo_db\<lparr>credential_checkouts := [\<lparr>co_id = 1, co_account_id = 1, co_user_id = 7, co_checked_out_at = 3,
     co_returned_at = None, co_reason = [], co_break_glass = 0\<rparr>]\<rparr>"

lemma checked_out_account_undeletable_witness:
  "\<exists>e. AccountDelete 1 (snd (CheckoutReturn 1 checkout_db)) = (Inl e, snd (CheckoutReturn 1 checkout_db))"
proof -
  have "checked_out checkout_db 1" by (simp add: checked_out_def checkout_db_def)
  from checked_out_account_undeletable [OF cred_run.checkin [OF cred_run.start] this]
  show ?thesis .
qed

section \<open>The policy of the safe\<close>

text \<open>\<^verbatim>\<open>Checkout\<close> looks neither at the members of the safe nor at its dual-control flag.\<close>

lemma Checkout_ignores_safe_policy:
  "fst (Checkout v i u reason bg (db\<lparr>safe_members := ms\<rparr>)) = fst (Checkout v i u reason bg db)"
proof -
  have "AccountGet (db\<lparr>safe_members := ms\<rparr>) i = AccountGet db i" by (rule AccountGet_cong) simp_all
  moreover have "GetSecret v (db\<lparr>safe_members := ms\<rparr>) = GetSecret v db" by (rule ext) (rule GetSecret_cong; simp)
  ultimately show ?thesis by (simp add: Checkout_def Let_def next_id_def split: sum.splits)
qed

end
