(* ===== verification/Inventory.thy ===== *)
theory Inventory
  imports Database
begin

text \<open>
  \<^verbatim>\<open>internal/inventory\<close>: machines (\<^verbatim>\<open>targets.go\<close>), their sites (\<^verbatim>\<open>locations.go\<close>) and the kinds of
  database connections (\<^verbatim>\<open>dbconn.go\<close>).  The URL parser behind \<^verbatim>\<open>HostFromWebURL\<close> is an argument.
  \<open>targets\<close> has a UNIQUE name; requests and accounts refer to it without a cascade, secrets and
  birthright assignments cascade; deleting a location sets \<open>location_id\<close> to NULL.
\<close>

section \<open>Connection types\<close>

definition ConnSSH :: string where "ConnSSH = ''ssh''"
definition ConnRDP :: string where "ConnRDP = ''rdp''"
definition ConnWeb :: string where "ConnWeb = ''web''"
definition ConnTelnet :: string where "ConnTelnet = ''telnet''"
definition ConnAPI :: string where "ConnAPI = ''https-api''"
definition ConnPostgres :: string where "ConnPostgres = ''postgres''"
definition ConnMySQL :: string where "ConnMySQL = ''mysql''"
definition ConnMariaDB :: string where "ConnMariaDB = ''mariadb''"
definition ConnMSSQL :: string where "ConnMSSQL = ''mssql''"
definition ConnMongoDB :: string where "ConnMongoDB = ''mongodb''"
definition ConnRedis :: string where "ConnRedis = ''redis''"
definition ConnOracle :: string where "ConnOracle = ''oracle''"

lemmas conn_defs = ConnSSH_def ConnRDP_def ConnWeb_def ConnTelnet_def ConnAPI_def ConnPostgres_def ConnMySQL_def
  ConnMariaDB_def ConnMSSQL_def ConnMongoDB_def ConnRedis_def ConnOracle_def

definition IsDatabaseConnection :: "string \<Rightarrow> bool" where
  "IsDatabaseConnection connType =
     (to_lower (trim_space connType) \<in>
       {ConnPostgres, ConnMySQL, ConnMariaDB, ConnMSSQL, ConnMongoDB, ConnRedis, ConnOracle})"

definition DatabaseEngine :: "string \<Rightarrow> string \<Rightarrow> string" where
  "DatabaseEngine connType kind =
     (let ct = to_lower (trim_space connType); k = to_lower (trim_space kind) in
      if IsDatabaseConnection ct then (if ct = ConnMariaDB then ConnMySQL else ct)
      else if str_contains k ''postgres'' then ConnPostgres
      else if str_contains k ''mysql'' \<or> str_contains k ''mariadb'' then ConnMySQL
      else if str_contains k ''mssql'' \<or> str_contains k ''sqlserver'' then ConnMSSQL
      else if str_contains k ''mongo'' then ConnMongoDB
      else if str_contains k ''redis'' then ConnRedis
      else if str_contains k ''oracle'' then ConnOracle
      else [])"

definition defaultPort :: "string \<Rightarrow> int" where
  "defaultPort connType =
     (if IsDatabaseConnection connType \<and> connType = ConnPostgres then 5432
      else if IsDatabaseConnection connType \<and> (connType = ConnMySQL \<or> connType = ConnMariaDB) then 3306
      else if IsDatabaseConnection connType \<and> connType = ConnMSSQL then 1433
      else if IsDatabaseConnection connType \<and> connType = ConnMongoDB then 27017
      else if IsDatabaseConnection connType \<and> connType = ConnRedis then 6379
      else if IsDatabaseConnection connType \<and> connType = ConnOracle then 1521
      else if connType = ConnRDP then 3389
      else if connType = ConnTelnet then 23
      else if connType = ConnWeb \<or> connType = ConnAPI then 443
      else 22)"

section \<open>Machines\<close>

record target =
  tg_ID :: int
  tg_Name :: string
  tg_Kind :: string
  tg_Vendor :: string
  tg_OSVersion :: string
  tg_ConnectionType :: string
  tg_Host :: string
  tg_Port :: int
  tg_WebURL :: string
  tg_DBName :: string
  tg_Tier :: int
  tg_Tags :: string
  tg_LocationID :: int
  tg_LocationName :: string

abbreviation Target_List :: sql_stmt where "Target_List \<equiv> Stmt ''targets.list''"
abbreviation Target_Get :: sql_stmt where "Target_Get \<equiv> Stmt ''targets.get''"
abbreviation Target_Insert :: sql_stmt where "Target_Insert \<equiv> Stmt ''targets.insert''"
abbreviation Target_Update :: sql_stmt where "Target_Update \<equiv> Stmt ''targets.update''"
abbreviation Target_Delete_Requests :: sql_stmt where "Target_Delete_Requests \<equiv> Stmt ''targets.delete.requests''"
abbreviation Target_Delete_Accounts :: sql_stmt where "Target_Delete_Accounts \<equiv> Stmt ''targets.delete.accounts''"
abbreviation Target_Delete :: sql_stmt where "Target_Delete \<equiv> Stmt ''targets.delete''"

definition location_of :: "pam_db \<Rightarrow> target_row \<Rightarrow> location_row option" where
  "location_of db t = (case t_location_id t of None \<Rightarrow> None | Some i \<Rightarrow> row_by lo_id i (locations db))"

definition target_of_row :: "pam_db \<Rightarrow> target_row \<Rightarrow> target" where
  "target_of_row db t =
     \<lparr>tg_ID = t_id t, tg_Name = t_name t, tg_Kind = t_kind t, tg_Vendor = t_vendor t,
      tg_OSVersion = t_os_version t, tg_ConnectionType = t_connection_type t, tg_Host = t_host t,
      tg_Port = t_port t, tg_WebURL = t_web_url t, tg_DBName = t_db_name t, tg_Tier = t_tier t,
      tg_Tags = t_tags t, tg_LocationID = (case t_location_id t of None \<Rightarrow> 0 | Some i \<Rightarrow> i),
      tg_LocationName = (case location_of db t of None \<Rightarrow> [] | Some l \<Rightarrow> lo_name l)\<rparr>"

definition TargetList :: "pam_db \<Rightarrow> err + target list" where
  "TargetList db =
     (if faults db Target_List then Inl (ErrSql Target_List)
      else Inr (map (target_of_row db) (sort_key (\<lambda>t.
             (case location_of db t of None \<Rightarrow> 9999 | Some l \<Rightarrow> lo_sort_order l,
              case location_of db t of None \<Rightarrow> [] | Some l \<Rightarrow> lo_name l, t_name t)) (targets db))))"

definition TargetGet :: "pam_db \<Rightarrow> int \<Rightarrow> err + target" where
  "TargetGet db i =
     (if faults db Target_Get then Inl (ErrSql Target_Get)
      else case row_by t_id i (targets db) of
        None \<Rightarrow> Inl (ErrMsg ''target not found'')
      | Some t \<Rightarrow> Inr (target_of_row db t))"

definition validateConnection :: "target \<Rightarrow> err option" where
  "validateConnection t =
     (let ct = tg_ConnectionType t in
      if IsDatabaseConnection ct then
        (if tg_Host t = [] then Some (ErrMsg ''host is required for database connections'') else None)
      else if ct \<in> {ConnSSH, ConnRDP, ConnTelnet} then
        (if tg_Host t = [] then Some (ErrMsg ''host is required for ssh/rdp/telnet connections'') else None)
      else if ct \<in> {ConnWeb, ConnAPI} then
        (if tg_WebURL t = [] then Some (ErrMsg ''web_url is required for web / https-api connections'') else None)
      else Some (ErrMsg ''unknown connection_type''))"

text \<open>\<open>web_host\<close> is \<^verbatim>\<open>HostFromWebURL\<close>: the host name of a URL, or the empty string.\<close>

definition NormalizeTargetHost :: "(string \<Rightarrow> string) \<Rightarrow> target \<Rightarrow> target" where
  "NormalizeTargetHost web_host t =
     (if tg_Host t \<noteq> [] then t
      else if tg_ConnectionType t \<noteq> ConnWeb \<and> tg_ConnectionType t \<noteq> ConnAPI then t
      else let h = web_host (tg_WebURL t) in if h \<noteq> [] then t\<lparr>tg_Host := h\<rparr> else t)"

definition nullableLocationID :: "int \<Rightarrow> int option" where
  "nullableLocationID i = (if i \<le> 0 then None else Some i)"

text \<open>The defaults that \<open>Create\<close> and \<open>Update\<close> put in, or the error of the validation.\<close>

definition prepare_target :: "(string \<Rightarrow> string) \<Rightarrow> target \<Rightarrow> err + target" where
  "prepare_target web_host t =
     (let t = (if tg_ConnectionType t = [] then t\<lparr>tg_ConnectionType := ConnSSH\<rparr> else t) in
      case validateConnection t of
        Some e \<Rightarrow> Inl e
      | None \<Rightarrow>
          let t = NormalizeTargetHost web_host t in
          Inr (if tg_Port t \<le> 0 then t\<lparr>tg_Port := defaultPort (tg_ConnectionType t)\<rparr> else t))"

definition dangling_location :: "pam_db \<Rightarrow> int option \<Rightarrow> bool" where
  "dangling_location db loc = (case loc of None \<Rightarrow> False | Some l \<Rightarrow> l \<notin> set (map lo_id (locations db)))"

definition row_of_target :: "int \<Rightarrow> target \<Rightarrow> target_row" where
  "row_of_target i t =
     \<lparr>t_id = i, t_name = tg_Name t, t_kind = tg_Kind t, t_host = tg_Host t, t_port = tg_Port t,
      t_tier = tg_Tier t, t_tags = tg_Tags t, t_location_id = nullableLocationID (tg_LocationID t),
      t_connection_type = tg_ConnectionType t, t_web_url = tg_WebURL t, t_vendor = tg_Vendor t,
      t_os_version = tg_OSVersion t, t_db_name = tg_DBName t\<rparr>"

definition TargetCreate :: "(string \<Rightarrow> string) \<Rightarrow> target \<Rightarrow> pam_db \<Rightarrow> (err + int) \<times> pam_db" where
  "TargetCreate web_host t db =
     (if tg_Name t = [] \<or> tg_Kind t = [] then (Inl (ErrMsg ''name and kind are required''), db)
      else case prepare_target web_host t of
        Inl e \<Rightarrow> (Inl e, db)
      | Inr t \<Rightarrow>
          if faults db Target_Insert then (Inl (ErrSql Target_Insert), db)
          else if tg_Name t \<in> set (map t_name (targets db)) \<or>
            dangling_location db (nullableLocationID (tg_LocationID t)) then (Inl ErrConstraint, db)
          else
            let i = next_id T_targets db in
            (Inr i, (bump_seq T_targets db)\<lparr>targets := targets db @ [row_of_target i t]\<rparr>))"

definition TargetUpdate :: "(string \<Rightarrow> string) \<Rightarrow> target \<Rightarrow> pam_db \<Rightarrow> (err + unit) \<times> pam_db" where
  "TargetUpdate web_host t db =
     (if tg_ID t \<le> 0 then (Inl (ErrMsg ''id required''), db)
      else case prepare_target web_host t of
        Inl e \<Rightarrow> (Inl e, db)
      | Inr t \<Rightarrow>
          if faults db Target_Update then (Inl (ErrSql Target_Update), db)
          else if rows_affected (\<lambda>r. t_id r = tg_ID t) (targets db) = 0
          then (Inl (ErrMsg ''target not found''), db)
          else if (\<exists>r \<in> set (targets db). t_id r \<noteq> tg_ID t \<and> t_name r = tg_Name t) \<or>
            dangling_location db (nullableLocationID (tg_LocationID t)) then (Inl ErrConstraint, db)
          else (Inr (), db\<lparr>targets := update_where (\<lambda>r. t_id r = tg_ID t)
                  (\<lambda>r. row_of_target (t_id r) t) (targets db)\<rparr>))"

text \<open>The rows that go with the rows of a deleted target: requests take their votes along, secrets and
  birthright assignments cascade.\<close>

definition drop_requests :: "int \<Rightarrow> pam_db \<Rightarrow> pam_db" where
  "drop_requests i db =
     (let gone = map ar_id (filter (\<lambda>r. ar_target_id r = i) (access_requests db)) in
      db\<lparr>access_requests := delete_where (\<lambda>r. ar_target_id r = i) (access_requests db),
         approval_decisions := delete_where (\<lambda>d. ad_request_id d \<in> set gone) (approval_decisions db)\<rparr>)"

definition unlink_accounts :: "int \<Rightarrow> pam_db \<Rightarrow> pam_db" where
  "unlink_accounts i db =
     db\<lparr>privileged_accounts := update_where (\<lambda>a. pa_target_id a = Some i) (\<lambda>a. a\<lparr>pa_target_id := None\<rparr>)
       (privileged_accounts db)\<rparr>"

definition drop_target :: "int \<Rightarrow> pam_db \<Rightarrow> pam_db" where
  "drop_target i db =
     db\<lparr>targets := delete_where (\<lambda>t. t_id t = i) (targets db),
        secrets := delete_where (\<lambda>s. se_target_id s = Some i) (secrets db),
        birthright_assignments := delete_where (\<lambda>b. ba_target_id b = i) (birthright_assignments db)\<rparr>"

definition TargetDelete :: "int \<Rightarrow> pam_db \<Rightarrow> (err + unit) \<times> pam_db" where
  "TargetDelete i db =
     (if faults db Tx_Begin then (Inl (ErrSql Tx_Begin), db)
      else if faults db Target_Delete_Requests then (Inl (ErrSql Target_Delete_Requests), db)
      else if faults db Target_Delete_Accounts then (Inl (ErrSql Target_Delete_Accounts), db)
      else if faults db Target_Delete then (Inl (ErrSql Target_Delete), db)
      else if rows_affected (\<lambda>t. t_id t = i) (targets db) = 0 then (Inl (ErrMsg ''target not found''), db)
      else if faults db Tx_Commit then (Inl (ErrSql Tx_Commit), db)
      else (Inr (), drop_target i (unlink_accounts i (drop_requests i db))))"

section \<open>Locations\<close>

record location =
  lc_ID :: int
  lc_Name :: string
  lc_Description :: string
  lc_SortOrder :: int

abbreviation Location_List :: sql_stmt where "Location_List \<equiv> Stmt ''locations.list''"
abbreviation Location_Get :: sql_stmt where "Location_Get \<equiv> Stmt ''locations.get''"
abbreviation Location_Insert :: sql_stmt where "Location_Insert \<equiv> Stmt ''locations.insert''"
abbreviation Location_Update :: sql_stmt where "Location_Update \<equiv> Stmt ''locations.update''"
abbreviation Location_Unassign :: sql_stmt where "Location_Unassign \<equiv> Stmt ''locations.unassign''"
abbreviation Location_Delete :: sql_stmt where "Location_Delete \<equiv> Stmt ''locations.delete''"
abbreviation Location_Count :: sql_stmt where "Location_Count \<equiv> Stmt ''locations.count''"

definition location_of_row :: "location_row \<Rightarrow> location" where
  "location_of_row l =
     \<lparr>lc_ID = lo_id l, lc_Name = lo_name l, lc_Description = lo_description l, lc_SortOrder = lo_sort_order l\<rparr>"

definition ListLocations :: "pam_db \<Rightarrow> err + location list" where
  "ListLocations db =
     (if faults db Location_List then Inl (ErrSql Location_List)
      else Inr (map location_of_row (sort_key (\<lambda>l. (lo_sort_order l, lo_name l)) (locations db))))"

definition GetLocation :: "pam_db \<Rightarrow> int \<Rightarrow> err + location" where
  "GetLocation db i =
     (if faults db Location_Get then Inl (ErrSql Location_Get)
      else case row_by lo_id i (locations db) of
        None \<Rightarrow> Inl (ErrMsg ''location not found'')
      | Some l \<Rightarrow> Inr (location_of_row l))"

definition CreateLocation :: "location \<Rightarrow> pam_db \<Rightarrow> (err + int) \<times> pam_db" where
  "CreateLocation l db =
     (if lc_Name l = [] then (Inl (ErrMsg ''name is required''), db)
      else if faults db Location_Insert then (Inl (ErrSql Location_Insert), db)
      else if lc_Name l \<in> set (map lo_name (locations db)) then (Inl ErrConstraint, db)
      else
        let i = next_id T_locations db in
        (Inr i, (bump_seq T_locations db)\<lparr>locations := locations db @
          [\<lparr>lo_id = i, lo_name = lc_Name l, lo_description = lc_Description l,
            lo_sort_order = lc_SortOrder l, lo_created_at = clock db\<rparr>]\<rparr>))"

definition UpdateLocation :: "location \<Rightarrow> pam_db \<Rightarrow> (err + unit) \<times> pam_db" where
  "UpdateLocation l db =
     (if lc_ID l \<le> 0 then (Inl (ErrMsg ''id required''), db)
      else if lc_Name l = [] then (Inl (ErrMsg ''name is required''), db)
      else if faults db Location_Update then (Inl (ErrSql Location_Update), db)
      else if rows_affected (\<lambda>r. lo_id r = lc_ID l) (locations db) = 0
      then (Inl (ErrMsg ''location not found''), db)
      else if \<exists>r \<in> set (locations db). lo_id r \<noteq> lc_ID l \<and> lo_name r = lc_Name l then (Inl ErrConstraint, db)
      else (Inr (), db\<lparr>locations := update_where (\<lambda>r. lo_id r = lc_ID l)
              (\<lambda>r. r\<lparr>lo_name := lc_Name l, lo_description := lc_Description l,
                      lo_sort_order := lc_SortOrder l\<rparr>) (locations db)\<rparr>))"

definition DeleteLocation :: "int \<Rightarrow> pam_db \<Rightarrow> (err + unit) \<times> pam_db" where
  "DeleteLocation i db =
     (if faults db Tx_Begin then (Inl (ErrSql Tx_Begin), db)
      else if faults db Location_Unassign then (Inl (ErrSql Location_Unassign), db)
      else if faults db Location_Delete then (Inl (ErrSql Location_Delete), db)
      else if rows_affected (\<lambda>r. lo_id r = i) (locations db) = 0
      then (Inl (ErrMsg ''location not found''), db)
      else if faults db Tx_Commit then (Inl (ErrSql Tx_Commit), db)
      else (Inr (), db\<lparr>targets := update_where (\<lambda>t. t_location_id t = Some i)
                (\<lambda>t. t\<lparr>t_location_id := None\<rparr>) (targets db),
              locations := delete_where (\<lambda>r. lo_id r = i) (locations db)\<rparr>))"

definition LocationDeviceCount :: "pam_db \<Rightarrow> err + (int \<rightharpoonup> int)" where
  "LocationDeviceCount db =
     (if faults db Location_Count then Inl (ErrSql Location_Count)
      else Inr (\<lambda>i. let n = rows_affected (\<lambda>t. t_location_id t = Some i) (targets db) in
             if n = 0 then None else Some (int n)))"

end
