(* ===== verification/Sessions.thy ===== *)
theory Sessions
  imports VaultStore
begin

text \<open>
  \<^verbatim>\<open>internal/sessions/end.go\<close> and the session helpers of \<^verbatim>\<open>internal/vault/passthrough.go\<close>: a session is
  a row of \<open>sessions\<close> and, while it is open, a secret in the vault under a name made from its key.
\<close>

section \<open>Names of session secrets\<close>

definition WebVaultSecretName :: "string \<Rightarrow> string" where
  "WebVaultSecretName sessionID = ''_web_session_'' @ sessionID"

definition DBVaultSecretName :: "string \<Rightarrow> string" where
  "DBVaultSecretName sessionID = ''_db_session_'' @ sessionID"

definition rdp_SessionSecretName :: "string \<Rightarrow> string" where
  "rdp_SessionSecretName sessionID = ''_rdp_session_'' @ sessionID"

definition ssh_SessionSecretName :: "string \<Rightarrow> string" where
  "ssh_SessionSecretName sessionID = ''_ssh_session_'' @ sessionID"

definition BrowserTokenVaultKey :: "string \<Rightarrow> string" where
  "BrowserTokenVaultKey token = ''_ssh_browser_token_'' @ token"

definition UserPassthroughKey :: "int \<Rightarrow> string" where
  "UserPassthroughKey uid = ''_user_passthrough_pw_'' @ string_of_int uid"

section \<open>Opening and ending\<close>

abbreviation Session_Insert :: sql_stmt where "Session_Insert \<equiv> Stmt ''sessions.insert''"
abbreviation Session_Active :: sql_stmt where "Session_Active \<equiv> Stmt ''sessions.active''"

text \<open>The statement that ends one session has the session in its tag.\<close>

definition Session_End :: "string \<Rightarrow> sql_stmt" where "Session_End i = Stmt (''sessions.end '' @ i)"

text \<open>\<open>sessions.id\<close> is the primary key, \<open>account_id\<close> refers to the privileged accounts.\<close>

definition insert_session :: "session_row \<Rightarrow> pam_db \<Rightarrow> (err + unit) \<times> pam_db" where
  "insert_session r db =
     (if faults db Session_Insert then (Inl (ErrSql Session_Insert), db)
      else if ss_id r \<in> set (map ss_id (sessions db)) \<or>
        (case ss_account_id r of None \<Rightarrow> False | Some a \<Rightarrow> a \<notin> set (map pa_id (privileged_accounts db)))
      then (Inl ErrConstraint, db)
      else (Inr (), db\<lparr>sessions := sessions db @ [r]\<rparr>))"

definition is_open :: "string \<Rightarrow> session_row \<Rightarrow> bool" where
  "is_open sessionID s = (ss_id s = sessionID \<and> ss_ended_at s = None)"

definition close_session :: "string \<Rightarrow> string \<Rightarrow> pam_db \<Rightarrow> pam_db" where
  "close_session sessionID reason db =
     db\<lparr>sessions := update_where (is_open sessionID)
       (\<lambda>s. s\<lparr>ss_ended_at := Some (clock db), ss_ended_reason := Some reason\<rparr>) (sessions db)\<rparr>"

definition session_secret :: "string \<Rightarrow> string option" where
  "session_secret sessionID =
     (if has_prefix sessionID ''web-'' then Some (WebVaultSecretName sessionID)
      else if has_prefix sessionID ''rdp-'' then Some (''_rdp_session_'' @ sessionID)
      else if has_prefix sessionID ''db-'' then Some (DBVaultSecretName sessionID)
      else None)"

text \<open>\<^verbatim>\<open>sessions.End\<close>; the vault, when there is one, only enters through the table of secrets.\<close>

definition EndSession :: "bool \<Rightarrow> string \<Rightarrow> string \<Rightarrow> pam_db \<Rightarrow> (err + bool) \<times> pam_db" where
  "EndSession hasVault sessionID reason db =
     (let reason = (if reason = [] then ''closed'' else reason) in
      if faults db (Session_End sessionID) then (Inl (ErrSql (Session_End sessionID)), db)
      else if rows_affected (is_open sessionID) (sessions db) = 0 then (Inr False, db)
      else
        let db = close_session sessionID reason db in
        case (if hasVault then session_secret sessionID else None) of
          None \<Rightarrow> (Inr True, db)
        | Some name \<Rightarrow> (Inr True, snd (DeleteSecret name db)))"

definition active_ids :: "pam_db \<Rightarrow> int \<Rightarrow> int \<Rightarrow> string \<Rightarrow> string list" where
  "active_ids db userID targetID protocol =
     map ss_id (filter (\<lambda>s. ss_user_id s = userID \<and> ss_target_id s = targetID \<and> ss_ended_at s = None \<and>
       (protocol = [] \<or> ss_protocol s = protocol)) (sessions db))"

definition EndActiveForUserTarget ::
  "bool \<Rightarrow> int \<Rightarrow> int \<Rightarrow> string \<Rightarrow> string \<Rightarrow> pam_db \<Rightarrow> (err + unit) \<times> pam_db" where
  "EndActiveForUserTarget hasVault userID targetID protocol reason db =
     (if faults db Session_Active then (Inl (ErrSql Session_Active), db)
      else (Inr (), fold (\<lambda>i db. snd (EndSession hasVault i reason db))
             (active_ids db userID targetID protocol) db))"

section \<open>Facts\<close>

lemma DeleteSecret_frame [simp]:
  "sessions (snd (DeleteSecret n db)) = sessions db" "faults (snd (DeleteSecret n db)) = faults db"
  "clock (snd (DeleteSecret n db)) = clock db" "users (snd (DeleteSecret n db)) = users db"
  "privileged_accounts (snd (DeleteSecret n db)) = privileged_accounts db"
  "safes (snd (DeleteSecret n db)) = safes db" "targets (snd (DeleteSecret n db)) = targets db"
  "access_requests (snd (DeleteSecret n db)) = access_requests db"
  "credential_checkouts (snd (DeleteSecret n db)) = credential_checkouts db"
  by (simp_all add: DeleteSecret_def)

lemma close_session_frame [simp]:
  "faults (close_session i r db) = faults db" "clock (close_session i r db) = clock db"
  "users (close_session i r db) = users db" "privileged_accounts (close_session i r db) = privileged_accounts db"
  "safes (close_session i r db) = safes db" "targets (close_session i r db) = targets db"
  "access_requests (close_session i r db) = access_requests db" "secrets (close_session i r db) = secrets db"
  "credential_checkouts (close_session i r db) = credential_checkouts db"
  by (simp_all add: close_session_def)

lemma EndSession_frame [simp]:
  "faults (snd (EndSession hv i r db)) = faults db" "clock (snd (EndSession hv i r db)) = clock db"
  "users (snd (EndSession hv i r db)) = users db"
  "privileged_accounts (snd (EndSession hv i r db)) = privileged_accounts db"
  "safes (snd (EndSession hv i r db)) = safes db" "targets (snd (EndSession hv i r db)) = targets db"
  "access_requests (snd (EndSession hv i r db)) = access_requests db"
  "credential_checkouts (snd (EndSession hv i r db)) = credential_checkouts db"
  by (simp_all add: EndSession_def Let_def split: option.splits)

lemma EndAll_frame [simp]:
  "faults (fold (\<lambda>i db. snd (EndSession hv i r db)) ids db) = faults db"
  "clock (fold (\<lambda>i db. snd (EndSession hv i r db)) ids db) = clock db"
  "users (fold (\<lambda>i db. snd (EndSession hv i r db)) ids db) = users db"
  "privileged_accounts (fold (\<lambda>i db. snd (EndSession hv i r db)) ids db) = privileged_accounts db"
  "safes (fold (\<lambda>i db. snd (EndSession hv i r db)) ids db) = safes db"
  "targets (fold (\<lambda>i db. snd (EndSession hv i r db)) ids db) = targets db"
  "access_requests (fold (\<lambda>i db. snd (EndSession hv i r db)) ids db) = access_requests db"
  "credential_checkouts (fold (\<lambda>i db. snd (EndSession hv i r db)) ids db) = credential_checkouts db"
  by (induction ids arbitrary: db) simp_all

lemma EndActive_frame [simp]:
  "faults (snd (EndActiveForUserTarget hv u t p r db)) = faults db"
  "clock (snd (EndActiveForUserTarget hv u t p r db)) = clock db"
  "users (snd (EndActiveForUserTarget hv u t p r db)) = users db"
  "privileged_accounts (snd (EndActiveForUserTarget hv u t p r db)) = privileged_accounts db"
  "safes (snd (EndActiveForUserTarget hv u t p r db)) = safes db"
  "targets (snd (EndActiveForUserTarget hv u t p r db)) = targets db"
  "access_requests (snd (EndActiveForUserTarget hv u t p r db)) = access_requests db"
  "credential_checkouts (snd (EndActiveForUserTarget hv u t p r db)) = credential_checkouts db"
  by (simp_all add: EndActiveForUserTarget_def)

text \<open>Ending a session closes its row and leaves every other row alone.\<close>

lemma EndSession_sessions:
  "sessions (snd (EndSession hv i r db)) =
     (if faults db (Session_End i) then sessions db
      else update_where (is_open i) (\<lambda>s. s\<lparr>ss_ended_at := Some (clock db),
        ss_ended_reason := Some (if r = [] then ''closed'' else r)\<rparr>) (sessions db))"
proof (cases "\<forall>s \<in> set (sessions db). \<not> is_open i s")
  case True
  then show ?thesis by (auto simp: EndSession_def Let_def update_where_none)
next
  case False
  then show ?thesis by (auto simp: EndSession_def Let_def close_session_def split: option.splits)
qed

lemma EndSession_keeps_closed:
  assumes "s \<in> set (sessions (snd (EndSession hv i r db)))" "ss_ended_at s = None"
  shows "s \<in> set (sessions db) \<and> (ss_id s = i \<longrightarrow> faults db (Session_End i))"
  using assms by (auto simp: EndSession_sessions set_update_where is_open_def split: if_splits)

lemma EndAll_open:
  assumes "s \<in> set (sessions (fold (\<lambda>i db. snd (EndSession hv i r db)) ids db))" "ss_ended_at s = None"
  shows "s \<in> set (sessions db) \<and> (ss_id s \<in> set ids \<longrightarrow> faults db (Session_End (ss_id s)))"
  using assms
proof (induction ids arbitrary: db)
  case (Cons i ids)
  let ?t = "snd (EndSession hv i r db)"
  have "s \<in> set (sessions ?t) \<and> (ss_id s \<in> set ids \<longrightarrow> faults ?t (Session_End (ss_id s)))"
    using Cons.IH [of ?t] Cons.prems by simp
  then show ?case using EndSession_keeps_closed [of s hv i r db] Cons.prems(2) by auto
qed simp

text \<open>What is still open after ending the sessions of a user on a target was open before, and is not one of
  them, unless a statement failed.\<close>

lemma EndActive_open:
  assumes "s \<in> set (sessions (snd (EndActiveForUserTarget hv u t p r db)))" "ss_ended_at s = None"
    "faults db = (\<lambda>_. False)"
  shows "s \<in> set (sessions db) \<and> \<not> (ss_user_id s = u \<and> ss_target_id s = t \<and> (p = [] \<or> ss_protocol s = p))"
  using assms EndAll_open [of s hv r "active_ids db u t p" db]
  by (auto simp: EndActiveForUserTarget_def active_ids_def image_iff)

end
