(* ===== verification/Launch.thy ===== *)
theory Launch
  imports Inventory Sessions Accounts PolicyEngine Approval GoNet
begin

text \<open>
  The four ways to open a session: \<^verbatim>\<open>internal/rdp/launch.go\<close>, \<^verbatim>\<open>internal/dblaunch\<close>,
  \<^verbatim>\<open>internal/sshlaunch\<close> and \<^verbatim>\<open>internal/weblaunch\<close>.  Each checks the policy and, where it asks for one, the
  approved request, stores what the proxy needs as a secret of the session and opens the row of the
  session.  The instant \<^verbatim>\<open>time.Now().UnixNano()\<close> and the random bytes are arguments; the services run
  with a vault, as \<^verbatim>\<open>cmd/auth-service\<close> builds them.
\<close>

section \<open>Authorisation\<close>

abbreviation Launch_Target :: sql_stmt where "Launch_Target \<equiv> Stmt ''launch.target''"
abbreviation Launch_User :: sql_stmt where "Launch_User \<equiv> Stmt ''launch.user''"
abbreviation Launch_Birthright :: sql_stmt where "Launch_Birthright \<equiv> Stmt ''launch.birthright''"
abbreviation Launch_Account :: sql_stmt where "Launch_Account \<equiv> Stmt ''launch.account''"

definition em_dash :: string where
  "em_dash = [CHR 0xE2, CHR 0x80, CHR 0x94]"

definition ErrTargetNotFound :: err where "ErrTargetNotFound = ErrMsg ''target not found''"
definition ErrPolicyDenied :: string where "ErrPolicyDenied = ''access denied by policy''"
definition ErrApprovalRequired :: err where
  "ErrApprovalRequired =
     ErrMsg (''approved access request required '' @ em_dash @ '' submit a request and wait for approval'')"
definition ErrDualControl :: err where
  "ErrDualControl =
     ErrMsg (''safe requires dual control '' @ em_dash @ '' submit and obtain an approved access request first'')"
definition ErrNotRDP :: err where "ErrNotRDP = ErrMsg ''target is not an RDP machine''"
definition ErrNotSSH :: err where "ErrNotSSH = ErrMsg ''target is not an SSH machine''"
definition ErrNotWeb :: err where "ErrNotWeb = ErrMsg ''target is not a web target''"
definition ErrNotDatabase :: err where "ErrNotDatabase = ErrMsg ''target is not a database connection''"

definition launch_target :: "pam_db \<Rightarrow> int \<Rightarrow> err + target_row" where
  "launch_target db targetID =
     (if faults db Launch_Target then Inl (ErrSql Launch_Target)
      else case row_by t_id targetID (targets db) of None \<Rightarrow> Inl ErrTargetNotFound | Some t \<Rightarrow> Inr t)"

text \<open>Roles, decision and approval; \<open>exempt\<close> is the birthright of the user, which only the SSH launch looks
  at.\<close>

definition launch_decision ::
  "pam_db \<Rightarrow> int \<Rightarrow> string \<Rightarrow> target_row \<Rightarrow> string \<Rightarrow> bool \<Rightarrow> err + decision" where
  "launch_decision db userID userRole t action exempt =
     (case EffectiveRoles db userID userRole of
        (_, Some e) \<Rightarrow> Inl e
      | (roles, None) \<Rightarrow>
          (case Decide db \<lparr>in_UserID = userID, in_Role = userRole, in_Roles = roles, in_TargetID = t_id t,
                in_TargetKind = t_kind t, in_TargetTier = t_tier t, in_Action = action\<rparr> of
             Inl e \<Rightarrow> Inl e
           | Inr dec \<Rightarrow>
               if \<not> Allow dec then Inl (ErrMsg (ErrPolicyDenied @ '': '' @ go_list (Reasons dec)))
               else if RequireApproval dec \<and> \<not> exempt \<and> \<not> IsApproved db userID (t_id t)
               then Inl ErrApprovalRequired
               else Inr dec))"

definition open_session ::
  "string \<Rightarrow> int \<Rightarrow> int \<Rightarrow> string \<Rightarrow> string \<Rightarrow> int option \<Rightarrow> string option \<Rightarrow> pam_db \<Rightarrow> session_row" where
  "open_session sessionID userID targetID clientIP protocol acct rec db =
     \<lparr>ss_id = sessionID, ss_user_id = userID, ss_target_id = targetID, ss_started_at = clock db,
      ss_ended_at = None, ss_recording_path = rec, ss_client_ip = Some clientIP, ss_ended_reason = None,
      ss_protocol = protocol, ss_account_id = acct\<rparr>"

definition session_id :: "string \<Rightarrow> int \<Rightarrow> int \<Rightarrow> string" where
  "session_id kind nano targetID = kind @ ''-'' @ string_of_int nano @ ''-'' @ string_of_int targetID"

fun trim_slash_rev :: "string \<Rightarrow> string" where
  "trim_slash_rev [] = []"
| "trim_slash_rev (c # s) = (if c = CHR ''/'' then trim_slash_rev s else c # s)"

definition trimSlash :: "string \<Rightarrow> string" where
  "trimSlash s = rev (trim_slash_rev (rev s))"

section \<open>RDP\<close>

record rdp_result =
  lr_SessionID :: string
  lr_CheckoutID :: int
  lr_AccountID :: int
  lr_AccountName :: string
  lr_Username :: string
  lr_Host :: string
  lr_Port :: int
  lr_ViewerURL :: string
  lr_BrowserURL :: string
  lr_Recorded :: bool

record launch_config =
  lg_RecordingDir :: string
  lg_BrowserBase :: string

text \<open>Storing the secret and opening the row: when the row is refused the secret is deleted again.\<close>

definition store_session ::
  "vault \<Rightarrow> bytes option \<Rightarrow> string \<Rightarrow> bytes \<Rightarrow> (err \<Rightarrow> err) \<Rightarrow> session_row \<Rightarrow> pam_db \<Rightarrow> (err + unit) \<times> pam_db" where
  "store_session v rnd name payload wrap r db =
     (case PutSecret v rnd name payload None db of
        (Inl e, db) \<Rightarrow> (Inl (wrap e), db)
      | (Inr _, db) \<Rightarrow>
          (case insert_session r db of
             (Inl e, db) \<Rightarrow> (Inl e, snd (DeleteSecret name db))
           | (Inr _, db) \<Rightarrow> (Inr (), db)))"

definition wrap_err :: "string \<Rightarrow> err \<Rightarrow> err" where
  "wrap_err prefix e = ErrMsg (prefix @ '': '' @ err_text e)"

text \<open>From the checkout on.\<close>

definition rdp_session ::
  "vault \<Rightarrow> launch_config \<Rightarrow> int \<Rightarrow> bytes option \<Rightarrow> target_row \<Rightarrow> int \<Rightarrow> string \<Rightarrow> string \<Rightarrow> account \<Rightarrow> pam_db \<Rightarrow>
     (err + rdp_result) \<times> pam_db" where
  "rdp_session v cfg nano rnd t userID reason clientIP acct db =
     (case Checkout v (ac_ID acct) userID (default_string ''RDP session via PAM'' reason) False db of
        (Inl e, db) \<Rightarrow> (Inl e, db)
      | (Inr co, db) \<Rightarrow>
          let sessionID = session_id ''rdp'' nano (t_id t);
              url = (if lg_BrowserBase cfg = [] then [] else trimSlash (lg_BrowserBase cfg)) @
                ''/rdp-viewer.html?session='' @ sessionID
          in case store_session v rnd (rdp_SessionSecretName sessionID)
                (bytes_of_string (cr_Password co)) (wrap_err ''store session credentials'')
                (open_session sessionID userID (t_id t) clientIP ''rdp'' (Some (ac_ID acct))
                   (Some (lg_RecordingDir cfg @ ''/rdp/'' @ sessionID)) db) db of
               (Inl e, db) \<Rightarrow> (Inl e, db)
             | (Inr _, db) \<Rightarrow>
                 (Inr \<lparr>lr_SessionID = sessionID, lr_CheckoutID = cr_CheckoutID co,
                       lr_AccountID = ac_ID acct, lr_AccountName = ac_Name acct,
                       lr_Username = ac_Username acct, lr_Host = t_host t, lr_Port = t_port t,
                       lr_ViewerURL = url, lr_BrowserURL = url, lr_Recorded = True\<rparr>, db))"

definition rdp_Launch ::
  "vault \<Rightarrow> launch_config \<Rightarrow> int \<Rightarrow> bytes option \<Rightarrow> int \<Rightarrow> int \<Rightarrow> string \<Rightarrow> string \<Rightarrow> string \<Rightarrow> pam_db \<Rightarrow>
     (err + rdp_result) \<times> pam_db" where
  "rdp_Launch v cfg nano rnd targetID userID userRole reason clientIP db =
     (case launch_target db targetID of
        Inl e \<Rightarrow> (Inl e, db)
      | Inr t \<Rightarrow>
          if t_connection_type t \<noteq> ''rdp'' then (Inl ErrNotRDP, db)
          else case launch_decision db userID userRole t ''rdp'' False of
            Inl e \<Rightarrow> (Inl e, db)
          | Inr dec \<Rightarrow>
              (case FindPrimaryForTarget db targetID of
                 Inl e \<Rightarrow> (Inl e, db)
               | Inr (acct, dualControl) \<Rightarrow>
                   if dualControl \<and> \<not> IsApproved db userID targetID then (Inl ErrDualControl, db)
                   else rdp_session v cfg nano rnd t userID reason clientIP acct
                     (snd (EndActiveForUserTarget True userID targetID ''rdp'' ''superseded'' db))))"

section \<open>Payloads of several lines\<close>

text \<open>\<^verbatim>\<open>strings.SplitN\<close> at a newline.\<close>

fun split_n :: "nat \<Rightarrow> string \<Rightarrow> string list" where
  "split_n 0 s = []"
| "split_n (Suc 0) s = [s]"
| "split_n (Suc (Suc n)) s =
     (if CHR 0x0A \<in> set s
      then takeWhile (\<lambda>c. c \<noteq> CHR 0x0A) s # split_n (Suc n) (tl (dropWhile (\<lambda>c. c \<noteq> CHR 0x0A) s))
      else [s])"

definition part :: "string list \<Rightarrow> nat \<Rightarrow> string" where
  "part ps i = (if i < length ps then ps ! i else [])"

text \<open>\<^verbatim>\<open>fmt.Sscanf(s, "%d", &n)\<close>: an optional sign and digits after blanks; \<open>n\<close> stays 0 when it fails.\<close>

definition sscanf_d :: "string \<Rightarrow> int" where
  "sscanf_d s =
     (let s = dropWhile is_space s;
          sign = (if s \<noteq> [] \<and> (hd s = CHR ''-'' \<or> hd s = CHR ''+'') then [hd s] else []);
          ds = takeWhile is_digit (drop (length sign) s)
      in case parse_int64 (sign @ ds) of None \<Rightarrow> 0 | Some n \<Rightarrow> n)"

section \<open>Databases\<close>

record db_creds =
  dc_Engine :: string
  dc_Username :: string
  dc_Password :: string
  dc_Host :: string
  dc_Port :: int
  dc_Database :: string
  dc_BrokerToken :: string
  dc_PortalUser :: string
  dc_PortalUserID :: int
  dc_TargetID :: int
  dc_TargetKind :: string

definition db_payload :: "db_creds \<Rightarrow> string" where
  "db_payload c = join [CHR 0x0A]
     [dc_Engine c, dc_Username c, dc_Password c, dc_Host c, string_of_int (dc_Port c), dc_Database c,
      dc_BrokerToken c, string_of_int (dc_PortalUserID c), string_of_int (dc_TargetID c), dc_PortalUser c,
      dc_TargetKind c]"

definition db_creds_of :: "string \<Rightarrow> db_creds" where
  "db_creds_of raw =
     (let ps = split_n 11 raw in
      \<lparr>dc_Engine = part ps 0, dc_Username = part ps 1, dc_Password = part ps 2, dc_Host = part ps 3,
       dc_Port = sscanf_d (part ps 4), dc_Database = part ps 5, dc_BrokerToken = part ps 6,
       dc_PortalUser = part ps 9, dc_PortalUserID = sscanf_d (part ps 7), dc_TargetID = sscanf_d (part ps 8),
       dc_TargetKind = part ps 10\<rparr>)"

definition db_LoadSessionCreds :: "vault \<Rightarrow> pam_db \<Rightarrow> string \<Rightarrow> err + db_creds" where
  "db_LoadSessionCreds v db sessionID =
     (case GetSecret v db (DBVaultSecretName sessionID) of
        Inl e \<Rightarrow> Inl e
      | Inr raw \<Rightarrow> Inr (db_creds_of (string_of_bytes raw)))"

definition randomToken :: "nat \<Rightarrow> bytes option \<Rightarrow> err + string" where
  "randomToken n rnd =
     (case read_full n rnd of
        None \<Rightarrow> Inl (ErrMsg ''random source failed'')
      | Some b \<Rightarrow> Inr (concat (map (\<lambda>x. [hex_digit (unat x div 16), hex_digit (unat x mod 16)]) b)))"

definition defaultEnginePort :: "string \<Rightarrow> int" where
  "defaultEnginePort e =
     (if e = ConnPostgres then 5432 else if e = ConnMySQL \<or> e = ConnMariaDB then 3306
      else if e = ConnMSSQL then 1433 else if e = ConnMongoDB then 27017
      else if e = ConnRedis then 6379 else if e = ConnOracle then 1521 else 5432)"

definition defaultBrokerPort :: "string \<Rightarrow> int" where
  "defaultBrokerPort e =
     (if e = ConnPostgres then 15432 else if e = ConnMySQL \<or> e = ConnMariaDB then 13306
      else if e = ConnMSSQL then 11433 else if e = ConnMongoDB then 27018
      else if e = ConnRedis then 16379 else if e = ConnOracle then 11521 else 15432)"

definition defaultDatabase :: "string \<Rightarrow> string" where
  "defaultDatabase e =
     (if e = ConnPostgres then ''postgres'' else if e = ConnMySQL \<or> e = ConnMariaDB then ''mysql''
      else if e = ConnMSSQL then ''master'' else if e = ConnMongoDB then ''admin''
      else if e = ConnRedis then ''0'' else [])"

definition connectionURI :: "string \<Rightarrow> string \<Rightarrow> int \<Rightarrow> string \<Rightarrow> string \<Rightarrow> string" where
  "connectionURI e host port user dbName =
     (let at = ''://'' @ user @ ''@'' @ host @ '':'' @ string_of_int port @ ''/'' in
      if e = ConnPostgres then ''postgresql'' @ at @ dbName
      else if e = ConnMySQL \<or> e = ConnMariaDB then ''mysql'' @ at @ dbName
      else if e = ConnRedis then ''redis'' @ at @ ''0''
      else e @ at @ dbName)"

record db_result =
  ld_SessionID :: string
  ld_TargetName :: string
  ld_Engine :: string
  ld_Database :: string
  ld_Host :: string
  ld_Port :: int
  ld_BrokerHost :: string
  ld_BrokerPort :: int
  ld_ConnectionUser :: string
  ld_ConnectionToken :: string
  ld_ConnectionURI :: string

record broker_config =
  bc_Host :: string
  bc_Ports :: "(string \<times> int) list"

text \<open>From the checkout on; \<open>rndTok\<close> and \<open>rnd\<close> are the random bytes of the token and of the nonce.\<close>

definition db_session ::
  "vault \<Rightarrow> broker_config \<Rightarrow> int \<Rightarrow> bytes option \<Rightarrow> bytes option \<Rightarrow> target_row \<Rightarrow> int \<Rightarrow> string \<Rightarrow> string \<Rightarrow> string \<Rightarrow>
     account \<Rightarrow> pam_db \<Rightarrow> (err + db_result) \<times> pam_db" where
  "db_session v cfg nano rndTok rnd t userID portalUsername reason clientIP acct db =
     (let engine = default_string (t_connection_type t) (DatabaseEngine (t_connection_type t) (t_kind t));
          port = (if t_port t \<le> 0 then defaultEnginePort engine else t_port t);
          dbName = default_string (defaultDatabase engine) (t_db_name t)
      in case Checkout v (ac_ID acct) userID reason False db of
           (Inl e, db) \<Rightarrow> (Inl (wrap_err ''checkout DB account'' e), db)
         | (Inr co, db) \<Rightarrow>
             (case randomToken 32 rndTok of
                Inl e \<Rightarrow> (Inl e, db)
              | Inr token \<Rightarrow>
                  let sessionID = session_id ''db'' nano (t_id t);
                      creds = \<lparr>dc_Engine = engine, dc_Username = ac_Username acct,
                        dc_Password = cr_Password co, dc_Host = t_host t, dc_Port = port,
                        dc_Database = dbName, dc_BrokerToken = token,
                        dc_PortalUser = trim_space portalUsername, dc_PortalUserID = userID,
                        dc_TargetID = t_id t, dc_TargetKind = t_kind t\<rparr>
                  in case store_session v rnd (DBVaultSecretName sessionID)
                        (bytes_of_string (db_payload creds)) (\<lambda>e. e)
                        (open_session sessionID userID (t_id t) clientIP ''db''
                           (Some (ac_ID acct)) None db) db of
                       (Inl e, db) \<Rightarrow> (Inl e, db)
                     | (Inr _, db) \<Rightarrow>
                         let bport = (case map_of (bc_Ports cfg) engine of
                               Some p \<Rightarrow> if p \<le> 0 then defaultBrokerPort engine else p
                             | None \<Rightarrow> defaultBrokerPort engine);
                             bhost = default_string ''localhost'' (trim_space (bc_Host cfg));
                             user = ''pam.'' @ sessionID
                         in (Inr \<lparr>ld_SessionID = sessionID, ld_TargetName = t_name t,
                               ld_Engine = engine, ld_Database = dbName, ld_Host = t_host t,
                               ld_Port = port, ld_BrokerHost = bhost, ld_BrokerPort = bport,
                               ld_ConnectionUser = user, ld_ConnectionToken = token,
                               ld_ConnectionURI = connectionURI engine bhost bport user dbName\<rparr>, db)))"

definition db_Launch ::
  "vault \<Rightarrow> broker_config \<Rightarrow> int \<Rightarrow> bytes option \<Rightarrow> bytes option \<Rightarrow> int \<Rightarrow> int \<Rightarrow> string \<Rightarrow> string \<Rightarrow> string \<Rightarrow>
     string \<Rightarrow> pam_db \<Rightarrow> (err + db_result) \<times> pam_db" where
  "db_Launch v cfg nano rndTok rnd targetID userID userRole portalUsername reason clientIP db =
     (case launch_target db targetID of
        Inl e \<Rightarrow> (Inl e, db)
      | Inr t \<Rightarrow>
          if \<not> IsDatabaseConnection (t_connection_type t) then (Inl ErrNotDatabase, db)
          else if t_host t = [] then (Inl (ErrMsg ''database host is required''), db)
          else case launch_decision db userID userRole t ''ssh'' False of
            Inl e \<Rightarrow> (Inl e, db)
          | Inr dec \<Rightarrow>
              let db = snd (EndActiveForUserTarget True userID targetID ''db'' ''superseded'' db)
              in case FindAccountForTarget db targetID of
                   Inl e \<Rightarrow> (Inl e, db)
                 | Inr (acct, dualControl) \<Rightarrow>
                     if dualControl \<and> \<not> IsApproved db userID targetID then (Inl ErrApprovalRequired, db)
                     else db_session v cfg nano rndTok rnd t userID portalUsername reason clientIP acct db)"

section \<open>Web consoles\<close>

record web_creds =
  wc_Username :: string
  wc_Password :: string
  wc_TargetURL :: string
  wc_TargetKind :: string
  wc_PortalUsername :: string
  wc_PortalPassword :: string

definition web_payload :: "web_creds \<Rightarrow> string" where
  "web_payload c = join [CHR 0x0A]
     [wc_Username c, wc_Password c, wc_TargetURL c, wc_TargetKind c, wc_PortalUsername c, wc_PortalPassword c]"

definition web_creds_of :: "string \<Rightarrow> web_creds" where
  "web_creds_of raw =
     (let ps = split_n 6 raw in
      \<lparr>wc_Username = part ps 0, wc_Password = part ps 1, wc_TargetURL = part ps 2, wc_TargetKind = part ps 3,
       wc_PortalUsername = part ps 4, wc_PortalPassword = part ps 5\<rparr>)"

definition web_LoadSessionCreds :: "vault \<Rightarrow> pam_db \<Rightarrow> string \<Rightarrow> err + web_creds" where
  "web_LoadSessionCreds v db sessionID =
     (case GetSecret v db (WebVaultSecretName sessionID) of
        Inl e \<Rightarrow> Inl e
      | Inr raw \<Rightarrow> Inr (web_creds_of (string_of_bytes raw)))"

text \<open>User name, password, and whether both are there.\<close>

definition web_lookupAccount :: "vault \<Rightarrow> pam_db \<Rightarrow> int \<Rightarrow> string \<times> string \<times> bool" where
  "web_lookupAccount v db targetID =
     (case (if faults db Launch_Account then None
            else first_row (sort_key pa_id (filter (\<lambda>a. pa_target_id a = Some targetID) (privileged_accounts db)))) of
        None \<Rightarrow> ([], [], False)
      | Some a \<Rightarrow>
          (case GetSecret v db (pa_secret_ref a) of
             Inl e \<Rightarrow> (pa_username a, [], False)
           | Inr pw \<Rightarrow>
               if pw = [] then (pa_username a, [], False) else (pa_username a, string_of_bytes pw, True)))"

record web_result =
  lw_SessionID :: string
  lw_TargetName :: string
  lw_WebURL :: string
  lw_ViewerURL :: string
  lw_Username :: string
  lw_HasAccount :: bool

text \<open>From the lookup of the account on.\<close>

definition web_creds_for :: "vault \<Rightarrow> pam_db \<Rightarrow> target_row \<Rightarrow> int \<Rightarrow> string \<Rightarrow> web_creds" where
  "web_creds_for v db t userID portalUsername =
     (let (username, password, _) = web_lookupAccount v db (t_id t) in
      \<lparr>wc_Username = username, wc_Password = password, wc_TargetURL = t_web_url t,
       wc_TargetKind = t_kind t, wc_PortalUsername = trim_space portalUsername,
       wc_PortalPassword = (if 0 < userID then
          (case GetSecret v db (UserPassthroughKey userID) of Inl _ \<Rightarrow> [] | Inr pw \<Rightarrow> string_of_bytes pw)
          else [])\<rparr>)"

definition web_session ::
  "vault \<Rightarrow> string \<Rightarrow> int \<Rightarrow> bytes option \<Rightarrow> target_row \<Rightarrow> int \<Rightarrow> string \<Rightarrow> string \<Rightarrow> pam_db \<Rightarrow>
     (err + web_result) \<times> pam_db" where
  "web_session v browserBase nano rnd t userID portalUsername clientIP db =
     (let sessionID = session_id ''web'' nano (t_id t);
          creds = web_creds_for v db t userID portalUsername;
          hasAccount = snd (snd (web_lookupAccount v db (t_id t)))
      in case store_session v rnd (WebVaultSecretName sessionID) (bytes_of_string (web_payload creds))
            (wrap_err ''store web session credentials'')
            (open_session sessionID userID (t_id t) clientIP ''web'' None None db) db of
           (Inl e, db) \<Rightarrow> (Inl e, db)
         | (Inr _, db) \<Rightarrow>
             (Inr \<lparr>lw_SessionID = sessionID, lw_TargetName = t_name t, lw_WebURL = t_web_url t,
                   lw_ViewerURL = trimSlash browserBase @ ''/web-viewer.html?session='' @ sessionID,
                   lw_Username = wc_Username creds, lw_HasAccount = hasAccount\<rparr>, db))"

definition web_Launch ::
  "vault \<Rightarrow> string \<Rightarrow> int \<Rightarrow> bytes option \<Rightarrow> int \<Rightarrow> int \<Rightarrow> string \<Rightarrow> string \<Rightarrow> string \<Rightarrow> string \<Rightarrow> pam_db \<Rightarrow>
     (err + web_result) \<times> pam_db" where
  "web_Launch v browserBase nano rnd targetID userID userRole portalUsername reason clientIP db =
     (case launch_target db targetID of
        Inl e \<Rightarrow> (Inl e, db)
      | Inr t \<Rightarrow>
          if t_connection_type t \<noteq> ''web'' \<and> t_connection_type t \<noteq> ''https-api'' then (Inl ErrNotWeb, db)
          else if t_web_url t = [] then
            (Inl (ErrMsg (''no web URL configured for this target '' @ em_dash @ '' edit it in Machines and add the URL'')), db)
          else case launch_decision db userID userRole t ''ssh'' False of
            Inl e \<Rightarrow> (Inl e, db)
          | Inr dec \<Rightarrow>
              web_session v browserBase nano rnd t userID portalUsername clientIP
                (snd (EndActiveForUserTarget True userID targetID ''web'' ''superseded'' db)))"

section \<open>SSH in the browser\<close>

record ssh_creds =
  sk_Mode :: string
  sk_Token :: string
  sk_PortalUser :: string
  sk_TargetRef :: string
  sk_UserID :: int
  sk_TargetID :: int
  sk_SessionID :: string
  sk_PassthroughPW :: string
  sk_ClipboardCopy :: "bool option"
  sk_ClipboardPaste :: "bool option"

definition ClipboardCopyAllowed :: "ssh_creds \<Rightarrow> bool" where
  "ClipboardCopyAllowed c = (case sk_ClipboardCopy c of None \<Rightarrow> True | Some b \<Rightarrow> b)"

definition ClipboardPasteAllowed :: "ssh_creds \<Rightarrow> bool" where
  "ClipboardPasteAllowed c = (case sk_ClipboardPaste c of None \<Rightarrow> True | Some b \<Rightarrow> b)"

text \<open>\<^verbatim>\<open>json.Marshal\<close> on text that is valid UTF-8 without the line separators U+2028 and U+2029.\<close>

definition json_char :: "char \<Rightarrow> string" where
  "json_char c =
     (let n = (of_char c :: nat); hex = CHR 0x5C # ''u00'' @ [hex_digit (n div 16), hex_digit (n mod 16)] in
      if n = 0x22 \<or> n = 0x5C then [CHR 0x5C, c]
      else if n = 0x08 then [CHR 0x5C, CHR ''b''] else if n = 0x0C then [CHR 0x5C, CHR ''f''] else if n = 0x0A then [CHR 0x5C, CHR ''n'']
      else if n = 0x0D then [CHR 0x5C, CHR ''r''] else if n = 0x09 then [CHR 0x5C, CHR ''t'']
      else if n < 0x20 \<or> n = 0x3C \<or> n = 0x3E \<or> n = 0x26 then hex
      else [c])"

definition json_string :: "string \<Rightarrow> string" where
  "json_string s = CHR 0x22 # concat (map json_char s) @ [CHR 0x22]"

definition json_field :: "string \<Rightarrow> string \<Rightarrow> string" where
  "json_field name val = json_string name @ '':'' @ val"

definition json_bool :: "bool \<Rightarrow> string" where
  "json_bool b = (if b then ''true'' else ''false'')"

definition MarshalSessionCreds :: "ssh_creds \<Rightarrow> bytes" where
  "MarshalSessionCreds c =
     bytes_of_string (''{'' @ join '',''
       ([json_field ''mode'' (json_string (sk_Mode c)), json_field ''token'' (json_string (sk_Token c)),
         json_field ''portal_user'' (json_string (sk_PortalUser c)),
         json_field ''target_ref'' (json_string (sk_TargetRef c)),
         json_field ''user_id'' (string_of_int (sk_UserID c)),
         json_field ''target_id'' (string_of_int (sk_TargetID c)),
         json_field ''session_id'' (json_string (sk_SessionID c))] @
        (if sk_PassthroughPW c = [] then [] else [json_field ''passthrough_pw'' (json_string (sk_PassthroughPW c))]) @
        (case sk_ClipboardCopy c of None \<Rightarrow> [] | Some b \<Rightarrow> [json_field ''clipboard_copy'' (json_bool b)]) @
        (case sk_ClipboardPaste c of None \<Rightarrow> [] | Some b \<Rightarrow> [json_field ''clipboard_paste'' (json_bool b)])) @ ''}'')"

definition formatInt :: "int \<Rightarrow> string" where
  "formatInt n = (if n = 0 then ''0'' else if 0 < n then string_of_int n else [])"

definition TargetRef :: "int \<Rightarrow> string" where
  "TargetRef i = ''#'' @ formatInt i"

definition sshTargetSlug :: "string \<Rightarrow> string" where
  "sshTargetSlug s =
     (let s = trim_space s in
      if list_all (\<lambda>c. is_letter c \<or> is_digit c \<or> c \<in> {CHR ''.'', CHR ''_'', CHR ''-''}) s then s else [])"

definition TargetSSHRef :: "string \<Rightarrow> string \<Rightarrow> int \<Rightarrow> string" where
  "TargetSSHRef host name targetID =
     (if sshTargetSlug host \<noteq> [] then sshTargetSlug host
      else if sshTargetSlug name \<noteq> [] then sshTargetSlug name else TargetRef targetID)"

definition NewBrowserToken :: "bytes option \<Rightarrow> err + string" where
  "NewBrowserToken rnd =
     (case read_full 24 rnd of
        None \<Rightarrow> Inl (ErrMsg ''random source failed'') | Some b \<Rightarrow> Inr (URLEncoding_Encode False b))"

text \<open>Markers among the denied commands switch the clipboard off.\<close>

definition clipboardPermissions :: "decision \<Rightarrow> bool \<times> bool" where
  "clipboardPermissions dec =
     fold (\<lambda>d (c, p).
       let k = to_lower (trim_space d) in
       if k = ''clipboard.none'' \<or> k = ''clipboard'' then (False, False)
       else if k = ''clipboard.copy'' then (False, p)
       else if k = ''clipboard.paste'' then (c, False)
       else (c, p)) (DeniedCmds dec) (True, True)"

record ssh_result =
  ls_SessionID :: string
  ls_TargetName :: string
  ls_Host :: string
  ls_Port :: int
  ls_Username :: string
  ls_BrowserURL :: string
  ls_ClipboardCopy :: bool
  ls_ClipboardPaste :: bool

definition has_birthright :: "pam_db \<Rightarrow> int \<Rightarrow> int \<Rightarrow> bool" where
  "has_birthright db userID targetID =
     (\<not> faults db Launch_Birthright \<and>
      rows_affected (\<lambda>b. ba_user_id b = userID \<and> ba_target_id b = targetID) (birthright_assignments db) \<noteq> 0)"

definition portal_user_name :: "pam_db \<Rightarrow> int \<Rightarrow> string" where
  "portal_user_name db userID =
     (if faults db Launch_User then []
      else case row_by u_id userID (users db) of None \<Rightarrow> [] | Some u \<Rightarrow> u_username u)"

text \<open>From the token on.\<close>

definition ssh_session ::
  "vault \<Rightarrow> launch_config \<Rightarrow> int \<Rightarrow> bytes option \<Rightarrow> bytes option \<Rightarrow> bytes option \<Rightarrow> target_row \<Rightarrow> int \<Rightarrow> string \<Rightarrow>
     string \<Rightarrow> string \<Rightarrow> bool \<times> bool \<Rightarrow> pam_db \<Rightarrow> (err + ssh_result) \<times> pam_db" where
  "ssh_session v cfg nano rndTok rnd1 rnd2 t userID portalUser clientIP portalPassword clipboard db =
     (case NewBrowserToken rndTok of
        Inl e \<Rightarrow> (Inl (wrap_err ''browser token'' e), db)
      | Inr token \<Rightarrow>
          let sessionID = session_id ''ssh'' nano (t_id t);
              creds = MarshalSessionCreds
                \<lparr>sk_Mode = ''browser'', sk_Token = token, sk_PortalUser = portalUser,
                 sk_TargetRef = TargetSSHRef (t_host t) (t_name t) (t_id t), sk_UserID = userID,
                 sk_TargetID = t_id t, sk_SessionID = sessionID,
                 sk_PassthroughPW = trim_space portalPassword, sk_ClipboardCopy = Some (fst clipboard),
                 sk_ClipboardPaste = Some (snd clipboard)\<rparr>
          in case PutSecret v rnd1 (ssh_SessionSecretName sessionID) creds None db of
               (Inl e, db) \<Rightarrow> (Inl (wrap_err ''store session credentials'' e), db)
             | (Inr _, db) \<Rightarrow>
                 (case PutSecret v rnd2 (BrowserTokenVaultKey token) creds None db of
                    (Inl e, db) \<Rightarrow>
                      (Inl (wrap_err ''store browser token'' e),
                       snd (DeleteSecret (ssh_SessionSecretName sessionID) db))
                  | (Inr _, db) \<Rightarrow>
                      (case insert_session (open_session sessionID userID (t_id t) clientIP ''ssh''
                             None (Some (lg_RecordingDir cfg @ ''/ssh/'' @ sessionID)) db) db of
                         (Inl e, db) \<Rightarrow>
                           (Inl e, snd (DeleteSecret (ssh_SessionSecretName sessionID)
                              (snd (DeleteSecret (BrowserTokenVaultKey token) db))))
                       | (Inr _, db) \<Rightarrow>
                           (Inr \<lparr>ls_SessionID = sessionID, ls_TargetName = t_name t,
                                 ls_Host = t_host t, ls_Port = (if t_port t \<le> 0 then 22 else t_port t),
                                 ls_Username = ''pam-user'',
                                 ls_BrowserURL = (if lg_BrowserBase cfg = [] then []
                                   else trimSlash (lg_BrowserBase cfg) @
                                     ''/ssh-viewer.html?session='' @ sessionID),
                                 ls_ClipboardCopy = fst clipboard, ls_ClipboardPaste = snd clipboard\<rparr>, db))))"

definition ssh_Launch ::
  "vault \<Rightarrow> launch_config \<Rightarrow> int \<Rightarrow> bytes option \<Rightarrow> bytes option \<Rightarrow> bytes option \<Rightarrow> int \<Rightarrow> int \<Rightarrow> string \<Rightarrow>
     string \<Rightarrow> string \<Rightarrow> string \<Rightarrow> pam_db \<Rightarrow> (err + ssh_result) \<times> pam_db" where
  "ssh_Launch v cfg nano rndTok rnd1 rnd2 targetID userID userRole reason clientIP portalPassword db =
     (case launch_target db targetID of
        Inl e \<Rightarrow> (Inl e, db)
      | Inr t \<Rightarrow>
          if t_connection_type t \<noteq> ''ssh'' \<and> t_connection_type t \<noteq> [] then (Inl ErrNotSSH, db)
          else case launch_decision db userID userRole t ''ssh'' (has_birthright db userID targetID) of
            Inl e \<Rightarrow> (Inl e, db)
          | Inr dec \<Rightarrow>
              if portal_user_name db userID = [] then (Inl (ErrMsg ''portal user not found''), db)
              else ssh_session v cfg nano rndTok rnd1 rnd2 t userID (portal_user_name db userID) clientIP
                portalPassword (clipboardPermissions dec) db)"

end
