(* ===== verification/LaunchSpec.thy ===== *)
theory LaunchSpec
  imports Launch CredentialSpec
begin

text \<open>
  What opening a session promises: no launch of any kind without a decision of the policy engine and,
  where it is asked for, an approved request; a refused launch leaves nothing behind; the session holds
  the password of the account; and where the launches differ from each other and from that.
\<close>

section \<open>Authorisation\<close>

definition granted :: "pam_db \<Rightarrow> int \<Rightarrow> string \<Rightarrow> target_row \<Rightarrow> string \<Rightarrow> bool \<Rightarrow> bool" where
  "granted db userID userRole t action exempt \<longleftrightarrow>
     (\<exists>roles dec. EffectiveRoles db userID userRole = (roles, None) \<and>
        Decide db \<lparr>in_UserID = userID, in_Role = userRole, in_Roles = roles, in_TargetID = t_id t,
          in_TargetKind = t_kind t, in_TargetTier = t_tier t, in_Action = action\<rparr> = Inr dec \<and>
        Allow dec \<and> (RequireApproval dec \<longrightarrow> exempt \<or> IsApproved db userID (t_id t)))"

lemma launch_decision_granted:
  "launch_decision db u role t act exempt = Inr dec \<Longrightarrow> granted db u role t act exempt"
  by (auto simp: launch_decision_def granted_def split: prod.splits option.splits sum.splits if_splits)

lemma launch_target_row: "launch_target db i = Inr t \<Longrightarrow> row_by t_id i (targets db) = Some t"
  by (auto simp: launch_target_def split: if_splits option.splits)

lemma rdp_Launch_Inr:
  assumes "rdp_Launch v cfg nano rnd i u role reason ip db = (Inr res, db')"
  obtains t dec acct dual where "launch_target db i = Inr t" "t_connection_type t = ''rdp''"
    "launch_decision db u role t ''rdp'' False = Inr dec" "FindPrimaryForTarget db i = Inr (acct, dual)"
    "dual \<longrightarrow> IsApproved db u i"
    "rdp_session v cfg nano rnd t u reason ip acct
       (snd (EndActiveForUserTarget True u i ''rdp'' ''superseded'' db)) = (Inr res, db')"
  using assms by (auto simp: rdp_Launch_def split: sum.splits if_splits)

lemma db_Launch_Inr:
  assumes "db_Launch v bc nano rt rnd i u role pu reason ip db = (Inr res, db')"
  obtains t dec acct dual db1 where "launch_target db i = Inr t" "IsDatabaseConnection (t_connection_type t)"
    "launch_decision db u role t ''ssh'' False = Inr dec"
    "db1 = snd (EndActiveForUserTarget True u i ''db'' ''superseded'' db)"
    "FindAccountForTarget db1 i = Inr (acct, dual)" "dual \<longrightarrow> IsApproved db1 u i"
    "db_session v bc nano rt rnd t u pu reason ip acct db1 = (Inr res, db')"
  using assms by (auto simp: db_Launch_def Let_def split: sum.splits if_splits)

lemma web_Launch_Inr:
  assumes "web_Launch v base nano rnd i u role pu reason ip db = (Inr res, db')"
  obtains t dec where "launch_target db i = Inr t" "t_connection_type t \<in> {''web'', ''https-api''}"
    "launch_decision db u role t ''ssh'' False = Inr dec"
    "web_session v base nano rnd t u pu ip (snd (EndActiveForUserTarget True u i ''web'' ''superseded'' db)) = (Inr res, db')"
  using assms by (auto simp: web_Launch_def split: sum.splits if_splits)

lemma ssh_Launch_Inr:
  assumes "ssh_Launch v cfg nano rt r1 r2 i u role reason ip pp db = (Inr res, db')"
  obtains t dec where "launch_target db i = Inr t" "t_connection_type t \<in> {''ssh'', []}"
    "launch_decision db u role t ''ssh'' (has_birthright db u i) = Inr dec" "portal_user_name db u \<noteq> []"
    "ssh_session v cfg nano rt r1 r2 t u (portal_user_name db u) ip pp (clipboardPermissions dec) db = (Inr res, db')"
  using assms by (auto simp: ssh_Launch_def split: sum.splits if_splits)

text \<open>An account that may be used: its safe asks for no dual control, or the user holds a grant.\<close>

definition account_released :: "pam_db \<Rightarrow> int \<Rightarrow> int \<Rightarrow> (err + account \<times> bool) \<Rightarrow> bool" where
  "account_released db u i found =
     (case found of Inl _ \<Rightarrow> False | Inr (_, dual) \<Rightarrow> dual \<le> IsApproved db u i)"

text \<open>C40: Opening a session of any kind either finds the machine and a decision of the policy engine that allows
  it, with an active grant where the decision asks for one (the SSH launch also accepts a birthright), or it fails
  and changes nothing.  RDP and database sessions come about only when the safe of the account asks for no dual
  control or the user holds a grant.\<close>

theorem launch_needs_grant:
  "((\<exists>t. row_by t_id i (targets db) = Some t \<and> granted db u role t ''rdp'' False \<and>
       account_released db u i (FindPrimaryForTarget db i)) \<or>
    (\<exists>e. rdp_Launch v cfg nano rnd i u role reason ip db = (Inl e, db))) \<and>
   ((\<exists>t. row_by t_id i (targets db) = Some t \<and> granted db u role t ''ssh'' False) \<or>
    (\<exists>e. db_Launch v bc nano rt rnd i u role pu reason ip db = (Inl e, db))) \<and>
   (account_released db u i (FindAccountForTarget db i) \<or>
    (\<exists>e. fst (db_Launch v bc nano rt rnd i u role pu reason ip db) = Inl e)) \<and>
   ((\<exists>t. row_by t_id i (targets db) = Some t \<and> granted db u role t ''ssh'' False) \<or>
    (\<exists>e. web_Launch v base nano rnd i u role pu reason ip db = (Inl e, db))) \<and>
   ((\<exists>t. row_by t_id i (targets db) = Some t \<and> granted db u role t ''ssh'' (has_birthright db u i)) \<or>
    (\<exists>e. ssh_Launch v cfg nano rt r1 r2 i u role reason ip pp db = (Inl e, db)))"
proof -
  let ?db1 = "snd (EndActiveForUserTarget True u i ''db'' ''superseded'' db)"
  have cong: "FindAccountForTarget ?db1 i = FindAccountForTarget db i" "IsApproved ?db1 u i = IsApproved db u i"
    using account_of_row_cong [of ?db1 db]
    by (simp_all add: FindAccountForTarget_def find_for_target_def IsApproved_def grants_for_def cong: option.case_cong)
  have "account_released db u i (FindAccountForTarget db i)"
    if "db_Launch v bc nano rt rnd i u role pu reason ip db = (Inr res, db')" for res db'
    using db_Launch_Inr [OF that] cong by (fastforce simp: account_released_def)
  then have db_dual: "account_released db u i (FindAccountForTarget db i) \<or>
      (\<exists>e. fst (db_Launch v bc nano rt rnd i u role pu reason ip db) = Inl e)"
    by (metis prod.collapse sum.exhaust)
  have rdp: "(\<exists>t. row_by t_id i (targets db) = Some t \<and> granted db u role t ''rdp'' False \<and>
       account_released db u i (FindPrimaryForTarget db i)) \<or>
    (\<exists>e. rdp_Launch v cfg nano rnd i u role reason ip db = (Inl e, db))"
    by (auto simp: rdp_Launch_def account_released_def dest: launch_decision_granted launch_target_row split: sum.splits)
  have db: "(\<exists>t. row_by t_id i (targets db) = Some t \<and> granted db u role t ''ssh'' False) \<or>
    (\<exists>e. db_Launch v bc nano rt rnd i u role pu reason ip db = (Inl e, db))"
    by (cases "launch_target db i"; simp add: db_Launch_def)
      (auto dest!: launch_target_row dest: launch_decision_granted split: sum.split)
  have web: "(\<exists>t. row_by t_id i (targets db) = Some t \<and> granted db u role t ''ssh'' False) \<or>
    (\<exists>e. web_Launch v base nano rnd i u role pu reason ip db = (Inl e, db))"
    by (auto simp: web_Launch_def dest: launch_decision_granted launch_target_row split: sum.splits)
  have "(\<exists>t. row_by t_id i (targets db) = Some t \<and> granted db u role t ''ssh'' (has_birthright db u i)) \<or>
    (\<exists>e. ssh_Launch v cfg nano rt r1 r2 i u role reason ip pp db = (Inl e, db))"
    by (auto simp: ssh_Launch_def dest: launch_decision_granted launch_target_row split: sum.splits)
  with db_dual rdp db web show ?thesis by blast
qed

section \<open>The session\<close>

lemma store_session_Inr:
  assumes "store_session v rnd n x w r db = (Inr (), db')"
  obtains t where "PutSecret v rnd n x None db = (Inr (), t)" "secrets db' = secrets t" "faults db' = faults db"
    "sessions db' = sessions db @ [r]" "credential_checkouts db' = credential_checkouts db"
proof -
  from assms obtain t where put: "PutSecret v rnd n x None db = (Inr (), t)"
    by (auto simp: store_session_def split: prod.splits sum.splits)
  with assms have ins: "insert_session r t = (Inr (), db')"
    by (auto simp: store_session_def split: prod.splits sum.splits)
  then have db': "db' = t\<lparr>sessions := sessions t @ [r]\<rparr>"
    by (auto simp: insert_session_def split: if_splits)
  have "sessions t = sessions db" "credential_checkouts t = credential_checkouts db"
    using put by (auto simp: PutSecret_def insert_secret_def bump_seq_def split: sum.splits if_splits)
  moreover have "faults t = faults db" using PutSecret_frame(6) put by (metis snd_conv)
  ultimately show thesis using put by (intro that [of t]) (simp_all add: db')
qed

lemma stored_secret:
  assumes "store_session v rnd n x w r db = (Inr (), db')" "secrets_readable db"
  shows "GetSecret v db' n = Inr x"
  using assms(1)
proof (rule store_session_Inr)
  fix t
  assume t: "PutSecret v rnd n x None db = (Inr (), t)" "secrets db' = secrets t" "faults db' = faults db"
  have "GetSecret v t n = Inr x" using vault.put_get [OF t(1) assms(2)] .
  moreover have "faults t = faults db" using PutSecret_frame(6) t(1) by (metis snd_conv)
  ultimately show ?thesis using t by (metis GetSecret_cong)
qed

lemma Checkout_frame:
  assumes "Checkout v i u reason bg db = (res, db')"
  shows "sessions db' = sessions db" "faults db' = faults db" "secrets db' = secrets db"
    "privileged_accounts db' = privileged_accounts db"
  using assms by (auto simp: Checkout_def Let_def bump_seq_def split: sum.splits if_splits)

lemma Checkout_Inr:
  assumes "Checkout v i u reason bg db = (Inr co, db')"
  obtains a pw where "AccountGet db i = Inr a" "GetSecret v db (ac_SecretRef a) = Inr pw"
    "cr_Password co = string_of_bytes pw" "cr_CheckoutID co \<in> co_id ` set (credential_checkouts db')"
    "i \<in> co_account_id ` set (credential_checkouts db')"
  using assms by (auto simp: Checkout_def Let_def split: sum.splits if_splits)

text \<open>Ending sessions never touches the secret of an account.\<close>

lemma DeleteSecret_other:
  "m \<noteq> n \<Longrightarrow> GetSecret v (snd (DeleteSecret n db)) m = GetSecret v db m"
proof -
  assume "m \<noteq> n"
  then have "filter (\<lambda>r. se_name r = m) (delete_where (\<lambda>r. se_name r = n) rows) = filter (\<lambda>r. se_name r = m) rows" for rows :: "secret_row list"
    by (induction rows) (auto simp: delete_where_def)
  then show ?thesis by (simp add: DeleteSecret_def GetSecret_def row_by_def)
qed

lemma session_secret_prefix: "session_secret i = Some n \<Longrightarrow> hd n = CHR ''_''"
  by (auto simp: session_secret_def WebVaultSecretName_def DBVaultSecretName_def split: if_splits)

lemma EndSession_secret:
  assumes "hd m \<noteq> CHR ''_''"
  shows "GetSecret v (snd (EndSession hv i r db)) m = GetSecret v db m"
proof -
  have "GetSecret v (close_session i r' db) m = GetSecret v db m" for r'
    by (rule GetSecret_cong) simp_all
  moreover have "m \<noteq> n" if "session_secret i = Some n" for n
    using session_secret_prefix [OF that] assms by auto
  ultimately show ?thesis
    by (simp add: EndSession_def Let_def DeleteSecret_other split: option.splits)
qed

lemma EndActive_secret:
  assumes "hd m \<noteq> CHR ''_''"
  shows "GetSecret v (snd (EndActiveForUserTarget hv u t p r db)) m = GetSecret v db m"
proof -
  have "GetSecret v (fold (\<lambda>i db. snd (EndSession hv i r db)) ids db) m = GetSecret v db m" for ids
    by (induction ids arbitrary: db) (simp_all add: EndSession_secret assms)
  then show ?thesis by (simp add: EndActiveForUserTarget_def)
qed

lemma EndSession_readable: "secrets_readable db \<Longrightarrow> secrets_readable (snd (EndSession hv i r db))"
  by (auto simp: EndSession_def Let_def secrets_readable_def DeleteSecret_def distinct_map_delete_where
      split: option.splits)

lemma EndActive_readable:
  "secrets_readable db \<Longrightarrow> secrets_readable (snd (EndActiveForUserTarget hv u t p r db))"
proof -
  have "secrets_readable db \<Longrightarrow> secrets_readable (fold (\<lambda>i db. snd (EndSession hv i r db)) ids db)" for ids db
    by (induction ids arbitrary: db) (simp_all add: EndSession_readable)
  then show "secrets_readable db \<Longrightarrow> ?thesis" by (simp add: EndActiveForUserTarget_def)
qed

lemma store_session_succeeds:
  assumes "length (va_MasterKey v) = 32" "length n = 12" "faults db = (\<lambda>_. False)"
    "ss_id r \<notin> ss_id ` set (sessions db)"
    "\<forall>a. ss_account_id r = Some a \<longrightarrow> a \<in> pa_id ` set (privileged_accounts db)"
  shows "\<exists>db'. store_session v (Some n) name x w r db = (Inr (), db')"
proof -
  obtain t where put: "PutSecret v (Some n) name x None db = (Inr (), t)"
    using PutSecret_succeeds [OF assms(1-3)] by blast
  then have "sessions t = sessions db"
    by (auto simp: PutSecret_def insert_secret_def bump_seq_def split: sum.splits if_splits)
  moreover have "privileged_accounts t = privileged_accounts db" "faults t = faults db"
    using PutSecret_frame(1,6) put by (metis snd_conv)+
  ultimately have "insert_session r t = (Inr (), t\<lparr>sessions := sessions t @ [r]\<rparr>)"
    using assms(3-5) by (auto simp: insert_session_def split: option.splits)
  then show ?thesis using put by (simp add: store_session_def)
qed

lemma EndActive_none: "active_ids db u i p = [] \<Longrightarrow> snd (EndActiveForUserTarget hv u i p r db) = db"
  by (simp add: EndActiveForUserTarget_def)

section \<open>A populated database\<close>

text \<open>A web machine whose account lies in a safe with dual control and a Windows machine whose account does not;
  both accounts have the secret with the ciphertext \<open>ct\<close>.\<close>

definition launch_db :: "string \<Rightarrow> pam_db" where
  "launch_db ct = demo_db\<lparr>
     policies := [\<lparr>p_id = 1, p_role = ''netops'', p_target_kind = ''*'', p_tier_max = 3, p_require_approval = 0,
       p_allowed_commands = [], p_denied_commands = [], p_linux_privilege = [], p_cisco_privilege_level = 0\<rparr>],
     targets := [\<lparr>t_id = 3, t_name = ''fw1'', t_kind = ''fortinet'', t_host = ''10.0.0.1'', t_port = 443, t_tier = 0,
         t_tags = [], t_location_id = None, t_connection_type = ''web'', t_web_url = ''https://fw1'', t_vendor = [],
         t_os_version = [], t_db_name = []\<rparr>,
       \<lparr>t_id = 4, t_name = ''win1'', t_kind = ''windows'', t_host = ''10.0.0.2'', t_port = 3389, t_tier = 0,
         t_tags = [], t_location_id = None, t_connection_type = ''rdp'', t_web_url = [], t_vendor = [],
         t_os_version = [], t_db_name = []\<rparr>],
     safes := [demo_safe 1 ''prod'', (demo_safe 2 ''dual'')\<lparr>sf_require_dual_control := 1\<rparr>],
     privileged_accounts := [demo_account\<lparr>pa_safe_id := 2, pa_target_id := Some 3\<rparr>,
       demo_account\<lparr>pa_id := 2, pa_name := ''adm'', pa_target_id := Some 4, pa_platform := ''windows''\<rparr>],
     secrets := [\<lparr>se_id = 1, se_name = ''acct/root'', se_target_id = None, se_ciphertext = ct,
       se_rotation_due = None, se_updated_at = 0\<rparr>]\<rparr>"


lemma launch_db_simps:
  "faults (launch_db ct) = (\<lambda>_. False)" "sessions (launch_db ct) = []" "secrets_readable (launch_db ct)"
  "users (launch_db ct) = [demo_user]"
  by (simp_all add: launch_db_def secrets_readable_def demo_db_def empty_db_def)

lemma launch_db_secret:
  "Encrypt rnd (va_MasterKey v) pw = Inr ct \<Longrightarrow> GetSecret v (launch_db ct) ''acct/root'' = Inr pw"
  by (simp add: GetSecret_def launch_db_simps) (simp add: launch_db_def row_by_def Decrypt_Encrypt)

lemma launch_db_web:
  "\<exists>t dec acct. launch_target (launch_db ct) 3 = Inr t \<and> t_connection_type t = ''web'' \<and> t_web_url t \<noteq> [] \<and>
     launch_decision (launch_db ct) 7 ''netops'' t ''ssh'' False = Inr dec \<and>
     FindAccountForTarget (launch_db ct) 3 = Inr (acct, True) \<and> \<not> IsApproved (launch_db ct) 7 3"
proof -
  have "ok_that (\<lambda>t. t_connection_type t = ''web'' \<and> t_web_url t \<noteq> [] \<and>
      is_ok (launch_decision (launch_db ct) 7 ''netops'' t ''ssh'' False)) (launch_target (launch_db ct) 3)"
    by code_simp
  moreover have "ok_that snd (FindAccountForTarget (launch_db ct) 3)" by code_simp
  moreover have "\<not> IsApproved (launch_db ct) 7 3" by code_simp
  ultimately show ?thesis by (auto simp: ok_that_iff is_ok_iff)
qed

lemma launch_db_rdp:
  "\<exists>t dec acct. launch_target (launch_db ct) 4 = Inr t \<and> t_connection_type t = ''rdp'' \<and>
     launch_decision (launch_db ct) 7 ''netops'' t ''rdp'' False = Inr dec \<and>
     FindPrimaryForTarget (launch_db ct) 4 = Inr (acct, False) \<and> ac_ID acct = 2"
proof -
  have "ok_that (\<lambda>t. t_connection_type t = ''rdp'' \<and>
      is_ok (launch_decision (launch_db ct) 7 ''netops'' t ''rdp'' False)) (launch_target (launch_db ct) 4)"
    by code_simp
  moreover have "ok_that (\<lambda>(a, d). ac_ID a = 2 \<and> \<not> d) (FindPrimaryForTarget (launch_db ct) 4)" by code_simp
  ultimately show ?thesis by (auto simp: ok_that_iff is_ok_iff)
qed

lemma demo_sealed: "Encrypt (Some demo_nonce) (va_MasterKey demo_vault) pw =
    Inr (StdEncoding_Encode (demo_nonce @ gcm_Seal (va_MasterKey demo_vault) demo_nonce pw))"
  by (rule Encrypt_ok) (simp_all add: demo_vault_def demo_nonce_def)

definition demo_ct :: "bytes \<Rightarrow> string" where
  "demo_ct pw = StdEncoding_Encode (demo_nonce @ gcm_Seal (va_MasterKey demo_vault) demo_nonce pw)"

lemma demo_ct_secret: "GetSecret demo_vault (launch_db (demo_ct pw)) ''acct/root'' = Inr pw"
  using launch_db_secret [OF demo_sealed] by (simp add: demo_ct_def)

lemma launch_db_account:
  "\<exists>a. AccountGet (launch_db ct) 2 = Inr a \<and> ac_SecretRef a = ''acct/root''"
proof -
  have "ok_that (\<lambda>a. ac_SecretRef a = ''acct/root'') (AccountGet (launch_db ct) 2)" by code_simp
  then show ?thesis by (auto simp: ok_that_iff)
qed

lemma launch_db_checkout:
  "\<exists>co db1. Checkout demo_vault 2 7 reason False (launch_db (demo_ct pw)) = (Inr co, db1)"
proof -
  obtain a where "AccountGet (launch_db (demo_ct pw)) 2 = Inr a" "ac_SecretRef a = ''acct/root''"
    using launch_db_account by blast
  then show ?thesis
    by (simp add: Checkout_def demo_ct_secret launch_db_simps demo_user_def Let_def)
qed

lemma launch_db_quiet: "active_ids (launch_db ct) u i p = []"
  by (simp add: active_ids_def launch_db_simps)

text \<open>The two steps of an RDP session: the checkout, and the secret with the row of the session.\<close>

lemma rdp_session_Inr:
  assumes "rdp_session v cfg nano rnd t u reason ip acct db = (Inr res, db')"
  obtains co db1 where
    "Checkout v (ac_ID acct) u (default_string ''RDP session via PAM'' reason) False db = (Inr co, db1)"
    "store_session v rnd (rdp_SessionSecretName (lr_SessionID res)) (bytes_of_string (cr_Password co))
      (wrap_err ''store session credentials'')
      (open_session (lr_SessionID res) u (t_id t) ip ''rdp'' (Some (ac_ID acct))
        (Some (lg_RecordingDir cfg @ ''/rdp/'' @ lr_SessionID res)) db1) db1 = (Inr (), db')"
proof -
  obtain c db1 where co: "Checkout v (ac_ID acct) u (default_string ''RDP session via PAM'' reason) False db = (c, db1)"
    by fastforce
  show thesis
  proof (cases c)
    case (Inr c')
    let ?i = "session_id ''rdp'' nano (t_id t)"
    obtain w db2 where st: "store_session v rnd (rdp_SessionSecretName ?i) (bytes_of_string (cr_Password c'))
        (wrap_err ''store session credentials'')
        (open_session ?i u (t_id t) ip ''rdp'' (Some (ac_ID acct)) (Some (lg_RecordingDir cfg @ ''/rdp/'' @ ?i)) db1) db1 = (w, db2)"
      by fastforce
    show thesis
    proof (cases w)
      case (Inr x)
      with co \<open>c = Inr c'\<close> st have "lr_SessionID (projr (fst (rdp_session v cfg nano rnd t u reason ip acct db))) = ?i"
          "snd (rdp_session v cfg nano rnd t u reason ip acct db) = db2"
        by (simp_all add: rdp_session_def Let_def)
      with assms have "lr_SessionID res = ?i" "db2 = db'" by simp_all
      with that co st Inr \<open>c = Inr c'\<close> show thesis by simp
    qed (use assms co \<open>c = Inr c'\<close> st in \<open>simp add: rdp_session_def Let_def\<close>)
  qed (use assms co in \<open>simp add: rdp_session_def\<close>)
qed

text \<open>C39: An RDP launch that succeeds leaves exactly one open RDP session of the user on the machine, and its
  secret is the vaulted password of the account that was checked out for it.\<close>

theorem rdp_session_holds_password:
  assumes launch: "rdp_Launch v cfg nano rnd i u role reason ip db = (Inr res, db')"
    and quiet: "faults db = (\<lambda>_. False)" and readable: "secrets_readable db"
    and ref: "FindPrimaryForTarget db i = Inr (acct, dual)" "AccountGet db (ac_ID acct) = Inr a"
      "hd (ac_SecretRef a) \<noteq> CHR ''_''"
  shows "\<exists>pw. GetSecret v db (ac_SecretRef a) = Inr pw \<and>
    GetSecret v db' (rdp_SessionSecretName (lr_SessionID res)) = Inr pw \<and>
    ac_ID acct \<in> co_account_id ` set (credential_checkouts db') \<and>
    active_ids db' u i ''rdp'' = [lr_SessionID res]"
  using launch
proof (rule rdp_Launch_Inr)
  let ?db1 = "snd (EndActiveForUserTarget True u i ''rdp'' ''superseded'' db)"
  fix t dec acct' dual'
  assume t: "launch_target db i = Inr t" and acct': "FindPrimaryForTarget db i = Inr (acct', dual')"
    and session: "rdp_session v cfg nano rnd t u reason ip acct' ?db1 = (Inr res, db')"
  have tid: "t_id t = i" using launch_target_row [OF t] by (auto dest: row_by_Some)
  have [simp]: "acct' = acct" using acct' ref(1) by simp
  let ?r = "\<lambda>db2. open_session (lr_SessionID res) u i ip ''rdp'' (Some (ac_ID acct)) (Some (lg_RecordingDir cfg @ ''/rdp/'' @ lr_SessionID res)) db2"
  obtain co db2 where co: "Checkout v (ac_ID acct) u (default_string ''RDP session via PAM'' reason) False ?db1 = (Inr co, db2)"
    and store: "store_session v rnd (rdp_SessionSecretName (lr_SessionID res)) (bytes_of_string (cr_Password co))
      (wrap_err ''store session credentials'') (?r db2) db2 = (Inr (), db')"
    using session unfolding \<open>acct' = acct\<close> by (rule rdp_session_Inr) (simp add: tid)
  obtain a' pw where a': "AccountGet ?db1 (ac_ID acct) = Inr a'" "GetSecret v ?db1 (ac_SecretRef a') = Inr pw"
      "cr_Password co = string_of_bytes pw" "ac_ID acct \<in> co_account_id ` set (credential_checkouts db2)"
    by (rule Checkout_Inr [OF co])
  have "AccountGet ?db1 (ac_ID acct) = AccountGet db (ac_ID acct)" by (rule AccountGet_cong) simp_all
  then have [simp]: "a' = a" using a'(1) ref(2) by simp
  have pw: "GetSecret v db (ac_SecretRef a) = Inr pw" using a'(2) EndActive_secret [OF ref(3)] by simp
  note frame = Checkout_frame [OF co]
  have "secrets_readable db2" using EndActive_readable [OF readable] frame by (simp add: secrets_readable_def)
  from stored_secret [OF store this] a'(3) have sec: "GetSecret v db' (rdp_SessionSecretName (lr_SessionID res)) = Inr pw" by simp
  obtain t' where rows: "sessions db' = sessions db2 @ [?r db2]" "credential_checkouts db' = credential_checkouts db2"
    using store by (rule store_session_Inr)
  have old: "\<not> (ss_user_id s = u \<and> ss_target_id s = i \<and> ss_protocol s = ''rdp'' \<and> ss_ended_at s = None)"
    if "s \<in> set (sessions db2)" for s
    using EndActive_open [of s True u i "''rdp''" "''superseded''" db] that frame(1) quiet by auto
  then have "active_ids db2 u i ''rdp'' = []"
    unfolding active_ids_def map_is_Nil_conv filter_empty_conv by blast
  then show ?thesis using pw sec a'(4) rows by (simp add: open_session_def active_ids_def)
qed

lemma demo_rdp_launch:
  "\<exists>res db'. rdp_Launch demo_vault cfg 99 (Some demo_nonce) 4 7 ''netops'' [] ip (launch_db (demo_ct pw)) = (Inr res, db')"
proof -
  let ?db = "launch_db (demo_ct pw)"
  obtain t dec acct where t: "launch_target ?db 4 = Inr t" "t_connection_type t = ''rdp''"
      "launch_decision ?db 7 ''netops'' t ''rdp'' False = Inr dec" "FindPrimaryForTarget ?db 4 = Inr (acct, False)"
      "ac_ID acct = 2"
    using launch_db_rdp by blast
  obtain co db1 where co: "Checkout demo_vault 2 7 (default_string ''RDP session via PAM'' []) False ?db = (Inr co, db1)"
    using launch_db_checkout by blast
  let ?i = "session_id ''rdp'' 99 (t_id t)"
  have acc: "2 \<in> pa_id ` set (privileged_accounts db1)"
    using Checkout_frame(4) [OF co] by (simp add: launch_db_def demo_account_def)
  obtain db2 where "store_session demo_vault (Some demo_nonce) (rdp_SessionSecretName ?i) (bytes_of_string (cr_Password co))
      (wrap_err ''store session credentials'') (open_session ?i 7 (t_id t) ip ''rdp'' (Some 2)
        (Some (lg_RecordingDir cfg @ ''/rdp/'' @ ?i)) db1) db1 = (Inr (), db2)"
    using store_session_succeeds [of demo_vault demo_nonce db1] Checkout_frame [OF co] acc
    by (fastforce simp: open_session_def demo_vault_def demo_nonce_def launch_db_simps)
  with t co show ?thesis
    by (simp add: rdp_Launch_def rdp_session_def Let_def EndActive_none launch_db_quiet)
qed

lemma rdp_session_holds_password_witness:
  "\<exists>res db'. rdp_Launch demo_vault \<lparr>lg_RecordingDir = ''/rec'', lg_BrowserBase = []\<rparr> 99 (Some demo_nonce) 4 7 ''netops'' [] [] (launch_db (demo_ct [104, 105])) = (Inr res, db') \<and>
     GetSecret demo_vault db' (rdp_SessionSecretName (lr_SessionID res)) = Inr [104, 105]"
proof -
  obtain res db' where launch: "rdp_Launch demo_vault \<lparr>lg_RecordingDir = ''/rec'', lg_BrowserBase = []\<rparr> 99 (Some demo_nonce) 4 7 ''netops'' [] []
      (launch_db (demo_ct [104, 105])) = (Inr res, db')"
    using demo_rdp_launch by blast
  obtain acct where acct: "FindPrimaryForTarget (launch_db (demo_ct [104, 105])) 4 = Inr (acct, False)" "ac_ID acct = 2"
    using launch_db_rdp by blast
  obtain a where a: "AccountGet (launch_db (demo_ct [104, 105])) 2 = Inr a" "ac_SecretRef a = ''acct/root''"
    using launch_db_account by blast
  from rdp_session_holds_password [OF launch launch_db_simps(1,3) acct(1)] acct(2) a launch demo_ct_secret
  show ?thesis by fastforce
qed

end
