(* ===== verification/SessionSpec.thy ===== *)
theory SessionSpec
  imports LaunchSpec RotationSpec
begin

text \<open>
  The secrets of sessions: the payload that a launch writes is the one that the proxy reads, and three
  ways in which sessions do not keep their promises: a password with a line feed, a web console of an
  account under dual control, and the token of an SSH session that has ended.
\<close>

section \<open>Payloads\<close>

abbreviation newline :: char where "newline \<equiv> CHR 0x0A"

definition one_line :: "string \<Rightarrow> bool" where
  "one_line s = (newline \<notin> set s)"

lemma split_n_cut:
  assumes "one_line w"
  shows "split_n (Suc (Suc n)) (w @ newline # s) = w # split_n (Suc n) s"
proof -
  have "x \<noteq> newline" if "x \<in> set w" for x using that assms by (auto simp: one_line_def)
  then have "takeWhile (\<lambda>c. c \<noteq> newline) (w @ newline # s) = w"
    "dropWhile (\<lambda>c. c \<noteq> newline) (w @ newline # s) = newline # s"
    by (simp_all add: takeWhile_append2 dropWhile_append2)
  then show ?thesis by simp
qed

lemma split_n_join:
  assumes "length ws = Suc n" "\<forall>w \<in> set (butlast ws). one_line w"
  shows "split_n (Suc n) (join [newline] ws) = ws"
  using assms
proof (induction n arbitrary: ws)
  case 0
  then show ?case by (cases ws) simp_all
next
  case (Suc n)
  then obtain w v vs where ws: "ws = w # v # vs" by (cases ws; cases "tl ws") auto
  have "split_n (Suc n) (join [newline] (v # vs)) = v # vs"
    using Suc.prems ws by (intro Suc.IH) auto
  moreover have "one_line w" using Suc.prems ws by simp
  ultimately show ?case using split_n_cut [of w n "join [newline] (v # vs)"] by (simp add: ws)
qed

lemma sscanf_string_of_int:
  assumes "- (2 ^ 63) \<le> n" "n < 2 ^ 63"
  shows "sscanf_d (string_of_int n) = n"
proof -
  have "dropWhile is_space (string_of_int n) = string_of_int n"
    using string_of_int_word(1) [of n] by (cases "string_of_int n") (auto simp: is_word_def)
  moreover have digits: "takeWhile is_digit (string_of_nat k) = string_of_nat k" for k
    using string_of_nat_digits [of k] by (simp add: takeWhile_eq_all_conv list_all_iff)
  moreover have "hd (string_of_nat k) \<noteq> CHR ''-''" "hd (string_of_nat k) \<noteq> CHR ''+''" for k
    using string_of_nat_props [of k] by (metis digit_char_props(3) list.set_sel(1))
      (metis string_of_nat_props digit_char_props(4) list.set_sel(1))
  ultimately have "sscanf_d (string_of_int n) = (case parse_int64 (string_of_int n) of None \<Rightarrow> 0 | Some n \<Rightarrow> n)"
    by (auto simp: sscanf_d_def string_of_int_def Let_def digits)
  then show ?thesis by (simp add: parse_string_of_int [OF assms])
qed

lemma string_of_int_one_line: "one_line (string_of_int n)"
proof -
  have "is_space newline" by (simp add: is_space_def)
  then show ?thesis using string_of_int_word(1) [of n] by (auto simp: one_line_def is_word_def list_all_iff)
qed

lemma part_nth: "i < length ps \<Longrightarrow> part ps i = ps ! i"
  by (simp add: part_def)

text \<open>The proxies read the credentials of a session as the launch wrote them, when no field but the last
  contains a line feed.\<close>

theorem session_creds_roundtrip:
  assumes "list_all one_line [dc_Engine c, dc_Username c, dc_Password c, dc_Host c, dc_Database c,
      dc_BrokerToken c, dc_PortalUser c]"
    "list_all (\<lambda>n. - (2 ^ 63) \<le> n \<and> n < 2 ^ 63) [dc_Port c, dc_PortalUserID c, dc_TargetID c]"
    "list_all one_line [wc_Username w, wc_Password w, wc_TargetURL w, wc_TargetKind w, wc_PortalUsername w]"
  shows "db_creds_of (db_payload c) = c \<and> web_creds_of (web_payload w) = w"
proof
  let ?ps = "[dc_Engine c, dc_Username c, dc_Password c, dc_Host c, string_of_int (dc_Port c), dc_Database c,
      dc_BrokerToken c, string_of_int (dc_PortalUserID c), string_of_int (dc_TargetID c), dc_PortalUser c,
      dc_TargetKind c]"
  have "split_n (Suc 10) (join [newline] ?ps) = ?ps"
    using assms(1) string_of_int_one_line by (intro split_n_join) simp_all
  then have "split_n 11 (db_payload c) = ?ps" by (simp only: db_payload_def) simp
  then show "db_creds_of (db_payload c) = c"
    using assms(2) by (simp add: db_creds_of_def Let_def part_nth sscanf_string_of_int)
  let ?qs = "[wc_Username w, wc_Password w, wc_TargetURL w, wc_TargetKind w, wc_PortalUsername w, wc_PortalPassword w]"
  have "split_n (Suc 5) (join [newline] ?qs) = ?qs"
    using assms(3) by (intro split_n_join) simp_all
  then have "split_n 6 (web_payload w) = ?qs" by (simp only: web_payload_def) simp
  then show "web_creds_of (web_payload w) = w" by (simp add: web_creds_of_def Let_def part_nth)
qed

definition demo_db_creds :: db_creds where
  "demo_db_creds = \<lparr>dc_Engine = ''postgres'', dc_Username = ''app'', dc_Password = ''p w'', dc_Host = ''db1'',
     dc_Port = 5432, dc_Database = ''main'', dc_BrokerToken = ''ab12'', dc_PortalUser = ''ann'',
     dc_PortalUserID = 7, dc_TargetID = 3, dc_TargetKind = ''linux''\<rparr>"

definition demo_web_creds :: web_creds where
  "demo_web_creds = \<lparr>wc_Username = ''admin'', wc_Password = ''x'', wc_TargetURL = ''https://fw1'',
     wc_TargetKind = ''fortinet'', wc_PortalUsername = ''ann'', wc_PortalPassword = []\<rparr>"

lemma session_creds_roundtrip_witness:
  "db_creds_of (db_payload demo_db_creds) = demo_db_creds \<and>
   web_creds_of (web_payload demo_web_creds) = demo_web_creds"
  by (rule session_creds_roundtrip) (simp_all add: demo_db_creds_def demo_web_creds_def one_line_def)

text \<open>A password with a line feed shifts the fields: its second line becomes the address to which the web proxy
  sends the session.\<close>

theorem password_line_feed_moves_target:
  assumes "one_line (wc_Username w)" "one_line p" "one_line q" "wc_Password w = p @ [newline] @ q"
  shows "wc_TargetURL (web_creds_of (web_payload w)) = q \<and> wc_Password (web_creds_of (web_payload w)) = p"
proof -
  have payload: "web_payload w = wc_Username w @ newline # p @ newline # q @ newline #
      join [newline] [wc_TargetURL w, wc_TargetKind w, wc_PortalUsername w, wc_PortalPassword w]" (is "_ = _ @ _ # _ @ _ # _ @ _ # ?rest")
    by (simp add: web_payload_def assms(4))
  have "split_n (Suc (Suc (Suc (Suc (Suc (Suc 0)))))) (web_payload w) = wc_Username w # p # q # split_n (Suc (Suc (Suc 0))) ?rest"
    unfolding payload by (simp only: split_n_cut assms(1-3))
  then have "split_n 6 (web_payload w) = wc_Username w # p # q # split_n 3 ?rest" by (simp add: numeral_eq_Suc)
  then show ?thesis by (simp add: web_creds_of_def Let_def part_def)
qed

lemma password_line_feed_moves_target_witness:
  "wc_TargetURL (web_creds_of (web_payload (demo_web_creds\<lparr>wc_Password := ''x'' @ [newline] @ ''https://evil''\<rparr>))) =
     ''https://evil''"
  using password_line_feed_moves_target [of "demo_web_creds\<lparr>wc_Password := ''x'' @ [newline] @ ''https://evil''\<rparr>" "''x''" "''https://evil''"]
  by (simp add: demo_web_creds_def one_line_def)

section \<open>Dual control\<close>

text \<open>The web launch knows no dual control and makes no checkout: it hands the password of an account whose safe
  asks for dual control to the session of a user without a grant, and leaves no row that says so.\<close>

theorem web_launch_skips_dual_control:
  assumes dual: "FindAccountForTarget db i = Inr (acct, True)" "\<not> IsApproved db u i"
    and t: "launch_target db i = Inr t" "t_connection_type t = ''web''" "t_web_url t \<noteq> []"
    and dec: "launch_decision db u role t ''ssh'' False = Inr dec"
    and pw: "web_lookupAccount v db i = (name, pw, True)"
    and env: "faults db = (\<lambda>_. False)" "length (va_MasterKey v) = 32" "length n = 12" "secrets_readable db"
      "active_ids db u i ''web'' = []" "session_id ''web'' nano i \<notin> ss_id ` set (sessions db)"
  shows "\<exists>res db'. web_Launch v base nano (Some n) i u role pu reason ip db = (Inr res, db') \<and> lw_HasAccount res \<and>
    GetSecret v db' (WebVaultSecretName (lw_SessionID res)) = Inr (bytes_of_string (web_payload (web_creds_for v db t u pu))) \<and>
    wc_Password (web_creds_for v db t u pu) = pw \<and> credential_checkouts db' = credential_checkouts db"
proof -
  have tid: "t_id t = i" using launch_target_row [OF t(1)] by (auto dest: row_by_Some)
  let ?r = "open_session (session_id ''web'' nano i) u i ip ''web'' None None db"
  let ?x = "bytes_of_string (web_payload (web_creds_for v db t u pu))"
  obtain db' where st: "store_session v (Some n) (WebVaultSecretName (session_id ''web'' nano i)) ?x
      (wrap_err ''store web session credentials'') ?r db = (Inr (), db')"
    using store_session_succeeds [OF env(2,3,1)] env(6) by (fastforce simp: open_session_def)
  have "web_Launch v base nano (Some n) i u role pu reason ip db = web_session v base nano (Some n) t u pu ip db"
    using t dec env(5) by (simp add: web_Launch_def EndActive_none)
  moreover have "wc_Password (web_creds_for v db t u pu) = pw"
    by (simp add: web_creds_for_def tid pw)
  moreover have "GetSecret v db' (WebVaultSecretName (session_id ''web'' nano i)) = Inr ?x"
    using stored_secret [OF st env(4)] .
  moreover have "credential_checkouts db' = credential_checkouts db"
    using st by (rule store_session_Inr)
  ultimately show ?thesis
    by (simp add: web_session_def Let_def tid st pw)
qed

lemma web_launch_skips_dual_control_witness:
  "\<exists>res db'. web_Launch demo_vault [] 99 (Some demo_nonce) 3 7 ''netops'' ''ann'' [] [] (launch_db (demo_ct [104, 105])) =
     (Inr res, db') \<and> lw_HasAccount res"
proof -
  let ?db = "launch_db (demo_ct [104, 105])"
  obtain t dec acct where t: "launch_target ?db 3 = Inr t" "t_connection_type t = ''web''" "t_web_url t \<noteq> []"
      "launch_decision ?db 7 ''netops'' t ''ssh'' False = Inr dec" "FindAccountForTarget ?db 3 = Inr (acct, True)"
      "\<not> IsApproved ?db 7 3"
    using launch_db_web by blast
  have "first_row (sort_key pa_id (filter (\<lambda>a. pa_target_id a = Some 3) (privileged_accounts ?db))) =
      Some (demo_account\<lparr>pa_safe_id := 2, pa_target_id := Some 3\<rparr>)"
    by (simp add: launch_db_def demo_account_def first_row_def)
  then have "web_lookupAccount demo_vault ?db 3 = (''root'', string_of_bytes [104, 105], True)"
    using demo_ct_secret [of "[104, 105]"] by (simp add: web_lookupAccount_def launch_db_simps demo_account_def)
  from web_launch_skips_dual_control [OF t(5,6,1,2,3,4) this launch_db_simps(1) _ _ launch_db_simps(3) launch_db_quiet,
      of demo_nonce 99 "[]" "''ann''" "[]" "[]"]
  show ?thesis by (auto simp: demo_vault_def demo_nonce_def launch_db_simps)
qed

section \<open>Ended sessions\<close>

text \<open>Ending an SSH session leaves its secret and its login token, with the portal password of the user in
  them, in the vault: \<^verbatim>\<open>End\<close> knows the secrets of web, RDP and database sessions only.\<close>

theorem ended_ssh_session_keeps_token:
  assumes "EndSession True sessionID reason db = (Inr True, db')" "has_prefix sessionID ''ssh-''"
  shows "secrets db' = secrets db \<and> (\<forall>s \<in> set (sessions db'). ss_id s = sessionID \<longrightarrow> ss_ended_at s \<noteq> None)"
proof -
  obtain rest where "sessionID = ''ssh-'' @ rest" using assms(2) unfolding has_prefix_iff by blast
  then have "session_secret sessionID = None" by (simp add: session_secret_def has_prefix_def)
  with assms(1) have "db' = close_session sessionID (if reason = [] then ''closed'' else reason) db"
    by (auto simp: EndSession_def Let_def split: if_splits)
  moreover have "ss_ended_at s \<noteq> None"
    if "s \<in> set (update_where (is_open i) (\<lambda>s. s\<lparr>ss_ended_at := Some c, ss_ended_reason := r\<rparr>) rows)" "ss_id s = i"
    for s i c r and rows :: "session_row list"
  proof
    assume "ss_ended_at s = None"
    with \<open>ss_id s = i\<close> have "is_open i s" by (simp add: is_open_def)
    moreover obtain s' where "s = (if is_open i s' then s'\<lparr>ss_ended_at := Some c, ss_ended_reason := r\<rparr> else s')"
      using \<open>s \<in> set _\<close> unfolding update_where_def set_map by blast
    ultimately show False using \<open>ss_ended_at s = None\<close> by (cases "is_open i s'") simp_all
  qed
  ultimately show ?thesis unfolding close_session_def by fastforce
qed

definition demo_ssh_db :: pam_db where
  "demo_ssh_db = demo_db\<lparr>sessions := [open_session ''ssh-1-3'' 7 3 [] ''ssh'' None None demo_db]\<rparr>"

lemma ended_ssh_session_keeps_token_witness:
  "\<exists>db'. EndSession True ''ssh-1-3'' [] demo_ssh_db = (Inr True, db') \<and>
     list_all (\<lambda>s. ss_ended_at s \<noteq> None) (sessions db')"
proof -
  let ?db' = "snd (EndSession True ''ssh-1-3'' [] demo_ssh_db)"
  have call: "EndSession True ''ssh-1-3'' [] demo_ssh_db = (Inr True, ?db')"
    by (simp add: EndSession_def demo_ssh_db_def demo_db_def empty_db_def open_session_def rows_affected_def
        is_open_def session_secret_def has_prefix_def Let_def)
  have "\<forall>s \<in> set (sessions ?db'). ss_id s = ''ssh-1-3''"
    by (simp add: EndSession_sessions demo_ssh_db_def open_session_def update_where_def)
  with call ended_ssh_session_keeps_token [OF call] show ?thesis
    by (auto simp: list_all_iff has_prefix_def)
qed

end
