(* ===== verification/Users.thy ===== *)
theory Users
  imports Sealing Accounts
begin

text \<open>
  The users of the portal (\<^verbatim>\<open>internal/auth/auth.go\<close>) and their password hashes
  (\<^verbatim>\<open>internal/cryptox/cryptox.go\<close>).  Argon2 is outside the repository: its key derivation is the argument
  \<open>argon2\<close>, a function of the password, the salt and the length of the result.
\<close>

section \<open>Password hashes\<close>

text \<open>\<^verbatim>\<open>base64.RawStdEncoding\<close>: no padding, an incomplete last group instead.\<close>

definition RawStdEncoding_Encode :: "bytes \<Rightarrow> string" where
  "RawStdEncoding_Encode b = b64_encode b64_std False (map unat b)"

fun b64_raw_groups :: "string \<Rightarrow> nat list option" where
  "b64_raw_groups [] = Some []"
| "b64_raw_groups [w] = None"
| "b64_raw_groups [w, x] = b64_quad w x (CHR ''='') (CHR ''='') True"
| "b64_raw_groups [w, x, y] = (if y = CHR ''='' then None else b64_quad w x y (CHR ''='') True)"
| "b64_raw_groups (w # x # y # z # s) =
     (case b64_quad w x y z False of
        None \<Rightarrow> None
      | Some bs \<Rightarrow> map_option (\<lambda>rest. bs @ rest) (b64_raw_groups s))"

definition RawStdEncoding_Decode :: "string \<Rightarrow> bytes option" where
  "RawStdEncoding_Decode s =
     map_option (map word_of_nat) (b64_raw_groups (filter (\<lambda>c. c \<notin> {CHR 0x0A, CHR 0x0D}) s))"

type_synonym key_derivation = "bytes \<Rightarrow> bytes \<Rightarrow> nat \<Rightarrow> bytes"

definition splitDollar :: "string \<Rightarrow> string list" where
  "splitDollar s = split_on (CHR ''$'') s"

definition PasswordHash :: "key_derivation \<Rightarrow> bytes option \<Rightarrow> string \<Rightarrow> err + string" where
  "PasswordHash argon2 rnd pw =
     (case read_full 16 rnd of
        None \<Rightarrow> Inl (ErrMsg ''random source failed'')
      | Some salt \<Rightarrow>
          Inr (''argon2id$'' @ RawStdEncoding_Encode salt @ ''$'' @
               RawStdEncoding_Encode (argon2 (bytes_of_string pw) salt 32)))"

definition VerifyPassword :: "key_derivation \<Rightarrow> string \<Rightarrow> string \<Rightarrow> bool" where
  "VerifyPassword argon2 pw encoded =
     (case splitDollar encoded of
        [scheme, salt64, hash64] \<Rightarrow>
          scheme = ''argon2id'' \<and>
          (case RawStdEncoding_Decode salt64 of
             None \<Rightarrow> False
           | Some salt \<Rightarrow>
               (case RawStdEncoding_Decode hash64 of
                  None \<Rightarrow> False
                | Some want \<Rightarrow> argon2 (bytes_of_string pw) salt (length want) = want))
      | _ \<Rightarrow> False)"

section \<open>Users\<close>

abbreviation Users_Load :: sql_stmt where "Users_Load \<equiv> Stmt ''users.load''"
abbreviation Users_Lower :: sql_stmt where "Users_Lower \<equiv> Stmt ''users.lower''"
abbreviation Users_Directory :: sql_stmt where "Users_Directory \<equiv> Stmt ''users.directory''"
abbreviation Users_Email :: sql_stmt where "Users_Email \<equiv> Stmt ''users.email''"
abbreviation Users_Insert :: sql_stmt where "Users_Insert \<equiv> Stmt ''users.insert''"
abbreviation Users_Login :: sql_stmt where "Users_Login \<equiv> Stmt ''users.login''"
abbreviation Users_Upsert :: sql_stmt where "Users_Upsert \<equiv> Stmt ''users.upsert''"
abbreviation Users_MFA :: sql_stmt where "Users_MFA \<equiv> Stmt ''users.mfa''"
abbreviation Users_SetMFA :: sql_stmt where "Users_SetMFA \<equiv> Stmt ''users.setmfa''"
abbreviation Users_List :: sql_stmt where "Users_List \<equiv> Stmt ''users.list''"
abbreviation Users_Get :: sql_stmt where "Users_Get \<equiv> Stmt ''users.get''"
abbreviation Users_Update :: sql_stmt where "Users_Update \<equiv> Stmt ''users.update''"
abbreviation Users_Admins :: sql_stmt where "Users_Admins \<equiv> Stmt ''users.admins''"
abbreviation Users_Cleanup :: sql_stmt where "Users_Cleanup \<equiv> Stmt ''users.cleanup''"
abbreviation Users_Delete :: sql_stmt where "Users_Delete \<equiv> Stmt ''users.delete''"

record auth_user =
  au_ID :: int
  au_Username :: string
  au_Email :: string
  au_Role :: string
  au_Disabled :: bool
  au_Source :: string
  au_MFAEnabled :: bool
  au_MFAExempt :: bool
  au_RoleLocked :: bool
  au_LastLogin :: int

definition scanUserRow :: "user_row \<Rightarrow> auth_user" where
  "scanUserRow u =
     \<lparr>au_ID = u_id u, au_Username = u_username u,
      au_Email = (case u_email u of None \<Rightarrow> [] | Some e \<Rightarrow> e), au_Role = u_role u,
      au_Disabled = (u_disabled u \<noteq> 0), au_Source = u_source u, au_MFAEnabled = (u_mfa_enabled u \<noteq> 0),
      au_MFAExempt = (u_mfa_exempt u \<noteq> 0), au_RoleLocked = (u_role_locked u \<noteq> 0),
      au_LastLogin = (case u_last_login u of None \<Rightarrow> 0 | Some t \<Rightarrow> t)\<rparr>"

definition loadUser :: "pam_db \<Rightarrow> string \<Rightarrow> err + auth_user \<times> string" where
  "loadUser db username =
     (if faults db Users_Load then Inl (ErrSql Users_Load)
      else case row_by u_username username (users db) of
        None \<Rightarrow> Inl ErrNoRows
      | Some u \<Rightarrow> Inr (scanUserRow u, u_password_hash u))"

definition FindByUsername :: "pam_db \<Rightarrow> string \<Rightarrow> err + auth_user" where
  "FindByUsername db username = (case loadUser db username of Inl e \<Rightarrow> Inl e | Inr (u, _) \<Rightarrow> Inr u)"

text \<open>One query for a single user.\<close>

definition query_user :: "pam_db \<Rightarrow> sql_stmt \<Rightarrow> user_row list \<Rightarrow> err + auth_user" where
  "query_user db stmt rows =
     (if faults db stmt then Inl (ErrSql stmt)
      else case first_row rows of None \<Rightarrow> Inl ErrNoRows | Some u \<Rightarrow> Inr (scanUserRow u))"

definition has_email :: "string \<Rightarrow> user_row \<Rightarrow> bool" where
  "has_email loginID u = (map_option to_lower (u_email u) = Some (to_lower loginID))"

definition FindByLoginID :: "pam_db \<Rightarrow> string \<Rightarrow> err + auth_user" where
  "FindByLoginID db login =
     (let loginID = trim_space login in
      if loginID = [] then Inl ErrNoRows
      else case FindByUsername db loginID of
        Inr u \<Rightarrow> Inr u
      | Inl _ \<Rightarrow>
          (case query_user db Users_Lower (filter (\<lambda>u. to_lower (u_username u) = to_lower loginID) (users db)) of
             Inr u \<Rightarrow> Inr u
           | Inl e \<Rightarrow>
               if e \<noteq> ErrNoRows then Inl e
               else case query_user db Users_Directory (sort_key u_id (filter (\<lambda>u. has_email loginID u \<and>
                   u_source u \<in> {''ldap'', ''saml''} \<and> u_disabled u = 0) (users db))) of
                 Inr u \<Rightarrow> Inr u
               | Inl e \<Rightarrow>
                   if e \<noteq> ErrNoRows then Inl e
                   else query_user db Users_Email (sort_key u_id (filter (has_email loginID) (users db)))))"

text \<open>\<^verbatim>\<open>VerifyPassword\<close> is the argument \<open>verify\<close> of the operations that compare a password.\<close>

definition ErrInvalidCredentials :: err where
  "ErrInvalidCredentials = ErrMsg ''invalid credentials''"

definition auth_Authenticate :: "(string \<Rightarrow> string \<Rightarrow> bool) \<Rightarrow> pam_db \<Rightarrow> string \<Rightarrow> string \<Rightarrow> err + auth_user" where
  "auth_Authenticate verify db username password =
     (case loadUser db username of
        Inl _ \<Rightarrow> Inl ErrInvalidCredentials
      | Inr (u, pwHash) \<Rightarrow>
          if au_Disabled u then Inl (ErrMsg ''account disabled'')
          else if au_Source u \<noteq> ''local'' then Inl ErrInvalidCredentials
          else if \<not> verify password pwHash then Inl ErrInvalidCredentials
          else Inr u)"

definition AuthenticateByLoginID ::
  "(string \<Rightarrow> string \<Rightarrow> bool) \<Rightarrow> pam_db \<Rightarrow> string \<Rightarrow> string \<Rightarrow> err + auth_user" where
  "AuthenticateByLoginID verify db loginID password =
     (case FindByLoginID db loginID of
        Inl _ \<Rightarrow> Inl ErrInvalidCredentials
      | Inr u \<Rightarrow>
          if au_Source u \<noteq> ''local'' then Inl ErrInvalidCredentials
          else auth_Authenticate verify db (au_Username u) password)"

definition wrap_auth :: "string \<Rightarrow> err \<Rightarrow> err" where
  "wrap_auth what e = ErrMsg (''auth: '' @ what @ '': '' @ err_text e)"

definition CreateUser ::
  "key_derivation \<Rightarrow> bytes option \<Rightarrow> string \<Rightarrow> string \<Rightarrow> string \<Rightarrow> string \<Rightarrow> pam_db \<Rightarrow> (err + int) \<times> pam_db" where
  "CreateUser argon2 rnd username email password role db =
     (case PasswordHash argon2 rnd password of
        Inl e \<Rightarrow> (Inl (wrap_auth ''hash'' e), db)
      | Inr hash \<Rightarrow>
          if faults db Users_Insert then (Inl (wrap_auth ''insert user'' (ErrSql Users_Insert)), db)
          else if username \<in> set (map u_username (users db)) then (Inl (wrap_auth ''insert user'' ErrConstraint), db)
          else
            let i = next_id T_users db in
            (Inr i, (bump_seq T_users db)\<lparr>users := users db @
              [\<lparr>u_id = i, u_username = username, u_email = Some email, u_password_hash = hash,
                u_role = default_string ''user'' role, u_mfa_secret = None, u_mfa_enabled = 0,
                u_source = ''local'', u_external_dn = None, u_last_login = None, u_created_at = clock db,
                u_disabled = 0, u_role_locked = 0, u_mfa_exempt = 0\<rparr>]\<rparr>))"

definition RecordLogin :: "int \<Rightarrow> pam_db \<Rightarrow> (err + unit) \<times> pam_db" where
  "RecordLogin userID db =
     (if faults db Users_Login then (Inl (ErrSql Users_Login), db)
      else (Inr (), db\<lparr>users := update_where (\<lambda>u. u_id u = userID)
             (\<lambda>u. u\<lparr>u_last_login := Some (clock db)\<rparr>) (users db)\<rparr>))"

text \<open>The conflict clause of the upsert: a local user keeps everything, a locked role stays.\<close>

definition merge_external :: "string \<Rightarrow> string \<Rightarrow> string \<Rightarrow> string \<Rightarrow> user_row \<Rightarrow> user_row" where
  "merge_external source email role externalID u =
     (let keep = (u_source u = ''local'') in
      u\<lparr>u_email := (if keep then u_email u else Some email),
        u_role := (if u_role_locked u = 1 then u_role u else if keep then u_role u else role),
        u_source := (if keep then u_source u else source),
        u_external_dn := (if keep then u_external_dn u else Some externalID),
        u_password_hash := (if keep then u_password_hash u else [])\<rparr>)"

definition upsertExternalUser ::
  "string \<Rightarrow> string \<Rightarrow> string \<Rightarrow> string \<Rightarrow> string \<Rightarrow> pam_db \<Rightarrow> (err + auth_user) \<times> pam_db" where
  "upsertExternalUser source username email role externalID db =
     (if faults db Users_Upsert
      then (Inl (wrap_auth (''upsert '' @ source @ '' user'') (ErrSql Users_Upsert)), db)
      else
        let role = default_string ''user'' role;
            db = (if username \<in> set (map u_username (users db))
              then db\<lparr>users := update_where (\<lambda>u. u_username u = username)
                     (merge_external source email role externalID) (users db)\<rparr>
              else (bump_seq T_users db)\<lparr>users := users db @
                [\<lparr>u_id = next_id T_users db, u_username = username, u_email = Some email,
                  u_password_hash = [], u_role = role, u_mfa_secret = None, u_mfa_enabled = 0,
                  u_source = source, u_external_dn = Some externalID, u_last_login = None,
                  u_created_at = clock db, u_disabled = 0, u_role_locked = 0, u_mfa_exempt = 0\<rparr>]\<rparr>)
        in (FindByUsername db username, db))"

definition UpsertLDAPUser ::
  "string \<Rightarrow> string \<Rightarrow> string \<Rightarrow> string \<Rightarrow> pam_db \<Rightarrow> (err + auth_user) \<times> pam_db" where
  "UpsertLDAPUser = upsertExternalUser ''ldap''"

definition UpsertSAMLUser ::
  "string \<Rightarrow> string \<Rightarrow> string \<Rightarrow> string \<Rightarrow> pam_db \<Rightarrow> (err + auth_user) \<times> pam_db" where
  "UpsertSAMLUser = upsertExternalUser ''saml''"

section \<open>Second factor\<close>

definition GetMFASecret :: "pam_db \<Rightarrow> int \<Rightarrow> err + string" where
  "GetMFASecret db userID =
     (if faults db Users_MFA then Inl (ErrSql Users_MFA)
      else case row_by u_id userID (users db) of
        None \<Rightarrow> Inl ErrNoRows
      | Some u \<Rightarrow> Inr (case u_mfa_secret u of None \<Rightarrow> [] | Some s \<Rightarrow> s))"

definition update_mfa :: "int \<Rightarrow> (user_row \<Rightarrow> user_row) \<Rightarrow> pam_db \<Rightarrow> (err + unit) \<times> pam_db" where
  "update_mfa userID f db =
     (if faults db Users_SetMFA then (Inl (ErrSql Users_SetMFA), db)
      else (Inr (), db\<lparr>users := update_where (\<lambda>u. u_id u = userID) f (users db)\<rparr>))"

definition SetMFASecret :: "int \<Rightarrow> string \<Rightarrow> pam_db \<Rightarrow> (err + unit) \<times> pam_db" where
  "SetMFASecret userID secret =
     update_mfa userID (\<lambda>u. u\<lparr>u_mfa_secret := Some secret, u_mfa_enabled := 0, u_mfa_exempt := 0\<rparr>)"

definition EnableMFA :: "int \<Rightarrow> pam_db \<Rightarrow> (err + unit) \<times> pam_db" where
  "EnableMFA userID = update_mfa userID (\<lambda>u. u\<lparr>u_mfa_enabled := 1, u_mfa_exempt := 0\<rparr>)"

definition DisableMFA :: "int \<Rightarrow> bool \<Rightarrow> pam_db \<Rightarrow> (err + unit) \<times> pam_db" where
  "DisableMFA userID exempt =
     update_mfa userID (\<lambda>u. u\<lparr>u_mfa_secret := None, u_mfa_enabled := 0,
       u_mfa_exempt := (if exempt then 1 else 0)\<rparr>)"

definition ResetMFA :: "int \<Rightarrow> pam_db \<Rightarrow> (err + unit) \<times> pam_db" where
  "ResetMFA userID = update_mfa userID (\<lambda>u. u\<lparr>u_mfa_secret := None, u_mfa_enabled := 0\<rparr>)"

definition EffectiveMFAPolicy :: "string \<Rightarrow> string" where
  "EffectiveMFAPolicy policy =
     (if policy = ''off'' \<or> policy = ''optional'' \<or> policy = ''required'' then policy else ''required'')"

record mfa_decision =
  RequireOTP :: bool
  RequireEnrollment :: bool

definition no_mfa :: mfa_decision where
  "no_mfa = \<lparr>RequireOTP = False, RequireEnrollment = False\<rparr>"

definition LoginMFADecision :: "auth_user \<Rightarrow> string \<Rightarrow> mfa_decision" where
  "LoginMFADecision u policy =
     (if au_MFAExempt u then no_mfa
      else if EffectiveMFAPolicy policy = ''required'' then
        (if \<not> au_MFAEnabled u then no_mfa\<lparr>RequireEnrollment := True\<rparr> else no_mfa\<lparr>RequireOTP := True\<rparr>)
      else if EffectiveMFAPolicy policy = ''optional'' \<and> au_MFAEnabled u then no_mfa\<lparr>RequireOTP := True\<rparr>
      else no_mfa)"

definition LoginMFADecisionForUser :: "pam_db \<Rightarrow> auth_user \<Rightarrow> string \<Rightarrow> err + mfa_decision" where
  "LoginMFADecisionForUser db u policy =
     (let dec = LoginMFADecision u policy in
      if \<not> RequireOTP dec then Inr dec
      else case GetMFASecret db (au_ID u) of
        Inl e \<Rightarrow> Inl e
      | Inr secret \<Rightarrow>
          if secret \<noteq> [] then Inr dec
          else if EffectiveMFAPolicy policy = ''required'' \<and> \<not> au_MFAExempt u
          then Inr (no_mfa\<lparr>RequireEnrollment := True\<rparr>)
          else Inr no_mfa)"

definition LoginMFADecisionForDevice :: "pam_db \<Rightarrow> auth_user \<Rightarrow> err + mfa_decision" where
  "LoginMFADecisionForDevice db u =
     (if au_MFAExempt u \<or> \<not> au_MFAEnabled u then Inr no_mfa
      else case GetMFASecret db (au_ID u) of
        Inl e \<Rightarrow> Inl e
      | Inr secret \<Rightarrow> if secret = [] then Inr no_mfa else Inr (no_mfa\<lparr>RequireOTP := True\<rparr>))"

section \<open>Tokens\<close>

text \<open>The claims, and the signing library \<^verbatim>\<open>golang-jwt\<close> as an argument: \<open>jwt_parse\<close> gets the function that
  chooses the key from the algorithm of the header, and the time.\<close>

record jwt_claims =
  jc_UserID :: int
  jc_Username :: string
  jc_Role :: string
  jc_Scope :: string
  jc_Issuer :: string
  jc_Audience :: "string list"
  jc_Subject :: string
  jc_IssuedAt :: int
  jc_ExpiresAt :: int

record jwt_library =
  jwt_sign :: "bytes \<Rightarrow> jwt_claims \<Rightarrow> err + string"
  jwt_parse :: "(string \<Rightarrow> err + bytes) \<Rightarrow> int \<Rightarrow> string \<Rightarrow> err + jwt_claims"

record auth_config =
  JWTSecret :: bytes
  JWTTTL :: int
  JWTIssuer :: string
  JWTAudience :: string

definition claims_for :: "auth_config \<Rightarrow> int \<Rightarrow> string \<Rightarrow> int \<Rightarrow> auth_user \<Rightarrow> jwt_claims" where
  "claims_for cfg now scope ttl u =
     \<lparr>jc_UserID = au_ID u, jc_Username = au_Username u, jc_Role = au_Role u, jc_Scope = scope,
      jc_Issuer = JWTIssuer cfg, jc_Audience = [JWTAudience cfg], jc_Subject = string_of_int (au_ID u),
      jc_IssuedAt = now, jc_ExpiresAt = now + ttl\<rparr>"

definition IssueToken :: "jwt_library \<Rightarrow> auth_config \<Rightarrow> int \<Rightarrow> auth_user \<Rightarrow> err + string" where
  "IssueToken lib cfg now u = jwt_sign lib (JWTSecret cfg) (claims_for cfg now [] (JWTTTL cfg) u)"

definition IssueEnrollmentToken :: "jwt_library \<Rightarrow> auth_config \<Rightarrow> int \<Rightarrow> auth_user \<Rightarrow> err + string" where
  "IssueEnrollmentToken lib cfg now u =
     jwt_sign lib (JWTSecret cfg) (claims_for cfg now ''mfa_enroll'' (15 * 60) u)"

definition token_key :: "auth_config \<Rightarrow> string \<Rightarrow> err + bytes" where
  "token_key cfg alg = (if alg \<noteq> ''HS256'' then Inl (ErrMsg (''bad alg: '' @ alg)) else Inr (JWTSecret cfg))"

definition VerifyToken :: "jwt_library \<Rightarrow> auth_config \<Rightarrow> int \<Rightarrow> string \<Rightarrow> err + jwt_claims" where
  "VerifyToken lib cfg now raw = jwt_parse lib (token_key cfg) now raw"

section \<open>Administration\<close>

definition ListUsers :: "pam_db \<Rightarrow> err + auth_user list" where
  "ListUsers db =
     (if faults db Users_List then Inl (ErrSql Users_List)
      else Inr (map scanUserRow (sort_key u_username (users db))))"

definition GetUserByID :: "pam_db \<Rightarrow> int \<Rightarrow> err + auth_user" where
  "GetUserByID db i =
     (case (if faults db Users_Get then None else row_by u_id i (users db)) of
        None \<Rightarrow> Inl (ErrMsg ''user not found'')
      | Some u \<Rightarrow> Inr (scanUserRow u))"

record update_user =
  uu_Email :: string
  uu_Role :: string
  uu_Disabled :: "bool option"
  uu_MFAExempt :: "bool option"
  uu_Password :: string

definition flag_or :: "bool option \<Rightarrow> bool \<Rightarrow> int" where
  "flag_or new old = (if (case new of None \<Rightarrow> old | Some b \<Rightarrow> b) then 1 else 0)"

definition UpdateUser ::
  "key_derivation \<Rightarrow> bytes option \<Rightarrow> int \<Rightarrow> update_user \<Rightarrow> pam_db \<Rightarrow> (err + unit) \<times> pam_db" where
  "UpdateUser argon2 rnd i inp db =
     (case GetUserByID db i of
        Inl e \<Rightarrow> (Inl e, db)
      | Inr u \<Rightarrow>
          let email = (if uu_Email inp \<noteq> [] then uu_Email inp else au_Email u);
              changed = (uu_Role inp \<noteq> [] \<and> uu_Role inp \<noteq> au_Role u);
              role = (if changed then uu_Role inp else au_Role u);
              locked = (if changed \<or> au_RoleLocked u then 1 else 0);
              disabled = flag_or (uu_Disabled inp) (au_Disabled u);
              exempt = flag_or (uu_MFAExempt inp) (au_MFAExempt u);
              password = (if uu_Password inp \<noteq> [] \<and> au_Source u \<noteq> ''local'' then [] else uu_Password inp);
              set = (\<lambda>r. r\<lparr>u_email := Some email, u_role := role, u_disabled := disabled,
                u_role_locked := locked, u_mfa_exempt := exempt\<rparr>)
          in if password \<noteq> [] then
               (case PasswordHash argon2 rnd password of
                  Inl e \<Rightarrow> (Inl (wrap_auth ''hash'' e), db)
                | Inr hash \<Rightarrow>
                    if faults db Users_Update then (Inl (ErrSql Users_Update), db)
                    else (Inr (), db\<lparr>users := update_where (\<lambda>r. u_id r = i)
                           (\<lambda>r. (set r)\<lparr>u_password_hash := hash\<rparr>) (users db)\<rparr>))
             else if faults db Users_Update then (Inl (ErrSql Users_Update), db)
             else (Inr (), db\<lparr>users := update_where (\<lambda>r. u_id r = i) set (users db)\<rparr>))"

definition is_active_admin :: "user_row \<Rightarrow> bool" where
  "is_active_admin u = (u_role u = ''admin'' \<and> u_disabled u = 0)"

text \<open>The clean-up statements of \<^verbatim>\<open>DeleteUser\<close> in their order; the votes on the deleted requests go with them.
  The table \<^verbatim>\<open>saml_sessions\<close> is not modelled.\<close>

definition cleanup_user :: "int \<Rightarrow> pam_db \<Rightarrow> pam_db" where
  "cleanup_user i db =
     (let mine = set (map ar_id (filter (\<lambda>r. ar_user_id r = i) (access_requests db))) in
      db\<lparr>approval_decisions := delete_where (\<lambda>d. ad_request_id d \<in> mine)
            (delete_where (\<lambda>d. ad_approver_id d = i) (approval_decisions db)),
         access_requests := update_where (\<lambda>r. ar_approver_id r = Some i) (\<lambda>r. r\<lparr>ar_approver_id := None\<rparr>)
            (delete_where (\<lambda>r. ar_user_id r = i) (access_requests db)),
         credential_checkouts := delete_where (\<lambda>c. co_user_id c = i) (credential_checkouts db),
         session_terminations := delete_where (\<lambda>t. st_requested_by t = i) (session_terminations db),
         safe_members := delete_where (\<lambda>m. sm_principal_type m = ''user'' \<and> sm_principal_id m = i)
            (safe_members db),
         threat_alerts := update_where (\<lambda>a. ta_user_id a = Some i) (\<lambda>a. a\<lparr>ta_user_id := None\<rparr>)
            (threat_alerts db)\<rparr>)"

text \<open>\<^verbatim>\<open>DELETE FROM users\<close>: memberships and birthright assignments cascade, and the assignments that the user
  granted forget who granted them.\<close>

definition drop_user :: "int \<Rightarrow> pam_db \<Rightarrow> pam_db" where
  "drop_user i db =
     db\<lparr>users := delete_where (\<lambda>u. u_id u = i) (users db),
        user_groups := delete_where (\<lambda>m. ug_user_id m = i) (user_groups db),
        birthright_assignments := update_where (\<lambda>b. ba_granted_by b = Some i) (\<lambda>b. b\<lparr>ba_granted_by := None\<rparr>)
          (delete_where (\<lambda>b. ba_user_id b = i) (birthright_assignments db))\<rparr>"

definition DeleteUser :: "int \<Rightarrow> int \<Rightarrow> pam_db \<Rightarrow> (err + string) \<times> pam_db" where
  "DeleteUser i actorID db =
     (if i \<le> 0 then (Inl (ErrMsg ''invalid user id''), db)
      else if i = actorID then (Inl (ErrMsg ''cannot delete your own account''), db)
      else case GetUserByID db i of
        Inl e \<Rightarrow> (Inl e, db)
      | Inr u \<Rightarrow>
          let guarded = (au_Role u = ''admin'' \<and> \<not> au_Disabled u) in
          if guarded \<and> faults db Users_Admins then (Inl (ErrSql Users_Admins), db)
          else if guarded \<and> rows_affected (\<lambda>r. is_active_admin r \<and> u_id r \<noteq> i) (users db) = 0
          then (Inl (ErrMsg ''cannot delete the last active admin''), db)
          else if faults db Tx_Begin then (Inl (ErrSql Tx_Begin), db)
          else if faults db Users_Cleanup
          then (Inl (wrap_auth ''delete user cleanup'' (ErrSql Users_Cleanup)), db)
          else if faults db Users_Delete then (Inl (wrap_auth ''delete user'' (ErrSql Users_Delete)), db)
          else if faults db Tx_Commit then (Inl (ErrSql Tx_Commit), db)
          else (Inr (au_Username u), drop_user i (cleanup_user i db)))"

end
