(* ===== verification/Monitor.thy ===== *)
theory Monitor
  imports Users
begin

text \<open>
  Events, the audit trail, threat alerts and reports: \<^verbatim>\<open>internal/events/bus.go\<close>, \<^verbatim>\<open>internal/audit/audit.go\<close>,
  \<^verbatim>\<open>internal/threat/threat.go\<close> and \<^verbatim>\<open>internal/reports/reports.go\<close>.  The file that receives a copy of the audit
  trail, the log output and the HTTP client of the forwarder are not modelled.
\<close>

section \<open>Events\<close>

text \<open>\<open>evn_Time\<close> is \<open>None\<close> for the zero time; the details are a list with distinct keys.\<close>

record event =
  evn_Time :: "int option"
  evn_Source :: string
  evn_Kind :: string
  evn_Severity :: string
  evn_Actor :: string
  evn_Target :: string
  evn_Detail :: "(string \<times> string) list"

text \<open>The in-memory bus: the unread events of every subscriber, in a buffer of 256 places.\<close>

record memory_bus =
  mb_subs :: "event list list"

definition bus_capacity :: nat where "bus_capacity = 256"

definition stamp_event :: "int \<Rightarrow> event \<Rightarrow> event" where
  "stamp_event now ev = (if evn_Time ev = None then ev\<lparr>evn_Time := Some now\<rparr> else ev)"

definition bus_Publish :: "int \<Rightarrow> event \<Rightarrow> memory_bus \<Rightarrow> memory_bus" where
  "bus_Publish now ev m =
     m\<lparr>mb_subs := map (\<lambda>ch. if length ch < bus_capacity then ch @ [stamp_event now ev] else ch) (mb_subs m)\<rparr>"

definition bus_Subscribe :: "memory_bus \<Rightarrow> nat \<times> memory_bus" where
  "bus_Subscribe m = (length (mb_subs m), m\<lparr>mb_subs := mb_subs m @ [[]]\<rparr>)"

text \<open>A receive on the channel of subscriber \<open>i\<close>; \<open>None\<close> when it would block.\<close>

definition bus_receive :: "nat \<Rightarrow> memory_bus \<Rightarrow> (event \<times> memory_bus) option" where
  "bus_receive i m =
     (if i < length (mb_subs m) \<and> mb_subs m ! i \<noteq> []
      then Some (hd (mb_subs m ! i), m\<lparr>mb_subs := (mb_subs m)[i := tl (mb_subs m ! i)]\<rparr>)
      else None)"

text \<open>The forwarder of \<^verbatim>\<open>internal/events/forwarder.go\<close>: the local bus and a queue of 1024 places, from which a worker
  sends to the audit service.\<close>

record forwarder =
  fw_inner :: memory_bus
  fw_queue :: "event list"

definition forward_capacity :: nat where "forward_capacity = 1024"

definition forwarder_Publish :: "int \<Rightarrow> event \<Rightarrow> forwarder \<Rightarrow> forwarder" where
  "forwarder_Publish now ev f =
     (let ev = stamp_event now ev in
      \<lparr>fw_inner = bus_Publish now ev (fw_inner f),
       fw_queue = (if length (fw_queue f) < forward_capacity then fw_queue f @ [ev] else fw_queue f)\<rparr>)"

section \<open>Audit trail\<close>

abbreviation Audit_Insert :: sql_stmt where "Audit_Insert \<equiv> Stmt ''audit.insert''"

text \<open>\<open>marshal\<close> is \<^verbatim>\<open>json.Marshal\<close> of the details.\<close>

definition insert_audit ::
  "int \<Rightarrow> string \<Rightarrow> string \<Rightarrow> string \<Rightarrow> string \<Rightarrow> string \<Rightarrow> string \<Rightarrow> pam_db \<Rightarrow> pam_db" where
  "insert_audit ts actor kind target detail severity source db =
     (bump_seq T_audit_events db)\<lparr>audit_events := audit_events db @
       [\<lparr>ev_id = next_id T_audit_events db, ev_ts = ts, ev_actor = actor, ev_kind = kind,
         ev_target = Some target, ev_detail = Some detail, ev_severity = severity, ev_source = source\<rparr>]\<rparr>"

definition sink_Write :: "((string \<times> string) list \<Rightarrow> string) \<Rightarrow> event \<Rightarrow> pam_db \<Rightarrow> (err + unit) \<times> pam_db" where
  "sink_Write marshal ev db =
     (if faults db Audit_Insert then (Inl (ErrMsg (''audit: db write: '' @ err_text (ErrSql Audit_Insert))), db)
      else (Inr (), insert_audit (case evn_Time ev of None \<Rightarrow> clock db | Some t \<Rightarrow> t) (evn_Actor ev) (evn_Kind ev)
             (evn_Target ev) (marshal (evn_Detail ev)) (default_string ''info'' (evn_Severity ev)) (evn_Source ev) db))"

section \<open>Threat alerts\<close>

definition SevInfo :: string where "SevInfo = ''info''"
definition SevWarn :: string where "SevWarn = ''warn''"
definition SevHigh :: string where "SevHigh = ''high''"

abbreviation Threat_Insert :: sql_stmt where "Threat_Insert \<equiv> Stmt ''threat.insert''"
abbreviation Threat_List :: sql_stmt where "Threat_List \<equiv> Stmt ''threat.list''"
abbreviation Threat_Ack :: sql_stmt where "Threat_Ack \<equiv> Stmt ''threat.ack''"
abbreviation Threat_Seen :: sql_stmt where "Threat_Seen \<equiv> Stmt ''threat.seen''"
abbreviation Threat_Spike :: sql_stmt where "Threat_Spike \<equiv> Stmt ''threat.spike''"

record alert =
  al_ID :: int
  al_TS :: int
  al_UserID :: "int option"
  al_Username :: string
  al_Category :: string
  al_Severity :: string
  al_Message :: string
  al_Detail :: string
  al_Acknowledged :: bool

definition Record :: "alert \<Rightarrow> pam_db \<Rightarrow> (err + unit) \<times> pam_db" where
  "Record a db =
     (if faults db Threat_Insert then (Inl (ErrSql Threat_Insert), db)
      else (Inr (), (bump_seq T_threat_alerts db)\<lparr>threat_alerts := threat_alerts db @
        [\<lparr>ta_id = next_id T_threat_alerts db, ta_ts = (if al_TS a = 0 then clock db else al_TS a),
          ta_user_id = al_UserID a, ta_username = al_Username a, ta_category = al_Category a,
          ta_severity = default_string SevInfo (al_Severity a), ta_message = al_Message a,
          ta_detail = al_Detail a, ta_acknowledged = 0\<rparr>]\<rparr>))"

definition alert_of_row :: "alert_row \<Rightarrow> alert" where
  "alert_of_row r =
     \<lparr>al_ID = ta_id r, al_TS = ta_ts r, al_UserID = ta_user_id r, al_Username = ta_username r,
      al_Category = ta_category r, al_Severity = ta_severity r, al_Message = ta_message r,
      al_Detail = ta_detail r, al_Acknowledged = (ta_acknowledged r \<noteq> 0)\<rparr>"

definition AlertList :: "int \<Rightarrow> bool \<Rightarrow> pam_db \<Rightarrow> err + alert list" where
  "AlertList limit includeAck db =
     (if faults db Threat_List then Inl (ErrSql Threat_List)
      else Inr (map alert_of_row (take (nat (clamp_limit 500 100 limit)) (sort_key (\<lambda>r. - ta_ts r)
             (filter (\<lambda>r. includeAck \<or> ta_acknowledged r = 0) (threat_alerts db))))))"

definition Acknowledge :: "int \<Rightarrow> pam_db \<Rightarrow> (err + unit) \<times> pam_db" where
  "Acknowledge i db =
     (if faults db Threat_Ack then (Inl (ErrSql Threat_Ack), db)
      else if rows_affected (\<lambda>r. ta_id r = i) (threat_alerts db) = 0 then (Inl (ErrMsg ''alert not found''), db)
      else (Inr (), db\<lparr>threat_alerts := update_where (\<lambda>r. ta_id r = i) (\<lambda>r. r\<lparr>ta_acknowledged := 1\<rparr>)
             (threat_alerts db)\<rparr>))"

text \<open>SQLite's \<^verbatim>\<open>LIKE\<close>: a percent sign for any text, an underscore for one character, letters of either case.\<close>

fun sql_like :: "string \<Rightarrow> string \<Rightarrow> bool" where
  "sql_like [] s = (s = [])"
| "sql_like (p # ps) [] = (p = CHR ''%'' \<and> sql_like ps [])"
| "sql_like (p # ps) (c # s) =
     (if p = CHR ''%'' then sql_like ps (c # s) \<or> sql_like (p # ps) s
      else (p = CHR ''_'' \<or> ascii_lower p = ascii_lower c) \<and> sql_like ps s)"

definition seen_logins :: "pam_db \<Rightarrow> string \<Rightarrow> string \<Rightarrow> nat" where
  "seen_logins db username ip =
     rows_affected (\<lambda>e. ev_actor e = username \<and> ev_kind e = ''login.ok'' \<and>
       (case ev_detail e of None \<Rightarrow> False | Some d \<Rightarrow> sql_like (''%'' @ ip @ ''%'') d)) (audit_events db)"

text \<open>\<open>hour\<close> is \<^verbatim>\<open>now.Hour()\<close> in the zone of the server and \<open>stamp\<close> the formatted instant; the results of \<open>Record\<close>
  are ignored.\<close>

definition off_hours :: "int \<Rightarrow> bool" where
  "off_hours hour = (hour < 6 \<or> 22 \<le> hour)"

definition login_alert :: "int \<Rightarrow> string \<Rightarrow> string \<Rightarrow> string \<Rightarrow> string \<Rightarrow> string \<Rightarrow> alert" where
  "login_alert userID username category severity message detail =
     \<lparr>al_ID = 0, al_TS = 0, al_UserID = Some userID, al_Username = username, al_Category = category,
      al_Severity = severity, al_Message = message, al_Detail = detail, al_Acknowledged = False\<rparr>"

definition EvaluateLogin :: "int \<Rightarrow> string \<Rightarrow> string \<Rightarrow> int \<Rightarrow> string \<Rightarrow> pam_db \<Rightarrow> pam_db" where
  "EvaluateLogin userID username ip hour stamp db =
     (let db = (if off_hours hour
        then snd (Record (login_alert userID username ''off_hours_login'' SevWarn ''Login outside business hours''
               (''login at '' @ stamp @ '' from '' @ ip)) db)
        else db);
          seen = (if faults db Threat_Seen then 0 else seen_logins db username ip)
      in if ip \<noteq> [] \<and> seen \<le> 1
         then snd (Record (login_alert userID username ''new_source_ip'' SevInfo ''Login from a new source IP''
                (''ip='' @ ip)) db)
         else db)"

definition failed_logins :: "pam_db \<Rightarrow> string \<Rightarrow> nat" where
  "failed_logins db actor =
     rows_affected (\<lambda>e. ev_kind e = ''login.failed'' \<and> clock db - 300 \<le> ev_ts e \<and> ev_actor e = actor) (audit_events db)"

definition spike_actors :: "pam_db \<Rightarrow> string list" where
  "spike_actors db =
     filter (\<lambda>a. 5 < failed_logins db a) (remdups (map ev_actor
       (filter (\<lambda>e. ev_kind e = ''login.failed'' \<and> clock db - 300 \<le> ev_ts e) (audit_events db))))"

definition EvaluateFailedSpike :: "pam_db \<Rightarrow> pam_db" where
  "EvaluateFailedSpike db =
     (if faults db Threat_Spike then db
      else fold (\<lambda>(actor, n) db. snd (Record
             \<lparr>al_ID = 0, al_TS = 0, al_UserID = None, al_Username = actor, al_Category = ''brute_force'',
              al_Severity = SevHigh, al_Message = ''Possible brute-force attempt'',
              al_Detail = ''failed_logins='' @ string_of_nat n @ '' in last 5m'', al_Acknowledged = False\<rparr> db))
           (map (\<lambda>a. (a, failed_logins db a)) (spike_actors db)) db)"

section \<open>Reports\<close>

record summary =
  sy_Users :: nat
  sy_UsersDisabled :: nat
  sy_UsersMFA :: nat
  sy_Groups :: nat
  sy_Targets :: nat
  sy_Safes :: nat
  sy_PrivilegedAccounts :: nat
  sy_AccountsOverdue :: nat
  sy_PendingRequests :: nat
  sy_ActiveSessions :: nat
  sy_Sessions24h :: nat
  sy_LoginFailed24h :: nat
  sy_OpenAlerts :: nat

text \<open>A count that fails stays 0.\<close>

definition Summary_Count :: "string \<Rightarrow> sql_stmt" where "Summary_Count what = Stmt (''reports.summary '' @ what)"

definition count_rows :: "pam_db \<Rightarrow> string \<Rightarrow> ('r \<Rightarrow> bool) \<Rightarrow> 'r list \<Rightarrow> nat" where
  "count_rows db what p rows = (if faults db (Summary_Count what) then 0 else rows_affected p rows)"

definition report_Summary :: "pam_db \<Rightarrow> summary" where
  "report_Summary db =
     (let now = clock db in
      \<lparr>sy_Users = count_rows db ''users'' (\<lambda>_. True) (users db),
       sy_UsersDisabled = count_rows db ''disabled'' (\<lambda>u. u_disabled u = 1) (users db),
       sy_UsersMFA = count_rows db ''mfa'' (\<lambda>u. u_mfa_enabled u = 1) (users db),
       sy_Groups = count_rows db ''groups'' (\<lambda>_. True) (groups db),
       sy_Targets = count_rows db ''targets'' (\<lambda>_. True) (targets db),
       sy_Safes = count_rows db ''safes'' (\<lambda>_. True) (safes db),
       sy_PrivilegedAccounts = count_rows db ''accounts'' (\<lambda>_. True) (privileged_accounts db),
       sy_AccountsOverdue = count_rows db ''overdue''
         (\<lambda>a. case pa_next_rotation a of None \<Rightarrow> False | Some t \<Rightarrow> t < now) (privileged_accounts db),
       sy_PendingRequests = count_rows db ''pending'' (\<lambda>r. ar_status r = ''pending'') (access_requests db),
       sy_ActiveSessions = count_rows db ''active'' (\<lambda>s. ss_ended_at s = None) (sessions db),
       sy_Sessions24h = count_rows db ''sessions'' (\<lambda>s. now - 86400 \<le> ss_started_at s) (sessions db),
       sy_LoginFailed24h = count_rows db ''failed''
         (\<lambda>e. ev_kind e = ''login.failed'' \<and> now - 86400 \<le> ev_ts e) (audit_events db),
       sy_OpenAlerts = count_rows db ''alerts'' (\<lambda>a. ta_acknowledged a = 0) (threat_alerts db)\<rparr>)"

record access_by_user =
  ab_UserID :: int
  ab_Username :: string
  ab_Sessions :: nat
  ab_Targets :: nat

abbreviation Report_Access :: sql_stmt where "Report_Access \<equiv> Stmt ''reports.access''"
abbreviation Report_Age :: sql_stmt where "Report_Age \<equiv> Stmt ''reports.age''"

definition AccessByUser :: "int \<Rightarrow> pam_db \<Rightarrow> err + access_by_user list" where
  "AccessByUser days db =
     (let since = clock db - (if days \<le> 0 then 30 else days) * 86400;
          mine = (\<lambda>u. filter (\<lambda>s. ss_user_id s = u_id u \<and> since \<le> ss_started_at s) (sessions db))
      in if faults db Report_Access then Inl (ErrSql Report_Access)
         else Inr (take 50 (sort_key (\<lambda>r. - int (ab_Sessions r)) (map (\<lambda>u.
                \<lparr>ab_UserID = u_id u, ab_Username = u_username u, ab_Sessions = length (mine u),
                 ab_Targets = length (remdups (map ss_target_id (mine u)))\<rparr>)
              (filter (\<lambda>u. mine u \<noteq> []) (users db))))))"

record password_age =
  pg_AccountID :: int
  pg_AccountName :: string
  pg_SafeName :: string
  pg_LastRotated :: "int option"
  pg_NextDue :: "int option"
  pg_AgeDays :: int
  pg_Status :: string

text \<open>Go's quotient of integers, which rounds towards zero.\<close>

definition go_quot :: "int \<Rightarrow> int \<Rightarrow> int" where
  "go_quot a b = sgn a * sgn b * (\<bar>a\<bar> div \<bar>b\<bar>)"

definition PasswordAge :: "pam_db \<Rightarrow> err + password_age list" where
  "PasswordAge db =
     (if faults db Report_Age then Inl (ErrSql Report_Age)
      else Inr (List.map_filter (\<lambda>a. map_option (\<lambda>sf.
             \<lparr>pg_AccountID = pa_id a, pg_AccountName = pa_name a, pg_SafeName = sf_name sf,
              pg_LastRotated = pa_last_rotated a, pg_NextDue = pa_next_rotation a,
              pg_AgeDays = (case pa_last_rotated a of None \<Rightarrow> 0 | Some t \<Rightarrow> go_quot (clock db - t) 86400),
              pg_Status = (case pa_next_rotation a of None \<Rightarrow> ''ok''
                | Some t \<Rightarrow> if t < clock db then ''overdue'' else ''ok'')\<rparr>)
             (row_by sf_id (pa_safe_id a) (safes db)))
           (sort_key (\<lambda>a. case pa_last_rotated a of None \<Rightarrow> pa_created_at a | Some t \<Rightarrow> t) (privileged_accounts db))))"

end
