(* ===== verification/Http.thy ===== *)
theory Http
  imports Monitor
begin

text \<open>
  The HTTP interface of the services: requests, the body of a request as a JSON value, and responses
  (\<^verbatim>\<open>internal/httpx/httpx.go\<close> and what the handlers use of \<^verbatim>\<open>net/http\<close> and \<^verbatim>\<open>encoding/json\<close>).  The lexical level is
  left out: a body is a JSON value already parsed, \<open>None\<close> when it is not one.
\<close>

section \<open>JSON values\<close>

datatype json =
    JNull
  | JBool bool
  | JInt int
  | JStr string
  | JArr "json list"
  | JObj "(string \<times> json) list"

text \<open>Decoding a value into a Go struct: of the members of an object that name a field, up to case, the last counts;
  \<^verbatim>\<open>null\<close> leaves the field as it was, a value of another type too, and then the decoder ends with an error.  A decoder
  returns the filled struct and whether there was no error.\<close>

definition json_member :: "string \<Rightarrow> json \<Rightarrow> json" where
  "json_member name j =
     (case j of
        JObj ms \<Rightarrow>
          (case filter (\<lambda>(k, _). to_lower k = to_lower name) ms of [] \<Rightarrow> JNull | hits \<Rightarrow> snd (last hits))
      | _ \<Rightarrow> JNull)"

definition json_is_struct :: "json \<Rightarrow> bool" where
  "json_is_struct j = (case j of JObj _ \<Rightarrow> True | JNull \<Rightarrow> True | _ \<Rightarrow> False)"

definition json_string_or :: "string \<Rightarrow> json \<Rightarrow> string \<times> bool" where
  "json_string_or d j = (case j of JStr s \<Rightarrow> (s, True) | JNull \<Rightarrow> (d, True) | _ \<Rightarrow> (d, False))"

definition json_int_or :: "int \<Rightarrow> json \<Rightarrow> int \<times> bool" where
  "json_int_or d j =
     (case j of
        JInt n \<Rightarrow> if - (2 ^ 63) \<le> n \<and> n < 2 ^ 63 then (n, True) else (d, False)
      | JNull \<Rightarrow> (d, True)
      | _ \<Rightarrow> (d, False))"

definition json_bool_or :: "bool \<Rightarrow> json \<Rightarrow> bool \<times> bool" where
  "json_bool_or d j = (case j of JBool b \<Rightarrow> (b, True) | JNull \<Rightarrow> (d, True) | _ \<Rightarrow> (d, False))"

definition json_optional :: "(json \<Rightarrow> 'a \<times> bool) \<Rightarrow> json \<Rightarrow> 'a option \<times> bool" where
  "json_optional dec j = (case j of JNull \<Rightarrow> (None, True) | _ \<Rightarrow> (case dec j of (v, ok) \<Rightarrow> (Some v, ok)))"

definition json_list :: "(json \<Rightarrow> 'a \<times> bool) \<Rightarrow> json \<Rightarrow> 'a list \<times> bool" where
  "json_list dec j =
     (case j of
        JArr xs \<Rightarrow> (map (fst \<circ> dec) xs, list_all (snd \<circ> dec) xs)
      | JNull \<Rightarrow> ([], True)
      | _ \<Rightarrow> ([], False))"

abbreviation str_field :: "string \<Rightarrow> json \<Rightarrow> string \<times> bool" where
  "str_field name j \<equiv> json_string_or [] (json_member name j)"

abbreviation int_field :: "string \<Rightarrow> json \<Rightarrow> int \<times> bool" where
  "int_field name j \<equiv> json_int_or 0 (json_member name j)"

abbreviation bool_field :: "string \<Rightarrow> json \<Rightarrow> bool \<times> bool" where
  "bool_field name j \<equiv> json_bool_or False (json_member name j)"

abbreviation opt_bool_field :: "string \<Rightarrow> json \<Rightarrow> bool option \<times> bool" where
  "opt_bool_field name j \<equiv> json_optional (json_bool_or False) (json_member name j)"

abbreviation opt_int_field :: "string \<Rightarrow> json \<Rightarrow> int option \<times> bool" where
  "opt_int_field name j \<equiv> json_optional (json_int_or 0) (json_member name j)"

abbreviation int_list_field :: "string \<Rightarrow> json \<Rightarrow> int list \<times> bool" where
  "int_list_field name j \<equiv> json_list (json_int_or 0) (json_member name j)"

abbreviation str_list_field :: "string \<Rightarrow> json \<Rightarrow> string list \<times> bool" where
  "str_list_field name j \<equiv> json_list (json_string_or []) (json_member name j)"

section \<open>Requests\<close>

text \<open>\<open>hr_Segs\<close> are the segments of the path, each with its escapes decoded, so that a segment may hold a slash; \<open>hr_Header\<close>
  and \<open>hr_Query\<close> are \<^verbatim>\<open>Header.Get\<close> and \<^verbatim>\<open>URL.Query().Get\<close>, the empty text for what is absent.\<close>

record http_request =
  hr_Method :: string
  hr_Segs :: "string list"
  hr_Header :: "string \<Rightarrow> string"
  hr_Query :: "string \<Rightarrow> string"
  hr_Cookie :: "string \<Rightarrow> string option"
  hr_Body :: "json option"
  hr_RemoteAddr :: string

text \<open>\<^verbatim>\<open>httpx.ReadJSON\<close>, and the struct that is left when the error is ignored.\<close>

definition ReadJSON :: "(json \<Rightarrow> 'a \<times> bool) \<Rightarrow> http_request \<Rightarrow> err + 'a" where
  "ReadJSON dec r =
     (case hr_Body r of
        None \<Rightarrow> Inl (ErrMsg ''invalid JSON'')
      | Some j \<Rightarrow>
          if json_is_struct j \<and> snd (dec j) then Inr (fst (dec j)) else Inl (ErrMsg ''json: cannot unmarshal''))"

definition ReadJSON_ignored :: "(json \<Rightarrow> 'a \<times> bool) \<Rightarrow> http_request \<Rightarrow> 'a" where
  "ReadJSON_ignored dec r = fst (dec (case hr_Body r of None \<Rightarrow> JNull | Some j \<Rightarrow> j))"

text \<open>\<^verbatim>\<open>strconv.ParseInt\<close> with the error ignored: 0 for what is not a number, the nearest bound for what does not fit.\<close>

definition parse_int_ignored :: "string \<Rightarrow> int" where
  "parse_int_ignored s =
     (case parse_int64 s of
        Some n \<Rightarrow> n
      | None \<Rightarrow>
          let neg = (s \<noteq> [] \<and> hd s = CHR ''-'');
              ds = (if s \<noteq> [] \<and> (hd s = CHR ''-'' \<or> hd s = CHR ''+'') then tl s else s)
          in if ds = [] \<or> \<not> list_all is_digit ds then 0 else if neg then - (2 ^ 63) else 2 ^ 63 - 1)"

lemma parse_int_ignored_Some [simp]: "parse_int64 s = Some n \<Longrightarrow> parse_int_ignored s = n"
  by (simp add: parse_int_ignored_def)

text \<open>The identity headers that the gateway sets.\<close>

definition caller_uid :: "http_request \<Rightarrow> int" where
  "caller_uid r = parse_int_ignored (hr_Header r ''X-PAM-UID'')"

abbreviation caller_role :: "http_request \<Rightarrow> string" where
  "caller_role r \<equiv> hr_Header r ''X-PAM-Role''"

abbreviation caller_name :: "http_request \<Rightarrow> string" where
  "caller_name r \<equiv> hr_Header r ''X-PAM-User''"

definition client_ip :: "http_request \<Rightarrow> string" where
  "client_ip r =
     (if hr_Header r ''X-Forwarded-For'' = [] then hr_RemoteAddr r else hr_Header r ''X-Forwarded-For'')"

definition BearerToken :: "http_request \<Rightarrow> err + string" where
  "BearerToken r =
     (let h = hr_Header r ''Authorization'' in
      if \<not> has_prefix h ''Bearer '' then Inl (ErrMsg ''missing bearer token'')
      else Inr (trim_prefix h ''Bearer ''))"

definition BearerTokenFromRequest :: "http_request \<Rightarrow> err + string" where
  "BearerTokenFromRequest r =
     (case BearerToken r of
        Inr tok \<Rightarrow> Inr tok
      | Inl _ \<Rightarrow>
          let tok = trim_space (hr_Query r ''token'') in
          if tok \<noteq> [] then Inr tok
          else (case hr_Cookie r ''pam_web_tok'' of
                  None \<Rightarrow> Inl (ErrMsg ''missing bearer token'')
                | Some c \<Rightarrow> if trim_space c \<noteq> [] then Inr c else Inl (ErrMsg ''missing bearer token'')))"

section \<open>Responses\<close>

text \<open>\<open>Error\<close> is \<^verbatim>\<open>httpx.Error\<close>; \<open>Done\<close> and \<open>Accepted\<close> answer a fixed body with the status 200 and 202, \<open>Created\<close> the
  key of a new row, and \<open>Answer\<close> a value of the service.\<close>

datatype 'p response =
    Error nat err
  | Done string
  | Accepted string
  | Created int
  | Answer nat 'p

definition status :: "'p response \<Rightarrow> nat" where
  "status r = (case r of Error n _ \<Rightarrow> n | Done _ \<Rightarrow> 200 | Accepted _ \<Rightarrow> 202 | Created _ \<Rightarrow> 201 | Answer n _ \<Rightarrow> n)"

text \<open>A handler returns its response, the events it publishes and the database.  The shapes that most handlers have: a
  value that is read, a row that is created, and a row that is changed.\<close>

type_synonym 'p outcome = "'p response \<times> event list \<times> pam_db"

abbreviation outcome_db :: "'p outcome \<Rightarrow> pam_db" where
  "outcome_db out \<equiv> snd (snd out)"

definition reply :: "'p response \<Rightarrow> pam_db \<Rightarrow> 'p outcome" where
  "reply r db = (r, [], db)"

definition reply_read :: "('a \<Rightarrow> 'p) \<Rightarrow> err + 'a \<Rightarrow> pam_db \<Rightarrow> 'p outcome" where
  "reply_read f out db = reply (case out of Inl e \<Rightarrow> Error 500 e | Inr v \<Rightarrow> Answer 200 (f v)) db"

definition reply_created :: "event list \<Rightarrow> (err + int) \<times> pam_db \<Rightarrow> 'p outcome" where
  "reply_created evs out =
     (case out of (Inl e, db) \<Rightarrow> (Error 400 e, [], db) | (Inr i, db) \<Rightarrow> (Created i, evs, db))"

definition reply_done :: "string \<Rightarrow> event list \<Rightarrow> (err + unit) \<times> pam_db \<Rightarrow> 'p outcome" where
  "reply_done what evs out =
     (case out of (Inl e, db) \<Rightarrow> (Error 400 e, [], db) | (Inr _, db) \<Rightarrow> (Done what, evs, db))"

definition with_body ::
  "(json \<Rightarrow> 'a \<times> bool) \<Rightarrow> http_request \<Rightarrow> pam_db \<Rightarrow> ('a \<Rightarrow> 'p outcome) \<Rightarrow> 'p outcome" where
  "with_body dec r db k = (case ReadJSON dec r of Inl e \<Rightarrow> reply (Error 400 e) db | Inr v \<Rightarrow> k v)"

lemma outcome_db_reply [simp]:
  "outcome_db (reply r db) = db"
  "outcome_db (reply_read f out' db) = db"
  "outcome_db (reply_created evs out) = snd out"
  "outcome_db (reply_done what evs out2) = snd out2"
  by (auto simp: reply_def reply_read_def reply_created_def reply_done_def split: prod.splits sum.splits)

lemma with_body_keeps:
  assumes "\<And>v. P (outcome_db (k v))" "P db"
  shows "P (outcome_db (with_body dec r db k))"
  using assms by (auto simp: with_body_def split: sum.splits)

section \<open>Routing\<close>

text \<open>\<^verbatim>\<open>URL.Path\<close>: the decoded text of the whole path.\<close>

definition hr_Path :: "http_request \<Rightarrow> string" where
  "hr_Path r = CHR ''/'' # join ''/'' (hr_Segs r)"

text \<open>A pattern of \<^verbatim>\<open>ServeMux\<close> is a method and a list of literal segments and wildcards; a wildcard matches one segment that is
  not empty.  The tables below list a pattern before the more general ones, so that the first match is the most
  specific one.\<close>

datatype seg = Lit string | Wild

fun match_segs :: "seg list \<Rightarrow> string list \<Rightarrow> string list option" where
  "match_segs [] [] = Some []"
| "match_segs (Lit l # ps) (s # ss) = (if l = s then match_segs ps ss else None)"
| "match_segs (Wild # ps) (s # ss) = (if s = [] then None else map_option ((#) s) (match_segs ps ss))"
| "match_segs _ _ = None"

definition method_matches :: "string \<Rightarrow> string \<Rightarrow> bool" where
  "method_matches pat m = (pat = m \<or> pat = ''GET'' \<and> m = ''HEAD'')"

fun find_route :: "(string \<times> seg list \<times> 'h) list \<Rightarrow> string \<Rightarrow> string list \<Rightarrow> ('h \<times> string list) option" where
  "find_route [] m ss = None"
| "find_route ((pm, ps, h) # rs) m ss =
     (case match_segs ps ss of
        Some args \<Rightarrow> if method_matches pm m then Some (h, args) else find_route rs m ss
      | None \<Rightarrow> find_route rs m ss)"

text \<open>The first \<^verbatim>\<open>PathValue\<close> and its reading as a key.\<close>

definition arg :: "nat \<Rightarrow> string list \<Rightarrow> string" where
  "arg n args = (if n < length args then args ! n else [])"

definition arg_id :: "nat \<Rightarrow> string list \<Rightarrow> int" where
  "arg_id n args = parse_int_ignored (arg n args)"

text \<open>What the mux answers when no pattern matches: 405 when one matches with another method, else 404.\<close>

definition unrouted :: "(string \<times> seg list \<times> 'h) list \<Rightarrow> string list \<Rightarrow> nat" where
  "unrouted table ss = (if list_ex (\<lambda>(_, ps, _). match_segs ps ss \<noteq> None) table then 405 else 404)"

type_synonym 'p handler = "string list \<Rightarrow> http_request \<Rightarrow> pam_db \<Rightarrow> 'p outcome"

definition serve_mux :: "(string \<times> seg list \<times> 'p handler) list \<Rightarrow> http_request \<Rightarrow> pam_db \<Rightarrow> 'p outcome" where
  "serve_mux table r db =
     (case find_route table (hr_Method r) (hr_Segs r) of
        Some (h, args) \<Rightarrow> h args r db
      | None \<Rightarrow> reply (Error (unrouted table (hr_Segs r)) (ErrMsg ''page not found'')) db)"

lemma find_route_mem:
  "find_route table m ss = Some (h, args) \<Longrightarrow>
   \<exists>pm ps. (pm, ps, h) \<in> set table \<and> match_segs ps ss = Some args \<and> method_matches pm m"
  by (induction table m ss rule: find_route.induct) (auto split: option.splits if_splits)

text \<open>A property of the database that every handler of a table keeps is kept by the table.\<close>

lemma serve_mux_keeps:
  assumes "\<And>pm ps h args. (pm, ps, h) \<in> set table \<Longrightarrow> match_segs ps (hr_Segs r) = Some args \<Longrightarrow>
      method_matches pm (hr_Method r) \<Longrightarrow> P (outcome_db (h args r db))"
    and "P db"
  shows "P (outcome_db (serve_mux table r db))"
proof (cases "find_route table (hr_Method r) (hr_Segs r)")
  case None
  with assms(2) show ?thesis by (simp add: serve_mux_def)
next
  case (Some hit)
  then obtain h args where "hit = (h, args)" by (cases hit)
  with Some obtain pm ps where "(pm, ps, h) \<in> set table" "match_segs ps (hr_Segs r) = Some args"
    "method_matches pm (hr_Method r)"
    using find_route_mem [of table "hr_Method r" "hr_Segs r" h args] by auto
  from assms(1) [OF this] Some \<open>hit = (h, args)\<close> show ?thesis by (simp add: serve_mux_def)
qed

end
