(* ===== verification/Roles.thy ===== *)
theory Roles
  imports Users
begin

text \<open>
  The catalogue of roles (\<^verbatim>\<open>internal/roles/roles.go\<close>) and the settings (\<^verbatim>\<open>internal/settings/settings.go\<close>).
  Users, groups and policies name a role by its text, without a foreign key.  A setting with a JSON value is
  a text for the decoder of the standard library, which the callers get as an argument.
\<close>

section \<open>Roles\<close>

record role =
  ro_ID :: int
  ro_Name :: string
  ro_Description :: string
  ro_Builtin :: bool
  ro_CreatedAt :: int
  ro_Users :: int
  ro_Groups :: int
  ro_Policies :: int

abbreviation Roles_List :: sql_stmt where "Roles_List \<equiv> Stmt ''roles.list''"
abbreviation Roles_Get :: sql_stmt where "Roles_Get \<equiv> Stmt ''roles.get''"
abbreviation Roles_Insert :: sql_stmt where "Roles_Insert \<equiv> Stmt ''roles.insert''"
abbreviation Roles_Update :: sql_stmt where "Roles_Update \<equiv> Stmt ''roles.update''"
abbreviation Roles_Refs :: sql_stmt where "Roles_Refs \<equiv> Stmt ''roles.refs''"
abbreviation Roles_Delete :: sql_stmt where "Roles_Delete \<equiv> Stmt ''roles.delete''"
definition Roles_Seed :: "string \<Rightarrow> sql_stmt" where "Roles_Seed name = Stmt (''roles.seed '' @ name)"

definition utf8_dash :: string where
  "utf8_dash = [CHR 0xE2, CHR 0x80, CHR 0x94]"

text \<open>The built-in names with their descriptions, in the order of \<^verbatim>\<open>builtinNames\<close>.\<close>

definition builtin_roles :: "(string \<times> string) list" where
  "builtin_roles =
     [(''admin'', ''Full administrative access to the PAM platform''),
      (''netops'', ''Network operations '' @ utf8_dash @ '' routers, switches, firewalls''),
      (''secops'', ''Security operations '' @ utf8_dash @ '' security appliances''),
      (''sysadmin'', ''Server administration '' @ utf8_dash @ '' Linux/Windows hosts''),
      (''viewer'', ''Read-only audit / compliance access''),
      (''user'', ''Default low-privilege role'')]"

definition builtinNames :: "string list" where
  "builtinNames = map fst builtin_roles"

definition insert_role :: "string \<Rightarrow> string \<Rightarrow> int \<Rightarrow> pam_db \<Rightarrow> pam_db" where
  "insert_role name description builtin db =
     (bump_seq T_roles db)\<lparr>role_defs := role_defs db @
       [\<lparr>rl_id = next_id T_roles db, rl_name = name, rl_description = description, rl_builtin = builtin,
         rl_created_at = clock db\<rparr>]\<rparr>"

fun seed_roles :: "(string \<times> string) list \<Rightarrow> pam_db \<Rightarrow> (err + unit) \<times> pam_db" where
  "seed_roles [] db = (Inr (), db)"
| "seed_roles ((name, description) # rs) db =
     (if faults db (Roles_Seed name) then (Inl (ErrSql (Roles_Seed name)), db)
      else if name \<in> set (map rl_name (role_defs db))
      then seed_roles rs (db\<lparr>role_defs := update_where (\<lambda>r. rl_name r = name) (\<lambda>r. r\<lparr>rl_builtin := 1\<rparr>) (role_defs db)\<rparr>)
      else seed_roles rs (insert_role name description 1 db))"

definition SeedBuiltins :: "pam_db \<Rightarrow> (err + unit) \<times> pam_db" where
  "SeedBuiltins = seed_roles builtin_roles"

definition role_users :: "pam_db \<Rightarrow> string \<Rightarrow> int" where
  "role_users db name = int (rows_affected (\<lambda>u. u_role u = name) (users db))"

definition role_groups :: "pam_db \<Rightarrow> string \<Rightarrow> int" where
  "role_groups db name = int (rows_affected (\<lambda>g. g_role g = name) (groups db))"

definition role_policies :: "pam_db \<Rightarrow> string \<Rightarrow> int" where
  "role_policies db name = int (rows_affected (\<lambda>p. p_role p = name) (policies db))"

definition role_of_row :: "role_row \<Rightarrow> role" where
  "role_of_row r =
     \<lparr>ro_ID = rl_id r, ro_Name = rl_name r, ro_Description = rl_description r,
      ro_Builtin = (rl_builtin r \<noteq> 0), ro_CreatedAt = rl_created_at r, ro_Users = 0, ro_Groups = 0,
      ro_Policies = 0\<rparr>"

definition RoleList :: "pam_db \<Rightarrow> err + role list" where
  "RoleList db =
     (if faults db Roles_List then Inl (ErrSql Roles_List)
      else Inr (map (\<lambda>r. (role_of_row r)\<lparr>ro_Users := role_users db (rl_name r),
                ro_Groups := role_groups db (rl_name r), ro_Policies := role_policies db (rl_name r)\<rparr>)
             (sort_key (\<lambda>r. (- rl_builtin r, rl_name r)) (role_defs db))))"

definition RoleGet :: "pam_db \<Rightarrow> string \<Rightarrow> err + role" where
  "RoleGet db name =
     (if faults db Roles_Get then Inl (ErrSql Roles_Get)
      else case row_by rl_name name (role_defs db) of
        None \<Rightarrow> Inl (ErrMsg ''role not found'')
      | Some r \<Rightarrow> Inr (role_of_row r))"

definition validRoleName :: "string \<Rightarrow> bool" where
  "validRoleName s =
     (s \<noteq> [] \<and> list_all (\<lambda>c. CHR ''a'' \<le> c \<and> c \<le> CHR ''z'' \<or> is_digit c \<or> c = CHR ''-'' \<or> c = CHR ''_'') s)"

definition RoleCreate :: "role \<Rightarrow> pam_db \<Rightarrow> (err + int) \<times> pam_db" where
  "RoleCreate r db =
     (let name = trim_space (to_lower (ro_Name r)) in
      if name = [] then (Inl (ErrMsg ''role name required''), db)
      else if \<not> validRoleName name
      then (Inl (ErrMsg ''role name must be lowercase alphanumeric / dashes / underscores''), db)
      else if faults db Roles_Insert then (Inl (ErrSql Roles_Insert), db)
      else if name \<in> set (map rl_name (role_defs db)) then (Inl ErrConstraint, db)
      else (Inr (next_id T_roles db), insert_role name (ro_Description r) 0 db))"

definition RoleUpdate :: "int \<Rightarrow> string \<Rightarrow> pam_db \<Rightarrow> (err + unit) \<times> pam_db" where
  "RoleUpdate i description db =
     (if faults db Roles_Update then (Inl (ErrSql Roles_Update), db)
      else if rows_affected (\<lambda>r. rl_id r = i) (role_defs db) = 0 then (Inl (ErrMsg ''role not found''), db)
      else (Inr (), db\<lparr>role_defs := update_where (\<lambda>r. rl_id r = i)
             (\<lambda>r. r\<lparr>rl_description := description\<rparr>) (role_defs db)\<rparr>))"

definition RoleDelete :: "int \<Rightarrow> pam_db \<Rightarrow> (err + unit) \<times> pam_db" where
  "RoleDelete i db =
     (case (if faults db Roles_Get then None else row_by rl_id i (role_defs db)) of
        None \<Rightarrow> (Inl (ErrMsg ''role not found''), db)
      | Some r \<Rightarrow>
          if rl_builtin r \<noteq> 0 then (Inl (ErrMsg ''built-in roles cannot be deleted''), db)
          else if faults db Roles_Refs then (Inl (ErrSql Roles_Refs), db)
          else if role_users db (rl_name r) + role_groups db (rl_name r) + role_policies db (rl_name r) > 0
          then (Inl (ErrMsg ''role still referenced by users, groups, or policies''), db)
          else if faults db Roles_Delete then (Inl (ErrSql Roles_Delete), db)
          else (Inr (), db\<lparr>role_defs := delete_where (\<lambda>r. rl_id r = i) (role_defs db)\<rparr>))"

section \<open>Settings\<close>

abbreviation Settings_Get :: sql_stmt where "Settings_Get \<equiv> Stmt ''settings.get''"
abbreviation Settings_Set :: sql_stmt where "Settings_Set \<equiv> Stmt ''settings.set''"
abbreviation Settings_All :: sql_stmt where "Settings_All \<equiv> Stmt ''settings.all''"

definition SettingGet :: "pam_db \<Rightarrow> string \<Rightarrow> err + string" where
  "SettingGet db key =
     (if faults db Settings_Get then Inl (ErrSql Settings_Get)
      else case row_by s_key key (settings db) of None \<Rightarrow> Inr [] | Some r \<Rightarrow> Inr (s_value r))"

definition SettingSet :: "string \<Rightarrow> string \<Rightarrow> pam_db \<Rightarrow> (err + unit) \<times> pam_db" where
  "SettingSet key val db =
     (if faults db Settings_Set then (Inl (ErrSql Settings_Set), db)
      else if key \<in> set (map s_key (settings db))
      then (Inr (), db\<lparr>settings := update_where (\<lambda>r. s_key r = key)
             (\<lambda>r. r\<lparr>s_value := val, s_updated_at := clock db\<rparr>) (settings db)\<rparr>)
      else (Inr (), db\<lparr>settings := settings db @ [\<lparr>s_key = key, s_value = val, s_updated_at = clock db\<rparr>]\<rparr>))"

text \<open>\<^verbatim>\<open>GetJSON\<close>: \<open>decode\<close> overlays the stored text on the value of the caller, and what it filled before an error
  stays.\<close>

definition SettingGetJSON :: "(string \<Rightarrow> 'a \<Rightarrow> 'a \<times> err option) \<Rightarrow> pam_db \<Rightarrow> string \<Rightarrow> 'a \<Rightarrow> (err + unit) \<times> 'a" where
  "SettingGetJSON decode db key v =
     (case SettingGet db key of
        Inl e \<Rightarrow> (Inl e, v)
      | Inr raw \<Rightarrow>
          if raw = [] then (Inr (), v)
          else (case decode raw v of (v', Some e) \<Rightarrow> (Inl e, v') | (v', None) \<Rightarrow> (Inr (), v')))"

definition SettingAll :: "pam_db \<Rightarrow> err + (string \<rightharpoonup> string)" where
  "SettingAll db =
     (if faults db Settings_All then Inl (ErrSql Settings_All)
      else Inr (map_of (map (\<lambda>r. (s_key r, s_value r)) (settings db))))"

end
