(* ===== verification/Directory.thy ===== *)
theory Directory
  imports Http Roles Launch
begin

text \<open>
  The directory client and its synchronisation (\<^verbatim>\<open>internal/ldap\<close>) and the assertions of the identity provider
  (\<^verbatim>\<open>internal/saml/saml.go\<close>).  The libraries \<^verbatim>\<open>go-ldap\<close> and \<^verbatim>\<open>crewjam/saml\<close> are outside the repository: what
  the code calls of them is the argument \<open>ldap_library\<close>, and the outcome of \<^verbatim>\<open>ParseResponse\<close>.
\<close>

section \<open>The directory client\<close>

record ldap_entry =
  le_DN :: string
  le_Value :: "string \<Rightarrow> string"
  le_Values :: "string \<Rightarrow> string list"

datatype ldap_scope = ScopeBaseObject | ScopeWholeSubtree

record ldap_search =
  lq_Base :: string
  lq_Scope :: ldap_scope
  lq_SizeLimit :: int
  lq_TimeLimit :: int
  lq_Filter :: string
  lq_Attributes :: "string list"

text \<open>\<open>ll_DialURL url tls\<close> dials, with the TLS configuration (\<^verbatim>\<open>InsecureSkipVerify\<close>) when there is one; a bind changes
  the identity of the connection.\<close>

record 'c ldap_library =
  ll_DialURL :: "string \<Rightarrow> bool option \<Rightarrow> err + 'c"
  ll_StartTLS :: "bool \<Rightarrow> 'c \<Rightarrow> err + 'c"
  ll_Bind :: "string \<Rightarrow> string \<Rightarrow> 'c \<Rightarrow> err + 'c"
  ll_Search :: "ldap_search \<Rightarrow> 'c \<Rightarrow> err + ldap_entry list"
  ll_EscapeFilter :: "string \<Rightarrow> string"

record ldap_config =
  lc_Enabled :: bool
  lc_URL :: string
  lc_StartTLS :: bool
  lc_SkipTLSVerify :: bool
  lc_BindDN :: string
  lc_BindPasswordSet :: bool
  lc_BaseDN :: string
  lc_UserFilter :: string
  lc_GroupFilter :: string
  lc_UsernameAttr :: string
  lc_EmailAttr :: string
  lc_DefaultRole :: string

definition ldap_DefaultConfig :: ldap_config where
  "ldap_DefaultConfig =
     \<lparr>lc_Enabled = False, lc_URL = [], lc_StartTLS = False, lc_SkipTLSVerify = False, lc_BindDN = [],
      lc_BindPasswordSet = False, lc_BaseDN = [], lc_UserFilter = ''(sAMAccountName=%s)'',
      lc_GroupFilter = ''(&(objectClass=group)(member=%s))'', lc_UsernameAttr = ''sAMAccountName'',
      lc_EmailAttr = ''mail'', lc_DefaultRole = ''user''\<rparr>"

record ldap_user =
  lu_DN :: string
  lu_Username :: string
  lu_Email :: string
  lu_Groups :: "string list"

record ldap_client =
  lk_Cfg :: ldap_config
  lk_Password :: string

definition if_ok :: "'e + 'a \<Rightarrow> ('a \<Rightarrow> 'e + 'b) \<Rightarrow> 'e + 'b" where
  "if_ok r k = (case r of Inl e \<Rightarrow> Inl e | Inr v \<Rightarrow> k v)"

lemma if_ok_simps [simp]: "if_ok (Inl e) k = Inl e" "if_ok (Inr v) k = k v"
  by (simp_all add: if_ok_def)

lemma if_ok_Inr: "if_ok r k = Inr v \<longleftrightarrow> (\<exists>w. r = Inr w \<and> k w = Inr v)"
  by (cases r) simp_all

definition wrapped :: "string \<Rightarrow> err + 'a \<Rightarrow> err + 'a" where
  "wrapped what r = (case r of Inl e \<Rightarrow> Inl (wrap_err what e) | Inr v \<Rightarrow> Inr v)"

lemma wrapped_Inr [simp]: "wrapped what r = Inr v \<longleftrightarrow> r = Inr v"
  by (cases r) (simp_all add: wrapped_def)

text \<open>\<^verbatim>\<open>fmt.Sprintf\<close> with texts as arguments and the verbs \<^verbatim>\<open>%s\<close>, \<^verbatim>\<open>%v\<close> and \<^verbatim>\<open>%%\<close>; a configured filter with
  flags, widths or other verbs is not modelled beyond the marker that Go leaves for them.\<close>

fun sprintf_s :: "string \<Rightarrow> string list \<Rightarrow> string" where
  "sprintf_s [] args =
     (if args = [] then [] else ''%!(EXTRA '' @ join '', '' (map (\<lambda>a. ''string='' @ a) args) @ '')'')"
| "sprintf_s [c] args = (if c = CHR ''%'' then ''%!(NOVERB)'' else [c]) @ sprintf_s [] args"
| "sprintf_s (c # v # s) args =
     (if c \<noteq> CHR ''%'' then c # sprintf_s (v # s) args
      else if v = CHR ''%'' then v # sprintf_s s args
      else (case args of
              [] \<Rightarrow> ''%!'' @ [v] @ ''(MISSING)'' @ sprintf_s s []
            | a # as \<Rightarrow>
                (if v = CHR ''s'' \<or> v = CHR ''v'' then a else ''%!'' @ [v] @ ''(string='' @ a @ '')'') @ sprintf_s s as))"

definition ldap_dial :: "'c ldap_library \<Rightarrow> ldap_config \<Rightarrow> err + 'c" where
  "ldap_dial lib cfg =
     (if lc_URL cfg = [] then Inl (ErrMsg ''ldap: URL not configured'')
      else
        let url = to_lower (lc_URL cfg);
            tls = (if has_prefix url ''ldaps://'' then Some (lc_SkipTLSVerify cfg) else None)
        in if_ok (wrapped ''ldap: dial'' (ll_DialURL lib (lc_URL cfg) tls)) (\<lambda>conn.
             if lc_StartTLS cfg \<and> has_prefix url ''ldap://''
             then wrapped ''ldap: starttls'' (ll_StartTLS lib (lc_SkipTLSVerify cfg) conn)
             else Inr conn))"

definition bindService :: "'c ldap_library \<Rightarrow> ldap_client \<Rightarrow> 'c \<Rightarrow> err + 'c" where
  "bindService lib c conn =
     (if lc_BindDN (lk_Cfg c) = [] then Inr conn else ll_Bind lib (lc_BindDN (lk_Cfg c)) (lk_Password c) conn)"

definition usernameAttr :: "ldap_config \<Rightarrow> string" where
  "usernameAttr cfg = default_string ''sAMAccountName'' (lc_UsernameAttr cfg)"

definition emailAttr :: "ldap_config \<Rightarrow> string" where
  "emailAttr cfg = default_string ''mail'' (lc_EmailAttr cfg)"

definition ldap_user_of :: "ldap_config \<Rightarrow> ldap_entry \<Rightarrow> ldap_user" where
  "ldap_user_of cfg e =
     \<lparr>lu_DN = le_DN e, lu_Username = le_Value e (usernameAttr cfg), lu_Email = le_Value e (emailAttr cfg),
      lu_Groups = []\<rparr>"

definition searchOneUser :: "'c ldap_library \<Rightarrow> ldap_client \<Rightarrow> 'c \<Rightarrow> string \<Rightarrow> err + ldap_user" where
  "searchOneUser lib c conn flt =
     (let cfg = lk_Cfg c in
      if_ok (wrapped ''ldap: search'' (ll_Search lib
          \<lparr>lq_Base = lc_BaseDN cfg, lq_Scope = ScopeWholeSubtree, lq_SizeLimit = 2, lq_TimeLimit = 8, lq_Filter = flt,
           lq_Attributes = [''dn'', usernameAttr cfg, emailAttr cfg]\<rparr> conn)) (\<lambda>entries.
        case entries of
          [] \<Rightarrow> Inl (ErrMsg ''ldap: user not found'')
        | [e] \<Rightarrow> Inr (ldap_user_of cfg e)
        | _ \<Rightarrow> Inl (ErrMsg ''ldap: ambiguous username'')))"

definition findUser :: "'c ldap_library \<Rightarrow> ldap_client \<Rightarrow> 'c \<Rightarrow> string \<Rightarrow> err + ldap_user" where
  "findUser lib c conn name =
     (let login = trim_space name; esc = ll_EscapeFilter lib login in
      case searchOneUser lib c conn (sprintf_s (lc_UserFilter (lk_Cfg c)) [esc]) of
        Inr u \<Rightarrow> Inr u
      | Inl _ \<Rightarrow>
          if CHR ''@'' \<notin> set login then Inl (ErrMsg ''ldap: user not found'')
          else case searchOneUser lib c conn (''(mail='' @ esc @ '')'') of
            Inr u \<Rightarrow> Inr u
          | Inl _ \<Rightarrow>
              (case searchOneUser lib c conn (''(userPrincipalName='' @ esc @ '')'') of
                 Inr u \<Rightarrow> Inr u
               | Inl _ \<Rightarrow> Inl (ErrMsg ''ldap: user not found'')))"

definition userGroups :: "'c ldap_library \<Rightarrow> ldap_client \<Rightarrow> 'c \<Rightarrow> string \<Rightarrow> err + string list" where
  "userGroups lib c conn userDN =
     (let cfg = lk_Cfg c in
      if lc_GroupFilter cfg = [] then Inr []
      else if_ok (ll_Search lib
          \<lparr>lq_Base = lc_BaseDN cfg, lq_Scope = ScopeWholeSubtree, lq_SizeLimit = 0, lq_TimeLimit = 8,
           lq_Filter = sprintf_s (lc_GroupFilter cfg) [ll_EscapeFilter lib userDN],
           lq_Attributes = [''dn'', ''cn'']\<rparr> conn) (\<lambda>entries. Inr (map le_DN entries)))"

text \<open>\<^verbatim>\<open>Client.Authenticate\<close>: the connection bound to the service account finds the user, the one bound to the user lists
  the groups.\<close>

definition ldap_Authenticate :: "'c ldap_library \<Rightarrow> ldap_client \<Rightarrow> string \<Rightarrow> string \<Rightarrow> err + ldap_user" where
  "ldap_Authenticate lib c username password =
     (if password = [] then Inl (ErrMsg ''ldap: empty password rejected'')
      else if_ok (ldap_dial lib (lk_Cfg c)) (\<lambda>conn.
        if_ok (wrapped ''ldap: service bind'' (bindService lib c conn)) (\<lambda>conn.
        if_ok (findUser lib c conn username) (\<lambda>u.
        if_ok (wrapped ''ldap: user bind'' (ll_Bind lib (lu_DN u) password conn)) (\<lambda>conn.
        if_ok (wrapped ''ldap: list groups'' (userGroups lib c conn (lu_DN u))) (\<lambda>gs.
        Inr (u\<lparr>lu_Groups := gs\<rparr>)))))))"

text \<open>Dial and service bind, with which every other call begins.\<close>

definition ldap_connect :: "'c ldap_library \<Rightarrow> ldap_client \<Rightarrow> err + 'c" where
  "ldap_connect lib c = if_ok (ldap_dial lib (lk_Cfg c)) (bindService lib c)"

definition TestConnection :: "'c ldap_library \<Rightarrow> ldap_client \<Rightarrow> err + unit" where
  "TestConnection lib c = if_ok (ldap_connect lib c) (\<lambda>_. Inr ())"

section \<open>Browsing\<close>

record directory_entry =
  de_DN :: string
  de_Name :: string
  de_Email :: string
  de_Description :: string
  de_Type :: string

definition browse_limit :: "int \<Rightarrow> int" where
  "browse_limit limit = (if limit \<le> 0 \<or> 200 < limit then 50 else limit)"

definition SearchUsers :: "'c ldap_library \<Rightarrow> ldap_client \<Rightarrow> string \<Rightarrow> int \<Rightarrow> err + directory_entry list" where
  "SearchUsers lib c q limit =
     if_ok (ldap_connect lib c) (\<lambda>conn.
       let cfg = lk_Cfg c; esc = ll_EscapeFilter lib q; hit = (\<lambda>attr. ''('' @ attr @ ''=*'' @ esc @ ''*)'');
           flt = (if trim_space q = [] then ''(&(objectCategory=person)(objectClass=user))''
             else ''(&(objectCategory=person)(objectClass=user)(|'' @ hit ''cn'' @ hit (usernameAttr cfg) @
               hit (emailAttr cfg) @ ''))'')
       in if_ok (wrapped ''ldap: search users'' (ll_Search lib
            \<lparr>lq_Base = lc_BaseDN cfg, lq_Scope = ScopeWholeSubtree, lq_SizeLimit = browse_limit limit,
             lq_TimeLimit = 15, lq_Filter = flt,
             lq_Attributes = [''dn'', ''cn'', usernameAttr cfg, emailAttr cfg, ''displayName'']\<rparr> conn)) (\<lambda>entries.
          Inr (map (\<lambda>e. \<lparr>de_DN = le_DN e, de_Name = default_string (le_Value e ''cn'') (le_Value e (usernameAttr cfg)),
            de_Email = le_Value e (emailAttr cfg), de_Description = [], de_Type = ''user''\<rparr>) entries)))"

definition group_entry :: "ldap_entry \<Rightarrow> directory_entry" where
  "group_entry e =
     \<lparr>de_DN = le_DN e, de_Name = default_string (le_Value e ''sAMAccountName'') (le_Value e ''cn''), de_Email = [],
      de_Description = le_Value e ''description'', de_Type = ''group''\<rparr>"

definition SearchGroups :: "'c ldap_library \<Rightarrow> ldap_client \<Rightarrow> string \<Rightarrow> int \<Rightarrow> err + directory_entry list" where
  "SearchGroups lib c q limit =
     if_ok (ldap_connect lib c) (\<lambda>conn.
       let esc = ll_EscapeFilter lib q;
           flt = (if trim_space q = [] then ''(objectClass=group)''
             else ''(&(objectClass=group)(|(cn=*'' @ esc @ ''*)(sAMAccountName=*'' @ esc @ ''*)))'')
       in if_ok (wrapped ''ldap: search groups'' (ll_Search lib
            \<lparr>lq_Base = lc_BaseDN (lk_Cfg c), lq_Scope = ScopeWholeSubtree, lq_SizeLimit = browse_limit limit,
             lq_TimeLimit = 15, lq_Filter = flt,
             lq_Attributes = [''dn'', ''cn'', ''description'', ''sAMAccountName'']\<rparr> conn)) (\<lambda>entries.
          Inr (map group_entry entries)))"

text \<open>One entry by its name.\<close>

definition fetch_entry :: "'c ldap_library \<Rightarrow> 'c \<Rightarrow> string \<Rightarrow> string list \<Rightarrow> string \<Rightarrow> err + ldap_entry" where
  "fetch_entry lib conn dn attrs what =
     if_ok (ll_Search lib
       \<lparr>lq_Base = dn, lq_Scope = ScopeBaseObject, lq_SizeLimit = 1, lq_TimeLimit = 8, lq_Filter = ''(objectClass=*)'',
        lq_Attributes = attrs\<rparr> conn) (\<lambda>entries.
       case entries of [] \<Rightarrow> Inl (ErrMsg (''ldap: '' @ what @ '' not found'')) | e # _ \<Rightarrow> Inr e)"

definition FetchUser :: "'c ldap_library \<Rightarrow> ldap_client \<Rightarrow> string \<Rightarrow> err + ldap_user" where
  "FetchUser lib c dn =
     if_ok (ldap_connect lib c) (\<lambda>conn.
     if_ok (fetch_entry lib conn dn [''dn'', usernameAttr (lk_Cfg c), emailAttr (lk_Cfg c)] ''user'') (\<lambda>e.
     let u = ldap_user_of (lk_Cfg c) e in
     if_ok (userGroups lib c conn (lu_DN u)) (\<lambda>gs. Inr (u\<lparr>lu_Groups := gs\<rparr>))))"

definition FetchGroup :: "'c ldap_library \<Rightarrow> ldap_client \<Rightarrow> string \<Rightarrow> err + directory_entry" where
  "FetchGroup lib c dn =
     if_ok (ldap_connect lib c) (\<lambda>conn.
     if_ok (fetch_entry lib conn dn [''dn'', ''cn'', ''description'', ''sAMAccountName''] ''group'') (\<lambda>e.
     Inr (group_entry e)))"

definition FetchGroupMemberDNs :: "'c ldap_library \<Rightarrow> ldap_client \<Rightarrow> string \<Rightarrow> err + string list" where
  "FetchGroupMemberDNs lib c groupDN =
     if_ok (ldap_connect lib c) (\<lambda>conn.
     if_ok (fetch_entry lib conn groupDN [''member''] ''group'') (\<lambda>e.
     Inr (filter (\<lambda>m. m \<noteq> []) (map trim_space (le_Values e ''member'')))))"

section \<open>Synchronisation\<close>

record sync_selection =
  sn_UserDNs :: "string list"
  sn_GroupDNs :: "string list"

record sync_result =
  sr_GroupsSynced :: nat
  sr_UsersSynced :: nat
  sr_Errors :: "string list"

definition note_error :: "string \<Rightarrow> sync_result \<Rightarrow> sync_result" where
  "note_error msg res = res\<lparr>sr_Errors := sr_Errors res @ [msg]\<rparr>"

text \<open>The role and the groups of a user from the names of its directory groups: a local group with the name of one counts,
  \<^verbatim>\<open>admin\<close> wins, else the last.\<close>

definition take_role :: "string \<Rightarrow> string \<Rightarrow> string" where
  "take_role role group_role =
     (if group_role = ''admin'' then ''admin'' else if role \<noteq> ''admin'' then group_role else role)"

fun match_groups :: "pam_db \<Rightarrow> string list \<Rightarrow> string \<Rightarrow> int list \<Rightarrow> string \<times> int list" where
  "match_groups db [] role ids = (role, ids)"
| "match_groups db (dn # dns) role ids =
     (case FindByLDAPDN db dn of
        Inr (Some g) \<Rightarrow> match_groups db dns (take_role role (gr_Role g)) (ids @ [gr_ID g])
      | _ \<Rightarrow> match_groups db dns role ids)"

type_synonym sync_state = "sync_result \<times> string list \<times> pam_db"

text \<open>\<^verbatim>\<open>syncUserDN\<close>; the list holds the names, in lower case, that the run has seen.\<close>

definition syncUserDN ::
  "'c ldap_library \<Rightarrow> ldap_client \<Rightarrow> string \<Rightarrow> string \<Rightarrow> sync_state \<Rightarrow> err option \<times> sync_state" where
  "syncUserDN lib c defaultRole name st =
     (case st of (res, seen, db) \<Rightarrow>
        let dn = trim_space name in
        if dn = [] \<or> to_lower dn \<in> set seen then (None, st)
        else
          let seen = to_lower dn # seen in
          case FetchUser lib c dn of
            Inl e \<Rightarrow> (Some (wrap_err (''user '' @ dn) e), res, seen, db)
          | Inr lu \<Rightarrow>
              let (role, ids) = match_groups db (lu_Groups lu) defaultRole [] in
              if (case FindByUsername db (lu_Username lu) of Inr u \<Rightarrow> au_Source u = ''local'' | Inl _ \<Rightarrow> False)
              then (Some (ErrMsg (''user '' @ lu_Username lu @ '': skipped '' @ em_dash @
                ''local portal account already exists (rename AD account or remove local user first)'')), res, seen, db)
              else (case UpsertLDAPUser (lu_Username lu) (lu_Email lu) role (lu_DN lu) db of
                      (Inl e, db) \<Rightarrow> (Some (wrap_err (''user '' @ lu_Username lu) e), res, seen, db)
                    | (Inr u, db) \<Rightarrow>
                        (None, res\<lparr>sr_UsersSynced := sr_UsersSynced res + 1\<rparr>, seen,
                         if ids = [] then db else snd (ReplaceMemberships (au_ID u) ids db))))"

definition sync_user :: "'c ldap_library \<Rightarrow> ldap_client \<Rightarrow> string \<Rightarrow> string \<Rightarrow> sync_state \<Rightarrow> sync_state" where
  "sync_user lib c defaultRole dn st =
     (case syncUserDN lib c defaultRole dn st of
        (None, st) \<Rightarrow> st
      | (Some e, res, seen, db) \<Rightarrow> (note_error (err_text e) res, seen, db))"

definition sync_group :: "'c ldap_library \<Rightarrow> ldap_client \<Rightarrow> string \<Rightarrow> string \<Rightarrow> sync_result \<times> pam_db \<Rightarrow> sync_result \<times> pam_db" where
  "sync_group lib c defaultRole name st =
     (case st of (res, db) \<Rightarrow>
        let dn = trim_space name in
        if dn = [] then st
        else case FetchGroup lib c dn of
          Inl e \<Rightarrow> (note_error (''group '' @ dn @ '': '' @ err_text e) res, db)
        | Inr g \<Rightarrow>
            (case UpsertLDAP (de_Name g) (de_Description g) defaultRole (de_DN g) db of
               (Inl e, db) \<Rightarrow> (note_error (''group '' @ de_Name g @ '': '' @ err_text e) res, db)
             | (Inr _, db) \<Rightarrow> (res\<lparr>sr_GroupsSynced := sr_GroupsSynced res + 1\<rparr>, db)))"

definition sync_members :: "'c ldap_library \<Rightarrow> ldap_client \<Rightarrow> string \<Rightarrow> string \<Rightarrow> sync_state \<Rightarrow> sync_state" where
  "sync_members lib c defaultRole name st =
     (let gdn = trim_space name in
      if gdn = [] then st
      else case FetchGroupMemberDNs lib c gdn of
        Inl e \<Rightarrow> (case st of (res, seen, db) \<Rightarrow> (note_error (''group members '' @ gdn @ '': '' @ err_text e) res, seen, db))
      | Inr members \<Rightarrow> fold (sync_user lib c defaultRole) members st)"

text \<open>\<^verbatim>\<open>SyncService.Run\<close> of a service with a client.\<close>

definition sync_Run :: "'c ldap_library \<Rightarrow> ldap_client \<Rightarrow> sync_selection \<Rightarrow> pam_db \<Rightarrow> sync_result \<times> pam_db" where
  "sync_Run lib c sel db =
     (let role = default_string ''user'' (lc_DefaultRole (lk_Cfg c));
          (res, db) = fold (sync_group lib c role) (sn_GroupDNs sel)
            (\<lparr>sr_GroupsSynced = 0, sr_UsersSynced = 0, sr_Errors = []\<rparr>, db);
          st = fold (sync_user lib c role) (sn_UserDNs sel) (res, [], db)
      in case fold (sync_members lib c role) (sn_GroupDNs sel) st of (res, _, db) \<Rightarrow> (res, db))"

section \<open>The identity provider\<close>

record saml_config =
  sc_Enabled :: bool
  sc_RootURL :: string
  sc_IdPMetadataXML :: string
  sc_IdPMetadataURL :: string
  sc_EntityID :: string
  sc_EmailAttribute :: string
  sc_NameAttribute :: string
  sc_GroupAttribute :: string
  sc_DefaultRole :: string
  sc_SPCertSet :: bool

definition saml_DefaultConfig :: saml_config where
  "saml_DefaultConfig =
     \<lparr>sc_Enabled = False, sc_RootURL = [], sc_IdPMetadataXML = [], sc_IdPMetadataURL = [], sc_EntityID = [],
      sc_EmailAttribute = ''email'', sc_NameAttribute = ''displayName'', sc_GroupAttribute = ''groups'',
      sc_DefaultRole = ''user'', sc_SPCertSet = False\<rparr>"

text \<open>The checks of \<^verbatim>\<open>NewProvider\<close> before it parses the key pair and the metadata; \<open>build\<close> is the rest.\<close>

definition NewProvider ::
  "(saml_config \<Rightarrow> bytes \<Rightarrow> bytes \<Rightarrow> err + unit) \<Rightarrow> saml_config \<Rightarrow> bytes \<Rightarrow> bytes \<Rightarrow> err + saml_config" where
  "NewProvider build cfg certPEM keyPEM =
     (if \<not> sc_Enabled cfg then Inl (ErrMsg ''saml: disabled'')
      else if sc_RootURL cfg = [] then Inl (ErrMsg ''saml: root_url required'')
      else if sc_IdPMetadataXML cfg = [] then Inl (ErrMsg ''saml: idp metadata XML required'')
      else if certPEM = [] \<or> keyPEM = []
      then Inl (ErrMsg (''saml: SP keypair missing '' @ em_dash @ '' save settings to generate''))
      else if_ok (build cfg certPEM keyPEM) (\<lambda>_. Inr cfg))"

record saml_attribute =
  xa_Name :: string
  xa_FriendlyName :: string
  xa_Values :: "string list"

record assertion =
  as_NameID :: "string option"
  as_Statements :: "saml_attribute list list"

record assertion_claims =
  sm_NameID :: string
  sm_Email :: string
  sm_DisplayName :: string
  sm_Groups :: "string list"

definition isEmailAttribute :: "string \<Rightarrow> string \<Rightarrow> string \<Rightarrow> bool" where
  "isEmailAttribute name friendly configured =
     (let configured = default_string ''email'' configured in
      name = configured \<or> friendly = configured \<or>
      name = ''http://schemas.xmlsoap.org/ws/2005/05/identity/claims/emailaddress'' \<or>
      friendly = ''email'' \<or> name = ''urn:oid:0.9.2342.19200300.100.1.3'')"

definition attrValues :: "saml_attribute \<Rightarrow> string list" where
  "attrValues a = filter (\<lambda>v. v \<noteq> []) (xa_Values a)"

definition attribute_is :: "string \<Rightarrow> saml_attribute \<Rightarrow> bool" where
  "attribute_is configured a = (configured \<noteq> [] \<and> (xa_Name a = configured \<or> xa_FriendlyName a = configured))"

definition claim_step :: "saml_config \<Rightarrow> saml_attribute \<Rightarrow> assertion_claims \<Rightarrow> assertion_claims" where
  "claim_step cfg a out =
     (let vals = attrValues a in
      if isEmailAttribute (xa_Name a) (xa_FriendlyName a) (default_string ''email'' (sc_EmailAttribute cfg))
      then (if vals \<noteq> [] then out\<lparr>sm_Email := hd vals\<rparr> else out)
      else if attribute_is (sc_NameAttribute cfg) a
      then (if vals \<noteq> [] then out\<lparr>sm_DisplayName := hd vals\<rparr> else out)
      else if attribute_is (sc_GroupAttribute cfg) a then out\<lparr>sm_Groups := sm_Groups out @ vals\<rparr>
      else out)"

text \<open>\<^verbatim>\<open>ParseACS\<close> of the form's \<^verbatim>\<open>SAMLResponse\<close> and of what the library says about it.\<close>

definition ParseACS :: "saml_config \<Rightarrow> err + string \<Rightarrow> err + assertion \<Rightarrow> err + assertion_claims" where
  "ParseACS cfg form parsed =
     if_ok (wrapped ''saml: parse form'' form) (\<lambda>raw.
     if raw = [] then Inl (ErrMsg ''saml: missing SAMLResponse'')
     else if_ok (wrapped ''saml: validate response'' parsed) (\<lambda>a.
       let out = fold (claim_step cfg) (concat (as_Statements a))
         \<lparr>sm_NameID = (case as_NameID a of None \<Rightarrow> [] | Some n \<Rightarrow> n), sm_Email = [], sm_DisplayName = [], sm_Groups = []\<rparr>
       in Inr (if sm_Email out = [] then out\<lparr>sm_Email := sm_NameID out\<rparr> else out)))"

end
