(* ===== verification/Totp.thy ===== *)
theory Totp
  imports Sealing DeviceLookup
begin

unbundle bit_operations_syntax

text \<open>
  Time-based one-time passwords, \<^verbatim>\<open>internal/mfa/totp.go\<close> (RFC 4226, RFC 6238), with what it uses of Go's
  standard library written out: SHA-1, HMAC and base32 without padding.  The instant is an argument; the
  \<^verbatim>\<open>otpauth\<close> address and its picture are not modelled.
\<close>

section \<open>SHA-1\<close>

definition sha1_f :: "nat \<Rightarrow> u32 \<Rightarrow> u32 \<Rightarrow> u32 \<Rightarrow> u32" where
  "sha1_f i b c d =
     (if i < 20 then ((b AND c) OR (NOT b AND d)) + 0x5a827999
      else if i < 40 then (b XOR c XOR d) + 0x6ed9eba1
      else if i < 60 then ((b AND c) OR (b AND d) OR (c AND d)) + 0x8f1bbcdc
      else (b XOR c XOR d) + 0xca62c1d6)"

type_synonym sha1_state = "u32 \<times> u32 \<times> u32 \<times> u32 \<times> u32"

text \<open>The words are the sixteen of the schedule that the rounds still need.\<close>

fun sha1_rounds :: "nat list \<Rightarrow> u32 list \<Rightarrow> sha1_state \<Rightarrow> sha1_state" where
  "sha1_rounds (i # is) (w # ws) (a, b, c, d, e) =
     sha1_rounds is (ws @ [rotl32 1 (ws ! 12 XOR ws ! 7 XOR ws ! 1 XOR w)])
       (rotl32 5 a + sha1_f i b c d + e + w, a, rotl32 30 b, c, d)"
| "sha1_rounds _ _ st = st"

fun sha1_blocks :: "u32 list \<Rightarrow> nat \<Rightarrow> sha1_state \<Rightarrow> sha1_state" where
  "sha1_blocks ws 0 st = st"
| "sha1_blocks ws (Suc n) (a, b, c, d, e) =
     (case sha1_rounds [0..<80] (take 16 ws) (a, b, c, d, e) of
        (a', b', c', d', e') \<Rightarrow> sha1_blocks (drop 16 ws) n (a + a', b + b', c + c', d + d', e + e'))"

definition sha1 :: "bytes \<Rightarrow> bytes" where
  "sha1 m =
     (let p = sha256_pad m in
      case sha1_blocks (words_be p) (length p div 64)
          (0x67452301, 0xefcdab89, 0x98badcfe, 0x10325476, 0xc3d2e1f0) of
        (a, b, c, d, e) \<Rightarrow> be32 a @ be32 b @ be32 c @ be32 d @ be32 e)"

definition hmac_sha1 :: "bytes \<Rightarrow> bytes \<Rightarrow> bytes" where
  "hmac_sha1 key msg =
     (let k0 = (if 64 < length key then sha1 key else key);
          k = k0 @ replicate (64 - length k0) 0
      in sha1 (map (\<lambda>b. b XOR 0x5c) k @ sha1 (map (\<lambda>b. b XOR 0x36) k @ msg)))"

section \<open>Base32\<close>

text \<open>Digits of a number to a base, the most significant first, and the number of a list of digits.\<close>

fun digits_of :: "nat \<Rightarrow> nat \<Rightarrow> nat \<Rightarrow> nat list" where
  "digits_of b 0 n = []"
| "digits_of b (Suc k) n = (n div b ^ k mod b) # digits_of b k n"

definition of_digits :: "nat \<Rightarrow> nat list \<Rightarrow> nat" where
  "of_digits b ds = foldl (\<lambda>n d. n * b + d) 0 ds"

definition b32_char :: "nat \<Rightarrow> char" where
  "b32_char n = (if n < 26 then char_of (65 + n) else char_of (24 + n))"

definition b32_val :: "char \<Rightarrow> nat option" where
  "b32_val c =
     (let n = of_char c in
      if 65 \<le> n \<and> n \<le> 90 then Some (n - 65) else if 50 \<le> n \<and> n \<le> 55 then Some (n - 24) else None)"

definition b32_chars :: "nat \<Rightarrow> nat" where
  "b32_chars k = (if k = 0 then 0 else if k = 1 then 2 else if k = 2 then 4 else if k = 3 then 5 else if k = 4 then 7 else 8)"

text \<open>How many bytes a group of so many characters yields; the decoder of the library yields none for an impossible
  number.\<close>

definition b32_bytes :: "nat \<Rightarrow> nat" where
  "b32_bytes n = (if n = 8 then 5 else if n = 7 then 4 else if n = 5 then 3 else if n = 4 then 2 else if n = 2 then 1 else 0)"

definition pad_to :: "nat \<Rightarrow> nat list \<Rightarrow> nat list" where
  "pad_to n ds = ds @ replicate (n - length ds) 0"

fun base32_encode :: "nat list \<Rightarrow> string" where
  "base32_encode [] = []"
| "base32_encode (b # bs) =
     map b32_char (take (b32_chars (length (take 5 (b # bs)))) (digits_of 32 8 (of_digits 256 (pad_to 5 (take 5 (b # bs)))))) @
     base32_encode (drop 4 bs)"

fun base32_groups :: "nat list \<Rightarrow> nat list" where
  "base32_groups [] = []"
| "base32_groups (d # ds) =
     take (b32_bytes (length (take 8 (d # ds)))) (digits_of 256 5 (of_digits 32 (pad_to 8 (take 8 (d # ds))))) @
     base32_groups (drop 7 ds)"

fun known_digits :: "'a option list \<Rightarrow> 'a list option" where
  "known_digits [] = Some []"
| "known_digits (None # xs) = None"
| "known_digits (Some x # xs) = map_option ((#) x) (known_digits xs)"

definition base32_decode :: "string \<Rightarrow> bytes option" where
  "base32_decode s =
     map_option (\<lambda>ds. map word_of_nat (base32_groups ds))
       (known_digits (map b32_val (filter (\<lambda>c. c \<notin> {CHR 0x0A, CHR 0x0D}) s)))"

definition ascii_upper :: "char \<Rightarrow> char" where
  "ascii_upper c = (let n = of_char c :: nat in if 97 \<le> n \<and> n \<le> 122 then char_of (n - 32) else c)"

section \<open>One-time passwords\<close>

definition totp_step :: int where "totp_step = 30"
definition skewWin :: int where "skewWin = 2"

definition NewSecret :: "bytes option \<Rightarrow> err + string" where
  "NewSecret rnd =
     (case read_full 20 rnd of
        None \<Rightarrow> Inl (ErrMsg ''random source failed'')
      | Some b \<Rightarrow> Inr (base32_encode (map unat b)))"

definition totp_decode :: "string \<Rightarrow> bytes option" where
  "totp_decode secret = base32_decode (filter (\<lambda>c. c \<noteq> CHR '' '') (map ascii_upper secret))"

definition be64 :: "64 word \<Rightarrow> bytes" where
  "be64 c = be32 (ucast (drop_bit 32 c)) @ be32 (ucast c)"

text \<open>\<^verbatim>\<open>fmt.Sprintf("%0*d", digits, n)\<close>.\<close>

definition zero_padded :: "nat \<Rightarrow> nat \<Rightarrow> string" where
  "zero_padded w n = (let s = string_of_nat n in replicate (w - length s) (CHR ''0'') @ s)"

definition hotp :: "bytes \<Rightarrow> 64 word \<Rightarrow> string" where
  "hotp key counter =
     (let sum = hmac_sha1 key (be64 counter);
          offset = unat (sum ! (length sum - 1) AND 0x0f);
          code = of_be32 (take 4 (drop offset sum)) AND 0x7fffffff
      in zero_padded otp_digits (unat (code mod 1000000)))"

definition totp_Generate :: "string \<Rightarrow> int \<Rightarrow> err + string" where
  "totp_Generate secret now =
     (case totp_decode secret of
        None \<Rightarrow> Inl (ErrMsg ''illegal base32 data'')
      | Some key \<Rightarrow> Inr (hotp key (word_of_int (now div totp_step))))"

definition totp_Verify :: "int \<Rightarrow> string \<Rightarrow> string \<Rightarrow> bool" where
  "totp_Verify now secret code =
     (let code = NormalizeOTP code in
      if length code \<noteq> otp_digits then False
      else case totp_decode secret of
        None \<Rightarrow> False
      | Some key \<Rightarrow>
          let counter = word_of_int (now div totp_step) :: 64 word in
          list_ex (\<lambda>d. hotp key (if d < 0 then counter - word_of_int (- d) else counter + word_of_int d) = code)
            [- skewWin .. skewWin])"

end
