(* ===== verification/Login.thy ===== *)
theory Login
  imports Directory Totp DeviceLookup Safes
begin

text \<open>
  Signing in to the portal (\<^verbatim>\<open>cmd/auth-service/main.go\<close>): the login handler with its password, directory and
  one-time-password branches, the assertion of the identity provider, the access check of the second factor, and what
  the service seeds when it starts.
\<close>

section \<open>What the service runs with\<close>

text \<open>Libraries outside the repository, the configuration and the vault.  \<open>ae_Parse\<close> and \<open>ae_Print\<close> are the lexical
  level of \<^verbatim>\<open>encoding/json\<close>, with which the settings are stored; \<open>ae_BuildSAML\<close> parses a key pair and metadata,
  \<open>ae_SAMLMetadata\<close> and \<open>ae_SAMLRequest\<close> write the metadata and the address of the identity provider, and \<open>ae_QR\<close>
  draws a code.\<close>

record 'c auth_env =
  ae_Argon2 :: key_derivation
  ae_JWT :: jwt_library
  ae_Config :: auth_config
  ae_Ldap :: "'c ldap_library"
  ae_Vault :: vault
  ae_Parse :: "string \<Rightarrow> json option"
  ae_Print :: "json \<Rightarrow> string"
  ae_BuildSAML :: "saml_config \<Rightarrow> bytes \<Rightarrow> bytes \<Rightarrow> err + unit"
  ae_SAMLMetadata :: "saml_config \<Rightarrow> err + string"
  ae_SAMLRequest :: "saml_config \<Rightarrow> string \<Rightarrow> err + string"
  ae_QR :: "string \<Rightarrow> err + string"
  ae_Launch :: launch_config
  ae_Broker :: broker_config

text \<open>What one request draws from outside: random bytes, the instant in nanoseconds, a fresh key pair, the key that the connection inserted last, and the form and the
  parsed assertion of a SAML response.\<close>

record ambient =
  am_Random :: "nat \<Rightarrow> bytes option"
  am_Nano :: int
  am_Keypair :: "err + bytes \<times> bytes"
  am_SAMLForm :: "err + string"
  am_SAMLParsed :: "err + assertion"
  am_LastInsertId :: int

definition settingsKeyLDAP :: string where "settingsKeyLDAP = ''ldap''"
definition settingsKeyLDAPSync :: string where "settingsKeyLDAPSync = ''ldap_sync''"
definition settingsKeySAML :: string where "settingsKeySAML = ''saml''"
definition settingsKeyMFAPolicy :: string where "settingsKeyMFAPolicy = ''mfa_policy''"
definition settingsKeyTACACS :: string where "settingsKeyTACACS = ''tacacs_fortinet''"
definition vaultLDAPBindPassword :: string where "vaultLDAPBindPassword = ''_ldap_bind_password''"
definition vaultSAMLCert :: string where "vaultSAMLCert = ''_saml_sp_cert''"
definition vaultSAMLKey :: string where "vaultSAMLKey = ''_saml_sp_key''"
definition userPassthroughPWTTL :: int where "userPassthroughPWTTL = 12 * 3600"

text \<open>\<^verbatim>\<open>json.Unmarshal\<close> of a stored setting over a value.\<close>

definition unmarshal ::
  "'c auth_env \<Rightarrow> ('a \<Rightarrow> json \<Rightarrow> 'a \<times> bool) \<Rightarrow> string \<Rightarrow> 'a \<Rightarrow> 'a \<times> err option" where
  "unmarshal env dec raw v =
     (case ae_Parse env raw of
        None \<Rightarrow> (v, Some (ErrMsg ''invalid JSON''))
      | Some j \<Rightarrow>
          (fst (dec v j), if json_is_struct j \<and> snd (dec v j) then None else Some (ErrMsg ''json: cannot unmarshal'')))"

definition ldap_config_dec :: "ldap_config \<Rightarrow> json \<Rightarrow> ldap_config \<times> bool" where
  "ldap_config_dec d j =
     (let m = (\<lambda>name. json_member name j);
          str = (\<lambda>name get. json_string_or (get d) (m name)); bl = (\<lambda>name get. json_bool_or (get d) (m name));
          en = bl ''enabled'' lc_Enabled; url = str ''url'' lc_URL; st = bl ''start_tls'' lc_StartTLS;
          sk = bl ''skip_tls_verify'' lc_SkipTLSVerify; bd = str ''bind_dn'' lc_BindDN;
          bp = bl ''bind_password_set'' lc_BindPasswordSet; ba = str ''base_dn'' lc_BaseDN;
          uf = str ''user_filter'' lc_UserFilter; gf = str ''group_filter'' lc_GroupFilter;
          ua = str ''username_attr'' lc_UsernameAttr; ea = str ''email_attr'' lc_EmailAttr;
          dr = str ''default_role'' lc_DefaultRole
      in (\<lparr>lc_Enabled = fst en, lc_URL = fst url, lc_StartTLS = fst st, lc_SkipTLSVerify = fst sk,
           lc_BindDN = fst bd, lc_BindPasswordSet = fst bp, lc_BaseDN = fst ba, lc_UserFilter = fst uf,
           lc_GroupFilter = fst gf, lc_UsernameAttr = fst ua, lc_EmailAttr = fst ea, lc_DefaultRole = fst dr\<rparr>,
          snd en \<and> snd url \<and> snd st \<and> snd sk \<and> snd bd \<and> snd bp \<and> snd ba \<and> snd uf \<and> snd gf \<and> snd ua \<and> snd ea \<and>
          snd dr))"

definition saml_config_dec :: "saml_config \<Rightarrow> json \<Rightarrow> saml_config \<times> bool" where
  "saml_config_dec d j =
     (let m = (\<lambda>name. json_member name j);
          str = (\<lambda>name get. json_string_or (get d) (m name)); bl = (\<lambda>name get. json_bool_or (get d) (m name));
          en = bl ''enabled'' sc_Enabled; ru = str ''root_url'' sc_RootURL;
          mx = str ''idp_metadata_xml'' sc_IdPMetadataXML; mu = str ''idp_metadata_url'' sc_IdPMetadataURL;
          ei = str ''entity_id'' sc_EntityID; ea = str ''email_attribute'' sc_EmailAttribute;
          na = str ''name_attribute'' sc_NameAttribute; ga = str ''group_attribute'' sc_GroupAttribute;
          dr = str ''default_role'' sc_DefaultRole; cs = bl ''sp_cert_set'' sc_SPCertSet
      in (\<lparr>sc_Enabled = fst en, sc_RootURL = fst ru, sc_IdPMetadataXML = fst mx, sc_IdPMetadataURL = fst mu,
           sc_EntityID = fst ei, sc_EmailAttribute = fst ea, sc_NameAttribute = fst na, sc_GroupAttribute = fst ga,
           sc_DefaultRole = fst dr, sc_SPCertSet = fst cs\<rparr>,
          snd en \<and> snd ru \<and> snd mx \<and> snd mu \<and> snd ei \<and> snd ea \<and> snd na \<and> snd ga \<and> snd dr \<and> snd cs))"

definition sync_selection_dec :: "sync_selection \<Rightarrow> json \<Rightarrow> sync_selection \<times> bool" where
  "sync_selection_dec d j =
     (let field = (\<lambda>name old. if json_member name j = JNull then (old, True) else str_list_field name j);
          us = field ''user_dns'' (sn_UserDNs d); gs = field ''group_dns'' (sn_GroupDNs d)
      in (\<lparr>sn_UserDNs = fst us, sn_GroupDNs = fst gs\<rparr>, snd us \<and> snd gs))"

definition loadLDAPConfig :: "'c auth_env \<Rightarrow> pam_db \<Rightarrow> ldap_config" where
  "loadLDAPConfig env db =
     (let cfg = snd (SettingGetJSON (unmarshal env ldap_config_dec) db settingsKeyLDAP ldap_DefaultConfig)
      in case GetSecret (ae_Vault env) db vaultLDAPBindPassword of
           Inl _ \<Rightarrow> cfg
         | Inr _ \<Rightarrow> cfg\<lparr>lc_BindPasswordSet := True\<rparr>)"

definition loadSAMLConfig :: "'c auth_env \<Rightarrow> pam_db \<Rightarrow> saml_config" where
  "loadSAMLConfig env db =
     (let cfg = snd (SettingGetJSON (unmarshal env saml_config_dec) db settingsKeySAML saml_DefaultConfig)
      in case GetSecret (ae_Vault env) db vaultSAMLCert of
           Inl _ \<Rightarrow> cfg
         | Inr _ \<Rightarrow> cfg\<lparr>sc_SPCertSet := True\<rparr>)"

definition loadLDAPSyncSelection :: "'c auth_env \<Rightarrow> pam_db \<Rightarrow> sync_selection" where
  "loadLDAPSyncSelection env db =
     snd (SettingGetJSON (unmarshal env sync_selection_dec) db settingsKeyLDAPSync
       \<lparr>sn_UserDNs = [], sn_GroupDNs = []\<rparr>)"

definition secret_text :: "err + bytes \<Rightarrow> string" where
  "secret_text r = (case r of Inl _ \<Rightarrow> [] | Inr b \<Rightarrow> string_of_bytes b)"

definition errLDAPSyncDisabled :: err where "errLDAPSyncDisabled = ErrMsg ''ldap is not enabled''"
definition errLDAPSyncNothingSelected :: err where
  "errLDAPSyncNothingSelected = ErrMsg ''no users or groups selected for sync''"

definition executeLDAPSync :: "'c auth_env \<Rightarrow> pam_db \<Rightarrow> (err + sync_result) \<times> pam_db" where
  "executeLDAPSync env db =
     (let cfg = loadLDAPConfig env db; sel = loadLDAPSyncSelection env db in
      if \<not> lc_Enabled cfg then (Inl errLDAPSyncDisabled, db)
      else if sn_UserDNs sel = [] \<and> sn_GroupDNs sel = [] then (Inl errLDAPSyncNothingSelected, db)
      else
        let pw = secret_text (GetSecret (ae_Vault env) db vaultLDAPBindPassword)
        in case sync_Run (ae_Ldap env) \<lparr>lk_Cfg = cfg, lk_Password = pw\<rparr> sel db of (res, db) \<Rightarrow> (Inr res, db))"

definition auth_event :: "string \<Rightarrow> string \<Rightarrow> string \<Rightarrow> string \<Rightarrow> (string \<times> string) list \<Rightarrow> event" where
  "auth_event kind severity actor tgt detail =
     \<lparr>evn_Time = None, evn_Source = ''auth'', evn_Kind = kind, evn_Severity = severity, evn_Actor = actor,
      evn_Target = tgt, evn_Detail = detail\<rparr>"

text \<open>One tick of \<^verbatim>\<open>runLDAPSyncWorker\<close>; the log lines are left out.\<close>

definition sync_tick :: "'c auth_env \<Rightarrow> pam_db \<Rightarrow> event list \<times> pam_db" where
  "sync_tick env db =
     (case executeLDAPSync env db of
        (Inl _, db) \<Rightarrow> ([], db)
      | (Inr res, db) \<Rightarrow>
          if sr_UsersSynced res = 0 \<and> sr_GroupsSynced res = 0 \<and> sr_Errors res = [] then ([], db)
          else ([auth_event ''ldap.sync.completed'' ''info'' [] []
                  [(''users'', string_of_nat (sr_UsersSynced res)), (''groups'', string_of_nat (sr_GroupsSynced res)),
                   (''auto'', ''1'')]], db))"

section \<open>Signing in\<close>

text \<open>\<^verbatim>\<open>FindByLoginID\<close> with the error ignored.\<close>

definition known_user :: "pam_db \<Rightarrow> string \<Rightarrow> auth_user option" where
  "known_user db login = (case FindByLoginID db login of Inl _ \<Rightarrow> None | Inr u \<Rightarrow> Some u)"

definition tryLDAP :: "'c auth_env \<Rightarrow> string \<Rightarrow> string \<Rightarrow> pam_db \<Rightarrow> (err + auth_user) \<times> pam_db" where
  "tryLDAP env username password db =
     (let cfg = loadLDAPConfig env db; bindPW = GetSecret (ae_Vault env) db vaultLDAPBindPassword in
      if \<not> lc_Enabled cfg \<or> lc_URL cfg = [] then (Inl (ErrMsg ''ldap disabled''), db)
      else if lc_BindDN cfg \<noteq> [] \<and> secret_text bindPW = []
      then (Inl (ErrMsg (''LDAP bind password missing or unreadable '' @ em_dash @
             '' open Settings '' @ [CHR 0xE2, CHR 0x86, CHR 0x92] @
             '' LDAP, re-enter the bind password, and save'')), db)
      else case ldap_Authenticate (ae_Ldap env) \<lparr>lk_Cfg = cfg, lk_Password = secret_text bindPW\<rparr> username password of
        Inl e \<Rightarrow> (Inl e, db)
      | Inr lu \<Rightarrow>
          if known_user db username = None \<and> known_user db (lu_Username lu) = None \<and>
             (lu_Email lu = [] \<or> known_user db (lu_Email lu) = None)
          then (Inl (ErrMsg (''account not imported from AD '' @ em_dash @ '' ask an admin to sync this user'')), db)
          else
            let (role, ids) = match_groups db (lu_Groups lu) (default_string ''user'' (lc_DefaultRole cfg)) []
            in case UpsertLDAPUser (lu_Username lu) (lu_Email lu) role (lu_DN lu) db of
                 (Inl e, db) \<Rightarrow> (Inl e, db)
               | (Inr u, db) \<Rightarrow> (Inr u, if ids = [] then db else snd (MergeMemberships (au_ID u) ids db)))"

definition tryLocal :: "'c auth_env \<Rightarrow> pam_db \<Rightarrow> string \<Rightarrow> string \<Rightarrow> err + auth_user" where
  "tryLocal env db loginID password = AuthenticateByLoginID (VerifyPassword (ae_Argon2 env)) db loginID password"

definition authenticateLogin ::
  "'c auth_env \<Rightarrow> string \<Rightarrow> string \<Rightarrow> bool \<Rightarrow> pam_db \<Rightarrow> (err + auth_user) \<times> pam_db" where
  "authenticateLogin env loginID password ldapEnabled db =
     (let existing = known_user db loginID;
          source_is = (\<lambda>s. case existing of None \<Rightarrow> False | Some u \<Rightarrow> au_Source u = s);
          localTry = (\<lambda>db. (case tryLocal env db loginID password of
             Inr u \<Rightarrow> Inr u | Inl _ \<Rightarrow> Inl (ErrMsg ''invalid credentials''), db))
      in if source_is ''saml'' then (Inl (ErrMsg ''use SSO to sign in''), db)
         else if \<not> ldapEnabled then localTry db
         else (case tryLDAP env loginID password db of
                 (Inr u, db) \<Rightarrow> (Inr u, db)
               | (Inl e, db) \<Rightarrow> if source_is ''ldap'' then (Inl e, db) else localTry db))"

definition loginErrorMessage :: "err \<Rightarrow> string" where
  "loginErrorMessage e =
     (let msg = err_text e; arrow = '' '' @ [CHR 0xE2, CHR 0x86, CHR 0x92] @ '' '' in
      if str_contains msg ''not imported from AD'' then msg
      else if str_contains msg ''LDAP bind password'' then msg
      else if str_contains msg ''ldap: service bind''
      then ''LDAP service account failed '' @ em_dash @ '' re-save LDAP settings with the bind password (Settings'' @
           arrow @ ''LDAP)''
      else if str_contains msg ''ldap: dial''
      then ''Cannot reach LDAP server '' @ em_dash @ '' check URL, firewall, and TLS settings''
      else if msg = ''use SSO to sign in'' then msg
      else if msg = ''account disabled'' then msg
      else ''invalid credentials'')"

record login_request =
  lg_Username :: string
  lg_Password :: string
  lg_OTP :: string
  lg_DeviceAuth :: bool

definition login_request_dec :: "json \<Rightarrow> login_request \<times> bool" where
  "login_request_dec j =
     (let un = str_field ''Username'' j; pw = str_field ''Password'' j; ot = str_field ''OTP'' j;
          da = bool_field ''device_auth'' j
      in (\<lparr>lg_Username = fst un, lg_Password = fst pw, lg_OTP = fst ot, lg_DeviceAuth = fst da\<rparr>,
          snd un \<and> snd pw \<and> snd ot \<and> snd da))"

datatype login_answer =
    LoggedIn string auth_user "string list" string
  | NeedOTP int string
  | NeedEnrollment string auth_user string

text \<open>The password and the code of a request.\<close>

definition login_credentials :: "login_request \<Rightarrow> string \<times> string" where
  "login_credentials req =
     (let otp = NormalizeOTP (lg_OTP req) in
      if otp \<noteq> [] then (lg_Password req, otp)
      else case SplitAppendedOTP (lg_Password req) of
        (base, code) \<Rightarrow> if code \<noteq> [] then (base, code) else (lg_Password req, otp))"

text \<open>What is left after the second factor: roles, token and the cached password.\<close>

definition login_finish ::
  "'c auth_env \<Rightarrow> bytes option \<Rightarrow> http_request \<Rightarrow> auth_user \<Rightarrow> string \<Rightarrow> bool \<Rightarrow> string \<Rightarrow> pam_db \<Rightarrow>
   login_answer outcome" where
  "login_finish env rnd r u password deviceAuth policy db =
     (let (roles, _) = EffectiveRoles db (au_ID u) (au_Role u);
          db = snd (RecordLogin (au_ID u) db)
      in case IssueToken (ae_JWT env) (ae_Config env) (clock db) u of
           Inl e \<Rightarrow> reply (Error 500 e) db
         | Inr tok \<Rightarrow>
             (Answer 200 (LoggedIn tok u roles policy),
              [auth_event ''login.ok'' ''info'' (au_Username u) [] [(''ip'', client_ip r)]],
              if \<not> deviceAuth \<and> password \<noteq> []
              then snd (PutSecret (ae_Vault env) rnd (UserPassthroughKey (au_ID u)) (bytes_of_string password)
                     (Some (clock db + userPassthroughPWTTL)) db)
              else db))"

text \<open>The second factor.\<close>

definition login_otp ::
  "'c auth_env \<Rightarrow> bytes option \<Rightarrow> http_request \<Rightarrow> auth_user \<Rightarrow> string \<Rightarrow> string \<Rightarrow> bool \<Rightarrow> string \<Rightarrow> pam_db \<Rightarrow>
   login_answer outcome" where
  "login_otp env rnd r u password otp deviceAuth policy db =
     (let secret = (case GetMFASecret db (au_ID u) of Inl _ \<Rightarrow> [] | Inr s \<Rightarrow> s) in
      if secret = [] then reply (Error 401 (ErrMsg ''MFA required but not enrolled'')) db
      else if otp = [] then
        (if deviceAuth
         then reply (Error 401 (ErrMsg (''MFA required '' @ em_dash @
                '' enter the code in the SSH MFA prompt, or append it to the password on FortiGate/web GUI login''))) db
         else reply (Answer 202 (NeedOTP (au_ID u) policy)) db)
      else if \<not> totp_Verify (clock db) secret otp then
        (Error 401 (ErrMsg (''invalid MFA code '' @ em_dash @
            '' use the current 6-digit code from your authenticator app (check device time is synced)'')),
         [auth_event ''mfa.failed'' ''warn'' (au_Username u) [] []], db)
      else login_finish env rnd r u password deviceAuth policy db)"

definition loginHandler :: "'c auth_env \<Rightarrow> bytes option \<Rightarrow> http_request \<Rightarrow> pam_db \<Rightarrow> login_answer outcome" where
  "loginHandler env rnd r db =
     with_body login_request_dec r db (\<lambda>req.
       if lg_Username req = [] \<or> lg_Password req = []
       then reply (Error 400 (ErrMsg ''username and password required'')) db
       else
         let (password, otp) = login_credentials req;
             deviceAuth = (lg_DeviceAuth req \<or> hr_Header r ''X-PAM-Device-Auth'' = ''1'');
             cfg = loadLDAPConfig env db;
             failed = (\<lambda>why. auth_event ''login.failed'' ''warn'' (lg_Username req) [] [(''error'', why)])
         in case authenticateLogin env (trim_space (lg_Username req)) password
                   (lc_Enabled cfg \<and> lc_URL cfg \<noteq> []) db of
              (Inl e, db) \<Rightarrow> (Error 401 (ErrMsg (loginErrorMessage e)), [failed (err_text e)], db)
            | (Inr u, db) \<Rightarrow>
                if au_Disabled u
                then (Error 401 (ErrMsg ''account disabled''), [failed ''account disabled''], db)
                else
                  let mfaPolicy = (case SettingGet db settingsKeyMFAPolicy of Inl _ \<Rightarrow> [] | Inr p \<Rightarrow> p);
                      policy = EffectiveMFAPolicy mfaPolicy
                  in case (if deviceAuth then LoginMFADecisionForDevice db u
                           else LoginMFADecisionForUser db u mfaPolicy) of
                       Inl e \<Rightarrow> reply (Error 500 e) db
                     | Inr dec \<Rightarrow>
                         if RequireEnrollment dec then
                           (case IssueEnrollmentToken (ae_JWT env) (ae_Config env) (clock db) u of
                              Inl e \<Rightarrow> reply (Error 500 e) db
                            | Inr tok \<Rightarrow> reply (Answer 202 (NeedEnrollment tok u policy)) db)
                         else if RequireOTP dec then login_otp env rnd r u password otp deviceAuth policy db
                         else login_finish env rnd r u password deviceAuth policy db)"

text \<open>The analysis that a successful login starts in the background: its user and address.\<close>

definition login_followup :: "http_request \<Rightarrow> login_answer response \<Rightarrow> (int \<times> string \<times> string) option" where
  "login_followup r resp =
     (case resp of Answer _ (LoggedIn _ u _ _) \<Rightarrow> Some (au_ID u, au_Username u, client_ip r) | _ \<Rightarrow> None)"

section \<open>The identity provider\<close>

definition buildSAMLProvider :: "'c auth_env \<Rightarrow> pam_db \<Rightarrow> err + saml_config" where
  "buildSAMLProvider env db =
     (let cfg = loadSAMLConfig env db in
      if \<not> sc_Enabled cfg then Inl (ErrMsg ''saml: not enabled'')
      else case GetSecret (ae_Vault env) db vaultSAMLCert of
        Inl _ \<Rightarrow> Inl (ErrMsg (''saml: SP cert missing '' @ em_dash @ '' save settings to generate''))
      | Inr cert \<Rightarrow>
          (case GetSecret (ae_Vault env) db vaultSAMLKey of
             Inl _ \<Rightarrow> Inl (ErrMsg (''saml: SP key missing '' @ em_dash @ '' save settings to generate''))
           | Inr key \<Rightarrow> NewProvider (ae_BuildSAML env) cfg cert key))"

text \<open>Every claimed group against every local group, by name up to case or by directory name.\<close>

definition saml_match :: "group list \<Rightarrow> string list \<Rightarrow> string \<Rightarrow> string \<times> int list" where
  "saml_match all claimed role =
     fold (\<lambda>g acc. (take_role (fst acc) (gr_Role g), snd acc @ [gr_ID g]))
       (concat (map (\<lambda>gname. filter (\<lambda>g. to_lower (gr_Name g) = to_lower gname \<or> gr_LDAPDN g = gname) all) claimed))
       (role, [])"

text \<open>The answer to the browser is a page that carries the token; \<open>form\<close> and \<open>parsed\<close> as in \<open>ParseACS\<close>.\<close>

definition samlACSHandler ::
  "'c auth_env \<Rightarrow> err + string \<Rightarrow> err + assertion \<Rightarrow> pam_db \<Rightarrow> string outcome" where
  "samlACSHandler env form parsed db =
     (case buildSAMLProvider env db of
        Inl e \<Rightarrow> reply (Error 503 e) db
      | Inr cfg \<Rightarrow>
          (case ParseACS cfg form parsed of
             Inl e \<Rightarrow> (Error 401 e, [auth_event ''saml.failed'' ''warn'' [] [] [(''err'', err_text e)]], db)
           | Inr claims \<Rightarrow>
               if sm_Email claims = [] then reply (Error 401 (ErrMsg ''saml: no email/nameID returned by IdP'')) db
               else
                 let all = (case GroupList db of Inl _ \<Rightarrow> [] | Inr gs \<Rightarrow> gs);
                     (role, ids) = saml_match all (sm_Groups claims) (default_string ''user'' (sc_DefaultRole cfg))
                 in case UpsertSAMLUser (sm_Email claims) (sm_Email claims) role (sm_NameID claims) db of
                      (Inl e, db) \<Rightarrow> reply (Error 500 e) db
                    | (Inr u, db) \<Rightarrow>
                        let db = (if ids = [] then db else snd (MergeMemberships (au_ID u) ids db));
                            db = snd (RecordLogin (au_ID u) db)
                        in case IssueToken (ae_JWT env) (ae_Config env) (clock db) u of
                             Inl e \<Rightarrow> reply (Error 500 e) db
                           | Inr tok \<Rightarrow>
                               (Answer 200 tok,
                                [auth_event ''login.ok'' ''info'' (au_Username u) [] [(''method'', ''saml'')]], db)))"

section \<open>The second factor of a user\<close>

definition checkMFAAccess :: "http_request \<Rightarrow> int \<Rightarrow> bool \<Rightarrow> err + unit" where
  "checkMFAAccess r targetUID enrollOK =
     (if caller_role r = ''admin'' then Inr ()
      else if caller_uid r \<noteq> targetUID then Inl (ErrMsg ''forbidden'')
      else if hr_Header r ''X-PAM-Scope'' = ''mfa_enroll'' \<and> \<not> enrollOK then Inl (ErrMsg ''forbidden'')
      else Inr ())"

section \<open>Start-up\<close>

definition bootstrapSettings :: "pam_db \<Rightarrow> pam_db" where
  "bootstrapSettings db =
     (if (case SettingGet db settingsKeyMFAPolicy of Inl _ \<Rightarrow> [] | Inr p \<Rightarrow> p) = []
      then snd (SettingSet settingsKeyMFAPolicy ''required'' db) else db)"

abbreviation Boot_Count :: "string \<Rightarrow> sql_stmt" where "Boot_Count what \<equiv> Stmt (''bootstrap.count '' @ what)"

text \<open>A count that fails reads as 0.\<close>

definition boot_count :: "pam_db \<Rightarrow> string \<Rightarrow> 'r list \<Rightarrow> nat" where
  "boot_count db what rows = (if faults db (Boot_Count what) then 0 else length rows)"

definition default_groups :: "group list" where
  "default_groups = map (\<lambda>(name, description, role).
     \<lparr>gr_ID = 0, gr_Name = name, gr_Description = description, gr_Role = role, gr_LDAPDN = [], gr_Source = [],
      gr_CreatedAt = 0, gr_Members = 0\<rparr>)
     [(''Administrators'', ''Full PAM access'', ''admin''),
      (''Network Operators'', ''Manage network devices'', ''netops''),
      (''Security Operators'', ''Security appliance access'', ''secops''),
      (''Sysadmins'', ''Linux/Windows server admins'', ''sysadmin''),
      (''Auditors'', ''Read-only access'', ''viewer'')]"

definition default_safe :: safe where
  "default_safe =
     \<lparr>sa_ID = 0, sa_Name = ''General'', sa_Description = ''Default safe for shared privileged accounts'',
      sa_CPMEnabled = False, sa_RotationDays = 90, sa_RequireDualControl = False, sa_CreatedAt = 0, sa_Accounts = 0,
      sa_Members = 0\<rparr>"

text \<open>\<open>None\<close> when the first administrator cannot be created: the process exits.\<close>

definition bootstrap ::
  "key_derivation \<Rightarrow> bytes option \<Rightarrow> string \<Rightarrow> string \<Rightarrow> pam_db \<Rightarrow> pam_db option" where
  "bootstrap argon2 rnd adminUser adminPass db =
     (let db = snd (SeedBuiltins db);
          seeded = (\<lambda>db.
            let db = (if boot_count db ''groups'' (groups db) = 0
                  then fold (\<lambda>g db. snd (GroupCreate g db)) default_groups db else db)
            in if boot_count db ''safes'' (safes db) = 0 then snd (SafeCreate default_safe db) else db)
      in if boot_count db ''users'' (users db) = 0
         then (case CreateUser argon2 rnd adminUser ''admin@example.com'' adminPass ''admin'' db of
                 (Inl _, _) \<Rightarrow> None
               | (Inr _, db) \<Rightarrow> Some (seeded db))
         else Some (seeded db))"

end
