(* ===== verification/TotpSpec.thy ===== *)
theory TotpSpec
  imports Totp
begin

text \<open>
  What the one-time passwords promise: the secret of an enrolment decodes to the bytes it was made of, a
  code is a text of six digits, and \<^verbatim>\<open>Verify\<close> accepts exactly the codes of the steps around the present one.
\<close>

section \<open>Base32\<close>


lemma of_digits_Cons: "of_digits b (d # ds) = d * b ^ length ds + of_digits b ds"
proof -
  have "foldl (\<lambda>n d. n * b + d) a ds = a * b ^ length ds + foldl (\<lambda>n d. n * b + d) 0 ds" for a
  proof (induction ds arbitrary: a)
    case (Cons x ds)
    show ?case using Cons.IH [of "a * b + x"] Cons.IH [of x] by (simp add: algebra_simps)
  qed simp
  from this [of d] show ?thesis by (simp add: of_digits_def)
qed

lemma of_digits_Nil [simp]: "of_digits b [] = 0"
  by (simp add: of_digits_def)

lemma of_digits_bound: "list_all (\<lambda>d. d < b) ds \<Longrightarrow> of_digits b ds < b ^ length ds"
proof (induction ds)
  case (Cons d ds)
  then have "d + 1 \<le> b" "of_digits b ds < b ^ length ds" by simp_all
  then have "of_digits b (d # ds) < (d + 1) * b ^ length ds" by (simp add: of_digits_Cons)
  also have "\<dots> \<le> b * b ^ length ds" using \<open>d + 1 \<le> b\<close> by (rule mult_le_mono1)
  finally show ?case by simp
qed simp

lemma of_digits_of: "0 < b \<Longrightarrow> of_digits b (digits_of b k n) = n mod b ^ k"
proof (induction k)
  case (Suc k)
  have [simp]: "length (digits_of b k n) = k" for k by (induction k) simp_all
  have "n mod b ^ Suc k = b ^ k * (n div b ^ k mod b) + n mod b ^ k"
    using mod_mult2_eq [of n "b ^ k" b] by (simp add: mult.commute)
  with Suc show ?case by (simp add: of_digits_Cons mult.commute)
qed simp

lemma length_digits_of [simp]: "length (digits_of b k n) = k"
  by (induction k) simp_all

lemma digits_of_small: "0 < b \<Longrightarrow> d \<in> set (digits_of b k n) \<Longrightarrow> d < b"
  by (induction k) auto

lemma digits_of_cong: "0 < b \<Longrightarrow> n mod b ^ k = m mod b ^ k \<Longrightarrow> digits_of b k n = digits_of b k m"
proof (induction k)
  case (Suc k)
  have small: "x mod b ^ Suc k mod b ^ k = x mod b ^ k" for x
    by (simp add: mod_mod_cancel)
  have top: "n div b ^ k mod b = (n mod b ^ Suc k) div b ^ k" for n
    using mod_mult2_eq [of n "b ^ k" b] Suc.prems(1) by (simp add: mult.commute)
  have "n mod b ^ k = m mod b ^ k" using small Suc.prems(2) by metis
  then show ?case using Suc top by simp
qed simp

lemma digits_of_digits: "list_all (\<lambda>d. d < b) ds \<Longrightarrow> digits_of b (length ds) (of_digits b ds) = ds"
proof (induction ds)
  case (Cons d ds)
  have low: "of_digits b ds < b ^ length ds" using of_digits_bound Cons.prems by simp
  have "of_digits b (d # ds) div b ^ length ds mod b = d"
    using low Cons.prems by (simp add: of_digits_Cons)
  moreover have "digits_of b (length ds) (of_digits b (d # ds)) = digits_of b (length ds) (of_digits b ds)"
    using Cons.prems by (intro digits_of_cong) (simp_all add: of_digits_Cons)
  ultimately show ?case using Cons by simp
qed simp

lemma b32_char_props:
  assumes "d < 32"
  shows "b32_val (b32_char d) = Some d" "ascii_upper (b32_char d) = b32_char d"
    "b32_char d \<notin> {CHR 0x0A, CHR 0x0D, CHR '' ''}"
proof -
  define n where "n = (if d < 26 then 65 + d else 24 + d)"
  have n: "b32_char d = char_of n" "n < 256" using assms by (simp_all add: b32_char_def n_def)
  then have of: "(of_char (b32_char d) :: nat) = n" by (simp add: of_char_of)
  show "b32_val (b32_char d) = Some d" using assms by (simp add: b32_val_def of Let_def) (simp add: n_def)
  show "ascii_upper (b32_char d) = b32_char d"
    using assms by (simp add: ascii_upper_def of Let_def) (simp add: n_def)
  have "n \<notin> {10, 13, 32}" using assms by (simp add: n_def)
  then show "b32_char d \<notin> {CHR 0x0A, CHR 0x0D, CHR '' ''}"
    using of by (auto dest!: arg_cong [where f = "of_char :: char \<Rightarrow> nat"])
qed

lemma all_some_map: "list_all (\<lambda>x. f x = Some (g x)) xs \<Longrightarrow> known_digits (map f xs) = Some (map g xs)"
  by (induction xs) simp_all

lemma base32_groups_append:
  "length ds = 8 \<Longrightarrow> base32_groups (ds @ es) = digits_of 256 5 (of_digits 32 ds) @ base32_groups es"
  by (cases ds) (simp_all add: b32_bytes_def pad_to_def)

lemma base32_encode_digits:
  assumes "list_all (\<lambda>b. b < 256) bs" "length bs mod 5 = 0"
  shows "\<exists>ds. base32_encode bs = map b32_char ds \<and> list_all (\<lambda>d. d < 32) ds \<and> base32_groups ds = bs"
  using assms
proof (induction bs rule: base32_encode.induct)
  case (2 b bs)
  have long: "4 \<le> length bs" using "2.prems"(2) by (cases "length bs < 4") simp_all
  define g where "g = b # take 4 bs"
  have g: "length g = 5" "list_all (\<lambda>b. b < 256) g" "take 5 (b # bs) = g"
    using long "2.prems"(1) by (simp_all add: g_def list_all_iff) (meson in_set_takeD)
  have rest: "list_all (\<lambda>b. b < 256) (drop 4 bs)" "length (drop 4 bs) mod 5 = 0"
    using "2.prems" long by (auto simp: list_all_iff le_mod_geq dest: in_set_dropD)
  then obtain ds where ds: "base32_encode (drop 4 bs) = map b32_char ds" "list_all (\<lambda>d. d < 32) ds"
      "base32_groups ds = drop 4 bs"
    using "2.IH" [OF rest] by (elim exE conjE)
  define e where "e = digits_of 32 8 (of_digits 256 g)"
  have e: "length e = 8" "list_all (\<lambda>d. d < 32) e"
    using digits_of_small [of 32] by (auto simp: e_def list_all_iff)
  have "of_digits 256 g < 32 ^ 8" using of_digits_bound [OF g(2)] g(1) by simp
  then have "of_digits 32 e = of_digits 256 g" by (simp add: e_def of_digits_of)
  then have "base32_groups (e @ ds) = g @ drop 4 bs"
    using base32_groups_append [OF e(1)] digits_of_digits [OF g(2)] g(1) ds(3) by simp
  then have "base32_groups (e @ ds) = b # bs" by (simp add: g_def)
  moreover have "base32_encode (b # bs) = map b32_char (e @ ds)"
    using ds(1) g e(1) by (simp add: b32_chars_def pad_to_def e_def)
  ultimately show ?case using e ds by (intro exI [of _ "e @ ds"]) simp
qed simp

lemma totp_decode_encode:
  assumes "length b mod 5 = 0"
  shows "totp_decode (base32_encode (map unat b)) = Some b"
proof -
  have "unat x < 256" for x :: byte using unsigned_less [of x] by simp
  then obtain ds where ds: "base32_encode (map unat b) = map b32_char ds" "list_all (\<lambda>d. d < 32) ds"
      "base32_groups ds = map unat b"
    using base32_encode_digits [of "map unat b"] assms by (auto simp: list_all_iff)
  have "filter (\<lambda>c. c \<noteq> CHR '' '') (map ascii_upper (map b32_char ds)) = map b32_char ds"
      "filter (\<lambda>c. c \<notin> {CHR 0x0A, CHR 0x0D}) (map b32_char ds) = map b32_char ds"
    using ds(2) by (induction ds) (simp_all add: b32_char_props(2) b32_char_props(3) [simplified])
  moreover have "known_digits (map b32_val (map b32_char ds)) = Some ds"
    using ds(2) b32_char_props(1) all_some_map [of "b32_val \<circ> b32_char" id ds] by (simp add: list_all_iff)
  ultimately show ?thesis using ds by (simp add: totp_decode_def base32_decode_def comp_def)
qed

section \<open>Codes\<close>

lemma length_string_of_nat: "n < 10 ^ Suc k \<Longrightarrow> length (string_of_nat n) \<le> Suc k"
proof (induction k arbitrary: n)
  case 0
  then show ?case by (subst string_of_nat.simps) simp
next
  case (Suc k)
  show ?case
  proof (cases "n < 10")
    case False
    have "n div 10 < 10 ^ Suc k" using Suc.prems by (simp add: less_mult_imp_div_less)
    with Suc.IH [of "n div 10"] False show ?thesis by (subst string_of_nat.simps) simp
  qed (subst string_of_nat.simps, simp)
qed

lemma zero_padded_digits: "list_all is_digit (zero_padded w n)"
  using string_of_nat_digits [of n] by (simp add: zero_padded_def Let_def list_all_iff) (auto simp: is_digit_def)

lemma hotp_code: "length (hotp key c) = otp_digits" "list_all is_digit (hotp key c)"
proof -
  have "unat (x mod 1000000) < 10 ^ Suc 5" for x :: "32 word"
    by (simp add: unat_mod) 
  then have "length (string_of_nat (unat (x mod 1000000))) \<le> 6" for x :: "32 word"
    using length_string_of_nat [of _ 5] by simp
  then show "length (hotp key c) = otp_digits"
    by (simp add: hotp_def Let_def zero_padded_def otp_digits_def)
  show "list_all is_digit (hotp key c)" by (simp add: hotp_def Let_def zero_padded_digits)
qed

lemma NormalizeOTP_code:
  assumes "length c = otp_digits" "list_all is_digit c"
  shows "NormalizeOTP c = c"
proof -
  have "\<not> is_space d" if "d \<in> set c" for d
    using assms(2) that by (auto simp: list_all_iff is_digit_def is_space_def)
  then have "trim_space c = c" using assms(1) by (intro trim_space_id) (cases c; auto)
  then show ?thesis using assms by (simp add: NormalizeOTP_def Let_def list_all_iff filter_id_conv)
qed


lemma skew_range: "d \<in> set [- skewWin .. skewWin] \<longleftrightarrow> \<bar>d\<bar> \<le> 2"
  by (auto simp: skewWin_def)

lemma skewed_counter:
  "(if d < 0 then word_of_int s - word_of_int (- d) else word_of_int s + word_of_int d) = (word_of_int (s + d) :: 64 word)"
  by simp

text \<open>\<^verbatim>\<open>Verify\<close> accepts, after dropping what is not a digit, exactly the codes that \<^verbatim>\<open>Generate\<close> makes from the same
  secret at an instant whose step of 30 seconds is at most two away: the comment of \<^verbatim>\<open>Verify\<close> says one.\<close>

lemma totp_verify_iff:
  "totp_Verify now secret code \<longleftrightarrow>
     (\<exists>t. \<bar>t div 30 - now div 30\<bar> \<le> 2 \<and> totp_Generate secret t = Inr (NormalizeOTP code))"
    (is "_ \<longleftrightarrow> (\<exists>t. ?near t \<and> ?gen t)")
proof
  assume acc: "totp_Verify now secret code"
  then obtain key where key: "totp_decode secret = Some key"
    by (auto simp: totp_Verify_def Let_def split: if_splits option.splits)
  let ?hit = "\<lambda>d. hotp key (if d < 0 then word_of_int (now div 30) - word_of_int (- d) else word_of_int (now div 30) + word_of_int d) =
    NormalizeOTP code"
  have "list_ex ?hit [- skewWin .. skewWin]"
    using acc unfolding totp_Verify_def Let_def key option.case totp_step_def by (meson)
  then obtain d where d: "\<bar>d\<bar> \<le> 2" and code: "hotp key (word_of_int (now div 30 + d)) = NormalizeOTP code"
    unfolding list_ex_iff skewed_counter using skew_range by blast
  let ?t = "30 * (now div 30 + d)"
  have "?near ?t" using d by simp
  moreover have "?gen ?t" using key code by (simp add: totp_Generate_def totp_step_def)
  ultimately show "\<exists>t. ?near t \<and> ?gen t" by blast
next
  assume "\<exists>t. ?near t \<and> ?gen t"
  then obtain t where near: "?near t" and gen: "?gen t" by blast
  then obtain key where key: "totp_decode secret = Some key" "hotp key (word_of_int (t div 30)) = NormalizeOTP code"
    by (auto simp: totp_Generate_def totp_step_def split: option.splits)
  let ?d = "t div 30 - now div 30"
  have "hotp key (if ?d < 0 then word_of_int (now div 30) - word_of_int (- ?d) else word_of_int (now div 30) + word_of_int ?d) =
      NormalizeOTP code"
    unfolding skewed_counter using key(2) by simp
  moreover have "?d \<in> set [- skewWin .. skewWin]" using near unfolding skew_range .
  moreover have "length (NormalizeOTP code) = otp_digits" using key(2) hotp_code(1) by metis
  ultimately show "totp_Verify now secret code"
    using key(1) unfolding totp_Verify_def Let_def list_ex_iff totp_step_def
    by (simp only: option.case simp_thms if_False) (erule bexI [rotated])
qed

text \<open>The secret that enrolment hands out decodes to the 20 random bytes it was made of, and the code that the
  authenticator shows is accepted for at least two minutes.\<close>

theorem enrolled_secret_usable:
  assumes "NewSecret (Some r) = Inr secret" "\<bar>t' div 30 - t div 30\<bar> \<le> 2"
  shows "totp_decode secret = Some (take 20 r) \<and>
    (\<exists>code. totp_Generate secret t = Inr code \<and> totp_Verify t' secret code)"
proof -
  have r: "20 \<le> length r" "secret = base32_encode (map unat (take 20 r))"
    using assms(1) by (auto simp: NewSecret_def read_full_def split: if_splits)
  then have dec: "totp_decode secret = Some (take 20 r)" by (simp add: totp_decode_encode del: take_map)
  let ?code = "hotp (take 20 r) (word_of_int (t div 30))"
  have gen: "totp_Generate secret t = Inr ?code" by (simp add: totp_Generate_def dec totp_step_def)
  moreover have "NormalizeOTP ?code = ?code" by (rule NormalizeOTP_code) (rule hotp_code)+
  ultimately show ?thesis
    using dec assms(2) by (metis totp_verify_iff abs_minus_commute)
qed

lemma enrolled_secret_usable_witness:
  "totp_decode (base32_encode (map unat (replicate 20 (7::byte)))) = Some (replicate 20 7)"
proof -
  have "NewSecret (Some (replicate 20 7)) = Inr (base32_encode (map unat (replicate 20 (7::byte))))"
    by (simp add: NewSecret_def read_full_def)
  from enrolled_secret_usable [OF this, of 60 0] show ?thesis by simp
qed

end
