(* ===== verification/UserSpec.thy ===== *)
theory UserSpec
  imports Login GroupSpec TotpSpec
begin

text \<open>
  What the sign-in paths and the directory may do to the accounts of the portal, and what the deletion of a user leaves.
\<close>

section \<open>Accounts over the directory and the identity provider\<close>

text \<open>What may happen to one row: a local account gets at most a new time of login.  An external one keeps key, name,
  second factor and whether it is disabled, and a role that an administrator has fixed.\<close>

definition row_kept :: "user_row \<Rightarrow> user_row \<Rightarrow> bool" where
  "row_kept u u' =
     ((u_source u = ''local'' \<longrightarrow> u'\<lparr>u_last_login := None\<rparr> = u\<lparr>u_last_login := None\<rparr>) \<and>
      (u_source u = ''local'' \<longleftrightarrow> u_source u' = ''local'') \<and>
      u_id u' = u_id u \<and> u_username u' = u_username u \<and> u_disabled u' = u_disabled u \<and>
      u_mfa_secret u' = u_mfa_secret u \<and> u_mfa_enabled u' = u_mfa_enabled u \<and> u_mfa_exempt u' = u_mfa_exempt u \<and>
      u_role_locked u' = u_role_locked u \<and> (u_role_locked u = 1 \<longrightarrow> u_role u' = u_role u))"

text \<open>No account disappears, and those that appear are external ones.\<close>

definition users_kept :: "pam_db \<Rightarrow> pam_db \<Rightarrow> bool" where
  "users_kept db db' =
     (\<exists>us new. users db' = us @ new \<and> list_all2 row_kept (users db) us \<and> (\<forall>u \<in> set new. u_source u \<noteq> ''local''))"

lemma row_kept_refl [simp]: "row_kept u u"
  by (simp add: row_kept_def)

lemma row_kept_trans: "row_kept u v \<Longrightarrow> row_kept v w \<Longrightarrow> row_kept u w"
  unfolding row_kept_def by presburger

lemma row_kept_source: "row_kept u v \<Longrightarrow> (u_source v = ''local'') = (u_source u = ''local'')"
  by (simp add: row_kept_def)

lemma users_kept_same: "users db' = users db \<Longrightarrow> users_kept db db'"
  unfolding users_kept_def by (intro exI [of _ "users db"] exI [of _ "[]"]) (simp add: list_all2_same)

lemma users_kept_refl [simp]: "users_kept db db"
  by (rule users_kept_same) simp

lemma users_kept_trans:
  assumes "users_kept a b" "users_kept b c" shows "users_kept a c"
proof -
  from assms(1) obtain us new where ab: "users b = us @ new" "list_all2 row_kept (users a) us"
    "\<forall>u \<in> set new. u_source u \<noteq> ''local''" by (auto simp: users_kept_def)
  from assms(2) obtain vs new' where bc: "users c = vs @ new'" "list_all2 row_kept (users b) vs"
    "\<forall>u \<in> set new'. u_source u \<noteq> ''local''" by (auto simp: users_kept_def)
  from bc(2) ab(1) obtain v1 v2 where vs: "vs = v1 @ v2" "list_all2 row_kept us v1" "list_all2 row_kept new v2"
    by (auto simp: list_all2_append1)
  have "list_all2 row_kept (users a) v1" by (rule list_all2_trans [OF row_kept_trans ab(2) vs(2)])
  moreover have "\<forall>u \<in> set (v2 @ new'). u_source u \<noteq> ''local''"
    using ab(3) bc(3) vs(3) by (fastforce simp: list_all2_conv_all_nth in_set_conv_nth row_kept_source)
  ultimately show ?thesis using bc(1) vs(1) unfolding users_kept_def by (metis append.assoc)
qed

lemma users_kept_update: "(\<And>u. row_kept u (f u)) \<Longrightarrow> users_kept db (db\<lparr>users := update_where p f (users db)\<rparr>)"
  unfolding users_kept_def
  by (intro exI [of _ "update_where p f (users db)"] exI [of _ "[]"])
    (simp add: update_where_def list_all2_map2 list_all2_same)

named_theorems accounts_kept "operations that keep the accounts"

lemma RecordLogin_accounts [accounts_kept]: "users_kept db (snd (RecordLogin i db))"
  by (auto simp: RecordLogin_def intro!: users_kept_update) (simp add: row_kept_def)

lemma upsert_accounts:
  assumes "source \<noteq> ''local''"
  shows "users_kept db (snd (upsertExternalUser source username email role externalID db))"
proof -
  have kept: "users_kept db (db\<lparr>users := update_where p (merge_external source email ro externalID) (users db)\<rparr>)" for p ro
    using assms by (intro users_kept_update) (simp add: row_kept_def merge_external_def Let_def)
  have new: "users_kept db (x\<lparr>users := users db @ [u]\<rparr>)" if "u_source u = source" for u and x :: pam_db
    using that assms unfolding users_kept_def
    by (intro exI [of _ "users db"] exI [of _ "[u]"]) (simp add: list_all2_same)
  show ?thesis unfolding upsertExternalUser_def Let_def by (auto intro!: kept new)
qed

lemma UpsertLDAPUser_accounts [accounts_kept]: "users_kept db (snd (UpsertLDAPUser name email role dn db))"
  unfolding UpsertLDAPUser_def by (rule upsert_accounts) simp

lemma UpsertSAMLUser_accounts [accounts_kept]: "users_kept db (snd (UpsertSAMLUser name email role dn db))"
  unfolding UpsertSAMLUser_def by (rule upsert_accounts) simp

lemma insert_memberships_users: "users (snd (insert_memberships u gs db)) = users db"
proof (induction u gs db rule: insert_memberships.induct)
  case (2 u g gs db)
  have "users (snd (insert_membership u g db)) = users db" by (simp add: insert_membership_def)
  with 2 show ?case by (auto split: prod.splits sum.splits)
qed simp

lemma memberships_accounts [accounts_kept]:
  "users_kept db (snd (MergeMemberships u gs db))" "users_kept db (snd (ReplaceMemberships u gs db))"
proof -
  show "users_kept db (snd (MergeMemberships u gs db))"
    by (rule users_kept_same) (simp add: MergeMemberships_def insert_memberships_users)
  have "users (snd (insert_memberships u gs (db\<lparr>user_groups := ms\<rparr>))) = users db" for ms
    by (simp add: insert_memberships_users)
  then show "users_kept db (snd (ReplaceMemberships u gs db))"
    by (intro users_kept_same) (auto simp: ReplaceMemberships_def Let_def split: prod.split sum.split, metis snd_conv)
qed

lemma UpsertLDAP_accounts [accounts_kept]: "users_kept db (snd (UpsertLDAP name description role dn db))"
  by (auto simp: UpsertLDAP_def GroupUpdate_def GroupCreate_def Let_def bump_seq_def intro!: users_kept_same
      split: sum.splits option.splits prod.splits)

lemma PutSecret_accounts [accounts_kept]: "users_kept db (snd (PutSecret v rnd n x due db))"
  by (auto simp: PutSecret_def insert_secret_def bump_seq_def intro!: users_kept_same split: sum.splits)

text \<open>The runs of the directory, step by step; the state carries the list of names between the result and the tables.\<close>

definition state_db :: "sync_state \<Rightarrow> pam_db" where
  "state_db st = snd (snd st)"

lemma sync_user_accounts: "users_kept (state_db st) (state_db (sync_user lib c role dn st))"
proof -
  have "users_kept (state_db st) (state_db (snd (syncUserDN lib c role dn st)))"
  proof -
    have up: "users_kept db db'" if "UpsertLDAPUser n m ro d db = (out, db')" for n m ro d out db db'
      using UpsertLDAPUser_accounts [of db n m ro d] that by simp
    show ?thesis
      by (auto simp: syncUserDN_def state_db_def Let_def split: prod.split sum.split option.split if_split
          intro: up users_kept_trans [OF up memberships_accounts(2)])
  qed
  then show ?thesis by (auto simp: sync_user_def state_db_def split: prod.splits option.splits)
qed

lemma fold_accounts:
  assumes "\<And>x st. users_kept (get st) (get (f x st))"
  shows "users_kept (get st) (get (fold f xs st))"
proof (induction xs arbitrary: st)
  case (Cons x xs)
  show ?case using users_kept_trans [OF assms Cons] by simp
qed simp

lemma sync_members_accounts: "users_kept (state_db st) (state_db (sync_members lib c role dn st))"
  by (auto simp: sync_members_def Let_def state_db_def split: sum.split prod.split
      intro: fold_accounts [of state_db, OF sync_user_accounts, unfolded state_db_def])

lemma sync_group_accounts: "users_kept (snd st) (snd (sync_group lib c role dn st))"
proof -
  have up: "users_kept db db'" if "UpsertLDAP a b ro d db = (out, db')" for a b ro d out db db'
    using UpsertLDAP_accounts [of db a b ro d] that by simp
  show ?thesis by (auto simp: sync_group_def Let_def split: sum.split prod.split intro: up)
qed

lemma sync_Run_accounts [accounts_kept]: "users_kept db (snd (sync_Run lib c sel db))"
proof -
  let ?role = "default_string ''user'' (lc_DefaultRole (lk_Cfg c))"
  let ?none = "\<lparr>sr_GroupsSynced = 0, sr_UsersSynced = 0, sr_Errors = []\<rparr>"
  obtain res db1 where g: "fold (sync_group lib c ?role) (sn_GroupDNs sel) (?none, db) = (res, db1)" by fastforce
  let ?st1 = "fold (sync_user lib c ?role) (sn_UserDNs sel) (res, [], db1)"
  let ?st2 = "fold (sync_members lib c ?role) (sn_GroupDNs sel) ?st1"
  have "users_kept (snd (?none, db)) (snd (fold (sync_group lib c ?role) (sn_GroupDNs sel) (?none, db)))"
    by (rule fold_accounts [of snd]) (rule sync_group_accounts)
  then have g1: "users_kept db db1" by (simp add: g)
  have "users_kept (state_db (res, [], db1)) (state_db ?st1)"
    by (rule fold_accounts [of state_db]) (rule sync_user_accounts)
  then have "users_kept db1 (state_db ?st1)" by (simp add: state_db_def)
  from users_kept_trans [OF g1 this] have "users_kept db (state_db ?st1)" .
  moreover have "users_kept (state_db ?st1) (state_db ?st2)"
    by (rule fold_accounts [of state_db]) (rule sync_members_accounts)
  ultimately have "users_kept db (state_db ?st2)" by (rule users_kept_trans)
  moreover have "snd (sync_Run lib c sel db) = state_db ?st2"
    by (simp add: sync_Run_def Let_def g state_db_def split: prod.split)
  ultimately show ?thesis by simp
qed

lemma sync_tick_accounts: "users_kept db (snd (sync_tick (env :: 'a auth_env) db))"
proof -
  have run: "users_kept db db'" if "sync_Run lib c sel db = (res, db')" for lib :: "'a ldap_library" and c sel res db'
    using sync_Run_accounts [of db lib c sel] that by simp
  have "users_kept db (snd (executeLDAPSync env db))"
    by (auto simp: executeLDAPSync_def Let_def split: prod.split dest: run)
  moreover have "snd (sync_tick env db) = snd (executeLDAPSync env db)"
    by (auto simp: sync_tick_def split: prod.split sum.split)
  ultimately show ?thesis by simp
qed

section \<open>Signing in\<close>

lemma tryLDAP_accounts: "users_kept db (snd (tryLDAP env login password db))"
proof -
  have up: "users_kept db db'" if "UpsertLDAPUser a b ro d db = (out, db')" for a b ro d out db'
    using UpsertLDAPUser_accounts [of db a b ro d] that by simp
  show ?thesis
    by (auto simp: tryLDAP_def Let_def split: sum.split prod.split
        intro: up users_kept_trans [OF up memberships_accounts(1)])
qed

lemma authenticateLogin_accounts: "users_kept db (snd (authenticateLogin env login password ldap db))"
  using tryLDAP_accounts [of db env login password] by (auto simp: authenticateLogin_def Let_def split: sum.split prod.split)

lemma login_finish_accounts: "users_kept db (outcome_db (login_finish env rnd r u password dev policy db))"
  using RecordLogin_accounts [of db "au_ID u"]
    users_kept_trans [OF RecordLogin_accounts [of db "au_ID u"] PutSecret_accounts]
  by (auto simp: login_finish_def Let_def split: prod.split sum.split)

lemma loginHandler_accounts: "users_kept db (outcome_db (loginHandler env rnd r db))"
proof -
  have otp: "users_kept db' (outcome_db (login_otp env rnd r u pw otp dev policy db'))" for u pw otp dev policy db'
    by (auto simp: login_otp_def Let_def login_finish_accounts)
  have auth: "users_kept db db'" if "authenticateLogin env login pw ldap db = (out, db')" for login pw ldap out db'
    using authenticateLogin_accounts [of db env login pw ldap] that by simp
  show ?thesis
    by (auto simp: loginHandler_def with_body_def Let_def split: sum.split prod.split
        intro: auth users_kept_trans [OF auth otp] users_kept_trans [OF auth login_finish_accounts])
qed

lemma samlACSHandler_accounts: "users_kept db (outcome_db (samlACSHandler env form parsed db))"
proof -
  have up: "users_kept db db'" if "UpsertSAMLUser a b ro d db = (out, db')" for a b ro d out db'
    using UpsertSAMLUser_accounts [of db a b ro d] that by simp
  show ?thesis
    by (auto simp: samlACSHandler_def Let_def split: sum.split prod.split
        intro: up users_kept_trans [OF up RecordLogin_accounts]
          users_kept_trans [OF users_kept_trans [OF up memberships_accounts(1)] RecordLogin_accounts])
qed

text \<open>C12: 
  Neither the directory nor the identity provider nor a login touches the account of a local user, apart from the time of
  its last login.  A round of the synchronisation, a login by password and a SAML response remove no account, add external
  ones only, and leave key, name, second factor and the disabled flag of every account, and a role that an
  administrator fixed, as they were, whatever the directory answers and whichever statements fail.
\<close>

theorem external_identities_keep_accounts:
  "users_kept db (snd (sync_tick env db)) \<and> users_kept db (outcome_db (loginHandler env rnd r db)) \<and>
   users_kept db (outcome_db (samlACSHandler env form parsed db))"
  using sync_tick_accounts loginHandler_accounts samlACSHandler_accounts by blast

end
