(* ===== verification/LoginSpec.thy ===== *)
theory LoginSpec
  imports UserSpec
begin

text \<open>
  What a login has proved when it is answered with a token, that a local user with the right password and code gets one,
  and what the deletion of a user leaves behind.
\<close>

section \<open>What a login has proved\<close>

text \<open>The password was checked: against the hash of an enabled local account, or by the directory for a name that the
  portal knows.\<close>

definition password_proved :: "'c auth_env \<Rightarrow> pam_db \<Rightarrow> string \<Rightarrow> string \<Rightarrow> auth_user \<Rightarrow> bool" where
  "password_proved env db login password u =
     ((\<exists>row \<in> set (users db). u = scanUserRow row \<and> u_source row = ''local'' \<and>
         VerifyPassword (ae_Argon2 env) password (u_password_hash row)) \<or>
      (\<exists>lu. lc_Enabled (loadLDAPConfig env db) \<and>
         ldap_Authenticate (ae_Ldap env) \<lparr>lk_Cfg = loadLDAPConfig env db,
           lk_Password = secret_text (GetSecret (ae_Vault env) db vaultLDAPBindPassword)\<rparr> login password = Inr lu \<and>
         au_Username u = lu_Username lu \<and>
         (known_user db login \<noteq> None \<or> known_user db (lu_Username lu) \<noteq> None \<or> known_user db (lu_Email lu) \<noteq> None)))"

text \<open>A code of the authenticator at most two steps of 30 seconds off.\<close>

definition code_proved :: "int \<Rightarrow> string \<Rightarrow> string \<Rightarrow> bool" where
  "code_proved now secret otp =
     (\<exists>t. \<bar>t div 30 - now div 30\<bar> \<le> 2 \<and> totp_Generate secret t = Inr (NormalizeOTP otp))"

lemma tryLocal_proved:
  assumes "tryLocal env db login password = Inr u"
  shows "password_proved env db login' password u"
proof -
  from assms obtain row where "row \<in> set (users db)" "u = scanUserRow row" "u_source row = ''local''"
      "VerifyPassword (ae_Argon2 env) password (u_password_hash row)"
    by (auto simp: tryLocal_def AuthenticateByLoginID_def auth_Authenticate_def loadUser_def scanUserRow_def
        split: sum.splits if_splits prod.splits option.splits dest!: row_by_Some)
  then show ?thesis by (auto simp: password_proved_def)
qed

lemma FindByUsername_name: "FindByUsername db n = Inr u \<Longrightarrow> au_Username u = n"
  by (auto simp: FindByUsername_def loadUser_def scanUserRow_def split: sum.splits if_splits option.splits dest!: row_by_Some)

lemma upsert_name: "upsertExternalUser src n em ro x db = (Inr u, db') \<Longrightarrow> au_Username u = n"
  by (auto simp: upsertExternalUser_def Let_def split: if_splits dest: FindByUsername_name)

lemma tryLDAP_proved:
  assumes "tryLDAP env login password db = (Inr u, db')"
  shows "password_proved env db login password u"
  using assms unfolding password_proved_def
  by (auto simp: tryLDAP_def Let_def UpsertLDAPUser_def split: if_splits sum.splits prod.splits dest!: upsert_name)

lemma upsert_failed:
  assumes "upsertExternalUser src n em ro x db = (Inl e, db')"
  shows "db' = db \<or> faults db' Users_Load"
proof -
  have "faults db' Users_Load" if "FindByUsername db' n = Inl e'" "n \<in> set (map u_username (users db'))" for e'
    using that by (auto simp: FindByUsername_def loadUser_def row_by_None split: if_splits option.splits)
  moreover have "n \<in> set (map u_username (update_where (\<lambda>u. u_username u = n) (merge_external src em r x) (users db)))"
    if "n \<in> set (map u_username (users db))" for r
    using that by (force simp: update_where_def merge_external_def Let_def)
  ultimately show ?thesis using assms
    by (auto simp: upsertExternalUser_def Let_def split: if_splits)
qed

lemma tryLDAP_failed: "tryLDAP env login password db = (Inl e, db') \<Longrightarrow> db' = db \<or> faults db' Users_Load"
  by (auto simp: tryLDAP_def Let_def UpsertLDAPUser_def split: if_splits sum.splits prod.splits dest!: upsert_failed)

lemma tryLocal_faults: "faults db Users_Load \<Longrightarrow> tryLocal env db login password \<noteq> Inr u"
  by (auto simp: tryLocal_def AuthenticateByLoginID_def auth_Authenticate_def loadUser_def split: sum.splits if_splits)

lemma authenticateLogin_proved:
  assumes "authenticateLogin env login password ldap db = (Inr u, db')"
  shows "password_proved env db login password u"
  using assms
  by (auto simp: authenticateLogin_def Let_def split: if_splits sum.splits prod.splits
      intro: tryLocal_proved tryLDAP_proved dest!: tryLDAP_failed dest: tryLocal_faults)

text \<open>The clock stands still during a request, and nothing after the second factor changes it.\<close>

lemma insert_memberships_clock: "clock (snd (insert_memberships u gs db)) = clock db"
  using insert_memberships_frame [of u gs db] by auto

lemma upsert_clock: "clock (snd (upsertExternalUser src n em ro x db)) = clock db"
  by (simp add: upsertExternalUser_def Let_def bump_seq_def)

lemma authenticateLogin_clock:
  "authenticateLogin env login password ldap db = (out, db') \<Longrightarrow> clock db' = clock db"
proof -
  have up: "clock db' = clock db" if "UpsertLDAPUser n m ro d db = (out, db')" for n m ro d out db'
    using upsert_clock [of "''ldap''" n m ro d db] that by (simp add: UpsertLDAPUser_def)
  have "clock db' = clock db" if "tryLDAP env login password db = (out, db')" for out db'
    using that by (auto simp: tryLDAP_def Let_def MergeMemberships_def insert_memberships_clock
        split: if_splits sum.splits prod.splits dest: up)
  then show "authenticateLogin env login password ldap db = (out, db') \<Longrightarrow> clock db' = clock db"
    by (auto simp: authenticateLogin_def Let_def split: if_splits sum.splits prod.splits)
qed

lemma row_by_update_kept:
  "(\<And>r. f (g r) = f r) \<Longrightarrow> row_by f k (update_where p g rows) = map_option (\<lambda>r. if p r then g r else r) (row_by f k rows)"
  by (induction rows) (auto simp: row_by_def update_where_def)

lemma RecordLogin_mfa: "GetMFASecret (snd (RecordLogin i db)) j = GetMFASecret db j" "clock (snd (RecordLogin i db)) = clock db"
  by (auto simp: RecordLogin_def GetMFASecret_def row_by_update_kept split: option.split)

lemma PutSecret_mfa: "GetMFASecret (snd (PutSecret v rnd n x due db)) j = GetMFASecret db j"
  by (auto simp: PutSecret_def insert_secret_def bump_seq_def GetMFASecret_def split: sum.split)

lemma login_finish_issued:
  assumes "login_finish env rnd r u password dev policy db = (Answer st (LoggedIn tok u' roles policy'), ev, db')"
  shows "u' = u" "policy' = policy" "GetMFASecret db' i = GetMFASecret db i"
    "IssueToken (ae_JWT env) (ae_Config env) (clock db) u = Inr tok"
  using assms by (auto simp: login_finish_def Let_def reply_def RecordLogin_mfa PutSecret_mfa split: prod.splits sum.splits if_splits)

lemma login_otp_passed:
  assumes "login_otp env rnd r u password otp dev policy db = (Answer st (LoggedIn tok u' roles policy'), ev, db')"
  shows "login_finish env rnd r u password dev policy db = (Answer st (LoggedIn tok u' roles policy'), ev, db')"
    "\<exists>secret. GetMFASecret db (au_ID u) = Inr secret \<and> secret \<noteq> [] \<and> code_proved (clock db) secret otp"
  using assms
  by (auto simp: login_otp_def Let_def reply_def code_proved_def totp_verify_iff split: if_splits sum.splits)

lemma second_factor_skipped:
  assumes "(if dev then LoginMFADecisionForDevice db u else LoginMFADecisionForUser db u pol) = Inr dec"
    "\<not> RequireEnrollment dec" "\<not> RequireOTP dec"
  shows "au_MFAExempt u \<or> (dev \<or> EffectiveMFAPolicy pol \<noteq> ''required'') \<and>
    (\<not> au_MFAEnabled u \<or> GetMFASecret db (au_ID u) = Inr [] \<or> \<not> dev \<and> EffectiveMFAPolicy pol = ''off'')"
  using assms
  by (auto simp: LoginMFADecisionForDevice_def LoginMFADecisionForUser_def LoginMFADecision_def no_mfa_def Let_def
      EffectiveMFAPolicy_def split: if_splits sum.splits)


definition ann :: user_row where
  "ann = user_row.make 3 ''ann'' (Some ''ann@x'') ''argon2id$AA$c2VjcmV0'' ''user'' None 0 ''local'' None None 0 0 0 1"

definition ann_db :: pam_db where
  "ann_db = empty_db\<lparr>users := [ann]\<rparr>"

definition ann_login :: http_request where
  "ann_login =
     \<lparr>hr_Method = ''POST'', hr_Segs = [''login''], hr_Header = (\<lambda>_. []), hr_Query = (\<lambda>_. []), hr_Cookie = (\<lambda>_. None),
      hr_Body = Some (JObj [(''Username'', JStr '' ann ''), (''Password'', JStr ''secret'')]), hr_RemoteAddr = []\<rparr>"

text \<open>A key derivation that returns the password, and a signature that returns the user name.\<close>

definition ann_env :: "unit ldap_library \<Rightarrow> _" where
  "ann_env lib vlt prs prn bld met rq qr lau br =
     \<lparr>ae_Argon2 = (\<lambda>pw _ n. take n pw),
      ae_JWT = \<lparr>jwt_sign = (\<lambda>_ c. Inr (jc_Username c)), jwt_parse = (\<lambda>_ _ _. Inl ErrNoRows)\<rparr>,
      ae_Config = \<lparr>JWTSecret = [], JWTTTL = 3600, JWTIssuer = [], JWTAudience = []\<rparr>,
      ae_Ldap = lib, ae_Vault = vlt, ae_Parse = prs, ae_Print = prn, ae_BuildSAML = bld, ae_SAMLMetadata = met,
      ae_SAMLRequest = rq, ae_QR = qr, ae_Launch = lau, ae_Broker = br\<rparr>"

lemma ann_logs_in:
  "fst (loginHandler (ann_env lib vlt prs prn bld met rq qr lau br) None ann_login ann_db) =
     Answer 200 (LoggedIn ''ann'' (scanUserRow ann) [''user''] ''required'')"
  by code_simp


section \<open>Deleting a user\<close>

text \<open>A row outside the table of users that names the user: a vote or a vote on one of its requests, a request, a
  checkout, an order to end a session, a membership in a safe or a group, an alert, or an exemption.\<close>

definition names_user :: "int \<Rightarrow> pam_db \<Rightarrow> bool" where
  "names_user i db =
     ((\<exists>d \<in> set (approval_decisions db). ad_approver_id d = i) \<or>
      (\<exists>r \<in> set (access_requests db). ar_user_id r = i \<or> ar_approver_id r = Some i) \<or>
      (\<exists>c \<in> set (credential_checkouts db). co_user_id c = i) \<or>
      (\<exists>t \<in> set (session_terminations db). st_requested_by t = i) \<or>
      (\<exists>m \<in> set (safe_members db). sm_principal_type m = ''user'' \<and> sm_principal_id m = i) \<or>
      (\<exists>a \<in> set (threat_alerts db). ta_user_id a = Some i) \<or>
      (\<exists>m \<in> set (user_groups db). ug_user_id m = i) \<or>
      (\<exists>b \<in> set (birthright_assignments db). ba_user_id b = i \<or> ba_granted_by b = Some i))"

lemma dropped_user_unnamed: "\<not> names_user i (drop_user i (cleanup_user i db))"
  by (auto simp: names_user_def drop_user_def cleanup_user_def delete_where_def update_where_def Let_def)

lemma rows_affected_0: "rows_affected p rows = 0 \<longleftrightarrow> (\<forall>r \<in> set rows. \<not> p r)"
  by (auto simp: rows_affected_def filter_empty_conv)



end
