(* ===== verification/AuthApi.thy ===== *)
theory AuthApi
  imports Login Ccp "HOL-Library.AList"
begin

text \<open>
  The routes of the auth-service for users, groups, roles, the second factor, settings and the identity provider
  (\<^verbatim>\<open>cmd/auth-service/main.go\<close>).  A handler gets the wildcards of its path, the request and the database; the identity
  of the caller is what the headers say.
\<close>

section \<open>Answers\<close>

record birthright_view =
  bv_ID :: int
  bv_UserID :: int
  bv_TargetID :: int
  bv_GrantedBy :: int
  bv_GrantedAt :: int
  bv_Note :: string
  bv_Username :: string
  bv_TargetName :: string

record native_artifacts =
  na_RDPFilename :: string
  na_RDPFile :: string
  na_LaunchScript :: string

record web_session_info =
  wi_SessionID :: string
  wi_TargetName :: string
  wi_WebURL :: string
  wi_TargetKind :: string
  wi_Creds :: web_creds
  wi_AuthHint :: string
  wi_Active :: bool

record tacacs_settings =
  ts_RoleProfiles :: "(string \<times> string) list"
  ts_RoleMemberof :: "(string \<times> string) list"
  ts_DefaultMemberof :: string

datatype (plugins only: code size) auth_answer =
    A_Login login_answer
  | A_Claims jwt_claims
  | A_Users "auth_user list"
  | A_Groups "group list"
  | A_Members "member list"
  | A_Roles "role list"
  | A_RoleNames "string list"
  | A_Enrollment string string string
  | A_Enrolled string auth_user "string list"
  | A_MFARequired bool
  | A_LdapConfig ldap_config
  | A_LdapTest "err option"
  | A_Selection sync_selection
  | A_Directory "directory_entry list"
  | A_Synced sync_result
  | A_SamlConfig saml_config
  | A_Metadata string
  | A_Redirect string
  | A_SignedIn string
  | A_SSO bool
  | A_Tacacs tacacs_settings
  | A_Settings "string \<rightharpoonup> string"
  | A_Safes "safe list"
  | A_SafeMembers "safe_member list"
  | A_Accounts "account list"
  | A_Rotations "rotation_row list"
  | A_Checkout checkout_result
  | A_Checkouts "checkout_view list"
  | A_Rdp rdp_result
  | A_Native native_artifacts
  | A_Birthrights "birthright_view list"
  | A_Ssh ssh_result
  | A_WebSession web_session_info
  | A_Web web_result
  | A_Db db_result
  | A_Apps "app list"
  | A_App create_result
  | A_Summary summary
  | A_Access "access_by_user list"
  | A_Ages "password_age list"
  | A_Alerts "alert list"
  | A_ID int

text \<open>The answer of the login handlers among those of the service.\<close>

definition lift_answer :: "('p \<Rightarrow> 'q) \<Rightarrow> 'p outcome \<Rightarrow> 'q outcome" where
  "lift_answer f out =
     (case out of (resp, evs, db) \<Rightarrow>
        (case resp of Error n e \<Rightarrow> Error n e | Done s \<Rightarrow> Done s | Accepted s \<Rightarrow> Accepted s | Created i \<Rightarrow> Created i | Answer n p \<Rightarrow> Answer n (f p),
         evs, db))"

lemma outcome_db_lift [simp]: "outcome_db (lift_answer f out) = outcome_db out"
  by (cases out) (simp add: lift_answer_def)

definition admin_only :: "string \<Rightarrow> http_request \<Rightarrow> pam_db \<Rightarrow> 'p outcome \<Rightarrow> 'p outcome" where
  "admin_only msg r db out = (if caller_role r \<noteq> ''admin'' then reply (Error 403 (ErrMsg msg)) db else out)"

section \<open>Sign-in\<close>

definition h_login :: "'c auth_env \<Rightarrow> ambient \<Rightarrow> auth_answer handler" where
  "h_login env am args r db = lift_answer A_Login (loginHandler env (am_Random am 0) r db)"

definition h_verify :: "'c auth_env \<Rightarrow> auth_answer handler" where
  "h_verify env args r db =
     with_body (str_field ''Token'') r db (\<lambda>tok.
       case VerifyToken (ae_JWT env) (ae_Config env) (clock db) tok of
         Inl e \<Rightarrow> reply (Error 401 e) db
       | Inr c \<Rightarrow> reply (Answer 200 (A_Claims c)) db)"

section \<open>Users\<close>

definition h_users :: "auth_answer handler" where
  "h_users args r db = reply_read A_Users (ListUsers db) db"

record new_user =
  nu_Username :: string
  nu_Email :: string
  nu_Password :: string
  nu_Role :: string

definition new_user_dec :: "json \<Rightarrow> new_user \<times> bool" where
  "new_user_dec j =
     (let a = str_field ''username'' j; b = str_field ''email'' j; c = str_field ''password'' j;
          d = str_field ''role'' j
      in (new_user.make (fst a) (fst b) (fst c) (fst d),
          snd a \<and> snd b \<and> snd c \<and> snd d))"

definition h_user_create :: "'c auth_env \<Rightarrow> ambient \<Rightarrow> auth_answer handler" where
  "h_user_create env am args r db =
     with_body new_user_dec r db (\<lambda>u.
       reply_created [auth_event ''user.create'' ''info'' (nu_Username u) [] []]
         (CreateUser (ae_Argon2 env) (am_Random am 0) (nu_Username u) (nu_Email u) (nu_Password u) (nu_Role u) db))"

definition update_user_dec :: "json \<Rightarrow> update_user \<times> bool" where
  "update_user_dec j =
     (let a = str_field ''email'' j; b = str_field ''role'' j; c = opt_bool_field ''disabled'' j;
          d = opt_bool_field ''mfa_exempt'' j; e = str_field ''password'' j
      in (update_user.make (fst a) (fst b) (fst c) (fst d) (fst e),
          snd a \<and> snd b \<and> snd c \<and> snd d \<and> snd e))"

definition h_user_update :: "'c auth_env \<Rightarrow> ambient \<Rightarrow> auth_answer handler" where
  "h_user_update env am args r db =
     with_body update_user_dec r db (\<lambda>inp.
       reply_done ''ok'' [] (UpdateUser (ae_Argon2 env) (am_Random am 0) (arg_id 0 args) inp db))"

definition h_user_delete :: "auth_answer handler" where
  "h_user_delete args r db =
     (case DeleteUser (arg_id 0 args) (caller_uid r) db of
        (Inl e, db) \<Rightarrow> reply (Error (if err_text e = ''user not found'' then 404 else 400) e) db
      | (Inr username, db) \<Rightarrow> (Done ''ok'', [auth_event ''user.delete'' ''warn'' (caller_name r) username []], db))"

section \<open>Groups\<close>

definition group_dec :: "json \<Rightarrow> group \<times> bool" where
  "group_dec j =
     (let a = int_field ''id'' j; b = str_field ''name'' j; c = str_field ''description'' j;
          d = str_field ''role'' j; e = str_field ''ldap_dn'' j; f = str_field ''source'' j;
          g = int_field ''created_at'' j; h = int_field ''members'' j
      in (group.make (fst a) (fst b) (fst c) (fst d) (fst e) (fst f) (fst g) (fst h),
          snd a \<and> snd b \<and> snd c \<and> snd d \<and> snd e \<and> snd f \<and> snd g \<and> snd h))"

definition h_groups :: "auth_answer handler" where
  "h_groups args r db = reply_read A_Groups (GroupList db) db"

definition h_group_create :: "auth_answer handler" where
  "h_group_create args r db =
     with_body group_dec r db (\<lambda>g.
       reply_created [auth_event ''group.create'' ''info'' (gr_Name g) [] []] (GroupCreate g db))"

definition h_group_update :: "auth_answer handler" where
  "h_group_update args r db =
     with_body group_dec r db (\<lambda>g. reply_done ''ok'' [] (GroupUpdate (g\<lparr>gr_ID := arg_id 0 args\<rparr>) db))"

definition h_group_delete :: "auth_answer handler" where
  "h_group_delete args r db = reply_done ''deleted'' [] (GroupDelete (arg_id 0 args) db)"

definition h_group_members :: "auth_answer handler" where
  "h_group_members args r db = reply_read A_Members (ListMembers db (arg_id 0 args)) db"

definition h_member_add :: "auth_answer handler" where
  "h_member_add args r db =
     with_body (int_field ''user_id'') r db (\<lambda>uid. reply_done ''ok'' [] (AddMember uid (arg_id 0 args) db))"

definition h_member_remove :: "auth_answer handler" where
  "h_member_remove args r db = reply_done ''ok'' [] (RemoveMember (arg_id 1 args) (arg_id 0 args) db)"

definition h_user_groups :: "auth_answer handler" where
  "h_user_groups args r db = reply_read A_Groups (UserGroups db (arg_id 0 args)) db"

section \<open>Roles\<close>

definition role_dec :: "json \<Rightarrow> role \<times> bool" where
  "role_dec j =
     (let a = int_field ''id'' j; b = str_field ''name'' j; c = str_field ''description'' j;
          d = bool_field ''builtin'' j; e = int_field ''created_at'' j; f = int_field ''users'' j;
          g = int_field ''groups'' j; h = int_field ''policies'' j
      in (role.make (fst a) (fst b) (fst c) (fst d) (fst e) (fst f) (fst g) (fst h),
          snd a \<and> snd b \<and> snd c \<and> snd d \<and> snd e \<and> snd f \<and> snd g \<and> snd h))"

definition h_roles :: "auth_answer handler" where
  "h_roles args r db = reply_read A_Roles (RoleList db) db"

definition h_role_create :: "auth_answer handler" where
  "h_role_create args r db =
     with_body role_dec r db (\<lambda>ro.
       reply_created [auth_event ''role.create'' ''info'' (ro_Name ro) [] []] (RoleCreate ro db))"

definition h_role_update :: "auth_answer handler" where
  "h_role_update args r db =
     with_body (str_field ''description'') r db (\<lambda>d. reply_done ''ok'' [] (RoleUpdate (arg_id 0 args) d db))"

definition h_role_delete :: "auth_answer handler" where
  "h_role_delete args r db = reply_done ''deleted'' [] (RoleDelete (arg_id 0 args) db)"

abbreviation Users_RoleOf :: sql_stmt where "Users_RoleOf \<equiv> Stmt ''users.role of''"

definition h_effective_roles :: "auth_answer handler" where
  "h_effective_roles args r db =
     (let uid = arg_id 0 args in
      if faults db Users_RoleOf then reply (Error 404 (ErrSql Users_RoleOf)) db
      else case row_by u_id uid (users db) of
        None \<Rightarrow> reply (Error 404 ErrNoRows) db
      | Some u \<Rightarrow>
          (case EffectiveRoles db uid (u_role u) of
             (_, Some e) \<Rightarrow> reply (Error 500 e) db
           | (roles, None) \<Rightarrow> reply (Answer 200 (A_RoleNames roles)) db))"

section \<open>The second factor\<close>

text \<open>The escapes of \<^verbatim>\<open>url.PathEscape\<close> and of a query value, and \<^verbatim>\<open>Values.Encode\<close> with its sorted keys.\<close>

definition url_escape :: "bool \<Rightarrow> string \<Rightarrow> string" where
  "url_escape query s =
     concat (map (\<lambda>c.
       if is_letter c \<or> is_digit c \<or> c \<in> set ''-_.~'' \<or> \<not> query \<and> c \<in> set ''$&+=:@'' then [c]
       else if query \<and> c = CHR '' '' then ''+''
       else let n = of_char c :: nat; hex = (\<lambda>d. if d < 10 then digit_char d else char_of (55 + d))
            in [CHR ''%'', hex (n div 16), hex (n mod 16)]) s)"

definition OtpAuthURI :: "string \<Rightarrow> string \<Rightarrow> string \<Rightarrow> string" where
  "OtpAuthURI issuer account secret =
     ''otpauth://totp/'' @ url_escape False (issuer @ '':'' @ account) @ ''?algorithm=SHA1&digits=6&issuer='' @
     url_escape True issuer @ ''&period=30&secret='' @ url_escape True secret"

definition enroll_answer :: "'c auth_env \<Rightarrow> string \<Rightarrow> string \<Rightarrow> pam_db \<Rightarrow> auth_answer outcome" where
  "enroll_answer env username secret db =
     (let uri = OtpAuthURI ''PAM Platform'' username secret
      in case ae_QR env uri of
           Inl e \<Rightarrow> reply (Error 500 e) db
         | Inr qr \<Rightarrow> reply (Answer 200 (A_Enrollment secret uri qr)) db)"

definition h_mfa_enroll :: "'c auth_env \<Rightarrow> ambient \<Rightarrow> auth_answer handler" where
  "h_mfa_enroll env am args r db =
     (let uid = arg_id 0 args in
      case checkMFAAccess r uid True of
        Inl e \<Rightarrow> reply (Error 403 e) db
      | Inr _ \<Rightarrow>
          (case GetUserByID db uid of
             Inl e \<Rightarrow> reply (Error 404 e) db
           | Inr u \<Rightarrow>
               if au_MFAEnabled u
               then reply (Error 400 (ErrMsg (''MFA already enabled '' @ em_dash @
                      '' use Reset MFA if re-enrollment is needed''))) db
               else case GetMFASecret db uid of
                 Inl e \<Rightarrow> reply (Error 500 e) db
               | Inr secret \<Rightarrow>
                   if secret \<noteq> [] then enroll_answer env (au_Username u) secret db
                   else (case NewSecret (am_Random am 0) of
                           Inl e \<Rightarrow> reply (Error 500 e) db
                         | Inr fresh \<Rightarrow>
                             (case SetMFASecret uid fresh db of
                                (Inl e, db) \<Rightarrow> reply (Error 500 e) db
                              | (Inr _, db) \<Rightarrow> enroll_answer env (au_Username u) fresh db))))"

definition h_mfa_verify :: "'c auth_env \<Rightarrow> auth_answer handler" where
  "h_mfa_verify env args r db =
     (let uid = arg_id 0 args in
      case checkMFAAccess r uid True of
        Inl e \<Rightarrow> reply (Error 403 e) db
      | Inr _ \<Rightarrow> with_body (str_field ''code'') r db (\<lambda>code.
          let secret = (case GetMFASecret db uid of Inl _ \<Rightarrow> [] | Inr s \<Rightarrow> s) in
          if secret = [] then reply (Error 400 (ErrMsg ''no MFA enrollment in progress'')) db
          else if \<not> totp_Verify (clock db) secret (NormalizeOTP code)
          then reply (Error 401 (ErrMsg (''invalid code '' @ em_dash @
                 '' use the current code from your authenticator app''))) db
          else case EnableMFA uid db of
            (Inl e, db) \<Rightarrow> reply (Error 500 e) db
          | (Inr _, db) \<Rightarrow>
              let ev = auth_event ''mfa.enabled'' ''info'' (string_of_int uid) [] [] in
              if hr_Header r ''X-PAM-Scope'' \<noteq> ''mfa_enroll'' then (Done ''ok'', [ev], db)
              else case GetUserByID db uid of
                Inl e \<Rightarrow> (Error 500 e, [ev], db)
              | Inr u \<Rightarrow>
                  let (roles, _) = EffectiveRoles db (au_ID u) (au_Role u); db = snd (RecordLogin (au_ID u) db)
                  in case IssueToken (ae_JWT env) (ae_Config env) (clock db) u of
                       Inl e \<Rightarrow> (Error 500 e, [ev], db)
                     | Inr tok \<Rightarrow> (Answer 200 (A_Enrolled tok u roles), [ev], db)))"

definition h_mfa_check :: "auth_answer handler" where
  "h_mfa_check args r db =
     (let uid = arg_id 0 args in
      if caller_uid r \<noteq> uid then reply (Error 403 (ErrMsg ''forbidden'')) db
      else with_body (str_field ''code'') r db (\<lambda>code.
        case GetUserByID db uid of
          Inl _ \<Rightarrow> reply (Error 404 (ErrMsg ''user not found'')) db
        | Inr u \<Rightarrow>
            if \<not> au_MFAEnabled u \<or> au_MFAExempt u then reply (Answer 200 (A_MFARequired False)) db
            else
              let secret = (case GetMFASecret db uid of Inl _ \<Rightarrow> [] | Inr s \<Rightarrow> s) in
              if secret = [] then reply (Error 401 (ErrMsg ''MFA not enrolled'')) db
              else if \<not> totp_Verify (clock db) secret (NormalizeOTP code)
              then reply (Error 401 (ErrMsg ''invalid MFA code'')) db
              else reply (Answer 200 (A_MFARequired True)) db))"

definition setting_text :: "pam_db \<Rightarrow> string \<Rightarrow> string" where
  "setting_text db key = (case SettingGet db key of Inl _ \<Rightarrow> [] | Inr v \<Rightarrow> v)"

definition h_mfa_disable :: "auth_answer handler" where
  "h_mfa_disable args r db =
     (let uid = arg_id 0 args; admin = (caller_role r = ''admin'') in
      if \<not> admin \<and> caller_uid r \<noteq> uid then reply (Error 403 (ErrMsg ''forbidden'')) db
      else if \<not> admin \<and> EffectiveMFAPolicy (setting_text db settingsKeyMFAPolicy) = ''required''
      then reply (Error 403 (ErrMsg (''MFA is required by policy '' @ em_dash @ '' contact an administrator''))) db
      else case DisableMFA uid admin db of
        (Inl e, db) \<Rightarrow> reply (Error 500 e) db
      | (Inr _, db) \<Rightarrow>
          (Done ''disabled'', [auth_event ''mfa.disabled'' ''warn'' (caller_name r) (string_of_int uid) []], db))"

definition h_mfa_reset :: "auth_answer handler" where
  "h_mfa_reset args r db =
     admin_only ''admin role required'' r db
       (case ResetMFA (arg_id 0 args) db of
          (Inl e, db) \<Rightarrow> reply (Error 500 e) db
        | (Inr _, db) \<Rightarrow>
            (Done ''reset'', [auth_event ''mfa.reset'' ''warn'' (caller_name r) (string_of_int (arg_id 0 args)) []], db))"

section \<open>Settings\<close>

definition ldap_config_json :: "ldap_config \<Rightarrow> json" where
  "ldap_config_json c =
     JObj [(''enabled'', JBool (lc_Enabled c)), (''url'', JStr (lc_URL c)), (''start_tls'', JBool (lc_StartTLS c)),
       (''skip_tls_verify'', JBool (lc_SkipTLSVerify c)), (''bind_dn'', JStr (lc_BindDN c)),
       (''bind_password_set'', JBool (lc_BindPasswordSet c)), (''base_dn'', JStr (lc_BaseDN c)),
       (''user_filter'', JStr (lc_UserFilter c)), (''group_filter'', JStr (lc_GroupFilter c)),
       (''username_attr'', JStr (lc_UsernameAttr c)), (''email_attr'', JStr (lc_EmailAttr c)),
       (''default_role'', JStr (lc_DefaultRole c))]"

definition saml_config_json :: "saml_config \<Rightarrow> json" where
  "saml_config_json c =
     JObj [(''enabled'', JBool (sc_Enabled c)), (''root_url'', JStr (sc_RootURL c)),
       (''idp_metadata_xml'', JStr (sc_IdPMetadataXML c)), (''idp_metadata_url'', JStr (sc_IdPMetadataURL c)),
       (''entity_id'', JStr (sc_EntityID c)), (''email_attribute'', JStr (sc_EmailAttribute c)),
       (''name_attribute'', JStr (sc_NameAttribute c)), (''group_attribute'', JStr (sc_GroupAttribute c)),
       (''default_role'', JStr (sc_DefaultRole c)), (''sp_cert_set'', JBool (sc_SPCertSet c))]"

definition sync_selection_json :: "sync_selection \<Rightarrow> json" where
  "sync_selection_json s =
     JObj [(''user_dns'', JArr (map JStr (sn_UserDNs s))), (''group_dns'', JArr (map JStr (sn_GroupDNs s)))]"

definition str_map_field :: "(string \<times> string) list \<Rightarrow> string \<Rightarrow> json \<Rightarrow> (string \<times> string) list \<times> bool" where
  "str_map_field d name j =
     (case json_member name j of
        JObj ms \<Rightarrow>
          (fold (\<lambda>(k, v) m. AList.update k (fst (json_string_or [] v)) m) ms d,
           list_all (\<lambda>(k, v). snd (json_string_or [] v)) ms)
      | JNull \<Rightarrow> (d, True)
      | _ \<Rightarrow> (d, False))"

definition tacacs_settings_dec :: "tacacs_settings \<Rightarrow> json \<Rightarrow> tacacs_settings \<times> bool" where
  "tacacs_settings_dec d j =
     (let a = str_map_field (ts_RoleProfiles d) ''role_profiles'' j;
          b = str_map_field (ts_RoleMemberof d) ''role_memberof'' j;
          c = json_string_or (ts_DefaultMemberof d) (json_member ''default_memberof'' j)
      in (\<lparr>ts_RoleProfiles = fst a, ts_RoleMemberof = fst b, ts_DefaultMemberof = fst c\<rparr>, snd a \<and> snd b \<and> snd c))"

definition tacacs_settings_json :: "tacacs_settings \<Rightarrow> json" where
  "tacacs_settings_json t =
     (let str_map = (\<lambda>m. JObj (map (\<lambda>(k, v). (k, JStr v)) m)) in
      JObj [(''role_profiles'', str_map (ts_RoleProfiles t)), (''role_memberof'', str_map (ts_RoleMemberof t)),
        (''default_memberof'', JStr (ts_DefaultMemberof t))])"

definition no_tacacs :: tacacs_settings where
  "no_tacacs = \<lparr>ts_RoleProfiles = [], ts_RoleMemberof = [], ts_DefaultMemberof = []\<rparr>"

definition SettingSetJSON :: "'c auth_env \<Rightarrow> string \<Rightarrow> json \<Rightarrow> pam_db \<Rightarrow> (err + unit) \<times> pam_db" where
  "SettingSetJSON env key j db = SettingSet key (ae_Print env j) db"

text \<open>A setting that is stored: the event says so.\<close>

definition reply_stored :: "event \<Rightarrow> (err + unit) \<times> pam_db \<Rightarrow> auth_answer outcome" where
  "reply_stored ev out = (case out of (Inl e, db) \<Rightarrow> reply (Error 500 e) db | (Inr _, db) \<Rightarrow> (Done ''ok'', [ev], db))"

lemma outcome_db_stored [simp]: "outcome_db (reply_stored ev out) = snd out"
  by (auto simp: reply_stored_def reply_def split: prod.splits sum.splits)

definition h_ldap_get :: "'c auth_env \<Rightarrow> auth_answer handler" where
  "h_ldap_get env args r db = reply (Answer 200 (A_LdapConfig (loadLDAPConfig env db))) db"

definition empty_ldap :: ldap_config where
  "empty_ldap = ldap_DefaultConfig\<lparr>lc_UserFilter := [], lc_GroupFilter := [], lc_UsernameAttr := [], lc_EmailAttr := [],
     lc_DefaultRole := []\<rparr>"

definition ldap_put_dec :: "json \<Rightarrow> (ldap_config \<times> string) \<times> bool" where
  "ldap_put_dec j =
     (let c = ldap_config_dec empty_ldap j; p = str_field ''bind_password'' j in ((fst c, fst p), snd c \<and> snd p))"

definition h_ldap_put :: "'c auth_env \<Rightarrow> ambient \<Rightarrow> auth_answer handler" where
  "h_ldap_put env am args r db =
     with_body ldap_put_dec r db (\<lambda>(cfg, pw).
       let (put, db) = (if pw = [] then (Inr (), db)
             else PutSecret (ae_Vault env) (am_Random am 0) vaultLDAPBindPassword (bytes_of_string pw) None db);
           cfg = (if pw = [] then cfg else cfg\<lparr>lc_BindPasswordSet := True\<rparr>);
           held = (case GetSecret (ae_Vault env) db vaultLDAPBindPassword of Inl _ \<Rightarrow> False | Inr _ \<Rightarrow> True);
           cfg = cfg\<lparr>lc_BindPasswordSet := (lc_BindPasswordSet cfg \<or> held)\<rparr>
       in case put of
            Inl e \<Rightarrow> reply (Error 500 e) db
          | Inr _ \<Rightarrow> reply_stored (auth_event ''ldap.config.updated'' ''info'' [] [] [])
              (SettingSetJSON env settingsKeyLDAP (ldap_config_json cfg) db))"

definition stored_client :: "'c auth_env \<Rightarrow> pam_db \<Rightarrow> ldap_client" where
  "stored_client env db =
     \<lparr>lk_Cfg = loadLDAPConfig env db,
      lk_Password = secret_text (GetSecret (ae_Vault env) db vaultLDAPBindPassword)\<rparr>"

definition h_ldap_test :: "'c auth_env \<Rightarrow> auth_answer handler" where
  "h_ldap_test env args r db =
     reply (Answer 200 (A_LdapTest (case TestConnection (ae_Ldap env) (stored_client env db) of
       Inl e \<Rightarrow> Some e | Inr _ \<Rightarrow> None))) db"

definition h_sync_get :: "'c auth_env \<Rightarrow> auth_answer handler" where
  "h_sync_get env args r db =
     admin_only ''admin required'' r db (reply (Answer 200 (A_Selection (loadLDAPSyncSelection env db))) db)"

definition h_sync_put :: "'c auth_env \<Rightarrow> auth_answer handler" where
  "h_sync_put env args r db =
     admin_only ''admin required'' r db
       (with_body (sync_selection_dec \<lparr>sn_UserDNs = [], sn_GroupDNs = []\<rparr>) r db (\<lambda>sel.
          reply_stored (auth_event ''ldap.sync.selection.updated'' ''info'' [] [] [])
            (SettingSetJSON env settingsKeyLDAPSync (sync_selection_json sel) db)))"

definition h_browse :: "'c auth_env \<Rightarrow> auth_answer handler" where
  "h_browse env args r db =
     admin_only ''admin required'' r db
       (let c = stored_client env db; q = hr_Query r ''q'' in
        if \<not> lc_Enabled (lk_Cfg c) then reply (Error 400 (ErrMsg ''ldap is not enabled'')) db
        else case (if hr_Query r ''type'' = ''groups'' then SearchGroups (ae_Ldap env) c q 100
                   else SearchUsers (ae_Ldap env) c q 100) of
          Inl e \<Rightarrow> reply (Error 502 e) db
        | Inr out \<Rightarrow> reply (Answer 200 (A_Directory out)) db)"

text \<open>\<^verbatim>\<open>executeLDAPSync\<close> fails only with the two errors that the handler answers with 400.\<close>

definition h_sync_run :: "'c auth_env \<Rightarrow> auth_answer handler" where
  "h_sync_run env args r db =
     admin_only ''admin required'' r db
       (case executeLDAPSync env db of
          (Inl e, db) \<Rightarrow>
            reply (Error (if e = errLDAPSyncNothingSelected \<or> e = errLDAPSyncDisabled then 400 else 502) e) db
        | (Inr res, db) \<Rightarrow>
            (Answer 200 (A_Synced res),
             [auth_event ''ldap.sync.completed'' ''info'' [] []
                [(''users'', string_of_nat (sr_UsersSynced res)), (''groups'', string_of_nat (sr_GroupsSynced res))]],
             db))"

section \<open>The identity provider\<close>

definition h_saml_get :: "'c auth_env \<Rightarrow> auth_answer handler" where
  "h_saml_get env args r db = reply (Answer 200 (A_SamlConfig (loadSAMLConfig env db))) db"

definition empty_saml :: saml_config where
  "empty_saml = saml_DefaultConfig\<lparr>sc_EmailAttribute := [], sc_NameAttribute := [], sc_GroupAttribute := [],
     sc_DefaultRole := []\<rparr>"

text \<open>The key pair that the first save of an enabled configuration makes.\<close>

definition ensure_keypair :: "'c auth_env \<Rightarrow> ambient \<Rightarrow> pam_db \<Rightarrow> (err + unit) \<times> pam_db" where
  "ensure_keypair env am db =
     (case GetSecret (ae_Vault env) db vaultSAMLCert of
        Inr _ \<Rightarrow> (Inr (), db)
      | Inl _ \<Rightarrow>
          (case am_Keypair am of
             Inl e \<Rightarrow> (Inl e, db)
           | Inr (cert, key) \<Rightarrow>
               (case PutSecret (ae_Vault env) (am_Random am 0) vaultSAMLCert cert None db of
                  (Inl e, db) \<Rightarrow> (Inl e, db)
                | (Inr _, db) \<Rightarrow> PutSecret (ae_Vault env) (am_Random am 1) vaultSAMLKey key None db)))"

definition h_saml_put :: "'c auth_env \<Rightarrow> ambient \<Rightarrow> auth_answer handler" where
  "h_saml_put env am args r db =
     with_body (saml_config_dec empty_saml) r db (\<lambda>cfg.
       if sc_Enabled cfg \<and> sc_RootURL cfg = []
       then reply (Error 400 (ErrMsg ''root_url is required when SAML is enabled'')) db
       else case (if sc_Enabled cfg then ensure_keypair env am db else (Inr (), db)) of
         (Inl e, db) \<Rightarrow> reply (Error 500 e) db
       | (Inr _, db) \<Rightarrow>
           reply_stored (auth_event ''saml.config.updated'' ''info'' [] [] [])
             (SettingSetJSON env settingsKeySAML
               (saml_config_json (if sc_Enabled cfg then cfg\<lparr>sc_SPCertSet := True\<rparr> else cfg)) db))"

definition h_saml_metadata :: "'c auth_env \<Rightarrow> auth_answer handler" where
  "h_saml_metadata env args r db =
     reply (case buildSAMLProvider env db of
        Inl e \<Rightarrow> Error 503 e
      | Inr cfg \<Rightarrow> (case ae_SAMLMetadata env cfg of Inl e \<Rightarrow> Error 500 e | Inr md \<Rightarrow> Answer 200 (A_Metadata md))) db"

definition h_saml_login :: "'c auth_env \<Rightarrow> auth_answer handler" where
  "h_saml_login env args r db =
     reply (case buildSAMLProvider env db of
        Inl e \<Rightarrow> Error 503 e
      | Inr cfg \<Rightarrow>
          (case ae_SAMLRequest env cfg (hr_Query r ''next'') of
             Inl e \<Rightarrow> Error 500 e | Inr u \<Rightarrow> Answer 302 (A_Redirect u))) db"

definition h_saml_acs :: "'c auth_env \<Rightarrow> ambient \<Rightarrow> auth_answer handler" where
  "h_saml_acs env am args r db = lift_answer A_SignedIn (samlACSHandler env (am_SAMLForm am) (am_SAMLParsed am) db)"

definition h_sso_status :: "'c auth_env \<Rightarrow> auth_answer handler" where
  "h_sso_status env args r db =
     (let s = loadSAMLConfig env db
      in reply (Answer 200 (A_SSO (sc_Enabled s \<and> sc_IdPMetadataXML s \<noteq> [] \<and> sc_SPCertSet s))) db)"

definition h_tacacs_get :: "'c auth_env \<Rightarrow> auth_answer handler" where
  "h_tacacs_get env args r db =
     (case SettingGetJSON (unmarshal env tacacs_settings_dec) db settingsKeyTACACS no_tacacs of
        (Inl e, _) \<Rightarrow> reply (Error 500 e) db
      | (Inr _, cfg) \<Rightarrow> reply (Answer 200 (A_Tacacs cfg)) db)"

definition h_tacacs_put :: "'c auth_env \<Rightarrow> auth_answer handler" where
  "h_tacacs_put env args r db =
     admin_only ''admin role required'' r db
       (with_body (tacacs_settings_dec no_tacacs) r db (\<lambda>cfg.
          reply_stored (auth_event ''tacacs.config.updated'' ''info'' [] []
              [(''roles'', string_of_nat (length (ts_RoleProfiles cfg)) @ '' mapped'')])
            (SettingSetJSON env settingsKeyTACACS (tacacs_settings_json cfg) db)))"

definition h_settings :: "auth_answer handler" where
  "h_settings args r db = reply_read A_Settings (SettingAll db) db"

definition h_setting_put :: "auth_answer handler" where
  "h_setting_put args r db =
     (if has_prefix (arg 0 args) ''_'' then reply (Error 400 (ErrMsg ''reserved key'')) db
      else with_body (str_field ''value'') r db (\<lambda>v.
        case SettingSet (arg 0 args) v db of
          (Inl e, db) \<Rightarrow> reply (Error 500 e) db
        | (Inr _, db) \<Rightarrow> reply (Done ''ok'') db))"

end
