(* ===== verification/AuthRoutes.thy ===== *)
theory AuthRoutes
  imports AuthApi
begin

text \<open>
  The routes of the auth-service for safes, accounts, launches, sessions, applications, reports and alerts, the artifacts
  of a native RDP session (\<^verbatim>\<open>internal/rdp/native.go\<close>, \<^verbatim>\<open>launcher.go\<close>), and the table of all its routes
  (\<^verbatim>\<open>cmd/auth-service/main.go\<close>).
\<close>

section \<open>Safes\<close>

definition safe_dec :: "json \<Rightarrow> safe \<times> bool" where
  "safe_dec j =
     (let a = int_field ''id'' j; b = str_field ''name'' j; c = str_field ''description'' j;
          d = bool_field ''cpm_enabled'' j; e = int_field ''rotation_days'' j;
          f = bool_field ''require_dual_control'' j; g = int_field ''created_at'' j;
          h = int_field ''accounts'' j; i = int_field ''members'' j
      in (safe.make (fst a) (fst b) (fst c) (fst d) (fst e) (fst f) (fst g) (fst h) (fst i),
          snd a \<and> snd b \<and> snd c \<and> snd d \<and> snd e \<and> snd f \<and> snd g \<and> snd h \<and> snd i))"

definition h_safes :: "auth_answer handler" where
  "h_safes args r db = reply_read A_Safes (SafeList db) db"

definition h_safe_create :: "auth_answer handler" where
  "h_safe_create args r db =
     with_body safe_dec r db (\<lambda>sf.
       reply_created [auth_event ''safe.create'' ''info'' (sa_Name sf) [] []] (SafeCreate sf db))"

definition h_safe_update :: "auth_answer handler" where
  "h_safe_update args r db =
     with_body safe_dec r db (\<lambda>sf. reply_done ''ok'' [] (SafeUpdate (sf\<lparr>sa_ID := arg_id 0 args\<rparr>) db))"

definition h_safe_delete :: "auth_answer handler" where
  "h_safe_delete args r db = reply_done ''deleted'' [] (SafeDelete (arg_id 0 args) db)"

definition h_safe_members :: "auth_answer handler" where
  "h_safe_members args r db = reply_read A_SafeMembers (SafeListMembers db (arg_id 0 args)) db"

record new_member =
  nm_PrincipalType :: string
  nm_PrincipalID :: int
  nm_Permissions :: string

definition new_member_dec :: "json \<Rightarrow> new_member \<times> bool" where
  "new_member_dec j =
     (let a = str_field ''principal_type'' j; b = int_field ''principal_id'' j;
          c = str_field ''permissions'' j
      in (new_member.make (fst a) (fst b) (fst c),
          snd a \<and> snd b \<and> snd c))"

definition h_safe_member_add :: "auth_answer handler" where
  "h_safe_member_add args r db =
     with_body new_member_dec r db (\<lambda>m.
       reply_done ''ok'' [] (SafeAddMember (arg_id 0 args) (nm_PrincipalType m) (nm_PrincipalID m) (nm_Permissions m) db))"

definition h_safe_member_remove :: "auth_answer handler" where
  "h_safe_member_remove args r db =
     reply_done ''ok'' [] (SafeRemoveMember (arg_id 0 args) (arg 1 args) (arg_id 2 args) db)"

section \<open>Accounts\<close>

definition create_input_dec :: "json \<Rightarrow> create_input \<times> bool" where
  "create_input_dec j =
     (let a = int_field ''safe_id'' j; b = str_field ''name'' j; c = str_field ''username'' j;
          d = opt_int_field ''target_id'' j; e = str_field ''platform'' j; f = str_field ''password'' j;
          g = str_field ''notes'' j
      in (create_input.make (fst a) (fst b) (fst c) (fst d) (fst e) (fst f) (fst g),
          snd a \<and> snd b \<and> snd c \<and> snd d \<and> snd e \<and> snd f \<and> snd g))"

definition account_dec :: "json \<Rightarrow> account \<times> bool" where
  "account_dec j =
     (let a = int_field ''id'' j; b = int_field ''safe_id'' j; c = str_field ''safe_name'' j;
          d = str_field ''name'' j; e = str_field ''username'' j; f = opt_int_field ''target_id'' j;
          g = str_field ''target_name'' j; h = str_field ''platform'' j; i = str_field ''secret_ref'' j;
          k = opt_int_field ''last_rotated'' j; l = opt_int_field ''next_rotation'' j;
          m = str_field ''rotation_status'' j; n = str_field ''rotation_error'' j; p = str_field ''notes'' j;
          q = int_field ''created_at'' j
      in (account.make (fst a) (fst b) (fst c) (fst d) (fst e) (fst f) (fst g) (fst h) (fst i) (fst k) (fst l) (fst m) (fst n) (fst p) (fst q),
          snd a \<and> snd b \<and> snd c \<and> snd d \<and> snd e \<and> snd f \<and> snd g \<and> snd h \<and> snd i \<and> snd k \<and> snd l \<and> snd m \<and> snd n \<and> snd p \<and> snd q))"

definition h_accounts :: "auth_answer handler" where
  "h_accounts args r db = reply_read A_Accounts (AccountList db (parse_int_ignored (hr_Query r ''safe_id''))) db"

definition h_account_create :: "'c auth_env \<Rightarrow> ambient \<Rightarrow> auth_answer handler" where
  "h_account_create env am args r db =
     with_body create_input_dec r db (\<lambda>inp.
       reply_created [auth_event ''account.create'' ''info'' [] (ci_Name inp) []]
         (AccountCreate (ae_Vault env) (am_Random am 0) (am_Random am 1) inp db))"

definition h_account_update :: "auth_answer handler" where
  "h_account_update args r db =
     with_body account_dec r db (\<lambda>a. reply_done ''ok'' [] (AccountUpdate (a\<lparr>ac_ID := arg_id 0 args\<rparr>) db))"

definition h_account_delete :: "auth_answer handler" where
  "h_account_delete args r db = reply_done ''deleted'' [] (AccountDelete (arg_id 0 args) db)"

definition h_account_rotate :: "'c auth_env \<Rightarrow> ambient \<Rightarrow> auth_answer handler" where
  "h_account_rotate env am args r db =
     (let i = arg_id 0 args; actor = default_string ''admin'' (caller_name r) in
      reply_done ''rotated'' [auth_event ''account.rotate'' ''info'' actor (string_of_int i) []]
        (AccountRotate (ae_Vault env) (am_Random am 0) (am_Random am 1) i actor db))"

definition h_account_history :: "auth_answer handler" where
  "h_account_history args r db = reply_read A_Rotations (History db (arg_id 0 args) 50) db"

text \<open>The bodies of the checkout and the launches, whose errors are ignored.\<close>

record reason_input =
  ri_Reason :: string
  ri_BreakGlass :: bool
  ri_PortalPassword :: string

definition reason_input_dec :: "json \<Rightarrow> reason_input \<times> bool" where
  "reason_input_dec j =
     (let a = str_field ''reason'' j; b = bool_field ''break_glass'' j; c = str_field ''portal_password'' j
      in (reason_input.make (fst a) (fst b) (fst c),
          snd a \<and> snd b \<and> snd c))"

definition h_checkout :: "'c auth_env \<Rightarrow> auth_answer handler" where
  "h_checkout env args r db =
     (let i = arg_id 0 args; inp = ReadJSON_ignored reason_input_dec r; glass = ri_BreakGlass inp in
      case Checkout (ae_Vault env) i (caller_uid r) (ri_Reason inp) glass db of
        (Inl e, db) \<Rightarrow> reply (Error 400 e) db
      | (Inr res, db) \<Rightarrow>
          (Answer 200 (A_Checkout res),
           [auth_event ''credential.checkout'' (if glass then ''warn'' else ''info'') (caller_name r) (string_of_int i)
              [(''reason'', ri_Reason inp), (''break_glass'', if glass then ''true'' else ''false'')]], db))"

definition h_checkout_return :: "auth_answer handler" where
  "h_checkout_return args r db = reply_done ''ok'' [] (CheckoutReturn (arg_id 0 args) db)"

definition h_checkouts :: "auth_answer handler" where
  "h_checkouts args r db = reply_read A_Checkouts (ListCheckouts db (parse_int_ignored (hr_Query r ''user_id'')) 100) db"

section \<open>Launches\<close>

text \<open>The status of a failed launch: the kind of machine and the machine itself have their own, a refusal is 403 whatever
  its text adds.\<close>

definition policy_denied :: "err \<Rightarrow> bool" where
  "policy_denied e = (case e of ErrMsg m \<Rightarrow> has_prefix m ErrPolicyDenied | _ \<Rightarrow> False)"

definition launch_status :: "err \<Rightarrow> nat" where
  "launch_status e =
     (if e = ErrTargetNotFound then 404
      else if e = ErrNotRDP \<or> e = ErrNotSSH \<or> e = ErrNotWeb \<or> e = ErrNotDatabase then 400
      else if policy_denied e then 403
      else if e = ErrApprovalRequired \<or> e = ErrDualControl then 403
      else 400)"

definition reply_launch ::
  "(err \<Rightarrow> nat) \<Rightarrow> ('a \<Rightarrow> auth_answer) \<Rightarrow> ('a \<Rightarrow> event) \<Rightarrow> (err + 'a) \<times> pam_db \<Rightarrow> auth_answer outcome" where
  "reply_launch code f ev out =
     (case out of (Inl e, db) \<Rightarrow> reply (Error (code e) e) db | (Inr res, db) \<Rightarrow> (Answer 200 (f res), [ev res], db))"

lemma outcome_db_launch [simp]: "outcome_db (reply_launch code f ev out) = snd out"
  by (auto simp: reply_launch_def reply_def split: prod.splits sum.splits)

definition h_rdp_launch :: "'c auth_env \<Rightarrow> ambient \<Rightarrow> auth_answer handler" where
  "h_rdp_launch env am args r db =
     (let i = arg_id 0 args; inp = ReadJSON_ignored reason_input_dec r in
      reply_launch (\<lambda>e. if e = ErrNoAccountForTarget then 412 else launch_status e) A_Rdp
        (\<lambda>res. auth_event ''rdp.launch'' ''info'' (caller_name r) (string_of_int i)
          [(''session_id'', lr_SessionID res), (''account'', lr_AccountName res),
           (''checkout_id'', string_of_int (lr_CheckoutID res))])
        (rdp_Launch (ae_Vault env) (ae_Launch env) (am_Nano am) (am_Random am 0) i (caller_uid r) (caller_role r)
          (ri_Reason inp) (client_ip r) db))"

definition cached_password :: "'c auth_env \<Rightarrow> pam_db \<Rightarrow> int \<Rightarrow> string" where
  "cached_password env db uid = secret_text (GetSecret (ae_Vault env) db (UserPassthroughKey uid))"

definition h_ssh_launch :: "'c auth_env \<Rightarrow> ambient \<Rightarrow> auth_answer handler" where
  "h_ssh_launch env am args r db =
     (let i = arg_id 0 args; uid = caller_uid r; inp = ReadJSON_ignored reason_input_dec r;
          pw = (if ri_PortalPassword inp = [] \<and> 0 < uid then cached_password env db uid else ri_PortalPassword inp) in
      reply_launch launch_status A_Ssh
        (\<lambda>res. auth_event ''ssh.launch'' ''info'' (caller_name r) (string_of_int i)
          [(''session_id'', ls_SessionID res), (''target'', ls_TargetName res)])
        (ssh_Launch (ae_Vault env) (ae_Launch env) (am_Nano am) (am_Random am 0) (am_Random am 1) (am_Random am 2) i uid
          (caller_role r) (ri_Reason inp) (client_ip r) pw db))"

definition h_web_launch :: "'c auth_env \<Rightarrow> ambient \<Rightarrow> auth_answer handler" where
  "h_web_launch env am args r db =
     (let i = arg_id 0 args; inp = ReadJSON_ignored reason_input_dec r in
      reply_launch launch_status A_Web
        (\<lambda>res. auth_event ''web.launch'' ''info'' (caller_name r) (string_of_int i)
          [(''session_id'', lw_SessionID res), (''target'', lw_TargetName res), (''url'', lw_WebURL res)])
        (web_Launch (ae_Vault env) (lg_BrowserBase (ae_Launch env)) (am_Nano am) (am_Random am 0) i (caller_uid r)
          (caller_role r) (caller_name r) (ri_Reason inp) (client_ip r) db))"

definition h_db_launch :: "'c auth_env \<Rightarrow> ambient \<Rightarrow> auth_answer handler" where
  "h_db_launch env am args r db =
     (let i = arg_id 0 args; inp = ReadJSON_ignored reason_input_dec r in
      reply_launch launch_status A_Db
        (\<lambda>res. auth_event ''db.launch'' ''info'' (caller_name r) (string_of_int i)
          [(''session_id'', ld_SessionID res), (''target'', ld_TargetName res), (''engine'', ld_Engine res),
           (''broker'', ld_BrokerHost res @ '':'' @ string_of_int (ld_BrokerPort res))])
        (db_Launch (ae_Vault env) (ae_Broker env) (am_Nano am) (am_Random am 0) (am_Random am 1) i (caller_uid r)
          (caller_role r) (caller_name r) (ri_Reason inp) (client_ip r) db))"

section \<open>The artifacts of a native RDP session\<close>

record launch_params =
  lp_Host :: string
  lp_Port :: int
  lp_Username :: string
  lp_Name :: string

definition crlf :: string where "crlf = [CHR 0x0D, CHR 0x0A]"

definition BuildRDPFile :: "launch_params \<Rightarrow> string" where
  "BuildRDPFile p =
     (let port = (if lp_Port p \<le> 0 then 3389 else lp_Port p);
          lines =
            [''screen mode id:i:2'', ''use multimon:i:0'', ''session bpp:i:32'', ''compression:i:1'',
             ''keyboardhook:i:2'', ''displayconnectionbar:i:1'',
             ''full address:s:'' @ lp_Host p @ '':'' @ string_of_int port,
             ''audiomode:i:0'', ''redirectprinters:i:0'', ''redirectcomports:i:0'',
             ''redirectsmartcards:i:1'', ''redirectclipboard:i:1'', ''autoreconnection enabled:i:1'',
             ''authentication level:i:2'', ''prompt for credentials:i:0'', ''negotiate security layer:i:1'',
             ''gatewayusagemethod:i:4'', ''gatewaycredentialssource:i:4'']
      in join crlf (lines @ (if lp_Username p \<noteq> [] then [''username:s:'' @ lp_Username p] else [])) @ crlf)"

definition quote_doubled :: "string \<Rightarrow> string" where
  "quote_doubled s = concat (map (\<lambda>c. if c = CHR 0x27 then [c, c] else [c]) s)"

definition BuildLaunchScript :: "launch_params \<Rightarrow> string \<Rightarrow> string \<Rightarrow> string" where
  "BuildLaunchScript p password rdpFile =
     (let tgt = ''TERMSRV/'' @ lp_Host p; rdpFilename = (if rdpFile = [] then lp_Name p @ ''.rdp'' else rdpFile);
          esc = quote_doubled
      in ''# PAM Platform '' @ em_dash @ '' one-time RDP launcher'' @ [CHR 0x0A] @
       ''# Run this script on your Windows workstation, then delete it.'' @ [CHR 0x0A] @
       ''$ErrorActionPreference = '' @ [CHR 0x27] @ ''Stop'' @ [CHR 0x27] @ [CHR 0x0A] @
       ''$target = '' @ [CHR 0x27] @ esc tgt @ [CHR 0x27] @ [CHR 0x0A] @ ''$user = '' @ [CHR 0x27] @
       esc (lp_Username p) @ [CHR 0x27] @ [CHR 0x0A] @ ''$pass = '' @ [CHR 0x27] @ esc password @
       [CHR 0x27] @ [CHR 0x0A] @ ''$rdp = Join-Path $PSScriptRoot '' @ [CHR 0x27] @ esc rdpFilename @
       [CHR 0x27] @ [CHR 0x0A] @ [CHR 0x0A] @ ''Write-Host '' @ [CHR 0x22] @
       ''Injecting short-lived credentials for $user @ '' @ esc (lp_Host p) @ '' ...'' @ [CHR 0x22] @
       [CHR 0x0A] @ ''cmdkey /generic:$target /user:$user /pass:$pass | Out-Null'' @ [CHR 0x0A] @
       ''if (-not (Test-Path $rdp)) { throw '' @ [CHR 0x22] @ ''RDP file not found: $rdp'' @
       [CHR 0x22] @ '' }'' @ [CHR 0x0A] @ ''Start-Process mstsc.exe -ArgumentList $rdp'' @ [CHR 0x0A] @
       ''Write-Host '' @ [CHR 0x22] @
       ''Remote Desktop started. When finished, run: cmdkey /delete:$target'' @ [CHR 0x22] @ [CHR 0x0A])"

abbreviation Native_Session :: sql_stmt where "Native_Session \<equiv> Stmt ''rdp.native session''"
abbreviation Native_User :: sql_stmt where "Native_User \<equiv> Stmt ''rdp.native user''"

definition NativeArtifactsForSession :: "vault \<Rightarrow> pam_db \<Rightarrow> string \<Rightarrow> int \<Rightarrow> err + native_artifacts" where
  "NativeArtifactsForSession v db sessionID userID =
     (if faults db Native_Session then Inl (ErrSql Native_Session)
      else case row_by ss_id sessionID (filter (\<lambda>s. ss_protocol s = ''rdp'') (sessions db)) of
        None \<Rightarrow> Inl (ErrMsg ''session not found'')
      | Some s \<Rightarrow>
          (case row_by t_id (ss_target_id s) (targets db) of
             None \<Rightarrow> Inl (ErrMsg ''session not found'')
           | Some t \<Rightarrow>
               if ss_user_id s \<noteq> userID then Inl (ErrMsg ''session belongs to another user'')
               else if ss_ended_at s \<noteq> None then Inl (ErrMsg ''session already ended'')
               else
                 let username = (if faults db Native_User then []
                       else case ss_account_id s of None \<Rightarrow> []
                         | Some a \<Rightarrow> (case row_by pa_id a (privileged_accounts db) of None \<Rightarrow> [] | Some pa \<Rightarrow> pa_username pa));
                     pw = secret_text (GetSecret v db (rdp_SessionSecretName sessionID));
                     p = \<lparr>lp_Host = t_host t, lp_Port = t_port t, lp_Username = username, lp_Name = t_name t\<rparr>;
                     file = (if t_name t = [] then t_host t else t_name t) @ ''.rdp''
                 in if pw = [] then Inl (ErrMsg ''session credentials expired or missing'')
                    else Inr \<lparr>na_RDPFilename = file, na_RDPFile = BuildRDPFile p,
                           na_LaunchScript = BuildLaunchScript p pw file\<rparr>))"

definition h_rdp_native :: "'c auth_env \<Rightarrow> auth_answer handler" where
  "h_rdp_native env args r db =
     (case NativeArtifactsForSession (ae_Vault env) db (arg 0 args) (caller_uid r) of
        Inl e \<Rightarrow> reply (Error 400 e) db
      | Inr out \<Rightarrow> reply (Answer 200 (A_Native out)) db)"

section \<open>Birthright assignments\<close>

abbreviation Birthright_List :: sql_stmt where "Birthright_List \<equiv> Stmt ''birthright.list''"
abbreviation Birthright_Mine :: sql_stmt where "Birthright_Mine \<equiv> Stmt ''birthright.mine''"
abbreviation Birthright_Add :: sql_stmt where "Birthright_Add \<equiv> Stmt ''birthright.add''"
abbreviation Birthright_Remove :: sql_stmt where "Birthright_Remove \<equiv> Stmt ''birthright.remove''"

text \<open>A row that does not scan is left out: \<^verbatim>\<open>granted_by\<close> is scanned into an integer, so a \<^verbatim>\<open>NULL\<close> does not.\<close>

definition birthright_view_of :: "pam_db \<Rightarrow> birthright_row \<Rightarrow> birthright_view option" where
  "birthright_view_of db b =
     (case (row_by u_id (ba_user_id b) (users db), row_by t_id (ba_target_id b) (targets db), ba_granted_by b) of
        (Some u, Some t, Some g) \<Rightarrow>
          Some \<lparr>bv_ID = ba_id b, bv_UserID = ba_user_id b, bv_TargetID = ba_target_id b, bv_GrantedBy = g,
            bv_GrantedAt = ba_granted_at b, bv_Note = ba_note b, bv_Username = u_username u, bv_TargetName = t_name t\<rparr>
      | _ \<Rightarrow> None)"

definition h_birthrights :: "auth_answer handler" where
  "h_birthrights args r db =
     (if faults db Birthright_List then reply (Error 500 (ErrSql Birthright_List)) db
      else reply (Answer 200 (A_Birthrights (List.map_filter (birthright_view_of db)
             (sort_key (\<lambda>b. - ba_granted_at b) (birthright_assignments db))))) db)"

definition h_birthrights_mine :: "auth_answer handler" where
  "h_birthrights_mine args r db =
     (let uid = caller_uid r in
      if faults db Birthright_Mine then reply (Error 500 (ErrSql Birthright_Mine)) db
      else reply (Answer 200 (A_Birthrights (sort_key bv_TargetName (List.map_filter (birthright_view_of db)
             (filter (\<lambda>b. ba_user_id b = uid) (birthright_assignments db)))))) db)"

record birthright_input =
  bi_UserID :: int
  bi_TargetID :: int
  bi_Note :: string

definition birthright_input_dec :: "json \<Rightarrow> birthright_input \<times> bool" where
  "birthright_input_dec j =
     (let a = int_field ''user_id'' j; b = int_field ''target_id'' j; c = str_field ''note'' j
      in (birthright_input.make (fst a) (fst b) (fst c),
          snd a \<and> snd b \<and> snd c))"

text \<open>\<^verbatim>\<open>INSERT ... ON CONFLICT(user_id, target_id) DO UPDATE\<close>.  After an update \<^verbatim>\<open>LastInsertId\<close> is the key that the
  connection inserted last, which is the argument \<open>prev\<close>.\<close>

definition assign_birthright :: "int \<Rightarrow> int \<Rightarrow> birthright_input \<Rightarrow> pam_db \<Rightarrow> (err + int) \<times> pam_db" where
  "assign_birthright prev caller b db =
     (if faults db Birthright_Add then (Inl (ErrSql Birthright_Add), db)
      else if bi_UserID b \<notin> set (map u_id (users db)) \<or> bi_TargetID b \<notin> set (map t_id (targets db)) \<or>
        caller \<notin> set (map u_id (users db)) then (Inl ErrConstraint, db)
      else if list_ex (\<lambda>a. ba_user_id a = bi_UserID b \<and> ba_target_id a = bi_TargetID b) (birthright_assignments db)
      then (Inr prev, db\<lparr>birthright_assignments := update_where
             (\<lambda>a. ba_user_id a = bi_UserID b \<and> ba_target_id a = bi_TargetID b)
             (\<lambda>a. a\<lparr>ba_note := bi_Note b, ba_granted_by := Some caller, ba_granted_at := clock db\<rparr>)
             (birthright_assignments db)\<rparr>)
      else
        let i = next_id T_birthright_assignments db in
        (Inr i, (bump_seq T_birthright_assignments db)\<lparr>birthright_assignments := birthright_assignments db @
          [\<lparr>ba_id = i, ba_user_id = bi_UserID b, ba_target_id = bi_TargetID b, ba_granted_by = Some caller,
            ba_granted_at = clock db, ba_note = bi_Note b\<rparr>]\<rparr>))"

definition h_birthright_add :: "ambient \<Rightarrow> auth_answer handler" where
  "h_birthright_add am args r db =
     admin_only ''admin only'' r db
       (with_body birthright_input_dec r db (\<lambda>b.
          if bi_UserID b = 0 \<or> bi_TargetID b = 0
          then reply (Error 400 (ErrMsg ''user_id and target_id required'')) db
          else case assign_birthright (am_LastInsertId am) (caller_uid r) b db of
            (Inl e, db) \<Rightarrow> reply (Error 500 e) db
          | (Inr i, db) \<Rightarrow> reply (Answer 200 (A_ID i)) db))"

definition h_birthright_remove :: "auth_answer handler" where
  "h_birthright_remove args r db =
     admin_only ''admin only'' r db
       (if faults db Birthright_Remove then reply (Error 500 (ErrSql Birthright_Remove)) db
        else reply (Done ''ok'') (db\<lparr>birthright_assignments :=
               delete_where (\<lambda>b. ba_id b = arg_id 0 args) (birthright_assignments db)\<rparr>))"

section \<open>Web sessions\<close>

abbreviation WebSession_Owner :: sql_stmt where "WebSession_Owner \<equiv> Stmt ''websession.owner''"
abbreviation WebSession_Info :: sql_stmt where "WebSession_Info \<equiv> Stmt ''websession.info''"

definition h_web_session_end :: "auth_answer handler" where
  "h_web_session_end args r db =
     (let sid = arg 0 args; uid = caller_uid r; inp = ReadJSON_ignored reason_input_dec r in
      case (if faults db WebSession_Owner then None else row_by ss_id sid (sessions db)) of
        None \<Rightarrow> reply (Error 404 (ErrMsg ''session not found'')) db
      | Some s \<Rightarrow>
          if ss_protocol s \<noteq> ''web'' then reply (Error 400 (ErrMsg ''not a web session'')) db
          else if caller_role r \<noteq> ''admin'' \<and> (uid \<le> 0 \<or> ss_user_id s \<noteq> uid)
          then reply (Error 403 (ErrMsg ''session belongs to another user'')) db
          else case EndSession True sid (default_string ''closed'' (ri_Reason inp)) db of
            (Inl e, db) \<Rightarrow> reply (Error 500 e) db
          | (Inr ended, db) \<Rightarrow>
              if \<not> ended then reply (Error 409 (ErrMsg ''session already ended'')) db
              else reply (Done ''ended'') db)"

definition isFortinetKind :: "string \<Rightarrow> bool" where
  "isFortinetKind kind = str_contains (to_lower (trim_space kind)) ''forti''"

definition AuthHint :: "web_creds \<Rightarrow> bool \<Rightarrow> string" where
  "AuthHint c hasAccount =
     (if isFortinetKind (wc_TargetKind c) then
        (if hasAccount then
           ''FortiGate: PAM logs in with the linked privileged account automatically (form login, not TACACS).''
         else if wc_PortalUsername c \<noteq> [] then
           (if wc_PortalPassword c \<noteq> [] then
              ''FortiGate uses TACACS to PAM. Enter MFA (if enrolled) and click Login via PAM '' @ em_dash @
              '' PAM logs in server-side (same as diagnose test authserver). Do not use the FortiGate form Login '' @
              ''button. TACACS must have authorization enable and PAP auth type.''
            else
              ''FortiGate uses TACACS to PAM. Username is prefilled. Password = your portal password + 6-digit MFA '' @
              ''(no space). FortiGate TACACS must have authorization enable and PAP auth type.'')
         else
           ''FortiGate uses TACACS to PAM for GUI login. Use your PAM portal username; password + MFA appended with '' @
           ''no space.'')
      else if hasAccount then ''Credentials are injected automatically.''
      else ''Log in manually or link a privileged account in PAM for auto-login.'')"

definition no_web_creds :: web_creds where
  "no_web_creds = \<lparr>wc_Username = [], wc_Password = [], wc_TargetURL = [], wc_TargetKind = [], wc_PortalUsername = [],
     wc_PortalPassword = []\<rparr>"

definition h_web_session :: "'c auth_env \<Rightarrow> auth_answer handler" where
  "h_web_session env args r db =
     (let sid = arg 0 args; uid = caller_uid r;
          row = (if faults db WebSession_Info then None else case row_by ss_id sid (sessions db) of None \<Rightarrow> None
            | Some s \<Rightarrow> (case row_by t_id (ss_target_id s) (targets db) of None \<Rightarrow> None | Some t \<Rightarrow> Some (s, t)))
      in case row of
           None \<Rightarrow> reply (Error 404 (ErrMsg ''session not found'')) db
         | Some (s, t) \<Rightarrow>
             if 0 < uid \<and> ss_user_id s \<noteq> uid then reply (Error 403 (ErrMsg ''session belongs to another user'')) db
             else
               let creds = (case web_LoadSessionCreds (ae_Vault env) db sid of Inl _ \<Rightarrow> no_web_creds | Inr c \<Rightarrow> c)
               in reply (Answer 200 (A_WebSession
                    \<lparr>wi_SessionID = sid, wi_TargetName = t_name t, wi_WebURL = t_web_url t,
                     wi_TargetKind = (if trim_space (wc_TargetKind creds) = [] then t_kind t else wc_TargetKind creds),
                     wi_Creds = creds,
                     wi_AuthHint = AuthHint creds (wc_Username creds \<noteq> [] \<and> wc_Password creds \<noteq> []),
                     wi_Active = (ss_ended_at s = None)\<rparr>)) db)"

section \<open>Applications\<close>

definition app_dec :: "json \<Rightarrow> app \<times> bool" where
  "app_dec j =
     (let a = int_field ''id'' j; b = str_field ''name'' j; c = opt_int_field ''safe_id'' j;
          d = str_field ''safe_name'' j; e = str_field ''allowed_accounts'' j;
          f = str_field ''client_ip_allow'' j; g = bool_field ''enabled'' j;
          h = opt_int_field ''last_used'' j; i = int_field ''created_at'' j
      in (app.make (fst a) (fst b) (fst c) (fst d) (fst e) (fst f) (fst g) (fst h) (fst i),
          snd a \<and> snd b \<and> snd c \<and> snd d \<and> snd e \<and> snd f \<and> snd g \<and> snd h \<and> snd i))"

definition h_apps :: "auth_answer handler" where
  "h_apps args r db = reply_read A_Apps (AppList db) db"

definition h_app_create :: "ambient \<Rightarrow> auth_answer handler" where
  "h_app_create am args r db =
     with_body app_dec r db (\<lambda>a.
       case AppCreate (am_Random am 0) a db of
         (Inl e, db) \<Rightarrow> reply (Error 400 e) db
       | (Inr res, db) \<Rightarrow> (Answer 201 (A_App res), [auth_event ''app.create'' ''info'' (ax_Name a) [] []], db))"

definition h_app_update :: "auth_answer handler" where
  "h_app_update args r db =
     with_body app_dec r db (\<lambda>a. reply_done ''ok'' [] (AppUpdate (a\<lparr>ax_ID := arg_id 0 args\<rparr>) db))"

definition h_app_rotate :: "ambient \<Rightarrow> auth_answer handler" where
  "h_app_rotate am args r db =
     (case AppRotate (am_Random am 0) (arg_id 0 args) db of
        (Inl e, db) \<Rightarrow> reply (Error 400 e) db
      | (Inr res, db) \<Rightarrow>
          (Answer 200 (A_App res), [auth_event ''app.rotate'' ''warn'' [] (string_of_int (arg_id 0 args)) []], db))"

definition h_app_delete :: "auth_answer handler" where
  "h_app_delete args r db = reply_done ''deleted'' [] (AppDelete (arg_id 0 args) db)"

section \<open>Reports and alerts\<close>

definition h_report_summary :: "auth_answer handler" where
  "h_report_summary args r db = reply (Answer 200 (A_Summary (report_Summary db))) db"

definition h_report_access :: "auth_answer handler" where
  "h_report_access args r db = reply_read A_Access (AccessByUser (parse_int_ignored (hr_Query r ''days'')) db) db"

definition h_report_ages :: "auth_answer handler" where
  "h_report_ages args r db = reply_read A_Ages (PasswordAge db) db"

definition h_alerts :: "auth_answer handler" where
  "h_alerts args r db = reply_read A_Alerts (AlertList 200 (hr_Query r ''all'' = ''1'') db) db"

definition h_alert_ack :: "auth_answer handler" where
  "h_alert_ack args r db = reply_done ''ok'' [] (Acknowledge (arg_id 0 args) db)"

section \<open>The table\<close>

definition auth_routes :: "'c auth_env \<Rightarrow> ambient \<Rightarrow> (string \<times> seg list \<times> auth_answer handler) list" where
  "auth_routes env am =
     [(''POST'', [Lit ''login''], h_login env am),
      (''POST'', [Lit ''verify''], h_verify env),
      (''GET'', [Lit ''users''], h_users),
      (''POST'', [Lit ''users''], h_user_create env am),
      (''PUT'', [Lit ''users'', Wild], h_user_update env am),
      (''DELETE'', [Lit ''users'', Wild], h_user_delete),
      (''GET'', [Lit ''groups''], h_groups),
      (''POST'', [Lit ''groups''], h_group_create),
      (''PUT'', [Lit ''groups'', Wild], h_group_update),
      (''DELETE'', [Lit ''groups'', Wild], h_group_delete),
      (''GET'', [Lit ''groups'', Wild, Lit ''members''], h_group_members),
      (''POST'', [Lit ''groups'', Wild, Lit ''members''], h_member_add),
      (''DELETE'', [Lit ''groups'', Wild, Lit ''members'', Wild], h_member_remove),
      (''GET'', [Lit ''users'', Wild, Lit ''groups''], h_user_groups),
      (''GET'', [Lit ''roles''], h_roles),
      (''POST'', [Lit ''roles''], h_role_create),
      (''PUT'', [Lit ''roles'', Wild], h_role_update),
      (''DELETE'', [Lit ''roles'', Wild], h_role_delete),
      (''GET'', [Lit ''users'', Wild, Lit ''effective-roles''], h_effective_roles),
      (''POST'', [Lit ''users'', Wild, Lit ''mfa'', Lit ''enroll''], h_mfa_enroll env am),
      (''POST'', [Lit ''users'', Wild, Lit ''mfa'', Lit ''verify''], h_mfa_verify env),
      (''POST'', [Lit ''users'', Wild, Lit ''mfa'', Lit ''check''], h_mfa_check),
      (''DELETE'', [Lit ''users'', Wild, Lit ''mfa''], h_mfa_disable),
      (''POST'', [Lit ''users'', Wild, Lit ''mfa'', Lit ''reset''], h_mfa_reset),
      (''GET'', [Lit ''settings'', Lit ''ldap''], h_ldap_get env),
      (''PUT'', [Lit ''settings'', Lit ''ldap''], h_ldap_put env am),
      (''POST'', [Lit ''settings'', Lit ''ldap'', Lit ''test''], h_ldap_test env),
      (''GET'', [Lit ''settings'', Lit ''ldap'', Lit ''sync''], h_sync_get env),
      (''PUT'', [Lit ''settings'', Lit ''ldap'', Lit ''sync''], h_sync_put env),
      (''GET'', [Lit ''settings'', Lit ''ldap'', Lit ''browse''], h_browse env),
      (''POST'', [Lit ''settings'', Lit ''ldap'', Lit ''sync'', Lit ''run''], h_sync_run env),
      (''GET'', [Lit ''settings'', Lit ''saml''], h_saml_get env),
      (''PUT'', [Lit ''settings'', Lit ''saml''], h_saml_put env am),
      (''GET'', [Lit ''saml'', Lit ''metadata''], h_saml_metadata env),
      (''GET'', [Lit ''saml'', Lit ''login''], h_saml_login env),
      (''POST'', [Lit ''saml'', Lit ''acs''], h_saml_acs env am),
      (''GET'', [Lit ''sso'', Lit ''status''], h_sso_status env),
      (''GET'', [Lit ''settings'', Lit ''tacacs''], h_tacacs_get env),
      (''PUT'', [Lit ''settings'', Lit ''tacacs''], h_tacacs_put env),
      (''GET'', [Lit ''settings''], h_settings),
      (''PUT'', [Lit ''settings'', Wild], h_setting_put),
      (''GET'', [Lit ''safes''], h_safes),
      (''POST'', [Lit ''safes''], h_safe_create),
      (''PUT'', [Lit ''safes'', Wild], h_safe_update),
      (''DELETE'', [Lit ''safes'', Wild], h_safe_delete),
      (''GET'', [Lit ''safes'', Wild, Lit ''members''], h_safe_members),
      (''POST'', [Lit ''safes'', Wild, Lit ''members''], h_safe_member_add),
      (''DELETE'', [Lit ''safes'', Wild, Lit ''members'', Wild, Wild], h_safe_member_remove),
      (''GET'', [Lit ''accounts''], h_accounts),
      (''POST'', [Lit ''accounts''], h_account_create env am),
      (''PUT'', [Lit ''accounts'', Wild], h_account_update),
      (''DELETE'', [Lit ''accounts'', Wild], h_account_delete),
      (''POST'', [Lit ''accounts'', Wild, Lit ''rotate''], h_account_rotate env am),
      (''GET'', [Lit ''accounts'', Wild, Lit ''history''], h_account_history),
      (''POST'', [Lit ''accounts'', Wild, Lit ''checkout''], h_checkout env),
      (''POST'', [Lit ''checkouts'', Wild, Lit ''return''], h_checkout_return),
      (''GET'', [Lit ''checkouts''], h_checkouts),
      (''POST'', [Lit ''targets'', Wild, Lit ''rdp-launch''], h_rdp_launch env am),
      (''GET'', [Lit ''sessions'', Wild, Lit ''rdp-native''], h_rdp_native env),
      (''GET'', [Lit ''birthright''], h_birthrights),
      (''GET'', [Lit ''birthright'', Lit ''mine''], h_birthrights_mine),
      (''POST'', [Lit ''birthright''], h_birthright_add am),
      (''DELETE'', [Lit ''birthright'', Wild], h_birthright_remove),
      (''POST'', [Lit ''targets'', Wild, Lit ''ssh-launch''], h_ssh_launch env am),
      (''POST'', [Lit ''web-session'', Wild, Lit ''end''], h_web_session_end),
      (''GET'', [Lit ''web-session'', Wild], h_web_session env),
      (''POST'', [Lit ''targets'', Wild, Lit ''web-launch''], h_web_launch env am),
      (''POST'', [Lit ''targets'', Wild, Lit ''db-launch''], h_db_launch env am),
      (''GET'', [Lit ''apps''], h_apps),
      (''POST'', [Lit ''apps''], h_app_create am),
      (''PUT'', [Lit ''apps'', Wild], h_app_update),
      (''POST'', [Lit ''apps'', Wild, Lit ''rotate''], h_app_rotate am),
      (''DELETE'', [Lit ''apps'', Wild], h_app_delete),
      (''GET'', [Lit ''reports'', Lit ''summary''], h_report_summary),
      (''GET'', [Lit ''reports'', Lit ''access-by-user''], h_report_access),
      (''GET'', [Lit ''reports'', Lit ''password-age''], h_report_ages),
      (''GET'', [Lit ''alerts''], h_alerts),
      (''POST'', [Lit ''alerts'', Wild, Lit ''ack''], h_alert_ack)]"

definition auth_serve :: "'c auth_env \<Rightarrow> ambient \<Rightarrow> http_request \<Rightarrow> pam_db \<Rightarrow> auth_answer outcome" where
  "auth_serve env am = serve_mux (auth_routes env am)"

end
