(* ===== verification/PolicyService.thy ===== *)
theory PolicyService
  imports Http Launch ApprovalMatrix
begin

text \<open>
  The access profile of a user (\<^verbatim>\<open>internal/policy/profile.go\<close>) and the policy-service
  (\<^verbatim>\<open>cmd/policy-service/main.go\<close>): its routes, the seeded rules and the repair of the first seed.
\<close>

section \<open>The access profile\<close>

record profile_target =
  pt_Target :: target
  pt_Allowed :: bool
  pt_RequireApproval :: bool
  pt_MatrixRule :: string
  pt_ApproverGroups :: "string list"
  pt_RequiredApprovals :: int

record profile_matrix_rule =
  pm_ID :: int
  pm_Name :: string
  pm_TargetKind :: string
  pm_TierMin :: int
  pm_TierMax :: int
  pm_RequiredApprovals :: int
  pm_RequesterGroups :: "string list"
  pm_ApproverGroups :: "string list"

record access_profile =
  ap_PrimaryRole :: string
  ap_Roles :: "string list"
  ap_Groups :: "group list"
  ap_Policies :: "rule list"
  ap_Targets :: "profile_target list"
  ap_MatrixRules :: "profile_matrix_rule list"
  ap_Hints :: "string list"

definition requesterMatches :: "int list \<Rightarrow> int list \<Rightarrow> bool" where
  "requesterMatches ruleGroupIDs userGroupIDs =
     (ruleGroupIDs = [] \<or> list_ex (\<lambda>i. i \<in> set userGroupIDs) ruleGroupIDs)"

definition namesForIDs :: "int list \<Rightarrow> (int \<rightharpoonup> string) \<Rightarrow> string list" where
  "namesForIDs ids nameByID = List.map_filter nameByID ids"

definition buildHints ::
  "string \<Rightarrow> rule list \<Rightarrow> profile_target list \<Rightarrow> profile_matrix_rule list \<Rightarrow> string list" where
  "buildHints primaryRole rules machines matrix =
     (let allowed = length (filter pt_Allowed machines) in
      (if rules = [] then
        [''No access policies match your role(s). Ask an admin to create a policy for role '' @
       [CHR 0x22] @ primaryRole @ [CHR 0x22] @
       '' or add you to a group that grants a role like netops or sysadmin.''] else []) @
      (if rules \<noteq> [] \<and> allowed = 0 then
        [''Policies exist for your role but no registered machines match (check target tier vs '' @
       ''policy tier ceiling). Lower a machine'' @ [CHR 0x27] @
       ''s tier or ask an admin to widen your policy.''] else []) @
      (if 0 < allowed \<and> matrix = [] then
        [''No approval-matrix rules target your groups '' @ em_dash @
       '' any admin (other than you) can approve your requests.''] else []))"

text \<open>The rules of the matrix that apply to the user, and one machine as the user sees it.\<close>

definition profile_rules :: "pam_db \<Rightarrow> (int \<rightharpoonup> string) \<Rightarrow> int list \<Rightarrow> profile_matrix_rule list" where
  "profile_rules db nameByID groupIDs =
     (case MatrixList db of
        Inl _ \<Rightarrow> []
      | Inr rules \<Rightarrow> map (\<lambda>mr.
          \<lparr>pm_ID = mr_ID mr, pm_Name = mr_Name mr, pm_TargetKind = mr_TargetKind mr, pm_TierMin = mr_TierMin mr,
           pm_TierMax = mr_TierMax mr, pm_RequiredApprovals = mr_RequiredApprovals mr,
           pm_RequesterGroups = namesForIDs (mr_RequesterGroupIDs mr) nameByID,
           pm_ApproverGroups = namesForIDs (mr_ApproverGroupIDs mr) nameByID\<rparr>)
          (filter (\<lambda>mr. mr_Enabled mr \<and> requesterMatches (mr_RequesterGroupIDs mr) groupIDs) rules))"

definition profile_machine ::
  "pam_db \<Rightarrow> (int \<rightharpoonup> string) \<Rightarrow> int list \<Rightarrow> int \<Rightarrow> string \<Rightarrow> string list \<Rightarrow> target \<Rightarrow> profile_target option" where
  "profile_machine db nameByID groupIDs userID primaryRole roles t =
     (case Decide db \<lparr>in_UserID = userID, in_Role = primaryRole, in_Roles = roles, in_TargetID = tg_ID t,
         in_TargetKind = tg_Kind t, in_TargetTier = tg_Tier t, in_Action = ''connect''\<rparr> of
        Inl _ \<Rightarrow> None
      | Inr dec \<Rightarrow>
          let pt = \<lparr>pt_Target = t, pt_Allowed = Allow dec, pt_RequireApproval = RequireApproval dec, pt_MatrixRule = [],
                pt_ApproverGroups = [], pt_RequiredApprovals = 0\<rparr>
          in Some (if \<not> Allow dec then pt
               else case FindRule db (tg_Kind t) (tg_Tier t) groupIDs of
                 Inr (Some rule) \<Rightarrow>
                   pt\<lparr>pt_MatrixRule := mr_Name rule, pt_RequiredApprovals := mr_RequiredApprovals rule,
                     pt_ApproverGroups := namesForIDs (mr_ApproverGroupIDs rule) nameByID\<rparr>
               | _ \<Rightarrow> pt\<lparr>pt_RequiredApprovals := 1, pt_ApproverGroups :=
                     [if primaryRole = ''admin'' then ''any admin (not you)'' else ''any admin'']\<rparr>))"

definition ProfileBuild :: "pam_db \<Rightarrow> int \<Rightarrow> string \<Rightarrow> err + access_profile" where
  "ProfileBuild db userID primaryRole =
     (let roles = (case EffectiveRoles db userID primaryRole of
            (roles, None) \<Rightarrow> roles | (_, Some _) \<Rightarrow> [primaryRole]);
          userGroups = (case UserGroups db userID of Inl _ \<Rightarrow> [] | Inr gs \<Rightarrow> gs);
          groupIDs = (case UserGroupIDs db userID of Inl _ \<Rightarrow> [] | Inr gs \<Rightarrow> gs)
      in case ListRules db of
           Inl e \<Rightarrow> Inl e
         | Inr allRules \<Rightarrow>
             let matched = filter (\<lambda>p. ru_Role p \<in> set roles) allRules;
                 nameByID = (case GroupList db of Inl _ \<Rightarrow> Map.empty
                   | Inr gs \<Rightarrow> map_of (rev (map (\<lambda>g. (gr_ID g, gr_Name g)) gs)));
                 matrix = profile_rules db nameByID groupIDs;
                 machines = List.map_filter (profile_machine db nameByID groupIDs userID primaryRole roles)
                   (case TargetList db of Inl _ \<Rightarrow> [] | Inr ts \<Rightarrow> ts)
             in Inr \<lparr>ap_PrimaryRole = primaryRole, ap_Roles = roles, ap_Groups = userGroups, ap_Policies = matched,
                  ap_Targets = machines, ap_MatrixRules = matrix,
                  ap_Hints = buildHints primaryRole matched machines matrix\<rparr>)"

section \<open>Start-up\<close>

text \<open>Role, kind, highest tier, approval, allowed and denied commands.\<close>

type_synonym seed_rule = "string \<times> string \<times> int \<times> int \<times> string \<times> string"

definition seed_rules :: "seed_rule list" where
  "seed_rules =
     [(''admin'', ''*'', 3, 0, '''', ''rm -rf /,format,erase startup-config,write erase''),
      (''netops'', ''cisco'', 1, 1, ''show,configure terminal,interface,ip,ping'', ''reload,erase,write erase,format,delete''),
      (''netops'', ''arista'', 1, 1, ''show,configure,interface,ip,ping'', ''reload,erase,write erase,format,delete''),
      (''netops'', ''juniper'', 1, 1, ''show,set,configure,ping'', ''request system reboot,request system zeroize''),
      (''secops'', ''palo'', 1, 1, ''show,configure,test,ping'', ''reboot,debug system disk-image''),
      (''secops'', ''forti'', 1, 1, ''show,get,config,ping'', ''execute reboot,execute factoryreset''),
      (''sysadmin'', ''linux'', 2, 0, ''sudo,systemctl,journalctl,ls,cat,grep,less,tail'', ''rm -rf /,mkfs,dd if=/dev''),
      (''viewer'', ''*'', 3, 0, ''show,get,cat,ls,grep,ping'', ''*''),
      (''user'', ''*'', 3, 1, ''show,get,cat,ls,grep,ping'', ''reload,erase,reboot,format,delete,rm -rf,shutdown''),
      (''user'', ''cisco'', 2, 1, ''show,ping'', ''configure,reload,erase,write''),
      (''user'', ''linux'', 2, 1, ''ls,cat,grep,less,tail,ping'', ''rm -rf,mkfs,reboot''),
      (''user'', ''windows'', 2, 1, '''', ''format,shutdown'')]"

abbreviation Policy_Count :: sql_stmt where "Policy_Count \<equiv> Stmt ''policies.count''"
abbreviation Policy_CountUser :: sql_stmt where "Policy_CountUser \<equiv> Stmt ''policies.count user''"
abbreviation Policy_Migrate :: sql_stmt where "Policy_Migrate \<equiv> Stmt ''policies.migrate''"
definition Policy_Seed :: "string \<Rightarrow> string \<Rightarrow> sql_stmt" where
  "Policy_Seed role kind = Stmt (''policies.seed '' @ role @ '' '' @ kind)"

text \<open>An insert that fails is logged and skipped; the other columns have their defaults.\<close>

definition insert_seed :: "seed_rule \<Rightarrow> pam_db \<Rightarrow> pam_db" where
  "insert_seed s db =
     (case s of (role, kind, tier, appr, allow, deny) \<Rightarrow>
        if faults db (Policy_Seed role kind) then db
        else (bump_seq T_policies db)\<lparr>policies := policies db @
          [\<lparr>p_id = next_id T_policies db, p_role = role, p_target_kind = kind, p_tier_max = tier,
            p_require_approval = appr, p_allowed_commands = allow, p_denied_commands = deny,
            p_linux_privilege = ''none'', p_cisco_privilege_level = 0\<rparr>]\<rparr>)"

definition seedPolicies :: "pam_db \<Rightarrow> pam_db" where
  "seedPolicies db =
     (if 0 < (if faults db Policy_Count then 0 else length (policies db)) then db
      else fold insert_seed seed_rules db)"

definition ensureUserPolicies :: "pam_db \<Rightarrow> pam_db" where
  "ensureUserPolicies db =
     (if 0 < (if faults db Policy_CountUser then 0 else rows_affected (\<lambda>p. p_role p = ''user'') (policies db)) then db
      else fold insert_seed (filter (\<lambda>s. fst s = ''user'') seed_rules) db)"

definition migrateAdminTierMax :: "pam_db \<Rightarrow> pam_db" where
  "migrateAdminTierMax db =
     (if faults db Policy_Migrate then db
      else db\<lparr>policies := update_where (\<lambda>p. p_role p = ''admin'' \<and> p_target_kind p = ''*'' \<and> p_tier_max p < 3)
             (\<lambda>p. p\<lparr>p_tier_max := 3\<rparr>) (policies db)\<rparr>)"

definition policy_startup :: "pam_db \<Rightarrow> pam_db" where
  "policy_startup db = migrateAdminTierMax (ensureUserPolicies (seedPolicies db))"

section \<open>Routes\<close>

datatype (plugins only: code size) policy_answer =
    P_Profile access_profile
  | P_Decision decision
  | P_Allowed bool
  | P_Rules "rule list"
  | P_Targets "target list"
  | P_Locations "location list"

abbreviation Profile_Role :: sql_stmt where "Profile_Role \<equiv> Stmt ''profile.role''"

definition h_access_profile :: "policy_answer handler" where
  "h_access_profile args r db =
     (case parse_int64 (hr_Header r ''X-PAM-UID'') of
        None \<Rightarrow> reply (Error 401 (ErrMsg ''missing caller identity'')) db
      | Some uid \<Rightarrow>
          if uid \<le> 0 then reply (Error 401 (ErrMsg ''missing caller identity'')) db
          else
            let role = (if caller_role r \<noteq> [] \<or> faults db Profile_Role then caller_role r
                  else case row_by u_id uid (users db) of None \<Rightarrow> [] | Some u \<Rightarrow> u_role u)
            in reply_read P_Profile (ProfileBuild db uid role) db)"

definition policy_input_dec :: "json \<Rightarrow> policy_input \<times> bool" where
  "policy_input_dec j =
     (let a = int_field ''user_id'' j; b = str_field ''role'' j; c = str_list_field ''roles'' j;
          d = int_field ''target_id'' j; e = str_field ''target_kind'' j; f = int_field ''target_tier'' j;
          g = str_field ''action'' j
      in (policy_input.make (fst a) (fst b) (fst c) (fst d) (fst e) (fst f) (fst g),
          snd a \<and> snd b \<and> snd c \<and> snd d \<and> snd e \<and> snd f \<and> snd g))"

definition h_decide :: "policy_answer handler" where
  "h_decide args r db =
     with_body policy_input_dec r db (\<lambda>inp.
       let inp = (if in_Roles inp = [] \<and> 0 < in_UserID inp
             then (case EffectiveRoles db (in_UserID inp) (in_Role inp) of
                     (roles, None) \<Rightarrow> inp\<lparr>in_Roles := roles\<rparr> | (_, Some _) \<Rightarrow> inp)
             else inp)
       in reply_read P_Decision (Decide db inp) db)"

record cmd_check =
  cc_Command :: string
  cc_Allow :: "string list"
  cc_Deny :: "string list"

definition cmd_check_dec :: "json \<Rightarrow> cmd_check \<times> bool" where
  "cmd_check_dec j =
     (let a = str_field ''command'' j; b = str_list_field ''allow'' j; c = str_list_field ''deny'' j
      in (cmd_check.make (fst a) (fst b) (fst c),
          snd a \<and> snd b \<and> snd c))"

definition h_cmd_check :: "policy_answer handler" where
  "h_cmd_check args r db =
     with_body cmd_check_dec r db (\<lambda>c.
       reply (Answer 200 (P_Allowed (CommandAllowed (cc_Command c) (cc_Allow c) (cc_Deny c)))) db)"

definition rule_dec :: "json \<Rightarrow> rule \<times> bool" where
  "rule_dec j =
     (let a = int_field ''id'' j; b = str_field ''role'' j; c = str_field ''target_kind'' j;
          d = int_field ''tier_max'' j; e = bool_field ''require_approval'' j;
          f = str_field ''allowed_commands'' j; g = str_field ''denied_commands'' j;
          h = str_field ''linux_privilege'' j; i = int_field ''cisco_privilege_level'' j
      in (rule.make (fst a) (fst b) (fst c) (fst d) (fst e) (fst f) (fst g) (fst h) (fst i),
          snd a \<and> snd b \<and> snd c \<and> snd d \<and> snd e \<and> snd f \<and> snd g \<and> snd h \<and> snd i))"

definition h_policies :: "policy_answer handler" where
  "h_policies args r db = reply_read P_Rules (ListRules db) db"

definition h_policy_create :: "policy_answer handler" where
  "h_policy_create args r db = with_body rule_dec r db (\<lambda>ru. reply_created [] (CreateRule ru db))"

definition h_policy_update :: "policy_answer handler" where
  "h_policy_update args r db =
     with_body rule_dec r db (\<lambda>ru. reply_done ''ok'' [] (UpdateRule (ru\<lparr>ru_ID := arg_id 0 args\<rparr>) db))"

definition h_policy_delete :: "policy_answer handler" where
  "h_policy_delete args r db = reply_done ''deleted'' [] (DeleteRule (arg_id 0 args) db)"

text \<open>\<open>host_of\<close> is the parser of web addresses of the inventory.\<close>

definition target_dec :: "json \<Rightarrow> target \<times> bool" where
  "target_dec j =
     (let a = int_field ''id'' j; b = str_field ''name'' j; c = str_field ''kind'' j;
          d = str_field ''vendor'' j; e = str_field ''os_version'' j; f = str_field ''connection_type'' j;
          g = str_field ''host'' j; h = int_field ''port'' j; i = str_field ''web_url'' j;
          k = str_field ''db_name'' j; l = int_field ''tier'' j; m = str_field ''tags'' j;
          n = int_field ''location_id'' j; p = str_field ''location_name'' j
      in (target.make (fst a) (fst b) (fst c) (fst d) (fst e) (fst f) (fst g) (fst h) (fst i) (fst k) (fst l) (fst m) (fst n) (fst p),
          snd a \<and> snd b \<and> snd c \<and> snd d \<and> snd e \<and> snd f \<and> snd g \<and> snd h \<and> snd i \<and> snd k \<and> snd l \<and> snd m \<and> snd n \<and> snd p))"

definition h_targets :: "policy_answer handler" where
  "h_targets args r db = reply_read P_Targets (TargetList db) db"

definition h_target_create :: "(string \<Rightarrow> string) \<Rightarrow> policy_answer handler" where
  "h_target_create host_of args r db = with_body target_dec r db (\<lambda>t. reply_created [] (TargetCreate host_of t db))"

definition h_target_update :: "(string \<Rightarrow> string) \<Rightarrow> policy_answer handler" where
  "h_target_update host_of args r db =
     with_body target_dec r db (\<lambda>t. reply_done ''ok'' [] (TargetUpdate host_of (t\<lparr>tg_ID := arg_id 0 args\<rparr>) db))"

definition h_target_delete :: "policy_answer handler" where
  "h_target_delete args r db = reply_done ''deleted'' [] (TargetDelete (arg_id 0 args) db)"

definition location_dec :: "json \<Rightarrow> location \<times> bool" where
  "location_dec j =
     (let a = int_field ''id'' j; b = str_field ''name'' j; c = str_field ''description'' j;
          d = int_field ''sort_order'' j
      in (location.make (fst a) (fst b) (fst c) (fst d),
          snd a \<and> snd b \<and> snd c \<and> snd d))"

definition h_locations :: "policy_answer handler" where
  "h_locations args r db = reply_read P_Locations (ListLocations db) db"

definition h_location_create :: "policy_answer handler" where
  "h_location_create args r db = with_body location_dec r db (\<lambda>l. reply_created [] (CreateLocation l db))"

definition h_location_update :: "policy_answer handler" where
  "h_location_update args r db =
     with_body location_dec r db (\<lambda>l. reply_done ''ok'' [] (UpdateLocation (l\<lparr>lc_ID := arg_id 0 args\<rparr>) db))"

definition h_location_delete :: "policy_answer handler" where
  "h_location_delete args r db = reply_done ''deleted'' [] (DeleteLocation (arg_id 0 args) db)"

definition policy_routes :: "(string \<Rightarrow> string) \<Rightarrow> (string \<times> seg list \<times> policy_answer handler) list" where
  "policy_routes host_of =
     [(''GET'', [Lit ''access-profile''], h_access_profile),
      (''POST'', [Lit ''decide''], h_decide),
      (''POST'', [Lit ''cmd-check''], h_cmd_check),
      (''GET'', [Lit ''policies''], h_policies),
      (''POST'', [Lit ''policies''], h_policy_create),
      (''PUT'', [Lit ''policies'', Wild], h_policy_update),
      (''DELETE'', [Lit ''policies'', Wild], h_policy_delete),
      (''GET'', [Lit ''targets''], h_targets),
      (''POST'', [Lit ''targets''], h_target_create host_of),
      (''PUT'', [Lit ''targets'', Wild], h_target_update host_of),
      (''DELETE'', [Lit ''targets'', Wild], h_target_delete),
      (''GET'', [Lit ''locations''], h_locations),
      (''POST'', [Lit ''locations''], h_location_create),
      (''PUT'', [Lit ''locations'', Wild], h_location_update),
      (''DELETE'', [Lit ''locations'', Wild], h_location_delete)]"

definition policy_serve :: "(string \<Rightarrow> string) \<Rightarrow> http_request \<Rightarrow> pam_db \<Rightarrow> policy_answer outcome" where
  "policy_serve host_of = serve_mux (policy_routes host_of)"

end
