(* ===== verification/ApprovalService.thy ===== *)
theory ApprovalService
  imports Http Launch ApprovalMatrix
begin

text \<open>
  The approval-service (\<^verbatim>\<open>cmd/approval-service/main.go\<close>): the identity of the caller, the routes of requests and of
  the approval matrix, and the repair at its start.
\<close>

section \<open>Identity\<close>

definition callerIdentity :: "http_request \<Rightarrow> (int \<times> string) option" where
  "callerIdentity r =
     (case parse_int64 (hr_Header r ''X-PAM-UID'') of
        None \<Rightarrow> None
      | Some uid \<Rightarrow> if uid \<le> 0 then None else Some (uid, caller_role r))"

definition identified :: "http_request \<Rightarrow> pam_db \<Rightarrow> (int \<Rightarrow> string \<Rightarrow> 'p outcome) \<Rightarrow> 'p outcome" where
  "identified r db k =
     (case callerIdentity r of
        None \<Rightarrow> reply (Error 401 (ErrMsg ''missing caller identity'')) db
      | Some (uid, role) \<Rightarrow> k uid role)"

definition identified_admin :: "string \<Rightarrow> http_request \<Rightarrow> pam_db \<Rightarrow> (int \<Rightarrow> 'p outcome) \<Rightarrow> 'p outcome" where
  "identified_admin msg r db k =
     (case callerIdentity r of
        None \<Rightarrow> reply (Error 403 (ErrMsg msg)) db
      | Some (uid, role) \<Rightarrow> if role \<noteq> ''admin'' then reply (Error 403 (ErrMsg msg)) db else k uid)"

lemma identified_keeps:
  assumes "\<And>uid role. P (outcome_db (k uid role))" "P db"
  shows "P (outcome_db (identified r db k))"
  using assms by (auto simp: identified_def split: option.splits)

lemma identified_admin_keeps:
  assumes "\<And>uid. caller_role r = ''admin'' \<Longrightarrow> P (outcome_db (k uid))" "P db"
  shows "P (outcome_db (identified_admin msg r db k))"
  using assms by (auto simp: identified_admin_def callerIdentity_def split: option.splits if_splits)

section \<open>Start-up\<close>

abbreviation Sudo_Backfill :: sql_stmt where "Sudo_Backfill \<equiv> Stmt ''sudo.backfill''"

definition backfill_sudo :: "pam_db \<Rightarrow> pam_db" where
  "backfill_sudo db =
     (if faults db Sudo_Backfill then db
      else db\<lparr>access_requests := update_where
             (\<lambda>r. ar_status r = ''approved'' \<and> ar_sudo_requested r = 1 \<and> ar_sudo_granted r = 0)
             (\<lambda>r. r\<lparr>ar_sudo_granted := 1\<rparr>) (access_requests db)\<rparr>)"

section \<open>Routes\<close>

text \<open>The service with its matrix and its groups, as \<^verbatim>\<open>main\<close> builds it.\<close>

definition approval_service :: service where
  "approval_service = \<lparr>sv_Matrix = True, sv_GroupMembers = Some UserGroupIDs\<rparr>"

datatype (plugins only: code size) approval_answer =
    Q_Decided decide_result
  | Q_Sudo bool
  | Q_Views "request_view list"
  | Q_Request request "vote_record list" int
  | Q_Approved bool
  | Q_Rules "matrix_rule list"

record request_input =
  rp_TargetID :: int
  rp_Reason :: string
  rp_TTLSeconds :: int
  rp_SudoRequested :: bool

definition request_input_dec :: "json \<Rightarrow> request_input \<times> bool" where
  "request_input_dec j =
     (let a = int_field ''target_id'' j; b = str_field ''reason'' j; c = int_field ''ttl_seconds'' j;
          d = bool_field ''sudo_requested'' j
      in (request_input.make (fst a) (fst b) (fst c) (fst d),
          snd a \<and> snd b \<and> snd c \<and> snd d))"

definition h_request_create :: "approval_answer handler" where
  "h_request_create args r db =
     identified r db (\<lambda>uid _. with_body request_input_dec r db (\<lambda>q.
       case ApprovalCreate uid (rp_TargetID q) (rp_Reason q) (wrap64 (rp_TTLSeconds q * 10 ^ 9)) (rp_SudoRequested q) db of
         (Inl e, db) \<Rightarrow> reply (Error 500 e) db
       | (Inr i, db) \<Rightarrow> reply (Created i) db))"

record vote_input =
  vi_Approve :: bool
  vi_Comment :: string

definition vote_input_dec :: "json \<Rightarrow> vote_input \<times> bool" where
  "vote_input_dec j =
     (let a = bool_field ''approve'' j; b = str_field ''comment'' j
      in (vote_input.make (fst a) (fst b),
          snd a \<and> snd b))"

definition h_request_decide :: "approval_answer handler" where
  "h_request_decide args r db =
     identified r db (\<lambda>approver role. with_body vote_input_dec r db (\<lambda>v.
       case ApprovalDecide approval_service (arg_id 0 args) approver role (vi_Approve v) (vi_Comment v) db of
         (Inl e, db) \<Rightarrow>
           reply (Error (if e = ErrSelfApproval \<or> e = ErrNotApprover then 403
             else if e = ErrAlreadyDecided \<or> e = ErrRequestClosed then 409 else 400) e) db
       | (Inr res, db) \<Rightarrow> reply (Answer 200 (Q_Decided res)) db))"

definition h_grant_sudo :: "approval_answer handler" where
  "h_grant_sudo args r db =
     identified_admin ''admin only'' r db (\<lambda>_. with_body (bool_field ''grant'') r db (\<lambda>grant.
       case GrantSudo (arg_id 0 args) grant db of
         (Inl e, db) \<Rightarrow> reply (Error 500 e) db
       | (Inr _, db) \<Rightarrow> reply (Answer 200 (Q_Sudo grant)) db))"

definition h_revoke :: "approval_answer handler" where
  "h_revoke args r db =
     identified_admin ''admin only'' r db (\<lambda>uid. reply_done ''ok'' [] (Revoke (arg_id 0 args) uid db))"

definition h_renew :: "approval_answer handler" where
  "h_renew args r db =
     identified_admin ''admin only'' r db (\<lambda>_.
       let ttl = ReadJSON_ignored (int_field ''ttl_seconds'') r
       in reply_done ''ok'' [] (RenewApproval (arg_id 0 args) (if ttl \<le> 0 then 28800 else ttl) db))"

definition admin_views :: "http_request \<Rightarrow> pam_db \<Rightarrow> err + request_view list \<Rightarrow> approval_answer outcome" where
  "admin_views r db out =
     identified r db (\<lambda>_ role.
       if role \<noteq> ''admin'' then reply (Error 403 (ErrMsg ''admin role required'')) db else reply_read Q_Views out db)"

definition h_approved :: "approval_answer handler" where
  "h_approved args r db = admin_views r db (ListApprovedEnriched db)"

definition h_request :: "approval_answer handler" where
  "h_request args r db =
     (let i = arg_id 0 args in
      case ApprovalGet db i of
        Inl e \<Rightarrow> reply (Error 404 e) db
      | Inr q \<Rightarrow> reply (Answer 200 (Q_Request q (case ListDecisions db i of Inl _ \<Rightarrow> [] | Inr ds \<Rightarrow> ds)
          (case RequiredApprovals approval_service db i of Inl _ \<Rightarrow> 0 | Inr n \<Rightarrow> n))) db)"

definition h_pending :: "approval_answer handler" where
  "h_pending args r db = admin_views r db (ListPendingEnriched approval_service db)"

definition h_mine :: "approval_answer handler" where
  "h_mine args r db =
     identified r db (\<lambda>uid _. reply_read Q_Views (ListMineEnriched approval_service db uid) db)"

definition h_access :: "approval_answer handler" where
  "h_access args r db = reply (Answer 200 (Q_Approved (IsApproved db (arg_id 0 args) (arg_id 1 args)))) db"

definition matrix_rule_dec :: "json \<Rightarrow> matrix_rule \<times> bool" where
  "matrix_rule_dec j =
     (let a = int_field ''id'' j; b = str_field ''name'' j; c = str_field ''target_kind'' j;
          d = int_field ''tier_min'' j; e = int_field ''tier_max'' j; f = int_field ''required_approvals'' j;
          g = int_list_field ''requester_group_ids'' j; h = int_list_field ''approver_group_ids'' j;
          i = int_field ''priority'' j; k = bool_field ''enabled'' j; l = int_field ''created_at'' j
      in (matrix_rule.make (fst a) (fst b) (fst c) (fst d) (fst e) (fst f) (fst g) (fst h) (fst i) (fst k) (fst l),
          snd a \<and> snd b \<and> snd c \<and> snd d \<and> snd e \<and> snd f \<and> snd g \<and> snd h \<and> snd i \<and> snd k \<and> snd l))"

definition h_matrix :: "approval_answer handler" where
  "h_matrix args r db = reply_read Q_Rules (MatrixList db) db"

definition h_matrix_create :: "approval_answer handler" where
  "h_matrix_create args r db =
     identified_admin ''admin role required'' r db (\<lambda>_. with_body matrix_rule_dec r db (\<lambda>m.
       reply_created [] (MatrixCreate m db)))"

definition h_matrix_update :: "approval_answer handler" where
  "h_matrix_update args r db =
     identified_admin ''admin role required'' r db (\<lambda>_. with_body matrix_rule_dec r db (\<lambda>m.
       reply_done ''ok'' [] (MatrixUpdate (m\<lparr>mr_ID := arg_id 0 args\<rparr>) db)))"

definition h_matrix_delete :: "approval_answer handler" where
  "h_matrix_delete args r db =
     identified_admin ''admin role required'' r db (\<lambda>_. reply_done ''deleted'' [] (MatrixDelete (arg_id 0 args) db))"

definition approval_routes :: "(string \<times> seg list \<times> approval_answer handler) list" where
  "approval_routes =
     [(''POST'', [Lit ''requests''], h_request_create),
      (''POST'', [Lit ''requests'', Wild, Lit ''decide''], h_request_decide),
      (''POST'', [Lit ''requests'', Wild, Lit ''grant-sudo''], h_grant_sudo),
      (''POST'', [Lit ''requests'', Wild, Lit ''revoke''], h_revoke),
      (''POST'', [Lit ''requests'', Wild, Lit ''renew''], h_renew),
      (''GET'', [Lit ''requests'', Lit ''approved''], h_approved),
      (''GET'', [Lit ''requests'', Lit ''pending''], h_pending),
      (''GET'', [Lit ''requests'', Lit ''mine''], h_mine),
      (''GET'', [Lit ''requests'', Wild], h_request),
      (''GET'', [Lit ''access'', Wild, Wild], h_access),
      (''GET'', [Lit ''matrix''], h_matrix),
      (''POST'', [Lit ''matrix''], h_matrix_create),
      (''PUT'', [Lit ''matrix'', Wild], h_matrix_update),
      (''DELETE'', [Lit ''matrix'', Wild], h_matrix_delete)]"

definition approval_serve :: "http_request \<Rightarrow> pam_db \<Rightarrow> approval_answer outcome" where
  "approval_serve = serve_mux approval_routes"

end
