(* ===== verification/VaultService.thy ===== *)
theory VaultService
  imports Http Launch Ccp
begin

text \<open>
  The routes of the vault-service (\<^verbatim>\<open>cmd/vault-service/main.go\<close>): secrets, certificates, the file for a native RDP client,
  the credentials of a web session and the credential provider.  The rotation worker is in the theory of the accounts.
\<close>

datatype (plugins only: code size) vault_answer =
    V_CAKey bytes
  | V_Secrets "secret_meta list"
  | V_Cert string string
  | V_RDPFile string string
  | V_Creds web_creds
  | V_Password ccp_answer

definition h_ca_pub :: "vault_answer handler" where
  "h_ca_pub args r db = reply_read V_CAKey (PublicCAKey db) db"

record secret_input =
  st_Name :: string
  st_Plaintext :: string

definition secret_input_dec :: "json \<Rightarrow> secret_input \<times> bool" where
  "secret_input_dec j =
     (let a = str_field ''name'' j; b = str_field ''plaintext'' j
      in (secret_input.make (fst a) (fst b),
          snd a \<and> snd b))"

definition h_secret_put :: "vault \<Rightarrow> bytes option \<Rightarrow> vault_answer handler" where
  "h_secret_put v rnd args r db =
     with_body secret_input_dec r db (\<lambda>s.
       case PutSecret v rnd (st_Name s) (bytes_of_string (st_Plaintext s)) None db of
         (Inl e, db) \<Rightarrow> reply (Error 500 e) db
       | (Inr _, db) \<Rightarrow> reply (Done ''stored'') db)"

definition h_secrets :: "vault_answer handler" where
  "h_secrets args r db = reply_read V_Secrets (ListSecrets db) db"

definition h_secret_delete :: "vault_answer handler" where
  "h_secret_delete args r db = reply_done ''deleted'' [] (DeleteSecret (arg 0 args) db)"

text \<open>\<open>issue\<close> is \<^verbatim>\<open>IssueSSHCert\<close>: the private key and the certificate for the principals and the seconds it lives.\<close>

record cert_input =
  ce_Principals :: "string list"
  ce_TTLSeconds :: int

definition cert_input_dec :: "json \<Rightarrow> cert_input \<times> bool" where
  "cert_input_dec j =
     (let a = str_list_field ''principals'' j; b = int_field ''ttl_seconds'' j
      in (cert_input.make (fst a) (fst b),
          snd a \<and> snd b))"

definition cert_ttl :: "int \<Rightarrow> int" where
  "cert_ttl seconds =
     (let ttl = wrap64 (seconds * 10 ^ 9) in
      if ttl \<le> 0 \<or> 4 * 3600 * 10 ^ 9 < ttl then 30 * 60 * 10 ^ 9 else ttl)"

definition h_ssh_cert :: "(string list \<Rightarrow> int \<Rightarrow> err + string \<times> string) \<Rightarrow> vault_answer handler" where
  "h_ssh_cert issue args r db =
     with_body cert_input_dec r db (\<lambda>c.
       case issue (ce_Principals c) (cert_ttl (ce_TTLSeconds c)) of
         Inl e \<Rightarrow> reply (Error 500 e) db
       | Inr (priv, cert) \<Rightarrow> reply (Answer 200 (V_Cert priv cert)) db)"

definition rdp_file_text :: "string \<Rightarrow> string \<Rightarrow> string \<Rightarrow> string" where
  "rdp_file_text host port user =
     concat (map (\<lambda>l. l @ [CHR 0x0D, CHR 0x0A])
       ([''screen mode id:i:2'', ''use multimon:i:0'', ''session bpp:i:32'', ''compression:i:1'',
         ''keyboardhook:i:2'', ''audiocapturemode:i:0'', ''videoplaybackmode:i:1'',
         ''connection type:i:7'', ''networkautodetect:i:1'', ''bandwidthautodetect:i:1'',
         ''displayconnectionbar:i:1'', ''enableworkspacereconnect:i:0'', ''disable wallpaper:i:0'',
         ''allow font smoothing:i:1'', ''allow desktop composition:i:1'',
         ''disable full window drag:i:1'', ''disable menu anims:i:1'', ''disable themes:i:0'',
         ''disable cursor setting:i:0'', ''bitmapcachepersistenable:i:1'',
         ''full address:s:'' @ host @ '':'' @ port,
         ''audiomode:i:0'', ''redirectprinters:i:0'', ''redirectcomports:i:0'',
         ''redirectsmartcards:i:1'', ''redirectclipboard:i:1'', ''redirectposdevices:i:0'',
         ''autoreconnection enabled:i:1'', ''authentication level:i:2'', ''prompt for credentials:i:1'',
         ''negotiate security layer:i:1'', ''remoteapplicationmode:i:0'', ''alternate shell:s:'',
         ''shell working directory:s:'', ''gatewayhostname:s:'', ''gatewayusagemethod:i:4'',
         ''gatewaycredentialssource:i:4'', ''gatewayprofileusagemethod:i:0'',
         ''promptcredentialonce:i:0'', ''use redirection server name:i:0''] @
        (if user \<noteq> [] then [''username:s:'' @ user] else [])))"

definition h_rdp_file :: "vault_answer handler" where
  "h_rdp_file args r db =
     (let host = hr_Query r ''host'' in
      if host = [] then reply (Error 400 (ErrMsg ''host required'')) db
      else reply (Answer 200 (V_RDPFile (default_string host (hr_Query r ''name''))
             (rdp_file_text host (default_string ''3389'' (hr_Query r ''port'')) (hr_Query r ''username'')))) db)"

definition h_web_creds :: "vault \<Rightarrow> vault_answer handler" where
  "h_web_creds v args r db =
     (case web_LoadSessionCreds v db (arg 0 args) of
        Inl _ \<Rightarrow> reply (Error 404 (ErrMsg ''web session not found or expired'')) db
      | Inr creds \<Rightarrow> reply (Answer 200 (V_Creds creds)) db)"

definition h_ccp :: "vault \<Rightarrow> vault_answer handler" where
  "h_ccp v args r db =
     (case ccp_accounts v (hr_Header r ''X-API-Key'') (hr_RemoteAddr r) (hr_Query r ''account'') db of
        (Inl (code, e), db) \<Rightarrow> reply (Error code e) db
      | (Inr out, db) \<Rightarrow> reply (Answer 200 (V_Password out)) db)"

definition vault_routes ::
  "vault \<Rightarrow> (string list \<Rightarrow> int \<Rightarrow> err + string \<times> string) \<Rightarrow> bytes option \<Rightarrow>
   (string \<times> seg list \<times> vault_answer handler) list" where
  "vault_routes v issue rnd =
     [(''GET'', [Lit ''ca'', Lit ''pub''], h_ca_pub),
      (''POST'', [Lit ''secrets''], h_secret_put v rnd),
      (''GET'', [Lit ''secrets''], h_secrets),
      (''DELETE'', [Lit ''secrets'', Wild], h_secret_delete),
      (''POST'', [Lit ''ssh-cert''], h_ssh_cert issue),
      (''GET'', [Lit ''rdp-file''], h_rdp_file),
      (''GET'', [Lit ''internal'', Lit ''web-session'', Wild], h_web_creds v),
      (''GET'', [Lit ''ccp'', Lit ''accounts''], h_ccp v)]"

definition vault_serve ::
  "vault \<Rightarrow> (string list \<Rightarrow> int \<Rightarrow> err + string \<times> string) \<Rightarrow> bytes option \<Rightarrow> http_request \<Rightarrow> pam_db \<Rightarrow>
   vault_answer outcome" where
  "vault_serve v issue rnd = serve_mux (vault_routes v issue rnd)"

end
