(* ===== verification/AuditService.thy ===== *)
theory AuditService
  imports Http Launch "HOL-Library.List_Lexorder" "HOL-Library.Char_ord"
begin

text \<open>
  The audit-service (\<^verbatim>\<open>cmd/audit-service/main.go\<close>): the trail, the termination of sessions, the recordings and the worker
  that closes sessions nobody uses.  The file system is an argument.
\<close>

section \<open>The trail\<close>

record audit_record =
  rc_TS :: int
  rc_Actor :: string
  rc_Kind :: string
  rc_Target :: string
  rc_Detail :: string
  rc_Severity :: string
  rc_Source :: string

record session_view =
  sw_ID :: string
  sw_UserID :: int
  sw_TargetID :: int
  sw_StartedAt :: int
  sw_EndedAt :: "int option"
  sw_RecordingPath :: string
  sw_ClientIP :: string
  sw_EndedReason :: string
  sw_Protocol :: string

datatype (plugins only: code size) audit_answer =
    U_Records "audit_record list"
  | U_Sources "string list"
  | U_Terminations "termination_row list"
  | U_Sessions "session_view list"
  | U_File string

text \<open>\<open>parse_time\<close> reads the text of an instant, \<open>marshal\<close> is \<^verbatim>\<open>json.Marshal\<close> of the details.\<close>

definition str_pairs :: "json \<Rightarrow> (string \<times> string) list \<times> bool" where
  "str_pairs j =
     (case j of
        JObj ms \<Rightarrow> (map (\<lambda>(k, v). (k, fst (json_string_or [] v))) ms, list_all (\<lambda>(k, v). snd (json_string_or [] v)) ms)
      | JNull \<Rightarrow> ([], True)
      | _ \<Rightarrow> ([], False))"

definition event_dec :: "(string \<Rightarrow> int option) \<Rightarrow> json \<Rightarrow> event \<times> bool" where
  "event_dec parse_time j =
     (let t = (case json_member ''time'' j of
            JNull \<Rightarrow> (None, True)
          | JStr s \<Rightarrow> (parse_time s, parse_time s \<noteq> None)
          | _ \<Rightarrow> (None, False));
          a = str_field ''source'' j; b = str_field ''kind'' j; c = str_field ''severity'' j; d = str_field ''actor'' j;
          e = str_field ''target'' j; f = str_pairs (json_member ''detail'' j)
      in (event.make (fst t) (fst a) (fst b) (fst c) (fst d) (fst e) (fst f),
          snd t \<and> snd a \<and> snd b \<and> snd c \<and> snd d \<and> snd e \<and> snd f))"

definition h_event_post ::
  "(string \<Rightarrow> int option) \<Rightarrow> ((string \<times> string) list \<Rightarrow> string) \<Rightarrow> audit_answer handler" where
  "h_event_post parse_time marshal args r db =
     with_body (event_dec parse_time) r db (\<lambda>ev.
       case sink_Write marshal ev db of
         (Inl e, db) \<Rightarrow> reply (Error 500 e) db
       | (Inr _, db) \<Rightarrow> reply (Accepted ''ok'') db)"

abbreviation Audit_List :: sql_stmt where "Audit_List \<equiv> Stmt ''audit.list''"
abbreviation Audit_Sources :: sql_stmt where "Audit_Sources \<equiv> Stmt ''audit.sources''"

definition query_limit :: "http_request \<Rightarrow> int \<Rightarrow> int \<Rightarrow> nat" where
  "query_limit r hi d =
     (let n = parse_int_ignored (hr_Query r ''limit'') in nat (if n \<le> 0 \<or> hi < n then d else n))"

definition event_matches :: "http_request \<Rightarrow> audit_row \<Rightarrow> bool" where
  "event_matches r e =
     (let srcs = filter (\<lambda>p. p \<noteq> []) (map trim_space (split_on (CHR '','') (trim_space (hr_Query r ''source''))));
          sev = trim_space (hr_Query r ''severity''); since = trim_space (hr_Query r ''since'')
      in (srcs = [] \<or> ev_source e \<in> set srcs) \<and> (sev = [] \<or> ev_severity e = sev) \<and>
         (case parse_int64 since of None \<Rightarrow> True | Some t \<Rightarrow> t \<le> ev_ts e))"

definition record_of_row :: "audit_row \<Rightarrow> audit_record" where
  "record_of_row e =
     \<lparr>rc_TS = ev_ts e, rc_Actor = ev_actor e, rc_Kind = ev_kind e, rc_Target = opt_string (ev_target e),
      rc_Detail = opt_string (ev_detail e), rc_Severity = ev_severity e, rc_Source = ev_source e\<rparr>"

definition h_events :: "audit_answer handler" where
  "h_events args r db =
     (if faults db Audit_List then reply (Error 500 (ErrSql Audit_List)) db
      else reply (Answer 200 (U_Records (map record_of_row (take (query_limit r 1000 200)
             (sort_key (\<lambda>e. - ev_id e) (filter (event_matches r) (audit_events db))))))) db)"

definition h_event_sources :: "audit_answer handler" where
  "h_event_sources args r db =
     (if faults db Audit_Sources then reply (Error 500 (ErrSql Audit_Sources)) db
      else reply (Answer 200 (U_Sources (sort (remdups (filter (\<lambda>s. s \<noteq> []) (map ev_source (audit_events db))))))) db)"

section \<open>Termination\<close>

abbreviation Session_Lookup :: sql_stmt where "Session_Lookup \<equiv> Stmt ''audit.session''"
abbreviation Termination_Put :: sql_stmt where "Termination_Put \<equiv> Stmt ''terminations.put''"
abbreviation Termination_List :: sql_stmt where "Termination_List \<equiv> Stmt ''terminations.list''"
abbreviation Termination_Ack :: sql_stmt where "Termination_Ack \<equiv> Stmt ''terminations.ack''"
abbreviation Termination_Audit :: sql_stmt where "Termination_Audit \<equiv> Stmt ''terminations.audit''"

definition put_termination :: "string \<Rightarrow> int \<Rightarrow> string \<Rightarrow> pam_db \<Rightarrow> pam_db" where
  "put_termination sid uid reason db =
     (if sid \<in> set (map st_session_id (session_terminations db))
      then db\<lparr>session_terminations := update_where (\<lambda>t. st_session_id t = sid)
             (\<lambda>t. t\<lparr>st_requested_by := uid, st_requested_at := clock db, st_reason := reason, st_acknowledged_at := None\<rparr>)
             (session_terminations db)\<rparr>
      else db\<lparr>session_terminations := session_terminations db @
             [\<lparr>st_session_id = sid, st_requested_by = uid, st_requested_at = clock db, st_reason = reason,
               st_acknowledged_at = None\<rparr>]\<rparr>)"

definition best_effort_audit :: "string \<Rightarrow> string \<Rightarrow> string \<Rightarrow> string \<Rightarrow> string \<Rightarrow> pam_db \<Rightarrow> pam_db" where
  "best_effort_audit actor kind tgt detail severity db =
     (if faults db Termination_Audit then db else insert_audit (clock db) actor kind tgt detail severity [] db)"

text \<open>The second test of the role in the source is never reached by anyone but an administrator.\<close>

definition h_terminate :: "audit_answer handler" where
  "h_terminate args r db =
     (let sid = arg 0 args; uid = caller_uid r; reason = ReadJSON_ignored (str_field ''reason'') r in
      if caller_role r \<noteq> ''admin'' then reply (Error 403 (ErrMsg ''admin role required'')) db
      else if faults db Session_Lookup then reply (Error 500 (ErrSql Session_Lookup)) db
      else case row_by ss_id sid (sessions db) of
        None \<Rightarrow> reply (Error 404 (ErrMsg ''session not found'')) db
      | Some s \<Rightarrow>
          if ss_ended_at s \<noteq> None then reply (Error 409 (ErrMsg ''session already ended'')) db
          else if faults db Termination_Put then reply (Error 500 (ErrSql Termination_Put)) db
          else
            let db = put_termination sid uid reason db;
                db = snd (EndSession True sid ''terminated'' db)
            in reply (Accepted ''requested'')
                 (best_effort_audit (caller_name r) ''session.terminate.requested'' sid reason ''warn'' db))"

definition h_terminations :: "audit_answer handler" where
  "h_terminations args r db =
     (if faults db Termination_List then reply (Error 500 (ErrSql Termination_List)) db
      else reply (Answer 200 (U_Terminations
             (filter (\<lambda>t. st_acknowledged_at t = None) (session_terminations db)))) db)"

definition h_termination_ack :: "audit_answer handler" where
  "h_termination_ack args r db =
     (if faults db Termination_Ack then reply (Error 500 (ErrSql Termination_Ack)) db
      else reply (Done ''ok'') (db\<lparr>session_terminations := update_where (\<lambda>t. st_session_id t = arg 0 args)
             (\<lambda>t. t\<lparr>st_acknowledged_at := Some (clock db)\<rparr>) (session_terminations db)\<rparr>))"

abbreviation Session_List :: sql_stmt where "Session_List \<equiv> Stmt ''audit.sessions''"

definition view_of_session :: "session_row \<Rightarrow> session_view" where
  "view_of_session s =
     \<lparr>sw_ID = ss_id s, sw_UserID = ss_user_id s, sw_TargetID = ss_target_id s, sw_StartedAt = ss_started_at s,
      sw_EndedAt = ss_ended_at s, sw_RecordingPath = opt_string (ss_recording_path s),
      sw_ClientIP = opt_string (ss_client_ip s), sw_EndedReason = opt_string (ss_ended_reason s),
      sw_Protocol = ss_protocol s\<rparr>"

definition h_sessions :: "audit_answer handler" where
  "h_sessions args r db =
     (if faults db Session_List then reply (Error 500 (ErrSql Session_List)) db
      else reply (Answer 200 (U_Sessions (map view_of_session (take (query_limit r 500 100)
             (sort_key (\<lambda>s. - ss_started_at s) (sessions db)))))) db)"

section \<open>Recordings\<close>

text \<open>A file has its size; a directory its entries in the order of \<^verbatim>\<open>os.ReadDir\<close>, and whether the listing had no error.\<close>

record dir_entry =
  dn_Name :: string
  dn_IsDir :: bool
  dn_Size :: "nat option"

datatype file_info = File nat | Dir "dir_entry list" bool

type_synonym file_system = "string \<Rightarrow> file_info option"

text \<open>\<^verbatim>\<open>filepath.Ext\<close> and \<^verbatim>\<open>filepath.Join\<close> of a clean directory and a name.\<close>

definition file_ext :: "string \<Rightarrow> string" where
  "file_ext path =
     (let base = last (split_on (CHR ''/'') path) in
      if CHR ''.'' \<in> set base then CHR ''.'' # last (split_on (CHR ''.'') base) else [])"

definition path_join :: "string \<Rightarrow> string \<Rightarrow> string" where
  "path_join dir name = (if has_suffix dir ''/'' then dir @ name else dir @ ''/'' @ name)"

definition recording_entry :: "bool \<Rightarrow> dir_entry \<Rightarrow> bool" where
  "recording_entry wantLog e =
     (let ext = file_ext (dn_Name e) in
      \<not> dn_IsDir e \<and> \<not> has_suffix (dn_Name e) ''.timing'' \<and>
      (if wantLog then ext = ''.log'' else ext \<noteq> ''.log'' \<and> (ext = ''.guac'' \<or> ext = [])) \<and>
      dn_Size e \<noteq> None \<and> dn_Size e \<noteq> Some 0)"

definition pickRecordingInDir :: "string \<Rightarrow> dir_entry list \<Rightarrow> bool \<Rightarrow> string option" where
  "pickRecordingInDir dir entries wantLog =
     map_option (\<lambda>e. path_join dir (dn_Name e)) (List.find (recording_entry wantLog) entries)"

definition resolveRecordingFile :: "file_system \<Rightarrow> string \<Rightarrow> bool \<Rightarrow> err + string" where
  "resolveRecordingFile fs recPath wantLog =
     (case fs recPath of
        None \<Rightarrow> Inl (ErrMsg ''recording file not found on disk'')
      | Some (File n) \<Rightarrow>
          let ext = file_ext recPath in
          if ext \<notin> {''.log'', ''.guac'', []} then Inl (ErrMsg ''unsupported recording format'')
          else if n = 0
          then Inl (ErrMsg (''recording is empty '' @ em_dash @ '' session ended before any data was captured''))
          else if wantLog \<and> ext \<noteq> ''.log'' then Inl (ErrMsg ''session log not found for this recording'')
          else if \<not> wantLog \<and> ext = ''.log''
          then Inl (ErrMsg (''no video recording for this session '' @ em_dash @ '' use View log for keystroke transcript''))
          else Inr recPath
      | Some (Dir entries _) \<Rightarrow>
          (case pickRecordingInDir recPath entries wantLog of
             Some path \<Rightarrow> Inr path
           | None \<Rightarrow>
               Inl (ErrMsg ((if wantLog then ''session log not found '' else ''recording not ready yet '') @ em_dash @
                 '' session may still be active''))))"

definition pendingRecordingMissing :: "file_system \<Rightarrow> string \<Rightarrow> bool" where
  "pendingRecordingMissing fs recPath =
     (case fs recPath of
        None \<Rightarrow> True
      | Some (File _) \<Rightarrow> False
      | Some (Dir entries ok) \<Rightarrow>
          \<not> ok \<or> \<not> list_ex (\<lambda>e. let ext = file_ext (dn_Name e) in \<not> dn_IsDir e \<and>
            (ext = ''.guac'' \<or> ext = ''.log'' \<or> ext = [] \<and> \<not> has_suffix (dn_Name e) ''.timing'')) entries)"

text \<open>\<open>openable\<close> says whether \<^verbatim>\<open>os.Open\<close> succeeds, or with which error it fails.\<close>

definition h_recording :: "file_system \<Rightarrow> (string \<Rightarrow> err + unit) \<Rightarrow> audit_answer handler" where
  "h_recording fs openable args r db =
     (if faults db Session_Lookup then reply (Error 500 (ErrSql Session_Lookup)) db
      else case row_by ss_id (arg 0 args) (sessions db) of
        None \<Rightarrow> reply (Error 404 (ErrMsg ''session not found'')) db
      | Some s \<Rightarrow>
          if opt_string (ss_recording_path s) = [] then reply (Error 404 (ErrMsg ''no recording for this session'')) db
          else case resolveRecordingFile fs (opt_string (ss_recording_path s)) (hr_Query r ''kind'' = ''log'') of
            Inl e \<Rightarrow> reply (Error 404 e) db
          | Inr file \<Rightarrow>
              (case openable file of
                 Inl e \<Rightarrow> reply (Error 500 (ErrMsg (''recording exists but is not readable on disk: '' @ err_text e))) db
               | Inr _ \<Rightarrow> reply (Answer 200 (U_File file)) db))"

section \<open>Cleaning up\<close>

definition pendingSessionTimeoutSeconds :: int where "pendingSessionTimeoutSeconds = 120"
definition webSessionIdleTimeoutSeconds :: int where "webSessionIdleTimeoutSeconds = 30 * 60"

abbreviation Cleanup_Pending :: sql_stmt where "Cleanup_Pending \<equiv> Stmt ''cleanup.pending''"
abbreviation Cleanup_Web :: sql_stmt where "Cleanup_Web \<equiv> Stmt ''cleanup.web''"

definition stale_pending :: "file_system \<Rightarrow> pam_db \<Rightarrow> session_row \<Rightarrow> bool" where
  "stale_pending fs db s =
     (ss_ended_at s = None \<and> ss_started_at s \<le> clock db - pendingSessionTimeoutSeconds \<and>
      opt_string (ss_recording_path s) \<noteq> [] \<and> ss_protocol s \<in> {''ssh'', ''rdp''} \<and>
      \<not> has_prefix (to_lower (ss_id s)) ''ssh-'' \<and> pendingRecordingMissing fs (opt_string (ss_recording_path s)))"

definition fail_session :: "string \<Rightarrow> pam_db \<Rightarrow> pam_db" where
  "fail_session i db =
     best_effort_audit ''audit'' ''session.auto.failed'' i ''no browser recording/connection appeared before timeout''
       ''warn'' (snd (EndSession True i ''failed'' db))"

definition web_end_reason :: "vault \<Rightarrow> pam_db \<Rightarrow> session_row \<Rightarrow> string" where
  "web_end_reason v db s =
     (case GetSecret v db (WebVaultSecretName (ss_id s)) of
        Inl _ \<Rightarrow> ''orphaned''
      | Inr _ \<Rightarrow> if ss_started_at s \<le> clock db - webSessionIdleTimeoutSeconds then ''idle'' else [])"

definition cleanup_web :: "vault \<Rightarrow> session_row \<Rightarrow> pam_db \<Rightarrow> pam_db" where
  "cleanup_web v s db =
     (let reason = web_end_reason v db s in
      if reason = [] then db
      else case EndSession True (ss_id s) reason db of
        (Inr True, db) \<Rightarrow>
          best_effort_audit ''audit'' (''session.auto.'' @ reason) (ss_id s)
            (''web session cleaned up ('' @ reason @ '')'') ''info'' db
      | (_, db) \<Rightarrow> db)"

definition cleanupPendingSessions :: "file_system \<Rightarrow> vault \<Rightarrow> pam_db \<Rightarrow> pam_db" where
  "cleanupPendingSessions fs v db =
     (if faults db Cleanup_Pending then db
      else
        let db = fold fail_session (map ss_id (filter (stale_pending fs db) (sessions db))) db
        in if faults db Cleanup_Web then db
           else fold (cleanup_web v)
             (filter (\<lambda>s. ss_ended_at s = None \<and> ss_protocol s = ''web'') (sessions db)) db)"

section \<open>Routes\<close>

record audit_env =
  ue_Parse :: "string \<Rightarrow> int option"
  ue_Marshal :: "(string \<times> string) list \<Rightarrow> string"
  ue_Files :: file_system
  ue_Openable :: "string \<Rightarrow> err + unit"

definition audit_routes :: "audit_env \<Rightarrow> (string \<times> seg list \<times> audit_answer handler) list" where
  "audit_routes env =
     [(''POST'', [Lit ''events''], h_event_post (ue_Parse env) (ue_Marshal env)),
      (''GET'', [Lit ''events''], h_events),
      (''GET'', [Lit ''event-sources''], h_event_sources),
      (''POST'', [Lit ''sessions'', Wild, Lit ''terminate''], h_terminate),
      (''GET'', [Lit ''sessions'', Lit ''terminations''], h_terminations),
      (''POST'', [Lit ''sessions'', Lit ''terminations'', Wild, Lit ''ack''], h_termination_ack),
      (''GET'', [Lit ''sessions''], h_sessions),
      (''GET'', [Lit ''sessions'', Wild, Lit ''recording''], h_recording (ue_Files env) (ue_Openable env))]"

definition audit_serve :: "audit_env \<Rightarrow> http_request \<Rightarrow> pam_db \<Rightarrow> audit_answer outcome" where
  "audit_serve env = serve_mux (audit_routes env)"

end
