(* ===== verification/Gateway.thy ===== *)
theory Gateway
  imports AuthRoutes PolicyService ApprovalService VaultService AuditService
begin

text \<open>
  The API gateway (\<^verbatim>\<open>cmd/api-gateway/main.go\<close>, \<^verbatim>\<open>verify_cache.go\<close>): the check of a bearer token with its cache, the
  administrator gate, the identity headers, the bridge for web consoles, and the forwarding to the five services, which
  share the database.
\<close>

section \<open>The administrator gate\<close>

record claims =
  cl_UID :: int
  cl_User :: string
  cl_Role :: string
  cl_Scope :: string

definition adminWriteMatchers :: "(string \<times> string) list" where
  "adminWriteMatchers =
     [(''POST'', ''/api/policy/policies''),
      (''PUT'', ''/api/policy/policies/''),
      (''DELETE'', ''/api/policy/policies/''),
      (''POST'', ''/api/policy/targets''),
      (''PUT'', ''/api/policy/targets/''),
      (''DELETE'', ''/api/policy/targets/''),
      (''POST'', ''/api/policy/locations''),
      (''PUT'', ''/api/policy/locations/''),
      (''DELETE'', ''/api/policy/locations/''),
      (''POST'', ''/api/auth/users''),
      (''DELETE'', ''/api/auth/users/''),
      (''POST'', ''/api/auth/groups''),
      (''PUT'', ''/api/auth/groups/''),
      (''DELETE'', ''/api/auth/groups/''),
      (''POST'', ''/api/auth/groups/''),
      (''DELETE'', ''/api/auth/groups/''),
      (''POST'', ''/api/auth/roles''),
      (''PUT'', ''/api/auth/roles/''),
      (''DELETE'', ''/api/auth/roles/''),
      (''PUT'', ''/api/auth/settings/''),
      (''POST'', ''/api/auth/settings/''),
      (''POST'', ''/api/vault/secrets''),
      (''DELETE'', ''/api/vault/secrets/''),
      (''POST'', ''/api/approval/matrix''),
      (''PUT'', ''/api/approval/matrix/''),
      (''DELETE'', ''/api/approval/matrix/''),
      (''POST'', ''/api/auth/safes''),
      (''PUT'', ''/api/auth/safes/''),
      (''DELETE'', ''/api/auth/safes/''),
      (''POST'', ''/api/auth/accounts''),
      (''PUT'', ''/api/auth/accounts/''),
      (''DELETE'', ''/api/auth/accounts/''),
      (''POST'', ''/api/auth/apps''),
      (''PUT'', ''/api/auth/apps/''),
      (''DELETE'', ''/api/auth/apps/''),
      (''POST'', ''/api/auth/alerts/''),
      (''POST'', ''/api/audit/sessions/'')]"

text \<open>What a path of a matched entry must look like to pass anyway.\<close>

definition admin_exempt :: "string \<Rightarrow> bool" where
  "admin_exempt path =
     (if str_contains path ''/mfa/reset'' then False
      else has_prefix path ''/api/auth/users/'' \<and> str_contains path ''/mfa'' \<or>
        path = ''/api/auth/birthright/mine'' \<or> has_suffix path ''/checkout'' \<or> has_suffix path ''/rdp-launch'' \<or>
        has_suffix path ''/ssh-launch'' \<or> has_prefix path ''/api/auth/checkouts/'' \<and> has_suffix path ''/return'')"

fun gate_entries :: "(string \<times> string) list \<Rightarrow> string \<Rightarrow> string \<Rightarrow> bool" where
  "gate_entries [] meth path = False"
| "gate_entries ((m, p) # ms) meth path =
     (if m = meth \<and> has_prefix path p then \<not> admin_exempt path else gate_entries ms meth path)"

definition requiresAdmin :: "string \<Rightarrow> string \<Rightarrow> bool" where
  "requiresAdmin meth path = gate_entries adminWriteMatchers meth path"

lemma gate_entries_iff:
  "gate_entries ms meth path \<longleftrightarrow> (\<exists>(m, p) \<in> set ms. m = meth \<and> has_prefix path p) \<and> \<not> admin_exempt path"
  by (induction ms meth path rule: gate_entries.induct) auto

section \<open>Verifying a token\<close>

text \<open>An error of the HTTP client carries a network error or an error of the address; any other error is known by its
  text only.\<close>

datatype gw_error = Transport string | Plain string

definition gw_text :: "gw_error \<Rightarrow> string" where
  "gw_text e = (case e of Transport s \<Rightarrow> s | Plain s \<Rightarrow> s)"

definition transport_phrases :: "string list" where
  "transport_phrases =
     [''dial tcp'', ''no such host'', ''server misbehaving'', ''connection refused'', ''i/o timeout'',
      ''context deadline exceeded'', ''connection reset'']"

definition isTransportError :: "gw_error \<Rightarrow> bool" where
  "isTransportError e =
     (case e of
        Transport _ \<Rightarrow> True
      | Plain s \<Rightarrow> list_ex (str_contains (to_lower s)) transport_phrases)"

definition friendlyAuthError :: "string \<Rightarrow> gw_error \<Rightarrow> gw_error" where
  "friendlyAuthError host e =
     (if \<not> isTransportError e then e
      else Plain (''authentication service unreachable ('' @ host @ '') '' @ em_dash @
             '' verify the auth container is running on the pam-net network and try again: '' @ gw_text e))"

text \<open>The text of \<^verbatim>\<open>encoding/json\<close> for a string of valid UTF-8, and the envelope of an error.\<close>

definition json_char :: "char \<Rightarrow> string" where
  "json_char c =
     (if c = CHR 0x22 \<or> c = CHR 0x5C then [CHR 0x5C, c]
      else if c = CHR 0x08 then [CHR 0x5C, CHR ''b'']
      else if c = CHR 0x0C then [CHR 0x5C, CHR ''f'']
      else if c = CHR 0x0A then [CHR 0x5C, CHR ''n'']
      else if c = CHR 0x0D then [CHR 0x5C, CHR ''r'']
      else if c = CHR 0x09 then [CHR 0x5C, CHR ''t'']
      else if (of_char c :: nat) < 32 \<or> c \<in> {CHR ''<'', CHR ''>'', CHR ''&''}
      then CHR 0x5C # ''u00'' @ hex_EncodeToString [of_char c]
      else [c])"

definition error_body :: "string \<Rightarrow> string" where
  "error_body msg =
     ''{'' @ [CHR 0x22] @ ''error'' @ [CHR 0x22] @ '':'' @ [CHR 0x22] @ concat (map json_char msg) @ [CHR 0x22] @ ''}''"

definition claims_of :: "jwt_claims \<Rightarrow> claims" where
  "claims_of c = \<lparr>cl_UID = jc_UserID c, cl_User = jc_Username c, cl_Role = jc_Role c, cl_Scope = jc_Scope c\<rparr>"

text \<open>The request to the auth-service; \<open>down\<close> is the error of the HTTP client when the call gives no response.\<close>

definition verify_request :: "string \<Rightarrow> http_request" where
  "verify_request tok =
     \<lparr>hr_Method = ''POST'', hr_Segs = [''verify''], hr_Header = (\<lambda>_. []), hr_Query = (\<lambda>_. []), hr_Cookie = (\<lambda>_. None),
      hr_Body = Some (JObj [(''Token'', JStr tok)]), hr_RemoteAddr = []\<rparr>"

type_synonym verified = "(nat \<times> gw_error) + claims"

definition verifyToken :: "'c auth_env \<Rightarrow> string option \<Rightarrow> pam_db \<Rightarrow> string \<Rightarrow> verified" where
  "verifyToken env down db tok =
     (case down of
        Some e \<Rightarrow> Inl (502, Transport e)
      | None \<Rightarrow>
          (case fst (h_verify env [] (verify_request tok) db) of
             Answer n (A_Claims c) \<Rightarrow> Inr (claims_of c)
           | Error n e \<Rightarrow> Inl (n, Plain (trim_space (error_body (err_text e))))
           | _ \<Rightarrow> Inl (502, Plain ''EOF'')))"

lemma verifyToken_up:
  "verifyToken env None db tok =
     (case VerifyToken (ae_JWT env) (ae_Config env) (clock db) tok of
        Inl e \<Rightarrow> Inl (401, Plain (trim_space (error_body (err_text e))))
      | Inr c \<Rightarrow> Inr (claims_of c))"
  by (simp add: verifyToken_def h_verify_def with_body_def ReadJSON_def verify_request_def json_is_struct_def
      json_member_def json_string_or_def reply_def to_lower_def split: sum.splits)

section \<open>The cache\<close>

text \<open>Instants are in nanoseconds.\<close>

definition verifyCacheTTL :: int where "verifyCacheTTL = 60 * 10 ^ 9"
definition verifyStaleTTL :: int where "verifyStaleTTL = 5 * 60 * 10 ^ 9"
definition verifyCacheMaxSize :: nat where "verifyCacheMaxSize = 4096"

record cache_entry =
  ce_claims :: claims
  ce_expiry :: int
  ce_stale :: int

text \<open>The map is an association list with each key once.\<close>

type_synonym verify_cache = "(string \<times> cache_entry) list"

definition verifyCacheKey :: "string \<Rightarrow> string" where
  "verifyCacheKey tok = hex_EncodeToString (sha256 (bytes_of_string tok))"

text \<open>The range over the map in the order \<open>keys\<close>: at most \<open>n\<close> expired entries go.\<close>

fun evict_expired :: "int \<Rightarrow> nat \<Rightarrow> string list \<Rightarrow> verify_cache \<Rightarrow> verify_cache" where
  "evict_expired now n [] cache = cache"
| "evict_expired now n (k # ks) cache =
     (case map_of cache k of
        Some e \<Rightarrow>
          if ce_expiry e < now
          then if n \<le> 1 then AList.delete k cache else evict_expired now (n - 1) ks (AList.delete k cache)
          else evict_expired now n ks cache
      | None \<Rightarrow> evict_expired now n ks cache)"

definition verifyCachePut :: "int \<Rightarrow> string list \<Rightarrow> string \<Rightarrow> claims \<Rightarrow> verify_cache \<Rightarrow> verify_cache" where
  "verifyCachePut now order key c cache =
     (let cache =
            (if verifyCacheMaxSize \<le> length cache then
               let cache = evict_expired now (verifyCacheMaxSize div 4) order cache
               in if verifyCacheMaxSize \<le> length cache then [] else cache
             else cache)
      in AList.update key
           \<lparr>ce_claims = c, ce_expiry = now + verifyCacheTTL, ce_stale = now + verifyStaleTTL\<rparr> cache)"

definition invalidateVerifyCache :: "verify_cache \<Rightarrow> verify_cache" where
  "invalidateVerifyCache cache = []"

text \<open>One tick of the collector that \<^verbatim>\<open>startVerifyCacheGC\<close> starts.\<close>

definition collect_cache :: "int \<Rightarrow> verify_cache \<Rightarrow> verify_cache" where
  "collect_cache now cache = filter (\<lambda>(k, e). \<not> ce_stale e < now) cache"

text \<open>\<open>now\<close> is read before the call to the auth-service and \<open>later\<close> when its answer is stored; \<open>answer\<close> is what
  \<open>verifyToken\<close> gives in between.\<close>

definition verifyTokenCached ::
  "string \<Rightarrow> int \<Rightarrow> int \<Rightarrow> string list \<Rightarrow> verified \<Rightarrow> string \<Rightarrow> verify_cache \<Rightarrow> verified \<times> verify_cache" where
  "verifyTokenCached host now later order answer tok cache =
     (let key = verifyCacheKey tok; hit = map_of cache key in
      case hit of
        Some e \<Rightarrow>
          if now < ce_expiry e then (Inr (ce_claims e), cache)
          else (case answer of
                  Inr c \<Rightarrow> (Inr c, verifyCachePut later order key c cache)
                | Inl (n, err) \<Rightarrow>
                    if isTransportError err \<and> now < ce_stale e then (Inr (ce_claims e), cache)
                    else (Inl (n, friendlyAuthError host err), cache))
      | None \<Rightarrow>
          (case answer of
             Inr c \<Rightarrow> (Inr c, verifyCachePut later order key c cache)
           | Inl (n, err) \<Rightarrow> (Inl (n, friendlyAuthError host err), cache)))"

section \<open>Passing a request on\<close>

definition set_header :: "string \<Rightarrow> string \<Rightarrow> http_request \<Rightarrow> http_request" where
  "set_header k v r = r\<lparr>hr_Header := (hr_Header r)(k := v)\<rparr>"

lemma set_header_sel [simp]:
  "hr_Method (set_header k v r) = hr_Method r" "hr_Segs (set_header k v r) = hr_Segs r"
  "hr_Query (set_header k v r) = hr_Query r" "hr_Cookie (set_header k v r) = hr_Cookie r"
  "hr_Body (set_header k v r) = hr_Body r" "hr_RemoteAddr (set_header k v r) = hr_RemoteAddr r"
  "hr_Header (set_header k v r) h = (if h = k then v else hr_Header r h)"
  by (simp_all add: set_header_def)

text \<open>Name, value and path; the other attributes are always HttpOnly, SameSite=Lax and a life of two hours.\<close>

type_synonym web_cookie = "string \<times> string \<times> string"

definition web_cookies :: "string \<Rightarrow> string \<Rightarrow> web_cookie list" where
  "web_cookies tok sid =
     (let path = ''/web/'' @ sid @ ''/''
      in [(''pam_web_tok'', tok, path), (''pam_web_sid'', sid, path), (''pam_web_sid'', sid, ''/'')])"

definition identify :: "claims \<Rightarrow> http_request \<Rightarrow> http_request" where
  "identify c r =
     (let r = set_header ''X-PAM-UID'' (string_of_int (cl_UID c))
                (set_header ''X-PAM-Role'' (cl_Role c) (set_header ''X-PAM-User'' (cl_User c) r))
      in if cl_Scope c \<noteq> [] then set_header ''X-PAM-Scope'' (cl_Scope c) r else r)"

text \<open>A request that is let through, with the cookies of its response, or a refusal.\<close>

datatype admission = Refused nat gw_error "web_cookie list" | Admitted "web_cookie list" http_request

definition serveAuthed :: "verified \<Rightarrow> string \<Rightarrow> string \<Rightarrow> bool \<Rightarrow> http_request \<Rightarrow> admission" where
  "serveAuthed answer tok webSessionID setWebCookie r =
     (case answer of
        Inl (n, e) \<Rightarrow> Refused n e []
      | Inr c \<Rightarrow>
          let cookies = (if setWebCookie \<and> webSessionID \<noteq> [] then web_cookies tok webSessionID else [])
          in if requiresAdmin (hr_Method r) (hr_Path r) \<and> cl_Role c \<noteq> ''admin''
             then Refused 403 (Plain ''admin role required'') cookies
             else Admitted cookies (identify c r))"

text \<open>\<open>check\<close> is the cached verification of a token at this instant.\<close>

definition gated :: "(string \<Rightarrow> verified) \<Rightarrow> http_request \<Rightarrow> admission" where
  "gated check r =
     (case BearerToken r of
        Inl e \<Rightarrow> Refused 401 (Plain (err_text e)) []
      | Inr tok \<Rightarrow> serveAuthed (check tok) tok [] False r)"

definition webSessionIDFromPath :: "string \<Rightarrow> string" where
  "webSessionIDFromPath path =
     (let path = trim_prefix path ''/web/'' in
      if path = [] then []
      else case index_byte path (CHR ''/'') of
             Some i \<Rightarrow> take i path
           | None \<Rightarrow> (case index_byte path (CHR ''?'') of Some i \<Rightarrow> take i path | None \<Rightarrow> path))"

definition serveWebSession :: "http_request \<Rightarrow> string \<Rightarrow> admission" where
  "serveWebSession r sessionID = Admitted [] (set_header ''X-PAM-Web-Session'' sessionID r)"

definition webGated :: "(string \<Rightarrow> verified) \<Rightarrow> http_request \<Rightarrow> admission" where
  "webGated check r =
     (let sessionID = webSessionIDFromPath (hr_Path r);
          shown = (hr_Query r ''token'' \<noteq> [] \<or> hr_Header r ''Authorization'' \<noteq> [])
      in if sessionID \<noteq> [] \<and> has_prefix sessionID ''web-''
         then (case BearerTokenFromRequest r of
                 Inr tok \<Rightarrow> serveAuthed (check tok) tok sessionID shown r
               | Inl _ \<Rightarrow> serveWebSession r sessionID)
         else (case BearerTokenFromRequest r of
                 Inr tok \<Rightarrow> serveAuthed (check tok) tok sessionID (sessionID \<noteq> [] \<and> shown) r
               | Inl e \<Rightarrow> Refused 401 (Plain (err_text e)) []))"

section \<open>The bridge for web consoles\<close>

definition isReservedPAMPath :: "string \<Rightarrow> bool" where
  "isReservedPAMPath path =
     (path = ''/'' \<or> path = ''/index.html'' \<or> has_prefix path ''/web/'' \<or> path = ''/health'' \<or>
      list_ex (\<lambda>p. has_prefix path (p @ ''/'') \<or> path = p)
        [''/api/auth'', ''/api/vault'', ''/api/policy'', ''/api/approval'', ''/api/audit'', ''/api/rdp'', ''/api/ccp''] \<or>
      path \<in> set [''/web-viewer.html'', ''/rdp-viewer.html'', ''/ssh-viewer.html'', ''/guac-player.html''] \<or>
      has_prefix path ''/vendor/'')"

text \<open>\<^verbatim>\<open>strings.Index\<close>; the path and the parameter \<^verbatim>\<open>token\<close> of a parsed address; \<open>parse\<close> is \<^verbatim>\<open>url.Parse\<close>.\<close>

fun index_str :: "string \<Rightarrow> string \<Rightarrow> nat option" where
  "index_str [] p = (if p = [] then Some 0 else None)"
| "index_str (c # s) p = (if has_prefix (c # s) p then Some 0 else map_option Suc (index_str s p))"

record referer =
  rf_Path :: string
  rf_Token :: string

definition webSessionFromReferer :: "(string \<Rightarrow> referer option) \<Rightarrow> http_request \<Rightarrow> string" where
  "webSessionFromReferer parse r =
     (if hr_Header r ''Referer'' = [] then []
      else case parse (hr_Header r ''Referer'') of
        None \<Rightarrow> []
      | Some u \<Rightarrow>
          (case index_str (rf_Path u) ''/web/'' of
             None \<Rightarrow> []
           | Some i \<Rightarrow>
               let rest = drop (i + 5) (rf_Path u) in
               case index_byte rest (CHR ''/'') of Some j \<Rightarrow> take j rest | None \<Rightarrow> rest))"

definition webBridgeSessionID :: "(string \<Rightarrow> referer option) \<Rightarrow> http_request \<Rightarrow> string" where
  "webBridgeSessionID parse r =
     (let sid = (case hr_Cookie r ''pam_web_sid'' of None \<Rightarrow> [] | Some c \<Rightarrow> trim_space c)
      in if sid \<noteq> [] then sid else webSessionFromReferer parse r)"

text \<open>\<open>None\<close>: the request stays with the gateway; else the request that goes to the web console.\<close>

definition webBridgeMiddleware :: "(string \<Rightarrow> referer option) \<Rightarrow> http_request \<Rightarrow> http_request option" where
  "webBridgeMiddleware parse r =
     (if isReservedPAMPath (hr_Path r) then None
      else
        let sid = webBridgeSessionID parse r in
        if sid = [] then None
        else
          let bridged = r\<lparr>hr_Segs := ''web'' # split_on (CHR ''/'') sid @ hr_Segs r\<rparr> in
          if hr_Query r ''token'' = [] \<and> hr_Header r ''Referer'' \<noteq> [] then
            (case parse (hr_Header r ''Referer'') of
               None \<Rightarrow> Some bridged
             | Some u \<Rightarrow>
                 let t = trim_space (rf_Token u) in
                 Some (if t \<noteq> [] then bridged\<lparr>hr_Query := (hr_Query r)(''token'' := t)\<rparr> else bridged))
          else Some bridged)"

section \<open>The services behind the gateway\<close>

text \<open>What the gateway and the services run with: the libraries, the signer of certificates, the parser of addresses,
  the file system of the audit-service and the address of the auth-service.\<close>

record 'c platform =
  pf_Auth :: "'c auth_env"
  pf_IssueCert :: "string list \<Rightarrow> int \<Rightarrow> err + string \<times> string"
  pf_HostOf :: "string \<Rightarrow> string"
  pf_Audit :: audit_env
  pf_Referer :: "string \<Rightarrow> referer option"
  pf_AuthHost :: string

datatype (plugins only: code size) gw_answer =
    Rejected gw_error "web_cookie list"
  | AuthSays auth_answer
  | VaultSays vault_answer
  | PolicySays policy_answer
  | ApprovalSays approval_answer
  | AuditSays audit_answer
  | WebConsole "web_cookie list" http_request
  | RdpTunnel http_request
  | Moved string
  | StaticUI

text \<open>\<^verbatim>\<open>forwardTo\<close> rewrites the path, \<open>strip\<close> is \<^verbatim>\<open>StripPrefix\<close> for the two segments of a service.\<close>

definition forwardTo :: "string list \<Rightarrow> http_request \<Rightarrow> http_request" where
  "forwardTo dst r = r\<lparr>hr_Segs := dst\<rparr>"

definition strip :: "http_request \<Rightarrow> http_request" where
  "strip r = r\<lparr>hr_Segs := drop 2 (hr_Segs r)\<rparr>"

definition answer_auth_service :: "'c platform \<Rightarrow> ambient \<Rightarrow> http_request \<Rightarrow> pam_db \<Rightarrow> gw_answer outcome" where
  "answer_auth_service pf am r db = lift_answer AuthSays (auth_serve (pf_Auth pf) am r db)"

definition answer_vault_service :: "'c platform \<Rightarrow> ambient \<Rightarrow> http_request \<Rightarrow> pam_db \<Rightarrow> gw_answer outcome" where
  "answer_vault_service pf am r db =
     lift_answer VaultSays (vault_serve (ae_Vault (pf_Auth pf)) (pf_IssueCert pf) (am_Random am 0) r db)"

definition backend_of :: "'c platform \<Rightarrow> string \<Rightarrow> (ambient \<Rightarrow> http_request \<Rightarrow> pam_db \<Rightarrow> gw_answer outcome) option" where
  "backend_of pf name =
     (if name = ''auth'' then Some (answer_auth_service pf)
      else if name = ''vault'' then Some (answer_vault_service pf)
      else if name = ''policy'' then Some (\<lambda>am r db. lift_answer PolicySays (policy_serve (pf_HostOf pf) r db))
      else if name = ''approval'' then Some (\<lambda>am r db. lift_answer ApprovalSays (approval_serve r db))
      else if name = ''audit'' then Some (\<lambda>am r db. lift_answer AuditSays (audit_serve (pf_Audit pf) r db))
      else None)"

text \<open>The routes without a token.\<close>

definition public_routes :: "(string \<times> seg list \<times> string \<times> string list) list" where
  "public_routes =
     [(''POST'', [Lit ''api'', Lit ''auth'', Lit ''login''], ''auth'', [''login'']),
      (''POST'', [Lit ''api'', Lit ''auth'', Lit ''verify''], ''auth'', [''verify'']),
      (''GET'', [Lit ''api'', Lit ''auth'', Lit ''saml'', Lit ''login''], ''auth'', [''saml'', ''login'']),
      (''POST'', [Lit ''api'', Lit ''auth'', Lit ''saml'', Lit ''acs''], ''auth'', [''saml'', ''acs'']),
      (''GET'', [Lit ''api'', Lit ''auth'', Lit ''saml'', Lit ''metadata''], ''auth'', [''saml'', ''metadata'']),
      (''GET'', [Lit ''api'', Lit ''auth'', Lit ''sso'', Lit ''status''], ''auth'', [''sso'', ''status'']),
      (''GET'', [Lit ''api'', Lit ''ccp'', Lit ''accounts''], ''vault'', [''ccp'', ''accounts''])]"

definition refuse :: "admission \<Rightarrow> (web_cookie list \<Rightarrow> http_request \<Rightarrow> gw_answer outcome) \<Rightarrow> pam_db \<Rightarrow> gw_answer outcome" where
  "refuse adm next db =
     (case adm of
        Refused n e cookies \<Rightarrow> reply (Answer n (Rejected e cookies)) db
      | Admitted cookies r \<Rightarrow> next cookies r)"

text \<open>The handler behind the gate: a request for one of the services.\<close>

definition serve_gated ::
  "'c platform \<Rightarrow> (string \<Rightarrow> verified) \<Rightarrow> ambient \<Rightarrow> http_request \<Rightarrow> pam_db \<Rightarrow> gw_answer outcome option" where
  "serve_gated pf check am r db =
     (case hr_Segs r of
        api # name # rest # _ \<Rightarrow>
          if api \<noteq> ''api'' then None
          else map_option (\<lambda>serve. refuse (gated check r) (\<lambda>_ r. serve am (strip r) db) db) (backend_of pf name)
      | _ \<Rightarrow> None)"

text \<open>The mux of the gateway, after the bridge, for a path that is already clean.\<close>

definition gateway_mux ::
  "'c platform \<Rightarrow> (string \<Rightarrow> verified) \<Rightarrow> ambient \<Rightarrow> http_request \<Rightarrow> pam_db \<Rightarrow> gw_answer outcome" where
  "gateway_mux pf check am r db =
     (if hr_Method r \<in> {''GET'', ''HEAD''} \<and> hr_Segs r = [''health''] then reply (Done ''ok'') db
      else case find_route public_routes (hr_Method r) (hr_Segs r) of
        Some ((name, dst), _) \<Rightarrow>
          (case backend_of pf name of
             Some serve \<Rightarrow> serve am (forwardTo dst r) db
           | None \<Rightarrow> reply (Error 404 (ErrMsg ''page not found'')) db)
      | None \<Rightarrow>
          (case serve_gated pf check am r db of
             Some out \<Rightarrow> out
           | None \<Rightarrow>
               if 2 \<le> length (hr_Segs r) \<and> hd (hr_Segs r) = ''web''
               then refuse (webGated check r) (\<lambda>cookies r. reply (Answer 200 (WebConsole cookies r)) db) db
               else if 3 \<le> length (hr_Segs r) \<and> take 2 (hr_Segs r) = [''api'', ''rdp'']
               then reply (Answer 200 (RdpTunnel (strip r))) db
               else if hr_Segs r = [''web''] \<or> (\<exists>name \<in> {''auth'', ''vault'', ''policy'', ''approval'', ''audit'', ''rdp''}.
                         hr_Segs r = [''api'', name])
               then reply (Answer 301 (Moved (hr_Path r @ ''/''))) db
               else if has_prefix (hr_Path r) ''/api/'' then reply (Error 404 (ErrMsg ''page not found'')) db
               else reply (Answer 200 StaticUI) db))"

definition gateway ::
  "'c platform \<Rightarrow> (string \<Rightarrow> verified) \<Rightarrow> ambient \<Rightarrow> http_request \<Rightarrow> pam_db \<Rightarrow> gw_answer outcome" where
  "gateway pf check am r db =
     (case webBridgeMiddleware (pf_Referer pf) r of
        Some bridged \<Rightarrow>
          refuse (webGated check bridged) (\<lambda>cookies r. reply (Answer 200 (WebConsole cookies r)) db) db
      | None \<Rightarrow> gateway_mux pf check am r db)"

end
