(* ===== verification/ConfigFrames.thy ===== *)
theory ConfigFrames
  imports Gateway
begin

text \<open>
  What each operation of the services leaves alone: the tables that configure access.  The facts carry the proof that
  only an administrator reaches the operations that change them.
\<close>

section \<open>The configuration of access\<close>

definition access_config where
  "access_config db =
     (policies db, approval_matrix db, groups db, user_groups db, role_defs db, safes db, targets db, locations db)"

named_theorems config_kept "operations that leave the configuration of access as it is"

lemma access_config_update [simp]:
  "access_config (db\<lparr>users := a\<rparr>) = access_config db"
  "access_config (db\<lparr>access_requests := b\<rparr>) = access_config db"
  "access_config (db\<lparr>approval_decisions := c\<rparr>) = access_config db"
  "access_config (db\<lparr>privileged_accounts := d\<rparr>) = access_config db"
  "access_config (db\<lparr>settings := e\<rparr>) = access_config db"
  "access_config (db\<lparr>safe_members := f\<rparr>) = access_config db"
  "access_config (db\<lparr>rotation_history := g\<rparr>) = access_config db"
  "access_config (db\<lparr>credential_checkouts := h\<rparr>) = access_config db"
  "access_config (db\<lparr>app_credentials := i\<rparr>) = access_config db"
  "access_config (db\<lparr>secrets := j\<rparr>) = access_config db"
  "access_config (db\<lparr>sessions := k\<rparr>) = access_config db"
  "access_config (db\<lparr>audit_events := l\<rparr>) = access_config db"
  "access_config (db\<lparr>threat_alerts := m\<rparr>) = access_config db"
  "access_config (db\<lparr>session_terminations := n\<rparr>) = access_config db"
  "access_config (db\<lparr>birthright_assignments := p\<rparr>) = access_config db"
  "access_config (bump_seq t db) = access_config db"
  by (simp_all add: access_config_def bump_seq_def)

text \<open>A second record update after \<open>bump_seq\<close>, as the inserts write it.\<close>

lemmas kept_simps = access_config_update case_prod_beta Let_def

section \<open>Secrets, settings and users\<close>

lemma secret_config [config_kept]:
  "access_config (snd (PutSecret v rnd n x due db)) = access_config db"
  "access_config (snd (DeleteSecret n db)) = access_config db"
  by (simp_all add: PutSecret_def insert_secret_def DeleteSecret_def split: sum.splits)

lemma SettingSet_config [config_kept]: "access_config (snd (SettingSet k v db)) = access_config db"
  by (simp add: SettingSet_def Let_def)

lemma user_config [config_kept]:
  "access_config (snd (RecordLogin i db)) = access_config db"
  "access_config (snd (UpdateUser argon rnd i inp db)) = access_config db"
  "access_config (snd (SetMFASecret i s db)) = access_config db"
  "access_config (snd (EnableMFA i db)) = access_config db"
  "access_config (snd (DisableMFA i adm db)) = access_config db"
  "access_config (snd (ResetMFA i db)) = access_config db"
  by (simp_all add: RecordLogin_def UpdateUser_def SetMFASecret_def EnableMFA_def DisableMFA_def ResetMFA_def
      update_mfa_def Let_def split: sum.splits)

section \<open>Accounts, applications and sessions\<close>

lemma insert_account_config [config_kept]: "access_config (snd (insert_account inp p ref nxt db)) = access_config db"
  by (simp add: insert_account_def kept_simps)

lemma rotation_config [config_kept]:
  "access_config (recordRotation i st actor d db) = access_config db"
  "access_config (markRotationFailed i actor e db) = access_config db"
  by (simp_all add: recordRotation_def markRotationFailed_def)

lemma AccountCreate_config [config_kept]: "access_config (snd (AccountCreate v r1 r2 inp db)) = access_config db"
  by (simp add: AccountCreate_def config_kept kept_simps split: sum.split option.split)

lemma AccountUpdate_config [config_kept]: "access_config (snd (AccountUpdate a db)) = access_config db"
  by (simp add: AccountUpdate_def kept_simps split: sum.split)

lemma AccountDelete_config [config_kept]: "access_config (snd (AccountDelete i db)) = access_config db"
  by (simp add: AccountDelete_def kept_simps split: sum.split)

lemma AccountRotate_config [config_kept]:
  "access_config (snd (AccountRotate v r1 r2 i actor db)) = access_config db"
  by (simp add: AccountRotate_def config_kept kept_simps split: sum.split)

lemma Checkout_config [config_kept]: "access_config (snd (Checkout v i u reason bg db)) = access_config db"
  by (simp add: Checkout_def kept_simps split: sum.split)

lemma CheckoutReturn_config [config_kept]: "access_config (snd (CheckoutReturn i db)) = access_config db"
  by (simp add: CheckoutReturn_def)

lemma app_config [config_kept]:
  "access_config (snd (AppCreate rnd a db)) = access_config db"
  "access_config (snd (AppUpdate a db)) = access_config db"
  "access_config (snd (AppRotate rnd i db)) = access_config db"
  "access_config (snd (AppDelete i db)) = access_config db"
  "access_config (touch_app i db) = access_config db"
  by (simp_all add: AppCreate_def AppUpdate_def AppRotate_def AppDelete_def touch_app_def kept_simps
      split: sum.split option.split)

lemma session_config [config_kept]:
  "access_config (close_session i reason db) = access_config db"
  "access_config (snd (EndSession hv i reason db)) = access_config db"
  by (simp_all add: close_session_def EndSession_def config_kept kept_simps split: sum.split option.split)

lemma EndActive_config [config_kept]:
  "access_config (snd (EndActiveForUserTarget hv u t p reason db)) = access_config db"
proof -
  have "access_config (fold (\<lambda>i db. snd (EndSession hv i reason db)) ids db) = access_config db" for ids
    by (induction ids arbitrary: db) (simp_all add: config_kept)
  then show ?thesis by (simp add: EndActiveForUserTarget_def)
qed

section \<open>Launches\<close>

lemma session_row_config [config_kept]:
  "access_config (snd (insert_session r db)) = access_config db"
  "access_config (snd (store_session v rnd n x w r db)) = access_config db"
  by (simp_all add: store_session_def insert_session_def config_kept kept_simps split: sum.split)

lemma launch_config_kept [config_kept]:
  "access_config (snd (rdp_Launch v cfg nano rnd i u role reason ip db)) = access_config db"
  "access_config (snd (web_Launch v base nano rnd i u role pu reason ip db)) = access_config db"
  "access_config (snd (db_Launch v br nano r1 r2 i u role pu reason ip db)) = access_config db"
  "access_config (snd (ssh_Launch v cfg nano rt r1 r2 i u role reason ip pp db)) = access_config db"
  by (simp_all add: rdp_Launch_def rdp_session_def web_Launch_def web_session_def db_Launch_def db_session_def
      ssh_Launch_def ssh_session_def config_kept kept_simps split: sum.split option.split)

section \<open>Requests, audit and alerts\<close>

lemma request_config [config_kept]:
  "access_config (snd (ApprovalCreate u t reason ttl sudo db)) = access_config db"
  "access_config (snd (ApprovalDecide sv i approver role approve comment db)) = access_config db"
  "access_config (snd (GrantSudo i grant db)) = access_config db"
  "access_config (snd (Revoke i u db)) = access_config db"
  "access_config (snd (RenewApproval i ttl db)) = access_config db"
  by (simp_all add: ApprovalCreate_def ApprovalDecide_def insert_vote_def conclude_def finalize_def GrantSudo_def
      Revoke_def RenewApproval_def kept_simps split: sum.split option.split)

lemma audit_config [config_kept]:
  "access_config (insert_audit ts actor kind tgt detail severity source db) = access_config db"
  "access_config (snd (sink_Write marshal ev db)) = access_config db"
  "access_config (put_termination sid u reason db) = access_config db"
  "access_config (best_effort_audit actor kind tgt detail severity db) = access_config db"
  "access_config (snd (Acknowledge i db)) = access_config db"
  by (simp_all add: insert_audit_def sink_Write_def put_termination_def best_effort_audit_def Acknowledge_def
      kept_simps split: sum.split option.split)

end
