(* ===== verification/GateSpec.thy ===== *)
theory GateSpec
  imports ConfigFrames
begin

text \<open>
  The administrator gate of the gateway: whoever changes the configuration of access through a route that needs a token
  holds the token of an administrator.  A path can be exempt from the gate by its last segment; then the key that the
  service reads from that segment is 0, which no row has.
\<close>

section \<open>Keys of exempt paths\<close>

lemma parse_int_ignored_0:
  assumes "x \<in> set a" "\<not> is_digit x" "x \<noteq> CHR ''-''" "x \<noteq> CHR ''+''"
  shows "parse_int_ignored a = 0"
proof -
  let ?ds = "if a \<noteq> [] \<and> (hd a = CHR ''-'' \<or> hd a = CHR ''+'') then tl a else a"
  have "\<not> list_all is_digit ?ds" using assms by (cases a) (auto simp: list_all_iff)
  then show ?thesis by (simp add: parse_int_ignored_def parse_int64_def Let_def)
qed

lemma suffix_last: "has_suffix path s \<Longrightarrow> s \<noteq> [] \<Longrightarrow> last path = last s"
  by (auto simp: has_suffix_iff)

lemma exempt_last:
  assumes "admin_exempt path" "\<not> has_prefix path ''/api/auth/users/''" "\<not> has_prefix path ''/api/auth/birthright''"
    "\<not> has_prefix path ''/api/auth/checkouts/''"
  shows "last path \<in> {CHR ''t'', CHR ''h''}"
proof -
  from assms(1) consider "has_suffix path ''/checkout''" | "has_suffix path ''/rdp-launch''" |
    "has_suffix path ''/ssh-launch''" | "path = ''/api/auth/birthright/mine''"
    using assms(2,4) by (auto simp: admin_exempt_def split: if_splits)
  then show ?thesis using assms(3) by cases (auto dest: suffix_last simp: has_prefix_code)
qed

lemma exempt_key:
  assumes "admin_exempt (p @ a)" "a \<noteq> []" "\<not> has_prefix (p @ a) ''/api/auth/users/''"
    "\<not> has_prefix (p @ a) ''/api/auth/birthright''" "\<not> has_prefix (p @ a) ''/api/auth/checkouts/''"
  shows "parse_int_ignored a = 0"
proof -
  have "last a \<in> {CHR ''t'', CHR ''h''}" using exempt_last [OF assms(1,3-5)] assms(2) by simp
  moreover have "last a \<in> set a" using assms(2) by simp
  moreover have "\<not> is_digit (CHR ''t'')" "\<not> is_digit (CHR ''h'')" by code_simp+
  ultimately show ?thesis by (intro parse_int_ignored_0 [of "last a"]) auto
qed

lemma not_gated_exempt:
  assumes "\<not> requiresAdmin m path" "(m, p) \<in> set adminWriteMatchers" "has_prefix path p"
  shows "admin_exempt path"
  using assms by (auto simp: requiresAdmin_def gate_entries_iff)

section \<open>Rows that no exempt path reaches\<close>

definition no_zero_keys :: "pam_db \<Rightarrow> bool" where
  "no_zero_keys db =
     (0 \<notin> p_id ` set (policies db) \<and> 0 \<notin> g_id ` set (groups db) \<and> 0 \<notin> ug_user_id ` set (user_groups db) \<and>
      0 \<notin> rl_id ` set (role_defs db) \<and> 0 \<notin> sf_id ` set (safes db) \<and> 0 \<notin> t_id ` set (targets db) \<and>
      0 \<notin> lo_id ` set (locations db))"

lemma none_affected: "0 \<notin> f ` set rows \<Longrightarrow> rows_affected (\<lambda>r. f r = (0::int)) rows = 0"
  by (force simp: rows_affected_def filter_empty_conv)

lemma zero_key_config:
  assumes "no_zero_keys db"
  shows "access_config (snd (GroupDelete 0 db)) = access_config db"
    "access_config (snd (RemoveMember 0 g db)) = access_config db"
    "access_config (snd (RoleUpdate 0 d db)) = access_config db"
    "access_config (snd (RoleDelete 0 db)) = access_config db"
    "access_config (snd (SafeDelete 0 db)) = access_config db"
    "access_config (snd (DeleteRule 0 db)) = access_config db"
    "access_config (snd (TargetDelete 0 db)) = access_config db"
    "access_config (snd (DeleteLocation 0 db)) = access_config db"
proof -
  have n: "rows_affected (\<lambda>r. g_id r = 0) (groups db) = 0" "rows_affected (\<lambda>r. rl_id r = 0) (role_defs db) = 0"
    "rows_affected (\<lambda>r. sf_id r = 0) (safes db) = 0" "rows_affected (\<lambda>r. p_id r = 0) (policies db) = 0"
    "rows_affected (\<lambda>r. t_id r = 0) (targets db) = 0" "rows_affected (\<lambda>r. lo_id r = 0) (locations db) = 0"
    using assms by (simp_all add: no_zero_keys_def none_affected)
  show "access_config (snd (GroupDelete 0 db)) = access_config db"
    "access_config (snd (RoleUpdate 0 d db)) = access_config db"
    "access_config (snd (SafeDelete 0 db)) = access_config db"
    "access_config (snd (DeleteRule 0 db)) = access_config db"
    "access_config (snd (TargetDelete 0 db)) = access_config db"
    "access_config (snd (DeleteLocation 0 db)) = access_config db"
    by (simp_all add: GroupDelete_def RoleUpdate_def SafeDelete_def DeleteRule_def TargetDelete_def
        DeleteLocation_def n)
  have "filter (\<lambda>r. rl_id r = 0) (role_defs db) = []"
    using assms by (force simp: no_zero_keys_def filter_empty_conv)
  then have "row_by rl_id 0 (role_defs db) = None" by (simp add: row_by_def)
  then show "access_config (snd (RoleDelete 0 db)) = access_config db" by (simp add: RoleDelete_def)
  have "delete_where (\<lambda>m. ug_user_id m = 0 \<and> ug_group_id m = g) (user_groups db) = user_groups db"
    using assms by (force simp: delete_where_def no_zero_keys_def filter_id_conv)
  then show "access_config (snd (RemoveMember 0 g db)) = access_config db"
    by (simp add: RemoveMember_def access_config_def)
qed

lemma zero_guarded_config [config_kept]:
  "gr_ID g = 0 \<Longrightarrow> access_config (snd (GroupUpdate g db)) = access_config db"
  "sa_ID sf = 0 \<Longrightarrow> access_config (snd (SafeUpdate sf db)) = access_config db"
  "ru_ID ru = 0 \<Longrightarrow> access_config (snd (UpdateRule ru db)) = access_config db"
  "tg_ID t = 0 \<Longrightarrow> access_config (snd (TargetUpdate host t db)) = access_config db"
  "lc_ID l = 0 \<Longrightarrow> access_config (snd (UpdateLocation l db)) = access_config db"
  "access_config (snd (DeleteUser 0 actor db)) = access_config db"
  by (simp_all add: GroupUpdate_def SafeUpdate_def UpdateRule_def TargetUpdate_def UpdateLocation_def DeleteUser_def)

section \<open>Handlers that leave the configuration alone\<close>

lemma outcome_db_with_body:
  "outcome_db (with_body dec r db k) = (case ReadJSON dec r of Inl e \<Rightarrow> db | Inr v \<Rightarrow> outcome_db (k v))"
  by (simp add: with_body_def split: sum.split)

lemma outcome_db_admin_only:
  "caller_role r \<noteq> ''admin'' \<Longrightarrow> outcome_db (admin_only msg r db out) = db"
  by (simp add: admin_only_def)

lemmas handler_simps = outcome_db_with_body outcome_db_admin_only kept_simps

lemma mfa_handlers_config [config_kept]:
  "access_config (outcome_db (h_mfa_enroll env am args r db)) = access_config db"
  "access_config (outcome_db (h_mfa_verify env args r db)) = access_config db"
  "access_config (outcome_db (h_mfa_check args r db)) = access_config db"
  "access_config (outcome_db (h_mfa_disable args r db)) = access_config db"
  "caller_role r \<noteq> ''admin'' \<Longrightarrow> access_config (outcome_db (h_mfa_reset args r db)) = access_config db"
  by (simp_all add: h_mfa_enroll_def enroll_answer_def h_mfa_verify_def h_mfa_check_def h_mfa_disable_def
      h_mfa_reset_def handler_simps config_kept split: sum.split)

lemma setting_handlers_config [config_kept]:
  "access_config (outcome_db (h_ldap_get env args r db)) = access_config db"
  "access_config (outcome_db (h_ldap_put env am args r db)) = access_config db"
  "access_config (outcome_db (h_ldap_test env args r db)) = access_config db"
  "caller_role r \<noteq> ''admin'' \<Longrightarrow> access_config (outcome_db (h_sync_get env args r db)) = access_config db"
  "caller_role r \<noteq> ''admin'' \<Longrightarrow> access_config (outcome_db (h_sync_put env args r db)) = access_config db"
  "caller_role r \<noteq> ''admin'' \<Longrightarrow> access_config (outcome_db (h_browse env args r db)) = access_config db"
  "caller_role r \<noteq> ''admin'' \<Longrightarrow> access_config (outcome_db (h_sync_run env args r db)) = access_config db"
  "access_config (outcome_db (h_saml_get env args r db)) = access_config db"
  "access_config (outcome_db (h_saml_put env am args r db)) = access_config db"
  "access_config (outcome_db (h_saml_metadata env args r db)) = access_config db"
  "access_config (outcome_db (h_saml_login env args r db)) = access_config db"
  "access_config (outcome_db (h_sso_status env args r db)) = access_config db"
  "access_config (outcome_db (h_tacacs_get env args r db)) = access_config db"
  "caller_role r \<noteq> ''admin'' \<Longrightarrow> access_config (outcome_db (h_tacacs_put env args r db)) = access_config db"
  "access_config (outcome_db (h_settings args r db)) = access_config db"
  "access_config (outcome_db (h_setting_put args r db)) = access_config db"
  by (simp_all add: h_ldap_get_def h_ldap_put_def h_ldap_test_def h_sync_get_def h_sync_put_def h_browse_def
      h_sync_run_def h_saml_get_def h_saml_put_def ensure_keypair_def h_saml_metadata_def h_saml_login_def
      h_sso_status_def h_tacacs_get_def h_tacacs_put_def h_settings_def h_setting_put_def SettingSetJSON_def
      handler_simps config_kept split: sum.split)

lemma auth_readers_config [config_kept]:
  "access_config (outcome_db (h_verify env args r db)) = access_config db"
  "access_config (outcome_db (h_users args r db)) = access_config db"
  "access_config (outcome_db (h_user_update env am args r db)) = access_config db"
  "access_config (outcome_db (h_groups args r db)) = access_config db"
  "access_config (outcome_db (h_group_members args r db)) = access_config db"
  "access_config (outcome_db (h_user_groups args r db)) = access_config db"
  "access_config (outcome_db (h_roles args r db)) = access_config db"
  "access_config (outcome_db (h_effective_roles args r db)) = access_config db"
  "access_config (outcome_db (h_safes args r db)) = access_config db"
  "access_config (outcome_db (h_safe_members args r db)) = access_config db"
  "access_config (outcome_db (h_accounts args r db)) = access_config db"
  "access_config (outcome_db (h_account_history args r db)) = access_config db"
  "access_config (outcome_db (h_checkouts args r db)) = access_config db"
  "access_config (outcome_db (h_rdp_native env args r db)) = access_config db"
  "access_config (outcome_db (h_birthrights args r db)) = access_config db"
  "access_config (outcome_db (h_birthrights_mine args r db)) = access_config db"
  "access_config (outcome_db (h_web_session env args r db)) = access_config db"
  "access_config (outcome_db (h_apps args r db)) = access_config db"
  "access_config (outcome_db (h_report_summary args r db)) = access_config db"
  "access_config (outcome_db (h_report_access args r db)) = access_config db"
  "access_config (outcome_db (h_report_ages args r db)) = access_config db"
  "access_config (outcome_db (h_alerts args r db)) = access_config db"
  by (simp_all add: h_verify_def h_users_def h_user_update_def h_groups_def h_group_members_def h_user_groups_def
      h_roles_def h_effective_roles_def h_safes_def h_safe_members_def h_accounts_def h_account_history_def
      h_checkouts_def h_rdp_native_def h_birthrights_def h_birthrights_mine_def h_web_session_def h_apps_def
      h_report_summary_def h_report_access_def h_report_ages_def h_alerts_def handler_simps config_kept
      split: sum.split option.split prod.split)

lemma auth_writers_config [config_kept]:
  "access_config (outcome_db (h_account_create env am args r db)) = access_config db"
  "access_config (outcome_db (h_account_update args r db)) = access_config db"
  "access_config (outcome_db (h_account_delete args r db)) = access_config db"
  "access_config (outcome_db (h_account_rotate env am args r db)) = access_config db"
  "access_config (outcome_db (h_checkout env args r db)) = access_config db"
  "access_config (outcome_db (h_checkout_return args r db)) = access_config db"
  "access_config (outcome_db (h_rdp_launch env am args r db)) = access_config db"
  "access_config (outcome_db (h_ssh_launch env am args r db)) = access_config db"
  "access_config (outcome_db (h_web_launch env am args r db)) = access_config db"
  "access_config (outcome_db (h_db_launch env am args r db)) = access_config db"
  "access_config (outcome_db (h_web_session_end args r db)) = access_config db"
  "access_config (outcome_db (h_app_create am args r db)) = access_config db"
  "access_config (outcome_db (h_app_update args r db)) = access_config db"
  "access_config (outcome_db (h_app_rotate am args r db)) = access_config db"
  "access_config (outcome_db (h_app_delete args r db)) = access_config db"
  "access_config (outcome_db (h_alert_ack args r db)) = access_config db"
  "caller_role r \<noteq> ''admin'' \<Longrightarrow> access_config (outcome_db (h_birthright_add am args r db)) = access_config db"
  "caller_role r \<noteq> ''admin'' \<Longrightarrow> access_config (outcome_db (h_birthright_remove args r db)) = access_config db"
  by (simp_all add: h_account_create_def h_account_update_def h_account_delete_def h_account_rotate_def h_checkout_def
      h_checkout_return_def h_rdp_launch_def h_ssh_launch_def h_web_launch_def h_db_launch_def h_web_session_end_def
      h_app_create_def h_app_update_def h_app_rotate_def h_app_delete_def h_alert_ack_def h_birthright_add_def
      h_birthright_remove_def handler_simps config_kept split: sum.split option.split)

text \<open>The handlers of the gated routes, at the key 0.\<close>

lemma gated_handlers_config:
  "no_zero_keys db \<Longrightarrow> parse_int_ignored a = 0 \<Longrightarrow>
     access_config (outcome_db (h_user_delete [a] r db)) = access_config db"
  "no_zero_keys db \<Longrightarrow> parse_int_ignored a = 0 \<Longrightarrow>
     access_config (outcome_db (h_group_update [a] r db)) = access_config db"
  "no_zero_keys db \<Longrightarrow> parse_int_ignored a = 0 \<Longrightarrow>
     access_config (outcome_db (h_group_delete [a] r db)) = access_config db"
  "no_zero_keys db \<Longrightarrow> parse_int_ignored a = 0 \<Longrightarrow>
     access_config (outcome_db (h_member_remove [b, a] r db)) = access_config db"
  "no_zero_keys db \<Longrightarrow> parse_int_ignored a = 0 \<Longrightarrow>
     access_config (outcome_db (h_role_update [a] r db)) = access_config db"
  "no_zero_keys db \<Longrightarrow> parse_int_ignored a = 0 \<Longrightarrow>
     access_config (outcome_db (h_role_delete [a] r db)) = access_config db"
  "no_zero_keys db \<Longrightarrow> parse_int_ignored a = 0 \<Longrightarrow>
     access_config (outcome_db (h_safe_update [a] r db)) = access_config db"
  "no_zero_keys db \<Longrightarrow> parse_int_ignored a = 0 \<Longrightarrow>
     access_config (outcome_db (h_safe_delete [a] r db)) = access_config db"
  "no_zero_keys db \<Longrightarrow> parse_int_ignored a = 0 \<Longrightarrow>
     access_config (outcome_db (h_policy_update [a] r db)) = access_config db"
  "no_zero_keys db \<Longrightarrow> parse_int_ignored a = 0 \<Longrightarrow>
     access_config (outcome_db (h_policy_delete [a] r db)) = access_config db"
  "no_zero_keys db \<Longrightarrow> parse_int_ignored a = 0 \<Longrightarrow>
     access_config (outcome_db (h_target_update host [a] r db)) = access_config db"
  "no_zero_keys db \<Longrightarrow> parse_int_ignored a = 0 \<Longrightarrow>
     access_config (outcome_db (h_target_delete [a] r db)) = access_config db"
  "no_zero_keys db \<Longrightarrow> parse_int_ignored a = 0 \<Longrightarrow>
     access_config (outcome_db (h_location_update [a] r db)) = access_config db"
  "no_zero_keys db \<Longrightarrow> parse_int_ignored a = 0 \<Longrightarrow>
     access_config (outcome_db (h_location_delete [a] r db)) = access_config db"
  by (simp_all add: h_user_delete_def h_group_update_def h_group_delete_def h_member_remove_def h_role_update_def
      h_role_delete_def h_safe_update_def h_safe_delete_def h_policy_update_def h_policy_delete_def h_target_update_def
      h_target_delete_def h_location_update_def h_location_delete_def arg_id_def arg_def zero_key_config handler_simps config_kept
      split: sum.split)

lemma safe_member_handlers_config [config_kept]:
  "access_config (outcome_db (h_safe_member_add args r db)) = access_config db"
  "access_config (outcome_db (h_safe_member_remove args r db)) = access_config db"
  by (simp_all add: h_safe_member_add_def h_safe_member_remove_def SafeAddMember_def SafeRemoveMember_def handler_simps config_kept
      split: sum.split)

section \<open>The services\<close>

lemma Authenticate_config [config_kept]: "access_config (snd (Authenticate k ip db)) = access_config db"
  by (simp add: Authenticate_def handler_simps config_kept split: sum.split option.split)

lemma vault_config:
  "access_config (outcome_db (vault_serve v issue rnd r db)) = access_config db"
  unfolding vault_serve_def
proof (rule serve_mux_keeps, goal_cases)
  case (1 pm ps h args)
  then show ?case
    by (auto simp: vault_routes_def h_ca_pub_def h_secret_put_def h_secrets_def h_secret_delete_def h_ssh_cert_def
        h_rdp_file_def h_web_creds_def h_ccp_def ccp_accounts_def handler_simps config_kept split: sum.split option.split)
qed simp

lemma audit_service_config:
  assumes "caller_role r \<noteq> ''admin''"
  shows "access_config (outcome_db (audit_serve env r db)) = access_config db"
  unfolding audit_serve_def
proof (rule serve_mux_keeps, goal_cases)
  case (1 pm ps h args)
  then show ?case using assms
    by (auto simp: audit_routes_def h_event_post_def h_events_def h_event_sources_def h_terminate_def h_terminations_def
        h_termination_ack_def h_sessions_def h_recording_def handler_simps config_kept split: sum.split option.split)
qed simp

lemma outcome_db_identified:
  "outcome_db (identified r db k) =
     (case callerIdentity r of None \<Rightarrow> db | Some (u, role) \<Rightarrow> outcome_db (k u role))"
  by (simp add: identified_def split: option.split)

lemma outcome_db_identified_admin:
  "caller_role r \<noteq> ''admin'' \<Longrightarrow> outcome_db (identified_admin msg r db k) = db"
  by (auto simp: identified_admin_def callerIdentity_def split: option.splits)

lemma approval_config:
  assumes "caller_role r \<noteq> ''admin''"
  shows "access_config (outcome_db (approval_serve r db)) = access_config db"
  unfolding approval_serve_def
proof (rule serve_mux_keeps, goal_cases)
  case (1 pm ps h args)
  then show ?case using assms
    by (auto simp: approval_routes_def h_request_create_def h_request_decide_def h_grant_sudo_def h_revoke_def h_renew_def
        h_approved_def h_pending_def h_mine_def h_request_def h_access_def h_matrix_def h_matrix_create_def
        h_matrix_update_def h_matrix_delete_def admin_views_def outcome_db_identified outcome_db_identified_admin
        handler_simps config_kept split: sum.split option.split prod.split)
qed simp

section \<open>Behind the gate\<close>

lemma match_segs_iff:
  "match_segs [] ss = Some args \<longleftrightarrow> ss = [] \<and> args = []"
  "match_segs (Lit l # ps) ss = Some args \<longleftrightarrow> (\<exists>ss'. ss = l # ss' \<and> match_segs ps ss' = Some args)"
  "match_segs (Wild # ps) ss = Some args \<longleftrightarrow>
     (\<exists>s ss' args'. ss = s # ss' \<and> s \<noteq> [] \<and> args = s # args' \<and> match_segs ps ss' = Some args')"
  by (cases ss; auto)+

text \<open>The resources whose creation, change and deletion the gate guards.\<close>

definition gated_prefixes :: "string list" where
  "gated_prefixes =
     [''/api/auth/groups'', ''/api/auth/roles'', ''/api/auth/safes'', ''/api/policy/policies'', ''/api/policy/targets'',
      ''/api/policy/locations'']"

lemma gated_prefix_facts:
  "list_all (\<lambda>p. requiresAdmin ''POST'' p \<and> (''PUT'', p @ ''/'') \<in> set adminWriteMatchers \<and>
     (''DELETE'', p @ ''/'') \<in> set adminWriteMatchers \<and> 11 \<le> length p \<and>
     list_all (\<lambda>s. take 11 p \<noteq> take 11 s) [''/api/auth/users/'', ''/api/auth/birthright'', ''/api/auth/checkouts/''])
     gated_prefixes"
  by code_simp

lemma other_prefix:
  assumes "11 \<le> length p" "take 11 p \<noteq> take 11 s" "11 \<le> length s"
  shows "\<not> has_prefix (p @ a) s"
proof
  assume "has_prefix (p @ a) s"
  then obtain t where "p @ a = s @ t" by (auto simp: has_prefix_iff)
  then have "take 11 (p @ a) = take 11 (s @ t)" by simp
  with assms show False by simp
qed

lemma keyed_gated:
  assumes "p \<in> set gated_prefixes" "hr_Path r = p @ ''/'' @ b @ a" "a \<noteq> []" "hr_Method r = ''PUT'' \<or> hr_Method r = ''DELETE''"
    "\<not> requiresAdmin (hr_Method r) (hr_Path r)"
  shows "parse_int_ignored a = 0"
proof -
  have facts: "(hr_Method r, p @ ''/'') \<in> set adminWriteMatchers" "11 \<le> length p"
    "take 11 p \<noteq> take 11 ''/api/auth/users/''" "take 11 p \<noteq> take 11 ''/api/auth/birthright''"
    "take 11 p \<noteq> take 11 ''/api/auth/checkouts/''"
    using gated_prefix_facts assms(1,4) by (auto simp: list_all_iff)
  have "has_prefix (hr_Path r) (p @ ''/'')" using assms(2) by (simp add: has_prefix_iff)
  with facts(1) have "admin_exempt ((p @ ''/'' @ b) @ a)" using not_gated_exempt [OF assms(5)] assms(2) by simp
  moreover have "\<not> has_prefix ((p @ ''/'' @ b) @ a) s" if "take 11 p \<noteq> take 11 s" "11 \<le> length s" for s
    using that facts(2) other_prefix [of p s "''/'' @ b @ a"] by simp
  ultimately show ?thesis using facts(3-5) by (intro exempt_key [of "p @ ''/'' @ b", OF _ assms(3)]) simp_all
qed

lemma create_gated:
  "p \<in> set gated_prefixes \<Longrightarrow> hr_Path r = p \<Longrightarrow> hr_Method r = ''POST'' \<Longrightarrow>
   requiresAdmin (hr_Method r) (hr_Path r)"
  using gated_prefix_facts by (auto simp: list_all_iff)

text \<open>The remaining gated routes: users, and the members of a group.\<close>

lemma user_create_gated: "requiresAdmin ''POST'' ''/api/auth/users''"
  by code_simp

lemma user_delete_gated:
  assumes "hr_Path r = ''/api/auth/users/'' @ a" "a \<noteq> []" "hr_Method r = ''DELETE''"
    "\<not> requiresAdmin (hr_Method r) (hr_Path r)"
  shows "parse_int_ignored a = 0"
proof -
  let ?p = "''/api/auth/users/''"
  have "(''DELETE'', ?p) \<in> set adminWriteMatchers" by code_simp
  with assms have ex: "admin_exempt (?p @ a)" using not_gated_exempt [of "''DELETE''" "?p @ a" ?p]
    by (simp add: has_prefix_iff)
  have "\<not> has_prefix (?p @ a) s" if "take 11 ?p \<noteq> take 11 s" "11 \<le> length s" for s
    using that by (intro other_prefix) simp_all
  then have "\<not> has_prefix (?p @ a) ''/api/auth/birthright/mine''" "\<not> has_prefix (?p @ a) ''/api/auth/checkouts/''"
    by simp_all
  with ex consider "str_contains (?p @ a) ''/mfa''" | "last (?p @ a) \<in> {CHR ''t'', CHR ''h''}"
    by (auto simp: admin_exempt_def has_prefix_iff dest: suffix_last split: if_splits)
  then obtain x where "x \<in> set a" "x \<in> {CHR ''m'', CHR ''t'', CHR ''h''}"
  proof cases
    case 1
    then obtain u v where split: "?p @ a = u @ ''/mfa'' @ v" by (auto simp: str_contains_iff simp del: append_Cons)
    have "CHR ''m'' \<in> set (u @ ''/mfa'' @ v)" by simp
    then have "CHR ''m'' \<in> set (?p @ a)" by (simp only: split)
    then show ?thesis using that by auto
  next
    case 2
    then show ?thesis using that [of "last a"] assms(2) by auto
  qed
  moreover have "\<not> is_digit (CHR ''m'')" "\<not> is_digit (CHR ''t'')" "\<not> is_digit (CHR ''h'')" by code_simp+
  ultimately show ?thesis by (intro parse_int_ignored_0 [of x]) auto
qed

lemma member_add_gated:
  assumes "hr_Path r = ''/api/auth/groups/'' @ a @ ''/members''" "hr_Method r = ''POST''"
  shows "requiresAdmin (hr_Method r) (hr_Path r)"
proof (rule ccontr)
  let ?p = "''/api/auth/groups/'' @ a @ ''/members''"
  assume no: "\<not> requiresAdmin (hr_Method r) (hr_Path r)"
  have "(''POST'', ''/api/auth/groups/'') \<in> set adminWriteMatchers" by code_simp
  with no assms have "admin_exempt ?p" using not_gated_exempt [of "''POST''" ?p "''/api/auth/groups/''"]
    by (simp add: has_prefix_iff)
  moreover have "\<not> has_prefix ?p s" if "take 11 ''/api/auth/groups/'' \<noteq> take 11 s" "11 \<le> length s" for s
    using that by (intro other_prefix) simp_all
  ultimately have "last ?p \<in> {CHR ''t'', CHR ''h''}" by (intro exempt_last) simp_all
  then show False by simp
qed

section \<open>The auth-service and the policy-service\<close>

lemma policy_readers_config [config_kept]:
  "access_config (outcome_db (h_access_profile args r db)) = access_config db"
  "access_config (outcome_db (h_decide args r db)) = access_config db"
  "access_config (outcome_db (h_cmd_check args r db)) = access_config db"
  "access_config (outcome_db (h_policies args r db)) = access_config db"
  "access_config (outcome_db (h_targets args r db)) = access_config db"
  "access_config (outcome_db (h_locations args r db)) = access_config db"
  by (simp_all add: h_access_profile_def h_decide_def h_cmd_check_def h_policies_def h_targets_def h_locations_def
      handler_simps split: sum.split option.split)

lemma policy_config:
  assumes segs: "hr_Segs r = ''api'' # ''policy'' # hr_Segs q" and meth: "hr_Method q = hr_Method r"
    and gate: "\<not> requiresAdmin (hr_Method r) (hr_Path r)" and keys: "no_zero_keys db"
  shows "access_config (outcome_db (policy_serve host q db)) = access_config db"
  unfolding policy_serve_def
proof (rule serve_mux_keeps, goal_cases)
  case (1 pm ps h args)
  have path: "hr_Path r = ''/api/policy/'' @ join ''/'' (hr_Segs q)" if "hr_Segs q \<noteq> []"
    using segs that by (simp add: hr_Path_def join_Cons)
  have zero: "parse_int_ignored a = 0"
    if "hr_Segs q = [w, a]" "a \<noteq> []" "w \<in> {''policies'', ''targets'', ''locations''}"
      "hr_Method r = ''PUT'' \<or> hr_Method r = ''DELETE''" for w a
    using that gate path by (intro keyed_gated [of "''/api/policy/'' @ w" r "[]" a]) (auto simp: gated_prefixes_def)
  have new: False if "hr_Segs q = [w]" "w \<in> {''policies'', ''targets'', ''locations''}" "hr_Method r = ''POST''" for w
    using that gate path create_gated [of "''/api/policy/'' @ w" r] by (auto simp: gated_prefixes_def)
  from 1 show ?case
    by (auto simp: policy_routes_def match_segs_iff method_matches_def meth config_kept
        intro: gated_handlers_config(9-14) [OF keys zero] dest: new)
qed simp

lemma auth_config:
  assumes segs: "hr_Segs r = ''api'' # ''auth'' # hr_Segs q" and meth: "hr_Method q = hr_Method r"
    and gate: "\<not> requiresAdmin (hr_Method r) (hr_Path r)" and role: "caller_role q \<noteq> ''admin''"
    and unlisted: "find_route public_routes (hr_Method r) (hr_Segs r) = None" and keys: "no_zero_keys db"
  shows "access_config (outcome_db (auth_serve env am q db)) = access_config db"
  unfolding auth_serve_def
proof (rule serve_mux_keeps, goal_cases)
  case (1 pm ps h args)
  have path: "hr_Path r = ''/api/auth/'' @ join ''/'' (hr_Segs q)" if "hr_Segs q \<noteq> []"
    using segs that by (simp add: hr_Path_def join_Cons)
  have zero: "parse_int_ignored a = 0"
    if "hr_Segs q = [w, a]" "a \<noteq> []" "w \<in> {''groups'', ''roles'', ''safes''}"
      "hr_Method r = ''PUT'' \<or> hr_Method r = ''DELETE''" for w a
    using that gate path by (intro keyed_gated [of "''/api/auth/'' @ w" r "[]" a]) (auto simp: gated_prefixes_def)
  have member: "parse_int_ignored a = 0"
    if "hr_Segs q = [''groups'', b, ''members'', a]" "a \<noteq> []" "hr_Method r = ''DELETE''" for a b
    using that gate path
    by (intro keyed_gated [of "''/api/auth/groups''" r "b @ ''/members/''" a]) (auto simp: gated_prefixes_def)
  have user: "parse_int_ignored a = 0" if "hr_Segs q = [''users'', a]" "a \<noteq> []" "hr_Method r = ''DELETE''" for a
    using that gate path by (intro user_delete_gated [of r a]) auto
  have new: False if "hr_Segs q = [w]" "w \<in> {''users'', ''groups'', ''roles'', ''safes''}" "hr_Method r = ''POST''" for w
    using that gate path user_create_gated create_gated [of "''/api/auth/'' @ w" r] by (auto simp: gated_prefixes_def)
  have add: False if "hr_Segs q = [''groups'', a, ''members'']" "hr_Method r = ''POST''" for a
    using that gate path member_add_gated [of r a] by auto
  have login: "''POST'' \<noteq> hr_Method r" if "hr_Segs q = [''login'']"
    using that unlisted segs by (auto simp: public_routes_def method_matches_def)
  have acs: "hr_Method r \<noteq> ''POST''" if "hr_Segs q = [''saml'', ''acs'']"
    using that unlisted segs by (auto simp: public_routes_def method_matches_def)
  from 1 show ?case
    by (auto simp: auth_routes_def match_segs_iff method_matches_def meth config_kept role
        intro: gated_handlers_config(1) [OF keys user] gated_handlers_config(2,3,5-8) [OF keys zero]
          gated_handlers_config(4) [OF keys member] dest: new add login acs)
qed simp

section \<open>The gate\<close>

lemma identify_role [simp]: "caller_role (identify c r) = cl_Role c"
  by (simp add: identify_def Let_def)

lemma identify_sel [simp]:
  "hr_Method (identify c r) = hr_Method r" "hr_Segs (identify c r) = hr_Segs r"
  by (simp_all add: identify_def Let_def)

lemma strip_sel [simp]:
  "hr_Method (strip r) = hr_Method r" "hr_Segs (strip r) = drop 2 (hr_Segs r)" "hr_Header (strip r) = hr_Header r"
  by (simp_all add: strip_def)

lemma admitted:
  assumes "gated check r = Admitted cookies q"
  obtains tok c where "BearerToken r = Inr tok" "check tok = Inr c" "q = identify c r"
    "requiresAdmin (hr_Method r) (hr_Path r) \<longrightarrow> cl_Role c = ''admin''"
  using assms by (auto simp: gated_def serveAuthed_def Let_def split: sum.splits if_splits)

lemma backend_config:
  assumes "backend_of pf name = Some serve" "hr_Segs r = ''api'' # name # hr_Segs q" "hr_Method q = hr_Method r"
    "\<not> requiresAdmin (hr_Method r) (hr_Path r)" "caller_role q \<noteq> ''admin''"
    "find_route public_routes (hr_Method r) (hr_Segs r) = None" "no_zero_keys db"
  shows "access_config (outcome_db (serve am q db)) = access_config db"
proof -
  have auth: "access_config (outcome_db (auth_serve env am q db)) = access_config db" if "name = ''auth''" for env
    using auth_config [OF _ assms(3-7)] assms(2) that by simp
  have policy: "access_config (outcome_db (policy_serve host q db)) = access_config db" if "name = ''policy''" for host
    using policy_config [OF _ assms(3,4,7)] assms(2) that by simp
  show ?thesis using assms(1,5) auth policy
    by (auto simp: backend_of_def answer_auth_service_def answer_vault_service_def vault_config approval_config
        audit_service_config split: if_splits)
qed

lemma serve_gated_config:
  assumes "serve_gated pf check am r db = Some out" "find_route public_routes (hr_Method r) (hr_Segs r) = None"
    "no_zero_keys db" "access_config (outcome_db out) \<noteq> access_config db"
  shows "\<exists>tok c. BearerToken r = Inr tok \<and> check tok = Inr c \<and> cl_Role c = ''admin''"
proof -
  from assms(1) obtain name rest ss serve where segs: "hr_Segs r = ''api'' # name # rest # ss"
    and serve: "backend_of pf name = Some serve"
    and out: "out = refuse (gated check r) (\<lambda>_ r. serve am (strip r) db) db"
    by (auto simp: serve_gated_def split: list.splits if_splits)
  from out assms(4) obtain cookies q where adm: "gated check r = Admitted cookies q"
    and diff: "access_config (outcome_db (serve am (strip q) db)) \<noteq> access_config db"
    by (auto simp: refuse_def split: admission.splits)
  from adm obtain tok c where tok: "BearerToken r = Inr tok" "check tok = Inr c" "q = identify c r"
    "requiresAdmin (hr_Method r) (hr_Path r) \<longrightarrow> cl_Role c = ''admin''"
    by (rule admitted)
  have "cl_Role c = ''admin''"
  proof (rule ccontr)
    assume "cl_Role c \<noteq> ''admin''"
    then have "access_config (outcome_db (serve am (strip q) db)) = access_config db"
      using backend_config [OF serve, of r "strip q" db am] tok(3,4) segs assms(2,3) by simp
    with diff show False by simp
  qed
  with tok show ?thesis by blast
qed


definition group_request :: http_request where
  "group_request =
     \<lparr>hr_Method = ''POST'', hr_Segs = [''api'', ''auth'', ''groups''],
      hr_Header = (\<lambda>h. if h = ''Authorization'' then ''Bearer t'' else []), hr_Query = (\<lambda>_. []), hr_Cookie = (\<lambda>_. None),
      hr_Body = Some (JObj [(''name'', JStr ''ops'')]), hr_RemoteAddr = []\<rparr>"

definition root_claims :: claims where
  "root_claims = \<lparr>cl_UID = 1, cl_User = ''root'', cl_Role = ''admin'', cl_Scope = []\<rparr>"

lemma group_request_creates:
  "groups (outcome_db (gateway pf (\<lambda>_. Inr root_claims) am group_request empty_db)) \<noteq> []"
  by code_simp


end
