(* ===== verification/GatewaySpec.thy ===== *)
theory GatewaySpec
  imports GateSpec
begin

text \<open>
  The cache of verified tokens as a state machine, what it promises about the age and the number of its entries, and
  what the gateway lets through: the routes that no entry of the gate names, and the tokens of an enrollment.
\<close>

section \<open>The runs of the cache\<close>

text \<open>The auth-service was asked about this token.\<close>

definition asked :: "int \<Rightarrow> string \<Rightarrow> verify_cache \<Rightarrow> bool" where
  "asked now tok cache =
     (case map_of cache (verifyCacheKey tok) of Some e \<Rightarrow> \<not> now < ce_expiry e | None \<Rightarrow> True)"

text \<open>The log holds the tokens that the auth-service accepted, with the instant and the claims.\<close>

inductive cache_run :: "verify_cache \<Rightarrow> (int \<times> string \<times> claims) list \<Rightarrow> bool" where
  start: "cache_run [] []"
| call: "cache_run cache log \<Longrightarrow> verifyTokenCached host now later order answer tok cache = (out, cache') \<Longrightarrow>
    log' = (case answer of Inr c \<Rightarrow> if asked now tok cache then (later, tok, c) # log else log | Inl _ \<Rightarrow> log) \<Longrightarrow>
    cache_run cache' log'"
| collect: "cache_run cache log \<Longrightarrow> cache_run (collect_cache now cache) log"
| invalidate: "cache_run cache log \<Longrightarrow> cache_run (invalidateVerifyCache cache) log"

definition entry_backed :: "(int \<times> string \<times> claims) list \<Rightarrow> string \<times> cache_entry \<Rightarrow> bool" where
  "entry_backed log ke =
     (\<exists>t tok. (t, tok, ce_claims (snd ke)) \<in> set log \<and> verifyCacheKey tok = fst ke \<and>
        ce_expiry (snd ke) = t + verifyCacheTTL \<and> ce_stale (snd ke) = t + verifyStaleTTL)"

definition cache_ok :: "(int \<times> string \<times> claims) list \<Rightarrow> verify_cache \<Rightarrow> bool" where
  "cache_ok log cache =
     (distinct (map fst cache) \<and> length cache \<le> verifyCacheMaxSize \<and> (\<forall>ke \<in> set cache. entry_backed log ke))"

lemma evict_expired_sub:
  "distinct (map fst cache) \<Longrightarrow>
   set (evict_expired now n keys cache) \<subseteq> set cache \<and> distinct (map fst (evict_expired now n keys cache)) \<and>
   length (evict_expired now n keys cache) \<le> length cache"
proof (induction now n keys cache rule: evict_expired.induct)
  case (1 now n cache)
  then show ?case by simp
next
  case (2 now n k ks cache)
  have del: "set (AList.delete k cache) \<subseteq> set cache" "distinct (map fst (AList.delete k cache))"
    "length (AList.delete k cache) \<le> length cache"
    using 2(4) by (auto simp: AList.delete_eq distinct_map_filter)
  show ?case
  proof (cases "map_of cache k")
    case None
    with 2 show ?thesis by simp
  next
    case (Some e)
    with 2(2) [OF Some _ _ del(2)] 2(3) [OF Some _ 2(4)] del show ?thesis by (auto intro: order_trans)
  qed
qed

lemma cache_ok_mono: "cache_ok log cache \<Longrightarrow> set log \<subseteq> set log' \<Longrightarrow> cache_ok log' cache"
  by (fastforce simp: cache_ok_def entry_backed_def)

lemma cache_ok_sub:
  "cache_ok log cache \<Longrightarrow> set cache' \<subseteq> set cache \<Longrightarrow> distinct (map fst cache') \<Longrightarrow> length cache' \<le> length cache \<Longrightarrow>
   cache_ok log cache'"
  by (auto simp: cache_ok_def)

lemma put_cache_ok:
  assumes "cache_ok log cache"
  shows "cache_ok ((now, tok, c) # log) (verifyCachePut now order (verifyCacheKey tok) c cache)"
proof -
  let ?key = "verifyCacheKey tok"
  let ?e = "\<lparr>ce_claims = c, ce_expiry = now + verifyCacheTTL, ce_stale = now + verifyStaleTTL\<rparr>"
  let ?ev = "evict_expired now (verifyCacheMaxSize div 4) order cache"
  define small where "small = (if verifyCacheMaxSize \<le> length cache then
      if verifyCacheMaxSize \<le> length ?ev then [] else ?ev else cache)"
  have "set ?ev \<subseteq> set cache \<and> distinct (map fst ?ev) \<and> length ?ev \<le> length cache"
    using assms by (intro evict_expired_sub) (simp add: cache_ok_def)
  with assms have small: "cache_ok log small" "length small < verifyCacheMaxSize"
    unfolding small_def by (auto simp: cache_ok_def verifyCacheMaxSize_def)
  have put: "verifyCachePut now order ?key c cache = AList.update ?key ?e small"
    by (simp add: verifyCachePut_def small_def Let_def)
  have "entry_backed ((now, tok, c) # log) (?key, ?e)" by (auto simp: entry_backed_def)
  moreover have "\<forall>ke \<in> set small. entry_backed ((now, tok, c) # log) ke"
    using cache_ok_mono [OF small(1), of "(now, tok, c) # log"] by (auto simp: cache_ok_def)
  moreover have "set (AList.update ?key ?e small) \<subseteq> insert (?key, ?e) (set small)"
    by (induction small) auto
  moreover have "length (AList.update ?key ?e small) \<le> Suc (length small)"
    by (induction small) auto
  ultimately show ?thesis using small
    by (fastforce simp: cache_ok_def put AList.distinct_update)
qed

lemma cache_run_ok: "cache_run cache log \<Longrightarrow> cache_ok log cache"
proof (induction rule: cache_run.induct)
  case start
  then show ?case by (simp add: cache_ok_def)
next
  case (call cache log host now later order answer tok out cache' log')
  show ?case
  proof (cases "\<exists>c. answer = Inr c \<and> asked now tok cache")
    case True
    then obtain c where c: "answer = Inr c" "asked now tok cache" by blast
    then have "cache' = verifyCachePut later order (verifyCacheKey tok) c cache"
      using call(2) by (auto simp: verifyTokenCached_def asked_def Let_def split: option.splits)
    moreover have "log' = (later, tok, c) # log" using call(3) c by simp
    ultimately show ?thesis using put_cache_ok [OF call(4)] by simp
  next
    case False
    then have "cache' = cache"
      using call(2) by (auto simp: verifyTokenCached_def asked_def Let_def split: option.splits sum.splits if_splits prod.splits)
    moreover have "log' = log" using False call(3) by (auto split: sum.splits)
    ultimately show ?thesis using call(4) by simp
  qed
next
  case (collect cache log now)
  then show ?case
    by (intro cache_ok_sub [OF collect(2)])
      (auto simp: collect_cache_def cache_ok_def distinct_map_filter)
next
  case (invalidate cache log)
  then show ?case by (simp add: invalidateVerifyCache_def cache_ok_def)
qed

text \<open>
  The cache of verified tokens never holds more than 4096 entries and never two under one key, whatever the calls, the
  collections and the invalidations, whatever the clock says and in whatever order the map is walked to evict: eviction
  removes at least one entry or clears the map before an entry is added.
\<close>

theorem verify_cache_bounded:
  assumes "cache_run cache log"
  shows "length cache \<le> 4096 \<and> distinct (map fst cache)"
  using cache_run_ok [OF assms] by (simp add: cache_ok_def verifyCacheMaxSize_def)

text \<open>One call on the empty cache, answered by the auth-service at the instant 5.\<close>

definition first_call :: "verified \<times> verify_cache" where
  "first_call = verifyTokenCached ''auth'' 3 5 [] (Inr root_claims) ''t'' []"

lemma first_call_run: "cache_run (snd first_call) [(5, ''t'', root_claims)]"
  by (rule cache_run.call [OF cache_run.start, of "''auth''" 3 5 "[]" "Inr root_claims" "''t''" "fst first_call"])
    (simp_all add: first_call_def asked_def)

lemma first_call_entry:
  "map_of (snd first_call) (verifyCacheKey ''t'') =
     Some \<lparr>ce_claims = root_claims, ce_expiry = 60000000005, ce_stale = 300000000005\<rparr>"
  by (simp add: first_call_def verifyTokenCached_def verifyCachePut_def verifyCacheMaxSize_def verifyCacheTTL_def
      verifyStaleTTL_def Let_def)

theorem verify_cache_bounded_witness:
  "length (snd first_call) \<le> 4096 \<and> distinct (map fst (snd first_call))"
  by (rule verify_cache_bounded [OF first_call_run])

text \<open>C16: 
  What the gateway takes a token for is never older than it promises.  Claims come from the auth-service's answer to this
  very request, or from an answer to a request with the same cache key that is less than 60 seconds old, or less than 300
  seconds old when the auth-service cannot be reached; an answer of the auth-service that rejects the token is never
  overruled by the cache.
\<close>

theorem cached_claims_recent:
  assumes run: "cache_run cache log"
    and out: "fst (verifyTokenCached host now later order answer tok cache) = Inr c"
  shows "asked now tok cache \<and> answer = Inr c \<or>
    (\<exists>t tok'. (t, tok', c) \<in> set log \<and> verifyCacheKey tok' = verifyCacheKey tok \<and>
      (now < t + 60 * 10 ^ 9 \<or>
       now < t + 300 * 10 ^ 9 \<and> (\<exists>n e. answer = Inl (n, e) \<and> isTransportError e)))"
proof (cases "map_of cache (verifyCacheKey tok)")
  case None
  with out show ?thesis by (auto simp: verifyTokenCached_def asked_def Let_def split: sum.splits prod.splits)
next
  case (Some e)
  then have "(verifyCacheKey tok, e) \<in> set cache" by (rule map_of_SomeD)
  then obtain t tok' where log: "(t, tok', ce_claims e) \<in> set log" "verifyCacheKey tok' = verifyCacheKey tok"
    and age: "ce_expiry e = t + 60 * 10 ^ 9" "ce_stale e = t + 300 * 10 ^ 9"
    using cache_run_ok [OF run] by (fastforce simp: cache_ok_def entry_backed_def verifyCacheTTL_def verifyStaleTTL_def)
  from out Some consider "now < ce_expiry e" "c = ce_claims e" | "\<not> now < ce_expiry e" "answer = Inr c"
    | "c = ce_claims e" "now < ce_stale e" "\<exists>n err. answer = Inl (n, err) \<and> isTransportError err"
    by (auto simp: verifyTokenCached_def Let_def split: if_splits sum.splits prod.splits)
  then show ?thesis using log age Some by cases (auto simp: asked_def)
qed

text \<open>Two minutes after the call the auth-service is down.\<close>

theorem cached_claims_recent_witness:
  "asked 120000000000 ''t'' (snd first_call) \<and> (Inl (500, Transport []) :: verified) = Inr root_claims \<or>
    (\<exists>t tok'. (t, tok', root_claims) \<in> set [(5 :: int, ''t'', root_claims)] \<and> verifyCacheKey tok' = verifyCacheKey ''t'' \<and>
      (120000000000 < t + 60 * 10 ^ 9 \<or> 120000000000 < t + 300 * 10 ^ 9 \<and>
         (\<exists>n e. (Inl (500, Transport []) :: verified) = Inl (n, e) \<and> isTransportError e)))"
proof (rule cached_claims_recent [OF first_call_run])
  show "fst (verifyTokenCached ''auth'' 120000000000 120000000001 [] (Inl (500, Transport [])) ''t'' (snd first_call)) =
      Inr root_claims"
    by (simp add: verifyTokenCached_def first_call_entry isTransportError_def)
qed

section \<open>What the gate lets through\<close>

text \<open>The verification of a token looks at no table: neither disabling nor deleting a user nor changing a role reaches a
  token before it expires.\<close>

lemma token_ignores_users:
  "verifyToken env down (db\<lparr>users := us\<rparr>) tok = verifyToken env down db tok"
  by (cases down) (simp_all add: verifyToken_up, simp add: verifyToken_def)

text \<open>The scope of a token is passed on and checked by no one but the handlers of the second factor: the token of an
  enrollment, which a password alone earns, passes the gate with the role of its user.  Without a scope in the token the
  header of the client goes through.\<close>

lemma enrollment_token_passes:
  assumes "BearerToken r = Inr tok" "check tok = Inr c" "cl_Role c = ''admin''"
  shows "gated check r = Admitted [] (identify c r)"
    "cl_Scope c = [] \<Longrightarrow> hr_Header (identify c r) ''X-PAM-Scope'' = hr_Header r ''X-PAM-Scope''"
  using assms by (simp_all add: gated_def serveAuthed_def identify_def Let_def)

text \<open>A request for a web console without any token is admitted, with the identity headers that the client sent.\<close>

lemma anonymous_web_console:
  assumes "has_prefix (webSessionIDFromPath (hr_Path r)) ''web-''" "BearerTokenFromRequest r = Inl e"
  shows "webGated check r =
    Admitted [] (set_header ''X-PAM-Web-Session'' (webSessionIDFromPath (hr_Path r)) r)"
proof -
  have "webSessionIDFromPath (hr_Path r) \<noteq> []" using assms(1) by (auto simp: has_prefix_code)
  with assms show ?thesis by (simp add: webGated_def serveWebSession_def Let_def)
qed

text \<open>\<^verbatim>\<open>PUT /api/auth/users/\<close> is in no entry of the gate and its handler does not ask for the role of the caller: a user
  makes itself an administrator.\<close>

definition intern_claims :: claims where
  "intern_claims = \<lparr>cl_UID = 7, cl_User = ''eve'', cl_Role = ''user'', cl_Scope = []\<rparr>"

definition intern_db :: pam_db where
  "intern_db = empty_db\<lparr>users := [user_row.make 7 ''eve'' None [] ''user'' None 0 ''local'' None None 0 0 0 0]\<rparr>"

definition promotion_request :: http_request where
  "promotion_request =
     \<lparr>hr_Method = ''PUT'', hr_Segs = [''api'', ''auth'', ''users'', ''7''],
      hr_Header = (\<lambda>h. if h = ''Authorization'' then ''Bearer t'' else []), hr_Query = (\<lambda>_. []), hr_Cookie = (\<lambda>_. None),
      hr_Body = Some (JObj [(''role'', JStr ''admin'')]), hr_RemoteAddr = []\<rparr>"

lemma self_promotion:
  "map u_role (users (outcome_db (gateway pf (\<lambda>_. Inr intern_claims) am promotion_request intern_db))) = [''admin'']"
  by code_simp

end
