(* ===== verification/AuthClient.thy ===== *)
theory AuthClient
  imports Http DeviceLookup
begin

text \<open>
  The client with which the SSH proxy, the TACACS+ server and the proxies of the browser ask the auth-service
  (\<^verbatim>\<open>internal/authclient/client.go\<close>).  The HTTP exchange is the argument \<open>post\<close>, a function of path and body to the
  status and the text of the answer, and \<^verbatim>\<open>json.Unmarshal\<close> is the argument \<open>parse\<close>.
\<close>

section \<open>The exchange\<close>

record http_reply =
  rp_Status :: nat
  rp_Raw :: string

type_synonym http_post = "string \<Rightarrow> json \<Rightarrow> err + http_reply"
type_synonym json_parser = "string \<Rightarrow> json option"

definition client_wrap :: "string \<Rightarrow> err \<Rightarrow> err" where
  "client_wrap what e = ErrMsg (''authclient: '' @ what @ '': '' @ err_text e)"

text \<open>\<^verbatim>\<open>json.Unmarshal\<close> into a struct: the struct as far as it was filled, and whether there was no error.\<close>

definition unmarshal_struct :: "json_parser \<Rightarrow> (json \<Rightarrow> 'a \<times> bool) \<Rightarrow> string \<Rightarrow> 'a \<times> bool" where
  "unmarshal_struct parse dec raw =
     (case parse raw of
        None \<Rightarrow> (fst (dec JNull), False)
      | Some j \<Rightarrow> (fst (dec j), json_is_struct j \<and> snd (dec j)))"

section \<open>Login\<close>

record client_user =
  cu_ID :: int
  cu_Username :: string
  cu_Email :: string
  cu_Role :: string
  cu_Source :: string
  cu_MFAEnabled :: bool

definition client_user_dec :: "json \<Rightarrow> client_user \<times> bool" where
  "client_user_dec j =
     (let i = int_field ''id'' j; n = str_field ''username'' j; m = str_field ''email'' j; r = str_field ''role'' j;
          s = str_field ''source'' j; f = bool_field ''mfa_enabled'' j
      in (\<lparr>cu_ID = fst i, cu_Username = fst n, cu_Email = fst m, cu_Role = fst r, cu_Source = fst s,
           cu_MFAEnabled = fst f\<rparr>,
          (json_is_struct j) \<and> snd i \<and> snd n \<and> snd m \<and> snd r \<and> snd s \<and> snd f))"

record login_result =
  li_Token :: string
  li_User :: "client_user option"
  li_Roles :: "string list"
  li_MFARequired :: bool
  li_MFAEnrollmentRequired :: bool
  li_UserID :: int

text \<open>The bodies of the answers 200 and 202.\<close>

definition login_ok_dec :: "json \<Rightarrow> (string \<times> client_user \<times> string list) \<times> bool" where
  "login_ok_dec j =
     (let t = str_field ''token'' j; u = client_user_dec (json_member ''user'' j); rs = str_list_field ''roles'' j
      in ((fst t, fst u, fst rs), snd t \<and> snd u \<and> snd rs))"

definition login_pending_dec :: "json \<Rightarrow> (bool \<times> bool \<times> int) \<times> bool" where
  "login_pending_dec j =
     (let m = bool_field ''mfa_required'' j; e = bool_field ''mfa_enrollment_required'' j; i = int_field ''user_id'' j
      in ((fst m, fst e, fst i), snd m \<and> snd e \<and> snd i))"

definition login_body :: "string \<Rightarrow> string \<Rightarrow> string \<Rightarrow> bool \<Rightarrow> json" where
  "login_body username password otp deviceAuth =
     JObj [(''OTP'', JStr otp), (''Password'', JStr password), (''Username'', JStr username),
           (''device_auth'', JBool deviceAuth)]"

definition dash :: string where
  "dash = [CHR 0xE2, CHR 0x80, CHR 0x94]"

definition client_Login ::
  "http_post \<Rightarrow> json_parser \<Rightarrow> string \<Rightarrow> string \<Rightarrow> string \<Rightarrow> bool \<Rightarrow> err + login_result" where
  "client_Login post parse username password otp deviceAuth =
     (case post ''/login'' (login_body username password otp deviceAuth) of
        Inl e \<Rightarrow> Inl (client_wrap ''post /login'' e)
      | Inr rp \<Rightarrow>
          if rp_Status rp = 200 then
            (case unmarshal_struct parse login_ok_dec (rp_Raw rp) of
               ((tok, u, roles), ok) \<Rightarrow>
                 if \<not> ok then Inl (client_wrap ''parse 200'' (ErrMsg ''invalid JSON''))
                 else Inr \<lparr>li_Token = tok, li_User = Some u, li_Roles = roles, li_MFARequired = False,
                        li_MFAEnrollmentRequired = False, li_UserID = 0\<rparr>)
          else if rp_Status rp = 202 then
            (case unmarshal_struct parse login_pending_dec (rp_Raw rp) of
               ((mfa, enroll, uid), _) \<Rightarrow>
                 if enroll
                 then Inl (ErrMsg (''MFA enrollment required '' @ dash @
                        '' sign in to the PAM portal and complete MFA setup first''))
                 else Inr \<lparr>li_Token = [], li_User = None, li_Roles = [], li_MFARequired = mfa,
                        li_MFAEnrollmentRequired = False, li_UserID = uid\<rparr>)
          else
            let msg = fst (fst (unmarshal_struct parse (\<lambda>j. (str_field ''error'' j, True)) (rp_Raw rp)))
            in Inl (ErrMsg (if msg = [] then rp_Raw rp else msg)))"

section \<open>Verifying a portal token\<close>

record token_claims =
  tk_UID :: int
  tk_User :: string
  tk_Role :: string

definition token_claims_dec :: "json \<Rightarrow> token_claims \<times> bool" where
  "token_claims_dec j =
     (let i = int_field ''uid'' j; u = str_field ''u'' j; r = str_field ''r'' j
      in (\<lparr>tk_UID = fst i, tk_User = fst u, tk_Role = fst r\<rparr>, snd i \<and> snd u \<and> snd r))"

definition client_Verify :: "http_post \<Rightarrow> json_parser \<Rightarrow> string \<Rightarrow> err + token_claims" where
  "client_Verify post parse token =
     (case post ''/verify'' (JObj [(''Token'', JStr token)]) of
        Inl e \<Rightarrow> Inl (client_wrap ''post /verify'' e)
      | Inr rp \<Rightarrow>
          if rp_Status rp \<noteq> 200 then Inl (ErrMsg (trim_space (rp_Raw rp)))
          else (case unmarshal_struct parse token_claims_dec (rp_Raw rp) of
                  (c, ok) \<Rightarrow> if ok then Inr c else Inl (ErrMsg ''invalid JSON'')))"

text \<open>A login has a user exactly for the answer 200 that could be read: whoever only looks for the user never takes a
  pending second factor for a success.\<close>

lemma client_Login_user:
  "client_Login post parse username password otp dev = Inr res \<Longrightarrow>
   li_User res \<noteq> None \<longleftrightarrow> (\<exists>rp. post ''/login'' (login_body username password otp dev) = Inr rp \<and> rp_Status rp = 200)"
  by (auto simp: client_Login_def Let_def split: sum.splits if_splits prod.splits)

end
