(* ===== verification/SshProxy.thy ===== *)
theory SshProxy
  imports AuthClient CmdGate Launch Users
begin

text \<open>
  The SSH proxy (\<^verbatim>\<open>internal/sshproxy/proxy.go\<close>, \<^verbatim>\<open>linux_connect.go\<close>) and the accounts it keeps on Linux machines
  (\<^verbatim>\<open>internal/linuxprovision\<close>).  The SSH library is outside the repository: the connection to a machine and a command
  run on it are arguments that read and change a world \<open>'w\<close>, the state of the machines.  A connection arrives with
  what \<^verbatim>\<open>ssh.Permissions.Extensions\<close> carries, a function of the name of the extension, the empty text for an absent
  one.  The copying of the two streams is the component \<open>CmdGate\<close>; here is what the gate is built from.
\<close>

section \<open>Text\<close>

fun splitUserTarget :: "string \<Rightarrow> (string \<times> string) option" where
  "splitUserTarget [] = None"
| "splitUserTarget (c # s) =
     (if c = CHR ''@'' then Some ([], s) else map_option (\<lambda>(u, t). (c # u, t)) (splitUserTarget s))"

definition joinCSV :: "string list \<Rightarrow> string" where
  "joinCSV xs = join '','' xs"

definition parseCSV :: "string \<Rightarrow> string list" where
  "parseCSV s =
     (if s = [] then [] else filter (\<lambda>p. p \<noteq> []) (map trim_space (split_on (CHR '','') s)))"

text \<open>The number wraps around at 64 bits; anything but digits is 0.\<close>

fun atoi_loop :: "64 word \<Rightarrow> string \<Rightarrow> 64 word" where
  "atoi_loop n [] = n"
| "atoi_loop n (c # s) =
     (if \<not> is_digit c then 0 else atoi_loop (n * 10 + word_of_nat (digit_val c)) s)"

definition mustAtoi :: "string \<Rightarrow> int" where
  "mustAtoi s = sint (atoi_loop 0 s)"

section \<open>The server\<close>

text \<open>\<open>sx_Login\<close> is the client of the auth-service; \<open>sx_Groups\<close> and \<open>sx_Approval\<close> say whether the server has these
  services.\<close>

record ssh_proxy =
  sx_Vault :: vault
  sx_Login :: "(string \<Rightarrow> string \<Rightarrow> string \<Rightarrow> bool \<Rightarrow> err + login_result) option"
  sx_Argon2 :: key_derivation
  sx_Parse :: json_parser
  sx_Groups :: bool
  sx_Approval :: bool
  sx_RecordingDir :: string

abbreviation Ssh_User :: sql_stmt where "Ssh_User \<equiv> Stmt ''sshproxy.user''"
abbreviation Ssh_Role :: sql_stmt where "Ssh_Role \<equiv> Stmt ''sshproxy.role''"
abbreviation Ssh_TargetID :: sql_stmt where "Ssh_TargetID \<equiv> Stmt ''sshproxy.target.id''"
abbreviation Ssh_TargetHost :: sql_stmt where "Ssh_TargetHost \<equiv> Stmt ''sshproxy.target.host''"
abbreviation Ssh_TargetName :: sql_stmt where "Ssh_TargetName \<equiv> Stmt ''sshproxy.target.name''"
abbreviation Ssh_Birthright :: sql_stmt where "Ssh_Birthright \<equiv> Stmt ''sshproxy.birthright''"
abbreviation Ssh_Account :: sql_stmt where "Ssh_Account \<equiv> Stmt ''sshproxy.account''"
abbreviation Ssh_Fail :: sql_stmt where "Ssh_Fail \<equiv> Stmt ''sshproxy.fail''"
abbreviation Ssh_Close :: sql_stmt where "Ssh_Close \<equiv> Stmt ''sshproxy.close''"
abbreviation Ssh_Order :: sql_stmt where "Ssh_Order \<equiv> Stmt ''sshproxy.order''"
abbreviation Ssh_Kill :: sql_stmt where "Ssh_Kill \<equiv> Stmt ''sshproxy.kill''"
abbreviation Ssh_Ack :: sql_stmt where "Ssh_Ack \<equiv> Stmt ''sshproxy.ack''"

section \<open>Who connects\<close>

record authed_user =
  ay_ID :: int
  ay_Role :: string
  ay_Email :: string

text \<open>\<^verbatim>\<open>errMFANeeded\<close> is told apart from every other error, also from one with the same text.\<close>

datatype auth_failure = MFANeeded | AuthError err

definition failure_err :: "auth_failure \<Rightarrow> err" where
  "failure_err f = (case f of MFANeeded \<Rightarrow> ErrMsg ''mfa required'' | AuthError e \<Rightarrow> e)"

definition ssh_authenticate :: "ssh_proxy \<Rightarrow> pam_db \<Rightarrow> string \<Rightarrow> string \<Rightarrow> string \<Rightarrow> auth_failure + authed_user" where
  "ssh_authenticate s db username password otp =
     (let otp = trim_space otp in
      case sx_Login s of
        Some login \<Rightarrow>
          (case login username password otp True of
             Inl e \<Rightarrow> Inl (AuthError e)
           | Inr res \<Rightarrow>
               if li_MFARequired res \<and> otp = [] then Inl MFANeeded
               else case li_User res of
                 None \<Rightarrow> Inl (AuthError (ErrMsg ''invalid credentials''))
               | Some u \<Rightarrow> Inr \<lparr>ay_ID = cu_ID u, ay_Role = cu_Role u, ay_Email = cu_Email u\<rparr>)
      | None \<Rightarrow>
          (case (if faults db Ssh_User then None else row_by u_username username (users db)) of
             None \<Rightarrow> Inl (AuthError (ErrMsg ''invalid credentials''))
           | Some u \<Rightarrow>
               if \<not> VerifyPassword (sx_Argon2 s) password (u_password_hash u)
               then Inl (AuthError (ErrMsg ''invalid credentials''))
               else Inr \<lparr>ay_ID = u_id u, ay_Role = u_role u, ay_Email = []\<rparr>))"

section \<open>Which machine\<close>

definition connection_rank :: "target_row \<Rightarrow> nat" where
  "connection_rank t =
     (if to_lower (t_connection_type t) = ''ssh'' then 0
      else if to_lower (t_connection_type t) = ''telnet'' then 1 else 2)"

text \<open>\<^verbatim>\<open>ORDER BY CASE ... END, id LIMIT 1\<close>: a stable sort by the rank of the rows sorted by key.\<close>

definition host_match :: "string \<Rightarrow> target_row list \<Rightarrow> target_row option" where
  "host_match ref ts = first_row (sort_key connection_rank (sort_key t_id (filter (\<lambda>t. t_host t = ref) ts)))"

definition resolveTarget :: "pam_db \<Rightarrow> string \<Rightarrow> err + target_row" where
  "resolveTarget db targetRef =
     (let ref = trim_space targetRef;
          found = (\<lambda>row. case row of None \<Rightarrow> Inl (ErrMsg ''target not found'') | Some t \<Rightarrow> Inr t) in
      if ref = [] then Inl (ErrMsg ''target not found'')
      else if has_prefix ref ''#'' \<or> has_prefix ref ''id:'' then
        (case parse_int64 (trim_prefix (trim_prefix ref ''id:'') ''#'') of
           None \<Rightarrow> Inl (ErrMsg ''target not found'')
         | Some i \<Rightarrow>
             if i \<le> 0 then Inl (ErrMsg ''target not found'')
             else found (if faults db Ssh_TargetID then None else row_by t_id i (targets db)))
      else case (if faults db Ssh_TargetHost then None else host_match ref (targets db)) of
        Some t \<Rightarrow> Inr t
      | None \<Rightarrow> found (if faults db Ssh_TargetName then None else row_by t_name ref (targets db)))"

section \<open>Whether it is allowed\<close>

definition birthright_count :: "pam_db \<Rightarrow> int \<Rightarrow> int \<Rightarrow> nat" where
  "birthright_count db userID targetID =
     (if faults db Ssh_Birthright then 0
      else length (filter (\<lambda>b. ba_user_id b = userID \<and> ba_target_id b = targetID) (birthright_assignments db)))"

text \<open>The grant of sudo, and the command lists that do not apply to a Linux machine.\<close>

definition linux_adjusted :: "ssh_proxy \<Rightarrow> pam_db \<Rightarrow> int \<Rightarrow> int \<Rightarrow> string \<Rightarrow> decision \<Rightarrow> err + decision" where
  "linux_adjusted s db userID targetID kind dec =
     (if \<not> IsLinuxKind kind then Inr dec
      else
        let cleared = (\<lambda>dec. dec\<lparr>AllowedCmds := [], DeniedCmds := []\<rparr>) in
        if \<not> sx_Approval s then Inr (cleared dec)
        else case ActiveSudoGranted db userID targetID of
          Inl e \<Rightarrow> Inl e
        | Inr sudo \<Rightarrow>
            Inr (cleared (if sudo then dec\<lparr>LinuxPrivilege := MergeLinuxPrivilege (LinuxPrivilege dec) ''sudo''\<rparr> else dec)))"

definition proxy_roles :: "ssh_proxy \<Rightarrow> pam_db \<Rightarrow> int \<Rightarrow> string \<Rightarrow> string list" where
  "proxy_roles s db userID primaryRole =
     (if sx_Groups s \<and> 0 < userID then
        (case EffectiveRoles db userID primaryRole of
           (eff, None) \<Rightarrow> if eff \<noteq> [] then eff else [primaryRole]
         | (_, Some _) \<Rightarrow> [primaryRole])
      else [primaryRole])"

definition errNeedsApproval :: err where
  "errNeedsApproval =
     ErrMsg (''approved access request required '' @ em_dash @
       '' open the portal, request access to this machine, and wait for approval'')"

definition evaluateAccess :: "ssh_proxy \<Rightarrow> pam_db \<Rightarrow> int \<Rightarrow> string \<Rightarrow> int \<Rightarrow> string \<Rightarrow> int \<Rightarrow> err + decision" where
  "evaluateAccess s db userID primaryRole targetID kind tier =
     (case Decide db \<lparr>in_UserID = userID, in_Role = primaryRole, in_Roles = proxy_roles s db userID primaryRole,
             in_TargetID = targetID, in_TargetKind = kind, in_TargetTier = tier, in_Action = ''ssh''\<rparr> of
        Inl e \<Rightarrow> Inl e
      | Inr dec \<Rightarrow>
          if \<not> Allow dec then Inl (ErrMsg (''denied by policy: '' @ go_list (Reasons dec)))
          else if RequireApproval dec \<and> sx_Approval s \<and> birthright_count db userID targetID = 0 \<and>
            \<not> IsApproved db userID targetID
          then Inl errNeedsApproval
          else linux_adjusted s db userID targetID kind dec)"

section \<open>What a connection carries\<close>

type_synonym extensions = "string \<Rightarrow> string"

definition no_extensions :: extensions where
  "no_extensions = (\<lambda>_. [])"

definition stash :: "int \<Rightarrow> string \<Rightarrow> target_row \<Rightarrow> decision \<Rightarrow> extensions" where
  "stash userID role t dec =
     no_extensions(''user-id'' := string_of_int userID, ''role'' := role, ''target-id'' := string_of_int (t_id t),
       ''target'' := t_name t, ''kind'' := t_kind t, ''host'' := t_host t, ''port'' := string_of_int (t_port t),
       ''tier'' := string_of_int (t_tier t), ''allow-csv'' := joinCSV (AllowedCmds dec),
       ''deny-csv'' := joinCSV (DeniedCmds dec), ''linux-privilege'' := LinuxPrivilege dec)"

definition authorizeAndStash :: "ssh_proxy \<Rightarrow> pam_db \<Rightarrow> authed_user \<Rightarrow> string \<Rightarrow> err + extensions" where
  "authorizeAndStash s db u targetRef =
     (case resolveTarget db targetRef of
        Inl e \<Rightarrow> Inl e
      | Inr t \<Rightarrow>
          (case evaluateAccess s db (ay_ID u) (ay_Role u) (t_id t) (t_kind t) (t_tier t) of
             Inl e \<Rightarrow> Inl e
           | Inr dec \<Rightarrow> Inr (stash (ay_ID u) (ay_Role u) t dec)))"

definition stashPassthrough :: "string \<Rightarrow> extensions \<Rightarrow> extensions" where
  "stashPassthrough password ext = (if password = [] then ext else ext(''pt-password'' := password))"

text \<open>\<^verbatim>\<open>sshlaunch.ParseSessionCreds\<close>.\<close>

definition ssh_creds_dec :: "json \<Rightarrow> ssh_creds \<times> bool" where
  "ssh_creds_dec j =
     (let m = str_field ''mode'' j; t = str_field ''token'' j; u = str_field ''portal_user'' j; r = str_field ''target_ref'' j;
          i = int_field ''user_id'' j; g = int_field ''target_id'' j; s = str_field ''session_id'' j;
          p = str_field ''passthrough_pw'' j; cc = opt_bool_field ''clipboard_copy'' j; cp = opt_bool_field ''clipboard_paste'' j
      in (\<lparr>sk_Mode = fst m, sk_Token = fst t, sk_PortalUser = fst u, sk_TargetRef = fst r, sk_UserID = fst i,
           sk_TargetID = fst g, sk_SessionID = fst s, sk_PassthroughPW = fst p, sk_ClipboardCopy = fst cc,
           sk_ClipboardPaste = fst cp\<rparr>,
          snd m \<and> snd t \<and> snd u \<and> snd r \<and> snd i \<and> snd g \<and> snd s \<and> snd p \<and> snd cc \<and> snd cp))"

definition ParseSessionCreds :: "json_parser \<Rightarrow> bytes \<Rightarrow> err + ssh_creds" where
  "ParseSessionCreds parse raw =
     (case unmarshal_struct parse ssh_creds_dec (string_of_bytes raw) of
        (c, ok) \<Rightarrow> if ok then Inr c else Inl (ErrMsg ''invalid JSON''))"

definition tryBrowserToken :: "ssh_proxy \<Rightarrow> pam_db \<Rightarrow> string \<Rightarrow> string \<Rightarrow> string \<Rightarrow> err + extensions" where
  "tryBrowserToken s db loginUser targetRef token =
     (if token = [] then Inl (ErrMsg ''no token'')
      else case GetSecret (sx_Vault s) db (BrowserTokenVaultKey token) of
        Inl _ \<Rightarrow> Inl (ErrMsg ''invalid token'')
      | Inr raw \<Rightarrow>
          (case ParseSessionCreds (sx_Parse s) raw of
             Inl _ \<Rightarrow> Inl (ErrMsg ''invalid token'')
           | Inr creds \<Rightarrow>
               if sk_Mode creds \<noteq> ''browser'' then Inl (ErrMsg ''invalid token'')
               else if sk_PortalUser creds \<noteq> loginUser \<or> sk_TargetRef creds \<noteq> targetRef
               then Inl (ErrMsg ''token mismatch'')
               else case resolveTarget db targetRef of
                 Inl e \<Rightarrow> Inl e
               | Inr t \<Rightarrow>
                   if t_id t \<noteq> sk_TargetID creds then Inl (ErrMsg ''target mismatch'')
                   else case (if faults db Ssh_Role then None else row_by u_id (sk_UserID creds) (users db)) of
                     None \<Rightarrow> Inl (ErrMsg ''user not found'')
                   | Some u \<Rightarrow>
                       (case evaluateAccess s db (sk_UserID creds) (u_role u) (t_id t) (t_kind t) (t_tier t) of
                          Inl e \<Rightarrow> Inl e
                        | Inr dec \<Rightarrow>
                            Inr (stashPassthrough (sk_PassthroughPW creds)
                              ((stash (sk_UserID creds) (u_role u) t dec)
                                 (''browser-session-id'' := sk_SessionID creds))))))"

section \<open>The two ways to log in\<close>

definition errLoginForm :: err where "errLoginForm = ErrMsg ''login must be user@target''"

definition passwordAuth :: "ssh_proxy \<Rightarrow> pam_db \<Rightarrow> string \<Rightarrow> string \<Rightarrow> err + extensions" where
  "passwordAuth s db login pw =
     (case splitUserTarget login of
        None \<Rightarrow> Inl errLoginForm
      | Some (user, target) \<Rightarrow>
          (case tryBrowserToken s db user target pw of
             Inr ext \<Rightarrow> Inr ext
           | Inl _ \<Rightarrow>
               (case ssh_authenticate s db user pw [] of
                  Inl MFANeeded \<Rightarrow> Inl (ErrMsg (''MFA required '' @ em_dash @ '' retry with keyboard-interactive''))
                | Inl (AuthError e) \<Rightarrow> Inl e
                | Inr u \<Rightarrow>
                    (case authorizeAndStash s db u target of
                       Inl e \<Rightarrow> Inl e
                     | Inr ext \<Rightarrow> Inr (stashPassthrough pw ext)))))"

definition ssh_event :: "string \<Rightarrow> string \<Rightarrow> string \<Rightarrow> string \<Rightarrow> (string \<times> string) list \<Rightarrow> event" where
  "ssh_event kind severity actor tgt detail =
     \<lparr>evn_Time = None, evn_Source = ''ssh-proxy'', evn_Kind = kind, evn_Severity = severity, evn_Actor = actor,
      evn_Target = tgt, evn_Detail = detail\<rparr>"

text \<open>The prompt, which names the machine.\<close>

definition target_hint :: "pam_db \<Rightarrow> string \<Rightarrow> string" where
  "target_hint db target =
     (case resolveTarget db target of
        Inr t \<Rightarrow> t_name t @ '' ['' @ t_kind t @ ''] '' @ t_host t @ '':'' @ string_of_int (t_port t) @
          '' (id '' @ string_of_int (t_id t) @ '')''
      | Inl _ \<Rightarrow> target @ '' '' @ em_dash @ '' unknown machine (will fail authorization)'')"

definition keyboardInteractiveAuth ::
  "ssh_proxy \<Rightarrow> pam_db \<Rightarrow> string \<Rightarrow> (string \<Rightarrow> string \<Rightarrow> err + string list) \<Rightarrow> (err + extensions) \<times> event list" where
  "keyboardInteractiveAuth s db login challenge =
     (case splitUserTarget login of
        None \<Rightarrow> (Inl errLoginForm, [])
      | Some (user, target) \<Rightarrow>
          (case challenge user (''PAM Platform -> '' @ target_hint db target @ [CHR 0x0D, CHR 0x0A] @
                  ''Authenticate with your portal credentials (AD or local).'') of
             Inl e \<Rightarrow> (Inl e, [])
           | Inr [] \<Rightarrow> (Inl (ErrMsg ''no password provided''), [])
           | Inr (pw # others) \<Rightarrow>
               if pw = [] then (Inl (ErrMsg ''no password provided''), [])
               else
                 let otp = (case others of [] \<Rightarrow> [] | o1 # _ \<Rightarrow> trim_space o1) in
                 case ssh_authenticate s db user pw otp of
                   Inl f \<Rightarrow> (Inl (failure_err f),
                     [ssh_event ''auth.fail'' ''warn'' user target [(''reason'', err_text (failure_err f))]])
                 | Inr u \<Rightarrow>
                     (case authorizeAndStash s db u target of
                        Inl e \<Rightarrow> (Inl e, [ssh_event ''policy.deny'' ''warn'' user target [(''reason'', err_text e)]])
                      | Inr ext \<Rightarrow> (Inr (stashPassthrough (if otp \<noteq> [] then pw @ otp else pw) ext), []))))"

section \<open>Accounts on Linux machines\<close>

definition linux_char :: "char \<Rightarrow> bool" where
  "linux_char c =
     ((CHR ''a'' \<le> c \<and> c \<le> CHR ''z'') \<or> (CHR ''0'' \<le> c \<and> c \<le> CHR ''9'') \<or> c = CHR ''_'' \<or> c = CHR ''-'' \<or> c = CHR ''.'')"

text \<open>Names are ASCII here: the code ranges over the characters, not the bytes.\<close>

definition LinuxUsername :: "string \<Rightarrow> string" where
  "LinuxUsername portal =
     (let u = trim_space portal;
          u = (case index_byte u (CHR ''@'') of Some i \<Rightarrow> if 0 < i then take i u else u | None \<Rightarrow> u);
          out = map (\<lambda>c. if linux_char c then c else CHR ''_'') (to_lower u);
          out = (if out = [] then ''pamuser'' else out)
      in take 32 out)"

text \<open>The script, line by line; \<^verbatim>\<open>%q\<close> quotes the values.\<close>

definition nl :: string where "nl = [CHR 0x0A]"

definition provisionScript :: "string \<Rightarrow> string \<Rightarrow> string \<Rightarrow> string" where
  "provisionScript user pwB64 privilege =
     join nl
       [''set -e'',
        ''U='' @ go_quote user,
        ''PW=$(printf %s '' @ go_quote pwB64 @ '' | base64 -d 2>/dev/null || printf %s '' @ go_quote pwB64 @
          '' | base64 -D 2>/dev/null)'',
        ''PRIV='' @ go_quote privilege,
        ''if [ -z \"$PW\" ]; then echo \"PAM: could not decode password\" >&2; exit 1; fi'',
        ''if [ \"$(id -u)\" -eq 0 ]; then'',
        ''  RUN() { \"$@\"; }'',
        ''elif sudo -n true 2>/dev/null; then'',
        ''  RUN() { sudo -n \"$@\"; }'',
        ''else'',
        ''  echo \"PAM: bootstrap user needs root or passwordless sudo (sudo -n)\" >&2'',
        ''  exit 1'',
        ''fi'',
        ''if ! id -u \"$U\" >/dev/null 2>&1; then'',
        ''  RUN useradd -m -s /bin/bash \"$U\" 2>/dev/null || RUN useradd --badname -m -s /bin/bash \"$U\"'',
        ''fi'',
        ''printf '' @ [CHR 0x27] @ ''%s:%s'' @ [CHR 0x5C] @ ''n'' @ [CHR 0x27] @ '' \"$U\" \"$PW\" | RUN chpasswd'',
        ''if [ \"$PRIV\" = \"sudo\" ] || [ \"$PRIV\" = \"root\" ]; then'',
        ''  set +e'',
        ''  getent group sudo >/dev/null 2>&1 && RUN usermod -aG sudo \"$U\"'',
        ''  getent group wheel >/dev/null 2>&1 && RUN usermod -aG wheel \"$U\"'',
        ''  set -e'',
        ''  f=\"/etc/sudoers.d/pam-${U}\"'',
        ''  printf '' @ [CHR 0x27] @ ''%s ALL=(ALL) NOPASSWD: ALL'' @ [CHR 0x5C] @ ''n'' @ [CHR 0x27] @
          '' \"$U\" | RUN tee \"$f\" >/dev/null'',
        ''  RUN chmod 0440 \"$f\"'',
        ''  if ! RUN visudo -cf \"$f\" >/dev/null 2>&1; then'',
        ''    echo \"PAM: visudo check failed for $f\" >&2'',
        ''    exit 1'',
        ''  fi'',
        ''else'',
        ''  set +e'',
        ''  f=\"/etc/sudoers.d/pam-${U}\"'',
        ''  [ -f \"$f\" ] && RUN rm -f \"$f\"'',
        ''  getent group sudo >/dev/null 2>&1 && RUN gpasswd -d \"$U\" sudo 2>/dev/null'',
        ''  getent group wheel >/dev/null 2>&1 && RUN gpasswd -d \"$U\" wheel 2>/dev/null'',
        ''  set -e'',
        ''fi'',
        ''id -u \"$U\" >/dev/null'', []]"

text \<open>The machine: \<open>mc_Dial\<close> is \<^verbatim>\<open>ssh.Dial\<close> and \<open>mc_Run\<close> a command in a fresh session of a client, with its output.\<close>

datatype 'k down_auth = ByCert 'k | ByPassword string

record 'k down_config =
  dw_User :: string
  dw_Auth :: "'k down_auth"

record ('k, 'c, 'w) machine =
  mc_Dial :: "string \<Rightarrow> 'k down_config \<Rightarrow> 'w \<Rightarrow> (err + 'c) \<times> 'w"
  mc_Session :: "'c \<Rightarrow> 'w \<Rightarrow> err option"
  mc_Run :: "'c \<Rightarrow> string \<Rightarrow> 'w \<Rightarrow> (string \<times> err option) \<times> 'w"

definition buildDownstreamConfig :: "string \<Rightarrow> string \<Rightarrow> 'k option \<Rightarrow> 'k down_config" where
  "buildDownstreamConfig user password cert =
     (case cert of
        Some k \<Rightarrow> if password = [] then \<lparr>dw_User = user, dw_Auth = ByCert k\<rparr>
                  else \<lparr>dw_User = user, dw_Auth = ByPassword password\<rparr>
      | None \<Rightarrow> \<lparr>dw_User = user, dw_Auth = ByPassword password\<rparr>)"

definition provision_error :: "string \<Rightarrow> err \<Rightarrow> string \<Rightarrow> err" where
  "provision_error user e out =
     ErrMsg (''provision '' @ go_quote user @ '': '' @ err_text e @
       (if trim_space out = [] then [] else '': '' @ trim_space out))"

definition EnsureUser ::
  "('k, 'c, 'w) machine \<Rightarrow> 'c \<Rightarrow> string \<Rightarrow> string \<Rightarrow> string \<Rightarrow> 'w \<Rightarrow> (err + unit) \<times> 'w" where
  "EnsureUser m c portalUser password privilege w =
     (let user = LinuxUsername portalUser;
          privilege = to_lower (trim_space privilege);
          privilege = (if privilege \<noteq> ''sudo'' \<and> privilege \<noteq> ''root'' then ''none'' else privilege);
          script = provisionScript user (StdEncoding_Encode (bytes_of_string password)) privilege
      in case mc_Session m c w of
           Some e \<Rightarrow> (Inl (wrap_err ''provision session'' e), w)
         | None \<Rightarrow>
             (case mc_Run m c script w of
                ((out, Some e), w) \<Rightarrow> (Inl (provision_error user e out), w)
              | ((_, None), w) \<Rightarrow> (Inr (), w)))"

definition isDownstreamAuthFailure :: "err \<Rightarrow> bool" where
  "isDownstreamAuthFailure e =
     (let msg = to_lower (err_text e) in
      str_contains msg ''unable to authenticate'' \<or> str_contains msg ''no supported methods'' \<or>
      str_contains msg ''permission denied'')"

definition syncLinuxAccount ::
  "('k, 'c, 'w) machine \<Rightarrow> string \<Rightarrow> string \<Rightarrow> string \<Rightarrow> string \<Rightarrow> string \<Rightarrow> string \<Rightarrow> 'k option \<Rightarrow> 'w \<Rightarrow> (err + unit) \<times> 'w" where
  "syncLinuxAccount m addr portalUser ptPassword privUser privPassword linuxPriv cert w =
     (if privUser = [] \<or> privPassword = [] then (Inl (ErrMsg ''no bootstrap account linked to target''), w)
      else case mc_Dial m addr (buildDownstreamConfig privUser privPassword cert) w of
        (Inl e, w) \<Rightarrow> (Inl (wrap_err ''bootstrap login'' e), w)
      | (Inr c, w) \<Rightarrow> EnsureUser m c portalUser ptPassword linuxPriv w)"

text \<open>The client, the account on the machine and the way it was reached.\<close>

definition dialLinux ::
  "('k, 'c, 'w) machine \<Rightarrow> string \<Rightarrow> string \<Rightarrow> string \<Rightarrow> string \<Rightarrow> string \<Rightarrow> string \<Rightarrow> 'k option \<Rightarrow> 'w \<Rightarrow>
   ((err + 'c) \<times> string \<times> string) \<times> 'w" where
  "dialLinux m addr portalUser ptPassword privUser privPassword linuxPriv cert w =
     (let linuxUser = LinuxUsername portalUser;
          bootstrap = (privUser \<noteq> [] \<and> privPassword \<noteq> []);
          cfg = buildDownstreamConfig linuxUser ptPassword cert;
          what = (if linuxPriv = ''sudo'' \<or> linuxPriv = ''root'' then ''could not apply Linux sudo policy for ''
                  else ''could not revoke Linux sudo for '')
      in if ptPassword = [] then ((Inl (ErrMsg ''portal password required for Linux login''), linuxUser, ''passthrough''), w)
         else case (if bootstrap then syncLinuxAccount m addr portalUser ptPassword privUser privPassword linuxPriv cert w
                    else (Inr (), w)) of
           (Inl e, w) \<Rightarrow>
             ((Inl (wrap_err (what @ go_quote linuxUser @ '' (check pam-svc bootstrap account)'') e), linuxUser,
               ''provision''), w)
         | (Inr _, w) \<Rightarrow>
             (case mc_Dial m addr cfg w of
                (Inr c, w) \<Rightarrow> ((Inr c, linuxUser, ''passthrough''), w)
              | (Inl e, w) \<Rightarrow>
                  if \<not> bootstrap \<or> \<not> isDownstreamAuthFailure e then ((Inl e, linuxUser, ''passthrough''), w)
                  else (case mc_Dial m addr (buildDownstreamConfig privUser privPassword cert) w of
                    (Inl e, w) \<Rightarrow>
                      ((Inl (wrap_err (''bootstrap login as '' @ go_quote privUser) e), linuxUser, ''provision''), w)
                  | (Inr b, w) \<Rightarrow>
                      (case EnsureUser m b portalUser ptPassword linuxPriv w of
                         (Inl e, w) \<Rightarrow> ((Inl e, linuxUser, ''provision''), w)
                       | (Inr _, w) \<Rightarrow>
                           (case mc_Dial m addr cfg w of
                              (Inl e, w) \<Rightarrow>
                                ((Inl (wrap_err (''login as provisioned user '' @ go_quote linuxUser) e), linuxUser,
                                  ''provisioned''), w)
                            | (Inr c, w) \<Rightarrow> ((Inr c, linuxUser, ''provisioned''), w))))))"

section \<open>A connection\<close>

text \<open>What the server knows of a connection: the login, the extensions, the address and the instant.  The flag of
  \<^verbatim>\<open>useLinuxPerUserLogin\<close> is that of the kind.\<close>

record ssh_conn =
  sc_User :: string
  sc_Ext :: extensions
  sc_Remote :: string
  sc_Nano :: int

definition useLinuxPerUserLogin :: "string \<Rightarrow> bool" where
  "useLinuxPerUserLogin kind = IsLinuxKind kind"

definition portal_username :: "ssh_conn \<Rightarrow> string" where
  "portal_username c = takeWhile (\<lambda>x. x \<noteq> CHR ''@'') (sc_User c)"

definition conn_session :: "ssh_conn \<Rightarrow> string" where
  "conn_session c =
     (if sc_Ext c ''browser-session-id'' \<noteq> [] then sc_Ext c ''browser-session-id''
      else string_of_int (sc_Nano c) @ ''-'' @ sc_Ext c ''target'')"

definition linux_password :: "ssh_conn \<Rightarrow> string" where
  "linux_password c =
     (let pt = sc_Ext c ''pt-password''; base = fst (SplitAppendedOTP pt) in if base = [] then pt else base)"

definition lookupPrivilegedAccount :: "ssh_proxy \<Rightarrow> pam_db \<Rightarrow> int \<Rightarrow> (string \<times> string) option" where
  "lookupPrivilegedAccount s db targetID =
     (if targetID = 0 \<or> faults db Ssh_Account then None
      else case first_row (sort_key pa_id (filter (\<lambda>a. pa_target_id a = Some targetID \<and>
              to_lower (pa_platform a) \<notin> {''windows'', ''rdp''}) (privileged_accounts db))) of
        None \<Rightarrow> None
      | Some a \<Rightarrow>
          (case GetSecret (sx_Vault s) db (pa_secret_ref a) of
             Inl _ \<Rightarrow> None
           | Inr pw \<Rightarrow> if pw = [] then None else Some (pa_username a, string_of_bytes pw)))"

type_synonym login_plan = "string \<times> string \<times> string"

definition linux_per_user :: "ssh_conn \<Rightarrow> bool" where
  "linux_per_user c = (useLinuxPerUserLogin (sc_Ext c ''kind'') \<and> sc_Ext c ''pt-password'' \<noteq> [])"

definition login_plans :: "ssh_conn \<Rightarrow> (string \<times> string) option \<Rightarrow> login_plan list" where
  "login_plans c priv =
     (if linux_per_user c then []
      else (case priv of Some (u, pw) \<Rightarrow> [(u, pw, ''priv-account'')] | None \<Rightarrow> []) @
        (if sc_Ext c ''pt-password'' \<noteq> [] then [(portal_username c, sc_Ext c ''pt-password'', ''passthrough'')] else []))"

definition crlf :: string where "crlf = [CHR 0x0D, CHR 0x0A]"

definition no_account_message :: string where
  "no_account_message =
     ''PAM browser SSH: this target has no privileged account in PAM.'' @ crlf @
     ''Launch again and enter the same portal password you use in PuTTY,'' @ crlf @
     ''or add a Privileged Account for this machine in the Safes tab.'' @ crlf"

definition no_cert_message :: string where
  "no_cert_message =
     ''PAM: no privileged account linked to this target.'' @ crlf @
     ''Add one in Privileged Accounts (Safes tab) with the device username + password.'' @ crlf"

text \<open>How to log in to the machine: a message to the user, the end without one, or the attempts and the certificate.
  \<open>issue\<close> is \<^verbatim>\<open>Vault.IssueSSHCert\<close> for 30 minutes, \<open>signer\<close> is \<^verbatim>\<open>buildCertSigner\<close>.\<close>

datatype 'k prepared = Tell string | Drop | Attempts "login_plan list" "'k option"

definition prepare ::
  "(string list \<Rightarrow> int \<Rightarrow> err + bytes \<times> bytes) \<Rightarrow> (bytes \<Rightarrow> bytes \<Rightarrow> err + 'k) \<Rightarrow> ssh_conn \<Rightarrow>
   (string \<times> string) option \<Rightarrow> 'k prepared" where
  "prepare issue signer c priv =
     (let plans = login_plans c priv in
      if plans \<noteq> [] \<or> linux_per_user c then Attempts plans None
      else if sc_Ext c ''browser-session-id'' \<noteq> [] then Tell no_account_message
      else case issue [sc_Ext c ''role'', ''pam-user''] (30 * 60) of
        Inl _ \<Rightarrow> Tell no_cert_message
      | Inr (key, cert) \<Rightarrow>
          (case signer key cert of
             Inl _ \<Rightarrow> Drop
           | Inr k \<Rightarrow> Attempts [(''pam-user'', [], ''ssh-cert'')] (Some k)))"

text \<open>The attempts: the password that was typed only after the machine has refused the vaulted account.\<close>

record 'c dial_outcome =
  do_Client :: "err + 'c"
  do_User :: string
  do_Mode :: string
  do_NoBootstrap :: bool

fun dial_plans ::
  "('k, 'c, 'w) machine \<Rightarrow> string \<Rightarrow> 'k option \<Rightarrow> login_plan list \<Rightarrow> 'w \<Rightarrow> 'c dial_outcome option \<times> 'w" where
  "dial_plans m addr cert [] w = (None, w)"
| "dial_plans m addr cert ((user, pw, mode) # plans) w =
     (case mc_Dial m addr (buildDownstreamConfig user pw cert) w of
        (Inr cl, w) \<Rightarrow> (Some \<lparr>do_Client = Inr cl, do_User = user, do_Mode = mode, do_NoBootstrap = False\<rparr>, w)
      | (Inl e, w) \<Rightarrow>
          if mode = ''priv-account'' \<and> plans \<noteq> [] \<and> isDownstreamAuthFailure e then dial_plans m addr cert plans w
          else (Some \<lparr>do_Client = Inl e, do_User = user, do_Mode = mode, do_NoBootstrap = False\<rparr>, w))"

definition target_addr :: "ssh_conn \<Rightarrow> string" where
  "target_addr c = sc_Ext c ''host'' @ '':'' @ sc_Ext c ''port''"

definition dial_target ::
  "('k, 'c, 'w) machine \<Rightarrow> ssh_conn \<Rightarrow> (string \<times> string) option \<Rightarrow> login_plan list \<Rightarrow> 'k option \<Rightarrow> 'w \<Rightarrow>
   'c dial_outcome option \<times> 'w" where
  "dial_target m c priv plans cert w =
     (if linux_per_user c then
        (let (pu, pp) = (case priv of Some p \<Rightarrow> p | None \<Rightarrow> ([], []));
             lp = sc_Ext c ''linux-privilege''
         in case dialLinux m (target_addr c) (portal_username c) (linux_password c) pu pp lp cert w of
              ((out, user, mode), w) \<Rightarrow>
                (Some \<lparr>do_Client = out, do_User = user, do_Mode = mode,
                  do_NoBootstrap = ((lp = ''sudo'' \<or> lp = ''root'') \<and> pu = [])\<rparr>, w))
      else dial_plans m (target_addr c) cert plans w)"

section \<open>What the user is told\<close>

definition network_kinds :: "string list" where
  "network_kinds = [''forti'', ''cisco'', ''juniper'', ''arista'', ''palo'', ''switch'', ''router'', ''firewall'']"

definition passthrough_hint :: "string \<Rightarrow> string \<Rightarrow> string" where
  "passthrough_hint kind user =
     (if list_ex (str_contains (to_lower kind)) network_kinds
      then ''This device does not know your portal user. Two options to fix:'' @ crlf @
        ''  1. Add a Privileged Account in the Safes tab with the device admin username/password.'' @ crlf @
        ''     PAM will use that account to log you in (recommended for Cisco/FortiGate).'' @ crlf @
        ''  2. Configure TACACS+ on the device so it asks PAM to authenticate your portal user.'' @ crlf @
        ''     See Machines -> Device Setup for the exact CLI/GUI commands.'' @ crlf
      else ''For Linux: PAM logs you in as your own account ('' @ user @
        ''), not the shared bootstrap user. PasswordAuthentication must be enabled in sshd_config.'' @ crlf)"

definition dialErrMsg :: "ssh_conn \<Rightarrow> string \<Rightarrow> string \<Rightarrow> err \<Rightarrow> string" where
  "dialErrMsg c user mode e =
     (let host = sc_Ext c ''host'' in
      if mode = ''priv-account''
      then ''PAM: could not log in to '' @ host @ '' as '' @ user @ '' (privileged account).'' @ crlf @
        ''Check the password in Privileged Accounts, or remove the account to use your portal credentials.'' @ crlf @
        ''Underlying error: '' @ err_text e @ crlf
      else if mode = ''provision'' \<or> mode = ''provisioned''
      then ''PAM: could not open a personal Linux session on '' @ host @ '' as '' @ user @ ''.'' @ crlf @
        ''Ensure bootstrap account pam-svc has passwordless sudo (sudo -n): NOPASSWD for useradd, chpasswd, tee /etc/sudoers.d/*.'' @ crlf @
        ''Enable PasswordAuthentication in sshd_config.'' @ crlf @ ''Details: '' @ err_text e @ crlf
      else if mode = ''passthrough''
      then ''PAM: could not log in to '' @ host @ '' as '' @ user @ '' using your portal credentials.'' @ crlf @
        passthrough_hint (sc_Ext c ''kind'') user @ ''Underlying error: '' @ err_text e @ crlf
      else ''PAM: could not connect to '' @ host @ ''.'' @ crlf @
        ''Add a privileged account for this target in the Privileged Accounts tab so PAM can log in for you.'' @ crlf @
        ''Underlying error: '' @ err_text e @ crlf)"

text \<open>The colours of the terminal, and a rule of \<open>n\<close> box characters.\<close>

definition esc :: "string \<Rightarrow> string" where
  "esc code = [CHR 0x1B, CHR ''[''] @ code @ ''m''"

definition box_rule :: "nat \<Rightarrow> string" where
  "box_rule n = concat (replicate n [CHR 0xE2, CHR 0x94, CHR 0x80])"

definition buildSessionBanner ::
  "string \<Rightarrow> string \<Rightarrow> string \<Rightarrow> string \<Rightarrow> string \<Rightarrow> string \<Rightarrow> string \<Rightarrow> string" where
  "buildSessionBanner name kind host port tier downUser authMode =
     (if name = [] then []
      else
        let label = (if tier \<noteq> [] then ''T'' @ tier else ''T?'') in
        crlf @ esc ''1;36'' @ box_rule 2 @ '' PAM session '' @ box_rule 38 @ esc ''0'' @ crlf @
        ''  '' @ esc ''1'' @ ''Machine:'' @ esc ''0'' @ ''   '' @ name @ ''  ('' @ kind @ '', '' @ label @ '')'' @ crlf @
        ''  '' @ esc ''1'' @ ''Device:'' @ esc ''0'' @ ''    '' @ host @ '':'' @ port @ '' as '' @ downUser @ crlf @
        ''  '' @ esc ''1'' @ ''Auth mode:'' @ esc ''0'' @ '' '' @ authMode @ crlf @
        esc ''1;36'' @ box_rule 53 @ esc ''0'' @ crlf @ crlf)"

definition sessionBannerWithEnableHint :: "string \<Rightarrow> string \<Rightarrow> string" where
  "sessionBannerWithEnableHint banner enableSecret =
     (if enableSecret = [] then banner
      else banner @ ''  '' @ esc ''33'' @ ''Enable:'' @ esc ''0'' @ '' type '' @ esc ''1'' @ ''en'' @ esc ''0'' @
        '' only '' @ em_dash @ '' PAM injects the enable password (do not type it).'' @ crlf @ crlf)"

definition sessionBannerWithSudoWarning :: "string \<Rightarrow> string \<Rightarrow> string" where
  "sessionBannerWithSudoWarning banner authMode =
     (if \<not> str_contains authMode ''sudo-no-bootstrap'' then banner
      else banner @ ''  '' @ esc ''1;33'' @ [CHR 0xE2, CHR 0x9A, CHR 0xA0] @
        ''  sudo granted in PAM but sudoers entry could not be written.'' @ esc ''0'' @ crlf @
        ''     Admin: go to Safes '' @ [CHR 0xE2, CHR 0x86, CHR 0x92] @
        '' add a privileged account (e.g. pam-svc) for this'' @ crlf @
        ''     target with passwordless sudo, then ask user to reconnect.'' @ crlf @ crlf)"

section \<open>The session\<close>

text \<open>The row of a native session: five attempts to insert it, and the connection goes on without it.\<close>

fun insert_retry :: "nat \<Rightarrow> session_row \<Rightarrow> pam_db \<Rightarrow> pam_db" where
  "insert_retry 0 r db = db"
| "insert_retry (Suc n) r db =
     (case insert_session r db of (Inr _, db) \<Rightarrow> db | (Inl _, db) \<Rightarrow> insert_retry n r db)"

text \<open>\<^verbatim>\<open>filepath.Join\<close> of a clean directory and names without a slash; the code joins any name of a machine.\<close>

definition recording_path :: "ssh_proxy \<Rightarrow> ssh_conn \<Rightarrow> string" where
  "recording_path s c =
     (let name = conn_session c @ ''.log'' in
      sx_RecordingDir s @ ''/'' @
      (if sc_Ext c ''browser-session-id'' = [] then name else ''ssh/'' @ conn_session c @ ''/'' @ name))"

definition open_native :: "ssh_proxy \<Rightarrow> ssh_conn \<Rightarrow> pam_db \<Rightarrow> pam_db" where
  "open_native s c db =
     insert_retry 5
       (open_session (conn_session c) (mustAtoi (sc_Ext c ''user-id'')) (mustAtoi (sc_Ext c ''target-id''))
          (sc_Remote c) ''ssh'' None (Some (recording_path s c)) db) db"

definition fail_native :: "ssh_conn \<Rightarrow> string \<Rightarrow> pam_db \<Rightarrow> pam_db" where
  "fail_native c reason db =
     (if sc_Ext c ''browser-session-id'' \<noteq> [] \<or> faults db Ssh_Fail then db
      else db\<lparr>sessions := update_where (\<lambda>r. ss_id r = conn_session c)
             (\<lambda>r. r\<lparr>ss_ended_at := Some (clock db), ss_ended_reason := Some reason\<rparr>) (sessions db)\<rparr>)"

text \<open>The end of the last channel closes the row that is open, the end of the connection writes the time again.\<close>

definition close_native :: "bool \<Rightarrow> ssh_conn \<Rightarrow> pam_db \<Rightarrow> pam_db" where
  "close_native only_open c db =
     (if sc_Ext c ''browser-session-id'' \<noteq> [] \<or> faults db Ssh_Close then db
      else db\<lparr>sessions := update_where (\<lambda>r. ss_id r = conn_session c \<and> (only_open \<longrightarrow> ss_ended_at r = None))
             (\<lambda>r. r\<lparr>ss_ended_at := Some (clock db),
                ss_ended_reason := Some (case ss_ended_reason r of None \<Rightarrow> ''closed'' | Some x \<Rightarrow> x)\<rparr>) (sessions db)\<rparr>)"

text \<open>One look at the orders to end sessions: true when the two connections are closed.\<close>

definition kill_session :: "string \<Rightarrow> pam_db \<Rightarrow> bool \<times> pam_db" where
  "kill_session sessionID db =
     (case (if faults db Ssh_Order then None else row_by st_session_id sessionID (session_terminations db)) of
        None \<Rightarrow> (False, db)
      | Some order \<Rightarrow>
          if st_acknowledged_at order \<noteq> None then (False, db)
          else
            let db = (if faults db Ssh_Kill then db
              else db\<lparr>sessions := update_where (\<lambda>r. ss_id r = sessionID)
                     (\<lambda>r. r\<lparr>ss_ended_at := Some (clock db), ss_ended_reason := Some ''terminated''\<rparr>) (sessions db)\<rparr>);
                db = (if faults db Ssh_Ack then db
              else db\<lparr>session_terminations := update_where (\<lambda>t. st_session_id t = sessionID)
                     (\<lambda>t. t\<lparr>st_acknowledged_at := Some (clock db)\<rparr>) (session_terminations db)\<rparr>)
            in (True, db))"

text \<open>The gate of a channel: the lists of the decision, the vaulted password as the enable secret, and the password that
  was typed.\<close>

definition pipe_passthrough :: "ssh_conn \<Rightarrow> string" where
  "pipe_passthrough c =
     (if IsLinuxKind (sc_Ext c ''kind'') then linux_password c else sc_Ext c ''pt-password'')"

definition enable_secret :: "ssh_proxy \<Rightarrow> pam_db \<Rightarrow> ssh_conn \<Rightarrow> string" where
  "enable_secret s db c =
     (case lookupPrivilegedAccount s db (mustAtoi (sc_Ext c ''target-id'')) of None \<Rightarrow> [] | Some (_, pw) \<Rightarrow> pw)"

definition channel_gate :: "ssh_proxy \<Rightarrow> pam_db \<Rightarrow> ssh_conn \<Rightarrow> cmd_gate option" where
  "channel_gate s db c =
     newCmdGate (parseCSV (sc_Ext c ''allow-csv'')) (parseCSV (sc_Ext c ''deny-csv'')) True (enable_secret s db c)
       (pipe_passthrough c) True"

definition deny_event :: "ssh_conn \<Rightarrow> string \<Rightarrow> event" where
  "deny_event c cmd =
     ssh_event ''cmd.deny'' ''warn'' (sc_User c) (sc_Ext c ''target'')
       [(''session_id'', conn_session c), (''command'', cmd)]"

text \<open>A chunk in the recording; \<open>stamp\<close> is the time in the format RFC 3339.\<close>

definition recorded_chunk :: "string \<Rightarrow> string \<Rightarrow> string \<Rightarrow> string" where
  "recorded_chunk stamp prefix b = ''['' @ stamp @ '' '' @ prefix @ ''] '' @ b @ nl"

text \<open>A connection up to the first channel: a message to the user, the end, or the session with the client, its banner and
  the gate of its channels.\<close>

datatype 'c opened = Told string | Dropped | Session 'c string "cmd_gate option"

definition handle_open ::
  "ssh_proxy \<Rightarrow> ('k, 'c, 'w) machine \<Rightarrow> (string list \<Rightarrow> int \<Rightarrow> err + bytes \<times> bytes) \<Rightarrow>
   (bytes \<Rightarrow> bytes \<Rightarrow> err + 'k) \<Rightarrow> err option \<Rightarrow> ssh_conn \<Rightarrow> pam_db \<Rightarrow> 'w \<Rightarrow>
   'c opened \<times> event list \<times> pam_db \<times> 'w" where
  "handle_open s m issue signer recording c db w =
     (let priv = lookupPrivilegedAccount s db (mustAtoi (sc_Ext c ''target-id''));
          native = (sc_Ext c ''browser-session-id'' = []) in
      case prepare issue signer c priv of
        Tell msg \<Rightarrow> (Told msg, [], db, w)
      | Drop \<Rightarrow> (Dropped, [], db, w)
      | Attempts plans cert \<Rightarrow>
          (case dial_target m c priv plans cert w of
             (out, w) \<Rightarrow>
               (case (if native then recording else None) of
                  Some e \<Rightarrow>
                    (Told (''PAM: internal error '' @ em_dash @ '' could not start session recording.'' @ crlf @
                       ''Underlying error: '' @ err_text e @ crlf), [], db, w)
                | None \<Rightarrow>
                    let db = (if native then open_native s c db else db) in
                    case out of
                      None \<Rightarrow> (Dropped, [], db, w)
                    | Some d \<Rightarrow>
                        (case do_Client d of
                           Inl e \<Rightarrow> (Told (dialErrMsg c (do_User d) (do_Mode d) e), [], fail_native c ''failed'' db, w)
                         | Inr client \<Rightarrow>
                             let mode = do_Mode d @ (if do_NoBootstrap d then ''+sudo-no-bootstrap'' else []);
                                 banner = sessionBannerWithSudoWarning (sessionBannerWithEnableHint
                                   (buildSessionBanner (sc_Ext c ''target'') (sc_Ext c ''kind'') (sc_Ext c ''host'')
                                      (sc_Ext c ''port'') (sc_Ext c ''tier'') (do_User d) mode) (enable_secret s db c)) mode
                             in (Session client banner (channel_gate s db c),
                                 [ssh_event ''session.open'' ''info'' (portal_username c) (sc_Ext c ''target'')
                                    [(''session_id'', conn_session c), (''client'', sc_Remote c), (''auth_mode'', mode),
                                     (''device_user'', do_User d), (''portal_user'', portal_username c)]],
                                 db, w)))))"

text \<open>The end of a connection, whatever it came to.\<close>

definition handle_close :: "ssh_conn \<Rightarrow> bool \<Rightarrow> pam_db \<Rightarrow> event list \<times> pam_db" where
  "handle_close c had_session db =
     ([ssh_event ''session.close'' ''info'' (sc_User c) (sc_Ext c ''target'') [(''session_id'', conn_session c)]],
      if had_session then close_native False c db else db)"

end
