(* ===== verification/SshSpec.thy ===== *)
theory SshSpec
  imports SshProxy
begin

text \<open>
  What the SSH proxy has checked when it lets a connection through, that the gate of its channels gets the command lists of
  that decision, and the accounts it uses on Linux machines.
\<close>

section \<open>Command lists through the extensions\<close>

text \<open>The patterns of a decision: neither empty nor with a comma, and without spaces at the ends.\<close>

definition csv_pattern :: "string \<Rightarrow> bool" where
  "csv_pattern p = (p \<noteq> [] \<and> CHR '','' \<notin> set p \<and> trim_space p = p)"

lemma set_trim_space: "set (trim_space s) \<subseteq> set s"
  unfolding trim_space_def trim_left_def trim_right_def
  by (metis (no_types, lifting) set_dropWhileD set_rev subsetI)

lemma splitCSV_patterns: "p \<in> set (splitCSV s) \<Longrightarrow> csv_pattern p"
  using set_trim_space by (fastforce simp: splitCSV_def csv_pattern_def dest: split_on_parts split: if_splits)

lemma parse_join_CSV:
  assumes "list_all csv_pattern xs"
  shows "parseCSV (joinCSV xs) = xs"
proof (cases "xs = []")
  case True
  then show ?thesis by (simp add: parseCSV_def joinCSV_def)
next
  case False
  from assms have "split_on (CHR '','') (join [CHR '',''] xs) = xs"
    by (intro split_on_join) (auto simp: list_all_iff csv_pattern_def False)
  moreover have "map trim_space xs = xs" "filter (\<lambda>p. p \<noteq> []) xs = xs"
    using assms by (auto simp: list_all_iff csv_pattern_def map_idI)
  moreover have "join [CHR '',''] xs \<noteq> []"
    using assms False by (cases xs) (auto simp: join_Cons csv_pattern_def)
  ultimately show ?thesis by (simp add: parseCSV_def joinCSV_def)
qed

lemma decide_loop_patterns:
  assumes "decide_loop db tier k f roles a = Inr a'" "list_all csv_pattern (allowedSet a)" "list_all csv_pattern (deniedSet a)"
  shows "list_all csv_pattern (allowedSet a') \<and> list_all csv_pattern (deniedSet a')"
  using assms
proof (induction db tier k f roles a rule: decide_loop.induct)
  case (2 db tier k f role roles a)
  have keep: "list_all csv_pattern (allowedSet (merge_rule p a))" "list_all csv_pattern (deniedSet (merge_rule p a))" for p
    using 2(5,6) splitCSV_patterns by (auto simp: merge_rule_def Let_def list_all_iff)
  show ?case using 2 keep by (auto split: if_splits option.splits)
qed simp

lemma final_untouched:
  "decide_loop db tier k f roles a = Inr a' \<Longrightarrow> AllowedCmds (final a') = AllowedCmds (final a) \<and> DeniedCmds (final a') = DeniedCmds (final a)"
  by (induction db tier k f roles a rule: decide_loop.induct)
    (auto simp: merge_rule_def Let_def split: if_splits option.splits)

lemma Decide_patterns:
  assumes "Decide db inp = Inr dec"
  shows "list_all csv_pattern (AllowedCmds dec) \<and> list_all csv_pattern (DeniedCmds dec)"
proof (cases "effective_roles inp = []")
  case True
  with assms show ?thesis by (auto simp: Decide_def empty_decision_def)
next
  case False
  let ?kind = "to_lower (trim_space (in_TargetKind inp))"
  from assms False obtain a where a: "decide_loop db (in_TargetTier inp) ?kind (kind_family ?kind) (effective_roles inp) acc0 = Inr a"
    by (auto simp: Decide_def Let_def split: sum.splits)
  have "list_all csv_pattern (allowedSet acc0)" "list_all csv_pattern (deniedSet acc0)" by (simp_all add: acc0_def)
  from decide_loop_patterns [OF a this] final_untouched [OF a] assms False a show ?thesis
    by (auto simp: Decide_def Let_def list_all_iff acc0_def empty_decision_def split: if_splits)
qed

section \<open>Who gets through\<close>

text \<open>The user was told by the auth-service for this name and password, or is the one that a browser token is for.\<close>

definition ssh_identified ::
  "ssh_proxy \<Rightarrow> pam_db \<Rightarrow> string \<Rightarrow> string \<Rightarrow> target_row \<Rightarrow> int \<Rightarrow> string \<Rightarrow> bool" where
  "ssh_identified s db user ref t uid role =
     ((\<exists>pw otp. \<exists>u. ssh_authenticate s db user pw otp = Inr u \<and> ay_ID u = uid \<and> ay_Role u = role) \<or>
      (\<exists>token raw creds. GetSecret (sx_Vault s) db (BrowserTokenVaultKey token) = Inr raw \<and>
         ParseSessionCreds (sx_Parse s) raw = Inr creds \<and> sk_Mode creds = ''browser'' \<and> sk_PortalUser creds = user \<and>
         sk_TargetRef creds = ref \<and> sk_TargetID creds = t_id t \<and> sk_UserID creds = uid \<and>
         (\<exists>row \<in> set (users db). u_id row = uid \<and> u_role row = role)))"

text \<open>The policy allows it for the roles of the user, with a grant where one is asked for, unless the machine is a birthright
  of the user.\<close>

definition ssh_permitted :: "ssh_proxy \<Rightarrow> pam_db \<Rightarrow> int \<Rightarrow> string \<Rightarrow> target_row \<Rightarrow> decision \<Rightarrow> bool" where
  "ssh_permitted s db uid role t dec =
     (Decide db \<lparr>in_UserID = uid, in_Role = role, in_Roles = proxy_roles s db uid role, in_TargetID = t_id t,
         in_TargetKind = t_kind t, in_TargetTier = t_tier t, in_Action = ''ssh''\<rparr> = Inr dec \<and>
      Allow dec \<and>
      (RequireApproval dec \<and> sx_Approval s \<longrightarrow> birthright_count db uid (t_id t) \<noteq> 0 \<or> IsApproved db uid (t_id t)))"

text \<open>The connection is to that machine and carries the command lists of that decision.\<close>

definition routed_to :: "extensions \<Rightarrow> int \<Rightarrow> target_row \<Rightarrow> decision \<Rightarrow> bool" where
  "routed_to ext uid t dec =
     (ext ''host'' = t_host t \<and> ext ''port'' = string_of_int (t_port t) \<and> ext ''kind'' = t_kind t \<and>
      ext ''user-id'' = string_of_int uid \<and> ext ''target-id'' = string_of_int (t_id t) \<and>
      parseCSV (ext ''allow-csv'') = (if IsLinuxKind (t_kind t) then [] else AllowedCmds dec) \<and>
      parseCSV (ext ''deny-csv'') = (if IsLinuxKind (t_kind t) then [] else DeniedCmds dec))"

lemma resolveTarget_in: "resolveTarget db ref = Inr t \<Longrightarrow> t \<in> set (targets db)"
  by (auto simp: resolveTarget_def host_match_def Let_def set_sort split: if_splits option.splits
      dest!: row_by_Some first_row_mem)

lemma linux_adjusted_lists:
  "linux_adjusted s db uid tid kind dec = Inr dec' \<Longrightarrow>
   AllowedCmds dec' = (if IsLinuxKind kind then [] else AllowedCmds dec) \<and>
   DeniedCmds dec' = (if IsLinuxKind kind then [] else DeniedCmds dec)"
  by (auto simp: linux_adjusted_def Let_def split: if_splits sum.splits)

lemma evaluateAccess_permitted:
  assumes "evaluateAccess s db uid role (t_id t) (t_kind t) (t_tier t) = Inr dec'"
  obtains dec where "ssh_permitted s db uid role t dec" "routed_to (stash uid role t dec') uid t dec"
proof -
  from assms obtain dec where dec: "ssh_permitted s db uid role t dec"
    and adj: "linux_adjusted s db uid (t_id t) (t_kind t) dec = Inr dec'"
    by (auto simp: evaluateAccess_def ssh_permitted_def split: sum.splits if_splits)
  then have "list_all csv_pattern (AllowedCmds dec)" "list_all csv_pattern (DeniedCmds dec)"
    using Decide_patterns by (auto simp: ssh_permitted_def)
  with linux_adjusted_lists [OF adj] have "routed_to (stash uid role t dec') uid t dec"
    by (simp add: routed_to_def stash_def parse_join_CSV)
  with dec show ?thesis by (rule that)
qed

lemma routed_to_upd [simp]:
  "routed_to (stashPassthrough pw ext) uid t dec = routed_to ext uid t dec"
  "routed_to (ext(''browser-session-id'' := x)) uid t dec = routed_to ext uid t dec"
  by (simp_all add: routed_to_def stashPassthrough_def)

lemma authorize_passed:
  assumes "authorizeAndStash s db u ref = Inr ext"
  shows "\<exists>t dec. resolveTarget db ref = Inr t \<and> ssh_permitted s db (ay_ID u) (ay_Role u) t dec \<and> routed_to ext (ay_ID u) t dec"
  using assms by (auto simp: authorizeAndStash_def split: sum.splits elim!: evaluateAccess_permitted)

lemma token_passed:
  assumes "tryBrowserToken s db user ref token = Inr ext"
  shows "\<exists>t uid role dec. resolveTarget db ref = Inr t \<and> ssh_identified s db user ref t uid role \<and>
    ssh_permitted s db uid role t dec \<and> routed_to ext uid t dec"
proof -
  from assms obtain raw creds t row dec' where
    "GetSecret (sx_Vault s) db (BrowserTokenVaultKey token) = Inr raw" "ParseSessionCreds (sx_Parse s) raw = Inr creds"
    "sk_Mode creds = ''browser''" "sk_PortalUser creds = user" "sk_TargetRef creds = ref" "t_id t = sk_TargetID creds"
    and t: "resolveTarget db ref = Inr t" and row: "row_by u_id (sk_UserID creds) (users db) = Some row"
    and ev: "evaluateAccess s db (sk_UserID creds) (u_role row) (t_id t) (t_kind t) (t_tier t) = Inr dec'"
    and ext: "ext = stashPassthrough (sk_PassthroughPW creds)
      ((stash (sk_UserID creds) (u_role row) t dec')(''browser-session-id'' := sk_SessionID creds))"
    by (auto simp: tryBrowserToken_def split: if_splits sum.splits option.splits)
  then have "ssh_identified s db user ref t (sk_UserID creds) (u_role row)"
    using row_by_Some [OF row] unfolding ssh_identified_def
    by (intro disjI2 exI [of _ token] exI [of _ raw] exI [of _ creds]) auto
  with t ev ext show ?thesis by (metis evaluateAccess_permitted routed_to_upd)
qed

lemma passwordAuth_cases:
  assumes "passwordAuth s db login pw = Inr ext" "splitUserTarget login = Some (user, ref)"
  shows "tryBrowserToken s db user ref pw = Inr ext \<or>
    (\<exists>u e. ssh_authenticate s db user pw [] = Inr u \<and> authorizeAndStash s db u ref = Inr e \<and> ext = stashPassthrough pw e)"
  using assms by (simp add: passwordAuth_def split: sum.splits auth_failure.splits)

lemma keyboard_cases:
  assumes "fst (keyboardInteractiveAuth s db login challenge) = Inr ext" "splitUserTarget login = Some (user, ref)"
  shows "\<exists>pw otp u e x. ssh_authenticate s db user pw otp = Inr u \<and> authorizeAndStash s db u ref = Inr e \<and>
    ext = stashPassthrough x e"
  using assms
  by (simp add: keyboardInteractiveAuth_def Let_def split: sum.splits list.splits if_splits) (metis | blast)+


definition bob_db :: pam_db where
  "bob_db = empty_db\<lparr>
     targets := [target_row.make 4 ''core-sw'' ''cisco'' ''10.0.0.4'' 22 1 [] None ''ssh'' [] [] [] []],
     policies := [policy_row.make 1 ''netops'' ''cisco'' 3 0 '' show , ping '' ''reload'' ''none'' 5]\<rparr>"

definition bob_proxy :: "vault \<Rightarrow> key_derivation \<Rightarrow> json_parser \<Rightarrow> ssh_proxy" where
  "bob_proxy v argon2 parse =
     \<lparr>sx_Vault = v,
      sx_Login = Some (\<lambda>_ _ _ _. Inr \<lparr>li_Token = ''t'', li_User = Some \<lparr>cu_ID = 9, cu_Username = ''bob'', cu_Email = [],
        cu_Role = ''netops'', cu_Source = ''local'', cu_MFAEnabled = False\<rparr>, li_Roles = [], li_MFARequired = False,
        li_MFAEnrollmentRequired = False, li_UserID = 0\<rparr>),
      sx_Argon2 = argon2, sx_Parse = parse, sx_Groups = True, sx_Approval = True, sx_RecordingDir = ''rec''\<rparr>"

lemma bob_connects: "is_ok (passwordAuth (bob_proxy v argon2 parse) bob_db ''bob@#4'' ''pw'')"
  by code_simp


section \<open>Accounts on Linux machines\<close>

lemma to_lower_linux: "linux_char c \<Longrightarrow> ascii_lower c = c"
  by (auto simp: linux_char_def ascii_lower_def less_eq_char_def)

lemma linux_char_facts: "linux_char c \<Longrightarrow> \<not> is_space c \<and> c \<noteq> CHR ''@''"
  by (auto simp: linux_char_def is_space_def less_eq_char_def)

lemma LinuxUsername_chars: "list_all linux_char (LinuxUsername p)"
  by (auto simp: LinuxUsername_def Let_def list_all_iff linux_char_def dest: in_set_takeD)

lemma LinuxUsername_length: "LinuxUsername p \<noteq> [] \<and> length (LinuxUsername p) \<le> 32"
  by (simp add: LinuxUsername_def Let_def)

lemma LinuxUsername_fixed:
  assumes "list_all linux_char u" "u \<noteq> []" "length u \<le> 32"
  shows "LinuxUsername u = u"
proof -
  have sp: "\<not> is_space c \<and> c \<noteq> CHR ''@'' \<and> ascii_lower c = c" if "c \<in> set u" for c
    using that assms(1) linux_char_facts to_lower_linux by (auto simp: list_all_iff)
  have "trim_space u = u" using sp assms(2) by (intro trim_space_id) auto
  moreover have "index_byte u (CHR ''@'') = None" using sp by (induction u) auto
  moreover have "to_lower u = u" using sp by (auto simp: to_lower_def map_idI)
  moreover have "map (\<lambda>c. if linux_char c then c else CHR ''_'') u = u"
    using assms(1) by (auto simp: list_all_iff intro: map_idI)
  ultimately show ?thesis using assms(2,3) by (simp add: LinuxUsername_def Let_def)
qed

text \<open>C18: 
  The account that the proxy provisions on a Linux machine has a name that the shell script can take as it is: 1 to 32
  characters, each a lower-case letter, a digit, an underscore, a dash or a dot, whatever the portal name is; the name of
  such an account is its own account name.
\<close>

theorem LinuxUsername_safe:
  "length (LinuxUsername portal) \<in> {1..32} \<and> list_all linux_char (LinuxUsername portal) \<and>
   LinuxUsername (LinuxUsername portal) = LinuxUsername portal"
  using LinuxUsername_chars LinuxUsername_length LinuxUsername_fixed by (auto simp: Suc_le_eq)

text \<open>Different portal users share an account, and a portal user with the name of a system account gets that one: the
  bootstrap account sets its password to the one that was typed.\<close>

lemma shared_linux_accounts:
  "LinuxUsername ''j doe'' = LinuxUsername ''J+DOE'' \<and> LinuxUsername ''root'' = ''root'' \<and>
   LinuxUsername ''pam-svc@corp'' = ''pam-svc''"
  by code_simp

text \<open>A password of which the last six characters are digits loses them on a Linux machine: the account that is
  provisioned gets the shorter password.\<close>

lemma linux_password_cut:
  "linux_password \<lparr>sc_User = ''u@h'', sc_Ext = no_extensions(''pt-password'' := ''secret202401''), sc_Remote = [], sc_Nano = 0\<rparr> =
   ''secret''"
  by code_simp

text \<open>A mail address cannot be used to log in: the name ends at its first @.\<close>

lemma mail_login_split: "splitUserTarget ''bob@corp.com@sw1'' = Some (''bob'', ''corp.com@sw1'')"
  by code_simp

end
