(* ===== verification/DbProxy.thy ===== *)
theory DbProxy
  imports Launch
begin

text \<open>
  The database proxy (\<^verbatim>\<open>internal/dbproxy\<close>): the broker of PostgreSQL sessions and the one of all other engines.  A
  connection is the bytes that can be read from it until it ends; what is written is part of the result.  \<open>dial\<close> is
  \<^verbatim>\<open>net.DialTimeout\<close>: the bytes that the database will send, or an error.  The relaying of the two streams after the
  login is \<^verbatim>\<open>io.Copy\<close> and is left out.
\<close>

section \<open>Packets\<close>

definition byte_of :: "char \<Rightarrow> byte" where
  "byte_of c = of_char c"

definition errEOF :: err where "errEOF = ErrMsg ''EOF''"
definition errShort :: err where "errShort = ErrMsg ''unexpected EOF''"

text \<open>\<^verbatim>\<open>io.ReadFull\<close>: the bytes and what is left.\<close>

definition read_bytes :: "nat \<Rightarrow> bytes \<Rightarrow> err + bytes \<times> bytes" where
  "read_bytes n b =
     (if n \<le> length b then Inr (take n b, drop n b) else if b = [] then Inl errEOF else Inl errShort)"

definition readPacket :: "bytes \<Rightarrow> err + bytes \<times> bytes" where
  "readPacket b =
     (case read_bytes 4 b of
        Inl e \<Rightarrow> Inl e
      | Inr (hdr, b) \<Rightarrow>
          let n = unat (of_be32 hdr) in
          if n < 4 then Inl (ErrMsg ''invalid packet length'')
          else case read_bytes (n - 4) b of Inl e \<Rightarrow> Inl e | Inr (body, b) \<Rightarrow> Inr (hdr @ body, b))"

definition splitNull :: "bytes \<Rightarrow> (string \<times> bytes) option" where
  "splitNull b =
     (let s = takeWhile (\<lambda>x. x \<noteq> 0) b in
      if length s = length b then None else Some (string_of_bytes s, drop (Suc (length s)) b))"

lemma splitNull_shorter: "splitNull b = Some (s, rest) \<Longrightarrow> length rest < length b"
  by (cases b) (auto simp: splitNull_def Let_def split: if_splits)

text \<open>The pairs of the startup message up to the first that is not complete: session and database.\<close>

function startup_params :: "bytes \<Rightarrow> string \<Rightarrow> string \<Rightarrow> string \<times> string" where
  "startup_params kv sid dbn =
     (if kv = [] then (sid, dbn)
      else case splitNull kv of
        None \<Rightarrow> (sid, dbn)
      | Some (key, rest) \<Rightarrow>
          (case splitNull rest of
             None \<Rightarrow> (sid, dbn)
           | Some (val, rest) \<Rightarrow>
               startup_params rest (if key = ''user'' then trim_prefix val ''pam.'' else sid)
                 (if key = ''database'' then val else dbn)))"
  by pat_completeness auto
termination
  by (relation "measure (\<lambda>(kv, _). length kv)") (auto dest!: splitNull_shorter)

declare startup_params.simps [simp del]

definition parsePostgresStartup :: "bytes \<Rightarrow> err + string \<times> string" where
  "parsePostgresStartup pkt =
     (if length pkt < 9 then Inl (ErrMsg ''startup too short'')
      else
        let body = drop 4 pkt in
        if of_be32 (take 4 body) \<noteq> 196608 then Inl (ErrMsg ''unsupported protocol version'')
        else case startup_params (drop 4 body) [] [] of
          (sid, dbn) \<Rightarrow> if sid = [] then Inl (ErrMsg ''missing pam session user'') else Inr (sid, dbn))"

definition auth_cleartext :: bytes where
  "auth_cleartext = [0, 0, 0, 8, byte_of (CHR ''R''), 0, 0, 0, 3]"

definition parsePasswordMessage :: "bytes \<Rightarrow> err + string" where
  "parsePasswordMessage pkt =
     (if length pkt < 5 \<or> pkt ! 4 \<noteq> byte_of (CHR ''p'') then Inl (ErrMsg ''expected password message'')
      else case splitNull (drop 5 pkt) of
        None \<Rightarrow> Inl (ErrMsg ''bad password packet'')
      | Some (pw, _) \<Rightarrow> Inr pw)"

definition appendKV :: "bytes \<Rightarrow> string \<Rightarrow> string \<Rightarrow> bytes" where
  "appendKV b k v = b @ bytes_of_string k @ [0] @ bytes_of_string v @ [0]"

text \<open>A packet is the length of the whole and the body.\<close>

definition with_length :: "bytes \<Rightarrow> bytes" where
  "with_length body = be32 (word_of_nat (4 + length body)) @ body"

definition postgres_startup :: "string \<Rightarrow> string \<Rightarrow> bytes" where
  "postgres_startup user database =
     (let params = appendKV [] ''user'' user;
          params = (if database \<noteq> [] then appendKV params ''database'' database else params) @ [0]
      in with_length (be32 196608 @ params))"

definition passwordPacket :: "string \<Rightarrow> bytes" where
  "passwordPacket pw = with_length (byte_of (CHR ''p'') # bytes_of_string pw @ [0])"

section \<open>The login at the database\<close>

text \<open>\<open>Panic\<close> is the run-time error of an index out of range, which ends the process.\<close>

datatype relay_end = Relayed bytes | RelayError err | Panic

text \<open>Up to \<^verbatim>\<open>ReadyForQuery\<close>; the loops end only when a packet says so or the stream ends.\<close>

partial_function (option) until_ready :: "bytes \<Rightarrow> bytes \<Rightarrow> (relay_end \<times> bytes) option" where
  "until_ready up toClient =
     (case readPacket up of
        Inl e \<Rightarrow> Some (RelayError e, toClient)
      | Inr (p, up) \<Rightarrow>
          if 5 \<le> length p \<and> p ! 4 = byte_of (CHR ''Z'') then Some (Relayed up, toClient @ p)
          else until_ready up (toClient @ p))"

partial_function (option) relayPostgresAuth ::
  "string \<Rightarrow> bytes \<Rightarrow> bytes \<Rightarrow> bytes \<Rightarrow> (relay_end \<times> bytes \<times> bytes) option" where
  "relayPostgresAuth password up toClient toUp =
     (case readPacket up of
        Inl e \<Rightarrow> Some (RelayError e, toClient, toUp)
      | Inr (pkt, up) \<Rightarrow>
          if length pkt < 5 then Some (RelayError (ErrMsg ''short auth packet from upstream''), toClient, toUp)
          else if pkt ! 4 = byte_of (CHR ''R'') then
            (if length pkt < 12 then Some (Panic, toClient, toUp)
             else
               let kind = unat (of_be32 (take 4 (drop 8 pkt))) in
               if kind = 0 then
                 (case until_ready up (toClient @ pkt) of
                    None \<Rightarrow> None
                  | Some (out, toClient) \<Rightarrow> Some (out, toClient, toUp))
               else if kind = 3 \<or> kind = 5
               then relayPostgresAuth password up toClient (toUp @ passwordPacket password)
               else Some (RelayError (ErrMsg (''unsupported upstream auth type '' @ string_of_nat kind)), toClient, toUp))
          else if pkt ! 4 = byte_of (CHR ''E'') \<or> pkt ! 4 = byte_of (CHR ''N'')
          then Some (RelayError (ErrMsg ''upstream auth failed''), toClient @ pkt, toUp)
          else relayPostgresAuth password up (toClient @ pkt) toUp)"

section \<open>The broker of PostgreSQL\<close>

text \<open>The port in decimal, in a buffer of twelve bytes: \<open>None\<close> is the panic when it does not fit.\<close>

definition itoa :: "int \<Rightarrow> string option" where
  "itoa n =
     (if n = 0 then Some ''0'' else if n < 0 then Some [] else if 10 ^ 12 \<le> n then None else Some (string_of_int n))"

definition JoinHostPort :: "string \<Rightarrow> string \<Rightarrow> string" where
  "JoinHostPort host port =
     (if CHR '':'' \<in> set host then ''['' @ host @ '']:'' @ port else host @ '':'' @ port)"

text \<open>What a connection came to: how it ended, and the bytes to the client and to the database.\<close>

record db_run =
  dr_End :: relay_end
  dr_ToClient :: bytes
  dr_ToUpstream :: bytes

definition db_stop :: "err \<Rightarrow> bytes \<Rightarrow> db_run" where
  "db_stop e toClient = \<lparr>dr_End = RelayError e, dr_ToClient = toClient, dr_ToUpstream = []\<rparr>"

text \<open>The startup message: a request for TLS is declined with \<open>N\<close> first.\<close>

definition read_startup :: "bytes \<Rightarrow> (err + bytes \<times> bytes) \<times> bytes" where
  "read_startup client =
     (case readPacket client of
        Inl e \<Rightarrow> (Inl e, [])
      | Inr (pkt, rest) \<Rightarrow>
          if 8 \<le> length pkt \<and> of_be32 (take 4 (drop 4 pkt)) = 80877103
          then (readPacket rest, [byte_of (CHR ''N'')])
          else (Inr (pkt, rest), []))"

definition servePostgres :: "vault \<Rightarrow> pam_db \<Rightarrow> (string \<Rightarrow> err + bytes) \<Rightarrow> bytes \<Rightarrow> db_run" where
  "servePostgres v db dial client =
     (case read_startup client of
        (Inl e, toClient) \<Rightarrow> db_stop e toClient
      | (Inr (startup, client), toClient) \<Rightarrow>
          (case parsePostgresStartup startup of
             Inl e \<Rightarrow> db_stop e toClient
           | Inr (sid, dbName) \<Rightarrow>
               let toClient = toClient @ auth_cleartext in
               (case readPacket client of
                  Inl e \<Rightarrow> db_stop e toClient
                | Inr (passPkt, client) \<Rightarrow>
                    (case parsePasswordMessage passPkt of
                       Inl e \<Rightarrow> db_stop e toClient
                     | Inr token \<Rightarrow>
                         (case db_LoadSessionCreds v db sid of
                            Inl e \<Rightarrow> db_stop (wrap_err ''session not found'' e) toClient
                          | Inr creds \<Rightarrow>
                              if dc_BrokerToken creds \<noteq> token then db_stop (ErrMsg ''invalid broker token'') toClient
                              else if dc_Engine creds \<noteq> ''postgres''
                              then db_stop (ErrMsg (''session engine mismatch: '' @ dc_Engine creds)) toClient
                              else
                                let dbName = (if dbName = [] then dc_Database creds else dbName) in
                                case itoa (dc_Port creds) of
                                  None \<Rightarrow> \<lparr>dr_End = Panic, dr_ToClient = toClient, dr_ToUpstream = []\<rparr>
                                | Some port \<Rightarrow>
                                    (case dial (JoinHostPort (dc_Host creds) port) of
                                       Inl e \<Rightarrow> db_stop e toClient
                                     | Inr up \<Rightarrow>
                                         (case the (relayPostgresAuth (dc_Password creds) up toClient
                                                 (postgres_startup (dc_Username creds) dbName)) of
                                            (out, toClient, toUp) \<Rightarrow>
                                              \<lparr>dr_End = out, dr_ToClient = toClient, dr_ToUpstream = toUp\<rparr>)))))))"

section \<open>The broker of the other engines\<close>

definition eol :: char where "eol = CHR 0x0A"

definition WritePAMAuthHandshake :: "string \<Rightarrow> string \<Rightarrow> bytes" where
  "WritePAMAuthHandshake sid token =
     bytes_of_string (''PAMAUTH'' @ [eol] @ sid @ [eol] @ token @ [eol])"

definition GenericHandshakeHint :: "string \<Rightarrow> string" where
  "GenericHandshakeHint engine =
     ''For '' @ engine @ '', prepend PAMAUTH handshake or use pam-cli db connect (engine='' @ engine @ '').''"

text \<open>\<open>chunk\<close> is what the first read returned, at most 4096 bytes; what is sent on is the part of the buffer behind it,
  which still holds its zeros.  The result has the bytes to the database when the relay starts.\<close>

definition generic_buffer :: nat where "generic_buffer = 4096"

definition serveGeneric :: "vault \<Rightarrow> pam_db \<Rightarrow> string \<Rightarrow> (string \<Rightarrow> err + unit) \<Rightarrow> err + bytes \<Rightarrow> db_run" where
  "serveGeneric v db engine dial read =
     (case read of
        Inl e \<Rightarrow> db_stop e []
      | Inr chunk \<Rightarrow>
          let line = string_of_bytes chunk; parts = split_on eol (trim_space line) in
          if \<not> has_prefix line (''PAMAUTH'' @ [eol])
          then db_stop (ErrMsg (''expected PAMAUTH handshake '' @ em_dash @
                 '' use pam-cli or the portal connection string'')) []
          else if length parts < 3 then db_stop (ErrMsg ''bad PAMAUTH frame'') []
          else
            let sid = trim_space (parts ! 1); token = trim_space (parts ! 2) in
            case db_LoadSessionCreds v db sid of
              Inl e \<Rightarrow> db_stop e []
            | Inr creds \<Rightarrow>
                if dc_BrokerToken creds \<noteq> token then db_stop (ErrMsg ''invalid broker token'') []
                else if dc_Engine creds \<noteq> engine
                then db_stop (ErrMsg (''engine mismatch: session='' @ dc_Engine creds @ '' listener='' @ engine)) []
                else
                  (case itoa (dc_Port creds) of
                     None \<Rightarrow> \<lparr>dr_End = Panic, dr_ToClient = [], dr_ToUpstream = []\<rparr>
                   | Some port \<Rightarrow>
                       (case dial (JoinHostPort (dc_Host creds) port) of
                          Inl e \<Rightarrow> db_stop e []
                        | Inr _ \<Rightarrow>
                            \<lparr>dr_End = Relayed [], dr_ToClient = [],
                             dr_ToUpstream = replicate (generic_buffer - length chunk) 0\<rparr>)))"

definition defaultPorts :: "(string \<times> int) list" where
  "defaultPorts =
     [(''postgres'', 15432), (''mysql'', 13306), (''mssql'', 11433), (''mongodb'', 27018), (''redis'', 16379),
      (''oracle'', 11521)]"

end
