(* ===== verification/DbProxySpec.thy ===== *)
theory DbProxySpec
  imports DbProxy SessionSpec
begin

text \<open>
  The database proxy: packets and the startup message read back, the relay of the login ends, and the database hears
  nothing before the session and its token were checked.
\<close>

section \<open>Packets\<close>

lemma read_bytes_length: "read_bytes n b = Inr (x, rest) \<Longrightarrow> b = x @ rest \<and> length x = n"
  by (auto simp: read_bytes_def split: if_splits)

lemma readPacket_consumes:
  "readPacket b = Inr (p, rest) \<Longrightarrow> b = p @ rest \<and> 4 \<le> length p"
  by (auto simp: readPacket_def Let_def split: sum.splits if_splits prod.splits dest!: read_bytes_length)

lemma readPacket_with_length:
  assumes "4 + length body < 2 ^ 32"
  shows "readPacket (with_length body @ rest) = Inr (with_length body, rest)"
proof -
  have "unat (word_of_nat n :: 32 word) = n" if "n < 2 ^ 32" for n
    using that by (simp add: unat_of_nat)
  from this [OF assms] have "unat (of_be32 (be32 (word_of_nat (4 + length body) :: 32 word))) = 4 + length body"
    by (simp only: of_be32_be32)
  then show ?thesis by (simp add: readPacket_def with_length_def read_bytes_def Let_def)
qed

section \<open>The relay of the login\<close>

text \<open>The loops end on every stream: each round consumes a packet.  \<open>n\<close> counts the passwords sent.\<close>

lemma until_ready_ends: "\<exists>out. until_ready up toClient = Some out"
proof (induction "length up" arbitrary: up toClient rule: less_induct)
  case less
  show ?case
  proof (cases "readPacket up")
    case (Inl e)
    then show ?thesis by (subst until_ready.simps) simp
  next
    case (Inr pr)
    then obtain p rest where p: "readPacket up = Inr (p, rest)" by (cases pr) auto
    from readPacket_consumes [OF p] have "length rest < length up" by auto
    from less [OF this] p show ?thesis by (subst until_ready.simps) auto
  qed
qed

lemma relay_round:
  "\<exists>out toClient' n. relayPostgresAuth password up toClient toUp =
     Some (out, toClient', toUp @ concat (replicate n (passwordPacket password))) \<and> 12 * n \<le> length up"
proof (induction "length up" arbitrary: up toClient toUp rule: less_induct)
  case less
  let ?goal = "\<lambda>r. \<exists>out toClient' n. r = Some (out, toClient', toUp @ concat (replicate n (passwordPacket password))) \<and>
    12 * n \<le> length up"
  have stop: "?goal (Some (out, c, toUp))" for out c by (intro exI [of _ out] exI [of _ c] exI [of _ "0::nat"]) simp
  show ?case
  proof (cases "readPacket up")
    case (Inl e)
    then show ?thesis using stop by (subst relayPostgresAuth.simps) simp
  next
    case (Inr pr)
    then obtain p rest where p: "readPacket up = Inr (p, rest)" by (cases pr) auto
    from readPacket_consumes [OF p] have up: "up = p @ rest" "4 \<le> length p" by auto
    then have short: "length rest < length up" by (cases p) auto
    have go: "?goal (relayPostgresAuth password rest c toUp)" for c
      using less [OF short, of c toUp] up by fastforce
    have send: "?goal (relayPostgresAuth password rest c (toUp @ passwordPacket password))" if "12 \<le> length p" for c
    proof -
      from less [OF short, of c "toUp @ passwordPacket password"] obtain out c' n where
        r: "relayPostgresAuth password rest c (toUp @ passwordPacket password) =
          Some (out, c', (toUp @ passwordPacket password) @ concat (replicate n (passwordPacket password)))"
        and n: "12 * n \<le> length rest" by blast
      from n that up have "12 * Suc n \<le> length up" by simp
      with r show ?thesis by (intro exI [of _ out] exI [of _ c'] exI [of _ "Suc n"]) simp
    qed
    obtain x c where ready: "until_ready rest (toClient @ p) = Some (x, c)" using until_ready_ends by (metis prod.collapse)
    show ?thesis
      using p up stop go send ready by (subst relayPostgresAuth.simps) (simp add: Let_def)
  qed
qed


section \<open>The startup message\<close>

text \<open>Text without the character NUL.\<close>

definition nul_free :: "string \<Rightarrow> bool" where
  "nul_free s = (0 \<notin> set (bytes_of_string s))"

lemma splitNull_text: "nul_free s \<Longrightarrow> splitNull (bytes_of_string s @ 0 # rest) = Some (s, rest)"
proof -
  assume "nul_free s"
  then have "takeWhile (\<lambda>x. x \<noteq> 0) (bytes_of_string s @ 0 # rest) = bytes_of_string s"
    by (subst takeWhile_append2) (auto simp: nul_free_def)
  then show ?thesis by (simp add: splitNull_def Let_def)
qed

lemma splitNull_end: "splitNull (0 # rest) = Some ([], rest)"
  by (simp add: splitNull_def string_of_bytes_def)

lemma startup_params_pair:
  assumes "nul_free k" "nul_free v"
  shows "startup_params (appendKV [] k v @ rest) sid dbn =
    startup_params rest (if k = ''user'' then trim_prefix v ''pam.'' else sid) (if k = ''database'' then v else dbn)"
  using assms by (subst startup_params.simps) (simp add: appendKV_def splitNull_text)

lemma startup_params_done: "startup_params [0] sid dbn = (sid, dbn)"
  by (subst startup_params.simps) (simp add: splitNull_end, simp add: splitNull_def)

lemma appendKV_append: "appendKV b k v = b @ appendKV [] k v"
  by (simp add: appendKV_def)

lemma key_names: "nul_free ''user''" "nul_free ''database''"
  by code_simp+

text \<open>
  The proxy understands its own startup message: for a user \<^verbatim>\<open>pam.\<close>\<open>sid\<close> and a database name, both without NUL and not too
  long for the length field, the packet is read back whole from any stream, and its parser returns the session and the
  database.
\<close>

theorem startup_roundtrip:
  assumes "sid \<noteq> []" "nul_free (''pam.'' @ sid)" "nul_free dbn" "length sid + length dbn < 2 ^ 31"
  shows "readPacket (postgres_startup (''pam.'' @ sid) dbn @ rest) = Inr (postgres_startup (''pam.'' @ sid) dbn, rest) \<and>
    parsePostgresStartup (postgres_startup (''pam.'' @ sid) dbn) = Inr (sid, dbn)"
proof -
  let ?user = "appendKV [] ''user'' (''pam.'' @ sid)" and ?db = "if dbn \<noteq> [] then appendKV [] ''database'' dbn else []"
  define params where "params = ?user @ ?db @ [0]"
  have msg: "postgres_startup (''pam.'' @ sid) dbn = with_length (be32 196608 @ params)"
    by (simp add: postgres_startup_def Let_def params_def appendKV_append [of "appendKV [] _ _"])
  have len: "5 \<le> length params" "length params < 2 ^ 31 + 100"
    using assms(4) by (auto simp: params_def appendKV_def)
  have read: "startup_params params [] [] = (sid, dbn)"
    using assms(1-3) by (simp add: params_def startup_params_pair key_names startup_params_done trim_prefix_def has_prefix_def)
  have "readPacket (with_length (be32 196608 @ params) @ rest) = Inr (with_length (be32 196608 @ params), rest)"
    using len by (intro readPacket_with_length) simp
  moreover have "parsePostgresStartup (with_length (be32 196608 @ params)) = Inr (sid, dbn)"
    using len assms(1) read by (cases params) (simp_all add: parsePostgresStartup_def with_length_def Let_def)
  ultimately show ?thesis unfolding msg by blast
qed

theorem startup_roundtrip_witness:
  "readPacket (postgres_startup (''pam.'' @ ''db-7'') ''hr'' @ [1, 2]) = Inr (postgres_startup ''pam.db-7'' ''hr'', [1, 2]) \<and>
   parsePostgresStartup (postgres_startup ''pam.db-7'' ''hr'') = Inr (''db-7'', ''hr'')"
proof -
  have "nul_free (''pam.'' @ ''db-7'')" "nul_free ''hr''" by code_simp+
  from startup_roundtrip [OF _ this, of "[1, 2]"] show ?thesis by simp
qed

section \<open>The session and its token\<close>


text \<open>A client with the token of a stored session, and a database that hangs up.\<close>

definition broker_session :: db_creds where
  "broker_session = \<lparr>dc_Engine = ''postgres'', dc_Username = ''app'', dc_Password = ''p w'', dc_Host = ''db1'', dc_Port = 9,
     dc_Database = ''main'', dc_BrokerToken = ''ab12'', dc_PortalUser = ''ann'', dc_PortalUserID = 7, dc_TargetID = 3,
     dc_TargetKind = ''linux''\<rparr>"

definition broker_db :: pam_db where
  "broker_db = snd (PutSecret demo_vault (Some demo_nonce) (DBVaultSecretName ''db-7'')
     (bytes_of_string (db_payload broker_session)) None empty_db)"

lemma broker_creds: "db_LoadSessionCreds demo_vault broker_db ''db-7'' = Inr broker_session"
proof -
  have "\<not> faults empty_db Secret_Put" "secrets_readable empty_db" by (simp_all add: secrets_readable_def empty_db_def)
  then have "GetSecret demo_vault broker_db (DBVaultSecretName ''db-7'') = Inr (bytes_of_string (db_payload broker_session))"
    using vault.put_get [OF demo_put_ok] by (simp add: broker_db_def)
  moreover have "db_creds_of (db_payload broker_session) = broker_session" by code_simp
  ultimately show ?thesis by (simp add: db_LoadSessionCreds_def)
qed

definition broker_client :: bytes where
  "broker_client = postgres_startup ''pam.db-7'' [] @ passwordPacket ''ab12''"

lemma broker_startup: "parsePostgresStartup (postgres_startup ''pam.db-7'' []) = Inr (''db-7'', [])"
proof -
  let ?msg = "postgres_startup ''pam.db-7'' []"
  have "\<not> length ?msg < 9" "of_be32 (take 4 (drop 4 ?msg)) = 196608"
    "drop 4 (drop 4 ?msg) = appendKV [] ''user'' ''pam.db-7'' @ [0]" "nul_free ''pam.db-7''"
    "trim_prefix ''pam.db-7'' ''pam.'' = ''db-7''" by code_simp+
  then show ?thesis
    by (simp add: parsePostgresStartup_def Let_def startup_params_pair key_names startup_params_done)
qed

lemma broker_read_startup:
  "read_startup (postgres_startup ''pam.db-7'' [] @ passwordPacket ''ab12'') =
     (Inr (postgres_startup ''pam.db-7'' [], passwordPacket ''ab12''), [])"
  by code_simp

lemma broker_password: "readPacket (passwordPacket ''ab12'') = Inr (passwordPacket ''ab12'', [])"
  by code_simp

lemma broker_token: "parsePasswordMessage (passwordPacket ''ab12'') = Inr ''ab12''"
  by code_simp

lemma broker_run:
  "dr_ToUpstream (servePostgres demo_vault broker_db (\<lambda>_. Inr []) broker_client) = postgres_startup ''app'' ''main''"
proof -
  have port: "itoa 9 = Some ''9''" by code_simp
  have hang_up: "relayPostgresAuth pw [] c u = Some (RelayError errEOF, c, u)" for pw c u
    by (subst relayPostgresAuth.simps) (simp add: readPacket_def read_bytes_def)
  have fields: "dc_BrokerToken broker_session = ''ab12''" "dc_Engine broker_session = ''postgres''" "dc_Port broker_session = 9"
    "dc_Username broker_session = ''app''" "dc_Database broker_session = ''main''"
    by (simp_all add: broker_session_def)
  show ?thesis
    by (simp add: servePostgres_def broker_client_def broker_read_startup broker_startup broker_password broker_token
        broker_creds fields port hang_up Let_def)
qed


section \<open>Where the proxy and the protocol differ\<close>

text \<open>A message of PostgreSQL is its type, then the length.  The proxy reads the length first: of the message with the
  password it takes the type for a part of a length of more than 1.8 thousand million bytes.\<close>

lemma password_message_unreadable:
  "readPacket [0x70, 0, 0, 0, 10, 0x73, 0x65, 0x63, 0x72, 0x65, 0x74] = Inl errShort"
proof -
  have "unat (of_be32 [0x70, 0, 0, 0]) = 0x70000000" by (simp add: of_be32_def)
  then show ?thesis by (simp add: readPacket_def read_bytes_def)
qed

text \<open>The request for the password that the proxy sends has one byte more than its length says.\<close>

lemma auth_request_one_byte_too_long:
  "readPacket auth_cleartext = Inr ([0, 0, 0, 8, 0x52, 0, 0, 0], [3])"
  by code_simp

text \<open>An authentication packet of the database with fewer than twelve bytes ends the process.\<close>

lemma short_auth_packet_panics:
  "relayPostgresAuth pw [0, 0, 0, 8, 0x52, 0, 0, 0] [] [] = Some (Panic, [], [])"
proof -
  have "readPacket [0, 0, 0, 8, 0x52, 0, 0, 0] = Inr ([0, 0, 0, 8, 0x52, 0, 0, 0], [])" by code_simp
  then show ?thesis by (subst relayPostgresAuth.simps) (simp add: byte_of_def)
qed

text \<open>After the handshake the other broker sends the database what the buffer holds behind the handshake: zeros.\<close>

lemma generic_sends_zeros:
  assumes "dr_End (serveGeneric v db engine dial (Inr chunk)) = Relayed []"
  shows "dr_ToUpstream (serveGeneric v db engine dial (Inr chunk)) = replicate (4096 - length chunk) 0"
proof -
  have stop: "dr_End (db_stop e []) \<noteq> Relayed []" for e by (simp add: db_stop_def)
  show ?thesis
    using assms stop unfolding serveGeneric_def Let_def generic_buffer_def sum.case
    by (simp split: if_split_asm sum.split_asm option.split_asm)
qed

end
