(* ===== verification/RdpProxy.thy ===== *)
theory RdpProxy
  imports SshProxy
begin

text \<open>
  The proxy of the sessions in the browser (\<^verbatim>\<open>internal/rdpproxy\<close>): it takes the session and the portal token of a
  websocket, hands the credentials to \<^verbatim>\<open>guacd\<close> and ends the session when the tunnel closes.  The Guacamole library and the
  file system are outside the repository: the handshake with guacd, \<^verbatim>\<open>os.MkdirAll\<close> and the listing of a directory are
  arguments.
\<close>

section \<open>Addresses\<close>

text \<open>\<open>alias\<close> is the value of \<^verbatim>\<open>PAM_RDP_DOCKER_HOST\<close>.\<close>

definition resolveRDPReachableHost :: "string \<Rightarrow> string \<Rightarrow> string" where
  "resolveRDPReachableHost alias host =
     (let h = trim_space host in
      if h = [] then h
      else if to_lower h \<in> {''localhost'', ''127.0.0.1'', ''::1'', ''0.0.0.0''}
      then (if trim_space alias \<noteq> [] then trim_space alias else ''host.docker.internal'')
      else h)"

definition normalizeRDPPort :: "int \<Rightarrow> int" where
  "normalizeRDPPort port = (if port \<le> 0 then 3389 else port)"

definition splitHostPort :: "string \<Rightarrow> int \<Rightarrow> string \<times> int" where
  "splitHostPort addr dflt =
     (let addr = trim_space addr in
      if addr = [] then (''ssh-proxy'', dflt)
      else if CHR '':'' \<notin> set addr then (addr, dflt)
      else case split_host addr of
        None \<Rightarrow> (trim_prefix addr '':'', dflt)
      | Some host \<Rightarrow>
          (case parse_int64 (drop (Suc (the (last_colon addr))) addr) of
             None \<Rightarrow> (host, dflt)
           | Some port \<Rightarrow> (host, if port \<le> 0 then dflt else port)))"

definition sshProxyAddrForGuacd :: "string \<Rightarrow> string \<times> int" where
  "sshProxyAddrForGuacd configured =
     (case splitHostPort configured 2222 of (host, port) \<Rightarrow> (if host = [] then ''127.0.0.1'' else host, port))"

definition ssh_candidates :: "string list" where
  "ssh_candidates =
     [''host.docker.internal:2222'', ''127.0.0.1:2222'', ''ssh-proxy:2222'', ''pam-ssh-proxy:2222'']"

fun probe :: "(string \<Rightarrow> int \<Rightarrow> bool) \<Rightarrow> string list \<Rightarrow> string \<times> int" where
  "probe tcpOpen [] = (''127.0.0.1'', 2222)"
| "probe tcpOpen (addr # addrs) =
     (case splitHostPort addr 2222 of
        (h, p) \<Rightarrow>
          if tcpOpen h p then (if h = ''ssh-proxy'' \<or> h = ''pam-ssh-proxy'' then (''127.0.0.1'', p) else (h, p))
          else probe tcpOpen addrs)"

definition discoverSSHProxyAddr :: "(string \<Rightarrow> int \<Rightarrow> bool) \<Rightarrow> string \<Rightarrow> string \<times> int" where
  "discoverSSHProxyAddr tcpOpen configured =
     (let configured = trim_space configured in
      if configured \<noteq> [] \<and> fst (splitHostPort configured 2222) \<noteq> [] then splitHostPort configured 2222
      else probe tcpOpen (remdups ssh_candidates))"

section \<open>The parameters of guacd\<close>

type_synonym guac_params = "(string \<times> string) list"

definition rdpGuacParams ::
  "string \<Rightarrow> int \<Rightarrow> string \<Rightarrow> string \<Rightarrow> string \<Rightarrow> string \<Rightarrow> bool \<Rightarrow> guac_params" where
  "rdpGuacParams host port username password recDir sessionID rec =
     [(''hostname'', host), (''port'', string_of_int port), (''username'', username), (''password'', password),
      (''ignore-cert'', ''true''), (''color-depth'', ''32''), (''security'', ''any''),
      (''resize-method'', ''display-update''), (''enable-wallpaper'', ''false''), (''enable-theming'', ''false''),
      (''enable-font-smoothing'', ''true''), (''enable-full-window-drag'', ''false''),
      (''enable-desktop-composition'', ''true''), (''disable-auth'', ''false''),
      (''disable-bitmap-caching'', ''true''), (''disable-offscreen-caching'', ''true''),
      (''disable-glyph-caching'', ''true''), (''disable-gfx'', ''true'')] @
     (if rec \<and> recDir \<noteq> [] \<and> sessionID \<noteq> []
      then [(''recording-path'', recDir), (''recording-name'', sessionID), (''create-recording-path'', ''true''),
            (''recording-include-keys'', ''true'')]
      else [])"

record session_params =
  sp_SessionID :: string
  sp_Protocol :: string
  sp_Host :: string
  sp_Port :: int
  sp_Username :: string
  sp_Password :: string
  sp_PrivateKey :: bytes
  sp_RecDir :: string
  sp_route :: string
  sp_CopyAllowed :: bool
  sp_PasteAllowed :: bool

definition go_bool :: "bool \<Rightarrow> string" where
  "go_bool b = (if b then ''true'' else ''false'')"

definition sshGuacParams :: "session_params \<Rightarrow> guac_params" where
  "sshGuacParams p =
     [(''hostname'', sp_Host p), (''port'', string_of_int (sp_Port p)), (''username'', sp_Username p),
      (''typescript-path'', sp_RecDir p), (''typescript-name'', sp_SessionID p), (''create-typescript-path'', ''true''),
      (''recording-path'', sp_RecDir p), (''recording-name'', sp_SessionID p), (''create-recording-path'', ''true''),
      (''font-size'', ''12''), (''color-scheme'', ''gray-black''), (''terminal-type'', ''vt100''), (''scrollback'', ''1000''),
      (''server-alive-interval'', ''30''), (''timeout'', ''120''), (''backspace'', ''127''),
      (''disable-copy'', go_bool (\<not> sp_CopyAllowed p)), (''disable-paste'', go_bool (\<not> sp_PasteAllowed p))] @
     (if sp_PrivateKey p \<noteq> [] then [(''private-key'', string_of_bytes (sp_PrivateKey p))] else []) @
     (if sp_Password p \<noteq> [] then [(''password'', sp_Password p)] else [])"

section \<open>Loading a session\<close>

text \<open>\<open>rx_Verify\<close> is the client of the auth-service; \<open>rx_Direct\<close> and \<open>rx_ViaProxy\<close> are the two switches of the
  environment.\<close>

record browser_proxy =
  rx_Vault :: vault
  rx_Verify :: "(string \<Rightarrow> err + token_claims) option"
  rx_Parse :: json_parser
  rx_RecordingDir :: string
  rx_SSHHost :: string
  rx_SSHPort :: int
  rx_Direct :: bool
  rx_ViaProxy :: bool
  rx_DockerHost :: string

definition env_switch :: "string \<Rightarrow> bool" where
  "env_switch v = (trim_space (to_lower v) \<in> {''1'', ''true'', ''yes''})"

abbreviation Rdp_Load :: sql_stmt where "Rdp_Load \<equiv> Stmt ''rdpproxy.load''"
abbreviation Rdp_Account :: sql_stmt where "Rdp_Account \<equiv> Stmt ''rdpproxy.account''"
abbreviation Rdp_Protocol :: sql_stmt where "Rdp_Protocol \<equiv> Stmt ''rdpproxy.protocol''"
abbreviation Rdp_Close :: sql_stmt where "Rdp_Close \<equiv> Stmt ''rdpproxy.close''"
abbreviation Rdp_Ack :: sql_stmt where "Rdp_Ack \<equiv> Stmt ''rdpproxy.ack''"
abbreviation Rdp_Order :: sql_stmt where "Rdp_Order \<equiv> Stmt ''rdpproxy.order''"
abbreviation Rdp_Fail :: sql_stmt where "Rdp_Fail \<equiv> Stmt ''rdpproxy.fail''"
abbreviation Rdp_Audit :: sql_stmt where "Rdp_Audit \<equiv> Stmt ''rdpproxy.audit''"

definition fillBrowserSSHDirect ::
  "browser_proxy \<Rightarrow> pam_db \<Rightarrow> session_params \<Rightarrow> int \<Rightarrow> string \<Rightarrow> int \<Rightarrow> err + session_params" where
  "fillBrowserSSHDirect s db p targetID host port =
     (let p = p\<lparr>sp_Port := (if port \<le> 0 then 22 else port), sp_Host := host\<rparr> in
      if faults db Rdp_Account then Inl (ErrSql Rdp_Account)
      else case first_row (sort_key pa_id (filter (\<lambda>a. pa_target_id a = Some targetID) (privileged_accounts db))) of
        None \<Rightarrow> Inl (ErrMsg (''no privileged account linked to this target '' @ em_dash @
                  '' add one in Privileged Accounts for browser SSH''))
      | Some a \<Rightarrow>
          (case GetSecret (rx_Vault s) db (pa_secret_ref a) of
             Inl e \<Rightarrow> Inl (wrap_err ''privileged account password not available in vault'' e)
           | Inr pw \<Rightarrow>
               if pw = []
               then Inl (ErrMsg ''privileged account password not available in vault: %!w(<nil>)'')
               else Inr (p\<lparr>sp_Username := pa_username a, sp_Password := string_of_bytes pw, sp_PrivateKey := []\<rparr>)))"

definition fillBrowserSSHViaProxy :: "browser_proxy \<Rightarrow> session_params \<Rightarrow> ssh_creds \<Rightarrow> session_params" where
  "fillBrowserSSHViaProxy s p creds =
     p\<lparr>sp_Host := rx_SSHHost s, sp_Port := rx_SSHPort s, sp_Username := sk_PortalUser creds @ ''@'' @ sk_TargetRef creds,
       sp_Password := sk_Token creds, sp_PrivateKey := []\<rparr>"

definition fillBrowserSSHSession ::
  "browser_proxy \<Rightarrow> pam_db \<Rightarrow> session_params \<Rightarrow> ssh_creds \<Rightarrow> int \<Rightarrow> string \<Rightarrow> int \<Rightarrow> err + session_params" where
  "fillBrowserSSHSession s db p creds targetID host port =
     (if rx_Direct s then
        (case fillBrowserSSHDirect s db p targetID host port of
           Inl e \<Rightarrow> Inl e
         | Inr p \<Rightarrow> Inr (p\<lparr>sp_route := ''direct-target''\<rparr>))
      else Inr ((fillBrowserSSHViaProxy s p creds)
             \<lparr>sp_route := (if rx_ViaProxy s then ''ssh-proxy'' else ''ssh-proxy-default'')\<rparr>))"

definition missing_creds :: err where
  "missing_creds = ErrMsg ''session credentials expired or missing''"

text \<open>The parameters of an SSH session, and of every other one, which counts as RDP.\<close>

definition load_ssh :: "browser_proxy \<Rightarrow> pam_db \<Rightarrow> session_params \<Rightarrow> target_row \<Rightarrow> err + session_params" where
  "load_ssh s db p t =
     (case GetSecret (rx_Vault s) db (ssh_SessionSecretName (sp_SessionID p)) of
        Inl _ \<Rightarrow> Inl missing_creds
      | Inr key \<Rightarrow>
          let plain = p\<lparr>sp_Port := (if t_port t \<le> 0 then 22 else t_port t), sp_Username := ''pam-user'',
                sp_PrivateKey := key\<rparr>;
              rec = (\<lambda>p. p\<lparr>sp_RecDir := rx_RecordingDir s @ ''/ssh/'' @ sp_SessionID p\<rparr>) in
          (case ParseSessionCreds (rx_Parse s) key of
             Inl _ \<Rightarrow> Inr (rec plain)
           | Inr creds \<Rightarrow>
               if sk_Mode creds \<noteq> ''browser'' then Inr (rec plain)
               else (case fillBrowserSSHSession s db p creds (t_id t) (t_host t) (t_port t) of
                       Inl e \<Rightarrow> Inl e
                     | Inr p \<Rightarrow> Inr (rec (p\<lparr>sp_CopyAllowed := ClipboardCopyAllowed creds,
                                           sp_PasteAllowed := ClipboardPasteAllowed creds\<rparr>)))))"

definition load_rdp :: "browser_proxy \<Rightarrow> pam_db \<Rightarrow> session_params \<Rightarrow> target_row \<Rightarrow> string \<Rightarrow> err + session_params" where
  "load_rdp s db p t username =
     (case GetSecret (rx_Vault s) db (rdp_SessionSecretName (sp_SessionID p)) of
        Inl _ \<Rightarrow> Inl missing_creds
      | Inr pw \<Rightarrow>
          Inr (p\<lparr>sp_Port := (if t_port t \<le> 0 then 3389 else t_port t),
                 sp_Username := (if username = [] then ''Administrator'' else username),
                 sp_Password := string_of_bytes pw, sp_RecDir := rx_RecordingDir s @ ''/rdp/'' @ sp_SessionID p\<rparr>))"

definition account_name :: "pam_db \<Rightarrow> int option \<Rightarrow> string" where
  "account_name db acct =
     (case acct of
        None \<Rightarrow> []
      | Some i \<Rightarrow> (case row_by pa_id i (privileged_accounts db) of None \<Rightarrow> [] | Some a \<Rightarrow> pa_username a))"

definition loadSession ::
  "browser_proxy \<Rightarrow> (string \<Rightarrow> err option) \<Rightarrow> pam_db \<Rightarrow> string \<Rightarrow> int \<Rightarrow> err + session_params" where
  "loadSession s mkdir db sessionID callerUID =
     (if faults db Rdp_Load then Inl (ErrSql Rdp_Load)
      else case row_by ss_id sessionID (sessions db) of
        None \<Rightarrow> Inl (ErrMsg ''session not found'')
      | Some r \<Rightarrow>
          (case row_by t_id (ss_target_id r) (targets db) of
             None \<Rightarrow> Inl (ErrMsg ''session not found'')
           | Some t \<Rightarrow>
               if 0 < callerUID \<and> ss_user_id r \<noteq> callerUID then Inl (ErrMsg ''session belongs to another user'')
               else if ss_ended_at r \<noteq> None then Inl (ErrMsg ''session already ended'')
               else
                 let p = session_params.make sessionID (ss_protocol r) (t_host t) (t_port t) [] [] [] [] [] True True in
                 (case (if ss_protocol r = ''ssh'' then load_ssh s db p t
                        else load_rdp s db p t (account_name db (ss_account_id r))) of
                    Inl e \<Rightarrow> Inl e
                  | Inr p \<Rightarrow> (case mkdir (sp_RecDir p) of Some e \<Rightarrow> Inl e | None \<Rightarrow> Inr p))))"

section \<open>Recordings\<close>

record dir_entry =
  de_FileName :: string
  de_IsDir :: bool
  de_Size :: int
  de_ModTime :: int

definition file_ext :: "string \<Rightarrow> string" where
  "file_ext name = (case last_index_any name ''.'' of None \<Rightarrow> [] | Some i \<Rightarrow> drop i name)"

definition is_recording :: "dir_entry \<Rightarrow> bool" where
  "is_recording e =
     (let ext = file_ext (de_FileName e) in
      \<not> de_IsDir e \<and> \<not> (ext = ''.log'' \<or> has_suffix (de_FileName e) ''.timing'') \<and> ext \<in> {''.guac'', []} \<and> de_Size e \<noteq> 0)"

text \<open>The newest recording; \<open>zero\<close> is the zero time, which no entry is later than at first.\<close>

fun newest :: "int \<Rightarrow> string \<Rightarrow> dir_entry list \<Rightarrow> string" where
  "newest latest best [] = best"
| "newest latest best (e # es) =
     (if is_recording e \<and> latest < de_ModTime e then newest (de_ModTime e) (de_FileName e) es else newest latest best es)"

definition findGuacInDir :: "int \<Rightarrow> (string \<Rightarrow> dir_entry list option) \<Rightarrow> string \<Rightarrow> string" where
  "findGuacInDir zero ls dir =
     (case ls dir of
        None \<Rightarrow> []
      | Some es \<Rightarrow> let best = newest zero [] es in if best = [] then [] else dir @ ''/'' @ best)"

text \<open>\<^verbatim>\<open>filepath.Join\<close> of a clean directory and names without a slash.\<close>

definition findRecording :: "browser_proxy \<Rightarrow> int \<Rightarrow> (string \<Rightarrow> dir_entry list option) \<Rightarrow> string \<Rightarrow> string" where
  "findRecording s zero ls sessionID =
     (let rdp = findGuacInDir zero ls (rx_RecordingDir s @ ''/rdp/'' @ sessionID) in
      if rdp \<noteq> [] then rdp else findGuacInDir zero ls (rx_RecordingDir s @ ''/ssh/'' @ sessionID))"

section \<open>Ending a session\<close>

text \<open>The proxy keeps the sessions that have a tunnel, behind a mutex that is not reentrant.  A result \<open>None\<close> is a call
  that waits for the mutex for ever.\<close>

record tunnel_state =
  tn_Locked :: bool
  tn_Tunnels :: "string list"
  tn_DB :: pam_db

definition drop_session_secrets :: "browser_proxy \<Rightarrow> string \<Rightarrow> pam_db \<Rightarrow> pam_db" where
  "drop_session_secrets s sessionID db =
     (let db = snd (DeleteSecret (rdp_SessionSecretName sessionID) db);
          db = (case GetSecret (rx_Vault s) db (ssh_SessionSecretName sessionID) of
                  Inl _ \<Rightarrow> db
                | Inr raw \<Rightarrow>
                    (case ParseSessionCreds (rx_Parse s) raw of
                       Inl _ \<Rightarrow> db
                     | Inr creds \<Rightarrow>
                         if sk_Token creds \<noteq> [] then snd (DeleteSecret (BrowserTokenVaultKey (sk_Token creds)) db) else db))
      in snd (DeleteSecret (ssh_SessionSecretName sessionID) db))"

definition close_row :: "string \<Rightarrow> string \<Rightarrow> pam_db \<Rightarrow> pam_db" where
  "close_row recPath sessionID db =
     (if faults db Rdp_Close then db
      else db\<lparr>sessions := update_where (is_open sessionID)
             (\<lambda>r. r\<lparr>ss_ended_at := Some (clock db),
                ss_ended_reason := Some (case ss_ended_reason r of None \<Rightarrow> ''closed'' | Some x \<Rightarrow> x),
                ss_recording_path := (if recPath \<noteq> [] then Some recPath else ss_recording_path r)\<rparr>) (sessions db)\<rparr>)"

definition acknowledge_order :: "string \<Rightarrow> pam_db \<Rightarrow> pam_db" where
  "acknowledge_order sessionID db =
     (if faults db Rdp_Ack then db
      else db\<lparr>session_terminations := update_where
             (\<lambda>t. st_session_id t = sessionID \<and> st_acknowledged_at t = None)
             (\<lambda>t. t\<lparr>st_acknowledged_at := Some (clock db)\<rparr>) (session_terminations db)\<rparr>)"

definition session_protocol :: "pam_db \<Rightarrow> string \<Rightarrow> string" where
  "session_protocol db sessionID =
     (if faults db Rdp_Protocol then []
      else case row_by ss_id sessionID (sessions db) of None \<Rightarrow> [] | Some r \<Rightarrow> ss_protocol r)"

text \<open>\<open>recPath\<close> is the recording that \<open>findRecording\<close> finds.\<close>

definition closeSession :: "browser_proxy \<Rightarrow> string \<Rightarrow> string \<Rightarrow> tunnel_state \<Rightarrow> tunnel_state option" where
  "closeSession s recPath sessionID st =
     (if tn_Locked st then None
      else
        let db = tn_DB st; st = st\<lparr>tn_Tunnels := removeAll sessionID (tn_Tunnels st)\<rparr> in
        if session_protocol db sessionID = ''rdp'' \<and> recPath = [] then Some st
        else Some (st\<lparr>tn_DB := acknowledge_order sessionID (drop_session_secrets s sessionID (close_row recPath sessionID db))\<rparr>))"

text \<open>One tick of \<^verbatim>\<open>pollTermination\<close>: whether the tunnel is closed, and whether the loop is over.\<close>

datatype poll = Closed | Gone | Again

definition pollTermination :: "string \<Rightarrow> tunnel_state \<Rightarrow> poll option" where
  "pollTermination sessionID st =
     (if tn_Locked st then None
      else if sessionID \<notin> set (tn_Tunnels st) then Some Gone
      else case (if faults (tn_DB st) Rdp_Order then None
                 else row_by st_session_id sessionID (session_terminations (tn_DB st))) of
        None \<Rightarrow> Some Again
      | Some order \<Rightarrow> Some (if st_acknowledged_at order \<noteq> None then Again else Closed))"

text \<open>\<^verbatim>\<open>failSession\<close>, which nothing calls.\<close>

definition rdp_failSession :: "browser_proxy \<Rightarrow> string \<Rightarrow> string \<Rightarrow> string \<Rightarrow> tunnel_state \<Rightarrow> tunnel_state option" where
  "rdp_failSession s sessionID reason detail st =
     (if tn_Locked st then None
      else
        let db = tn_DB st;
            db = (if faults db Rdp_Fail then db else close_session sessionID reason db);
            db = (if faults db Rdp_Audit then db
              else insert_audit (clock db) ''rdp-proxy'' ''session.connect.failed'' sessionID detail ''warn'' [] db)
        in Some (st\<lparr>tn_Tunnels := removeAll sessionID (tn_Tunnels st), tn_DB := drop_session_secrets s sessionID db\<rparr>))"

section \<open>Connecting\<close>

record guac_config =
  gc_Protocol :: string
  gc_Params :: guac_params

definition guac_config_of :: "browser_proxy \<Rightarrow> session_params \<Rightarrow> guac_config" where
  "guac_config_of s p =
     (if sp_Protocol p = ''ssh'' then \<lparr>gc_Protocol = ''ssh'', gc_Params = sshGuacParams p\<rparr>
      else \<lparr>gc_Protocol = ''rdp'',
            gc_Params = rdpGuacParams (resolveRDPReachableHost (rx_DockerHost s) (sp_Host p)) (normalizeRDPPort (sp_Port p))
              (sp_Username p) (sp_Password p) (sp_RecDir p) (sp_SessionID p) True\<rparr>)"

text \<open>The second attempt of an RDP session goes without a recording.\<close>

definition retry_config :: "browser_proxy \<Rightarrow> session_params \<Rightarrow> guac_config" where
  "retry_config s p =
     \<lparr>gc_Protocol = ''rdp'',
      gc_Params = rdpGuacParams (resolveRDPReachableHost (rx_DockerHost s) (sp_Host p)) (normalizeRDPPort (sp_Port p))
        (sp_Username p) (sp_Password p) (sp_RecDir p) (sp_SessionID p) False\<rparr>"

text \<open>\<open>dial n\<close> is the connection to guacd of the n-th attempt, with the address resolved; \<open>handshake n cfg\<close> its handshake.
  The result is the parameters and the configuration that guacd took.\<close>

definition handshakes ::
  "browser_proxy \<Rightarrow> (nat \<Rightarrow> err option) \<Rightarrow> (nat \<Rightarrow> guac_config \<Rightarrow> err option) \<Rightarrow> session_params \<Rightarrow> err + guac_config" where
  "handshakes s dial handshake p =
     (case dial 0 of
        Some e \<Rightarrow> Inl (wrap_err ''dial guacd'' e)
      | None \<Rightarrow>
          let cfg = guac_config_of s p in
          (case handshake 0 cfg of
             None \<Rightarrow> Inr cfg
           | Some e \<Rightarrow>
               if gc_Protocol cfg \<noteq> ''rdp'' then Inl (wrap_err ''guacd handshake'' e)
               else (case dial 1 of
                       Some e \<Rightarrow> Inl (wrap_err ''dial guacd (retry)'' e)
                     | None \<Rightarrow>
                         (case handshake 1 (retry_config s p) of
                            Some e2 \<Rightarrow> Inl (ErrMsg (''guacd RDP failed ('' @ err_text e @ ''); without recording ('' @ err_text e2 @ '')''))
                          | None \<Rightarrow> Inr (retry_config s p)))))"

text \<open>The new tunnel is entered with the mutex held.  A tunnel that is there for the session is closed first, and its end
  waits for the mutex: the call never returns and the mutex stays locked.\<close>

definition enter_tunnel :: "string \<Rightarrow> tunnel_state \<Rightarrow> tunnel_state option \<times> tunnel_state" where
  "enter_tunnel sessionID st =
     (if tn_Locked st then (None, st)
      else if sessionID \<in> set (tn_Tunnels st) then (None, st\<lparr>tn_Locked := True\<rparr>)
      else let st = st\<lparr>tn_Tunnels := sessionID # tn_Tunnels st\<rparr> in (Some st, st))"

definition doConnect ::
  "browser_proxy \<Rightarrow> (string \<Rightarrow> err option) \<Rightarrow> (nat \<Rightarrow> err option) \<Rightarrow> (nat \<Rightarrow> guac_config \<Rightarrow> err option) \<Rightarrow> string \<Rightarrow>
   string \<Rightarrow> tunnel_state \<Rightarrow> (err + session_params \<times> guac_config) option \<times> tunnel_state" where
  "doConnect s mkdir dial handshake sessionID token st =
     (if sessionID = [] \<or> token = []
      then (Some (Inl (ErrMsg ''session and token required on websocket URL'')), st)
      else case (case rx_Verify s of
             None \<Rightarrow> Inr 0
           | Some verify \<Rightarrow>
               (case verify token of Inl e \<Rightarrow> Inl (wrap_err ''unauthorized'' e) | Inr c \<Rightarrow> Inr (tk_UID c))) of
        Inl e \<Rightarrow> (Some (Inl e), st)
      | Inr uid \<Rightarrow>
          (case loadSession s mkdir (tn_DB st) sessionID uid of
             Inl e \<Rightarrow> (Some (Inl e), st)
           | Inr p \<Rightarrow>
               (case handshakes s dial handshake p of
                  Inl e \<Rightarrow> (Some (Inl e), st)
                | Inr cfg \<Rightarrow>
                    (case enter_tunnel sessionID st of
                       (None, st) \<Rightarrow> (None, st)
                     | (Some _, st) \<Rightarrow> (Some (Inr (p, cfg)), st)))))"

end
