(* ===== verification/RdpSpec.thy ===== *)
theory RdpSpec
  imports RdpProxy CredentialSpec
begin

text \<open>
  The proxy of the browser sessions: whose session is opened, what the end of a session leaves, and two ways in which a
  session does not end.
\<close>

section \<open>Opening\<close>

text \<open>The credentials that \<^verbatim>\<open>guacd\<close> gets are those that were stored for this session.\<close>

definition session_credentials :: "browser_proxy \<Rightarrow> pam_db \<Rightarrow> session_row \<Rightarrow> session_params \<Rightarrow> bool" where
  "session_credentials s db r p =
     (if ss_protocol r = ''ssh'' then (\<exists>key. GetSecret (rx_Vault s) db (ssh_SessionSecretName (ss_id r)) = Inr key)
      else (\<exists>pw. GetSecret (rx_Vault s) db (rdp_SessionSecretName (ss_id r)) = Inr pw \<and> sp_Password p = string_of_bytes pw))"

lemma loadSession_open:
  assumes "loadSession s mkdir db sid uid = Inr p"
  shows "\<exists>r t. r \<in> set (sessions db) \<and> ss_id r = sid \<and> t \<in> set (targets db) \<and> t_id t = ss_target_id r \<and>
    (0 < uid \<longrightarrow> ss_user_id r = uid) \<and> ss_ended_at r = None \<and> session_credentials s db r p"
proof -
  from assms obtain r t where r: "row_by ss_id sid (sessions db) = Some r" "row_by t_id (ss_target_id r) (targets db) = Some t"
    "0 < uid \<longrightarrow> ss_user_id r = uid" "ss_ended_at r = None"
    by (auto simp: loadSession_def split: if_splits option.splits)
  let ?p = "session_params.make sid (ss_protocol r) (t_host t) (t_port t) [] [] [] [] [] True True"
  from assms r have load: "(if ss_protocol r = ''ssh'' then load_ssh s db ?p t
      else load_rdp s db ?p t (account_name db (ss_account_id r))) = Inr p"
    by (auto simp: loadSession_def Let_def split: if_splits sum.splits option.splits)
  have "session_credentials s db r p"
    using load row_by_Some [OF r(1)]
    by (auto simp: session_credentials_def load_ssh_def load_rdp_def Let_def session_params.make_def
        split: if_splits sum.splits)
  with r show ?thesis by (auto dest!: row_by_Some)
qed


definition rdp_row :: session_row where
  "rdp_row = open_session ''rdp-1-4'' 7 4 ''10.1.1.1'' ''rdp'' None None empty_db"

definition rdp_db :: pam_db where
  "rdp_db = snd (PutSecret demo_vault (Some demo_nonce) (rdp_SessionSecretName ''rdp-1-4'') (bytes_of_string ''pw'') None
     (empty_db\<lparr>sessions := [rdp_row], targets := [target_row.make 4 ''win'' ''windows'' ''10.0.0.4'' 0 1 [] None ''rdp'' [] [] [] []]\<rparr>))"

definition rdp_proxy :: "json_parser \<Rightarrow> browser_proxy" where
  "rdp_proxy parse =
     \<lparr>rx_Vault = demo_vault, rx_Verify = Some (\<lambda>_. Inr \<lparr>tk_UID = 7, tk_User = ''ann'', tk_Role = ''user''\<rparr>), rx_Parse = parse,
      rx_RecordingDir = ''rec'', rx_SSHHost = [], rx_SSHPort = 0, rx_Direct = False, rx_ViaProxy = False, rx_DockerHost = []\<rparr>"

lemma rdp_db_facts:
  "sessions rdp_db = [rdp_row]"
  "targets rdp_db = [target_row.make 4 ''win'' ''windows'' ''10.0.0.4'' 0 1 [] None ''rdp'' [] [] [] []]"
  "faults rdp_db = (\<lambda>_. False)"
  "GetSecret demo_vault rdp_db (rdp_SessionSecretName ''rdp-1-4'') = Inr (bytes_of_string ''pw'')"
proof -
  let ?db = "empty_db\<lparr>sessions := [rdp_row], targets := [target_row.make 4 ''win'' ''windows'' ''10.0.0.4'' 0 1 [] None ''rdp'' [] [] [] []]\<rparr>"
  show "sessions rdp_db = [rdp_row]" "faults rdp_db = (\<lambda>_. False)"
    "targets rdp_db = [target_row.make 4 ''win'' ''windows'' ''10.0.0.4'' 0 1 [] None ''rdp'' [] [] [] []]"
    by (simp_all add: rdp_db_def PutSecret_def insert_secret_def bump_seq_def empty_db_def split: sum.split)
  have "\<not> faults ?db Secret_Put" "secrets_readable ?db" by (simp_all add: secrets_readable_def empty_db_def)
  then show "GetSecret demo_vault rdp_db (rdp_SessionSecretName ''rdp-1-4'') = Inr (bytes_of_string ''pw'')"
    using vault.put_get [OF demo_put_ok] by (simp add: rdp_db_def)
qed

definition rdp_start :: tunnel_state where
  "rdp_start = \<lparr>tn_Locked = False, tn_Tunnels = [], tn_DB = rdp_db\<rparr>"

lemma rdp_connects:
  "\<exists>p cfg. doConnect (rdp_proxy parse) (\<lambda>_. None) (\<lambda>_. None) (\<lambda>_ _. None) ''rdp-1-4'' ''tok'' rdp_start =
     (Some (Inr (p, cfg)), rdp_start\<lparr>tn_Tunnels := [''rdp-1-4'']\<rparr>)"
  by (simp add: doConnect_def rdp_proxy_def rdp_start_def loadSession_def load_rdp_def handshakes_def enter_tunnel_def
      rdp_db_facts row_by_def rdp_row_def open_session_def target_row.make_def session_params.make_def Let_def
      account_name_def)


section \<open>Ending\<close>

text \<open>The name is in the vault.\<close>

definition stored :: "pam_db \<Rightarrow> string \<Rightarrow> bool" where
  "stored db name = (name \<in> se_name ` set (secrets db))"

lemma DeleteSecret_gone:
  "\<not> has_prefix name ''_ssh_ca'' \<Longrightarrow> \<not> faults db Secret_Delete \<Longrightarrow>
   stored (snd (DeleteSecret name db)) n \<longleftrightarrow> stored db n \<and> n \<noteq> name"
  by (auto simp: DeleteSecret_def stored_def delete_where_def rows_affected_def filter_empty_conv)

lemma DeleteSecret_rest:
  "faults (snd (DeleteSecret name db)) = faults db" "sessions (snd (DeleteSecret name db)) = sessions db"
  "session_terminations (snd (DeleteSecret name db)) = session_terminations db"
  by (simp_all add: DeleteSecret_def)

lemma secret_names_deletable:
  "\<not> has_prefix (rdp_SessionSecretName i) ''_ssh_ca''" "\<not> has_prefix (ssh_SessionSecretName i) ''_ssh_ca''"
  "\<not> has_prefix (BrowserTokenVaultKey tok) ''_ssh_ca''"
  by (simp_all add: rdp_SessionSecretName_def ssh_SessionSecretName_def BrowserTokenVaultKey_def has_prefix_def)

lemma drop_session_secrets_gone:
  assumes "\<not> faults db Secret_Delete"
  shows "\<not> stored (drop_session_secrets s sid db) (rdp_SessionSecretName sid)"
    "\<not> stored (drop_session_secrets s sid db) (ssh_SessionSecretName sid)"
    "stored (drop_session_secrets s sid db) n \<Longrightarrow> stored db n"
    "sessions (drop_session_secrets s sid db) = sessions db"
    "session_terminations (drop_session_secrets s sid db) = session_terminations db"
    "faults (drop_session_secrets s sid db) = faults db"
  using assms
  by (auto simp: drop_session_secrets_def Let_def DeleteSecret_gone DeleteSecret_rest secret_names_deletable
      split: sum.splits if_splits)

lemma update_where_none_left:
  assumes "\<And>r. \<not> p (f r)"
  shows "\<forall>x \<in> set (update_where p f rows). \<not> p x"
  unfolding set_update_where using assms by blast

lemma acknowledge_order_frame:
  "stored (acknowledge_order sid db) n = stored db n" "sessions (acknowledge_order sid db) = sessions db"
  by (simp_all add: acknowledge_order_def stored_def)

lemma acknowledge_order_acks:
  "\<not> faults db Rdp_Ack \<Longrightarrow> \<forall>order \<in> set (session_terminations (acknowledge_order sid db)).
     st_session_id order = sid \<longrightarrow> st_acknowledged_at order \<noteq> None"
  using update_where_none_left [of "\<lambda>t. st_session_id t = sid \<and> st_acknowledged_at t = None"
      "\<lambda>t. t\<lparr>st_acknowledged_at := Some (clock db)\<rparr>" "session_terminations db"]
  by (simp add: acknowledge_order_def)



section \<open>Sessions that do not end\<close>

text \<open>A second connection to a session that has a tunnel never returns and leaves the mutex locked: from then on no
  session of the proxy is opened, ended or looked at for an order to end it.\<close>

lemma reconnect_locks:
  assumes "doConnect s mkdir dial handshake sid token st = (out, st')" "sid \<in> set (tn_Tunnels st)" "\<not> tn_Locked st"
    "\<forall>e. out \<noteq> Some (Inl e)"
  shows "out = None" "closeSession s recPath i st' = None" "pollTermination i st' = None"
    "fst (doConnect s' mkdir' dial' handshake' i tok st') \<noteq> Some (Inr x)"
proof -
  have st': "out = None \<and> st' = st\<lparr>tn_Locked := True\<rparr>"
    using assms by (auto simp: doConnect_def enter_tunnel_def split: if_splits sum.splits option.splits prod.splits)
  then show "out = None" "closeSession s recPath i st' = None" "pollTermination i st' = None"
    by (simp_all add: closeSession_def pollTermination_def)
  show "fst (doConnect s' mkdir' dial' handshake' i tok st') \<noteq> Some (Inr x)"
    using st' by (auto simp: doConnect_def enter_tunnel_def split: sum.splits option.splits)
qed

text \<open>An RDP session without a recording, as after the second handshake, keeps its row, its secret and the order of an
  administrator to end it.\<close>

lemma unrecorded_rdp_survives:
  assumes "\<not> tn_Locked st" "session_protocol (tn_DB st) sid = ''rdp''"
  shows "closeSession s [] sid st = Some (st\<lparr>tn_Tunnels := removeAll sid (tn_Tunnels st)\<rparr>)"
  using assms by (simp add: closeSession_def Let_def)

end
