(* ===== verification/WebPaths.thy ===== *)
theory WebPaths
  imports Gateway DbProxy
begin

text \<open>
  What the web access proxy reads off the paths, content types and bodies of a web console
  (\<^verbatim>\<open>cmd/api-gateway/main.go\<close>, \<^verbatim>\<open>web_manifest.go\<close>, \<^verbatim>\<open>web_proxy_upstream.go\<close>, \<^verbatim>\<open>web_fortigate.go\<close>): which paths are
  static files, which MIME type a path has, which answers are HTML, and which pages belong to the sign-in of a FortiGate.
  Lower-casing is that of ASCII.
\<close>

section \<open>Paths\<close>

definition has_suffix_of :: "string list \<Rightarrow> string \<Rightarrow> bool" where
  "has_suffix_of exts p = list_ex (has_suffix p) exts"

definition has_prefix_of :: "string list \<Rightarrow> string \<Rightarrow> bool" where
  "has_prefix_of pres p = list_ex (has_prefix p) pres"

definition webPathOnly :: "string \<Rightarrow> string" where
  "webPathOnly path = takeWhile (\<lambda>c. c \<noteq> CHR ''?'') path"

definition isWebManifestPath :: "string \<Rightarrow> bool" where
  "isWebManifestPath path = has_suffix (to_lower (webPathOnly path)) ''.webmanifest''"

definition isPublicWebAsset :: "string \<Rightarrow> bool" where
  "isPublicWebAsset path =
     (let p = webPathOnly (to_lower path) in
      has_prefix_of [''/static/'', ''/favicon/'', ''/fonts/'', ''/images/'', ''/img/'', ''/css/'', ''/js/'', ''/assets/''] p \<or>
      has_suffix_of [''.css'', ''.js'', ''.mjs'', ''.map'', ''.webmanifest'', ''.ico'', ''.png'', ''.jpg'', ''.jpeg'',
        ''.gif'', ''.svg'', ''.woff'', ''.woff2'', ''.ttf'', ''.otf'', ''.eot''] p)"

definition needsPANAuthCheckOff :: "string \<Rightarrow> bool" where
  "needsPANAuthCheckOff rest =
     (let p = to_lower (webPathOnly rest) in
      isPublicWebAsset p \<or> p = ''/login'' \<or> has_prefix p ''/login/'' \<or> has_prefix p ''/php/login'' \<or> p = ''/'' \<or>
      p = ''/index.html'')"

definition mimeForWebPath :: "string \<Rightarrow> string" where
  "mimeForWebPath path =
     (let p = to_lower (webPathOnly path) in
      if has_suffix p ''.html'' then ''text/html; charset=utf-8''
      else if has_suffix_of [''.js'', ''.mjs''] p then ''application/javascript; charset=utf-8''
      else if has_suffix p ''.css'' then ''text/css; charset=utf-8''
      else if has_suffix p ''.webmanifest'' then ''application/manifest+json; charset=utf-8''
      else if has_suffix p ''.json'' then ''application/json; charset=utf-8''
      else if has_suffix p ''.svg'' then ''image/svg+xml''
      else if has_suffix p ''.png'' then ''image/png''
      else if has_suffix p ''.ico'' then ''image/x-icon''
      else [])"

definition assetExpectsScriptStyle :: "string \<Rightarrow> bool" where
  "assetExpectsScriptStyle path =
     has_suffix_of [''.js'', ''.mjs'', ''.css'', ''.json'', ''.map'', ''.woff'', ''.woff2'', ''.ttf'', ''.otf'']
       (to_lower (webPathOnly path))"

definition shouldRewriteWebPath :: "string \<Rightarrow> bool" where
  "shouldRewriteWebPath path =
     (let p = to_lower (webPathOnly path) in
      has_suffix_of [''.html'', ''.htm'', ''.js'', ''.mjs'', ''.css''] p \<or>
      p \<in> set [''/'', ''/index.html'', ''/ng'', ''/ng/'', ''/ui'', ''/ui/'', ''/login'', ''/login/''] \<or>
      has_prefix_of [''/ng/'', ''/ui/'', ''/login/''] p)"

definition isApplianceEntryPath :: "string \<Rightarrow> bool" where
  "isApplianceEntryPath p =
     (to_lower (trim_space p) \<in> set [[], ''/'', ''/login'', ''/logon'', ''/p'', ''/php/login.php'', ''/sslvpn'',
        ''/sslvpn/portal'', ''/remote'', ''/remote/login''])"

section \<open>Content types and bodies\<close>

text \<open>The media type without its parameters.\<close>

definition media_type :: "string \<Rightarrow> string" where
  "media_type ct =
     (let ct = to_lower (trim_space ct) in
      case index_byte ct (CHR '';'') of Some i \<Rightarrow> trim_space (take i ct) | None \<Rightarrow> ct)"

definition responseIsHTML :: "string \<Rightarrow> bool" where
  "responseIsHTML ct = (media_type ct \<in> set [''text/html'', ''application/xhtml+xml''])"

definition mimeNeedsFix :: "string \<Rightarrow> bool" where
  "mimeNeedsFix ct = (to_lower (trim_space ct) \<in> set [[], ''text/plain'', ''application/octet-stream''])"

definition isHTMLWebResponse :: "string \<Rightarrow> string \<Rightarrow> bool" where
  "isHTMLWebResponse path ct =
     (str_contains (media_type ct) ''text/html'' \<or> has_suffix_of [''.html'', ''.htm''] (to_lower (webPathOnly path)))"

definition isHTMLDocumentResponse :: "string \<Rightarrow> string \<Rightarrow> bool" where
  "isHTMLDocumentResponse path ct =
     (let p = to_lower (webPathOnly path) in
      if has_suffix_of [''.html'', ''.htm''] p then True
      else if assetExpectsScriptStyle p then False
      else str_contains (media_type ct) ''text/html'' \<or> str_contains (media_type ct) ''application/xhtml+xml'')"

definition shouldRewriteWebBody :: "string \<Rightarrow> bool" where
  "shouldRewriteWebBody ct =
     (let ct = media_type ct in
      if str_contains ct ''manifest'' \<or> has_suffix ct ''+json'' \<or> ct = ''application/json'' then False
      else str_contains ct ''text/html'' \<or> str_contains ct ''javascript'' \<or> str_contains ct ''text/css'')"

text \<open>\<^verbatim>\<open>bytes.TrimLeft\<close> with the white space and the byte order mark as code points.\<close>

definition byte_order_mark :: string where
  "byte_order_mark = [CHR 0xEF, CHR 0xBB, CHR 0xBF]"

fun trim_bom :: "string \<Rightarrow> string" where
  "trim_bom [] = []"
| "trim_bom (c # s) =
     (if c \<in> {CHR '' '', CHR 0x09, CHR 0x0D, CHR 0x0A} then trim_bom s
      else if has_prefix (c # s) byte_order_mark then trim_bom (drop 2 s)
      else c # s)"

definition looksLikeHTMLBody :: "string \<Rightarrow> bool" where
  "looksLikeHTMLBody body =
     (let t = trim_bom body in
      5 \<le> length t \<and>
      has_prefix_of [''<!doctype html'', ''<html'', ''<head'', ''<body'', ''<meta'', ''<script''] (to_lower (take 64 t)))"

definition looksLikeHTML :: "string \<Rightarrow> bool" where
  "looksLikeHTML body = has_prefix_of [''<!doctype'', ''<html'', ''<head''] (take 128 (trim_space (to_lower body)))"

text \<open>The manifest of a web application.  \<open>valid\<close> is \<^verbatim>\<open>json.Valid\<close>, \<open>first\<close> the first value that \<^verbatim>\<open>json.Decoder\<close> reads, as it
  is written.\<close>

definition minimalWebManifest :: string where
  "minimalWebManifest = ''{}''"

definition extractFirstJSONObject :: "(string \<Rightarrow> bool) \<Rightarrow> (string \<Rightarrow> string option) \<Rightarrow> string \<Rightarrow> string option" where
  "extractFirstJSONObject valid first body =
     (let body = trim_space body in
      if body = [] \<or> hd body \<noteq> CHR ''{'' then None
      else case first body of
        None \<Rightarrow> None
      | Some raw \<Rightarrow> if valid raw then Some raw else None)"

definition coerceWebManifestBody :: "(string \<Rightarrow> bool) \<Rightarrow> (string \<Rightarrow> string option) \<Rightarrow> string \<Rightarrow> int \<Rightarrow> string" where
  "coerceWebManifestBody valid first body code =
     (if 400 \<le> code \<or> body = [] then minimalWebManifest
      else
        let body = trim_prefix (trim_space body) byte_order_mark in
        if body = [] then minimalWebManifest
        else if valid body then body
        else case extractFirstJSONObject valid first body of
          Some t \<Rightarrow> t
        | None \<Rightarrow> minimalWebManifest)"

section \<open>FortiGate\<close>

definition web_isFortinetKind :: "string \<Rightarrow> bool" where
  "web_isFortinetKind kind = str_contains (to_lower (trim_space kind)) ''forti''"

definition isFortiBuildManifestPath :: "string \<Rightarrow> bool" where
  "isFortiBuildManifestPath rest = has_suffix (webPathOnly (to_lower rest)) ''/api/v2/static/fweb_build.json''"

definition isFortiAuthSessionPath :: "string \<Rightarrow> bool" where
  "isFortiAuthSessionPath rest = (to_lower (webPathOnly rest) = ''/api/v2/authentication'')"

definition isFortiWebUIAPIPath :: "string \<Rightarrow> bool" where
  "isFortiWebUIAPIPath rest = has_prefix (to_lower (webPathOnly rest)) ''/api/v2/monitor/web-ui/''"

definition isFortiJarAPIPath :: "string \<Rightarrow> bool" where
  "isFortiJarAPIPath rest = (isFortiAuthSessionPath rest \<or> isFortiWebUIAPIPath rest)"

definition isFortinetSPAEntryPath :: "string \<Rightarrow> bool" where
  "isFortinetSPAEntryPath rest =
     (let p = to_lower (webPathOnly rest) in
      p \<in> set [''/'', ''/index.html'', ''/ng'', ''/ng/'', ''/ui'', ''/ui/''] \<or> has_prefix_of [''/ng/'', ''/ui/''] p)"

definition fortigateResponseIsLoginHTML :: "string \<Rightarrow> bool" where
  "fortigateResponseIsLoginHTML body =
     (let b = to_lower body in
      (str_contains b ''<html'' \<or> str_contains b ''<!doctype'') \<and>
      list_ex (str_contains b) [''logincheck'', ''login.js'', ''name=\"username\"'', ''id=\"username\"''])"

definition shouldBounceFortinetAuthedToNG :: "string \<Rightarrow> bool" where
  "shouldBounceFortinetAuthedToNG rest =
     (let p = to_lower (webPathOnly rest) in
      p \<in> set [''/'', ''/index.html'', ''/login''] \<or> has_prefix p ''/login/'')"

definition fortinetLocationShouldNG :: "string \<Rightarrow> string \<Rightarrow> bool" where
  "fortinetLocationShouldNG loc sessionID =
     (let p = to_lower (webPathOnly loc); base = ''/web/'' @ sessionID in
      str_contains p ''/login'' \<or> p = base \<or> p = base @ ''/'')"

definition isFortinetPreAuthRequest :: "string \<Rightarrow> bool" where
  "isFortinetPreAuthRequest rest =
     (if isPublicWebAsset rest then True
      else
        let p = to_lower (webPathOnly rest) in
        p = ''/login'' \<or> has_prefix p ''/login/'' \<or> str_contains p ''logincheck'')"

definition trim_slash :: "string \<Rightarrow> string" where
  "trim_slash s = (if has_suffix s ''/'' then butlast s else s)"

definition fortigateLogincheckPaths :: "string \<Rightarrow> string list" where
  "fortigateLogincheckPaths assetPrefix =
     (let p = trim_slash (trim_space assetPrefix) in
      [''/logincheck'', ''/login/logincheck''] @ (if p \<noteq> [] \<and> p \<noteq> ''/login'' then [p @ ''/logincheck''] else []))"

definition isLikelyLoginProbe :: "string \<Rightarrow> bool" where
  "isLikelyLoginProbe path = (path \<in> set [''/'', ''/index.html''])"

definition digitsOnly :: "string \<Rightarrow> string" where
  "digitsOnly s = filter is_digit (trim_space s)"

definition neutralizeFortinetFrameBusters :: "string \<Rightarrow> string" where
  "neutralizeFortinetFrameBusters body =
     fold (\<lambda>from b. replace_all b from ''window.location /*pam:topnav*/'')
       [''top.location'', ''window.top.location'', ''parent.location'', ''self.parent.location''] body"

definition last_index_str :: "string \<Rightarrow> string \<Rightarrow> nat option" where
  "last_index_str s p = (case filter (\<lambda>i. has_prefix (drop i s) p) [0..<Suc (length s)] of [] \<Rightarrow> None | is \<Rightarrow> Some (last is))"

definition injectBeforeBodyEnd :: "string \<Rightarrow> string \<Rightarrow> string" where
  "injectBeforeBodyEnd body s =
     (if s = [] then body
      else case last_index_str (to_lower body) ''</body>'' of
        None \<Rightarrow> body @ s
      | Some i \<Rightarrow> take i body @ s @ drop i body)"

text \<open>The page with the scripts of the proxy right after the first tag that may hold them, and at its end.\<close>

definition injectFortinetLoginAssist :: "bool \<Rightarrow> string \<Rightarrow> string \<Rightarrow> string \<Rightarrow> string" where
  "injectFortinetLoginAssist fortinet script tailScript body =
     (if \<not> fortinet \<and> \<not> str_contains (to_lower body) ''logincheck'' \<and> \<not> str_contains (to_lower body) ''fortios'' then body
      else
        let body = neutralizeFortinetFrameBusters body;
            inject = (\<lambda>n. injectBeforeBodyEnd (take n body @ script @ drop n body) tailScript)
        in case index_str (to_lower body) ''<head>'' of
             Some i \<Rightarrow> inject (i + 6)
           | None \<Rightarrow>
               (case index_str body ''<html>'' of
                  Some i \<Rightarrow> inject (i + 6)
                | None \<Rightarrow> script @ body @ tailScript))"

end
