(* ===== verification/WebConsole.thy ===== *)
theory WebConsole
  imports WebPaths AuthClient
begin

text \<open>
  The web access proxy (\<^verbatim>\<open>cmd/api-gateway/main.go\<close>, \<^verbatim>\<open>web_proxy_upstream.go\<close>, \<^verbatim>\<open>web_fortigate.go\<close>): a browser reaches the
  web console of a machine below \<^verbatim>\<open>/web/{session}/\<close>.  Modelled are the addresses that are asked for, the cookies in both
  directions, the headers of the request to the machine, and the rewriting of redirects and pages.  The cookie jar of the
  standard library is an argument: the cookies that it returns for an address.
\<close>

section \<open>Addresses\<close>

text \<open>A parsed address, as far as the proxy reads it.\<close>

record web_url =
  wu_Scheme :: string
  wu_Host :: string
  wu_Path :: string

text \<open>\<^verbatim>\<open>URL.Hostname\<close> and \<^verbatim>\<open>URL.Port\<close>.\<close>

definition host_port :: "string \<Rightarrow> string \<times> string" where
  "host_port hp =
     (let (h, p) = (case last_colon hp of
            Some i \<Rightarrow> if list_all is_digit (drop (Suc i) hp) then (take i hp, drop (Suc i) hp) else (hp, [])
          | None \<Rightarrow> (hp, []))
      in (if has_prefix h ''['' \<and> has_suffix h '']'' then butlast (tl h) else h, p))"

definition upstreamHost :: "web_url \<Rightarrow> string" where
  "upstreamHost target =
     (case host_port (wu_Host target) of
        (host, port) \<Rightarrow>
          if port = [] \<or> wu_Scheme target = ''https'' \<and> port = ''443'' \<or> wu_Scheme target = ''http'' \<and> port = ''80''
          then host else JoinHostPort host port)"

text \<open>The spellings of the host, each once.\<close>

definition targetHostVariants :: "web_url \<Rightarrow> string list" where
  "targetHostVariants target =
     (case host_port (wu_Host target) of
        (host, port) \<Rightarrow>
          let all = map trim_space ([wu_Host target, host] @ (if port \<noteq> [] then [JoinHostPort host port] else []))
          in filter (\<lambda>s. s \<noteq> []) (rev (remdups (rev all))))"

text \<open>The path of \<^verbatim>\<open>URL.String\<close>, and the values of a query in the order of \<^verbatim>\<open>Values.Encode\<close>.\<close>

definition path_escape :: "string \<Rightarrow> string" where
  "path_escape p =
     concat (map (\<lambda>c. if c \<in> set ''/;,'' then [c] else url_escape False [c]) p)"

type_synonym url_values = "(string \<times> string) list"

definition values_encode :: "url_values \<Rightarrow> string" where
  "values_encode q = join ''&'' (map (\<lambda>(k, v). url_escape True k @ ''='' @ url_escape True v) q)"

definition values_del :: "string \<Rightarrow> url_values \<Rightarrow> url_values" where
  "values_del key q = filter (\<lambda>(k, _). k \<noteq> key) q"

definition url_string :: "web_url \<Rightarrow> string \<Rightarrow> string" where
  "url_string u rawQuery =
     (if wu_Scheme u \<noteq> [] then wu_Scheme u @ '':'' else []) @
     (if (wu_Scheme u \<noteq> [] \<or> wu_Host u \<noteq> []) \<and> (wu_Host u \<noteq> [] \<or> wu_Path u \<noteq> []) then ''//'' @ wu_Host u else []) @
     (if wu_Path u \<noteq> [] \<and> \<not> has_prefix (wu_Path u) ''/'' \<and> wu_Host u \<noteq> [] then ''/'' else []) @
     path_escape (wu_Path u) @ (if rawQuery \<noteq> [] then ''?'' @ rawQuery else [])"

text \<open>The part of a web address that every page of the machine lives under.\<close>

definition base_path :: "web_url \<Rightarrow> string" where
  "base_path target =
     (let base = trim_slash (wu_Path target) in if isApplianceEntryPath base then [] else base)"

definition upstream_url :: "web_url \<Rightarrow> string \<Rightarrow> web_url" where
  "upstream_url target rest =
     (let rest = webPathOnly (if has_prefix rest ''/'' then rest else ''/'' @ rest);
          base = base_path target;
          rest = (if base \<noteq> [] \<and> \<not> has_prefix rest (base @ ''/'') \<and> rest \<noteq> base then base @ rest else rest)
      in \<lparr>wu_Scheme = wu_Scheme target, wu_Host = upstreamHost target, wu_Path = rest\<rparr>)"

definition buildUpstreamURL :: "web_url \<Rightarrow> string \<Rightarrow> url_values \<Rightarrow> string" where
  "buildUpstreamURL target rest query =
     url_string (upstream_url target rest)
       (if query \<noteq> [] then values_encode query
        else case index_byte rest (CHR ''?'') of Some i \<Rightarrow> drop (Suc i) rest | None \<Rightarrow> [])"

text \<open>\<open>parse\<close> is \<^verbatim>\<open>url.Parse\<close>.\<close>

definition loginAssetPrefixFromTarget :: "(string \<Rightarrow> web_url option) \<Rightarrow> string \<Rightarrow> string" where
  "loginAssetPrefixFromTarget parse rawURL =
     (case parse rawURL of
        None \<Rightarrow> []
      | Some u \<Rightarrow> let p = trim_slash (wu_Path u) in if p = [] \<or> p = ''/'' then [] else p)"

definition inferTargetKind :: "(string \<Rightarrow> web_url option) \<Rightarrow> web_creds \<Rightarrow> string" where
  "inferTargetKind parse creds =
     (if trim_space (wc_TargetKind creds) \<noteq> [] then trim_space (wc_TargetKind creds)
      else case parse (wc_TargetURL creds) of
        None \<Rightarrow> wc_TargetKind creds
      | Some u \<Rightarrow>
          if str_contains (to_lower (fst (host_port (wu_Host u)) @ wu_Path u)) ''forti'' then ''fortinet-fortigate''
          else wc_TargetKind creds)"

definition isFortinetTarget :: "(string \<Rightarrow> web_url option) \<Rightarrow> web_creds \<Rightarrow> bool" where
  "isFortinetTarget parse creds = web_isFortinetKind (inferTargetKind parse creds)"

definition fortiLoginCredentials :: "web_creds \<Rightarrow> (string \<times> string) option" where
  "fortiLoginCredentials creds =
     (let pu = trim_space (wc_PortalUsername creds); pp = trim_space (wc_PortalPassword creds);
          u = trim_space (wc_Username creds); p = trim_space (wc_Password creds) in
      if pu \<noteq> [] \<and> pp \<noteq> [] then Some (pu, pp) else if u \<noteq> [] \<and> p \<noteq> [] then Some (u, p) else None)"

section \<open>The portal token in addresses\<close>

definition pamTokenSuffix :: "string \<Rightarrow> string" where
  "pamTokenSuffix tok = (if tok = [] then [] else ''token='' @ url_escape True tok)"

definition appendPortalToken :: "string \<Rightarrow> string \<Rightarrow> string" where
  "appendPortalToken uri tok =
     (if tok = [] then uri else uri @ (if str_contains uri ''?'' then ''&'' else ''?'') @ pamTokenSuffix tok)"

definition fortigatePostLoginPath :: "string \<Rightarrow> string \<Rightarrow> string" where
  "fortigatePostLoginPath sessionID portalToken =
     ''/web/'' @ sessionID @ ''/ng/'' @ (if portalToken \<noteq> [] then ''?token='' @ url_escape True portalToken else [])"

section \<open>Redirects\<close>

text \<open>\<open>uri\<close> is \<^verbatim>\<open>URL.RequestURI\<close> of a parsed redirect; an address of the machine that does not parse ends the schemes of
  its host.\<close>

definition prefixed_host :: "web_url \<Rightarrow> string \<Rightarrow> bool" where
  "prefixed_host target loc =
     list_ex (\<lambda>host. list_ex (\<lambda>scheme. has_prefix loc (scheme @ host)) [''http://'', ''https://'']) (targetHostVariants target)"

definition below_session :: "string \<Rightarrow> string \<Rightarrow> string" where
  "below_session sessionID path =
     (let pfx = ''/web/'' @ sessionID in
      if has_prefix path (pfx @ ''/'') \<or> path = pfx then path else pfx @ path)"

definition rewriteLocation :: "(string \<Rightarrow> string option) \<Rightarrow> string \<Rightarrow> web_url \<Rightarrow> string \<Rightarrow> string \<Rightarrow> string" where
  "rewriteLocation uri loc target sessionID portalToken =
     (case (if prefixed_host target loc then uri loc else None) of
        Some ru \<Rightarrow> appendPortalToken (below_session sessionID ru) portalToken
      | None \<Rightarrow>
          if has_prefix loc ''/'' then appendPortalToken (below_session sessionID loc) portalToken else loc)"

section \<open>Cookies\<close>

text \<open>The parts of a \<^verbatim>\<open>Cookie\<close> header, and the name of a part.\<close>

definition cookie_parts :: "string \<Rightarrow> string list" where
  "cookie_parts h = filter (\<lambda>p. p \<noteq> []) (map trim_space (split_on (CHR '';'') h))"

definition part_name :: "string \<Rightarrow> string" where
  "part_name p = takeWhile (\<lambda>c. c \<noteq> CHR ''='') p"

definition internal_cookie :: "string \<Rightarrow> bool" where
  "internal_cookie p = (to_lower (trim_space (part_name p)) \<in> set [''pam_web_tok'', ''pam_web_sid''])"

definition stripInternalCookies :: "string \<Rightarrow> string" where
  "stripInternalCookies h = join ''; '' (filter (\<lambda>p. \<not> internal_cookie p) (cookie_parts h))"

text \<open>A cookie of the machine on its way to the browser.\<close>

fun cookie_attrs :: "string \<Rightarrow> bool \<Rightarrow> string list \<Rightarrow> string list" where
  "cookie_attrs pfx hasPath [] = (if hasPath then [] else [''Path='' @ pfx])"
| "cookie_attrs pfx hasPath (p # ps) =
     (let p = trim_space p; lower = to_lower p in
      if p = [] \<or> lower = ''secure'' then cookie_attrs pfx hasPath ps
      else if has_prefix lower ''path='' then (''Path='' @ pfx) # cookie_attrs pfx True ps
      else if has_prefix lower ''domain='' then cookie_attrs pfx hasPath ps
      else p # cookie_attrs pfx hasPath ps)"

definition rewriteProxySetCookie :: "string \<Rightarrow> string \<Rightarrow> string" where
  "rewriteProxySetCookie cookie sessionID =
     (case split_on (CHR '';'') cookie of
        [] \<Rightarrow> cookie
      | p # ps \<Rightarrow> join ''; '' (trim_space p # cookie_attrs (''/web/'' @ sessionID @ ''/'') False ps))"

datatype same_site = SameSiteDefault | SameSiteLax | SameSiteStrict | SameSiteNone

text \<open>\<open>ck_Expires\<close> is the date in the format of HTTP, empty for the zero time.\<close>

record cookie =
  ck_Name :: string
  ck_Value :: string
  ck_HttpOnly :: bool
  ck_MaxAge :: int
  ck_Expires :: string
  ck_SameSite :: same_site

definition browserSetCookie :: "cookie \<Rightarrow> string \<Rightarrow> string" where
  "browserSetCookie c sessionID =
     ck_Name c @ ''='' @ ck_Value c @ ''; Path=/web/'' @ sessionID @ ''/'' @
     (if ck_HttpOnly c then ''; HttpOnly'' else []) @
     (if ck_MaxAge c \<noteq> 0 then ''; Max-Age='' @ string_of_int (ck_MaxAge c)
      else if ck_Expires c \<noteq> [] then ''; Expires='' @ ck_Expires c else []) @
     (case ck_SameSite c of
        SameSiteStrict \<Rightarrow> ''; SameSite=Strict''
      | SameSiteNone \<Rightarrow> ''; SameSite=None''
      | _ \<Rightarrow> ''; SameSite=Lax'')"

type_synonym jar = "web_url \<Rightarrow> cookie list"

fun first_named :: "string set \<Rightarrow> cookie list \<Rightarrow> cookie list" where
  "first_named seen [] = []"
| "first_named seen (c # cs) =
     (if ck_Name c = [] \<or> ck_Name c \<in> seen then first_named seen cs
      else c # first_named (insert (ck_Name c) seen) cs)"

definition jar_paths :: "string \<Rightarrow> string list" where
  "jar_paths requestPath =
     map (\<lambda>p. if p = [] then ''/'' else p)
       [requestPath, ''/api/v2/'', ''/api/'', ''/ng/'', ''/ui/'', ''/login/'', ''/'']"

definition collectJarCookies :: "jar \<Rightarrow> web_url \<Rightarrow> string \<Rightarrow> cookie list" where
  "collectJarCookies jar target requestPath =
     first_named {} (concat (map (\<lambda>p. jar \<lparr>wu_Scheme = wu_Scheme target, wu_Host = upstreamHost target, wu_Path = p\<rparr>)
       (jar_paths requestPath)))"

definition cookie_pair :: "cookie \<Rightarrow> string" where
  "cookie_pair c = ck_Name c @ ''='' @ ck_Value c"

definition buildUpstreamCookieHeader :: "jar \<Rightarrow> web_url \<Rightarrow> string \<Rightarrow> string" where
  "buildUpstreamCookieHeader jar target path = join ''; '' (map cookie_pair (collectJarCookies jar target path))"

definition forti_cookie :: "string \<Rightarrow> bool" where
  "forti_cookie name = has_prefix_of [''session_key'', ''apscookie'', ''ccsrftoken''] (to_lower name)"

definition fortigateHasSessionCookies :: "jar \<Rightarrow> web_url \<Rightarrow> bool" where
  "fortigateHasSessionCookies jar target = list_ex (\<lambda>c. forti_cookie (ck_Name c)) (collectJarCookies jar target ''/'')"

text \<open>The cookies that the jar is given from the header of the browser.\<close>

definition cookie_of_part :: "string \<Rightarrow> cookie" where
  "cookie_of_part p =
     cookie.make
       (case index_byte p (CHR ''='') of Some i \<Rightarrow> trim_space (take i p) | None \<Rightarrow> p)
       (case index_byte p (CHR ''='') of Some i \<Rightarrow> trim_space (drop (Suc i) p) | None \<Rightarrow> [])
       False 0 [] SameSiteDefault"

definition importBrowserFortiCookiesIntoJar :: "string \<Rightarrow> jar \<Rightarrow> web_url \<Rightarrow> cookie list" where
  "importBrowserFortiCookiesIntoJar header jar target =
     (if fortigateHasSessionCookies jar target then []
      else filter (\<lambda>c. forti_cookie (ck_Name c)) (map cookie_of_part (cookie_parts (stripInternalCookies header))))"

text \<open>The \<^verbatim>\<open>Cookie\<close> header for the machine, empty when it is removed; \<open>url\<close> is the address asked for, \<open>jar\<close> the jar after
  the import.\<close>

fun first_unseen :: "string set \<Rightarrow> cookie list \<Rightarrow> cookie list" where
  "first_unseen seen [] = []"
| "first_unseen seen (c # cs) =
     (if ck_Name c \<in> seen then first_unseen seen cs else c # first_unseen (insert (ck_Name c) seen) cs)"

definition jar_for :: "jar \<Rightarrow> web_url \<Rightarrow> web_url \<Rightarrow> cookie list" where
  "jar_for jar target url =
     (if jar url = [] then collectJarCookies jar target (if wu_Path url = [] then ''/'' else wu_Path url) else jar url)"

definition mergeUpstreamCookies :: "web_url \<Rightarrow> string \<Rightarrow> jar \<Rightarrow> web_url \<Rightarrow> bool \<Rightarrow> string" where
  "mergeUpstreamCookies url header jar target preferJar =
     (let device = stripInternalCookies header; own = jar_for jar target url in
      if preferJar then (if own = [] then device else join ''; '' (map cookie_pair own))
      else
        let parts = cookie_parts device in
        join ''; '' (parts @ map cookie_pair (first_unseen (set (map (\<lambda>p. trim_space (part_name p)) parts)) own)))"

section \<open>The request to the machine\<close>

definition trim_quotes :: "string \<Rightarrow> string" where
  "trim_quotes s = rev (dropWhile (\<lambda>c. c = CHR 0x22) (rev (dropWhile (\<lambda>c. c = CHR 0x22) s)))"

definition fortigateCSRFCookie :: "jar \<Rightarrow> web_url \<Rightarrow> string \<Rightarrow> string" where
  "fortigateCSRFCookie jar target reqPath =
     (case find (\<lambda>c. to_lower (ck_Name c) = ''csrftoken'' \<or> has_prefix (to_lower (ck_Name c)) ''ccsrftoken'')
        (collectJarCookies jar target reqPath) of
        None \<Rightarrow> []
      | Some c \<Rightarrow> trim_quotes (ck_Value c))"

type_synonym headers = "string \<Rightarrow> string"

definition fortigateAttachCSRF :: "web_url \<Rightarrow> jar \<Rightarrow> web_url \<Rightarrow> headers \<Rightarrow> headers" where
  "fortigateAttachCSRF url jar target h =
     (let tok = fortigateCSRFCookie jar target (if wu_Path url = [] then ''/'' else wu_Path url);
          h = (if tok \<noteq> [] then h(''X-CSRFTOKEN'' := tok) else h)
      in if h ''Referer'' = [] then h(''Referer'' := buildUpstreamURL target ''/'' []) else h)"

text \<open>\<open>parse\<close> is \<^verbatim>\<open>url.Parse\<close>: the address and the values of its query.\<close>

definition referer_for ::
  "(string \<Rightarrow> (web_url \<times> url_values) option) \<Rightarrow> web_url \<Rightarrow> string \<Rightarrow> string \<Rightarrow> string" where
  "referer_for parse target sessionID value =
     (let v = trim_space value; pfx = ''/web/'' @ sessionID;
          base = wu_Scheme target @ ''://'' @ wu_Host target @
            (if wu_Path target \<noteq> [] \<and> wu_Path target \<noteq> ''/'' then trim_slash (wu_Path target) else [])
      in if v = [] then value
         else case parse v of
           None \<Rightarrow> value
         | Some (u, q) \<Rightarrow>
             if str_contains (wu_Path u) pfx then
               url_string \<lparr>wu_Scheme = wu_Scheme target, wu_Host = wu_Host target,
                   wu_Path = trim_slash (wu_Path target) @ trim_prefix (wu_Path u) pfx\<rparr>
                 (values_encode (values_del ''token'' q))
             else if has_prefix (to_lower (wu_Host u)) (to_lower (wu_Host target)) then value
             else base)"

definition rewriteUpstreamReferer ::
  "(string \<Rightarrow> (web_url \<times> url_values) option) \<Rightarrow> headers \<Rightarrow> web_url \<Rightarrow> string \<Rightarrow> headers" where
  "rewriteUpstreamReferer parse h target sessionID =
     h(''Referer'' := referer_for parse target sessionID (h ''Referer''),
       ''Origin'' := referer_for parse target sessionID (h ''Origin''))"

definition tuneUpstreamRequest :: "web_url \<Rightarrow> string \<Rightarrow> headers \<Rightarrow> headers" where
  "tuneUpstreamRequest target rest h =
     (let h = (if needsPANAuthCheckOff rest then h(''X-PAN-Authcheck'' := ''off'') else h);
          h = (if h ''X-Forwarded-Proto'' = [] then h(''X-Forwarded-Proto'' := wu_Scheme target) else h)
      in if h ''X-Forwarded-Host'' = [] then h(''X-Forwarded-Host'' := upstreamHost target) else h)"

definition shouldUseBasicAuth :: "(string \<Rightarrow> web_url option) \<Rightarrow> string \<Rightarrow> string \<Rightarrow> web_creds \<Rightarrow> bool" where
  "shouldUseBasicAuth parse meth rest creds =
     (let p = to_lower (webPathOnly rest) in
      wc_Username creds \<noteq> [] \<and> wc_Password creds \<noteq> [] \<and> meth = ''GET'' \<and> \<not> isPublicWebAsset rest \<and>
      \<not> isFortinetTarget parse creds \<and> p \<notin> set [''/login'', ''/logincheck''] \<and> \<not> has_prefix p ''/login/'' \<and>
      \<not> (trim_space (wc_TargetKind creds) = [] \<and> isLikelyLoginProbe p))"

definition basic_auth :: "string \<Rightarrow> string \<Rightarrow> string" where
  "basic_auth u p = ''Basic '' @ StdEncoding_Encode (bytes_of_string (u @ '':'' @ p))"

record console_request =
  cq_Method :: string
  cq_URL :: string
  cq_Host :: string
  cq_Header :: headers
  cq_Body :: string

text \<open>Headers by the names that the code writes; the method and the address are such that \<^verbatim>\<open>http.NewRequest\<close> takes them.\<close>

definition internal_headers :: "string list" where
  "internal_headers = [''X-PAM-UID'', ''X-PAM-Role'', ''X-PAM-User'', ''X-PAM-Web-Session'', ''Authorization'']"

definition drop_headers :: "string list \<Rightarrow> headers \<Rightarrow> headers" where
  "drop_headers names h = (\<lambda>n. if n \<in> set names then [] else h n)"

definition buildWebUpstreamRequest ::
  "(string \<Rightarrow> (web_url \<times> url_values) option) \<Rightarrow> string \<Rightarrow> headers \<Rightarrow> web_url \<Rightarrow> string \<Rightarrow> url_values \<Rightarrow> string \<Rightarrow>
   web_creds \<Rightarrow> jar \<Rightarrow> bool \<Rightarrow> string \<Rightarrow> console_request" where
  "buildWebUpstreamRequest parse meth h target rest upQ sessionID creds jar preferJar body =
     (let url = upstream_url target rest;
          up = drop_headers internal_headers h;
          up = rewriteUpstreamReferer parse up target sessionID;
          up = tuneUpstreamRequest target rest up;
          up = up(''Cookie'' := mergeUpstreamCookies url (h ''Cookie'') jar target preferJar);
          up = (if preferJar \<and> isFortinetTarget (map_option fst \<circ> parse) creds \<and> has_prefix (to_lower rest) ''/api/''
                then fortigateAttachCSRF url jar target up else up);
          up = (if shouldUseBasicAuth (map_option fst \<circ> parse) meth rest creds
                then up(''Authorization'' := basic_auth (wc_Username creds) (wc_Password creds)) else up)
      in \<lparr>cq_Method = meth, cq_URL = buildUpstreamURL target rest upQ, cq_Host = upstreamHost target, cq_Header = up,
          cq_Body = body\<rparr>)"

text \<open>The request that asks the machine for a web socket; \<open>uri\<close> is \<^verbatim>\<open>RequestURI\<close> of the address.\<close>

definition websocket_headers :: "string list" where
  "websocket_headers =
     [''Sec-WebSocket-Key'', ''Sec-WebSocket-Version'', ''Sec-WebSocket-Protocol'', ''Sec-WebSocket-Extensions'']"

definition isWebSocketUpgrade :: "headers \<Rightarrow> bool" where
  "isWebSocketUpgrade h =
     (to_lower (h ''Upgrade'') = ''websocket'' \<and> str_contains (to_lower (h ''Connection'')) ''upgrade'')"

definition websocket_dial :: "web_url \<Rightarrow> string" where
  "websocket_dial target =
     (case host_port (wu_Host target) of
        (host, port) \<Rightarrow>
          JoinHostPort host (if port \<noteq> [] then port else if wu_Scheme target = ''https'' then ''443'' else ''80''))"

definition websocket_request :: "string \<Rightarrow> headers \<Rightarrow> web_url \<Rightarrow> string \<Rightarrow> jar \<Rightarrow> string" where
  "websocket_request uri h target rest jar =
     (let eol = [CHR 0x0D, CHR 0x0A]; ck = buildUpstreamCookieHeader jar target (wu_Path (upstream_url target rest)) in
      ''GET '' @ uri @ '' HTTP/1.1'' @ eol @ ''Host: '' @ upstreamHost target @ eol @ ''Upgrade: websocket'' @ eol @
      ''Connection: Upgrade'' @ eol @
      concat (map (\<lambda>n. if h n \<noteq> [] then n @ '': '' @ h n @ eol else []) websocket_headers) @
      ''Origin: '' @ wu_Scheme target @ ''://'' @ upstreamHost target @ eol @
      (if ck \<noteq> [] then ''Cookie: '' @ ck @ eol else []) @ eol)"

end
