(* ===== verification/WebPages.thy ===== *)
theory WebPages
  imports WebConsole
begin

text \<open>
  The pages of a web console on their way to the browser (\<^verbatim>\<open>cmd/api-gateway/main.go\<close>, \<^verbatim>\<open>web_fortigate.go\<close>): the links
  of a page are moved below \<^verbatim>\<open>/web/{session}/\<close>.  Also here: where else a static file is looked for, what a failed request
  is answered with, where the credentials of a session come from, and the sign-in at a FortiGate.
\<close>

section \<open>Links\<close>

definition rewriteAbsoluteTargetHosts :: "string \<Rightarrow> web_url \<Rightarrow> string \<Rightarrow> string" where
  "rewriteAbsoluteTargetHosts body target pfx =
     fold (\<lambda>from b. replace_all b from pfx)
       (concat (map (\<lambda>scheme. map ((@) scheme) (targetHostVariants target)) [''https://'', ''http://''])) body"

lemma index_str_bound: "index_str s p = Some i \<Longrightarrow> i + length p \<le> length s"
proof (induction s arbitrary: i)
  case (Cons a s)
  have "has_prefix (a # s) p \<Longrightarrow> length p \<le> length (a # s)" by (metis has_prefix_iff le_add1 length_append)
  with Cons show ?case by (auto split: if_splits)
qed (simp split: if_splits)

lemma length_dropWhile_bound: "length (dropWhile P xs) \<le> length xs"
  by (induction xs) auto

text \<open>The links of one kind of attribute in one kind of quotes.  A link that names another host, or is below
  \<^verbatim>\<open>/web/\<close> already, stays.\<close>

definition link_ends :: "char \<Rightarrow> string \<Rightarrow> bool" where
  "link_ends quote after = (after \<noteq> [] \<and> hd after = quote)"

definition link_token :: "char \<Rightarrow> string \<Rightarrow> string \<Rightarrow> string \<Rightarrow> string" where
  "link_token quote tok path after =
     (if tok \<noteq> [] \<and> path \<noteq> [] \<and> (after = [] \<or> link_ends quote after)
      then (if str_contains path ''?'' then ''&'' else ''?'') @ pamTokenSuffix tok else [])"

function rewriteRootAttr :: "string \<Rightarrow> char \<Rightarrow> string \<Rightarrow> string \<Rightarrow> string \<Rightarrow> string" where
  "rewriteRootAttr attr quote pfx tok body =
     (let open = attr @ [quote] in
      case index_str body (open @ ''/'') of
        None \<Rightarrow> body
      | Some i \<Rightarrow>
          let from = i + length open + 1; rest = drop from body in
          if has_prefix rest ''/'' \<or> has_prefix rest ''web/''
          then take from body @ rewriteRootAttr attr quote pfx tok rest
          else
            let path = takeWhile (\<lambda>c. c \<noteq> quote \<and> c \<noteq> CHR ''?'') rest;
                after = dropWhile (\<lambda>c. c \<noteq> quote \<and> c \<noteq> CHR ''?'') rest
            in take i body @ open @ pfx @ ''/'' @ path @ link_token quote tok path after @
               (if link_ends quote after then quote # rewriteRootAttr attr quote pfx tok (tl after)
                else rewriteRootAttr attr quote pfx tok after))"
  by pat_completeness auto
termination
proof (relation "measure (\<lambda>(_, _, _, _, body). length body)", goal_cases)
  case 1
  show ?case by simp
next
  case (2 attr quote pfx tok body op i n rest)
  then show ?case by (auto dest!: index_str_bound)
next
  case (3 attr quote pfx tok body op i n rest path after)
  then have "length after < length body"
    using length_dropWhile_bound [of "\<lambda>c. c \<noteq> quote \<and> c \<noteq> CHR ''?''" rest] by (auto dest!: index_str_bound)
  then show ?case by simp
next
  case (4 attr quote pfx tok body op i n rest path after)
  then show ?case
    using length_dropWhile_bound [of "\<lambda>c. c \<noteq> quote \<and> c \<noteq> CHR ''?''" rest] by (auto dest!: index_str_bound)
qed

declare rewriteRootAttr.simps [simp del]

definition root_literals :: "string list" where
  "root_literals =
     [''/api/'', ''/static/'', ''/static/js/'', ''/static/css/'', ''/assets/'', ''/favicon/'', ''/ng/'', ''/ui/'',
      ''/logincheck'', ''/login'', ''/logout'']"

definition quotes :: string where
  "quotes = [CHR 0x22, CHR 0x27]"

definition rewriteRootPaths :: "string \<Rightarrow> string \<Rightarrow> string \<Rightarrow> string" where
  "rewriteRootPaths body pfx tok =
     (if pfx = [] then body
      else
        let body = fold (\<lambda>p b. fold (\<lambda>q b. replace_all b (q # p) (q # pfx @ p)) quotes b) root_literals body
        in fold (\<lambda>attr b. fold (\<lambda>q b. rewriteRootAttr attr q pfx tok b) quotes b) [''href='', ''src='', ''action=''] body)"

text \<open>Whether a page has a base address of its own.\<close>

function containsBaseHref_from :: "string \<Rightarrow> bool" where
  "containsBaseHref_from lower =
     (case index_str lower ''<base'' of
        None \<Rightarrow> False
      | Some i \<Rightarrow>
          let after = drop (i + 5) lower in
          if after = [] then False
          else if hd after \<in> {CHR '' '', CHR 0x09, CHR 0x0A, CHR 0x0D, CHR ''/'', CHR ''>''} then
            (case index_byte after (CHR ''>'') of
               None \<Rightarrow> False
             | Some n \<Rightarrow> if str_contains (take n after) ''href='' then True else containsBaseHref_from after)
          else containsBaseHref_from after)"
  by pat_completeness auto
termination
  by (relation "measure length") (auto dest!: index_str_bound)

declare containsBaseHref_from.simps [simp del]

definition containsBaseHref :: "string \<Rightarrow> bool" where
  "containsBaseHref body = containsBaseHref_from (to_lower body)"

definition insert_at :: "nat \<Rightarrow> string \<Rightarrow> string \<Rightarrow> string" where
  "insert_at n s body = take n body @ s @ drop n body"

definition base_tag :: "string \<Rightarrow> string" where
  "base_tag pfx = ''<base href='' @ [CHR 0x22] @ pfx @ ''/'' @ [CHR 0x22] @ ''>''"

definition rewriteHTML :: "string \<Rightarrow> web_url \<Rightarrow> string \<Rightarrow> string \<Rightarrow> string" where
  "rewriteHTML body target sessionID portalToken =
     (let pfx = ''/web/'' @ sessionID;
          body = (if containsBaseHref body then body
                  else case index_str body ''<head>'' of
                    Some i \<Rightarrow> insert_at (i + 6) (base_tag pfx) body
                  | None \<Rightarrow>
                      (case index_str body ''<HEAD>'' of
                         Some i \<Rightarrow> insert_at (i + 6) (base_tag pfx) body
                       | None \<Rightarrow> body));
          body = rewriteAbsoluteTargetHosts body target pfx
      in rewriteRootPaths body pfx portalToken)"

section \<open>Static files\<close>

definition assetFallbackPrefixes :: "string list" where
  "assetFallbackPrefixes = [''/login'', ''/p'', ''/sslvpn'', ''/remote'', ''/portal'', ''/static'']"

text \<open>What is tried for a file that was not found: the path, and the prefix to add or to strip from then on.\<close>

record candidate =
  cd_path :: string
  cd_add :: string
  cd_strip :: string

definition fallback_tries :: "string \<Rightarrow> string \<Rightarrow> candidate list" where
  "fallback_tries rest skipPrefix =
     map (\<lambda>p. \<lparr>cd_path = drop (length p) rest, cd_add = [], cd_strip = p\<rparr>)
       (filter (\<lambda>p. has_prefix rest (p @ ''/'') \<and> drop (length p) rest \<noteq> ''/'') assetFallbackPrefixes) @
     map (\<lambda>p. \<lparr>cd_path = p @ rest, cd_add = p, cd_strip = []\<rparr>)
       (filter (\<lambda>p. p \<noteq> skipPrefix \<and> \<not> (has_prefix rest (p @ ''/'') \<or> rest = p)) assetFallbackPrefixes)"

text \<open>The state of a session that its requests share, without the HTTP client.\<close>

record console_state =
  cs_assetPrefix :: string
  cs_assetStrip :: string
  cs_fortiLoginDone :: bool
  cs_fortiBuildStub :: string
  cs_fortiAuthBody :: string
  cs_detectedFortinet :: bool

text \<open>What the machine answers: the headers in the order in which a loop over them sees them.\<close>

record up_answer =
  ua_Status :: int
  ua_Header :: "(string \<times> string list) list"
  ua_Body :: string

definition ua_get :: "string \<Rightarrow> up_answer \<Rightarrow> string" where
  "ua_get name a =
     (case find (\<lambda>(k, vs). k = name \<and> vs \<noteq> []) (ua_Header a) of None \<Rightarrow> [] | Some (_, vs) \<Rightarrow> hd vs)"

text \<open>The retries; \<open>fetch\<close> asks the machine for a path.\<close>

fun retry_candidates ::
  "(string \<Rightarrow> 'w \<Rightarrow> up_answer option \<times> 'w) \<Rightarrow> bool \<Rightarrow> candidate list \<Rightarrow> console_state \<Rightarrow> 'w \<Rightarrow>
   up_answer option \<times> console_state \<times> 'w" where
  "retry_candidates fetch wantNonHTML [] st w = (None, st, w)"
| "retry_candidates fetch wantNonHTML (c # cs) st w =
     (case fetch (cd_path c) w of
        (None, w) \<Rightarrow> retry_candidates fetch wantNonHTML cs st w
      | (Some a, w) \<Rightarrow>
          if ua_Status a < 400 \<and> (\<not> wantNonHTML \<or> \<not> responseIsHTML (ua_get ''Content-Type'' a)) then
            (Some a,
             st\<lparr>cs_assetPrefix := (if cd_add c \<noteq> [] then cd_add c else cs_assetPrefix st),
                cs_assetStrip := (if cd_strip c \<noteq> [] then cd_strip c else cs_assetStrip st)\<rparr>, w)
          else retry_candidates fetch wantNonHTML cs st w)"

definition retryAssetWithFallback ::
  "(string \<Rightarrow> 'w \<Rightarrow> up_answer option \<times> 'w) \<Rightarrow> string \<Rightarrow> string \<Rightarrow> console_state \<Rightarrow> 'w \<Rightarrow>
   up_answer option \<times> console_state \<times> 'w" where
  "retryAssetWithFallback fetch rest skipPrefix st w =
     (case retry_candidates fetch (assetExpectsScriptStyle rest) (fallback_tries rest skipPrefix) st w of
        (Some r, st, w) \<Rightarrow> (Some r, st, w)
      | (None, st, w) \<Rightarrow> (case fetch rest w of (r, w) \<Rightarrow> (r, st, w)))"

text \<open>The path that is asked for first, and the prefix it got.\<close>

definition effective_rest :: "console_state \<Rightarrow> string \<Rightarrow> string \<times> string" where
  "effective_rest st rest =
     (if \<not> isPublicWebAsset rest then (rest, [])
      else
        let r = (if cs_assetStrip st \<noteq> [] \<and> has_prefix rest (cs_assetStrip st @ ''/'')
                 then trim_prefix rest (cs_assetStrip st) else rest);
            ap = cs_assetPrefix st
        in if ap \<noteq> [] \<and> \<not> has_prefix r (ap @ ''/'') \<and> r \<noteq> ap then (ap @ r, ap) else (r, []))"

text \<open>Status, content type and body of an answer of the proxy itself; \<^verbatim>\<open>http.Error\<close> adds a line feed.\<close>

definition writeWebProxyError :: "string \<Rightarrow> string \<Rightarrow> int \<Rightarrow> int \<times> string \<times> string" where
  "writeWebProxyError rest msg code =
     (if isWebManifestPath rest then (200, ''application/manifest+json; charset=utf-8'', minimalWebManifest)
      else if mimeForWebPath rest \<noteq> [] then
        (code, mimeForWebPath rest,
         if has_suffix_of [''.css'', ''.js'', ''.mjs''] rest then ''/* PAM: '' @ msg @ '' */'' else msg)
      else (code, ''text/plain; charset=utf-8'', msg @ [CHR 0x0A]))"

section \<open>The credentials of a session\<close>

definition web_creds_dec :: "json \<Rightarrow> web_creds \<times> bool" where
  "web_creds_dec j =
     (let u = str_field ''username'' j; p = str_field ''password'' j; t = str_field ''target_url'' j;
          k = str_field ''target_kind'' j; pu = str_field ''portal_username'' j; pp = str_field ''portal_password'' j
      in (\<lparr>wc_Username = fst u, wc_Password = fst p, wc_TargetURL = fst t, wc_TargetKind = fst k,
           wc_PortalUsername = fst pu, wc_PortalPassword = fst pp\<rparr>,
          snd u \<and> snd p \<and> snd t \<and> snd k \<and> snd pu \<and> snd pp))"

text \<open>The answer of the auth-service: the credentials and whether the session is open.\<close>

definition web_meta_dec :: "json \<Rightarrow> (web_creds \<times> bool) \<times> bool" where
  "web_meta_dec j =
     (let u = str_field ''username'' j; p = str_field ''password'' j; t = str_field ''web_url'' j;
          k = str_field ''target_kind'' j; pu = str_field ''portal_username'' j; pp = str_field ''portal_password'' j;
          a = bool_field ''active'' j
      in ((\<lparr>wc_Username = trim_space (fst u), wc_Password = trim_space (fst p), wc_TargetURL = trim_space (fst t),
            wc_TargetKind = trim_space (fst k), wc_PortalUsername = trim_space (fst pu),
            wc_PortalPassword = trim_space (fst pp)\<rparr>, fst a),
          snd u \<and> snd p \<and> snd t \<and> snd k \<and> snd pu \<and> snd pp \<and> snd a))"

text \<open>\<open>vault\<close> and \<open>auth\<close> are the answers of the two services, \<open>Inl\<close> when there is none.\<close>

definition loadWebSessionCreds :: "json_parser \<Rightarrow> err + http_reply \<Rightarrow> err + http_reply \<Rightarrow> err + web_creds" where
  "loadWebSessionCreds parse vault auth =
     (let fallback =
        (case auth of
           Inl _ \<Rightarrow> Inl (ErrMsg ''session not found or expired'')
         | Inr r \<Rightarrow>
             if rp_Status r \<noteq> 200 then Inl (ErrMsg ''session not found or expired'')
             else case unmarshal_struct parse web_meta_dec (rp_Raw r) of
               (_, False) \<Rightarrow> Inl (ErrMsg ''invalid session credentials'')
             | ((creds, active), True) \<Rightarrow>
                 if \<not> active \<or> wc_TargetURL creds = [] then Inl (ErrMsg ''session not found or expired'') else Inr creds)
      in case vault of
           Inl _ \<Rightarrow> fallback
         | Inr r \<Rightarrow>
             if rp_Status r \<noteq> 200 then fallback
             else case unmarshal_struct parse web_creds_dec (rp_Raw r) of
               (creds, True) \<Rightarrow> Inr creds
             | (_, False) \<Rightarrow> fallback)"

section \<open>The sign-in at a FortiGate\<close>

text \<open>The jar has a session when it holds one of its cookies: the flag of a finished login follows it.\<close>

definition fortigateJarAuthed :: "jar \<Rightarrow> web_url \<Rightarrow> console_state \<Rightarrow> bool \<times> console_state" where
  "fortigateJarAuthed jar target st =
     (let has = fortigateHasSessionCookies jar target;
          st = (if cs_fortiLoginDone st \<and> \<not> has then st\<lparr>cs_fortiLoginDone := False\<rparr> else st);
          st = (if has \<and> \<not> cs_fortiLoginDone st then st\<lparr>cs_fortiLoginDone := True\<rparr> else st)
      in (has, st))"

definition isFortinetSession :: "(string \<Rightarrow> web_url option) \<Rightarrow> web_creds \<Rightarrow> console_state \<Rightarrow> bool" where
  "isFortinetSession parse creds st = (isFortinetTarget parse creds \<or> cs_detectedFortinet st)"

text \<open>The exchange with the API for authentication, at most five times: \<open>post\<close> sends the credentials, with the status of
  the answer and the status code in it, if there is one; \<open>finish\<close> runs the steps after a success.\<close>

fun api_login ::
  "('w \<Rightarrow> (nat \<times> int option) option \<times> 'w) \<Rightarrow> ('w \<Rightarrow> bool \<times> 'w) \<Rightarrow> bool \<Rightarrow> nat \<Rightarrow> 'w \<Rightarrow> bool \<times> 'w" where
  "api_login post finish hasToken 0 w = (False, w)"
| "api_login post finish hasToken (Suc n) w =
     (case post w of
        (None, w) \<Rightarrow> (False, w)
      | (Some (http, code), w) \<Rightarrow>
          if http = 404 then (False, w)
          else (case code of
            None \<Rightarrow> (False, w)
          | Some k \<Rightarrow>
              if k = 5 then finish w
              else if k = 3 \<or> k = - 2 then api_login post finish hasToken n w
              else if k = 2 then (if hasToken then api_login post finish hasToken n w else (False, w))
              else if k < 0 then (False, w)
              else api_login post finish hasToken n w))"

definition fortigateLoginViaAPI ::
  "('w \<Rightarrow> (nat \<times> int option) option \<times> 'w) \<Rightarrow> ('w \<Rightarrow> bool \<times> 'w) \<Rightarrow> string \<Rightarrow> 'w \<Rightarrow> bool \<times> 'w" where
  "fortigateLoginViaAPI post finish tokenCode w = api_login post finish (tokenCode \<noteq> []) 5 w"

text \<open>A key of a map that \<^verbatim>\<open>json.Unmarshal\<close> fills; a number is an integer here.\<close>

definition map_key :: "string \<Rightarrow> json \<Rightarrow> json" where
  "map_key key j =
     (case j of
        JObj ms \<Rightarrow> (case filter (\<lambda>(k, _). k = key) ms of [] \<Rightarrow> JNull | xs \<Rightarrow> snd (last xs))
      | _ \<Rightarrow> JNull)"

text \<open>The answer of \<^verbatim>\<open>/logincheck\<close>: \<open>js\<close> is the object in the body, if it is one.\<close>

definition fortigateLoginOK :: "nat \<Rightarrow> string \<Rightarrow> json option \<Rightarrow> string \<Rightarrow> bool" where
  "fortigateLoginOK http location js body =
     (let t = trim_space body; lower = to_lower t;
          text_result =
            (if str_contains lower ''retcode=0'' \<or> str_contains lower ''\"retcode\":0'' then True
             else if str_contains lower ''retcode=1'' \<or> str_contains lower ''\"retcode\":1'' then False
             else if http = 302 \<or> http = 303
             then location \<noteq> [] \<and> \<not> str_contains (to_lower location) ''login''
             else False)
      in if t \<noteq> [] \<and> is_digit (hd t) then hd t = CHR ''1''
         else case js of
           None \<Rightarrow> text_result
         | Some j \<Rightarrow>
             (case map_key ''retcode'' j of
                JInt n \<Rightarrow> n = 0
              | _ \<Rightarrow>
                  (case map_key ''status'' j of
                     JStr s \<Rightarrow> to_lower s = ''success''
                   | _ \<Rightarrow> text_result)))"

text \<open>\<open>full\<close> is path and query of an absolute address, if it parses.\<close>

definition fortigateAbsPath :: "(string \<Rightarrow> (string \<times> string) option) \<Rightarrow> string \<Rightarrow> string" where
  "fortigateAbsPath full loc =
     (let loc = trim_space loc; rooted = (if has_prefix loc ''/'' then loc else ''/'' @ loc) in
      if loc = [] then []
      else if has_prefix_of [''http://'', ''https://''] loc then
        (case full loc of
           Some (p, q) \<Rightarrow> if q \<noteq> [] then p @ ''?'' @ q else p
         | None \<Rightarrow> rooted)
      else rooted)"

text \<open>The form of the portal for a FortiGate: an error with its status, or who signs in with what.  \<open>inp\<close> are the MFA code,
  the password and the user name that were typed.\<close>

definition forti_portal_input :: "bool \<Rightarrow> web_creds \<Rightarrow> string \<times> string \<times> string \<Rightarrow> (nat \<times> string) + string \<times> string \<times> string" where
  "forti_portal_input fortinet creds inp =
     (case inp of
        (mfa, pw, name) \<Rightarrow>
          let user = (if trim_space name \<noteq> [] then trim_space name else trim_space (wc_PortalUsername creds));
              pass = (if trim_space pw \<noteq> [] then trim_space pw else trim_space (wc_PortalPassword creds));
              code = digitsOnly mfa
          in if \<not> fortinet then Inl (400, ''not a FortiGate web session'')
             else if user = [] \<or> pass = [] then
               Inl (400, ''username and password required '' @ em_dash @ '' enter portal password in the Login via PAM bar'')
             else if code \<noteq> [] \<and> length code \<noteq> 6 then Inl (400, ''MFA must be 6 digits or left empty'')
             else Inr (user, pass, code))"

end
