(* ===== verification/WebSpec.thy ===== *)
theory WebSpec
  imports WebPages
begin

text \<open>
  The theorems on the web access proxy: what of the portal a machine gets to see, and where the cookies of a machine
  count.
\<close>

section \<open>Cookie headers\<close>

definition plain_part :: "string \<Rightarrow> bool" where
  "plain_part p = (CHR '';'' \<notin> set p \<and> trim_space p = p)"

lemma trim_space_blank: "is_space c \<Longrightarrow> trim_space (c # s) = trim_space s"
  by (simp add: trim_space_def trim_left_def)

lemma split_on_blank: "c \<noteq> d \<Longrightarrow> is_space c \<Longrightarrow> map trim_space (split_on d (c # s)) = map trim_space (split_on d s)"
  by (cases "split_on d s") (auto simp: trim_space_blank)

lemma split_joined_parts:
  "ps \<noteq> [] \<Longrightarrow> \<forall>p \<in> set ps. plain_part p \<Longrightarrow> map trim_space (split_on (CHR '';'') (join ''; '' ps)) = ps"
proof (induction ps)
  case (Cons p ps)
  show ?case
  proof (cases "ps = []")
    case True
    with Cons.prems show ?thesis by (simp add: join_Cons plain_part_def split_on_single)
  next
    case False
    have "map trim_space (split_on (CHR '';'') (p @ CHR '';'' # CHR '' '' # join ''; '' ps)) =
        p # map trim_space (split_on (CHR '';'') (join ''; '' ps))"
      using Cons.prems split_on_blank [of "CHR '' ''" "CHR '';''" "join ''; '' ps"]
      by (simp add: split_on_append plain_part_def)
    with False Cons show ?thesis by (simp add: join_Cons)
  qed
qed simp

lemma trim_space_set: "set (trim_space s) \<subseteq> set s"
  unfolding trim_space_def trim_left_def trim_right_def by (auto dest!: set_dropWhileD)

lemma plain_part_trim: "p \<in> set (split_on (CHR '';'') s) \<Longrightarrow> plain_part (trim_space p)"
  using split_on_parts [of p "CHR '';''" s] trim_space_set by (auto simp: plain_part_def)

lemma cookie_parts_plain: "p \<in> set (cookie_parts h) \<Longrightarrow> plain_part p \<and> p \<noteq> []"
  by (auto simp: cookie_parts_def plain_part_trim)

lemma cookie_parts_join:
  "\<forall>p \<in> set ps. plain_part p \<and> p \<noteq> [] \<Longrightarrow> cookie_parts (join ''; '' ps) = ps"
  by (cases "ps = []") (simp_all add: cookie_parts_def split_joined_parts filter_id_conv)

lemma strip_parts: "cookie_parts (stripInternalCookies h) = filter (\<lambda>p. \<not> internal_cookie p) (cookie_parts h)"
proof -
  have "\<forall>p \<in> set (filter (\<lambda>p. \<not> internal_cookie p) (cookie_parts h)). plain_part p \<and> p \<noteq> []"
    using cookie_parts_plain by auto
  then show ?thesis unfolding stripInternalCookies_def by (rule cookie_parts_join)
qed

section \<open>Cookies of a machine\<close>

definition session_path :: "string \<Rightarrow> string" where
  "session_path sid = ''Path=/web/'' @ sid @ ''/''"

definition confined_attr :: "string \<Rightarrow> string \<Rightarrow> bool" where
  "confined_attr sid a =
     (to_lower a \<noteq> ''secure'' \<and> \<not> has_prefix (to_lower a) ''domain='' \<and>
      (has_prefix (to_lower a) ''path='' \<longrightarrow> a = session_path sid))"

lemma session_path_plain: "CHR '';'' \<notin> set sid \<Longrightarrow> plain_part (session_path sid)"
  by (auto simp: plain_part_def session_path_def is_space_def intro!: trim_space_id)

lemma session_path_confined: "confined_attr sid (session_path sid)"
  by (simp add: confined_attr_def session_path_def to_lower_def ascii_lower_def has_prefix_def)

lemma cookie_attrs_confined:
  "\<forall>p \<in> set ps. CHR '';'' \<notin> set p \<Longrightarrow> CHR '';'' \<notin> set sid \<Longrightarrow>
   a \<in> set (cookie_attrs (''/web/'' @ sid @ ''/'') hasPath ps) \<Longrightarrow> confined_attr sid a \<and> plain_part a"
proof (induction "''/web/'' @ sid @ ''/''" hasPath ps rule: cookie_attrs.induct)
  case (1 hasPath)
  then show ?case
    using session_path_confined session_path_plain by (auto simp: session_path_def split: if_splits)
next
  case (2 hasPath p ps)
  let ?p = "trim_space p"
  have plain: "plain_part ?p" using "2.prems"(1) trim_space_set [of p] by (auto simp: plain_part_def)
  from 2 plain show ?case
    using session_path_confined session_path_plain
    by (auto simp: Let_def session_path_def confined_attr_def split: if_splits)
qed

lemma cookie_attrs_path: "\<not> hasPath \<Longrightarrow> ''Path='' @ pfx \<in> set (cookie_attrs pfx hasPath ps)"
  by (induction pfx hasPath ps rule: cookie_attrs.induct) (auto simp: Let_def)

section \<open>The request to the machine\<close>

text \<open>An address on the machine, and a part of the cookies that belongs there: a cookie of the jar, or one of the browser
  that is not the portal's.\<close>

definition at_machine :: "web_url \<Rightarrow> string \<Rightarrow> bool" where
  "at_machine target url =
     (\<exists>path. url = wu_Scheme target @ ''://'' @ upstreamHost target @ ''/'' @ path)"

definition device_part :: "string \<Rightarrow> jar \<Rightarrow> web_url \<Rightarrow> string \<Rightarrow> string \<Rightarrow> bool" where
  "device_part h jar target rest p =
     (p \<in> set (cookie_parts h) \<and> \<not> internal_cookie p \<or>
      p \<in> cookie_pair ` set (jar_for jar target (upstream_url target rest)))"

lemma path_escape_rooted: "path_escape (CHR ''/'' # p) = CHR ''/'' # path_escape p"
  by (simp add: path_escape_def)

lemma rooted_or_prefixed:
  "has_prefix (wu_Path (upstream_url target rest)) ''/'' \<or> wu_Path (upstream_url target rest) \<noteq> []"
proof -
  have "\<exists>p. webPathOnly (if has_prefix rest ''/'' then rest else ''/'' @ rest) = CHR ''/'' # p"
    by (auto simp: webPathOnly_def has_prefix_iff)
  then show ?thesis by (auto simp: upstream_url_def Let_def has_prefix_iff)
qed

lemma url_at_machine:
  assumes "wu_Scheme target \<noteq> []" "upstreamHost target \<noteq> []"
  shows "at_machine target (buildUpstreamURL target rest q)"
proof -
  let ?u = "upstream_url target rest"
  have u: "wu_Scheme ?u = wu_Scheme target" "wu_Host ?u = upstreamHost target"
    by (simp_all add: upstream_url_def Let_def)
  obtain p where "(if wu_Path ?u \<noteq> [] \<and> \<not> has_prefix (wu_Path ?u) ''/'' then ''/'' else []) @ path_escape (wu_Path ?u) =
      CHR ''/'' # p"
  proof (cases "has_prefix (wu_Path ?u) ''/''")
    case True
    then obtain t where "wu_Path ?u = CHR ''/'' # t" by (auto simp: has_prefix_iff)
    with that show ?thesis by (simp add: path_escape_rooted has_prefix_iff)
  next
    case False
    with rooted_or_prefixed [of target rest] that show ?thesis by simp
  qed
  with assms show ?thesis
    by (auto simp: buildUpstreamURL_def url_string_def u at_machine_def)
qed

lemma first_unseen_subset: "set (first_unseen seen cs) \<subseteq> set cs"
  by (induction seen cs rule: first_unseen.induct) auto

lemma merged_parts:
  "\<exists>ps. mergeUpstreamCookies (upstream_url target rest) h jar target preferJar = join ''; '' ps \<and>
     (\<forall>p \<in> set ps. device_part h jar target rest p)"
proof -
  let ?own = "jar_for jar target (upstream_url target rest)" and ?dev = "filter (\<lambda>p. \<not> internal_cookie p) (cookie_parts h)"
  have dev: "\<forall>p \<in> set ?dev. device_part h jar target rest p" by (auto simp: device_part_def)
  show ?thesis
  proof (cases preferJar)
    case True
    let ?ps = "if ?own = [] then ?dev else map cookie_pair ?own"
    have "\<forall>p \<in> set ?ps. device_part h jar target rest p" using dev by (simp add: device_part_def)
    moreover have "mergeUpstreamCookies (upstream_url target rest) h jar target preferJar = join ''; '' ?ps"
      using True by (simp add: mergeUpstreamCookies_def stripInternalCookies_def Let_def)
    ultimately show ?thesis by blast
  next
    case False
    let ?seen = "set (map (\<lambda>p. trim_space (part_name p)) ?dev)"
    have "\<forall>p \<in> set (?dev @ map cookie_pair (first_unseen ?seen ?own)). device_part h jar target rest p"
      using dev first_unseen_subset [of ?seen ?own] by (auto simp: device_part_def)
    moreover have "mergeUpstreamCookies (upstream_url target rest) h jar target preferJar =
        join ''; '' (?dev @ map cookie_pair (first_unseen ?seen ?own))"
      using False by (simp only: mergeUpstreamCookies_def strip_parts Let_def if_False)
    ultimately show ?thesis by blast
  qed
qed

lemma headers_kept:
  "n \<notin> {''X-PAN-Authcheck'', ''X-Forwarded-Proto'', ''X-Forwarded-Host''} \<Longrightarrow> tuneUpstreamRequest target rest h n = h n"
  "n \<notin> {''X-CSRFTOKEN'', ''Referer''} \<Longrightarrow> fortigateAttachCSRF url jar target h n = h n"
  "n \<notin> {''Referer'', ''Origin''} \<Longrightarrow> rewriteUpstreamReferer parse h target sid n = h n"
  by (simp_all add: tuneUpstreamRequest_def fortigateAttachCSRF_def rewriteUpstreamReferer_def Let_def)


definition fw_url :: web_url where
  "fw_url = \<lparr>wu_Scheme = ''https'', wu_Host = ''10.0.0.1:443'', wu_Path = ''/login''\<rparr>"

definition browser_headers :: headers where
  "browser_headers = (\<lambda>_. [])(''Cookie'' := ''pam_web_tok=eyJ; sid=4'', ''X-PAM-UID'' := ''7'')"

definition fw_creds :: web_creds where
  "fw_creds = \<lparr>wc_Username = ''admin'', wc_Password = ''pw'', wc_TargetURL = [], wc_TargetKind = ''linux'',
     wc_PortalUsername = [], wc_PortalPassword = []\<rparr>"


section \<open>Hosts by their prefix\<close>

text \<open>A redirect to, or a link to, another machine whose address merely starts with that of the machine is taken for the
  machine's own.\<close>

lemma longer_address_taken:
  "rewriteLocation (\<lambda>_. Some ''/x'') ''https://10.0.0.10/x'' fw_url ''s'' [] = ''/web/s/x'' \<and>
   rewriteAbsoluteTargetHosts ''https://10.0.0.10/x'' fw_url ''/web/s'' = ''/web/s0/x''"
  by code_simp

text \<open>Of the patterns that keep a page in its frame the second and the fourth are never found, and other names are cut.\<close>

lemma frame_patterns:
  "neutralizeFortinetFrameBusters ''stop.location'' = ''swindow.location /*pam:topnav*/'' \<and>
   neutralizeFortinetFrameBusters ''self.parent.location'' = ''self.window.location /*pam:topnav*/''"
  by code_simp

text \<open>The sign-in through the API of a FortiGate sends the credentials five times at most.\<close>

lemma api_login_bounded:
  "snd (api_login (\<lambda>k. (fst (post k), Suc k)) (\<lambda>k. (b, k)) tok n w) \<le> w + n"
proof (induction n arbitrary: w)
  case (Suc n)
  from Suc [of "Suc w"] show ?case by (auto split: option.splits)
qed simp

end
