(* ===== verification/WebFortiGate.thy ===== *)
theory WebFortiGate
  imports WebPages
begin

text \<open>
  The sign-in of the web access proxy at a FortiGate (\<^verbatim>\<open>cmd/api-gateway/web_fortigate.go\<close>): the requests that the proxy
  makes with the cookie jar of a session, the API for authentication and the form of older versions, what follows a login,
  and the build manifest that the pages of the machine ask for.
\<close>

section \<open>The client\<close>

text \<open>A world \<open>'w\<close> is the client of a session: its cookie jar and the machine at the other end.  \<open>kb_Do\<close> sends a request, with
  the redirects that the client follows and the cookies that it stores.  \<open>kb_Parse\<close> is \<^verbatim>\<open>url.Parse\<close> with the values of the
  query, \<open>kb_PathQuery\<close> the path and the query as written; \<open>kb_Json\<close> is \<^verbatim>\<open>json.Unmarshal\<close> and \<open>kb_Decode\<close> the first value of
  a \<^verbatim>\<open>json.Decoder\<close>, \<open>kb_RawValue\<close> the same as it is written; \<open>kb_Marshal\<close> writes the keys of a map sorted.\<close>

record 'w console_lib =
  kb_Parse :: "string \<Rightarrow> (web_url \<times> url_values) option"
  kb_PathQuery :: "string \<Rightarrow> (string \<times> string) option"
  kb_RequestURI :: "string \<Rightarrow> string option"
  kb_Jar :: "'w \<Rightarrow> jar"
  kb_SetCookies :: "web_url \<Rightarrow> cookie list \<Rightarrow> 'w \<Rightarrow> 'w"
  kb_Cookies :: "up_answer \<Rightarrow> cookie list"
  kb_Do :: "console_request \<Rightarrow> 'w \<Rightarrow> (err + up_answer) \<times> 'w"
  kb_Gunzip :: "string \<Rightarrow> err + string"
  kb_Json :: json_parser
  kb_Decode :: json_parser
  kb_RawValue :: "string \<Rightarrow> string option"
  kb_Marshal :: "json \<Rightarrow> string"
  kb_Sprint :: "json \<Rightarrow> string"

definition kb_URL :: "'w console_lib \<Rightarrow> string \<Rightarrow> web_url option" where
  "kb_URL lib s = map_option fst (kb_Parse lib s)"

definition values_get :: "string \<Rightarrow> url_values \<Rightarrow> string" where
  "values_get key q = (case find (\<lambda>(k, _). k = key) q of None \<Rightarrow> [] | Some (_, v) \<Rightarrow> v)"

text \<open>\<^verbatim>\<open>Values.Set\<close>, with the list in the order in which \<^verbatim>\<open>Values.Encode\<close> writes it.\<close>

definition values_set :: "string \<Rightarrow> string \<Rightarrow> url_values \<Rightarrow> url_values" where
  "values_set key v q = insort_key fst (key, v) (values_del key q)"

definition no_headers :: headers where
  "no_headers = (\<lambda>_. [])"

text \<open>The import of the browser's session cookies; \<open>header\<close> is its \<^verbatim>\<open>Cookie\<close> header.\<close>

definition import_cookies :: "'w console_lib \<Rightarrow> string \<Rightarrow> web_url \<Rightarrow> 'w \<Rightarrow> 'w" where
  "import_cookies lib header target w =
     (let cs = importBrowserFortiCookiesIntoJar header (kb_Jar lib w) target in
      if cs = [] then w
      else kb_SetCookies lib \<lparr>wu_Scheme = wu_Scheme target, wu_Host = upstreamHost target, wu_Path = ''/''\<rparr> cs w)"

text \<open>A request without a jar, one with the cookies of the jar, and one with the token against forged requests as well.\<close>

definition plain_request :: "web_url \<Rightarrow> string \<Rightarrow> string \<Rightarrow> url_values \<Rightarrow> headers \<Rightarrow> string \<Rightarrow> console_request" where
  "plain_request target meth rest query h body =
     \<lparr>cq_Method = meth, cq_URL = buildUpstreamURL target rest query, cq_Host = upstreamHost target,
      cq_Header = tuneUpstreamRequest target rest h, cq_Body = body\<rparr>"

definition cookie_request ::
  "'w console_lib \<Rightarrow> web_url \<Rightarrow> string \<Rightarrow> string \<Rightarrow> url_values \<Rightarrow> headers \<Rightarrow> string \<Rightarrow> 'w \<Rightarrow> console_request" where
  "cookie_request lib target meth rest query h body w =
     (let rq = plain_request target meth rest query h body
      in rq\<lparr>cq_Header := (cq_Header rq)
             (''Cookie'' := mergeUpstreamCookies (upstream_url target rest) [] (kb_Jar lib w) target True)\<rparr>)"

definition jar_request ::
  "'w console_lib \<Rightarrow> web_url \<Rightarrow> string \<Rightarrow> string \<Rightarrow> url_values \<Rightarrow> headers \<Rightarrow> string \<Rightarrow> 'w \<Rightarrow> console_request" where
  "jar_request lib target meth rest query h body w =
     (let rq = cookie_request lib target meth rest query h body w
      in rq\<lparr>cq_Header := fortigateAttachCSRF (upstream_url target rest) (kb_Jar lib w) target (cq_Header rq)\<rparr>)"

definition fortigateStoreResponseCookies :: "'w console_lib \<Rightarrow> string \<Rightarrow> up_answer \<Rightarrow> 'w \<Rightarrow> 'w" where
  "fortigateStoreResponseCookies lib pageURL a w =
     (case (if pageURL = [] then None else kb_URL lib pageURL) of
        None \<Rightarrow> w
      | Some u \<Rightarrow>
          if kb_Cookies lib a = [] then w
          else kb_SetCookies lib (u\<lparr>wu_Path := ''/''\<rparr>) (kb_Cookies lib a) (kb_SetCookies lib u (kb_Cookies lib a) w))"

text \<open>The body of the answer; \<open>[]\<close> where there is none.\<close>

definition upstream_send :: "'w console_lib \<Rightarrow> console_request \<Rightarrow> 'w \<Rightarrow> string \<times> 'w" where
  "upstream_send lib rq w =
     (case kb_Do lib rq w of
        (Inl _, w) \<Rightarrow> ([], w)
      | (Inr a, w) \<Rightarrow> (ua_Body a, fortigateStoreResponseCookies lib (cq_URL rq) a w))"

definition fortigateUpstreamGET :: "'w console_lib \<Rightarrow> web_url \<Rightarrow> string \<Rightarrow> 'w \<Rightarrow> string \<times> 'w" where
  "fortigateUpstreamGET lib target path w =
     (if trim_space path = [] then ([], w)
      else upstream_send lib (jar_request lib target ''GET'' path [] no_headers [] w) w)"

definition form_type :: string where
  "form_type = ''application/x-www-form-urlencoded''"

definition fortigateUpstreamPOST :: "'w console_lib \<Rightarrow> web_url \<Rightarrow> string \<Rightarrow> url_values \<Rightarrow> 'w \<Rightarrow> string \<times> 'w" where
  "fortigateUpstreamPOST lib target path form w =
     (if trim_space path = [] then ([], w)
      else
        let h = no_headers(''Content-Type'' := form_type, ''Referer'' := buildUpstreamURL target ''/'' [])
        in upstream_send lib (jar_request lib target ''POST'' path [] h (values_encode form) w) w)"

definition fortigatePostDisclaimer :: "'w console_lib \<Rightarrow> web_url \<Rightarrow> 'w \<Rightarrow> string \<times> 'w" where
  "fortigatePostDisclaimer lib target w = fortigateUpstreamPOST lib target ''/logindisclaimer'' [(''confirm'', ''1'')] w"

definition fortigatePostPrompt :: "'w console_lib \<Rightarrow> web_url \<Rightarrow> string \<Rightarrow> 'w \<Rightarrow> 'w" where
  "fortigatePostPrompt lib target promptPath w =
     (let path = (if trim_space promptPath = [] then ''/prompt'' else trim_space promptPath)
      in snd (fortigateUpstreamPOST lib target path [(''confirm'', ''1'')] w))"

text \<open>Body and status of an answer of the API; no answer is the status 0.\<close>

definition fortigateCallAPIViaJar ::
  "'w console_lib \<Rightarrow> web_url \<Rightarrow> string \<Rightarrow> string \<Rightarrow> url_values \<Rightarrow> string \<Rightarrow> string \<Rightarrow> 'w \<Rightarrow> (string \<times> int) \<times> 'w" where
  "fortigateCallAPIViaJar lib target meth rest query body contentType w =
     (let h = (if body \<noteq> [] \<and> contentType \<noteq> [] then no_headers(''Content-Type'' := contentType) else no_headers) in
      case kb_Do lib (jar_request lib target meth rest query h body w) w of
        (Inl _, w) \<Rightarrow> (([], 0), w)
      | (Inr a, w) \<Rightarrow> ((ua_Body a, ua_Status a), w))"

definition fortigateFetchAPIViaJar ::
  "'w console_lib \<Rightarrow> web_url \<Rightarrow> string \<Rightarrow> url_values \<Rightarrow> 'w \<Rightarrow> (string \<times> int) \<times> 'w" where
  "fortigateFetchAPIViaJar lib target rest query w = fortigateCallAPIViaJar lib target ''GET'' rest query [] [] w"

section \<open>Markup\<close>

text \<open>The regular expressions read an attribute: its name in any case, an equals sign between white space, and a value in
  quotes.  \<open>attr_here\<close> reads it at the start of a text, \<open>attr_in\<close> at the first place where it can be read.\<close>

definition re_space :: "char \<Rightarrow> bool" where
  "re_space c = (c \<in> {CHR 0x09, CHR 0x0A, CHR 0x0C, CHR 0x0D, CHR '' ''})"

definition attr_here :: "string \<Rightarrow> char set \<Rightarrow> bool \<Rightarrow> string \<Rightarrow> (string \<times> string) option" where
  "attr_here name quote void s =
     (let eq = dropWhile re_space (drop (length name) s);
          op = dropWhile re_space (tl eq);
          v = takeWhile (\<lambda>c. c \<notin> quote) (tl op); after = dropWhile (\<lambda>c. c \<notin> quote) (tl op)
      in if has_prefix (to_lower s) name \<and> eq \<noteq> [] \<and> hd eq = CHR ''='' \<and> op \<noteq> [] \<and> hd op \<in> quote \<and> after \<noteq> [] \<and>
            (void \<or> v \<noteq> [])
         then Some (v, tl after) else None)"

fun attr_in :: "string \<Rightarrow> bool \<Rightarrow> string \<Rightarrow> string option" where
  "attr_in name void [] = None"
| "attr_in name void (c # s) =
     (case attr_here name (set quotes) void (c # s) of
        Some (v, _) \<Rightarrow> Some v
      | None \<Rightarrow> attr_in name void s)"

definition fortigateParseDocumentLocation :: "string \<Rightarrow> string" where
  "fortigateParseDocumentLocation body = (case attr_in ''document.location'' False body of None \<Rightarrow> [] | Some v \<Rightarrow> v)"

text \<open>The hidden fields of a form.  A tag ends at the first angle bracket, and what it says of its type is \<^verbatim>\<open>hidden\<close>.\<close>

definition hidden_tag :: "string \<Rightarrow> string option" where
  "hidden_tag s =
     (let tag = takeWhile (\<lambda>c. c \<noteq> CHR ''>'') s;
          hidden = list_ex (\<lambda>i. case attr_here ''type'' (set quotes) False (drop i tag) of
            None \<Rightarrow> False | Some (v, _) \<Rightarrow> to_lower v = ''hidden'') [6..<length tag]
      in if has_prefix (to_lower s) ''<input'' \<and> length tag < length s \<and> hidden then Some (tag @ ''>'') else None)"

function hidden_tags :: "string \<Rightarrow> string list" where
  "hidden_tags s =
     (if s = [] then []
      else case hidden_tag s of
        Some tag \<Rightarrow> tag # hidden_tags (drop (length tag) s)
      | None \<Rightarrow> hidden_tags (tl s))"
  by pat_completeness auto
termination
  by (relation "measure length") (auto simp: hidden_tag_def Let_def split: if_splits)

declare hidden_tags.simps [simp del]

definition hidden_fields :: "string \<Rightarrow> url_values \<Rightarrow> url_values" where
  "hidden_fields body out =
     fold (\<lambda>tag out. case attr_in ''name'' False tag of
         None \<Rightarrow> out
       | Some n \<Rightarrow> values_set n (case attr_in ''value'' True tag of None \<Rightarrow> [] | Some v \<Rightarrow> v) out)
       (hidden_tags body) out"

definition own_prefix :: "string \<Rightarrow> string option" where
  "own_prefix assetPrefix =
     (let p = trim_slash (trim_space assetPrefix) in if p \<noteq> [] \<and> p \<noteq> ''/login'' then Some p else None)"

fun fetch_form :: "'w console_lib \<Rightarrow> web_url \<Rightarrow> string list \<Rightarrow> url_values \<Rightarrow> 'w \<Rightarrow> url_values \<times> 'w" where
  "fetch_form lib target [] out w = (out, w)"
| "fetch_form lib target (p # ps) out w =
     (case kb_Do lib (plain_request target ''GET'' p [] no_headers []) w of
        (Inl _, w) \<Rightarrow> fetch_form lib target ps out w
      | (Inr a, w) \<Rightarrow>
          if 400 \<le> ua_Status a \<or> length (ua_Body a) < 64 then fetch_form lib target ps out w
          else
            let out = hidden_fields (ua_Body a) out in
            if out \<noteq> [] \<or> str_contains (to_lower (ua_Body a)) ''logincheck'' then (out, w)
            else fetch_form lib target ps out w)"

definition fortigateFetchLoginForm :: "'w console_lib \<Rightarrow> web_url \<Rightarrow> string \<Rightarrow> 'w \<Rightarrow> url_values \<times> 'w" where
  "fortigateFetchLoginForm lib target assetPrefix w =
     fetch_form lib target
       ((case own_prefix assetPrefix of None \<Rightarrow> [] | Some p \<Rightarrow> [p @ ''/login/'', p @ ''/login'']) @
        [''/login/'', ''/login'', ''/'']) [] w"

section \<open>The build manifest\<close>

definition js_str :: "json \<Rightarrow> string option" where
  "js_str j = (case j of JStr s \<Rightarrow> Some s | _ \<Rightarrow> None)"

definition js_members :: "json \<Rightarrow> (string \<times> json) list option" where
  "js_members j = (case j of JObj ms \<Rightarrow> Some ms | _ \<Rightarrow> None)"

definition fortigateStubHasGUIConfig :: "'w console_lib \<Rightarrow> string \<Rightarrow> bool" where
  "fortigateStubHasGUIConfig lib body =
     (case (if body = [] then None else kb_Json lib body) of
        None \<Rightarrow> False
      | Some meta \<Rightarrow>
          let cfg = (if js_members (map_key ''CONFIG'' meta) \<noteq> None then map_key ''CONFIG'' meta
                     else map_key ''results'' meta)
          in case js_str (map_key ''CONFIG_GUI_PUBLIC_PATH'' cfg) of None \<Rightarrow> False | Some v \<Rightarrow> trim_space v \<noteq> [])"

definition stub_config :: string where
  "stub_config =
     ''{\"CONFIG_GUI_PUBLIC_PATH\":\"/static\",\"CONFIG_GUI_NOVUE_PATH\":\"/ng/\",\"CONFIG_GUI_LEGACY_PATH\":\"/login/\",'' @
     ''\"CONFIG_API_V2_PATH\":\"/api/v2/\",\"version\":\"v7.4.0\",\"build\":2600,\"branch\":\"GA\"}''"

definition fortiBuildManifestStubDefault :: string where
  "fortiBuildManifestStubDefault =
     ''{\"version\":\"v7.4.0\",\"build\":2600,\"branch\":\"GA\",\"status\":\"success\",\"CONFIG\":'' @ stub_config @
     '',\"results\":'' @ stub_config @ ''}''"

definition fortigateBuildStubBody :: "'w console_lib \<Rightarrow> console_state \<Rightarrow> string" where
  "fortigateBuildStubBody lib st =
     (if cs_fortiBuildStub st \<noteq> [] \<and> fortigateStubHasGUIConfig lib (cs_fortiBuildStub st) then cs_fortiBuildStub st
      else fortiBuildManifestStubDefault)"

definition jsonStringField :: "'w console_lib \<Rightarrow> json \<Rightarrow> string \<Rightarrow> string" where
  "jsonStringField lib m key =
     (case map_key key m of
        JNull \<Rightarrow> []
      | JStr s \<Rightarrow> trim_space s
      | JInt n \<Rightarrow> string_of_int n
      | v \<Rightarrow> trim_space (kb_Sprint lib v))"

definition fortigateStatusFields :: "'w console_lib \<Rightarrow> json \<Rightarrow> string \<times> string" where
  "fortigateStatusFields lib meta =
     (let field = (\<lambda>key.
        let v = jsonStringField lib meta key in if v \<noteq> [] then v else jsonStringField lib (map_key ''results'' meta) key)
      in (field ''version'', field ''build''))"

text \<open>The members of an object with the last value of a name, and an object with one member set.\<close>

definition json_set :: "(string \<times> json) list \<Rightarrow> (string \<times> json) list \<Rightarrow> (string \<times> json) list" where
  "json_set ms news = fold (\<lambda>(k, v) ms. filter (\<lambda>(k', _). k' \<noteq> k) ms @ [(k, v)]) news ms"

definition fortigateBuildStubFromStatus :: "'w console_lib \<Rightarrow> json \<Rightarrow> string" where
  "fortigateBuildStubFromStatus lib meta =
     (let (version, build) = fortigateStatusFields lib meta;
          version = (if version = [] then ''v7.4.0'' else version);
          build = (case (if build = [] then None else parse_int64 build) of None \<Rightarrow> 2600 | Some n \<Rightarrow> n);
          own = jsonStringField lib meta ''branch'';
          branch = (if own \<noteq> [] then own else jsonStringField lib (map_key ''results'' meta) ''branch'');
          branch = (if branch = [] then ''GA'' else branch);
          about = [(''version'', JStr version), (''build'', JInt build), (''branch'', JStr branch)];
          given = (case js_members (map_key ''results'' meta) of
            None \<Rightarrow> [] | Some ms \<Rightarrow> filter (\<lambda>(k, _). has_prefix k ''CONFIG_'') ms);
          results = JObj (json_set
            ([(''CONFIG_GUI_PUBLIC_PATH'', JStr ''/static''), (''CONFIG_GUI_NOVUE_PATH'', JStr ''/ng/''),
              (''CONFIG_GUI_LEGACY_PATH'', JStr ''/login/''), (''CONFIG_API_V2_PATH'', JStr ''/api/v2/'')] @ about) given)
      in kb_Marshal lib (JObj (about @ [(''status'', JStr ''success''), (''CONFIG'', results), (''results'', results)])))"

definition status_probes :: "string list" where
  "status_probes = [''/api/v2/monitor/system/status?vdom=root'', ''/api/v2/monitor/system/status'']"

fun cache_stub :: "'w console_lib \<Rightarrow> web_url \<Rightarrow> string list \<Rightarrow> console_state \<times> 'w \<Rightarrow> console_state \<times> 'w" where
  "cache_stub lib target [] stw = stw"
| "cache_stub lib target (p # ps) (st, w) =
     (case kb_Do lib (jar_request lib target ''GET'' p [] no_headers [] w) w of
        (Inl _, w) \<Rightarrow> cache_stub lib target ps (st, w)
      | (Inr a, w) \<Rightarrow>
          (case (if ua_Status a \<noteq> 200 then None else kb_Json lib (ua_Body a)) of
             Some (JObj ms) \<Rightarrow>
               let stub = fortigateBuildStubFromStatus lib (JObj ms) in
               if stub = [] then cache_stub lib target ps (st, w) else (st\<lparr>cs_fortiBuildStub := stub\<rparr>, w)
           | _ \<Rightarrow> cache_stub lib target ps (st, w)))"

definition fortigateCacheBuildStub :: "'w console_lib \<Rightarrow> web_url \<Rightarrow> console_state \<times> 'w \<Rightarrow> console_state \<times> 'w" where
  "fortigateCacheBuildStub lib target stw = cache_stub lib target status_probes stw"

fun cache_real :: "'w console_lib \<Rightarrow> web_url \<Rightarrow> string list \<Rightarrow> console_state \<times> 'w \<Rightarrow> console_state \<times> 'w" where
  "cache_real lib target [] stw = stw"
| "cache_real lib target (p # ps) (st, w) =
     (case fortigateFetchAPIViaJar lib target p [] w of
        ((body, code), w) \<Rightarrow>
          if code = 200 \<and> body \<noteq> [] \<and> fortigateStubHasGUIConfig lib body then (st\<lparr>cs_fortiBuildStub := body\<rparr>, w)
          else cache_real lib target ps (st, w))"

definition fortigateTryCacheRealFwebBuild :: "'w console_lib \<Rightarrow> web_url \<Rightarrow> console_state \<times> 'w \<Rightarrow> console_state \<times> 'w" where
  "fortigateTryCacheRealFwebBuild lib target stw =
     cache_real lib target [''/api/v2/static/fweb_build.json?vdom=root'', ''/api/v2/static/fweb_build.json''] stw"

definition fortigateCacheAuthSession ::
  "'w console_lib \<Rightarrow> web_url \<Rightarrow> string \<Rightarrow> console_state \<times> 'w \<Rightarrow> console_state \<times> 'w" where
  "fortigateCacheAuthSession lib target username stw =
     (case stw of
        (st, w) \<Rightarrow>
          (case fortigateFetchAPIViaJar lib target ''/api/v2/authentication'' [] w of
             ((body, code), w) \<Rightarrow>
               let stub = kb_Marshal lib (JObj [(''status_code'', JInt 5), (''status_message'', JStr ''LOGIN_SUCCESS''),
                     (''username'', JStr (trim_space username))])
               in (st\<lparr>cs_fortiAuthBody := (if code = 200 \<and> body \<noteq> [] then body else stub)\<rparr>, w)))"

section \<open>After a login\<close>

fun session_valid :: "'w console_lib \<Rightarrow> web_url \<Rightarrow> string list \<Rightarrow> 'w \<Rightarrow> bool \<times> 'w" where
  "session_valid lib target [] w = (False, w)"
| "session_valid lib target (p # ps) w =
     (case kb_Do lib (jar_request lib target ''GET'' p [] no_headers [] w) w of
        (Inl _, w) \<Rightarrow> session_valid lib target ps w
      | (Inr a, w) \<Rightarrow> if ua_Status a = 200 then (True, w) else session_valid lib target ps w)"

definition fortigateValidateSession :: "'w console_lib \<Rightarrow> web_url \<Rightarrow> 'w \<Rightarrow> bool \<times> 'w" where
  "fortigateValidateSession lib target w = session_valid lib target status_probes w"

definition fortigatePrimeAuthenticatedSession :: "'w console_lib \<Rightarrow> web_url \<Rightarrow> string \<Rightarrow> 'w \<Rightarrow> 'w" where
  "fortigatePrimeAuthenticatedSession lib target assetPrefix w =
     fold (\<lambda>p w. snd (kb_Do lib (cookie_request lib target ''GET'' p [] no_headers [] w) w))
       ((case own_prefix assetPrefix of None \<Rightarrow> [] | Some p \<Rightarrow> [p @ ''/'', p @ ''/ng/'']) @
        [''/'', ''/ng/'', ''/ui/'', ''/api/v2/static/fweb_build.json'']) w"

text \<open>The steps of a page that asks for a confirmation, and where it sends the user.\<close>

definition answer_prompt :: "'w console_lib \<Rightarrow> web_url \<Rightarrow> string \<Rightarrow> 'w \<Rightarrow> 'w" where
  "answer_prompt lib target loc w =
     (let w = fortigatePostPrompt lib target loc (snd (fortigateUpstreamGET lib target loc w));
          redir = (case kb_Parse lib loc of None \<Rightarrow> [] | Some (_, q) \<Rightarrow> trim_space (values_get ''redir'' q))
      in if redir = [] then w else snd (fortigateUpstreamGET lib target redir w))"

definition fortigateCompleteSession :: "'w console_lib \<Rightarrow> web_url \<Rightarrow> string \<Rightarrow> string \<Rightarrow> 'w \<Rightarrow> bool \<times> 'w" where
  "fortigateCompleteSession lib target assetPrefix loginBody w =
     (case fortigatePostDisclaimer lib target w of
        (disclaimer, w) \<Rightarrow>
          let abs = (\<lambda>b. fortigateAbsPath (kb_PathQuery lib) (fortigateParseDocumentLocation b));
              loc = (if abs disclaimer \<noteq> [] then abs disclaimer else abs loginBody);
              w = (if str_contains (to_lower loc) ''prompt'' then answer_prompt lib target loc w
                   else if loc \<noteq> [] \<and> \<not> str_contains (to_lower loc) ''logindisclaimer''
                   then snd (fortigateUpstreamGET lib target loc w) else w)
          in fortigateValidateSession lib target (fortigatePrimeAuthenticatedSession lib target assetPrefix w))"

definition fortigateFinalizeAPILogin :: "'w console_lib \<Rightarrow> web_url \<Rightarrow> string \<Rightarrow> 'w \<Rightarrow> 'w" where
  "fortigateFinalizeAPILogin lib target assetPrefix w =
     (case fortigatePostDisclaimer lib target w of
        (disclaimer, w) \<Rightarrow>
          let loc = fortigateAbsPath (kb_PathQuery lib) (fortigateParseDocumentLocation disclaimer);
              loc = (if loc = [] then ''/prompt?viewOnly&redir=%2Fng%2F'' else loc);
              w = (if str_contains (to_lower loc) ''prompt'' \<or> str_contains loc ''viewOnly''
                   then answer_prompt lib target loc w
                   else if \<not> str_contains (to_lower loc) ''logindisclaimer''
                   then snd (fortigateUpstreamGET lib target loc w) else w);
              w = snd (fortigateUpstreamGET lib target ''/ng/'' w)
          in fortigatePrimeAuthenticatedSession lib target assetPrefix w)"

section \<open>Signing in\<close>

text \<open>One request of the exchange with the API: the status of the answer, and the status code in its body if that is an
  object.  An answer 404 counts whatever its body is.\<close>

definition api_login_post ::
  "'w console_lib \<Rightarrow> web_url \<Rightarrow> string \<Rightarrow> string \<Rightarrow> string \<Rightarrow> console_state \<times> 'w \<Rightarrow>
   (nat \<times> int option) option \<times> console_state \<times> 'w" where
  "api_login_post lib target username password tokenCode stw =
     (case stw of
        (st, w) \<Rightarrow>
          let payload = JObj ([(''username'', JStr username), (''secretkey'', JStr password),
                 (''ack_pre_disclaimer'', JBool True), (''ack_post_disclaimer'', JBool True)] @
                 (if tokenCode \<noteq> [] then [(''token_code'', JStr tokenCode)] else []));
              h = no_headers(''Content-Type'' := ''application/json'', ''Accept'' := ''application/json'');
              rq = cookie_request lib target ''POST'' ''/api/v2/authentication'' [] h (kb_Marshal lib payload) w
          in case kb_Do lib rq w of
               (Inl _, w) \<Rightarrow> (None, st, w)
             | (Inr a, w) \<Rightarrow>
                 let code = (case unmarshal_struct (kb_Json lib)
                       (\<lambda>j. (fst (int_field ''status_code'' j),
                             snd (int_field ''status_code'' j) \<and> snd (str_field ''status_message'' j))) (ua_Body a) of
                     (n, ok) \<Rightarrow> if ok then Some n else None)
                 in (Some (nat (ua_Status a), code), st, fortigateStoreResponseCookies lib (cq_URL rq) a w))"

definition api_login_finish ::
  "'w console_lib \<Rightarrow> web_url \<Rightarrow> string \<Rightarrow> console_state \<times> 'w \<Rightarrow> bool \<times> console_state \<times> 'w" where
  "api_login_finish lib target username stw =
     (case stw of
        (st, w) \<Rightarrow>
          let w = fortigateFinalizeAPILogin lib target [] w in
          if \<not> fortigateHasSessionCookies (kb_Jar lib w) target then (False, st, w)
          else
            let w = snd (fortigateValidateSession lib target w)
            in (True, fortigateTryCacheRealFwebBuild lib target (fortigateCacheAuthSession lib target username (st, w))))"

text \<open>The form: every path, with each name of the field for the password, first as a script sends it and then as a page
  does.\<close>

definition form_attempts :: "string \<Rightarrow> (string \<times> string \<times> bool) list" where
  "form_attempts assetPrefix =
     concat (map (\<lambda>p. [(p, ''secretkey'', True), (p, ''passwd'', True), (p, ''secretkey'', False), (p, ''passwd'', False)])
       (fortigateLogincheckPaths assetPrefix))"

definition form_request ::
  "web_url \<Rightarrow> url_values \<Rightarrow> string \<Rightarrow> string \<Rightarrow> string \<times> string \<times> bool \<Rightarrow> console_request" where
  "form_request target extras username password attempt =
     (case attempt of
        (path, field, ajax) \<Rightarrow>
          let form = values_set field password (values_set ''username'' username extras);
              form = (if ajax then values_set ''ajax'' ''1'' form else form);
              h = no_headers(''Content-Type'' := form_type, ''Referer'' := buildUpstreamURL target ''/login/'' [])
          in plain_request target ''POST'' path [] h (values_encode form))"

definition login_accepted :: "'w console_lib \<Rightarrow> up_answer \<Rightarrow> bool" where
  "login_accepted lib a =
     fortigateLoginOK (nat (ua_Status a)) (ua_get ''Location'' a)
       (case kb_Json lib (trim_space (ua_Body a)) of Some (JObj ms) \<Rightarrow> Some (JObj ms) | _ \<Rightarrow> None) (ua_Body a)"

fun try_forms ::
  "'w console_lib \<Rightarrow> web_url \<Rightarrow> url_values \<Rightarrow> string \<Rightarrow> string \<Rightarrow> string \<Rightarrow> (string \<times> string \<times> bool) list \<Rightarrow> 'w \<Rightarrow>
   bool \<times> 'w" where
  "try_forms lib target extras username password assetPrefix [] w = (False, w)"
| "try_forms lib target extras username password assetPrefix (attempt # later) w =
     (case kb_Do lib (form_request target extras username password attempt) w of
        (Inl _, w) \<Rightarrow> try_forms lib target extras username password assetPrefix later w
      | (Inr a, w) \<Rightarrow>
          if \<not> login_accepted lib a then try_forms lib target extras username password assetPrefix later w
          else
            (case fortigateCompleteSession lib target assetPrefix (ua_Body a) w of
               (True, w) \<Rightarrow> (True, w)
             | (False, w) \<Rightarrow> try_forms lib target extras username password assetPrefix later w))"

definition fortigateFormLogin ::
  "'w console_lib \<Rightarrow> web_url \<Rightarrow> string \<Rightarrow> string \<Rightarrow> string \<Rightarrow> string \<Rightarrow> console_state \<times> 'w \<Rightarrow> bool \<times> console_state \<times> 'w" where
  "fortigateFormLogin lib target username password tokenCode assetPrefix stw =
     (if username = [] \<or> password = [] then (False, stw)
      else
        case fortigateLoginViaAPI (api_login_post lib target username password tokenCode)
            (api_login_finish lib target username) tokenCode stw of
          (True, stw) \<Rightarrow> (True, stw)
        | (False, st, w) \<Rightarrow>
            (case fortigateFetchLoginForm lib target assetPrefix w of
               (extras, w) \<Rightarrow>
                 (case try_forms lib target extras username (password @ tokenCode) assetPrefix
                     (form_attempts assetPrefix) w of
                    (ok, w) \<Rightarrow> (ok, st, w))))"

definition ensureFortiGateAuthenticated ::
  "'w console_lib \<Rightarrow> web_url \<Rightarrow> web_creds \<Rightarrow> string \<Rightarrow> console_state \<times> 'w \<Rightarrow> bool \<times> console_state \<times> 'w" where
  "ensureFortiGateAuthenticated lib target creds assetPrefix stw =
     (case stw of
        (st, w) \<Rightarrow>
          if cs_fortiLoginDone st \<and> fortigateHasSessionCookies (kb_Jar lib w) target then (True, st, w)
          else
            let st = st\<lparr>cs_fortiLoginDone := False\<rparr> in
            case fortiLoginCredentials creds of
              None \<Rightarrow> (False, st, w)
            | Some (user, pass) \<Rightarrow>
                (case fortigateFormLogin lib target user pass [] assetPrefix (st, w) of
                   (ok, st, w) \<Rightarrow>
                     if \<not> ok \<or> \<not> fortigateHasSessionCookies (kb_Jar lib w) target then (False, st, w)
                     else (True, fortigateCacheBuildStub lib target (st\<lparr>cs_fortiLoginDone := True\<rparr>, w))))"

end
