(* ===== verification/WebProxy.thy ===== *)
theory WebProxy
  imports WebFortiGate
begin

text \<open>
  The handler of the web access proxy (\<^verbatim>\<open>webConsoleProxy\<close> in \<^verbatim>\<open>cmd/api-gateway/main.go\<close>): one request of a browser below
  \<^verbatim>\<open>/web/{session}/\<close>, from the credentials of the session to the answer, with what it changes in the client of the session.
\<close>

section \<open>Answers\<close>

text \<open>The headers of an answer in the order in which they were set.  A web socket ends with the bytes that the machine gets;
  from then on both sides are relayed.  \<open>Aborted\<close> is a handler that panics: the server drops the connection.\<close>

record console_answer =
  cn_Status :: int
  cn_Header :: "(string \<times> string) list"
  cn_Body :: string

datatype console_out = Reply console_answer | WebSocket string string | Aborted

definition decompressUpstreamBody :: "'w console_lib \<Rightarrow> string \<Rightarrow> string \<Rightarrow> err + string" where
  "decompressUpstreamBody lib body contentEncoding =
     (let enc = to_lower (trim_space contentEncoding) in
      if enc \<noteq> [] \<and> enc \<noteq> ''identity'' \<and> str_contains enc ''gzip'' then kb_Gunzip lib body else Inr body)"

definition set_hdr :: "string \<Rightarrow> string \<Rightarrow> (string \<times> string) list \<Rightarrow> (string \<times> string) list" where
  "set_hdr n v hs = filter (\<lambda>(k, _). k \<noteq> n) hs @ [(n, v)]"

definition del_hdr :: "string \<Rightarrow> (string \<times> string) list \<Rightarrow> (string \<times> string) list" where
  "del_hdr n hs = filter (\<lambda>(k, _). k \<noteq> n) hs"

definition stripResponseEncoding :: "(string \<times> string) list \<Rightarrow> (string \<times> string) list" where
  "stripResponseEncoding hs = del_hdr ''Transfer-Encoding'' (del_hdr ''Content-Encoding'' hs)"

definition http_error_header :: "(string \<times> string) list \<Rightarrow> (string \<times> string) list" where
  "http_error_header hs =
     set_hdr ''X-Content-Type-Options'' ''nosniff'' (set_hdr ''Content-Type'' ''text/plain; charset=utf-8'' hs)"

definition http_error :: "string \<Rightarrow> int \<Rightarrow> console_out" where
  "http_error msg code = Reply \<lparr>cn_Status = code, cn_Header = http_error_header [], cn_Body = msg @ [CHR 0x0A]\<rparr>"

definition proxy_error :: "(string \<times> string) list \<Rightarrow> string \<Rightarrow> string \<Rightarrow> int \<Rightarrow> console_out" where
  "proxy_error hs rest msg code =
     (case writeWebProxyError rest msg code of
        (n, ct, body) \<Rightarrow>
          Reply \<lparr>cn_Status = n,
            cn_Header = (if isWebManifestPath rest \<or> mimeForWebPath rest \<noteq> [] then set_hdr ''Content-Type'' ct hs
                         else http_error_header hs),
            cn_Body = body\<rparr>)"

text \<open>\<^verbatim>\<open>http.Redirect\<close> of a request \<^verbatim>\<open>GET\<close>, to a path that has no dots or doubled slashes.\<close>

definition html_escape :: "string \<Rightarrow> string" where
  "html_escape s =
     concat (map (\<lambda>c. if c = CHR ''&'' then ''&amp;'' else if c = CHR ''<'' then ''&lt;''
       else if c = CHR ''>'' then ''&gt;'' else if c = CHR 0x22 then ''&#34;'' else if c = CHR 0x27 then ''&#39;''
       else [c]) s)"

definition redirect :: "(string \<times> string) list \<Rightarrow> string \<Rightarrow> console_out" where
  "redirect hs loc =
     Reply \<lparr>cn_Status = 302, cn_Header = hs @ [(''Location'', loc), (''Content-Type'', ''text/html; charset=utf-8'')],
       cn_Body = ''<a href='' @ [CHR 0x22] @ html_escape loc @ [CHR 0x22] @ ''>Found</a>.'' @ [CHR 0x0A, CHR 0x0A]\<rparr>"

definition no_store :: "string \<times> string" where
  "no_store = (''Cache-Control'', ''no-store'')"

definition json_answer :: "(string \<times> string) list \<Rightarrow> int \<Rightarrow> string \<Rightarrow> console_out" where
  "json_answer hs code body =
     Reply \<lparr>cn_Status = code, cn_Header = hs @ [(''Content-Type'', ''application/json; charset=utf-8''), no_store],
       cn_Body = body\<rparr>"

text \<open>\<^verbatim>\<open>syncUpstreamCookiesToBrowser\<close>: the headers that it adds.\<close>

definition syncUpstreamCookiesToBrowser :: "'w console_lib \<Rightarrow> web_url \<Rightarrow> string \<Rightarrow> 'w \<Rightarrow> (string \<times> string) list" where
  "syncUpstreamCookiesToBrowser lib target sid w =
     map (\<lambda>c. (''Set-Cookie'', browserSetCookie c sid)) (collectJarCookies (kb_Jar lib w) target ''/'')"

definition fortigateWriteBuildStub ::
  "'w console_lib \<Rightarrow> (string \<times> string) list \<Rightarrow> console_state \<Rightarrow> string \<Rightarrow> web_url \<Rightarrow> 'w \<Rightarrow> console_out" where
  "fortigateWriteBuildStub lib hs st sid target w =
     json_answer (hs @ syncUpstreamCookiesToBrowser lib target sid w) 200 (fortigateBuildStubBody lib st)"

section \<open>The request of the browser\<close>

record console_call =
  cl_Method :: string
  cl_Path :: string
  cl_Query :: url_values
  cl_Header :: headers
  cl_Cookie :: "string \<Rightarrow> string option"
  cl_Body :: string

text \<open>\<^verbatim>\<open>/web/{session}/{rest}\<close>.\<close>

definition session_and_rest :: "string \<Rightarrow> string \<times> string" where
  "session_and_rest path =
     (let path = trim_prefix path ''/web/'' in
      case index_byte path (CHR ''/'') of None \<Rightarrow> (path, ''/'') | Some i \<Rightarrow> (take i path, drop i path))"

definition portal_token :: "console_call \<Rightarrow> string" where
  "portal_token r =
     (let t = trim_space (values_get ''token'' (cl_Query r)) in
      if t \<noteq> [] then t else case cl_Cookie r ''pam_web_tok'' of None \<Rightarrow> [] | Some c \<Rightarrow> trim_space c)"

section \<open>Answers from the jar\<close>

text \<open>\<^verbatim>\<open>WriteHeader\<close> panics on a status without three digits.\<close>

definition fortigateWriteJarAPIResponse ::
  "'w console_lib \<Rightarrow> (string \<times> string) list \<Rightarrow> string \<Rightarrow> headers \<Rightarrow> string \<Rightarrow> web_url \<Rightarrow> string \<Rightarrow> string \<Rightarrow> url_values \<Rightarrow>
   console_state \<Rightarrow> 'w \<Rightarrow> console_out \<times> 'w" where
  "fortigateWriteJarAPIResponse lib hs meth h body target sid rest upQ st w =
     (let sends = (meth \<in> {''POST'', ''PUT'', ''PATCH''});
          ct = (if h ''Content-Type'' = [] then ''application/json'' else h ''Content-Type'') in
      case (if sends then fortigateCallAPIViaJar lib target meth rest upQ body ct w
            else fortigateFetchAPIViaJar lib target rest upQ w) of
        ((b, code), w) \<Rightarrow>
          let cached = isFortiAuthSessionPath rest \<and> (code \<noteq> 200 \<or> b = []) \<and> cs_fortiAuthBody st \<noteq> [];
              b = (if cached then cs_fortiAuthBody st else b); code = (if cached then 200 else code)
          in (if code < 100 \<or> 999 < code then Aborted
              else json_answer (hs @ syncUpstreamCookiesToBrowser lib target sid w) code b, w))"

definition fortigateFetchDocumentViaJar ::
  "'w console_lib \<Rightarrow> web_url \<Rightarrow> string \<Rightarrow> url_values \<Rightarrow> 'w \<Rightarrow> (string \<times> int \<times> string) \<times> 'w" where
  "fortigateFetchDocumentViaJar lib target rest query w =
     (case kb_Do lib (jar_request lib target ''GET'' rest query no_headers [] w) w of
        (Inl _, w) \<Rightarrow> (([], 0, []), w)
      | (Inr a, w) \<Rightarrow>
          ((case decompressUpstreamBody lib (ua_Body a) (ua_get ''Content-Encoding'' a) of Inl _ \<Rightarrow> ua_Body a | Inr b \<Rightarrow> b,
            ua_Status a, ua_get ''Content-Type'' a), w))"

text \<open>The base address of a page is the root of the session.  In the tag the last place before its end counts where \<^verbatim>\<open>href\<close>
  can be read.\<close>

definition base_href_here :: "string \<Rightarrow> nat option" where
  "base_href_here s =
     (let tag = takeWhile (\<lambda>c. c \<noteq> CHR ''>'') s;
          blanks = length (takeWhile re_space (drop 5 s));
          places = filter (\<lambda>i. attr_here ''href'' {CHR 0x22} True (drop i s) \<noteq> None) [5 + blanks..<length tag]
      in if has_prefix (to_lower s) ''<base'' \<and> 0 < blanks \<and> places \<noteq> []
         then Some (length s - (case attr_here ''href'' {CHR 0x22} True (drop (last places) s) of
                      None \<Rightarrow> length s | Some (_, after) \<Rightarrow> length after))
         else None)"

fun base_href :: "string \<Rightarrow> (nat \<times> nat) option" where
  "base_href [] = None"
| "base_href (c # s) =
     (case base_href_here (c # s) of
        Some n \<Rightarrow> Some (0, n)
      | None \<Rightarrow> map_option (\<lambda>(a, b). (Suc a, Suc b)) (base_href s))"

definition fortigateForceSPABaseHref :: "string \<Rightarrow> string \<Rightarrow> string" where
  "fortigateForceSPABaseHref body sid =
     (let tag = ''<base href='' @ [CHR 0x22] @ ''/web/'' @ sid @ ''/'' @ [CHR 0x22] in
      case base_href body of
        Some (a, b) \<Rightarrow> take a body @ tag @ drop b body
      | None \<Rightarrow>
          (case index_str (to_lower body) ''<head>'' of
             Some i \<Rightarrow> insert_at (i + 6) (tag @ ''>'') body
           | None \<Rightarrow> body))"

text \<open>The scripts of the proxy: \<open>script\<close> and \<open>tailScript\<close> are the texts that the code puts in.\<close>

record 'w console_env =
  ce_Lib :: "'w console_lib"
  ce_New :: 'w
  ce_Vault :: "string \<Rightarrow> string \<Rightarrow> string \<Rightarrow> err + http_reply"
  ce_Auth :: "string \<Rightarrow> string \<Rightarrow> string \<Rightarrow> err + http_reply"
  ce_Dial :: "string \<Rightarrow> bool \<Rightarrow> bool"
  ce_Script :: "string \<Rightarrow> string \<Rightarrow> web_url option \<Rightarrow> string"
  ce_Tail :: string
  ce_Valid :: "string \<Rightarrow> bool"

definition login_assist :: "'w console_env \<Rightarrow> web_creds \<Rightarrow> string \<Rightarrow> string \<Rightarrow> string" where
  "login_assist env creds sid body =
     (let url = kb_URL (ce_Lib env) in
      injectFortinetLoginAssist (isFortinetTarget url creds)
        (ce_Script env sid (wc_PortalUsername creds) (url (wc_TargetURL creds))) (ce_Tail env) body)"

definition fortigateWriteJarDocument ::
  "'w console_env \<Rightarrow> (string \<times> string) list \<Rightarrow> web_url \<Rightarrow> string \<Rightarrow> string \<Rightarrow> url_values \<Rightarrow> web_creds \<Rightarrow> string \<Rightarrow> 'w \<Rightarrow>
   console_out option \<times> 'w" where
  "fortigateWriteJarDocument env hs target sid rest upQ creds tok w =
     (case fortigateFetchDocumentViaJar (ce_Lib env) target rest upQ w of
        ((body, code, ct), w) \<Rightarrow>
          if code \<noteq> 200 \<or> body = [] \<or> fortigateResponseIsLoginHTML body then (None, w)
          else
            let body = login_assist env creds sid (fortigateForceSPABaseHref (rewriteHTML body target sid tok) sid);
                mime = mimeForWebPath rest;
                ct = (if mime \<noteq> [] then mime else if ct \<noteq> [] then ct else ''text/html; charset=utf-8'')
            in (Some (Reply \<lparr>cn_Status = 200,
                  cn_Header = hs @ syncUpstreamCookiesToBrowser (ce_Lib env) target sid w @
                    [(''Content-Type'', ct), no_store, (''Content-Length'', string_of_nat (length body))],
                  cn_Body = body\<rparr>), w))"

section \<open>The login of the portal\<close>

definition forti_input :: "'w console_lib \<Rightarrow> console_call \<Rightarrow> string \<times> string \<times> string" where
  "forti_input lib r =
     fst (unmarshal_struct (kb_Decode lib)
       (\<lambda>j. ((fst (str_field ''mfa'' j), fst (str_field ''password'' j), fst (str_field ''username'' j)), True)) (cl_Body r))"

definition json_reply :: "'w console_lib \<Rightarrow> (string \<times> string) list \<Rightarrow> int \<Rightarrow> json \<Rightarrow> console_out" where
  "json_reply lib hs code j =
     Reply \<lparr>cn_Status = code, cn_Header = hs @ [(''Content-Type'', ''application/json'')], cn_Body = kb_Marshal lib j @ [CHR 0x0A]\<rparr>"

definition not_established :: string where
  "not_established =
     ''FortiGate session not established '' @ em_dash @ '' logincheck or post-login disclaimer failed. '' @
     ''Check: docker compose logs gateway --tail 30''"

definition handleFortiPortalLogin ::
  "'w console_lib \<Rightarrow> console_call \<Rightarrow> string \<Rightarrow> web_creds \<Rightarrow> web_url \<Rightarrow> console_state \<times> 'w \<Rightarrow>
   console_out \<times> console_state \<times> 'w" where
  "handleFortiPortalLogin lib r sid creds target stw =
     (case stw of
        (st, w) \<Rightarrow>
          (case forti_portal_input (isFortinetTarget (kb_URL lib) creds) creds (forti_input lib r) of
             Inl (code, msg) \<Rightarrow> (json_reply lib [] (int code) (JObj [(''error'', JStr msg)]), st, w)
           | Inr (user, pass, mfa) \<Rightarrow>
               let ap = (if cs_assetPrefix st \<noteq> [] then cs_assetPrefix st
                         else loginAssetPrefixFromTarget (kb_URL lib) (wc_TargetURL creds)) in
               (case fortigateFormLogin lib target user pass mfa ap (st, w) of
                  (ok, st, w) \<Rightarrow>
                    if \<not> ok \<or> \<not> fortigateHasSessionCookies (kb_Jar lib w) target
                    then (json_reply lib [] 401 (JObj [(''error'', JStr not_established)]), st, w)
                    else
                      (case fortigateTryCacheRealFwebBuild lib target
                          (fortigateCacheBuildStub lib target (st\<lparr>cs_fortiLoginDone := True\<rparr>, w)) of
                         (st, w) \<Rightarrow>
                           (json_reply lib (syncUpstreamCookiesToBrowser lib target sid w) 200
                              (JObj [(''ok'', JBool True), (''redirect'', JStr (fortigatePostLoginPath sid (portal_token r)))]),
                            st, w)))))"

section \<open>Web sockets\<close>

definition proxyWebSocketUpstream ::
  "'w console_env \<Rightarrow> console_call \<Rightarrow> web_url \<Rightarrow> string \<Rightarrow> url_values \<Rightarrow> 'w \<Rightarrow> console_out" where
  "proxyWebSocketUpstream env r target rest upQ w =
     (case kb_RequestURI (ce_Lib env) (buildUpstreamURL target rest upQ) of
        None \<Rightarrow> http_error ''bad upstream url'' 502
      | Some uri \<Rightarrow>
          if \<not> ce_Dial env (websocket_dial target) (wu_Scheme target = ''https'')
          then http_error ''ws upstream dial failed'' 502
          else WebSocket (websocket_dial target)
            (websocket_request uri (cl_Header r) target rest (kb_Jar (ce_Lib env) w)))"

section \<open>Requests to the machine\<close>

text \<open>\<^verbatim>\<open>primeUpstreamSession\<close>: one of three pages, until the jar has a cookie.\<close>

definition jar_at :: "'w console_lib \<Rightarrow> 'w \<Rightarrow> string \<Rightarrow> cookie list" where
  "jar_at lib w url = (case kb_URL lib url of None \<Rightarrow> [] | Some u \<Rightarrow> kb_Jar lib w u)"

fun prime_pages :: "'w console_lib \<Rightarrow> web_url \<Rightarrow> string list \<Rightarrow> 'w \<Rightarrow> 'w" where
  "prime_pages lib target [] w = w"
| "prime_pages lib target (p # ps) w =
     (let url = buildUpstreamURL target p [] in
      case kb_Do lib \<lparr>cq_Method = ''GET'', cq_URL = url, cq_Host = wu_Host target,
          cq_Header = no_headers(''X-PAN-Authcheck'' := ''off''), cq_Body = []\<rparr> w of
        (Inl _, w) \<Rightarrow> prime_pages lib target ps w
      | (Inr _, w) \<Rightarrow>
          if jar_at lib w url \<noteq> [] \<or> jar_at lib w (buildUpstreamURL target ''/'' []) \<noteq> [] then w
          else prime_pages lib target ps w)"

definition primeUpstreamSession :: "'w console_lib \<Rightarrow> web_url \<Rightarrow> 'w \<Rightarrow> 'w" where
  "primeUpstreamSession lib target w =
     (if jar_at lib w (buildUpstreamURL target ''/'' []) \<noteq> [] then w
      else prime_pages lib target [''/login'', ''/php/login.php'', ''/''] w)"

text \<open>The request of the browser on its way to the machine.  Its body can be read once: what is sent a second time fails
  where there is a body.\<close>

definition forward_request ::
  "'w console_lib \<Rightarrow> console_call \<Rightarrow> web_url \<Rightarrow> string \<Rightarrow> string \<Rightarrow> web_creds \<Rightarrow> bool \<Rightarrow> 'w \<Rightarrow> console_request" where
  "forward_request lib r target rest sid creds preferJar w =
     buildWebUpstreamRequest (kb_Parse lib) (cl_Method r) (cl_Header r) target rest (values_del ''token'' (cl_Query r)) sid
       creds (kb_Jar lib w) preferJar (cl_Body r)"

definition forward ::
  "'w console_lib \<Rightarrow> console_call \<Rightarrow> web_url \<Rightarrow> string \<Rightarrow> string \<Rightarrow> web_creds \<Rightarrow> bool \<Rightarrow> 'w \<Rightarrow> (err + up_answer) \<times> 'w" where
  "forward lib r target rest sid creds preferJar w =
     (let w = import_cookies lib (cl_Header r ''Cookie'') target w
      in kb_Do lib (forward_request lib r target rest sid creds preferJar w) w)"

definition read_twice :: "console_call \<Rightarrow> string \<Rightarrow> err" where
  "read_twice r url =
     ErrMsg (take 1 (cl_Method r) @ to_lower (drop 1 (cl_Method r)) @ '' '' @ [CHR 0x22] @ url @ [CHR 0x22] @
       '': http: invalid Read on closed Body'')"

definition forward_again ::
  "'w console_lib \<Rightarrow> console_call \<Rightarrow> web_url \<Rightarrow> string \<Rightarrow> string \<Rightarrow> web_creds \<Rightarrow> bool \<Rightarrow> 'w \<Rightarrow> (err + up_answer) \<times> 'w" where
  "forward_again lib r target rest sid creds preferJar w =
     (if cl_Body r = [] then forward lib r target rest sid creds preferJar w
      else
        let w = import_cookies lib (cl_Header r ''Cookie'') target w
        in (Inl (read_twice r (cq_URL (forward_request lib r target rest sid creds preferJar w))), w))"

definition fortinet :: "'w console_lib \<Rightarrow> web_creds \<Rightarrow> console_state \<Rightarrow> bool" where
  "fortinet lib creds st = isFortinetSession (kb_URL lib) creds st"

text \<open>The login before a page of a FortiGate, with the headers for the browser.\<close>

definition login_and_sync ::
  "'w console_lib \<Rightarrow> string \<Rightarrow> web_creds \<Rightarrow> web_url \<Rightarrow> console_state \<times> 'w \<Rightarrow>
   bool \<times> (string \<times> string) list \<times> console_state \<times> 'w" where
  "login_and_sync lib sid creds target stw =
     (case ensureFortiGateAuthenticated lib target creds (cs_assetPrefix (fst stw)) stw of
        (ok, st, w) \<Rightarrow> (ok, if ok then syncUpstreamCookiesToBrowser lib target sid w else [], st, w))"

definition login_before ::
  "'w console_lib \<Rightarrow> string \<Rightarrow> string \<Rightarrow> web_creds \<Rightarrow> web_url \<Rightarrow> console_state \<times> 'w \<Rightarrow>
   (string \<times> string) list \<times> console_state \<times> 'w" where
  "login_before lib sid rest creds target stw =
     (case stw of
        (st, w) \<Rightarrow>
          let valid = cs_fortiLoginDone st \<and> fortigateHasSessionCookies (kb_Jar lib w) target in
          if fortinet lib creds st \<and> (\<not> isFortinetPreAuthRequest rest \<or> isFortinetSPAEntryPath rest) \<and> \<not> valid
          then snd (login_and_sync lib sid creds target (st\<lparr>cs_fortiLoginDone := False\<rparr>, w))
          else ([], st, w))"

text \<open>The second try after a 401 of the API.  When there was a login to make, the answer has been read: without a session its
  body is lost.\<close>

definition retry_unauthorized ::
  "'w console_lib \<Rightarrow> console_call \<Rightarrow> string \<Rightarrow> string \<Rightarrow> string \<Rightarrow> web_creds \<Rightarrow> web_url \<Rightarrow> up_answer \<Rightarrow> console_state \<times> 'w \<Rightarrow>
   (err + up_answer) \<times> (string \<times> string) list \<times> console_state \<times> 'w" where
  "retry_unauthorized lib r sid rest eff creds target a stw =
     (case stw of
        (st, w) \<Rightarrow>
          if ua_Status a = 401 \<and> has_prefix (to_lower rest) ''/api/'' \<and> fortinet lib creds st then
            (let w = import_cookies lib (cl_Header r ''Cookie'') target w in
             if cs_fortiLoginDone st \<and> fortigateHasSessionCookies (kb_Jar lib w) target then (Inr a, [], st, w)
             else
               (case login_and_sync lib sid creds target (st\<lparr>cs_fortiLoginDone := False\<rparr>, w) of
                  (False, hs, st, w) \<Rightarrow> (Inr (a\<lparr>ua_Body := []\<rparr>), hs, st, w)
                | (True, hs, st, w) \<Rightarrow>
                    (case forward_again lib r target eff sid creds True w of (res, w) \<Rightarrow> (res, hs, st, w))))
          else (Inr a, [], st, w))"

text \<open>Where else a static file may be; the first answer has been read when nothing is found.\<close>

definition other_places ::
  "'w console_lib \<Rightarrow> console_call \<Rightarrow> string \<Rightarrow> string \<Rightarrow> string \<Rightarrow> web_creds \<Rightarrow> web_url \<Rightarrow> up_answer \<Rightarrow> console_state \<times> 'w \<Rightarrow>
   up_answer \<times> console_state \<times> 'w" where
  "other_places lib r sid rest tried creds target a stw =
     (case stw of
        (st, w) \<Rightarrow>
          let fetch = (\<lambda>p w. case forward_again lib r target p sid creds (cs_fortiLoginDone st) w of
                (Inl _, w) \<Rightarrow> (None, w) | (Inr b, w) \<Rightarrow> (Some b, w))
          in case retryAssetWithFallback fetch rest tried st w of
               (Some b, st, w) \<Rightarrow> (b, st, w)
             | (None, st, w) \<Rightarrow> (a\<lparr>ua_Body := []\<rparr>, st, w))"

definition find_asset ::
  "'w console_lib \<Rightarrow> console_call \<Rightarrow> string \<Rightarrow> string \<Rightarrow> string \<Rightarrow> web_creds \<Rightarrow> web_url \<Rightarrow> up_answer \<Rightarrow> console_state \<times> 'w \<Rightarrow>
   up_answer \<times> console_state \<times> 'w" where
  "find_asset lib r sid rest tried creds target a stw =
     (let asset = (isPublicWebAsset rest \<and> cl_Method r = ''GET'') in
      case (if ua_Status a = 404 \<and> asset then other_places lib r sid rest tried creds target a stw else (a, stw)) of
        (a, stw) \<Rightarrow>
          if ua_Status a < 400 \<and> asset \<and> assetExpectsScriptStyle rest \<and> responseIsHTML (ua_get ''Content-Type'' a)
          then other_places lib r sid rest tried creds target a stw else (a, stw))"

section \<open>The answer of the machine\<close>

text \<open>Its headers: redirects lead back to the proxy, cookies count for the session, and what forbids a frame is dropped.\<close>

definition response_header ::
  "'w console_lib \<Rightarrow> bool \<Rightarrow> web_url \<Rightarrow> string \<Rightarrow> string \<Rightarrow> string \<times> string list \<Rightarrow> (string \<times> string) list" where
  "response_header lib toNG target sid tok h =
     (case h of
        (k, vs) \<Rightarrow>
          if to_lower k = ''location'' then
            map (\<lambda>v. let v = rewriteLocation (kb_RequestURI lib) v target sid tok
                 in (k, if toNG \<and> fortinetLocationShouldNG v sid then fortigatePostLoginPath sid tok else v)) vs
          else if to_lower k = ''set-cookie'' then map (\<lambda>v. (k, rewriteProxySetCookie v sid)) vs
          else if to_lower k \<in> {''content-type'', ''x-frame-options'', ''content-security-policy''} then []
          else map (\<lambda>v. (k, v)) vs)"

text \<open>The build manifest of the machine: the stub when it cannot be used, the decompressed body when it can.\<close>

definition manifest_answer :: "'w console_lib \<Rightarrow> up_answer \<Rightarrow> up_answer option" where
  "manifest_answer lib a =
     (if ua_Status a = 401 then None
      else if ua_Status a = 200 then
        (let body = (case decompressUpstreamBody lib (ua_Body a) (ua_get ''Content-Encoding'' a) of
               Inl _ \<Rightarrow> ua_Body a | Inr b \<Rightarrow> b)
         in if fortigateStubHasGUIConfig lib body then Some (a\<lparr>ua_Body := body\<rparr>) else None)
      else Some a)"

definition with_length :: "string \<Rightarrow> (string \<times> string) list \<Rightarrow> (string \<times> string) list" where
  "with_length body hs = set_hdr ''Content-Length'' (string_of_nat (length body)) hs"

text \<open>The body of the answer; \<open>hs\<close> are the headers so far.\<close>

definition response_body ::
  "'w console_env \<Rightarrow> (string \<times> string) list \<Rightarrow> string \<Rightarrow> string \<Rightarrow> string \<Rightarrow> web_creds \<Rightarrow> web_url \<Rightarrow> up_answer \<Rightarrow>
   console_out" where
  "response_body env hs sid rest tok creds target a =
     (let ct = ua_get ''Content-Type'' a; mime = mimeForWebPath rest;
          typed = (if mime \<noteq> [] then set_hdr ''Content-Type'' mime hs
                   else if ct \<noteq> [] then set_hdr ''Content-Type'' ct hs else hs);
          plain = decompressUpstreamBody (ce_Lib env) (ua_Body a) (ua_get ''Content-Encoding'' a)
      in
      if isWebManifestPath rest then
        (let body = coerceWebManifestBody (ce_Valid env) (kb_RawValue (ce_Lib env))
               (case plain of Inl _ \<Rightarrow> ua_Body a | Inr b \<Rightarrow> b) (ua_Status a)
         in Reply \<lparr>cn_Status = 200,
              cn_Header = with_length body
                (stripResponseEncoding (set_hdr ''Content-Type'' ''application/manifest+json; charset=utf-8'' hs)),
              cn_Body = body\<rparr>)
      else if shouldRewriteWebBody ct \<or> shouldRewriteWebPath rest then
        (case plain of
           Inl _ \<Rightarrow> proxy_error hs rest ''proxy decode error'' 502
         | Inr body \<Rightarrow>
             if assetExpectsScriptStyle rest \<and> (responseIsHTML ct \<or> looksLikeHTMLBody body)
             then Reply \<lparr>cn_Status = 404,
                    cn_Header = set_hdr ''Cache-Control'' ''no-store''
                      (if mime \<noteq> [] then set_hdr ''Content-Type'' mime hs else hs),
                    cn_Body = []\<rparr>
             else
               let body = rewriteHTML body target sid tok;
                   body = (if isHTMLDocumentResponse rest ct \<or> isFortinetSPAEntryPath rest \<and> looksLikeHTMLBody body
                           then login_assist env creds sid body else body)
               in Reply \<lparr>cn_Status = ua_Status a, cn_Header = with_length body (stripResponseEncoding typed),
                    cn_Body = body\<rparr>)
      else Reply \<lparr>cn_Status = ua_Status a,
             cn_Header = (if mime \<noteq> [] \<and> (mime \<noteq> ct \<or> mimeNeedsFix ct) then set_hdr ''Content-Type'' mime hs
                          else if ct \<noteq> [] then set_hdr ''Content-Type'' ct hs else hs),
             cn_Body = ua_Body a\<rparr>)"

definition console_reply ::
  "'w console_env \<Rightarrow> (string \<times> string) list \<Rightarrow> console_call \<Rightarrow> string \<Rightarrow> string \<Rightarrow> web_creds \<Rightarrow> web_url \<Rightarrow> up_answer \<Rightarrow>
   console_state \<times> 'w \<Rightarrow> console_out \<times> console_state \<times> 'w" where
  "console_reply env hs r sid rest creds target a stw =
     (case stw of
        (st, w) \<Rightarrow>
          let lib = ce_Lib env; tok = portal_token r;
              seen = str_contains (to_lower (ua_get ''Server'' a)) ''forti'';
              st = (if seen then st\<lparr>cs_detectedFortinet := True\<rparr> else st);
              creds = (if seen then creds\<lparr>wc_TargetKind := ''fortinet-fortigate''\<rparr> else creds);
              forti = fortinet lib creds st; toNG = (cs_fortiLoginDone st \<and> forti)
          in case (if forti \<and> isFortiBuildManifestPath rest \<and> cl_Method r = ''GET'' then manifest_answer lib a else Some a) of
               None \<Rightarrow> (fortigateWriteBuildStub lib hs st sid target w, st, w)
             | Some a \<Rightarrow>
                 let hs = hs @ (if toNG then syncUpstreamCookiesToBrowser lib target sid w else []) @
                       concat (map (response_header lib toNG target sid tok) (ua_Header a))
                 in (response_body env hs sid rest tok creds target a, st, w))"

section \<open>The handler\<close>

text \<open>From the request that the machine gets to the answer.\<close>

definition console_fetch ::
  "'w console_env \<Rightarrow> (string \<times> string) list \<Rightarrow> console_call \<Rightarrow> string \<Rightarrow> string \<Rightarrow> string \<times> string \<Rightarrow> web_creds \<Rightarrow> web_url \<Rightarrow>
   bool \<Rightarrow> console_state \<times> 'w \<Rightarrow> console_out \<times> console_state \<times> 'w" where
  "console_fetch env hs r sid rest eff creds target authed stw =
     (case stw of
        (st, w) \<Rightarrow>
          (case forward (ce_Lib env) r target (fst eff) sid creds authed w of
             (Inl e, w) \<Rightarrow> (proxy_error hs rest (''proxy error: '' @ err_text e) 502, st, w)
           | (Inr a, w) \<Rightarrow>
               (case retry_unauthorized (ce_Lib env) r sid rest (fst eff) creds target a (st, w) of
                  (Inl e, extra, stw) \<Rightarrow> (proxy_error (hs @ extra) rest (''proxy retry error: '' @ err_text e) 502, stw)
                | (Inr a, extra, stw) \<Rightarrow>
                    (case find_asset (ce_Lib env) r sid rest (snd eff) creds target a stw of
                       (a, stw) \<Rightarrow> console_reply env (hs @ extra) r sid rest creds target a stw))))"

text \<open>A page that the jar can answer, or the request as it is.\<close>

definition console_forward ::
  "'w console_env \<Rightarrow> console_call \<Rightarrow> string \<Rightarrow> string \<Rightarrow> web_creds \<Rightarrow> web_url \<Rightarrow> console_state \<times> 'w \<Rightarrow>
   console_out \<times> console_state \<times> 'w" where
  "console_forward env r sid rest creds target stw =
     (let lib = ce_Lib env; q = values_del ''token'' (cl_Query r); tok = portal_token r in
      case login_before lib sid rest creds target stw of
        (hs, st, w) \<Rightarrow>
          let w = import_cookies lib (cl_Header r ''Cookie'') target w;
              (authed, st) = fortigateJarAuthed (kb_Jar lib w) target st;
              own = (authed \<and> fortinet lib creds st); get = (cl_Method r = ''GET'')
          in if own \<and> get \<and> shouldBounceFortinetAuthedToNG rest then
               (case fortigateWriteJarDocument env hs target sid ''/ng/'' q creds tok w of
                  (Some out, w) \<Rightarrow> (out, st, w)
                | (None, w) \<Rightarrow> (redirect hs (fortigatePostLoginPath sid tok), st, w))
             else
               let w = (if isPublicWebAsset rest then primeUpstreamSession lib target w else w) in
               if own \<and> isFortiJarAPIPath rest then
                 (case fortigateWriteJarAPIResponse lib hs (cl_Method r) (cl_Header r) (cl_Body r) target sid rest q st w of
                    (out, w) \<Rightarrow> (out, st, w))
               else
                 (case (if own \<and> get \<and> isFortinetSPAEntryPath rest
                        then fortigateWriteJarDocument env hs target sid rest q creds tok w else (None, w)) of
                    (Some out, w) \<Rightarrow> (out, st, w)
                  | (None, w) \<Rightarrow>
                      console_fetch env hs r sid rest (effective_rest st rest) creds target authed (st, w)))"

text \<open>What the proxy answers itself comes first.\<close>

definition learn_prefix :: "string \<Rightarrow> console_state \<Rightarrow> console_state" where
  "learn_prefix ap st = (if ap \<noteq> [] \<and> cs_assetPrefix st = [] then st\<lparr>cs_assetPrefix := ap\<rparr> else st)"

definition console_serve ::
  "'w console_env \<Rightarrow> console_call \<Rightarrow> string \<Rightarrow> string \<Rightarrow> web_creds \<Rightarrow> web_url \<Rightarrow> console_state \<times> 'w \<Rightarrow>
   console_out \<times> console_state \<times> 'w" where
  "console_serve env r sid rest creds target stw =
     (case stw of
        (st, w) \<Rightarrow>
          let lib = ce_Lib env; get = (cl_Method r = ''GET'');
              st = learn_prefix (loginAssetPrefixFromTarget (kb_URL lib) (wc_TargetURL creds)) st;
              forti = fortinet lib creds st
          in if isWebSocketUpgrade (cl_Header r)
             then (proxyWebSocketUpstream env r target rest (values_del ''token'' (cl_Query r)) w, st, w)
             else if cl_Method r = ''POST'' \<and> rest = ''/pam-forti-login''
             then handleFortiPortalLogin lib r sid creds target (st, w)
             else if get \<and> isWebManifestPath rest
             then (Reply \<lparr>cn_Status = 200,
                     cn_Header = [(''Content-Type'', ''application/manifest+json; charset=utf-8''), no_store],
                     cn_Body = minimalWebManifest\<rparr>, st, w)
             else if get \<and> isFortiBuildManifestPath rest \<and> forti
             then (fortigateWriteBuildStub lib [] st sid target w, st, w)
             else if get \<and> forti \<and> to_lower (webPathOnly rest) \<in> {''/logout'', ''/login/logout''}
             then (redirect [] (fortigatePostLoginPath sid []), st, w)
             else console_forward env r sid rest creds target (st, w))"

text \<open>The clients of all sessions; a session without one starts with an empty jar.\<close>

type_synonym 'w web_clients = "string \<Rightarrow> (console_state \<times> 'w) option"

definition new_state :: console_state where
  "new_state = console_state.make [] [] False [] [] False"

definition upstreamSessionState :: "'w \<Rightarrow> 'w web_clients \<Rightarrow> string \<Rightarrow> console_state \<times> 'w" where
  "upstreamSessionState new m sid = (case m sid of None \<Rightarrow> (new_state, new) | Some s \<Rightarrow> s)"

definition webConsoleProxy ::
  "'w console_env \<Rightarrow> console_call \<Rightarrow> 'w web_clients \<Rightarrow> console_out \<times> 'w web_clients" where
  "webConsoleProxy env r m =
     (case session_and_rest (cl_Path r) of
        (sid, rest) \<Rightarrow>
          let ask = (\<lambda>service. service sid (cl_Header r ''X-PAM-UID'') (cl_Header r ''X-PAM-Role'')) in
          if sid = [] then (http_error ''missing session ID'' 400, m)
          else case loadWebSessionCreds (kb_Decode (ce_Lib env)) (ask (ce_Vault env)) (ask (ce_Auth env)) of
            Inl e \<Rightarrow>
              (if str_contains (to_lower (err_text e)) ''invalid session credentials''
               then proxy_error [] rest ''invalid session credentials'' 500
               else proxy_error [] rest ''session not found or expired'' 404, m(sid := None))
          | Inr creds \<Rightarrow>
              if wc_TargetURL creds = [] then (http_error ''session has no target URL'' 400, m)
              else case kb_URL (ce_Lib env) (wc_TargetURL creds) of
                None \<Rightarrow> (http_error ''invalid target URL'' 400, m)
              | Some target \<Rightarrow>
                  let creds = creds\<lparr>wc_TargetKind := inferTargetKind (kb_URL (ce_Lib env)) creds\<rparr> in
                  (case console_serve env r sid rest creds target (upstreamSessionState (ce_New env) m sid) of
                     (out, stw) \<Rightarrow> (out, m(sid \<mapsto> stw))))"

end
