(* ===== verification/WebProxySpec.thy ===== *)
theory WebProxySpec
  imports WebSpec WebProxy
begin

text \<open>
  The theorems on the handler of the web access proxy: where what a machine sends counts in the browser, and what becomes of
  the clients of the sessions.
\<close>

section \<open>Cookies from the jar\<close>

definition cookie_confined :: "string \<Rightarrow> string \<Rightarrow> bool" where
  "cookie_confined sid v =
     (\<exists>c attrs. map trim_space (split_on (CHR '';'') v) = c # attrs \<and> session_path sid \<in> set attrs \<and>
        (\<forall>a \<in> set attrs. confined_attr sid a))"

definition plain_cookie :: "cookie \<Rightarrow> bool" where
  "plain_cookie c = (CHR '';'' \<notin> set (ck_Name c) \<and> CHR '';'' \<notin> set (ck_Value c) \<and> CHR '';'' \<notin> set (ck_Expires c))"

definition plain_jars :: "'w console_env \<Rightarrow> bool" where
  "plain_jars env = (\<forall>w url. \<forall>c \<in> set (kb_Jar (ce_Lib env) w url). plain_cookie c)"

lemma string_of_int_no_semicolon: "CHR '';'' \<notin> set (string_of_int n)"
  using string_of_nat_digits [of "nat n"] string_of_nat_digits [of "nat (- n)"]
  by (auto simp: string_of_int_def list_all_iff is_digit_def)

text \<open>An attribute whose name starts with another letter than those of \<^verbatim>\<open>Secure\<close>, \<^verbatim>\<open>Domain\<close> and \<^verbatim>\<open>Path\<close>.\<close>

lemma trim_right_Cons: "\<not> is_space c \<Longrightarrow> trim_space (c # s) = c # trim_right s"
proof -
  assume c: "\<not> is_space c"
  have "dropWhile is_space (rev s @ [c]) = dropWhile is_space (rev s) @ [c]"
    using c by (induction "rev s" arbitrary: s rule: list.induct) (auto simp: dropWhile_append dropWhile_eq_Nil_conv)
  with c show ?thesis by (simp add: trim_space_def trim_left_def trim_right_def)
qed

lemma confined_by_initial:
  "\<not> is_space c \<Longrightarrow> ascii_lower c \<notin> {CHR ''s'', CHR ''d'', CHR ''p''} \<Longrightarrow> confined_attr sid (trim_space (c # s))"
  by (simp add: trim_right_Cons confined_attr_def to_lower_def has_prefix_def)

lemma cookie_confinedI:
  assumes "v = hd ps @ concat (map (\<lambda>p. CHR '';'' # CHR '' '' # p) (tl ps))" "ps = c # attrs"
    "\<forall>p \<in> set ps. CHR '';'' \<notin> set p" "session_path sid \<in> trim_space ` set attrs"
    "\<forall>a \<in> set attrs. confined_attr sid (trim_space a)"
  shows "cookie_confined sid v"
proof -
  have "map trim_space (split_on (CHR '';'') (p @ concat (map (\<lambda>p. CHR '';'' # CHR '' '' # p) qs))) = map trim_space (p # qs)"
    if "\<forall>x \<in> set (p # qs). CHR '';'' \<notin> set x" for p qs
    using that
  proof (induction qs arbitrary: p)
    case Nil
    then show ?case by (simp add: split_on_single)
  next
    case (Cons q qs)
    have "map trim_space (split_on (CHR '';'') (CHR '' '' # q @ concat (map (\<lambda>p. CHR '';'' # CHR '' '' # p) qs))) =
        map trim_space (q # qs)"
      using Cons split_on_blank [of "CHR '' ''" "CHR '';''"] by (simp add: is_space_def)
    with Cons.prems show ?case by (simp add: split_on_append)
  qed
  from this [of c attrs] assms have "map trim_space (split_on (CHR '';'') v) = trim_space c # map trim_space attrs" by simp
  with assms show ?thesis unfolding cookie_confined_def by auto
qed

lemma jar_cookie_confined:
  assumes "plain_cookie c" "CHR '';'' \<notin> set sid"
  shows "cookie_confined sid (browserSetCookie c sid)"
proof -
  let ?age = "if ck_MaxAge c \<noteq> 0 then [''Max-Age='' @ string_of_int (ck_MaxAge c)]
      else if ck_Expires c \<noteq> [] then [''Expires='' @ ck_Expires c] else []"
  let ?site = "case ck_SameSite c of SameSiteStrict \<Rightarrow> ''SameSite=Strict'' | SameSiteNone \<Rightarrow> ''SameSite=None''
      | _ \<Rightarrow> ''SameSite=Lax''"
  let ?http = "if ck_HttpOnly c then [''HttpOnly''] else []"
  let ?attrs = "session_path sid # ?http @ ?age @ [?site]"
  have initials: "confined_attr sid (trim_space (''HttpOnly''))" "confined_attr sid (trim_space (''Max-Age='' @ x))"
    "confined_attr sid (trim_space (''Expires='' @ x))" for x
    unfolding append_Cons by (rule confined_by_initial; code_simp)+
  have site: "confined_attr sid (trim_space ?site)"
    by (cases "ck_SameSite c") (simp_all add: confined_attr_def, code_simp+)
  have path: "trim_space (session_path sid) = session_path sid"
    using session_path_plain [OF assms(2)] by (simp add: plain_part_def)
  show ?thesis
  proof (rule cookie_confinedI [where c = "ck_Name c @ ''='' @ ck_Value c" and attrs = "?attrs"])
    show "\<forall>a \<in> set ?attrs. confined_attr sid (trim_space a)"
      using initials site session_path_confined [of sid] path by (auto split: if_splits)
    show "session_path sid \<in> trim_space ` set ?attrs" using path by (simp add: image_iff)
    show "\<forall>p \<in> set ((ck_Name c @ ''='' @ ck_Value c) # ?attrs). CHR '';'' \<notin> set p"
      using assms session_path_plain [OF assms(2)] string_of_int_no_semicolon
      by (cases "ck_SameSite c") (auto simp: plain_cookie_def plain_part_def split: if_splits)
  qed (cases "ck_SameSite c"; simp add: browserSetCookie_def session_path_def)+
qed

section \<open>Headers of an answer\<close>

definition header_confined :: "string \<Rightarrow> string \<times> string \<Rightarrow> bool" where
  "header_confined sid h =
     (case h of
        (k, v) \<Rightarrow> to_lower k \<notin> {''x-frame-options'', ''content-security-policy''} \<and>
          (to_lower k = ''set-cookie'' \<longrightarrow> cookie_confined sid v))"

definition hs_ok :: "string \<Rightarrow> (string \<times> string) list \<Rightarrow> bool" where
  "hs_ok sid hs = (\<forall>h \<in> set hs. header_confined sid h)"

fun out_ok :: "string \<Rightarrow> console_out \<Rightarrow> bool" where
  "out_ok sid (Reply a) = hs_ok sid (cn_Header a)"
| "out_ok sid _ = True"

named_theorems confined \<open>what keeps the headers of an answer confined to the session\<close>

lemma hs_ok_parts [confined]:
  "hs_ok sid []" "hs_ok sid (h # hs) \<longleftrightarrow> header_confined sid h \<and> hs_ok sid hs"
  "hs_ok sid (hs @ hs') \<longleftrightarrow> hs_ok sid hs \<and> hs_ok sid hs'"
  by (auto simp: hs_ok_def)

lemma lower_names:
  "to_lower ''Content-Type'' = ''content-type''" "to_lower ''Cache-Control'' = ''cache-control''"
  "to_lower ''Content-Length'' = ''content-length''" "to_lower ''Location'' = ''location''"
  "to_lower ''X-Content-Type-Options'' = ''x-content-type-options''" "to_lower ''Set-Cookie'' = ''set-cookie''"
  by code_simp+

lemma own_headers [confined]:
  "header_confined sid (''Content-Type'', v)" "header_confined sid (''Cache-Control'', v)"
  "header_confined sid (''Content-Length'', v)" "header_confined sid (''Location'', v)"
  "header_confined sid (''X-Content-Type-Options'', v)" "header_confined sid no_store"
  by (simp_all add: header_confined_def no_store_def lower_names)

lemma hs_ok_set [confined]: "header_confined sid (n, v) \<Longrightarrow> hs_ok sid hs \<Longrightarrow> hs_ok sid (set_hdr n v hs)"
  by (auto simp: hs_ok_def set_hdr_def)

lemma hs_ok_strip [confined]: "hs_ok sid hs \<Longrightarrow> hs_ok sid (stripResponseEncoding hs)"
  by (auto simp: hs_ok_def stripResponseEncoding_def del_hdr_def)

lemma hs_ok_length [confined]: "hs_ok sid hs \<Longrightarrow> hs_ok sid (with_length body hs)"
  by (simp add: with_length_def confined)

lemma first_named_subset: "set (first_named seen cs) \<subseteq> set cs"
  by (induction seen cs rule: first_named.induct) auto

lemma hs_ok_sync [confined]:
  assumes "plain_jars env" "CHR '';'' \<notin> set sid"
  shows "hs_ok sid (syncUpstreamCookiesToBrowser (ce_Lib env) target sid w)"
proof -
  have "cookie_confined sid (browserSetCookie c sid)" if "c \<in> set (collectJarCookies (kb_Jar (ce_Lib env) w) target ''/'')" for c
  proof (rule jar_cookie_confined)
    from that first_named_subset show "plain_cookie c"
      using assms(1) unfolding collectJarCookies_def plain_jars_def by fastforce
  qed (rule assms)
  then show ?thesis
    by (auto simp: hs_ok_def syncUpstreamCookiesToBrowser_def header_confined_def lower_names)
qed

lemma device_cookie_confined:
  assumes "CHR '';'' \<notin> set sid"
  shows "cookie_confined sid (rewriteProxySetCookie cookie sid)"
proof -
  obtain p ps where split: "split_on (CHR '';'') cookie = p # ps" using split_on_not_Nil by (metis neq_Nil_conv)
  let ?attrs = "cookie_attrs (''/web/'' @ sid @ ''/'') False ps"
  have clean: "\<forall>p \<in> set ps. CHR '';'' \<notin> set p"
    using split_on_parts [of _ "CHR '';''" cookie] split by auto
  have "plain_part (trim_space p)" using plain_part_trim [of p cookie] split by simp
  then have "map trim_space (split_on (CHR '';'') (rewriteProxySetCookie cookie sid)) = trim_space p # ?attrs"
    using cookie_attrs_confined [OF clean assms]
    by (simp add: rewriteProxySetCookie_def split split_joined_parts)
  moreover have "session_path sid \<in> set ?attrs"
    using cookie_attrs_path [of False "''/web/'' @ sid @ ''/''" ps] by (simp add: session_path_def)
  ultimately show ?thesis using cookie_attrs_confined [OF clean assms] by (auto simp: cookie_confined_def)
qed

lemma hs_ok_response [confined]:
  assumes "CHR '';'' \<notin> set sid"
  shows "hs_ok sid (concat (map (response_header lib toNG target sid tok) hs))"
proof -
  have "header_confined sid h" if "h \<in> set (response_header lib toNG target sid tok (k, vs))" for h k vs
    using that device_cookie_confined [OF assms]
    by (auto simp: response_header_def header_confined_def Let_def split: if_splits)
  then show ?thesis by (fastforce simp: hs_ok_def)
qed

lemma out_ok_own [confined]:
  "out_ok sid (http_error msg n)" "hs_ok sid hs \<Longrightarrow> out_ok sid (redirect hs loc)"
  "hs_ok sid hs \<Longrightarrow> out_ok sid (json_answer hs n body)" "hs_ok sid hs \<Longrightarrow> out_ok sid (json_reply lib hs n j)"
  "hs_ok sid hs \<Longrightarrow> out_ok sid (proxy_error hs rest msg n)"
  by (simp_all add: http_error_def http_error_header_def redirect_def json_answer_def json_reply_def proxy_error_def confined
      split: prod.split)

lemma ok_if [confined]:
  "out_ok sid (if b then x else y) \<longleftrightarrow> (b \<longrightarrow> out_ok sid x) \<and> (\<not> b \<longrightarrow> out_ok sid y)"
  "out_ok sid (fst (if b then p else q)) \<longleftrightarrow> (b \<longrightarrow> out_ok sid (fst p)) \<and> (\<not> b \<longrightarrow> out_ok sid (fst q))"
  "hs_ok sid (if b then hs else hs') \<longleftrightarrow> (b \<longrightarrow> hs_ok sid hs) \<and> (\<not> b \<longrightarrow> hs_ok sid hs')"
  by simp_all

section \<open>The handler\<close>

definition plain_session :: "'w console_env \<Rightarrow> string \<Rightarrow> bool" where
  "plain_session env sid = (plain_jars env \<and> CHR '';'' \<notin> set sid)"

lemma plain_sessionD:
  "plain_session env sid \<Longrightarrow> hs_ok sid (syncUpstreamCookiesToBrowser (ce_Lib env) target sid w)"
  "plain_session env sid \<Longrightarrow> hs_ok sid (concat (map (response_header lib toNG target sid tok) hs))"
  by (simp_all add: plain_session_def hs_ok_sync hs_ok_response)

lemma stub_ok [confined]:
  "plain_session env sid \<Longrightarrow> hs_ok sid hs \<Longrightarrow> out_ok sid (fortigateWriteBuildStub (ce_Lib env) hs st sid target w)"
  by (simp add: fortigateWriteBuildStub_def confined plain_sessionD)

lemma portal_login_ok [confined]:
  "plain_session env sid \<Longrightarrow> out_ok sid (fst (handleFortiPortalLogin (ce_Lib env) r sid creds target stw))"
  by (simp add: handleFortiPortalLogin_def confined plain_sessionD Let_def split: prod.split sum.split split del: if_split)

lemma jar_api_ok:
  "plain_session env sid \<Longrightarrow> hs_ok sid hs \<Longrightarrow>
   fortigateWriteJarAPIResponse (ce_Lib env) hs meth h body target sid rest q st w = (out, w') \<Longrightarrow> out_ok sid out"
  by (auto simp: fortigateWriteJarAPIResponse_def confined plain_sessionD Let_def split: prod.splits split del: if_split)

lemma jar_document_ok:
  "plain_session env sid \<Longrightarrow> hs_ok sid hs \<Longrightarrow>
   fortigateWriteJarDocument env hs target sid rest q creds tok w = (Some out, w') \<Longrightarrow> out_ok sid out"
  by (auto simp: fortigateWriteJarDocument_def confined plain_sessionD Let_def split: prod.splits if_splits)

lemma websocket_ok [confined]: "out_ok sid (proxyWebSocketUpstream env r target rest q w)"
  by (simp add: proxyWebSocketUpstream_def confined split: option.split)

lemma login_ok:
  "plain_session env sid \<Longrightarrow> login_and_sync (ce_Lib env) sid creds target stw = (ok, hs, stw') \<Longrightarrow> hs_ok sid hs"
  by (auto simp: login_and_sync_def confined plain_sessionD split: prod.splits)

lemma login_before_ok:
  "plain_session env sid \<Longrightarrow> login_before (ce_Lib env) sid rest creds target stw = (hs, stw') \<Longrightarrow> hs_ok sid hs"
  by (cases "login_and_sync (ce_Lib env) sid creds target ((fst stw)\<lparr>cs_fortiLoginDone := False\<rparr>, snd stw)")
    (auto simp: login_before_def confined Let_def dest: login_ok split: prod.splits if_splits)

lemma retry_ok:
  "plain_session env sid \<Longrightarrow> retry_unauthorized (ce_Lib env) r sid rest eff creds target a stw = (res, hs, stw') \<Longrightarrow>
   hs_ok sid hs"
  by (auto simp: retry_unauthorized_def confined Let_def dest: login_ok split: prod.splits if_splits bool.splits)

lemma body_ok [confined]: "hs_ok sid hs \<Longrightarrow> out_ok sid (response_body env hs sid rest tok creds target a)"
  by (simp add: response_body_def confined Let_def split: sum.split split del: if_split)

lemma reply_ok [confined]:
  "plain_session env sid \<Longrightarrow> hs_ok sid hs \<Longrightarrow> out_ok sid (fst (console_reply env hs r sid rest creds target a stw))"
  by (simp add: console_reply_def confined plain_sessionD Let_def split: prod.split option.split split del: if_split)

lemma fetch_ok [confined]:
  "plain_session env sid \<Longrightarrow> hs_ok sid hs \<Longrightarrow>
   out_ok sid (fst (console_fetch env hs r sid rest eff creds target authed stw))"
  by (auto simp: console_fetch_def confined dest: retry_ok [rotated] split: prod.split sum.split)

lemma if_None: "(if b then p else (None, w)) = (Some out, w') \<Longrightarrow> p = (Some out, w')"
  by (simp split: if_splits)

lemma forward_ok [confined]:
  "plain_session env sid \<Longrightarrow> out_ok sid (fst (console_forward env r sid rest creds target stw))"
proof -
  assume sid: "plain_session env sid"
  obtain hs st w where before: "login_before (ce_Lib env) sid rest creds target stw = (hs, st, w)" by (metis prod_cases3)
  note hs = login_before_ok [OF sid before]
  note document = jar_document_ok [OF sid hs] jar_api_ok [OF sid hs]
  show ?thesis
    unfolding console_forward_def before Let_def
    by (auto simp: confined sid hs dest: document split: prod.split option.split split del: if_split dest!: if_None)
qed

lemma serve_ok: "plain_session env sid \<Longrightarrow> out_ok sid (fst (console_serve env r sid rest creds target stw))"
  by (simp add: console_serve_def confined Let_def split: prod.split split del: if_split)

lemma out_ok_pair: "out_ok sid (fst p) \<Longrightarrow> p = (out, q) \<Longrightarrow> out_ok sid out"
  by simp


section \<open>A session\<close>

text \<open>A printer that sets a cookie for its whole host and forbids frames.\<close>

definition printer_answer :: up_answer where
  "printer_answer =
     \<lparr>ua_Status = 200,
      ua_Header = [(''Set-Cookie'', [''id=5; Path=/; Secure'']), (''X-Frame-Options'', [''DENY'']), (''Content-Type'', [''text/plain''])],
      ua_Body = ''ok''\<rparr>"

definition printer_lib :: "unit console_lib" where
  "printer_lib =
     \<lparr>kb_Parse = (\<lambda>_. Some (\<lparr>wu_Scheme = ''http'', wu_Host = ''10.0.0.9'', wu_Path = []\<rparr>, [])), kb_PathQuery = (\<lambda>_. None),
      kb_RequestURI = (\<lambda>_. None), kb_Jar = (\<lambda>_ _. []), kb_SetCookies = (\<lambda>_ _ w. w), kb_Cookies = (\<lambda>_. []),
      kb_Do = (\<lambda>_ w. (Inr printer_answer, w)), kb_Gunzip = Inr, kb_Json = (\<lambda>_. None),
      kb_Decode = (\<lambda>_. Some (JObj [(''target_url'', JStr ''http://10.0.0.9''), (''target_kind'', JStr ''linux'')])),
      kb_RawValue = (\<lambda>_. None), kb_Marshal = (\<lambda>_. []), kb_Sprint = (\<lambda>_. [])\<rparr>"

definition printer_env :: "unit console_env" where
  "printer_env =
     \<lparr>ce_Lib = printer_lib, ce_New = (), ce_Vault = (\<lambda>_ _ _. Inr \<lparr>rp_Status = 200, rp_Raw = []\<rparr>),
      ce_Auth = (\<lambda>_ _ _. Inl ErrNoRows), ce_Dial = (\<lambda>_ _. False), ce_Script = (\<lambda>_ _ _. []), ce_Tail = [],
      ce_Valid = (\<lambda>_. False)\<rparr>"

definition printer_call :: console_call where
  "printer_call =
     \<lparr>cl_Method = ''GET'', cl_Path = ''/web/s7/status'', cl_Query = [], cl_Header = no_headers, cl_Cookie = (\<lambda>_. None),
      cl_Body = []\<rparr>"

lemma printer_answered:
  "fst (webConsoleProxy printer_env printer_call (\<lambda>_. None)) =
   Reply \<lparr>cn_Status = 200, cn_Header = [(''Set-Cookie'', ''id=5; Path=/web/s7/''), (''Content-Type'', ''text/plain'')],
     cn_Body = ''ok''\<rparr>"
  by code_simp


section \<open>Where the handler fails\<close>

text \<open>A machine that cannot be reached behind the paths of the jar: the status 0 makes the handler panic.\<close>

lemma unreachable_api_aborts:
  assumes "\<And>rq w. \<exists>e w'. kb_Do lib rq w = (Inl e, w')" "\<not> isFortiAuthSessionPath rest"
  shows "fst (fortigateWriteJarAPIResponse lib hs meth h body target sid rest q st w) = Aborted"
proof -
  have "\<exists>w'. fortigateCallAPIViaJar lib target meth rest q body ct w = (([], 0), w')" for meth body ct
  proof -
    let ?rq = "jar_request lib target meth rest q
      (if body \<noteq> [] \<and> ct \<noteq> [] then no_headers(''Content-Type'' := ct) else no_headers) body w"
    obtain e w' where "kb_Do lib ?rq w = (Inl e, w')" using assms(1) by blast
    then show ?thesis by (simp add: fortigateCallAPIViaJar_def Let_def del: if_split)
  qed
  then have "\<exists>call. (if meth \<in> {''POST'', ''PUT'', ''PATCH''}
      then fortigateCallAPIViaJar lib target meth rest q body
        (if h ''Content-Type'' = [] then ''application/json'' else h ''Content-Type'') w
      else fortigateFetchAPIViaJar lib target rest q w) = (([], 0), call)"
    by (simp add: fortigateFetchAPIViaJar_def)
  then obtain w' where call: "(if meth \<in> {''POST'', ''PUT'', ''PATCH''}
      then fortigateCallAPIViaJar lib target meth rest q body
        (if h ''Content-Type'' = [] then ''application/json'' else h ''Content-Type'') w
      else fortigateFetchAPIViaJar lib target rest q w) = (([], 0), w')" ..
  show ?thesis unfolding fortigateWriteJarAPIResponse_def Let_def call
    using assms(2) by simp
qed

text \<open>The request that is repeated after the login has lost its body.\<close>

lemma repeated_body_fails:
  "cl_Body r \<noteq> [] \<Longrightarrow> \<exists>e w'. forward_again lib r target rest sid creds preferJar w = (Inl e, w')"
  by (simp add: forward_again_def Let_def)

text \<open>The empty answer for a script promises the length of the page that the machine sent.\<close>

lemma empty_stub_length:
  "response_body printer_env [(''Content-Length'', ''14'')] ''s7'' ''/a.js'' [] fw_creds fw_url
     \<lparr>ua_Status = 200, ua_Header = [(''Content-Type'', [''text/html''])], ua_Body = ''<html></html>''\<rparr> =
   Reply \<lparr>cn_Status = 404,
     cn_Header = [(''Content-Length'', ''14''), (''Content-Type'', ''application/javascript; charset=utf-8''), no_store],
     cn_Body = []\<rparr>"
  by code_simp

text \<open>A build manifest that was decompressed keeps the header that says it is compressed.\<close>

lemma manifest_keeps_encoding: "manifest_answer lib a = Some b \<Longrightarrow> ua_Header b = ua_Header a"
  by (auto simp: manifest_answer_def Let_def split: if_splits sum.splits)

end
